(* ===== verification/Prelude.thy ===== *)
theory Prelude
  imports Main "HOL-Library.AList" "HOL-Library.Word"
begin

section \<open>Shared vocabulary of the development\<close>

text \<open>
  Types, collections of facts and generic lemmas that every component theory uses.

  \<^item> A Go \<open>string\<close> and a Go \<open>[]byte\<close> are both sequences of bytes; both are \<open>string\<close> here
    (a list of 8-bit characters).
  \<^item> A \<open>time.Time\<close> is an \<open>int\<close>: nanoseconds since Go's zero time (1 January of year 1, UTC), so
    that \<open>IsZero\<close> is \<open>t = 0\<close>, \<open>Before\<close> is \<open><\<close> and \<open>After\<close> is \<open>>\<close>.
  \<^item> A Go \<open>map\<close> is an association list read with \<open>map_of\<close> and written with \<open>AList.update\<close> and
    \<open>AList.delete\<close>. The order of the list is the order in which a \<open>range\<close> loop visits the entries;
    theorems never assume a particular one.
  \<^item> An \<open>error\<close> result is the left side of a sum.
\<close>

type_synonym bytes = string
type_synonym time = int
type_synonym duration = int
type_synonym ('k, 'v) gomap = "('k \<times> 'v) list"

text \<open>The facts that unfold the helper functions of one component, and the preservation facts of
  the store operations.\<close>

named_theorems go_defs \<open>definitions of small helpers, unfolded on sight\<close>
named_theorems mem_defs \<open>definitions of the operations of the in-memory store\<close>
named_theorems wf_intros \<open>every store operation keeps the store well formed\<close>
named_theorems frame_simps \<open>what a store operation leaves unchanged\<close>

subsection \<open>Decimal numbers (\<open>%d\<close>)\<close>

definition dec_digit :: "nat \<Rightarrow> char" where
  "dec_digit n = ''0123456789'' ! n"

function dec_nat :: "nat \<Rightarrow> string" where
  "dec_nat n = (if n < 10 then [dec_digit n] else dec_nat (n div 10) @ [dec_digit (n mod 10)])"
  by pat_completeness auto
termination
  by (relation "measure id") auto

declare dec_nat.simps [simp del]

definition dec_int :: "int \<Rightarrow> string" where
  "dec_int i = (if i < 0 then CHR ''-'' # dec_nat (nat (- i)) else dec_nat (nat i))"

subsection \<open>Errors\<close>

text \<open>The sentinel errors the code compares with \<open>errors.Is\<close>, the error of a missing file
  (\<open>os.ErrNotExist\<close>), the client's \<open>apiError\<close> with the status of the answer, an error wrapped with
  \<open>%w\<close> behind a text, and every other error by its text.\<close>

datatype error =
    ErrNotFound
  | ErrInvalidToken
  | errTooLarge
  | errUploadOffset
  | errUploadTooBig
  | errNoUpload
  | ErrNotYetIssued
  | ErrNotExist string
  | ApiError int string
  | Wrap string error
  | Errorf string

fun Error :: "error \<Rightarrow> string" where
  "Error ErrNotFound = ''store: not found''"
| "Error ErrInvalidToken = ''auth: invalid or expired token''"
| "Error errTooLarge = ''payload too large''"
| "Error errUploadOffset = ''offset mismatch''"
| "Error errUploadTooBig = ''upload exceeds the limit''"
| "Error errNoUpload = ''upload session not found''"
| "Error ErrNotYetIssued = ''certificate not issued yet''"
| "Error (ErrNotExist m) = m"
| "Error (ApiError status m) = ''server '' @ dec_int status @ '': '' @ m"
| "Error (Wrap m e) = m @ '': '' @ Error e"
| "Error (Errorf m) = m"

type_synonym 'a result = "error + 'a"

subsection \<open>Time\<close>

definition second :: duration where "second = 1000000000"
definition minute :: duration where "minute = 60 * second"
definition hour :: duration where "hour = 60 * minute"
definition zero_time :: time where "zero_time = 0"

definition IsZero :: "time \<Rightarrow> bool" where
  "IsZero t \<longleftrightarrow> t = zero_time"

text \<open>\<open>Time.Unix\<close>: whole seconds since 1970, which is 62135596800 seconds after the zero time.\<close>

definition Unix :: "time \<Rightarrow> int" where
  "Unix t = t div second - 62135596800"

lemma Unix_mono: "t \<le> u \<Longrightarrow> Unix t \<le> Unix u"
  by (simp add: Unix_def second_def zdiv_mono1)

lemmas time_defs = second_def minute_def hour_def zero_time_def IsZero_def

subsection \<open>Go maps as association lists\<close>

abbreviation vals :: "('k, 'v) gomap \<Rightarrow> 'v list" where
  "vals m \<equiv> map snd m"

abbreviation keys_distinct :: "('k, 'v) gomap \<Rightarrow> bool" where
  "keys_distinct m \<equiv> distinct (map fst m)"

declare AList.update_conv' [simp] AList.delete_conv' [simp]

lemma keys_distinct_update [simp]: "keys_distinct m \<Longrightarrow> keys_distinct (AList.update k v m)"
  by (rule AList.distinct_update)

lemma keys_distinct_delete [simp]: "keys_distinct m \<Longrightarrow> keys_distinct (AList.delete k m)"
  by (rule AList.distinct_delete)

lemma vals_iff: "keys_distinct m \<Longrightarrow> x \<in> set (vals m) \<longleftrightarrow> (\<exists>k. map_of m k = Some x)"
  by (force simp: image_iff)

lemma in_vals_iff_ran: "keys_distinct m \<Longrightarrow> set (vals m) = ran (map_of m)"
  by (auto simp: ran_distinct)

declare map_of_eq_Some_iff [simp del] Some_eq_map_of_iff [simp del]

lemma list_all_lookup:
  assumes "keys_distinct m"
  shows "list_all (\<lambda>(k, v). P k v) m \<longleftrightarrow> (\<forall>k v. map_of m k = Some v \<longrightarrow> P k v)"
  using assms by (auto simp: list_all_iff dest: map_of_SomeD)

lemma map_of_vals: "map_of m k = Some x \<Longrightarrow> x \<in> set (vals m)"
  by (force dest: map_of_SomeD)

lemma vals_update_cases:
  "x \<in> set (vals (AList.update k v m)) \<Longrightarrow> x = v \<or> x \<in> set (vals m)"
  by (induction m) (auto split: if_splits)

lemma vals_delete_subset: "set (vals (AList.delete k m)) \<subseteq> set (vals m)"
  by (auto simp: AList.delete_eq)

lemma update_fresh: "map_of m k = None \<Longrightarrow> AList.update k v m = m @ [(k, v)]"
  by (induction m) (auto split: if_splits)

lemma vals_update_fresh: "map_of m k = None \<Longrightarrow> vals (AList.update k v m) = vals m @ [v]"
  by (simp add: update_fresh)

subsection \<open>Folds that pick the latest entry\<close>

text \<open>
  The loops \<open>for _, x := range m { if p(x) && (!found || x.T.After(latest.T)) { latest, found = x, true } }\<close>
  of the store, over the values in the order the loop visits them.
\<close>

fun latest :: "('a \<Rightarrow> bool) \<Rightarrow> ('a \<Rightarrow> time) \<Rightarrow> 'a option \<Rightarrow> 'a list \<Rightarrow> 'a option" where
  "latest p f acc [] = acc"
| "latest p f acc (x # xs) =
     latest p f (if p x \<and> (case acc of None \<Rightarrow> True | Some y \<Rightarrow> f y < f x) then Some x else acc) xs"

lemma latest_None_iff: "latest p f acc xs = None \<longleftrightarrow> acc = None \<and> (\<forall>x \<in> set xs. \<not> p x)"
  by (induction xs arbitrary: acc) (auto split: option.splits)

lemma latest_SomeD:
  "latest p f acc xs = Some x \<Longrightarrow>
     (acc = Some x \<or> x \<in> set xs \<and> p x) \<and> (\<forall>y \<in> set xs. p y \<longrightarrow> f y \<le> f x) \<and>
     (\<forall>y. acc = Some y \<longrightarrow> f y \<le> f x)"
proof (induction xs arbitrary: acc)
  case Nil
  then show ?case by simp
next
  case (Cons z zs)
  define acc' where
    "acc' = (if p z \<and> (case acc of None \<Rightarrow> True | Some y \<Rightarrow> f y < f z) then Some z else acc)"
  from Cons.prems have "latest p f acc' zs = Some x" by (simp add: acc'_def)
  from Cons.IH [OF this] show ?case
    by (auto simp: acc'_def split: if_splits option.splits)
qed

lemma latest_SomeE:
  assumes "latest p f None xs = Some x"
  shows "x \<in> set xs" and "p x" and "\<And>y. y \<in> set xs \<Longrightarrow> p y \<Longrightarrow> f y \<le> f x"
  using latest_SomeD [OF assms] by auto

text \<open>\<open>sort.Slice\<close> with \<open>Before\<close> on a time field. Go's sort is not stable; entries with equal
  times keep the order of the list here, and no theorem depends on it.\<close>

abbreviation sort_by_time :: "('a \<Rightarrow> time) \<Rightarrow> 'a list \<Rightarrow> 'a list" where
  "sort_by_time f xs \<equiv> sort_key f xs"

end
