(* ===== verification/GoLib.thy ===== *)
theory GoLib
  imports Prelude
begin

section \<open>The parts of Go's standard library the sources use on strings and numbers\<close>

text \<open>
  \<open>strings\<close>, \<open>unicode/utf8\<close>, \<open>encoding/hex\<close>, \<open>encoding/base64\<close>, \<open>strconv\<close>, \<open>path\<close> and the
  numeric verbs of \<open>fmt\<close>, on byte strings. Go's string functions that look at runes
  (\<open>TrimSpace\<close>, \<open>Map\<close>) decode UTF-8; the decoder is \<open>runes\<close>.
\<close>

subsection \<open>Prefixes, suffixes, substrings\<close>

definition HasPrefix :: "string \<Rightarrow> string \<Rightarrow> bool" where
  "HasPrefix s p \<longleftrightarrow> take (length p) s = p"

definition HasSuffix :: "string \<Rightarrow> string \<Rightarrow> bool" where
  "HasSuffix s p \<longleftrightarrow> length p \<le> length s \<and> drop (length s - length p) s = p"

definition TrimPrefix :: "string \<Rightarrow> string \<Rightarrow> string" where
  "TrimPrefix s p = (if HasPrefix s p then drop (length p) s else s)"

definition TrimSuffix :: "string \<Rightarrow> string \<Rightarrow> string" where
  "TrimSuffix s p = (if HasSuffix s p then take (length s - length p) s else s)"

fun Contains :: "string \<Rightarrow> string \<Rightarrow> bool" where
  "Contains [] sub \<longleftrightarrow> sub = []"
| "Contains (c # s) sub \<longleftrightarrow> HasPrefix (c # s) sub \<or> Contains s sub"

text \<open>\<open>strings.TrimRight(s, "/")\<close>, for a cut set of one ASCII character.\<close>

definition TrimRight :: "string \<Rightarrow> char \<Rightarrow> string" where
  "TrimRight s c = rev (dropWhile (\<lambda>x. x = c) (rev s))"

fun Split :: "string \<Rightarrow> char \<Rightarrow> string list" where
  "Split [] c = [[]]"
| "Split (x # xs) c =
     (if x = c then [] # Split xs c
      else case Split xs c of [] \<Rightarrow> [[x]] | y # ys \<Rightarrow> (x # y) # ys)"

text \<open>\<open>strings.Cut\<close> at the first occurrence of one character; the part before it.\<close>

definition Cut_before :: "string \<Rightarrow> char \<Rightarrow> string" where
  "Cut_before s c = takeWhile (\<lambda>x. x \<noteq> c) s"

lemma HasPrefix_append [simp]: "HasPrefix (p @ s) p"
  by (simp add: HasPrefix_def)

lemma HasPrefix_iff: "HasPrefix s p \<longleftrightarrow> (\<exists>t. s = p @ t)"
  by (metis HasPrefix_def HasPrefix_append append_take_drop_id)

lemma TrimPrefix_append [simp]: "TrimPrefix (p @ s) p = s"
  by (simp add: TrimPrefix_def)

lemma Contains_iff: "Contains s sub \<longleftrightarrow> (\<exists>a b. s = a @ sub @ b)"
proof (induction s)
  case Nil
  then show ?case by simp
next
  case (Cons c s)
  have "(\<exists>a b. c # s = a @ sub @ b) \<longleftrightarrow>
        (\<exists>b. c # s = sub @ b) \<or> (\<exists>a b. s = a @ sub @ b)"
    by (metis append_Cons append_Nil list.exhaust list.inject)
  with Cons.IH show ?case by (simp add: HasPrefix_iff)
qed

lemma Split_nonempty [simp]: "Split s c \<noteq> []"
  by (induction s) (auto split: list.splits)

lemma Split_no_sep: "c \<notin> set s \<Longrightarrow> Split s c = [s]"
  by (induction s) auto

lemma Split_append_sep: "c \<notin> set a \<Longrightarrow> Split (a @ c # b) c = a # Split b c"
  by (induction a) auto

lemma TrimRight_no_trailing: "TrimRight s c = [] \<or> last (TrimRight s c) \<noteq> c"
proof (cases "TrimRight s c = []")
  case False
  then have "dropWhile (\<lambda>x. x = c) (rev s) \<noteq> []" by (simp add: TrimRight_def)
  then have "hd (dropWhile (\<lambda>x. x = c) (rev s)) \<noteq> c"
    using hd_dropWhile [of "\<lambda>x. x = c" "rev s"] by simp
  with False show ?thesis by (simp add: TrimRight_def last_rev)
qed simp

subsection \<open>UTF-8\<close>

definition byte_in :: "char \<Rightarrow> nat \<Rightarrow> nat \<Rightarrow> bool" where
  "byte_in c lo hi \<longleftrightarrow> lo \<le> (of_char c :: nat) \<and> (of_char c :: nat) \<le> hi"

definition cont :: "string \<Rightarrow> nat \<Rightarrow> nat \<Rightarrow> nat \<Rightarrow> bool" where
  "cont s i lo hi \<longleftrightarrow> i < length s \<and> byte_in (s ! i) lo hi"

text \<open>The number of bytes \<open>utf8.DecodeRuneInString\<close> consumes: the length of a well-formed sequence
  (shortest form, no surrogates, at most U+10FFFF), and 1 for a malformed one.\<close>

definition rune_len :: "string \<Rightarrow> nat" where
  "rune_len s =
     (if byte_in (s ! 0) 0xC2 0xDF \<and> cont s 1 0x80 0xBF then 2
      else if (byte_in (s ! 0) 0xE0 0xE0 \<and> cont s 1 0xA0 0xBF
               \<or> (byte_in (s ! 0) 0xE1 0xEC \<or> byte_in (s ! 0) 0xEE 0xEF) \<and> cont s 1 0x80 0xBF
               \<or> byte_in (s ! 0) 0xED 0xED \<and> cont s 1 0x80 0x9F) \<and> cont s 2 0x80 0xBF then 3
      else if (byte_in (s ! 0) 0xF0 0xF0 \<and> cont s 1 0x90 0xBF
               \<or> byte_in (s ! 0) 0xF1 0xF3 \<and> cont s 1 0x80 0xBF
               \<or> byte_in (s ! 0) 0xF4 0xF4 \<and> cont s 1 0x80 0x8F)
              \<and> cont s 2 0x80 0xBF \<and> cont s 3 0x80 0xBF then 4
      else 1)"

lemma rune_len_pos [simp]: "0 < rune_len s" "rune_len s \<noteq> 0"
  by (simp_all add: rune_len_def)

text \<open>A string as the byte sequences of its runes, in the order \<open>for range\<close> visits them.\<close>

function runes :: "string \<Rightarrow> string list" where
  "runes s = (if s = [] then [] else take (rune_len s) s # runes (drop (rune_len s) s))"
  by pat_completeness auto
termination
  by (relation "measure length") auto

declare runes.simps [simp del]

lemma runes_Nil [simp]: "runes [] = []"
  by (simp add: runes.simps)

lemma concat_runes [simp]: "concat (runes s) = s"
proof (induction s rule: runes.induct)
  case (1 s)
  then show ?case by (subst runes.simps) (auto split: if_splits)
qed

lemma runes_nonempty: "r \<in> set (runes s) \<Longrightarrow> r \<noteq> []"
proof (induction s rule: runes.induct)
  case (1 s)
  then show ?case by (subst (asm) (2) runes.simps) (auto split: if_splits)
qed

lemma runes_eq_Nil_iff [simp]: "runes s = [] \<longleftrightarrow> s = []"
  by (subst runes.simps) simp

text \<open>\<open>unicode.IsSpace\<close> on one decoded rune, given as its bytes.\<close>

definition is_space_rune :: "string \<Rightarrow> bool" where
  "is_space_rune r \<longleftrightarrow>
     (let n = map of_char r :: nat list in
      n \<in> {[9], [10], [11], [12], [13], [32], [0xC2, 0x85], [0xC2, 0xA0], [0xE1, 0x9A, 0x80],
           [0xE2, 0x80, 0xA8], [0xE2, 0x80, 0xA9], [0xE2, 0x80, 0xAF], [0xE2, 0x81, 0x9F],
           [0xE3, 0x80, 0x80]}
      \<or> length n = 3 \<and> n ! 0 = 0xE2 \<and> n ! 1 = 0x80 \<and> 0x80 \<le> n ! 2 \<and> n ! 2 \<le> 0x8A)"

definition TrimSpace :: "string \<Rightarrow> string" where
  "TrimSpace s = concat (rev (dropWhile is_space_rune (rev (dropWhile is_space_rune (runes s)))))"

lemma TrimSpace_Nil [simp]: "TrimSpace [] = []"
  by (simp add: TrimSpace_def)

lemma TrimSpace_sublist: "\<exists>a b. s = a @ TrimSpace s @ b"
proof -
  define u where "u = dropWhile is_space_rune (runes s)"
  define v where "v = rev (dropWhile is_space_rune (rev u))"
  have "runes s = takeWhile is_space_rune (runes s) @ u" by (simp add: u_def)
  moreover have "u = v @ rev (takeWhile is_space_rune (rev u))"
    by (metis rev_append rev_rev_ident takeWhile_dropWhile_id v_def)
  ultimately have "concat (runes s) =
      concat (takeWhile is_space_rune (runes s)) @ concat v
        @ concat (rev (takeWhile is_space_rune (rev u)))"
    by (metis concat_append)
  then show ?thesis by (metis TrimSpace_def concat_runes u_def v_def)
qed

subsection \<open>Hexadecimal and decimal\<close>

definition hex_digit :: "nat \<Rightarrow> char" where
  "hex_digit n = ''0123456789abcdef'' ! n"

definition hex_byte :: "char \<Rightarrow> string" where
  "hex_byte c = (let n = of_char c in [hex_digit (n div 16), hex_digit (n mod 16)])"

text \<open>\<open>hex.EncodeToString\<close> and \<open>%x\<close> on a byte slice.\<close>

definition hex_encode :: "bytes \<Rightarrow> string" where
  "hex_encode b = concat (map hex_byte b)"

text \<open>\<open>%x\<close> on a \<open>*big.Int\<close>: no leading zeros, a minus sign for negative numbers.\<close>

function hex_nat :: "nat \<Rightarrow> string" where
  "hex_nat n = (if n < 16 then [hex_digit n] else hex_nat (n div 16) @ [hex_digit (n mod 16)])"
  by pat_completeness auto
termination
  by (relation "measure id") auto

declare hex_nat.simps [simp del]

definition hex_int :: "int \<Rightarrow> string" where
  "hex_int i = (if i < 0 then CHR ''-'' # hex_nat (nat (- i)) else hex_nat (nat i))"

text \<open>\<open>%02d\<close>.\<close>

definition dec02 :: "int \<Rightarrow> string" where
  "dec02 i = (let s = dec_int i in if length s < 2 then CHR ''0'' # s else s)"

lemma list_all_lt16: "n < 16 \<Longrightarrow> list_all P [0, 1, 2, 3, 4, 5, 6, 7, 8, 9, 10, 11, 12, 13, 14, 15] \<Longrightarrow> P (n::nat)"
proof -
  assume "n < 16" and P: "list_all P [0, 1, 2, 3, 4, 5, 6, 7, 8, 9, 10, 11, 12, 13, 14, 15]"
  then have "n \<in> set [0, 1, 2, 3, 4, 5, 6, 7, 8, 9, 10, 11, 12, 13, 14, 15]"
    by simp presburger
  with P show "P n" by (simp only: list_all_iff)
qed

definition lower_hex :: "char \<Rightarrow> bool" where
  "lower_hex c \<longleftrightarrow> c \<in> set ''0123456789abcdef''"

lemma hex_digit_lower: "n < 16 \<Longrightarrow> lower_hex (hex_digit n)"
  by (erule list_all_lt16) (simp add: lower_hex_def hex_digit_def)

lemma hex_digit_inj: "m < 16 \<Longrightarrow> n < 16 \<Longrightarrow> hex_digit m = hex_digit n \<Longrightarrow> m = n"
proof -
  have d: "distinct ''0123456789abcdef''" by simp
  assume "m < 16" "n < 16" "hex_digit m = hex_digit n"
  with nth_eq_iff_index_eq [OF d, of m n] show "m = n" by (simp add: hex_digit_def)
qed

lemma of_char_lt_256: "(of_char c :: nat) < 256"
  using nat_of_char_less_256 [of c] by simp

lemma hex_byte_inj: "hex_byte a = hex_byte b \<Longrightarrow> a = b"
proof -
  assume "hex_byte a = hex_byte b"
  then have "hex_digit ((of_char a :: nat) div 16) = hex_digit (of_char b div 16)"
    and "hex_digit ((of_char a :: nat) mod 16) = hex_digit (of_char b mod 16)"
    by (simp_all add: hex_byte_def Let_def)
  moreover have "(of_char a :: nat) div 16 < 16" "(of_char b :: nat) div 16 < 16"
    using of_char_lt_256 [of a] of_char_lt_256 [of b] by linarith+
  ultimately have "(of_char a :: nat) div 16 = of_char b div 16"
    and "(of_char a :: nat) mod 16 = of_char b mod 16"
    using hex_digit_inj by (simp_all add: hex_digit_inj)
  then have "(of_char a :: nat) = of_char b" by (metis div_mult_mod_eq)
  then show "a = b" by simp
qed

lemma hex_encode_Nil [simp]: "hex_encode [] = []"
  by (simp add: hex_encode_def)

lemma length_hex_encode [simp]: "length (hex_encode b) = 2 * length b"
  by (induction b) (simp_all add: hex_encode_def hex_byte_def Let_def)

lemma hex_encode_inj: "hex_encode a = hex_encode b \<Longrightarrow> a = b"
proof (induction a arbitrary: b)
  case Nil
  then have "length (hex_encode b) = 0" by (metis hex_encode_Nil list.size(3))
  then show ?case by simp
next
  case (Cons x a)
  then have "length (hex_encode b) = 2 * length (x # a)" by (metis length_hex_encode)
  then obtain y b' where b: "b = y # b'" by (cases b) auto
  with Cons.prems have "hex_byte x = hex_byte y" and "hex_encode a = hex_encode b'"
    by (simp_all add: hex_encode_def hex_byte_def Let_def)
  with b Cons.IH show ?case by (auto dest: hex_byte_inj)
qed

lemma hex_encode_lower: "c \<in> set (hex_encode b) \<Longrightarrow> lower_hex c"
proof -
  assume "c \<in> set (hex_encode b)"
  then obtain x where "c = hex_digit (of_char x div 16) \<or> c = hex_digit (of_char x mod 16)"
    by (auto simp: hex_encode_def hex_byte_def Let_def)
  moreover have "(of_char x :: nat) div 16 < 16" using of_char_lt_256 [of x] by linarith
  ultimately show ?thesis by (auto intro: hex_digit_lower)
qed

lemma dec_digit_no_slash: "n < 10 \<Longrightarrow> dec_digit n \<noteq> CHR ''/''"
proof -
  assume "n < 10"
  then have "dec_digit n \<in> set ''0123456789''" unfolding dec_digit_def by (intro nth_mem) simp
  then show ?thesis by auto
qed

lemma dec_nat_no_slash: "CHR ''/'' \<notin> set (dec_nat n)"
proof (induction n rule: dec_nat.induct)
  case (1 n)
  have "dec_digit (n mod 10) \<noteq> CHR ''/''" by (rule dec_digit_no_slash) simp
  moreover have "n < 10 \<Longrightarrow> dec_digit n \<noteq> CHR ''/''" by (rule dec_digit_no_slash)
  ultimately show ?case using 1 by (subst dec_nat.simps) auto
qed

lemma dec_int_no_slash: "CHR ''/'' \<notin> set (dec_int i)"
  using dec_nat_no_slash by (simp add: dec_int_def)

lemma dec02_no_slash: "CHR ''/'' \<notin> set (dec02 i)"
  using dec_int_no_slash by (simp add: dec02_def Let_def)

text \<open>\<open>strconv.ParseInt(s, 10, 64)\<close> with its error dropped: 0 on a syntax error, the nearest bound
  on overflow.\<close>

definition is_dec :: "char \<Rightarrow> bool" where
  "is_dec c \<longleftrightarrow> byte_in c 48 57"

definition dec_val :: "string \<Rightarrow> nat" where
  "dec_val s = foldl (\<lambda>a c. 10 * a + (of_char c - 48)) 0 s"

definition ParseInt64 :: "string \<Rightarrow> int" where
  "ParseInt64 s =
     (let neg = (s \<noteq> [] \<and> hd s = CHR ''-'');
          d = (if s \<noteq> [] \<and> (hd s = CHR ''-'' \<or> hd s = CHR ''+'') then tl s else s)
      in if d = [] \<or> \<not> list_all is_dec d then 0
         else if neg then max (- int (dec_val d)) (- (2 ^ 63))
         else min (int (dec_val d)) (2 ^ 63 - 1))"

text \<open>\<open>strconv.Atoi\<close> and \<open>strconv.ParseInt(s, 10, 64)\<close> where the error matters: an error is no value.\<close>

definition Atoi :: "string \<Rightarrow> int option" where
  "Atoi s =
     (let neg = (s \<noteq> [] \<and> hd s = CHR ''-'');
          d = (if s \<noteq> [] \<and> (hd s = CHR ''-'' \<or> hd s = CHR ''+'') then tl s else s);
          n = (if neg then - int (dec_val d) else int (dec_val d))
      in if d = [] \<or> \<not> list_all is_dec d \<or> n < - (2 ^ 63) \<or> 2 ^ 63 \<le> n then None else Some n)"

end
