(* ===== verification/StoreTypes.thy ===== *)
theory StoreTypes
  imports GoLib
begin

section \<open>The persistence types (\<open>server/internal/store/store.go\<close>)\<close>

text \<open>
  The structs of package \<open>store\<close> as records, field by field, and its status strings. The strings
  stay strings: the code compares them, and nothing forces a stored value to be one of them.
  A Go zero value (\<open>Account{}\<close> and so on), which is what the code holds after a failed lookup, is the
  constant with the suffix \<open>_zero\<close>.
\<close>

abbreviation RoleUser :: string where "RoleUser \<equiv> ''user''"
abbreviation RoleAdmin :: string where "RoleAdmin \<equiv> ''admin''"
abbreviation RoleSuperAdmin :: string where "RoleSuperAdmin \<equiv> ''superadmin''"

abbreviation AccountPending :: string where "AccountPending \<equiv> ''pending''"
abbreviation AccountActive :: string where "AccountActive \<equiv> ''active''"
abbreviation AccountDisabled :: string where "AccountDisabled \<equiv> ''disabled''"

abbreviation DeviceActive :: string where "DeviceActive \<equiv> ''active''"
abbreviation DeviceLost :: string where "DeviceLost \<equiv> ''lost''"

abbreviation EnrollmentSubmitted :: string where "EnrollmentSubmitted \<equiv> ''submitted''"
abbreviation EnrollmentApproved :: string where "EnrollmentApproved \<equiv> ''approved''"
abbreviation EnrollmentIssued :: string where "EnrollmentIssued \<equiv> ''issued''"

abbreviation CertActive :: string where "CertActive \<equiv> ''active''"
abbreviation CertRevoked :: string where "CertRevoked \<equiv> ''revoked''"

abbreviation ReservationReserved :: string where "ReservationReserved \<equiv> ''reserved''"
abbreviation ReservationAccepted :: string where "ReservationAccepted \<equiv> ''accepted''"

abbreviation VerificationAccepted :: string where "VerificationAccepted \<equiv> ''accepted''"
abbreviation VerificationStoredOnly :: string where "VerificationStoredOnly \<equiv> ''stored_unverified''"

record account =
  a_ID :: string
  a_Email :: string
  a_DisplayName :: string
  a_FullName :: string
  a_Organization :: string
  a_Position :: string
  a_NIP :: string
  a_PasswordHash :: string
  a_Role :: string
  a_Status :: string
  a_CreatedAt :: time

record device =
  d_ID :: string
  d_AccountID :: string
  d_Label :: string
  d_Platform :: string
  d_Status :: string
  d_CreatedAt :: time

record enrollment =
  e_ID :: string
  e_DeviceID :: string
  e_AccountID :: string
  e_CSRPEM :: bytes
  e_CSRKeyFP :: string
  e_Status :: string
  e_CreatedAt :: time

record certificate =
  c_ID :: string
  c_EnrollmentID :: string
  c_DeviceID :: string
  c_AccountID :: string
  c_Serial :: string
  c_Fingerprint :: string
  c_PEM :: bytes
  c_NotBefore :: time
  c_NotAfter :: time
  c_Status :: string
  c_RevokedAt :: time
  c_RevReason :: string

record reservation =
  r_PublicID :: string
  r_AccountID :: string
  r_DeviceID :: string
  r_OriginalSHA512 :: string
  r_FileName :: string
  r_Status :: string
  r_CreatedAt :: time
  r_ExpiresAt :: time

record signature =
  s_PublicID :: string
  s_AccountID :: string
  s_DeviceID :: string
  s_CertificateID :: string
  s_CertSerial :: string
  s_CertFingerprint :: string
  s_Algorithm :: string
  s_PDFProfile :: string
  s_OriginalSHA512 :: string
  s_SignedSHA512 :: string
  s_ClientClaimedSigningTime :: string
  s_ServerReceivedAt :: time
  s_StorageObjectKey :: string
  s_SignedSize :: int
  s_VerificationStatus :: string
  s_CreatedAt :: time

record audit_event =
  ev_ID :: string
  ev_Time :: time
  ev_Type :: string
  ev_AccountID :: string
  ev_DeviceID :: string
  ev_Result :: string
  ev_Detail :: string

definition account_zero :: account where
  "account_zero = \<lparr>a_ID = [], a_Email = [], a_DisplayName = [], a_FullName = [],
     a_Organization = [], a_Position = [], a_NIP = [], a_PasswordHash = [], a_Role = [],
     a_Status = [], a_CreatedAt = zero_time\<rparr>"

definition device_zero :: device where
  "device_zero = \<lparr>d_ID = [], d_AccountID = [], d_Label = [], d_Platform = [], d_Status = [],
     d_CreatedAt = zero_time\<rparr>"

definition enrollment_zero :: enrollment where
  "enrollment_zero = \<lparr>e_ID = [], e_DeviceID = [], e_AccountID = [], e_CSRPEM = [], e_CSRKeyFP = [],
     e_Status = [], e_CreatedAt = zero_time\<rparr>"

definition certificate_zero :: certificate where
  "certificate_zero = \<lparr>c_ID = [], c_EnrollmentID = [], c_DeviceID = [], c_AccountID = [],
     c_Serial = [], c_Fingerprint = [], c_PEM = [], c_NotBefore = zero_time,
     c_NotAfter = zero_time, c_Status = [], c_RevokedAt = zero_time, c_RevReason = []\<rparr>"

definition reservation_zero :: reservation where
  "reservation_zero = \<lparr>r_PublicID = [], r_AccountID = [], r_DeviceID = [], r_OriginalSHA512 = [],
     r_FileName = [], r_Status = [], r_CreatedAt = zero_time, r_ExpiresAt = zero_time\<rparr>"

definition signature_zero :: signature where
  "signature_zero = \<lparr>s_PublicID = [], s_AccountID = [], s_DeviceID = [], s_CertificateID = [],
     s_CertSerial = [], s_CertFingerprint = [], s_Algorithm = [], s_PDFProfile = [],
     s_OriginalSHA512 = [], s_SignedSHA512 = [], s_ClientClaimedSigningTime = [],
     s_ServerReceivedAt = zero_time, s_StorageObjectKey = [], s_SignedSize = 0,
     s_VerificationStatus = [], s_CreatedAt = zero_time\<rparr>"

definition audit_zero :: audit_event where
  "audit_zero = \<lparr>ev_ID = [], ev_Time = zero_time, ev_Type = [], ev_AccountID = [],
     ev_DeviceID = [], ev_Result = [], ev_Detail = []\<rparr>"

lemmas zero_defs = account_zero_def device_zero_def enrollment_zero_def certificate_zero_def
  reservation_zero_def signature_zero_def audit_zero_def

end
