(* ===== verification/Memory.thy ===== *)
theory Memory
  imports StoreTypes
begin

section \<open>The in-memory store (\<open>server/internal/store/memory.go\<close>)\<close>

text \<open>
  One definition per method of \<open>*Memory\<close>. A method holds the mutex for its whole body, so it is one
  atomic step: a function of the store. What a method draws from the outside, the 12 random bytes of
  \<open>ID\<close> and the instant of \<open>time.Now\<close>, is an argument (\<open>rb\<close> and \<open>t\<close>). A method that writes returns
  its result and the new store; one that only reads returns its result.
\<close>

record memory =
  m_accounts :: "(string, account) gomap"
  m_byEmail :: "(string, string) gomap"
  m_devices :: "(string, device) gomap"
  m_enrollments :: "(string, enrollment) gomap"
  m_certificates :: "(string, certificate) gomap"
  m_reservations :: "(string, reservation) gomap"
  m_signatures :: "(string, signature) gomap"
  m_audit :: "audit_event list"
  m_objects :: "(string, bytes) gomap"

definition NewMemory :: memory where
  "NewMemory = \<lparr>m_accounts = [], m_byEmail = [], m_devices = [], m_enrollments = [],
     m_certificates = [], m_reservations = [], m_signatures = [], m_audit = [], m_objects = []\<rparr>"

definition ID :: "string \<Rightarrow> bytes \<Rightarrow> string" where
  "ID prefix b = prefix @ ''_'' @ hex_encode b"

text \<open>A map lookup with Go's \<open>v, ok := m[k]\<close> followed by \<open>if !ok { return ErrNotFound }\<close>.\<close>

definition lookup :: "(string, 'v) gomap \<Rightarrow> string \<Rightarrow> 'v result" where
  "lookup m k = (case map_of m k of None \<Rightarrow> Inl ErrNotFound | Some v \<Rightarrow> Inr v)"

subsection \<open>Accounts\<close>

definition CreateAccount :: "bytes \<Rightarrow> time \<Rightarrow> account \<Rightarrow> memory \<Rightarrow> account result \<times> memory" where
  "CreateAccount rb t a m =
     (case map_of (m_byEmail m) (a_Email a) of
        Some _ \<Rightarrow> (Inl (Errorf ''store: email already registered''), m)
      | None \<Rightarrow>
          let a = (if a_ID a = [] then a\<lparr>a_ID := ID ''acct'' rb\<rparr> else a);
              a = (if a_Role a = [] then a\<lparr>a_Role := RoleUser\<rparr> else a);
              a = (if a_Status a = [] then a\<lparr>a_Status := AccountActive\<rparr> else a);
              a = a\<lparr>a_CreatedAt := t\<rparr>
          in (Inr a, m\<lparr>m_accounts := AList.update (a_ID a) a (m_accounts m),
                       m_byEmail := AList.update (a_Email a) (a_ID a) (m_byEmail m)\<rparr>))"

definition ListAccounts :: "memory \<Rightarrow> account list" where
  "ListAccounts m = sort_by_time a_CreatedAt (vals (m_accounts m))"

definition SetAccountStatus :: "string \<Rightarrow> string \<Rightarrow> memory \<Rightarrow> error option \<times> memory" where
  "SetAccountStatus i status m =
     (case map_of (m_accounts m) i of
        None \<Rightarrow> (Some ErrNotFound, m)
      | Some a \<Rightarrow> (None, m\<lparr>m_accounts := AList.update i (a\<lparr>a_Status := status\<rparr>) (m_accounts m)\<rparr>))"

definition UpdateAccountProfile :: "string \<Rightarrow> string \<Rightarrow> string \<Rightarrow> memory \<Rightarrow> error option \<times> memory" where
  "UpdateAccountProfile i fullName org m =
     (case map_of (m_accounts m) i of
        None \<Rightarrow> (Some ErrNotFound, m)
      | Some a \<Rightarrow> (None, m\<lparr>m_accounts :=
          AList.update i (a\<lparr>a_FullName := fullName, a_Organization := org\<rparr>) (m_accounts m)\<rparr>))"

definition SetAccountPassword :: "string \<Rightarrow> string \<Rightarrow> memory \<Rightarrow> error option \<times> memory" where
  "SetAccountPassword i passwordHash m =
     (case map_of (m_accounts m) i of
        None \<Rightarrow> (Some ErrNotFound, m)
      | Some a \<Rightarrow> (None, m\<lparr>m_accounts :=
          AList.update i (a\<lparr>a_PasswordHash := passwordHash\<rparr>) (m_accounts m)\<rparr>))"

definition DeleteAccount :: "string \<Rightarrow> memory \<Rightarrow> error option \<times> memory" where
  "DeleteAccount i m =
     (case map_of (m_accounts m) i of
        None \<Rightarrow> (Some ErrNotFound, m)
      | Some a \<Rightarrow> (None, m\<lparr>m_accounts := AList.delete i (m_accounts m),
                            m_byEmail := AList.delete (a_Email a) (m_byEmail m)\<rparr>))"

text \<open>\<open>return m.accounts[id], nil\<close>: the zero account when the index points nowhere.\<close>

definition AccountByEmail :: "string \<Rightarrow> memory \<Rightarrow> account result" where
  "AccountByEmail email m =
     (case map_of (m_byEmail m) email of
        None \<Rightarrow> Inl ErrNotFound
      | Some i \<Rightarrow> Inr (case map_of (m_accounts m) i of None \<Rightarrow> account_zero | Some a \<Rightarrow> a))"

definition Account :: "string \<Rightarrow> memory \<Rightarrow> account result" where
  "Account i m = lookup (m_accounts m) i"

subsection \<open>Devices\<close>

definition CreateDevice :: "bytes \<Rightarrow> time \<Rightarrow> device \<Rightarrow> memory \<Rightarrow> device \<times> memory" where
  "CreateDevice rb t d m =
     (let d = (if d_ID d = [] then d\<lparr>d_ID := ID ''dev'' rb\<rparr> else d);
          d = (if d_Status d = [] then d\<lparr>d_Status := DeviceActive\<rparr> else d);
          d = d\<lparr>d_CreatedAt := t\<rparr>
      in (d, m\<lparr>m_devices := AList.update (d_ID d) d (m_devices m)\<rparr>))"

definition Device :: "string \<Rightarrow> memory \<Rightarrow> device result" where
  "Device i m = lookup (m_devices m) i"

definition SetDeviceStatus :: "string \<Rightarrow> string \<Rightarrow> memory \<Rightarrow> error option \<times> memory" where
  "SetDeviceStatus i status m =
     (case map_of (m_devices m) i of
        None \<Rightarrow> (Some ErrNotFound, m)
      | Some d \<Rightarrow> (None, m\<lparr>m_devices := AList.update i (d\<lparr>d_Status := status\<rparr>) (m_devices m)\<rparr>))"

definition DevicesByAccount :: "string \<Rightarrow> memory \<Rightarrow> device list" where
  "DevicesByAccount accountID m =
     sort_by_time d_CreatedAt (filter (\<lambda>d. d_AccountID d = accountID) (vals (m_devices m)))"

subsection \<open>Enrollments\<close>

definition CreateEnrollment :: "bytes \<Rightarrow> time \<Rightarrow> enrollment \<Rightarrow> memory \<Rightarrow> enrollment \<times> memory" where
  "CreateEnrollment rb t e m =
     (let e = (if e_ID e = [] then e\<lparr>e_ID := ID ''enr'' rb\<rparr> else e);
          e = (if e_Status e = [] then e\<lparr>e_Status := EnrollmentSubmitted\<rparr> else e);
          e = e\<lparr>e_CreatedAt := t\<rparr>
      in (e, m\<lparr>m_enrollments := AList.update (e_ID e) e (m_enrollments m)\<rparr>))"

definition Enrollment :: "string \<Rightarrow> memory \<Rightarrow> enrollment result" where
  "Enrollment i m = lookup (m_enrollments m) i"

definition EnrollmentByDevice :: "string \<Rightarrow> memory \<Rightarrow> enrollment result" where
  "EnrollmentByDevice deviceID m =
     (case latest (\<lambda>e. e_DeviceID e = deviceID) e_CreatedAt None (vals (m_enrollments m)) of
        None \<Rightarrow> Inl ErrNotFound | Some e \<Rightarrow> Inr e)"

definition ListEnrollments :: "memory \<Rightarrow> enrollment list" where
  "ListEnrollments m = sort_by_time e_CreatedAt (vals (m_enrollments m))"

definition SetEnrollmentStatus :: "string \<Rightarrow> string \<Rightarrow> memory \<Rightarrow> error option \<times> memory" where
  "SetEnrollmentStatus i status m =
     (case map_of (m_enrollments m) i of
        None \<Rightarrow> (Some ErrNotFound, m)
      | Some e \<Rightarrow> (None, m\<lparr>m_enrollments :=
          AList.update i (e\<lparr>e_Status := status\<rparr>) (m_enrollments m)\<rparr>))"

subsection \<open>Certificates\<close>

definition CreateCertificate :: "bytes \<Rightarrow> certificate \<Rightarrow> memory \<Rightarrow> certificate \<times> memory" where
  "CreateCertificate rb c m =
     (let c = (if c_ID c = [] then c\<lparr>c_ID := ID ''cert'' rb\<rparr> else c);
          c = (if c_Status c = [] then c\<lparr>c_Status := CertActive\<rparr> else c)
      in (c, m\<lparr>m_certificates := AList.update (c_ID c) c (m_certificates m)\<rparr>))"

definition Certificate :: "string \<Rightarrow> memory \<Rightarrow> certificate result" where
  "Certificate i m = lookup (m_certificates m) i"

definition CertificateByDevice :: "string \<Rightarrow> memory \<Rightarrow> certificate result" where
  "CertificateByDevice deviceID m =
     (case latest (\<lambda>c. c_DeviceID c = deviceID) c_NotBefore None (vals (m_certificates m)) of
        None \<Rightarrow> Inl ErrNotFound | Some c \<Rightarrow> Inr c)"

definition CertificatesByAccount :: "string \<Rightarrow> memory \<Rightarrow> certificate list" where
  "CertificatesByAccount accountID m =
     sort_by_time c_NotBefore (filter (\<lambda>c. c_AccountID c = accountID) (vals (m_certificates m)))"

definition CertificateBySerial :: "string \<Rightarrow> memory \<Rightarrow> certificate result" where
  "CertificateBySerial serial m =
     (case find (\<lambda>c. c_Serial c = serial) (vals (m_certificates m)) of
        None \<Rightarrow> Inl ErrNotFound | Some c \<Rightarrow> Inr c)"

definition RevokeCertificate :: "time \<Rightarrow> string \<Rightarrow> string \<Rightarrow> memory \<Rightarrow> error option \<times> memory" where
  "RevokeCertificate t i reason m =
     (case map_of (m_certificates m) i of
        None \<Rightarrow> (Some ErrNotFound, m)
      | Some c \<Rightarrow> (None, m\<lparr>m_certificates :=
          AList.update i (c\<lparr>c_Status := CertRevoked, c_RevokedAt := t, c_RevReason := reason\<rparr>)
            (m_certificates m)\<rparr>))"

subsection \<open>Reservations and signatures\<close>

definition CreateReservation :: "bytes \<Rightarrow> time \<Rightarrow> reservation \<Rightarrow> memory \<Rightarrow> reservation \<times> memory" where
  "CreateReservation rb t r m =
     (let r = (if r_PublicID r = [] then r\<lparr>r_PublicID := ID ''sig'' rb\<rparr> else r);
          r = (if r_Status r = [] then r\<lparr>r_Status := ReservationReserved\<rparr> else r);
          r = r\<lparr>r_CreatedAt := t\<rparr>
      in (r, m\<lparr>m_reservations := AList.update (r_PublicID r) r (m_reservations m)\<rparr>))"

definition Reservation :: "string \<Rightarrow> memory \<Rightarrow> reservation result" where
  "Reservation publicID m = lookup (m_reservations m) publicID"

definition SetReservationStatus :: "string \<Rightarrow> string \<Rightarrow> memory \<Rightarrow> error option \<times> memory" where
  "SetReservationStatus publicID status m =
     (case map_of (m_reservations m) publicID of
        None \<Rightarrow> (Some ErrNotFound, m)
      | Some r \<Rightarrow> (None, m\<lparr>m_reservations :=
          AList.update publicID (r\<lparr>r_Status := status\<rparr>) (m_reservations m)\<rparr>))"

definition CreateSignature :: "time \<Rightarrow> signature \<Rightarrow> memory \<Rightarrow> signature result \<times> memory" where
  "CreateSignature t s m =
     (case map_of (m_signatures m) (s_PublicID s) of
        Some _ \<Rightarrow> (Inl (Errorf (''store: signature '' @ s_PublicID s @ '' already exists'')), m)
      | None \<Rightarrow>
          let s = s\<lparr>s_CreatedAt := t\<rparr>
          in (Inr s, m\<lparr>m_signatures := AList.update (s_PublicID s) s (m_signatures m)\<rparr>))"

definition Signature :: "string \<Rightarrow> memory \<Rightarrow> signature result" where
  "Signature publicID m = lookup (m_signatures m) publicID"

text \<open>Newest first: \<open>After\<close> instead of \<open>Before\<close>.\<close>

definition SignaturesByAccount :: "string \<Rightarrow> memory \<Rightarrow> signature list" where
  "SignaturesByAccount accountID m =
     sort_by_time (\<lambda>s. - s_CreatedAt s)
       (filter (\<lambda>s. s_AccountID s = accountID) (vals (m_signatures m)))"

subsection \<open>Objects and audit\<close>

definition PutObject :: "string \<Rightarrow> bytes \<Rightarrow> memory \<Rightarrow> error option \<times> memory" where
  "PutObject key data m = (None, m\<lparr>m_objects := AList.update key data (m_objects m)\<rparr>)"

definition GetObject :: "string \<Rightarrow> memory \<Rightarrow> bytes result" where
  "GetObject key m = lookup (m_objects m) key"

text \<open>\<open>PutObjectFrom\<close> drains a reader first; the reader is its bytes and, if reading it ends in an
  error, that error.\<close>

definition PutObjectFrom :: "string \<Rightarrow> bytes \<times> error option \<Rightarrow> int \<Rightarrow> memory \<Rightarrow> error option \<times> memory" where
  "PutObjectFrom key rd sz m =
     (case snd rd of Some e \<Rightarrow> (Some e, m) | None \<Rightarrow> PutObject key (fst rd) m)"

definition OpenObject :: "string \<Rightarrow> memory \<Rightarrow> (bytes \<times> int) result" where
  "OpenObject key m =
     (case GetObject key m of Inl e \<Rightarrow> Inl e | Inr b \<Rightarrow> Inr (b, int (length b)))"

definition Append :: "bytes \<Rightarrow> time \<Rightarrow> audit_event \<Rightarrow> memory \<Rightarrow> memory" where
  "Append rb t ev m = m\<lparr>m_audit := m_audit m @ [ev\<lparr>ev_ID := ID ''evt'' rb, ev_Time := t\<rparr>]\<rparr>"

definition AuditEvents :: "int \<Rightarrow> memory \<Rightarrow> audit_event list" where
  "AuditEvents limit m =
     (let n = int (length (m_audit m));
          limit = (if limit \<le> 0 \<or> limit > n then n else limit)
      in drop (nat (n - limit)) (m_audit m))"

lemmas mutator_defs [mem_defs] = CreateAccount_def SetAccountStatus_def UpdateAccountProfile_def
  SetAccountPassword_def DeleteAccount_def CreateDevice_def SetDeviceStatus_def
  CreateEnrollment_def SetEnrollmentStatus_def CreateCertificate_def RevokeCertificate_def
  CreateReservation_def SetReservationStatus_def CreateSignature_def PutObject_def
  PutObjectFrom_def Append_def

lemmas reader_defs = Account_def Device_def Enrollment_def Certificate_def Reservation_def
  Signature_def GetObject_def

subsection \<open>Reading the tables\<close>

lemma lookup_eq_Inr [simp]: "lookup m k = Inr v \<longleftrightarrow> map_of m k = Some v"
  by (simp add: lookup_def split: option.splits)

lemma lookup_eq_Inl [simp]: "lookup m k = Inl e \<longleftrightarrow> map_of m k = None \<and> e = ErrNotFound"
  by (auto simp: lookup_def split: option.splits)

subsection \<open>What each method leaves alone\<close>

lemma CreateAccount_frame [simp]:
  "m_devices (snd (CreateAccount rb t a m)) = m_devices m"
  "m_enrollments (snd (CreateAccount rb t a m)) = m_enrollments m"
  "m_certificates (snd (CreateAccount rb t a m)) = m_certificates m"
  "m_reservations (snd (CreateAccount rb t a m)) = m_reservations m"
  "m_signatures (snd (CreateAccount rb t a m)) = m_signatures m"
  "m_audit (snd (CreateAccount rb t a m)) = m_audit m"
  "m_objects (snd (CreateAccount rb t a m)) = m_objects m"
  by (simp_all add: mutator_defs Let_def split: option.splits)

lemma SetAccountStatus_frame [simp]:
  "m_byEmail (snd (SetAccountStatus i x m)) = m_byEmail m"
  "m_devices (snd (SetAccountStatus i x m)) = m_devices m"
  "m_enrollments (snd (SetAccountStatus i x m)) = m_enrollments m"
  "m_certificates (snd (SetAccountStatus i x m)) = m_certificates m"
  "m_reservations (snd (SetAccountStatus i x m)) = m_reservations m"
  "m_signatures (snd (SetAccountStatus i x m)) = m_signatures m"
  "m_audit (snd (SetAccountStatus i x m)) = m_audit m"
  "m_objects (snd (SetAccountStatus i x m)) = m_objects m"
  by (simp_all add: mutator_defs Let_def split: option.splits)

lemma UpdateAccountProfile_frame [simp]:
  "m_byEmail (snd (UpdateAccountProfile i x y m)) = m_byEmail m"
  "m_devices (snd (UpdateAccountProfile i x y m)) = m_devices m"
  "m_enrollments (snd (UpdateAccountProfile i x y m)) = m_enrollments m"
  "m_certificates (snd (UpdateAccountProfile i x y m)) = m_certificates m"
  "m_reservations (snd (UpdateAccountProfile i x y m)) = m_reservations m"
  "m_signatures (snd (UpdateAccountProfile i x y m)) = m_signatures m"
  "m_audit (snd (UpdateAccountProfile i x y m)) = m_audit m"
  "m_objects (snd (UpdateAccountProfile i x y m)) = m_objects m"
  by (simp_all add: mutator_defs Let_def split: option.splits)

lemma SetAccountPassword_frame [simp]:
  "m_byEmail (snd (SetAccountPassword i x m)) = m_byEmail m"
  "m_devices (snd (SetAccountPassword i x m)) = m_devices m"
  "m_enrollments (snd (SetAccountPassword i x m)) = m_enrollments m"
  "m_certificates (snd (SetAccountPassword i x m)) = m_certificates m"
  "m_reservations (snd (SetAccountPassword i x m)) = m_reservations m"
  "m_signatures (snd (SetAccountPassword i x m)) = m_signatures m"
  "m_audit (snd (SetAccountPassword i x m)) = m_audit m"
  "m_objects (snd (SetAccountPassword i x m)) = m_objects m"
  by (simp_all add: mutator_defs Let_def split: option.splits)

lemma DeleteAccount_frame [simp]:
  "m_devices (snd (DeleteAccount i m)) = m_devices m"
  "m_enrollments (snd (DeleteAccount i m)) = m_enrollments m"
  "m_certificates (snd (DeleteAccount i m)) = m_certificates m"
  "m_reservations (snd (DeleteAccount i m)) = m_reservations m"
  "m_signatures (snd (DeleteAccount i m)) = m_signatures m"
  "m_audit (snd (DeleteAccount i m)) = m_audit m"
  "m_objects (snd (DeleteAccount i m)) = m_objects m"
  by (simp_all add: mutator_defs Let_def split: option.splits)

lemma CreateDevice_frame [simp]:
  "m_accounts (snd (CreateDevice rb t d m)) = m_accounts m"
  "m_byEmail (snd (CreateDevice rb t d m)) = m_byEmail m"
  "m_enrollments (snd (CreateDevice rb t d m)) = m_enrollments m"
  "m_certificates (snd (CreateDevice rb t d m)) = m_certificates m"
  "m_reservations (snd (CreateDevice rb t d m)) = m_reservations m"
  "m_signatures (snd (CreateDevice rb t d m)) = m_signatures m"
  "m_audit (snd (CreateDevice rb t d m)) = m_audit m"
  "m_objects (snd (CreateDevice rb t d m)) = m_objects m"
  by (simp_all add: mutator_defs Let_def split: option.splits)

lemma SetDeviceStatus_frame [simp]:
  "m_accounts (snd (SetDeviceStatus i x m)) = m_accounts m"
  "m_byEmail (snd (SetDeviceStatus i x m)) = m_byEmail m"
  "m_enrollments (snd (SetDeviceStatus i x m)) = m_enrollments m"
  "m_certificates (snd (SetDeviceStatus i x m)) = m_certificates m"
  "m_reservations (snd (SetDeviceStatus i x m)) = m_reservations m"
  "m_signatures (snd (SetDeviceStatus i x m)) = m_signatures m"
  "m_audit (snd (SetDeviceStatus i x m)) = m_audit m"
  "m_objects (snd (SetDeviceStatus i x m)) = m_objects m"
  by (simp_all add: mutator_defs Let_def split: option.splits)

lemma CreateEnrollment_frame [simp]:
  "m_accounts (snd (CreateEnrollment rb t e m)) = m_accounts m"
  "m_byEmail (snd (CreateEnrollment rb t e m)) = m_byEmail m"
  "m_devices (snd (CreateEnrollment rb t e m)) = m_devices m"
  "m_certificates (snd (CreateEnrollment rb t e m)) = m_certificates m"
  "m_reservations (snd (CreateEnrollment rb t e m)) = m_reservations m"
  "m_signatures (snd (CreateEnrollment rb t e m)) = m_signatures m"
  "m_audit (snd (CreateEnrollment rb t e m)) = m_audit m"
  "m_objects (snd (CreateEnrollment rb t e m)) = m_objects m"
  by (simp_all add: mutator_defs Let_def split: option.splits)

lemma SetEnrollmentStatus_frame [simp]:
  "m_accounts (snd (SetEnrollmentStatus i x m)) = m_accounts m"
  "m_byEmail (snd (SetEnrollmentStatus i x m)) = m_byEmail m"
  "m_devices (snd (SetEnrollmentStatus i x m)) = m_devices m"
  "m_certificates (snd (SetEnrollmentStatus i x m)) = m_certificates m"
  "m_reservations (snd (SetEnrollmentStatus i x m)) = m_reservations m"
  "m_signatures (snd (SetEnrollmentStatus i x m)) = m_signatures m"
  "m_audit (snd (SetEnrollmentStatus i x m)) = m_audit m"
  "m_objects (snd (SetEnrollmentStatus i x m)) = m_objects m"
  by (simp_all add: mutator_defs Let_def split: option.splits)

lemma CreateCertificate_frame [simp]:
  "m_accounts (snd (CreateCertificate rb c m)) = m_accounts m"
  "m_byEmail (snd (CreateCertificate rb c m)) = m_byEmail m"
  "m_devices (snd (CreateCertificate rb c m)) = m_devices m"
  "m_enrollments (snd (CreateCertificate rb c m)) = m_enrollments m"
  "m_reservations (snd (CreateCertificate rb c m)) = m_reservations m"
  "m_signatures (snd (CreateCertificate rb c m)) = m_signatures m"
  "m_audit (snd (CreateCertificate rb c m)) = m_audit m"
  "m_objects (snd (CreateCertificate rb c m)) = m_objects m"
  by (simp_all add: mutator_defs Let_def split: option.splits)

lemma RevokeCertificate_frame [simp]:
  "m_accounts (snd (RevokeCertificate t i x m)) = m_accounts m"
  "m_byEmail (snd (RevokeCertificate t i x m)) = m_byEmail m"
  "m_devices (snd (RevokeCertificate t i x m)) = m_devices m"
  "m_enrollments (snd (RevokeCertificate t i x m)) = m_enrollments m"
  "m_reservations (snd (RevokeCertificate t i x m)) = m_reservations m"
  "m_signatures (snd (RevokeCertificate t i x m)) = m_signatures m"
  "m_audit (snd (RevokeCertificate t i x m)) = m_audit m"
  "m_objects (snd (RevokeCertificate t i x m)) = m_objects m"
  by (simp_all add: mutator_defs Let_def split: option.splits)

lemma CreateReservation_frame [simp]:
  "m_accounts (snd (CreateReservation rb t r m)) = m_accounts m"
  "m_byEmail (snd (CreateReservation rb t r m)) = m_byEmail m"
  "m_devices (snd (CreateReservation rb t r m)) = m_devices m"
  "m_enrollments (snd (CreateReservation rb t r m)) = m_enrollments m"
  "m_certificates (snd (CreateReservation rb t r m)) = m_certificates m"
  "m_signatures (snd (CreateReservation rb t r m)) = m_signatures m"
  "m_audit (snd (CreateReservation rb t r m)) = m_audit m"
  "m_objects (snd (CreateReservation rb t r m)) = m_objects m"
  by (simp_all add: mutator_defs Let_def split: option.splits)

lemma SetReservationStatus_frame [simp]:
  "m_accounts (snd (SetReservationStatus i x m)) = m_accounts m"
  "m_byEmail (snd (SetReservationStatus i x m)) = m_byEmail m"
  "m_devices (snd (SetReservationStatus i x m)) = m_devices m"
  "m_enrollments (snd (SetReservationStatus i x m)) = m_enrollments m"
  "m_certificates (snd (SetReservationStatus i x m)) = m_certificates m"
  "m_signatures (snd (SetReservationStatus i x m)) = m_signatures m"
  "m_audit (snd (SetReservationStatus i x m)) = m_audit m"
  "m_objects (snd (SetReservationStatus i x m)) = m_objects m"
  by (simp_all add: mutator_defs Let_def split: option.splits)

lemma CreateSignature_frame [simp]:
  "m_accounts (snd (CreateSignature t sg m)) = m_accounts m"
  "m_byEmail (snd (CreateSignature t sg m)) = m_byEmail m"
  "m_devices (snd (CreateSignature t sg m)) = m_devices m"
  "m_enrollments (snd (CreateSignature t sg m)) = m_enrollments m"
  "m_certificates (snd (CreateSignature t sg m)) = m_certificates m"
  "m_reservations (snd (CreateSignature t sg m)) = m_reservations m"
  "m_audit (snd (CreateSignature t sg m)) = m_audit m"
  "m_objects (snd (CreateSignature t sg m)) = m_objects m"
  by (simp_all add: mutator_defs Let_def split: option.splits)

lemma PutObject_frame [simp]:
  "m_accounts (snd (PutObject k b m)) = m_accounts m"
  "m_byEmail (snd (PutObject k b m)) = m_byEmail m"
  "m_devices (snd (PutObject k b m)) = m_devices m"
  "m_enrollments (snd (PutObject k b m)) = m_enrollments m"
  "m_certificates (snd (PutObject k b m)) = m_certificates m"
  "m_reservations (snd (PutObject k b m)) = m_reservations m"
  "m_signatures (snd (PutObject k b m)) = m_signatures m"
  "m_audit (snd (PutObject k b m)) = m_audit m"
  by (simp_all add: mutator_defs Let_def split: option.splits)

lemma PutObjectFrom_frame [simp]:
  "m_accounts (snd (PutObjectFrom k rd n m)) = m_accounts m"
  "m_byEmail (snd (PutObjectFrom k rd n m)) = m_byEmail m"
  "m_devices (snd (PutObjectFrom k rd n m)) = m_devices m"
  "m_enrollments (snd (PutObjectFrom k rd n m)) = m_enrollments m"
  "m_certificates (snd (PutObjectFrom k rd n m)) = m_certificates m"
  "m_reservations (snd (PutObjectFrom k rd n m)) = m_reservations m"
  "m_signatures (snd (PutObjectFrom k rd n m)) = m_signatures m"
  "m_audit (snd (PutObjectFrom k rd n m)) = m_audit m"
  by (simp_all add: mutator_defs Let_def split: option.splits)

lemma Append_frame [simp]:
  "m_accounts (Append rb t ev m) = m_accounts m"
  "m_byEmail (Append rb t ev m) = m_byEmail m"
  "m_devices (Append rb t ev m) = m_devices m"
  "m_enrollments (Append rb t ev m) = m_enrollments m"
  "m_certificates (Append rb t ev m) = m_certificates m"
  "m_reservations (Append rb t ev m) = m_reservations m"
  "m_signatures (Append rb t ev m) = m_signatures m"
  "m_objects (Append rb t ev m) = m_objects m"
  by (simp_all add: Append_def)

end
