(* ===== verification/MemoryInv.thy ===== *)
theory MemoryInv
  imports Memory
begin

section \<open>Invariants of the in-memory store\<close>

text \<open>
  The contract of the seven methods that rewrite one row (\<open>table_update\<close>, interpreted on each of
  them), the well-formedness of the store and its preservation, and the step relation \<open>mem_step\<close>: any
  interleaving of store calls by concurrently running handlers is a sequence of these steps, because
  every method runs under the store's mutex.
\<close>

subsection \<open>The interface of the row-rewriting methods\<close>

text \<open>A table in which every row is stored under its own id.\<close>

definition keyed :: "('v \<Rightarrow> string) \<Rightarrow> (string, 'v) gomap \<Rightarrow> bool" where
  "keyed idf m \<longleftrightarrow> keys_distinct m \<and> list_all (\<lambda>(k, v). idf v = k) m"

text \<open>\<open>tab'\<close> still has every row of \<open>tab\<close>, changed at most as \<open>R\<close> allows.\<close>

definition evolves :: "('v \<Rightarrow> 'v \<Rightarrow> bool) \<Rightarrow> (string, 'v) gomap \<Rightarrow> (string, 'v) gomap \<Rightarrow> bool" where
  "evolves R tab tab' \<longleftrightarrow>
     (\<forall>k v. map_of tab k = Some v \<longrightarrow> (\<exists>v'. map_of tab' k = Some v' \<and> R v v'))"

locale table_update =
  fixes tab :: "memory \<Rightarrow> (string, 'v) gomap"
    and upd :: "string \<Rightarrow> memory \<Rightarrow> error option \<times> memory"
    and f :: "'v \<Rightarrow> 'v"
  assumes upd_found: "map_of (tab m) i = Some v \<Longrightarrow>
      fst (upd i m) = None \<and> tab (snd (upd i m)) = AList.update i (f v) (tab m)"
    and upd_missing: "map_of (tab m) i = None \<Longrightarrow> upd i m = (Some ErrNotFound, m)"
begin

lemma fails_iff: "fst (upd i m) = Some e \<longleftrightarrow> e = ErrNotFound \<and> map_of (tab m) i = None"
  using upd_found [of m i] upd_missing [of m i] by (cases "map_of (tab m) i") auto

lemma lookup_after:
  "map_of (tab (snd (upd i m))) k =
     (if k = i then map_option f (map_of (tab m) i) else map_of (tab m) k)"
  using upd_found [of m i] upd_missing [of m i] by (cases "map_of (tab m) i") auto

lemma keys_after: "map fst (tab (snd (upd i m))) = map fst (tab m)"
proof (cases "map_of (tab m) i")
  case None
  then show ?thesis by (simp add: upd_missing)
next
  case (Some v)
  then have "i \<in> fst ` set (tab m)" by (force dest: map_of_SomeD)
  with Some show ?thesis by (simp add: upd_found AList.update_keys)
qed

lemma list_all_after:
  assumes "list_all P (tab m)" and "\<And>v. P (i, v) \<Longrightarrow> P (i, f v)"
  shows "list_all P (tab (snd (upd i m)))"
proof (cases "map_of (tab m) i")
  case None
  with assms show ?thesis by (simp add: upd_missing)
next
  case (Some v)
  have upd_all: "P (i, f v) \<Longrightarrow> list_all P xs \<Longrightarrow> list_all P (AList.update i (f v) xs)" for xs
    by (induction xs) auto
  from Some assms have "P (i, v)" by (auto simp: list_all_iff dest: map_of_SomeD)
  with assms Some show ?thesis by (simp add: upd_found upd_all)
qed

lemma keyed_after:
  assumes "keyed idf (tab m)" and "\<And>v. idf (f v) = idf v"
  shows "keyed idf (tab (snd (upd i m)))"
  using assms list_all_after [of "\<lambda>(k, v). idf v = k" m i] by (simp add: keyed_def keys_after)

lemma evolves_after:
  assumes "\<And>v. R v v" and "\<And>v. R v (f v)"
  shows "evolves R (tab m) (tab (snd (upd i m)))"
  using assms by (simp add: evolves_def lookup_after)

end

interpretation acct_status: table_update m_accounts "\<lambda>i. SetAccountStatus i x" "\<lambda>a. a\<lparr>a_Status := x\<rparr>"
  for x
  by unfold_locales (simp_all add: SetAccountStatus_def)

interpretation acct_profile: table_update m_accounts "\<lambda>i. UpdateAccountProfile i x y"
    "\<lambda>a. a\<lparr>a_FullName := x, a_Organization := y\<rparr>"
  for x y
  by unfold_locales (simp_all add: UpdateAccountProfile_def)

interpretation acct_password: table_update m_accounts "\<lambda>i. SetAccountPassword i x"
    "\<lambda>a. a\<lparr>a_PasswordHash := x\<rparr>"
  for x
  by unfold_locales (simp_all add: SetAccountPassword_def)

interpretation dev_status: table_update m_devices "\<lambda>i. SetDeviceStatus i x" "\<lambda>d. d\<lparr>d_Status := x\<rparr>"
  for x
  by unfold_locales (simp_all add: SetDeviceStatus_def)

interpretation enr_status: table_update m_enrollments "\<lambda>i. SetEnrollmentStatus i x"
    "\<lambda>e. e\<lparr>e_Status := x\<rparr>"
  for x
  by unfold_locales (simp_all add: SetEnrollmentStatus_def)

interpretation cert_revoke: table_update m_certificates "\<lambda>i. RevokeCertificate t i x"
    "\<lambda>c. c\<lparr>c_Status := CertRevoked, c_RevokedAt := t, c_RevReason := x\<rparr>"
  for t x
  by unfold_locales (simp_all add: RevokeCertificate_def)

interpretation res_status: table_update m_reservations "\<lambda>i. SetReservationStatus i x"
    "\<lambda>r. r\<lparr>r_Status := x\<rparr>"
  for x
  by unfold_locales (simp_all add: SetReservationStatus_def)

lemmas row_lookups = acct_status.lookup_after acct_profile.lookup_after acct_password.lookup_after
  dev_status.lookup_after enr_status.lookup_after cert_revoke.lookup_after res_status.lookup_after

lemmas row_keys = acct_status.keys_after acct_profile.keys_after acct_password.keys_after
  dev_status.keys_after enr_status.keys_after cert_revoke.keys_after res_status.keys_after

subsection \<open>Well-formedness\<close>

text \<open>Every row is stored under its own id, and the e-mail index is exactly the inverse of the
  account table.\<close>

definition email_index :: "memory \<Rightarrow> bool" where
  "email_index m \<longleftrightarrow> keys_distinct (m_byEmail m) \<and>
     list_all (\<lambda>(k, a). map_of (m_byEmail m) (a_Email a) = Some k) (m_accounts m) \<and>
     list_all (\<lambda>(e, k). map_option a_Email (map_of (m_accounts m) k) = Some e) (m_byEmail m)"

definition mem_wf :: "memory \<Rightarrow> bool" where
  "mem_wf m \<longleftrightarrow> keyed a_ID (m_accounts m) \<and> email_index m \<and> keyed d_ID (m_devices m) \<and>
     keyed e_ID (m_enrollments m) \<and> keyed c_ID (m_certificates m) \<and>
     keyed r_PublicID (m_reservations m) \<and> keyed s_PublicID (m_signatures m) \<and>
     keys_distinct (m_objects m)"

lemma keyed_distinct: "keyed idf m \<Longrightarrow> keys_distinct m"
  by (simp add: keyed_def)

lemma keyedD: "keyed idf m \<Longrightarrow> map_of m k = Some v \<Longrightarrow> idf v = k"
  by (auto simp: keyed_def list_all_iff dest: map_of_SomeD)

lemma keyed_vals: "keyed idf m \<Longrightarrow> v \<in> set (vals m) \<longleftrightarrow> map_of m (idf v) = Some v"
  by (metis vals_iff keyed_distinct keyedD)

lemma list_all_update: "list_all P m \<Longrightarrow> P (k, v) \<Longrightarrow> list_all P (AList.update k v m)"
  by (induction m) auto

lemma list_all_delete: "list_all P m \<Longrightarrow> list_all P (AList.delete k m)"
  by (auto simp: AList.delete_eq list_all_iff)

lemma keyed_update [wf_intros]: "keyed idf m \<Longrightarrow> idf v = k \<Longrightarrow> keyed idf (AList.update k v m)"
  by (simp add: keyed_def list_all_update AList.distinct_update)

lemma keyed_delete [wf_intros]: "keyed idf m \<Longrightarrow> keyed idf (AList.delete k m)"
  by (simp add: keyed_def list_all_delete AList.distinct_delete)

text \<open>The index as two directions over lookups.\<close>

lemma email_indexD1:
  "email_index m \<Longrightarrow> map_of (m_accounts m) k = Some a \<Longrightarrow> map_of (m_byEmail m) (a_Email a) = Some k"
  by (auto simp: email_index_def list_all_iff dest: map_of_SomeD)

lemma email_indexD2:
  "email_index m \<Longrightarrow> map_of (m_byEmail m) e = Some k \<Longrightarrow>
     \<exists>a. map_of (m_accounts m) k = Some a \<and> a_Email a = e"
  by (fastforce simp: email_index_def list_all_iff dest: map_of_SomeD)

lemma email_indexI:
  assumes "keys_distinct (m_byEmail m)" "keys_distinct (m_accounts m)"
    and "\<And>k a. map_of (m_accounts m) k = Some a \<Longrightarrow> map_of (m_byEmail m) (a_Email a) = Some k"
    and "\<And>e k. map_of (m_byEmail m) e = Some k \<Longrightarrow>
           map_option a_Email (map_of (m_accounts m) k) = Some e"
  shows "email_index m"
  using assms by (auto simp: email_index_def list_all_iff intro: map_of_is_SomeI)

lemma mem_wf_New [simp]: "mem_wf NewMemory"
  by (simp add: mem_wf_def email_index_def keyed_def NewMemory_def)

subsection \<open>Every method keeps the store well formed\<close>

text \<open>A new account has a fresh id (96 random bits).\<close>

definition stored_id :: "bytes \<Rightarrow> account \<Rightarrow> string" where
  "stored_id rb a = (if a_ID a = [] then ID ''acct'' rb else a_ID a)"

lemma CreateAccount_cases:
  "CreateAccount rb t a m =
     (if map_of (m_byEmail m) (a_Email a) \<noteq> None
      then (Inl (Errorf ''store: email already registered''), m)
      else let b = a\<lparr>a_ID := stored_id rb a,
                     a_Role := (if a_Role a = [] then RoleUser else a_Role a),
                     a_Status := (if a_Status a = [] then AccountActive else a_Status a),
                     a_CreatedAt := t\<rparr>
           in (Inr b, m\<lparr>m_accounts := AList.update (stored_id rb a) b (m_accounts m),
                        m_byEmail := AList.update (a_Email a) (stored_id rb a) (m_byEmail m)\<rparr>))"
  by (simp add: CreateAccount_def stored_id_def Let_def split: option.splits)

lemma CreateAccount_email_index:
  assumes wf: "email_index m" "keys_distinct (m_accounts m)"
    and fresh: "map_of (m_accounts m) (stored_id rb a) = None"
  shows "email_index (snd (CreateAccount rb t a m))"
proof (cases "map_of (m_byEmail m) (a_Email a)")
  case (Some k)
  with wf show ?thesis by (simp add: CreateAccount_cases)
next
  case None
  have "map_of (m_accounts m) k = Some b \<Longrightarrow> a_Email b \<noteq> a_Email a" for k b
    using None email_indexD1 [OF wf(1), of k b] by auto
  moreover have "map_of (m_byEmail m) e = Some k \<Longrightarrow> k \<noteq> stored_id rb a" for e k
    using fresh email_indexD2 [OF wf(1), of e k] by auto
  ultimately show ?thesis
    using None wf
    by (auto simp: CreateAccount_cases Let_def AList.distinct_update email_index_def [of m]
             intro!: email_indexI dest: email_indexD1 [OF wf(1)] email_indexD2 [OF wf(1)]
             split: if_splits)
qed

lemma CreateAccount_wf [wf_intros]:
  assumes "mem_wf m" and "map_of (m_accounts m) (stored_id rb a) = None"
  shows "mem_wf (snd (CreateAccount rb t a m))"
proof -
  have "keyed a_ID (m_accounts (snd (CreateAccount rb t a m)))"
    using assms by (simp add: CreateAccount_cases Let_def mem_wf_def keyed_update)
  moreover have "email_index (snd (CreateAccount rb t a m))"
    using assms by (simp add: CreateAccount_email_index mem_wf_def keyed_def)
  ultimately show ?thesis using assms by (simp add: mem_wf_def)
qed

lemma DeleteAccount_wf [wf_intros]:
  assumes wf: "mem_wf m"
  shows "mem_wf (snd (DeleteAccount i m))"
proof (cases "map_of (m_accounts m) i")
  case None
  with wf show ?thesis by (simp add: DeleteAccount_def)
next
  case (Some a)
  have idx: "email_index m" using wf by (simp add: mem_wf_def)
  have "map_of (m_accounts m) k = Some b \<Longrightarrow> k \<noteq> i \<Longrightarrow> a_Email b \<noteq> a_Email a" for k b
    using Some email_indexD1 [OF idx, of k b] email_indexD1 [OF idx, of i a] by auto
  moreover have "map_of (m_byEmail m) e = Some k \<Longrightarrow> e \<noteq> a_Email a \<Longrightarrow> k \<noteq> i" for e k
    using Some email_indexD2 [OF idx, of e k] by auto
  ultimately have "email_index (snd (DeleteAccount i m))"
    using Some idx wf
    by (auto simp: DeleteAccount_def AList.distinct_delete mem_wf_def keyed_def
             intro!: email_indexI dest: email_indexD1 [OF idx] email_indexD2 [OF idx]
             split: if_splits) (simp add: email_index_def)
  moreover have "keyed a_ID (m_accounts (snd (DeleteAccount i m)))"
    using Some wf by (simp add: DeleteAccount_def mem_wf_def keyed_delete)
  ultimately show ?thesis using wf by (simp add: mem_wf_def)
qed

text \<open>A method that rewrites an account without touching its address keeps the index.\<close>

lemma email_index_rewrite:
  assumes "email_index m" and "keys_distinct (m_accounts m')" and "m_byEmail m' = m_byEmail m"
    and "\<And>k. map_option a_Email (map_of (m_accounts m') k) =
             map_option a_Email (map_of (m_accounts m) k)"
  shows "email_index m'"
proof (rule email_indexI)
  show "keys_distinct (m_byEmail m')" using assms by (simp add: email_index_def)
  show "keys_distinct (m_accounts m')" by (rule assms)
  show "map_of (m_byEmail m') (a_Email a) = Some k" if "map_of (m_accounts m') k = Some a" for k a
  proof -
    have "map_option a_Email (map_of (m_accounts m) k) = Some (a_Email a)"
      using that assms(4) [of k] by simp
    then obtain z where "map_of (m_accounts m) k = Some z" and "a_Email z = a_Email a" by auto
    with assms(3) email_indexD1 [OF assms(1), of k z] show ?thesis by simp
  qed
  show "map_option a_Email (map_of (m_accounts m') k) = Some e"
    if "map_of (m_byEmail m') e = Some k" for e k
    using that assms(3,4) email_indexD2 [OF assms(1), of e k] by auto
qed

lemmas row_keyed = acct_status.keyed_after acct_profile.keyed_after acct_password.keyed_after
  dev_status.keyed_after enr_status.keyed_after cert_revoke.keyed_after res_status.keyed_after

lemma account_rewrites_wf [wf_intros]:
  assumes "mem_wf m"
  shows "mem_wf (snd (SetAccountStatus i x m))" "mem_wf (snd (UpdateAccountProfile i x y m))"
    "mem_wf (snd (SetAccountPassword i x m))"
proof -
  have eq: "map_option a_Email (if k = i then map_option f (map_of t i) else map_of t k) =
        map_option a_Email (map_of t k)"
    if "\<And>a. a_Email (f a) = a_Email a" for k t and f :: "account \<Rightarrow> account"
    using that by (simp add: option.map_comp comp_def)
  have kd: "keys_distinct (m_accounts m)" using assms by (simp add: mem_wf_def keyed_def)
  have idx: "email_index m" using assms by (simp add: mem_wf_def)
  have "email_index (snd (SetAccountStatus i x m))"
    by (rule email_index_rewrite [OF idx]) (simp_all only: row_keys kd SetAccountStatus_frame row_lookups, simp add: eq)
  moreover have "email_index (snd (UpdateAccountProfile i x y m))"
    by (rule email_index_rewrite [OF idx]) (simp_all only: row_keys kd UpdateAccountProfile_frame row_lookups, simp add: eq)
  moreover have "email_index (snd (SetAccountPassword i x m))"
    by (rule email_index_rewrite [OF idx]) (simp_all only: row_keys kd SetAccountPassword_frame row_lookups, simp add: eq)
  ultimately show "mem_wf (snd (SetAccountStatus i x m))"
    "mem_wf (snd (UpdateAccountProfile i x y m))" "mem_wf (snd (SetAccountPassword i x m))"
    using assms by (simp_all add: mem_wf_def row_keyed)
qed

text \<open>The other methods do not touch accounts.\<close>

lemma email_index_frame:
  "email_index m \<Longrightarrow> m_accounts m' = m_accounts m \<Longrightarrow> m_byEmail m' = m_byEmail m \<Longrightarrow> email_index m'"
  by (simp add: email_index_def)

lemma row_rewrites_wf [wf_intros]:
  assumes "mem_wf m"
  shows "mem_wf (snd (SetDeviceStatus i x m))" "mem_wf (snd (SetEnrollmentStatus i x m))"
    "mem_wf (snd (RevokeCertificate t i x m))" "mem_wf (snd (SetReservationStatus i x m))"
  using assms by (simp_all add: mem_wf_def row_keyed email_index_frame [of m])

lemma creators_wf [wf_intros]:
  assumes "mem_wf m"
  shows "mem_wf (snd (CreateDevice rb t d m))" "mem_wf (snd (CreateEnrollment rb t e m))"
    "mem_wf (snd (CreateCertificate rb c m))" "mem_wf (snd (CreateReservation rb t r m))"
    "mem_wf (snd (CreateSignature t sg m))"
  using assms
  by (simp_all add: mem_wf_def email_index_frame [of m],
      simp_all add: mutator_defs Let_def keyed_update split: option.splits)

lemma object_writes_wf [wf_intros]:
  assumes "mem_wf m"
  shows "mem_wf (snd (PutObject k b m))" "mem_wf (snd (PutObjectFrom k rd n m))"
    "mem_wf (Append rb t ev m)"
  using assms
  by (simp_all add: mem_wf_def email_index_frame [of m],
      simp_all add: mutator_defs split: option.splits)

subsection \<open>Interleaved store calls as a step relation\<close>

text \<open>
  One rule per writing method. The creators whose ids are 96 random bits have the premise that the id
  is not in use, which is what the code relies on; \<open>CreateSignature\<close> checks for itself.
\<close>

definition fresh_in :: "string \<Rightarrow> bytes \<Rightarrow> string \<Rightarrow> (string, 'v) gomap \<Rightarrow> bool" where
  "fresh_in prefix rb i tab \<longleftrightarrow> map_of tab (if i = [] then ID prefix rb else i) = None"

inductive mem_step :: "memory \<Rightarrow> memory \<Rightarrow> bool" where
  step_CreateAccount: "fresh_in ''acct'' rb (a_ID a) (m_accounts m) \<Longrightarrow>
     mem_step m (snd (CreateAccount rb t a m))"
| step_SetAccountStatus: "mem_step m (snd (SetAccountStatus i x m))"
| step_UpdateAccountProfile: "mem_step m (snd (UpdateAccountProfile i x y m))"
| step_SetAccountPassword: "mem_step m (snd (SetAccountPassword i x m))"
| step_DeleteAccount: "mem_step m (snd (DeleteAccount i m))"
| step_CreateDevice: "fresh_in ''dev'' rb (d_ID d) (m_devices m) \<Longrightarrow>
     mem_step m (snd (CreateDevice rb t d m))"
| step_SetDeviceStatus: "mem_step m (snd (SetDeviceStatus i x m))"
| step_CreateEnrollment: "fresh_in ''enr'' rb (e_ID e) (m_enrollments m) \<Longrightarrow>
     mem_step m (snd (CreateEnrollment rb t e m))"
| step_SetEnrollmentStatus: "mem_step m (snd (SetEnrollmentStatus i x m))"
| step_CreateCertificate: "fresh_in ''cert'' rb (c_ID c) (m_certificates m) \<Longrightarrow>
     mem_step m (snd (CreateCertificate rb c m))"
| step_RevokeCertificate: "mem_step m (snd (RevokeCertificate t i x m))"
| step_CreateReservation: "fresh_in ''sig'' rb (r_PublicID r) (m_reservations m) \<Longrightarrow>
     mem_step m (snd (CreateReservation rb t r m))"
| step_SetReservationStatus: "mem_step m (snd (SetReservationStatus i x m))"
| step_CreateSignature: "mem_step m (snd (CreateSignature t sg m))"
| step_PutObject: "mem_step m (snd (PutObject k b m))"
| step_PutObjectFrom: "mem_step m (snd (PutObjectFrom k rd n m))"
| step_Append: "mem_step m (Append rb t ev m)"

abbreviation mem_steps :: "memory \<Rightarrow> memory \<Rightarrow> bool" where
  "mem_steps \<equiv> mem_step\<^sup>*\<^sup>*"

lemma mem_step_wf: "mem_step m m' \<Longrightarrow> mem_wf m \<Longrightarrow> mem_wf m'"
  by (induction rule: mem_step.induct)
     (auto intro: wf_intros simp: fresh_in_def stored_id_def)

lemma mem_steps_wf: "mem_steps m m' \<Longrightarrow> mem_wf m \<Longrightarrow> mem_wf m'"
  by (induction rule: rtranclp_induct) (auto dest: mem_step_wf)

subsection \<open>What no sequence of store calls can undo\<close>

definition cert_evolves :: "certificate \<Rightarrow> certificate \<Rightarrow> bool" where
  "cert_evolves c c' \<longleftrightarrow>
     c_ID c' = c_ID c \<and> c_EnrollmentID c' = c_EnrollmentID c \<and> c_DeviceID c' = c_DeviceID c \<and>
     c_AccountID c' = c_AccountID c \<and> c_Serial c' = c_Serial c \<and>
     c_Fingerprint c' = c_Fingerprint c \<and> c_PEM c' = c_PEM c \<and> c_NotBefore c' = c_NotBefore c \<and>
     c_NotAfter c' = c_NotAfter c \<and> (c_Status c = CertRevoked \<longrightarrow> c_Status c' = CertRevoked)"

definition res_evolves :: "reservation \<Rightarrow> reservation \<Rightarrow> bool" where
  "res_evolves r r' \<longleftrightarrow> (\<exists>st. r' = r\<lparr>r_Status := st\<rparr>)"

definition dev_evolves :: "device \<Rightarrow> device \<Rightarrow> bool" where
  "dev_evolves d d' \<longleftrightarrow> (\<exists>st. d' = d\<lparr>d_Status := st\<rparr>)"

definition enr_evolves :: "enrollment \<Rightarrow> enrollment \<Rightarrow> bool" where
  "enr_evolves e e' \<longleftrightarrow> (\<exists>st. e' = e\<lparr>e_Status := st\<rparr>)"

definition mem_le :: "memory \<Rightarrow> memory \<Rightarrow> bool" where
  "mem_le m m' \<longleftrightarrow>
     evolves (=) (m_signatures m) (m_signatures m') \<and>
     evolves cert_evolves (m_certificates m) (m_certificates m') \<and>
     evolves res_evolves (m_reservations m) (m_reservations m') \<and>
     evolves dev_evolves (m_devices m) (m_devices m') \<and>
     evolves enr_evolves (m_enrollments m) (m_enrollments m') \<and>
     (\<exists>new. m_audit m' = m_audit m @ new)"

lemma evolves_refl: "(\<And>v. R v v) \<Longrightarrow> evolves R tab tab"
  by (simp add: evolves_def)

lemma evolves_trans:
  "evolves R a b \<Longrightarrow> evolves R b c \<Longrightarrow> (\<And>x y z. R x y \<Longrightarrow> R y z \<Longrightarrow> R x z) \<Longrightarrow> evolves R a c"
  unfolding evolves_def by meson

lemma evolves_insert: "map_of tab k = None \<Longrightarrow> (\<And>v. R v v) \<Longrightarrow> evolves R tab (AList.update k v tab)"
  by (simp add: evolves_def)

lemma row_refl [simp]: "cert_evolves c c" "res_evolves r r" "dev_evolves d d" "enr_evolves e e"
  by (auto simp: cert_evolves_def res_evolves_def dev_evolves_def enr_evolves_def
           intro: exI [of _ "r_Status r"] exI [of _ "d_Status d"] exI [of _ "e_Status e"])

lemma row_change [simp]:
  "cert_evolves c (c\<lparr>c_Status := CertRevoked, c_RevokedAt := t, c_RevReason := x\<rparr>)"
  "res_evolves r (r\<lparr>r_Status := x\<rparr>)" "dev_evolves d (d\<lparr>d_Status := x\<rparr>)"
  "enr_evolves e (e\<lparr>e_Status := x\<rparr>)"
  by (auto simp: cert_evolves_def res_evolves_def dev_evolves_def enr_evolves_def)

lemma row_trans:
  "cert_evolves c1 c2 \<Longrightarrow> cert_evolves c2 c3 \<Longrightarrow> cert_evolves c1 c3"
  "res_evolves r1 r2 \<Longrightarrow> res_evolves r2 r3 \<Longrightarrow> res_evolves r1 r3"
  "dev_evolves d1 d2 \<Longrightarrow> dev_evolves d2 d3 \<Longrightarrow> dev_evolves d1 d3"
  "enr_evolves e1 e2 \<Longrightarrow> enr_evolves e2 e3 \<Longrightarrow> enr_evolves e1 e3"
  by (auto simp: cert_evolves_def res_evolves_def dev_evolves_def enr_evolves_def)

lemma mem_le_refl [simp]: "mem_le m m"
  by (simp add: mem_le_def evolves_refl)

lemma mem_le_trans:
  assumes ab: "mem_le a b" and bc: "mem_le b c"
  shows "mem_le a c"
proof -
  have "evolves (=) (m_signatures a) (m_signatures c)"
    using ab bc unfolding mem_le_def by (blast intro: evolves_trans)
  moreover have "evolves cert_evolves (m_certificates a) (m_certificates c)"
    using ab bc unfolding mem_le_def by (blast intro: evolves_trans row_trans)
  moreover have "evolves res_evolves (m_reservations a) (m_reservations c)"
    using ab bc unfolding mem_le_def by (blast intro: evolves_trans row_trans)
  moreover have "evolves dev_evolves (m_devices a) (m_devices c)"
    using ab bc unfolding mem_le_def by (blast intro: evolves_trans row_trans)
  moreover have "evolves enr_evolves (m_enrollments a) (m_enrollments c)"
    using ab bc unfolding mem_le_def by (blast intro: evolves_trans row_trans)
  moreover have "\<exists>new. m_audit c = m_audit a @ new"
    using ab bc unfolding mem_le_def by auto
  ultimately show ?thesis by (simp add: mem_le_def)
qed

lemmas row_evolves = dev_status.evolves_after enr_status.evolves_after cert_revoke.evolves_after
  res_status.evolves_after

lemma mem_step_le: "mem_step m m' \<Longrightarrow> mem_le m m'"
proof (induction rule: mem_step.induct)
  case (step_CreateDevice rb d m t)
  then show ?case
    by (auto simp: mem_le_def fresh_in_def CreateDevice_def Let_def
             intro!: evolves_refl evolves_insert)
next
  case (step_CreateEnrollment rb e m t)
  then show ?case
    by (auto simp: mem_le_def fresh_in_def CreateEnrollment_def Let_def
             intro!: evolves_refl evolves_insert)
next
  case (step_CreateCertificate rb c m)
  then show ?case
    by (auto simp: mem_le_def fresh_in_def CreateCertificate_def Let_def
             intro!: evolves_refl evolves_insert)
next
  case (step_CreateReservation rb r m t)
  then show ?case
    by (auto simp: mem_le_def fresh_in_def CreateReservation_def Let_def
             intro!: evolves_refl evolves_insert)
next
  case (step_CreateSignature m t sg)
  then show ?case
    by (auto simp: mem_le_def CreateSignature_def Let_def
             intro!: evolves_refl evolves_insert split: option.splits)
qed (simp_all add: mem_le_def evolves_refl row_evolves Append_def)

lemma mem_steps_le: "mem_steps m m' \<Longrightarrow> mem_le m m'"
  by (induction rule: rtranclp_induct) (auto dest: mem_step_le intro: mem_le_trans)

subsection \<open>Properties of the store\<close>

text \<open>A small store used by the witnesses: one account.\<close>

definition demo_account :: account where
  "demo_account = account_zero\<lparr>a_Email := ''a@x'', a_Role := RoleAdmin\<rparr>"

definition demo_mem :: memory where
  "demo_mem = snd (CreateAccount ''r'' 5 demo_account NewMemory)"

lemma demo_mem_steps: "mem_steps NewMemory demo_mem"
  unfolding demo_mem_def
  by (rule r_into_rtranclp, rule step_CreateAccount)
     (simp add: fresh_in_def NewMemory_def)

text \<open>C13: Whatever sequence of store calls the handlers interleave, starting from the empty store,
  every row is stored under its own id and the e-mail index stays the exact inverse of the account
  table: no address leads to a missing account, no account is missing from the index.\<close>

theorem store_reachable_wf:
  assumes "mem_steps NewMemory m"
  shows "mem_wf m"
  using assms by (rule mem_steps_wf) simp

theorem store_reachable_wf_witness:
  "mem_wf demo_mem \<and> map_of (m_byEmail demo_mem) ''a@x'' = Some ''acct_72''"
  using store_reachable_wf [OF demo_mem_steps]
  by (simp add: demo_mem_def CreateAccount_def demo_account_def account_zero_def NewMemory_def
      ID_def hex_encode_def hex_byte_def hex_digit_def Let_def)

text \<open>A login looks an account up by its address: in a well-formed store the lookup succeeds
  exactly for the stored account with that address, and at most one account has it.\<close>

theorem AccountByEmail_spec:
  assumes wf: "mem_wf m"
  shows "AccountByEmail e m = Inr a \<longleftrightarrow> Account (a_ID a) m = Inr a \<and> a_Email a = e"
proof -
  have idx: "email_index m" and k: "keyed a_ID (m_accounts m)" using wf by (simp_all add: mem_wf_def)
  show ?thesis
  proof (cases "map_of (m_byEmail m) e")
    case None
    then have "map_of (m_accounts m) j = Some c \<Longrightarrow> a_Email c \<noteq> e" for j c
      using email_indexD1 [OF idx, of j c] by auto
    with None show ?thesis by (simp add: AccountByEmail_def Account_def)
  next
    case (Some i)
    then obtain b where b: "map_of (m_accounts m) i = Some b" "a_Email b = e"
      using email_indexD2 [OF idx] by blast
    have b_id: "a_ID b = i" using keyedD [OF k b(1)] .
    have same: "a = b" if "map_of (m_accounts m) (a_ID a) = Some a" "a_Email a = e"
      using email_indexD1 [OF idx that(1)] that Some b(1) by simp
    have "AccountByEmail e m = Inr a \<longleftrightarrow> b = a" using Some b(1) by (simp add: AccountByEmail_def)
    with b b_id same show ?thesis by (auto simp: Account_def)
  qed
qed

theorem AccountByEmail_spec_witness:
  "\<exists>a. AccountByEmail ''a@x'' demo_mem = Inr a \<and> a_Role a = RoleAdmin \<and> a_Email a = ''a@x''"
proof -
  have wf: "mem_wf demo_mem" by (rule mem_steps_wf [OF demo_mem_steps]) simp
  let ?a = "demo_account\<lparr>a_ID := ''acct_72'', a_Status := AccountActive, a_CreatedAt := 5\<rparr>"
  have "Account (a_ID ?a) demo_mem = Inr ?a \<and> a_Email ?a = ''a@x''"
    by (simp add: demo_mem_def CreateAccount_def demo_account_def account_zero_def NewMemory_def
      ID_def hex_encode_def hex_byte_def hex_digit_def Account_def Let_def)
  with AccountByEmail_spec [OF wf, of "''a@x''" ?a] show ?thesis
    by (intro exI [of _ ?a]) (simp add: demo_account_def account_zero_def)
qed

lemma mem_steps_signature: "mem_steps m m' \<Longrightarrow> Signature k m = Inr sg \<Longrightarrow> Signature k m' = Inr sg"
  using mem_steps_le by (fastforce simp: mem_le_def evolves_def Signature_def split: option.splits)

text \<open>C26: A signature record is written once: no later sequence of store calls, by whatever
  handlers, changes or removes it, and a second \<open>CreateSignature\<close> for its id is an error that
  leaves the store alone.\<close>

theorem signature_write_once:
  assumes "mem_steps m m'" and "Signature k m = Inr sg"
  shows "Signature k m' = Inr sg \<and>
    CreateSignature t (sg'\<lparr>s_PublicID := k\<rparr>) m' =
      (Inl (Errorf (''store: signature '' @ k @ '' already exists'')), m')"
proof -
  have "map_of (m_signatures m') k = Some sg"
    using mem_steps_le [OF assms(1)] assms(2) by (auto simp: mem_le_def evolves_def Signature_def)
  then show ?thesis by (simp add: Signature_def CreateSignature_def)
qed

theorem signature_write_once_witness:
  "Signature ''sig_1'' (snd (RevokeCertificate 3 ''c'' ''x''
      (snd (CreateSignature 7 (signature_zero\<lparr>s_PublicID := ''sig_1''\<rparr>) NewMemory))))
     = Inr (signature_zero\<lparr>s_PublicID := ''sig_1'', s_CreatedAt := 7\<rparr>)"
  (is "Signature _ ?m' = Inr ?sg")
proof -
  have "mem_steps (snd (CreateSignature 7 (signature_zero\<lparr>s_PublicID := ''sig_1''\<rparr>) NewMemory)) ?m'"
    by (rule r_into_rtranclp, rule step_RevokeCertificate)
  from signature_write_once [OF this, of "''sig_1''" ?sg] show ?thesis
    by (simp add: Signature_def CreateSignature_def NewMemory_def Let_def)
qed

text \<open>Revocation is permanent and a certificate's identity is immutable: after any sequence of
  store calls a registered certificate is still registered with the same serial, fingerprint, owner,
  device and validity, and a revoked one is still revoked.\<close>

theorem certificate_revocation_permanent:
  assumes "mem_steps m m'" and "Certificate k m = Inr c"
  shows "\<exists>c'. Certificate k m' = Inr c' \<and> cert_evolves c c'"
  using mem_steps_le [OF assms(1)] assms(2) by (auto simp: mem_le_def evolves_def Certificate_def)

theorem certificate_revocation_permanent_witness:
  "\<exists>c'. Certificate ''c1'' (snd (RevokeCertificate 3 ''c1'' ''lost''
      (snd (CreateCertificate [] (certificate_zero\<lparr>c_ID := ''c1'', c_Status := CertRevoked\<rparr>) NewMemory))))
     = Inr c' \<and> c_Status c' = CertRevoked"
  (is "\<exists>c'. Certificate _ ?m' = Inr c' \<and> _")
proof -
  let ?c = "certificate_zero\<lparr>c_ID := ''c1'', c_Status := CertRevoked\<rparr>"
  have "mem_steps (snd (CreateCertificate [] ?c NewMemory)) ?m'"
    by (rule r_into_rtranclp, rule step_RevokeCertificate)
  moreover have "Certificate ''c1'' (snd (CreateCertificate [] ?c NewMemory)) = Inr ?c"
    by (simp add: Certificate_def CreateCertificate_def NewMemory_def Let_def)
  ultimately obtain c' where c': "Certificate ''c1'' ?m' = Inr c'" "cert_evolves ?c c'"
    using certificate_revocation_permanent by blast
  then have "c_Status c' = CertRevoked" by (simp add: cert_evolves_def)
  with c'(1) show ?thesis by blast
qed

text \<open>\<open>CertificateByDevice\<close> returns, of the certificates of the device, one with the latest
  start of validity, and \<open>ErrNotFound\<close> exactly when the device has none, in whatever order the map
  is visited.\<close>

theorem CertificateByDevice_spec:
  "case CertificateByDevice d m of
     Inl e \<Rightarrow> e = ErrNotFound \<and> (\<forall>c. c \<in> set (vals (m_certificates m)) \<longrightarrow> c_DeviceID c \<noteq> d)
   | Inr c \<Rightarrow> c \<in> set (vals (m_certificates m)) \<and> c_DeviceID c = d \<and>
       (\<forall>c'. c' \<in> set (vals (m_certificates m)) \<longrightarrow> c_DeviceID c' = d \<longrightarrow> c_NotBefore c' \<le> c_NotBefore c)"
proof (cases "latest (\<lambda>c. c_DeviceID c = d) c_NotBefore None (vals (m_certificates m))")
  case None
  moreover from None have "\<forall>c \<in> set (vals (m_certificates m)). c_DeviceID c \<noteq> d"
    by (simp only: latest_None_iff simp_thms)
  ultimately show ?thesis by (auto simp: CertificateByDevice_def)
next
  case (Some c)
  with latest_SomeE [OF Some] show ?thesis by (simp add: CertificateByDevice_def)
qed

theorem CertificateByDevice_spec_witness:
  "CertificateByDevice ''d'' (NewMemory\<lparr>m_certificates :=
      [(''a'', certificate_zero\<lparr>c_DeviceID := ''d'', c_NotBefore := 9\<rparr>),
       (''b'', certificate_zero\<lparr>c_DeviceID := ''d'', c_NotBefore := 4\<rparr>)]\<rparr>) =
     Inr (certificate_zero\<lparr>c_DeviceID := ''d'', c_NotBefore := 9\<rparr>) \<and>
   (case CertificateByDevice ''e'' NewMemory of Inl e \<Rightarrow> e = ErrNotFound | Inr c \<Rightarrow> False)"
  using CertificateByDevice_spec [where d = "''e''" and m = NewMemory]
  by (simp add: CertificateByDevice_def certificate_zero_def NewMemory_def)

text \<open>The audit log is append-only under every sequence of store calls, and \<open>AuditEvents\<close>
  returns the most recent entries in order: its result is a suffix of the log, of the requested
  length when the log has that many and the whole log when it has fewer or the limit is not
  positive.\<close>

theorem audit_append_only:
  assumes "mem_steps m m'"
  shows "\<exists>new older. m_audit m' = m_audit m @ new \<and> m_audit m' = older @ AuditEvents limit m' \<and>
    int (length (AuditEvents limit m')) =
      (if limit \<le> 0 then int (length (m_audit m')) else min limit (int (length (m_audit m'))))"
proof -
  obtain new where "m_audit m' = m_audit m @ new"
    using mem_steps_le [OF assms] by (auto simp: mem_le_def)
  moreover have "\<exists>older. m_audit m' = older @ AuditEvents limit m'"
    unfolding AuditEvents_def Let_def by (metis append_take_drop_id)
  ultimately show ?thesis by (auto simp: AuditEvents_def Let_def)
qed

theorem audit_append_only_witness:
  "AuditEvents 1 (Append ''b'' 2 audit_zero (Append ''a'' 1 audit_zero NewMemory)) =
     [audit_zero\<lparr>ev_ID := ''evt_62'', ev_Time := 2\<rparr>]"
proof -
  let ?m = "Append ''b'' 2 audit_zero (Append ''a'' 1 audit_zero NewMemory)"
  have "mem_steps (Append ''a'' 1 audit_zero NewMemory) ?m"
    by (rule r_into_rtranclp, rule step_Append)
  from audit_append_only [OF this, of 1] have "length (AuditEvents 1 ?m) = 1"
    by (auto simp: Append_def NewMemory_def)
  then show ?thesis
    by (simp add: AuditEvents_def Append_def NewMemory_def ID_def hex_encode_def hex_byte_def
        hex_digit_def)
qed

end
