(* ===== verification/Base64.thy ===== *)
theory Base64
  imports GoLib
begin

section \<open>Unpadded base64, as \<open>encoding/base64\<close> does it\<close>

text \<open>
  \<open>base64.RawURLEncoding\<close> carries the three parts of a session token and the generated super-admin
  password; \<open>base64.RawStdEncoding\<close> carries the salt and the key of a stored password hash. Both are
  instances of one encoder and decoder over an alphabet of 64 characters. The decoder skips line
  breaks and, like Go's default (not \<open>Strict\<close>) mode, ignores the unused low bits of the last
  character.
\<close>

definition url_alphabet :: string where
  "url_alphabet = ''ABCDEFGHIJKLMNOPQRSTUVWXYZabcdefghijklmnopqrstuvwxyz0123456789-_''"

definition std_alphabet :: string where
  "std_alphabet = ''ABCDEFGHIJKLMNOPQRSTUVWXYZabcdefghijklmnopqrstuvwxyz0123456789+/''"

definition b64_char :: "string \<Rightarrow> nat \<Rightarrow> char" where
  "b64_char alpha n = alpha ! n"

fun index_of :: "char \<Rightarrow> string \<Rightarrow> nat option" where
  "index_of c [] = None"
| "index_of c (x # xs) = (if x = c then Some 0 else map_option Suc (index_of c xs))"

fun b64_encode :: "string \<Rightarrow> bytes \<Rightarrow> string" where
  "b64_encode al [] = []"
| "b64_encode al [a] =
     (let x = of_char a in [b64_char al (x div 4), b64_char al ((x mod 4) * 16)])"
| "b64_encode al [a, b] =
     (let x = of_char a; y = of_char b in
      [b64_char al (x div 4), b64_char al ((x mod 4) * 16 + y div 16),
       b64_char al ((y mod 16) * 4)])"
| "b64_encode al (a # b # c # r) =
     (let x = of_char a; y = of_char b; z = of_char c in
      [b64_char al (x div 4), b64_char al ((x mod 4) * 16 + y div 16),
       b64_char al ((y mod 16) * 4 + z div 64), b64_char al (z mod 64)] @ b64_encode al r)"

fun b64_groups :: "nat list \<Rightarrow> bytes option" where
  "b64_groups [] = Some []"
| "b64_groups [p] = None"
| "b64_groups [p, q] = Some [char_of (p * 4 + q div 16)]"
| "b64_groups [p, q, r] =
     Some [char_of (p * 4 + q div 16), char_of ((q mod 16) * 16 + r div 4)]"
| "b64_groups (p # q # r # t # rest) =
     map_option (\<lambda>bs. [char_of (p * 4 + q div 16), char_of ((q mod 16) * 16 + r div 4),
                       char_of ((r mod 4) * 64 + t)] @ bs) (b64_groups rest)"

definition b64_decode :: "string \<Rightarrow> string \<Rightarrow> bytes option" where
  "b64_decode al s =
     (let cs = map (\<lambda>c. index_of c al) (filter (\<lambda>c. of_char c \<notin> {10, 13 :: nat}) s)
      in if None \<in> set cs then None else b64_groups (map the cs))"

subsection \<open>Decoding undoes encoding\<close>

lemma index_of_nth: "distinct al \<Longrightarrow> n < length al \<Longrightarrow> index_of (al ! n) al = Some n"
  by (induction al arbitrary: n) (auto simp: nth_Cons split: nat.splits)

text \<open>What the round trip needs of an alphabet: 64 different characters, no line break.\<close>

definition good_alphabet :: "string \<Rightarrow> bool" where
  "good_alphabet al \<longleftrightarrow>
     length al = 64 \<and> distinct al \<and> list_all (\<lambda>c. of_char c \<notin> {10, 13 :: nat}) al"

lemma good_url_alphabet [simp]: "good_alphabet url_alphabet"
  by (simp add: good_alphabet_def url_alphabet_def)

lemma good_std_alphabet [simp]: "good_alphabet std_alphabet"
  by (simp add: good_alphabet_def std_alphabet_def)

lemma b64_char_in: "good_alphabet al \<Longrightarrow> n < 64 \<Longrightarrow> b64_char al n \<in> set al"
  by (simp add: b64_char_def good_alphabet_def)

lemma sextet_bounds:
  fixes x y z :: nat
  assumes "x < 256" "y < 256" "z < 256"
  shows "x div 4 < 64" "x mod 4 * 16 < 64" "x mod 4 * 16 + y div 16 < 64"
    "y mod 16 * 4 < 64" "y mod 16 * 4 + z div 64 < 64" "z mod 64 < 64"
  using assms by (simp_all add: less_mult_imp_div_less)

text \<open>The sextets the encoder writes, before the alphabet is applied.\<close>

fun sextets :: "bytes \<Rightarrow> nat list" where
  "sextets [] = []"
| "sextets [a] = [of_char a div 4, (of_char a mod 4) * 16]"
| "sextets [a, b] =
     [of_char a div 4, (of_char a mod 4) * 16 + of_char b div 16, (of_char b mod 16) * 4]"
| "sextets (a # b # c # r) =
     [of_char a div 4, (of_char a mod 4) * 16 + of_char b div 16,
      (of_char b mod 16) * 4 + of_char c div 64, of_char c mod 64] @ sextets r"

lemma b64_encode_sextets: "b64_encode al bs = map (b64_char al) (sextets bs)"
  by (induction al bs rule: b64_encode.induct) (simp_all add: Let_def)

lemma sextets_lt: "n \<in> set (sextets bs) \<Longrightarrow> n < 64"
  by (induction bs rule: sextets.induct)
     (auto intro: sextet_bounds [OF of_char_lt_256 of_char_lt_256 of_char_lt_256])

text \<open>The high bits of a byte that the decoder splits off again.\<close>

lemma byte_parts:
  fixes c :: char
  shows "(of_char c :: nat) div 16 div 16 = 0" "(of_char c :: nat) div 16 mod 16 = of_char c div 16"
    "(of_char c :: nat) div 64 div 4 = 0" "(of_char c :: nat) div 64 mod 4 = of_char c div 64"
proof -
  have "(of_char c :: nat) div 16 < 16" "(of_char c :: nat) div 64 < 4"
    using of_char_lt_256 [of c] by linarith+
  then show "(of_char c :: nat) div 16 div 16 = 0"
    "(of_char c :: nat) div 16 mod 16 = of_char c div 16"
    "(of_char c :: nat) div 64 div 4 = 0" "(of_char c :: nat) div 64 mod 4 = of_char c div 64"
    by simp_all
qed

lemma groups_sextets: "b64_groups (sextets bs) = Some bs"
  by (induction bs rule: sextets.induct) (simp_all add: byte_parts)

lemma b64_roundtrip: "good_alphabet al \<Longrightarrow> b64_decode al (b64_encode al bs) = Some bs"
proof -
  assume al: "good_alphabet al"
  have dec: "index_of (b64_char al n) al = Some n" if "n \<in> set (sextets bs)" for n
    using al sextets_lt [OF that] by (simp add: index_of_nth b64_char_def good_alphabet_def)
  have keep: "of_char (b64_char al n) \<notin> {10, 13 :: nat}" if "n \<in> set (sextets bs)" for n
    using al b64_char_in [OF al sextets_lt [OF that]]
    by (auto simp: good_alphabet_def list_all_iff)
  have "filter (\<lambda>c. of_char c \<notin> {10, 13 :: nat}) (b64_encode al bs) = b64_encode al bs"
    using keep by (auto simp: b64_encode_sextets filter_id_conv)
  moreover have "map (\<lambda>c. index_of c al) (b64_encode al bs) = map Some (sextets bs)"
    using dec by (simp add: b64_encode_sextets)
  ultimately show ?thesis
    by (simp add: b64_decode_def Let_def image_iff groups_sextets comp_def)
qed

lemma b64_encode_alphabet: "good_alphabet al \<Longrightarrow> set (b64_encode al bs) \<subseteq> set al"
  using b64_char_in sextets_lt by (auto simp: b64_encode_sextets)

lemma url_encode_no_dot: "CHR ''.'' \<notin> set (b64_encode url_alphabet bs)"
  using b64_encode_alphabet [OF good_url_alphabet, of bs] by (auto simp: url_alphabet_def)

lemma std_encode_no_dollar: "CHR ''$'' \<notin> set (b64_encode std_alphabet bs)"
  using b64_encode_alphabet [OF good_std_alphabet, of bs] by (auto simp: std_alphabet_def)

end
