(* ===== verification/GoStd.thy ===== *)
theory GoStd
  imports GoLib
begin

section \<open>Go's calendar and path functions\<close>

text \<open>
  \<open>time.Time.Year\<close>, \<open>Month\<close> and \<open>Format(time.RFC3339)\<close> in the proleptic Gregorian calendar, and
  \<open>path.Base\<close>, \<open>filepath.Clean\<close>, \<open>filepath.Join\<close> and \<open>filepath.Dir\<close> on slash-separated paths. A
  time is nanoseconds since 1 January of year 1; a zone is its offset east of UTC in seconds.
\<close>

subsection \<open>Calendar\<close>

text \<open>The civil date of a day number counted from 1 January of year 1, by way of years that start on
  1 March (day 306 of year 1 counts from the start of the March year 0).\<close>

definition civil :: "int \<Rightarrow> int \<times> int \<times> int" where
  "civil days =
     (let z = days + 306;
          era = z div 146097;
          doe = z mod 146097;
          yoe = (doe - doe div 1460 + doe div 36524 - doe div 146096) div 365;
          doy = doe - (365 * yoe + yoe div 4 - yoe div 100);
          mp = (5 * doy + 2) div 153;
          d = doy - (153 * mp + 2) div 5 + 1;
          mo = (if mp < 10 then mp + 3 else mp - 9);
          y = yoe + era * 400
      in (if mo \<le> 2 then y + 1 else y, mo, d))"

definition day_of :: "time \<Rightarrow> int \<Rightarrow> int" where
  "day_of t zone = (t div second + zone) div 86400"

definition Year :: "time \<Rightarrow> int \<Rightarrow> int" where
  "Year t zone = fst (civil (day_of t zone))"

definition Month :: "time \<Rightarrow> int \<Rightarrow> int" where
  "Month t zone = fst (snd (civil (day_of t zone)))"

definition Day :: "time \<Rightarrow> int \<Rightarrow> int" where
  "Day t zone = snd (snd (civil (day_of t zone)))"

text \<open>\<open>%04d\<close> as the time formatter pads a year.\<close>

definition dec04 :: "int \<Rightarrow> string" where
  "dec04 i = (let s = dec_int i in replicate (4 - length s) (CHR ''0'') @ s)"

definition zone_text :: "int \<Rightarrow> string" where
  "zone_text zone =
     (if zone = 0 then ''Z''
      else (if zone < 0 then ''-'' else ''+'') @ dec02 (abs zone div 3600) @ '':''
             @ dec02 (abs zone mod 3600 div 60))"

definition Format_RFC3339 :: "time \<Rightarrow> int \<Rightarrow> string" where
  "Format_RFC3339 t zone =
     (let (y, mo, d) = civil (day_of t zone);
          s = (t div second + zone) mod 86400
      in dec04 y @ ''-'' @ dec02 mo @ ''-'' @ dec02 d @ ''T'' @ dec02 (s div 3600) @ '':''
           @ dec02 (s mod 3600 div 60) @ '':'' @ dec02 (s mod 60) @ zone_text zone)"

text \<open>The times \<open>encoding/json\<close> can write.\<close>

definition json_time :: "time \<Rightarrow> bool" where
  "json_time t \<longleftrightarrow> 0 \<le> Year t 0 \<and> Year t 0 \<le> 9999"

subsection \<open>Paths\<close>

fun intercalate :: "string \<Rightarrow> string list \<Rightarrow> string" where
  "intercalate sep [] = []"
| "intercalate sep [x] = x"
| "intercalate sep (x # y # r) = x @ sep @ intercalate sep (y # r)"

text \<open>One pass over the segments of a path; the list holds the segments kept so far, last first.\<close>

fun clean_segs :: "bool \<Rightarrow> string list \<Rightarrow> string list \<Rightarrow> string list" where
  "clean_segs rooted out [] = rev out"
| "clean_segs rooted out (x # xs) =
     (if x = [] \<or> x = ''.'' then clean_segs rooted out xs
      else if x = ''..'' then
        (case out of
           y # out' \<Rightarrow> if y \<noteq> ''..'' then clean_segs rooted out' xs
                      else if rooted then clean_segs rooted out xs
                      else clean_segs rooted (x # out) xs
         | [] \<Rightarrow> if rooted then clean_segs rooted out xs else clean_segs rooted (x # out) xs)
      else clean_segs rooted (x # out) xs)"

definition Clean :: "string \<Rightarrow> string" where
  "Clean p =
     (if p = [] then ''.''
      else let rooted = (hd p = CHR ''/'');
               segs = clean_segs rooted [] (Split p (CHR ''/''))
           in if rooted then ''/'' @ intercalate ''/'' segs
              else if segs = [] then ''.'' else intercalate ''/'' segs)"

text \<open>\<open>filepath.Join\<close> of two elements, the first not empty; \<open>filepath.Dir\<close>.\<close>

definition Join2 :: "string \<Rightarrow> string \<Rightarrow> string" where
  "Join2 a b = (if a = [] then (if b = [] then [] else Clean b)
                else if b = [] then Clean a else Clean (a @ ''/'' @ b))"

definition Dir :: "string \<Rightarrow> string" where
  "Dir p = Clean (rev (dropWhile (\<lambda>c. c \<noteq> CHR ''/'') (rev p)))"

text \<open>\<open>path.Base\<close>.\<close>

definition Base :: "string \<Rightarrow> string" where
  "Base p =
     (if p = [] then ''.''
      else let q = TrimRight p (CHR ''/'');
               b = rev (takeWhile (\<lambda>c. c \<noteq> CHR ''/'') (rev q))
           in if b = [] then ''/'' else b)"

text \<open>\<open>strings.ReplaceAll\<close> of one character by another.\<close>

definition ReplaceAll1 :: "string \<Rightarrow> char \<Rightarrow> char \<Rightarrow> string" where
  "ReplaceAll1 s a b = map (\<lambda>c. if c = a then b else c) s"

subsection \<open>Segments of a cleaned path\<close>

text \<open>A segment that cleaning leaves alone.\<close>

definition plain_seg :: "string \<Rightarrow> bool" where
  "plain_seg x \<longleftrightarrow> x \<noteq> [] \<and> x \<noteq> ''.'' \<and> x \<noteq> ''..'' \<and> CHR ''/'' \<notin> set x"

lemma Split_seg_no_sep: "x \<in> set (Split s c) \<Longrightarrow> c \<notin> set x"
  by (induction s arbitrary: x) (auto split: list.splits if_splits)

lemma clean_segs_rooted_plain:
  "list_all plain_seg out \<Longrightarrow> \<forall>x \<in> set xs. CHR ''/'' \<notin> set x \<Longrightarrow>
     list_all plain_seg (clean_segs True out xs)"
proof (induction xs arbitrary: out)
  case Nil
  then show ?case by (simp add: list_all_iff)
next
  case (Cons x xs)
  then have rec: "list_all plain_seg o' \<Longrightarrow> list_all plain_seg (clean_segs True o' xs)" for o' by simp
  have px: "x \<noteq> [] \<Longrightarrow> x \<noteq> ''.'' \<Longrightarrow> x \<noteq> ''..'' \<Longrightarrow> plain_seg x"
    using Cons.prems by (simp add: plain_seg_def)
  have dots: "plain_seg a \<Longrightarrow> a \<noteq> ''..''" for a by (simp add: plain_seg_def)
  from Cons.prems show ?case by (cases out) (simp_all add: rec px dots)
qed

lemma clean_segs_plain: "list_all plain_seg xs \<Longrightarrow> clean_segs b out xs = rev out @ xs"
  by (induction xs arbitrary: out) (auto simp: plain_seg_def)

lemma Split_intercalate:
  "xs \<noteq> [] \<Longrightarrow> \<forall>x \<in> set xs. c \<notin> set x \<Longrightarrow> Split (intercalate [c] xs) c = xs"
proof (induction "[c]" xs rule: intercalate.induct)
  case (2 x)
  then show ?case by (simp add: Split_no_sep)
next
  case (3 x y r)
  then show ?case by (simp add: Split_append_sep)
qed simp

lemma intercalate_append:
  "xs \<noteq> [] \<Longrightarrow> ys \<noteq> [] \<Longrightarrow> intercalate sep (xs @ ys) = intercalate sep xs @ sep @ intercalate sep ys"
proof (induction sep xs rule: intercalate.induct)
  case (2 sep x)
  then show ?case by (cases ys) auto
qed auto

lemma intercalate_cases [case_names Nil one more]:
  "(xs = [] \<Longrightarrow> P) \<Longrightarrow> (\<And>x. xs = [x] \<Longrightarrow> P) \<Longrightarrow> (\<And>x y r. xs = x # y # r \<Longrightarrow> P) \<Longrightarrow> P"
  by (metis list.exhaust)

lemma intercalate_plain_inj:
  assumes "list_all plain_seg xs" "list_all plain_seg ys"
    and "intercalate ''/'' xs = intercalate ''/'' ys"
  shows "xs = ys"
proof -
  have ns: "list_all plain_seg zs \<Longrightarrow> zs \<noteq> [] \<Longrightarrow> intercalate ''/'' zs \<noteq> []" for zs
    by (erule contrapos_nn, cases zs rule: intercalate_cases) (simp_all add: plain_seg_def)
  have sp: "list_all plain_seg zs \<Longrightarrow> zs \<noteq> [] \<Longrightarrow> Split (intercalate ''/'' zs) (CHR ''/'') = zs" for zs
    by (rule Split_intercalate) (auto simp: plain_seg_def list_all_iff)
  show ?thesis
  proof (cases "xs = [] \<or> ys = []")
    case True
    then show ?thesis using assms ns [of xs] ns [of ys] by (cases xs; cases ys) simp_all
  next
    case False
    then show ?thesis using assms sp [of xs] sp [of ys] by metis
  qed
qed

lemma Clean_rooted:
  assumes "list_all plain_seg xs" "xs \<noteq> []"
  shows "Clean (''/'' @ intercalate ''/'' xs) = ''/'' @ intercalate ''/'' xs"
proof -
  have "Split (intercalate ''/'' xs) (CHR ''/'') = xs"
    by (rule Split_intercalate) (use assms in \<open>auto simp: plain_seg_def list_all_iff\<close>)
  then show ?thesis using assms by (simp add: Clean_def Let_def clean_segs_plain)
qed

lemma intercalate_Split: "intercalate [c] (Split k c) = k"
proof (induction k)
  case (Cons x k)
  then show ?case by (cases "Split k c"; cases "tl (Split k c)") auto
qed simp

end
