(* ===== verification/Lib.thy ===== *)
theory Lib
  imports Base64 GoStd
begin

section \<open>The code the sources only call\<close>

text \<open>
  Cryptography, X.509 and PEM parsing, JSON and the third-party PDF signature library are not under
  the repository's sources. They are fields of the record \<open>lib\<close>, an argument of every definition that
  uses them; a theorem that depends on documented behaviour of one of them states it as a hypothesis.
  The parsed values the sources read, an X.509 certificate, a certificate request, a revocation list
  and one signature found in a PDF, are records of exactly the fields that are read.
\<close>

text \<open>\<open>auth.Claims\<close>.\<close>

record claims =
  cl_Sub :: string
  cl_Role :: string
  cl_Exp :: int
  cl_Iat :: int

definition claims_zero :: claims where
  "claims_zero = \<lparr>cl_Sub = [], cl_Role = [], cl_Exp = 0, cl_Iat = 0\<rparr>"

text \<open>A public key as a type switch sees it: an ML-DSA key with its parameter set, or another type.\<close>

datatype public_key = MLDSAKey (params: string) (key_bytes: bytes) | OtherKey bytes

text \<open>A serial number is a \<open>*big.Int\<close>, possibly nil. A name is what its \<open>String\<close> method gives.\<close>

record x509cert =
  x_Raw :: bytes
  x_Subject :: string
  x_Issuer :: string
  x_SerialNumber :: "int option"
  x_PublicKeyAlgorithm :: string
  x_SignatureAlgorithm :: string
  x_NotBefore :: time
  x_NotAfter :: time
  x_IsCA :: bool
  x_UnknownExtKeyUsage :: "nat list list"
  x_PublicKey :: public_key

record x509csr =
  q_Raw :: bytes
  q_Subject :: string
  q_PublicKeyAlgorithm :: string
  q_PublicKey :: public_key

record x509crl =
  rl_Raw :: bytes
  rl_ThisUpdate :: time
  rl_NextUpdate :: time
  rl_Entries :: "(int option \<times> time) list"

text \<open>One signature as \<open>pdfsign\<close> reports it. An entry of the error lists may be nil. \<open>p_SigningZone\<close>
  is the zone of the signing time.\<close>

record pdf_signature =
  p_Valid :: bool
  p_TrustedChain :: bool
  p_Revoked :: bool
  p_TimestampValid :: bool
  p_Reason :: string
  p_Contact :: string
  p_Warnings :: "string option list"
  p_Errors :: "string option list"
  p_SigningTime :: time
  p_SigningZone :: int
  p_Certificate :: "x509cert option"

text \<open>A call into the PDF parser returns after some time, panics after some time, or never ends.\<close>

datatype 'a run = Returns duration 'a | Panics duration string | Diverges

text \<open>The settings of the verifier: trusted roots, validation time, ML-DSA only, external checks.\<close>

record pdf_settings =
  ps_Roots :: "x509cert list"
  ps_At :: time
  ps_MLDSAOnly :: bool
  ps_External :: bool

text \<open>What the QR stamp uses: 64-bit floating point arithmetic (a \<open>float64\<close> is its bit pattern), the
  JSON codec of the placements and of the page description, the QR encoder, the fonts, the PNG encoder
  and \<open>pdfcpu\<close>. A call of these returns or panics. A rectangle is its corners; a font face is the font,
  its size and whether it is hinted.\<close>

type_synonym float64 = "64 word"

datatype 'a call = Ret 'a | Panic string

datatype color = White | RGBA nat nat nat nat

record font_face =
  fc_bold :: bool
  fc_size :: float64
  fc_hinted :: bool

type_synonym rect = "int \<times> int \<times> int \<times> int"

datatype draw_op = Fill rect color | QRImage rect bytes | DrawText font_face color int int string

record cp_image =
  cp_Src :: string
  cp_Pos :: "float64 \<times> float64"
  cp_Width :: float64
  cp_Height :: float64

record cpu_context =
  cx_Catalog :: "(string \<rightharpoonup> bytes) result"
  cx_Objects :: bytes

record stamp_lib =
  fl_lit :: "string \<Rightarrow> float64"
  fl_of_int :: "int \<Rightarrow> float64"
  fl_to_int :: "float64 \<Rightarrow> int"
  fl_add :: "float64 \<Rightarrow> float64 \<Rightarrow> float64"
  fl_sub :: "float64 \<Rightarrow> float64 \<Rightarrow> float64"
  fl_mul :: "float64 \<Rightarrow> float64 \<Rightarrow> float64"
  fl_div :: "float64 \<Rightarrow> float64 \<Rightarrow> float64"
  fl_lt :: "float64 \<Rightarrow> float64 \<Rightarrow> bool"
  fl_le :: "float64 \<Rightarrow> float64 \<Rightarrow> bool"
  fl_Max :: "float64 \<Rightarrow> float64 \<Rightarrow> float64"
  fl_Round :: "float64 \<Rightarrow> float64"
  fl_Parse :: "string \<Rightarrow> float64 option"
  st_unmarshal :: "string \<Rightarrow> (int \<times> float64 \<times> float64 \<times> float64) list option"
  st_marshal :: "(string, cp_image list) gomap \<Rightarrow> bytes result"
  st_qrcode :: "string \<Rightarrow> int \<Rightarrow> bytes result"
  st_face_ok :: "font_face \<Rightarrow> bool"
  st_width :: "font_face \<Rightarrow> string \<Rightarrow> int"
  st_height :: "font_face \<Rightarrow> int"
  st_png :: "int \<Rightarrow> int \<Rightarrow> draw_op list \<Rightarrow> bytes result"
  cpu_PageCount :: "bytes \<Rightarrow> int result call"
  cpu_PageDims :: "bytes \<Rightarrow> ((float64 \<times> float64) list \<times> error option) call"
  cpu_ReadContext :: "bytes \<Rightarrow> cpu_context result call"
  cpu_WriteContext :: "cpu_context \<Rightarrow> bytes result call"
  cpu_Create :: "bytes \<Rightarrow> bytes \<Rightarrow> bytes result call"
  st_Jakarta :: "(time \<Rightarrow> int) option"

record lib =
  L_sha256 :: "bytes \<Rightarrow> bytes"
  L_sha512 :: "bytes \<Rightarrow> bytes"
  L_hmac_sha256 :: "bytes \<Rightarrow> bytes \<Rightarrow> bytes"
  L_argon2id :: "bytes \<Rightarrow> bytes \<Rightarrow> nat \<Rightarrow> nat \<Rightarrow> nat \<Rightarrow> nat \<Rightarrow> bytes"
  L_marshal_claims :: "claims \<Rightarrow> bytes"
  L_unmarshal_claims :: "bytes \<Rightarrow> claims option"
  L_decode_json :: "string list \<Rightarrow> bytes \<Rightarrow> (string \<Rightarrow> string) \<times> bool"
  L_pem_decode :: "bytes \<Rightarrow> (string \<times> bytes \<times> bytes) option"
  L_ParseCertificate :: "bytes \<Rightarrow> x509cert result"
  L_ParseCertificateRequest :: "bytes \<Rightarrow> x509csr result"
  L_csr_CheckSignature :: "x509csr \<Rightarrow> error option"
  L_ParseRevocationList :: "bytes \<Rightarrow> x509crl result"
  L_crl_CheckSignatureFrom :: "x509crl \<Rightarrow> x509cert \<Rightarrow> error option"
  L_MarshalPKIXPublicKey :: "public_key \<Rightarrow> bytes result"
  L_CertsFromPEM :: "bytes \<Rightarrow> x509cert list"
  L_cert_Verify :: "x509cert \<Rightarrow> x509cert list \<Rightarrow> x509cert list \<Rightarrow> time \<Rightarrow> x509cert list list result"
  L_pdf_Open :: "bytes \<Rightarrow> (error option) run"
  L_pdf_Signatures :: "bytes \<Rightarrow> pdf_settings \<Rightarrow> (error option \<times> pdf_signature list) run"
  L_local_zone :: "time \<Rightarrow> int"
  L_stamp :: stamp_lib

text \<open>\<open>AppendCertsFromPEM\<close> reports whether it found any certificate.\<close>

definition AppendCertsFromPEM :: "lib \<Rightarrow> bytes \<Rightarrow> bool" where
  "AppendCertsFromPEM L b \<longleftrightarrow> L_CertsFromPEM L b \<noteq> []"

text \<open>A library for the witnesses: hashes that keep their input, a JSON codec for claims that is
  read back, nothing that parses.\<close>

definition demo_claims_code :: "claims \<Rightarrow> bytes" where
  "demo_claims_code c = cl_Sub c @ ''|'' @ cl_Role c @ ''|'' @ dec_int (cl_Exp c) @ ''|'' @ dec_int (cl_Iat c)"

definition demo_claims_decode :: "bytes \<Rightarrow> claims option" where
  "demo_claims_decode b =
     (case Split b (CHR ''|'') of
        [s, r, e, i] \<Rightarrow> Some \<lparr>cl_Sub = s, cl_Role = r, cl_Exp = ParseInt64 e, cl_Iat = ParseInt64 i\<rparr>
      | _ \<Rightarrow> None)"

definition demo_stamp_lib :: stamp_lib where
  "demo_stamp_lib = \<lparr>
     fl_lit = (\<lambda>s. word_of_nat (length s)), fl_of_int = word_of_int, fl_to_int = uint,
     fl_add = (+), fl_sub = (-), fl_mul = (*), fl_div = (div), fl_lt = (<), fl_le = (\<le>),
     fl_Max = max, fl_Round = (\<lambda>x. x), fl_Parse = (\<lambda>s. None),
     st_unmarshal = (\<lambda>s. None), st_marshal = (\<lambda>d. Inr (concat (map fst d))),
     st_qrcode = (\<lambda>s n. Inr s), st_face_ok = (\<lambda>f. True),
     st_width = (\<lambda>f s. int (length s)), st_height = (\<lambda>f. 1),
     st_png = (\<lambda>w h ops. Inr ''png''),
     cpu_PageCount = (\<lambda>b. Ret (Inr 1)), cpu_PageDims = (\<lambda>b. Ret ([(100, 100)], None)),
     cpu_ReadContext = (\<lambda>b. Ret (Inl (Errorf ''no context''))),
     cpu_WriteContext = (\<lambda>c. Ret (Inl (Errorf ''no context''))),
     cpu_Create = (\<lambda>b d. Ret (Inr (b @ d))), st_Jakarta = None\<rparr>"

definition demo_lib :: lib where
  "demo_lib = \<lparr>
     L_sha256 = (\<lambda>b. b), L_sha512 = (\<lambda>b. b), L_hmac_sha256 = (\<lambda>k b. k @ b),
     L_argon2id = (\<lambda>pw salt t m p n. take n (pw @ salt @ replicate n (CHR ''0''))),
     L_marshal_claims = demo_claims_code, L_unmarshal_claims = demo_claims_decode,
     L_decode_json = (\<lambda>fs b. (\<lambda>f. [], b \<noteq> [])),
     L_pem_decode = (\<lambda>b. None),
     L_ParseCertificate = (\<lambda>b. Inl (Errorf ''x509: malformed certificate'')),
     L_ParseCertificateRequest = (\<lambda>b. Inl (Errorf ''x509: malformed request'')),
     L_csr_CheckSignature = (\<lambda>q. None),
     L_ParseRevocationList = (\<lambda>b. Inl (Errorf ''x509: malformed crl'')),
     L_crl_CheckSignatureFrom = (\<lambda>l c. None),
     L_MarshalPKIXPublicKey = (\<lambda>k. case k of MLDSAKey p b \<Rightarrow> Inr (p @ b) | OtherKey b \<Rightarrow> Inr b),
     L_CertsFromPEM = (\<lambda>b. []),
     L_cert_Verify = (\<lambda>c rs is t. Inr [[c]]),
     L_pdf_Open = (\<lambda>b. Returns 0 (Some (Errorf ''not a PDF''))),
     L_pdf_Signatures = (\<lambda>b s. Returns 0 (None, [])),
     L_local_zone = (\<lambda>t. 0), L_stamp = demo_stamp_lib\<rparr>"

end
