(* ===== verification/Auth.thy ===== *)
theory Auth
  imports Lib
begin

section \<open>Passwords and session tokens (\<open>server/internal/auth/auth.go\<close>)\<close>

text \<open>
  Argon2id password records and HS256 tokens. The salt and the clock are arguments. \<open>VerifyPassword\<close>
  can panic: \<open>argon2.IDKey\<close> does when the parsed time or parallelism is zero; that is the value None.
\<close>

abbreviation argonTime :: nat where "argonTime \<equiv> 3"
abbreviation argonMemory :: nat where "argonMemory \<equiv> 65536"
abbreviation argonThreads :: nat where "argonThreads \<equiv> 4"
abbreviation argonKeyLen :: nat where "argonKeyLen \<equiv> 32"
abbreviation argonVersion :: nat where "argonVersion \<equiv> 19"

definition HashPassword :: "lib \<Rightarrow> bytes result \<Rightarrow> string \<Rightarrow> string result" where
  "HashPassword L salt password =
     (case salt of
        Inl e \<Rightarrow> Inl e
      | Inr s \<Rightarrow>
          let key = L_argon2id L password s argonTime argonMemory argonThreads argonKeyLen
          in Inr (''$argon2id$v='' @ dec_nat argonVersion @ ''$m='' @ dec_nat argonMemory @ '',t=''
                    @ dec_nat argonTime @ '',p='' @ dec_nat argonThreads @ ''$''
                    @ b64_encode std_alphabet s @ ''$'' @ b64_encode std_alphabet key))"

text \<open>\<open>fmt.Sscanf\<close> with the literals and \<open>%d\<close> verbs the code uses. A \<open>%d\<close> skips white space and
  wants at least one digit, within the width of its target.\<close>

definition scan_lit :: "string \<Rightarrow> string \<Rightarrow> string option" where
  "scan_lit lit s = (if HasPrefix s lit then Some (drop (length lit) s) else None)"

definition scan_d :: "nat \<Rightarrow> string \<Rightarrow> (nat \<times> string) option" where
  "scan_d bits s =
     (let s = concat (dropWhile (\<lambda>r. is_space_rune r \<and> map of_char r \<noteq> [10 :: nat]) (runes s));
          d = takeWhile is_dec s
      in if d = [] \<or> 2 ^ bits \<le> dec_val d then None else Some (dec_val d, dropWhile is_dec s))"

definition scan_params :: "string \<Rightarrow> (nat \<times> nat \<times> nat) option" where
  "scan_params s =
     (case scan_lit ''m='' s of None \<Rightarrow> None | Some s \<Rightarrow>
      (case scan_d 32 s of None \<Rightarrow> None | Some (mem, s) \<Rightarrow>
       (case scan_lit '',t='' s of None \<Rightarrow> None | Some s \<Rightarrow>
        (case scan_d 32 s of None \<Rightarrow> None | Some (t, s) \<Rightarrow>
         (case scan_lit '',p='' s of None \<Rightarrow> None | Some s \<Rightarrow>
          (case scan_d 8 s of None \<Rightarrow> None | Some (p, s) \<Rightarrow> Some (mem, t, p)))))))"

definition VerifyPassword :: "lib \<Rightarrow> string \<Rightarrow> string \<Rightarrow> bool option" where
  "VerifyPassword L password encoded =
     (let parts = Split encoded (CHR ''$'') in
      if length parts \<noteq> 6 \<or> parts ! 1 \<noteq> ''argon2id'' then Some False
      else case scan_params (parts ! 3) of
             None \<Rightarrow> Some False
           | Some (mem, tCost, par) \<Rightarrow>
               (case b64_decode std_alphabet (parts ! 4) of
                  None \<Rightarrow> Some False
                | Some salt \<Rightarrow>
                    (case b64_decode std_alphabet (parts ! 5) of
                       None \<Rightarrow> Some False
                     | Some want \<Rightarrow>
                         if tCost < 1 \<or> par < 1 then None
                         else Some (L_argon2id L password salt tCost mem par
                                      (length want mod 2 ^ 32) = want))))"

subsection \<open>HS256 tokens\<close>

record signer =
  sg_secret :: bytes
  sg_ttl :: duration

definition NewSigner :: "bytes \<Rightarrow> duration \<Rightarrow> signer" where
  "NewSigner secret ttl = \<lparr>sg_secret = secret, sg_ttl = (if ttl \<le> 0 then 15 * minute else ttl)\<rparr>"

definition TTL :: "signer \<Rightarrow> duration" where
  "TTL s = sg_ttl s"

definition mac :: "lib \<Rightarrow> signer \<Rightarrow> string \<Rightarrow> string" where
  "mac L s msg = b64_encode url_alphabet (L_hmac_sha256 L (sg_secret s) msg)"

text \<open>\<open>b64json(map[string]string{"alg": "HS256", "typ": "JWT"})\<close>: the marshalled map, keys sorted.\<close>

definition jwt_header_json :: bytes where
  "jwt_header_json =
     (CHR 0x7B # CHR 0x22 # ''alg'' @ CHR 0x22 # CHR 0x3A # CHR 0x22 # ''HS256'' @
      CHR 0x22 # CHR 0x2C # CHR 0x22 # ''typ'' @ CHR 0x22 # CHR 0x3A # CHR 0x22 # ''JWT'' @
      CHR 0x22 # [CHR 0x7D])"

definition jwt_header :: string where
  "jwt_header = b64_encode url_alphabet jwt_header_json"

definition issued_claims :: "signer \<Rightarrow> time \<Rightarrow> string \<Rightarrow> string \<Rightarrow> claims" where
  "issued_claims s now accountID role =
     \<lparr>cl_Sub = accountID, cl_Role = role, cl_Exp = Unix (now + sg_ttl s), cl_Iat = Unix now\<rparr>"

definition Issue :: "lib \<Rightarrow> signer \<Rightarrow> time \<Rightarrow> string \<Rightarrow> string \<Rightarrow> string" where
  "Issue L s now accountID role =
     (let payload = b64_encode url_alphabet (L_marshal_claims L (issued_claims s now accountID role));
          signing = jwt_header @ ''.'' @ payload
      in signing @ ''.'' @ mac L s signing)"

definition Parse :: "lib \<Rightarrow> signer \<Rightarrow> time \<Rightarrow> string \<Rightarrow> claims result" where
  "Parse L s now token =
     (let parts = Split token (CHR ''.'') in
      if length parts \<noteq> 3 then Inl ErrInvalidToken
      else if parts ! 2 \<noteq> mac L s (parts ! 0 @ ''.'' @ parts ! 1) then Inl ErrInvalidToken
      else case b64_decode url_alphabet (parts ! 1) of
             None \<Rightarrow> Inl ErrInvalidToken
           | Some raw \<Rightarrow>
               (case L_unmarshal_claims L raw of
                  None \<Rightarrow> Inl ErrInvalidToken
                | Some c \<Rightarrow> if cl_Exp c \<le> Unix now then Inl ErrInvalidToken else Inr c))"

subsection \<open>The pieces the round trips need\<close>

lemma dec_nat_const [simp]:
  "dec_nat 19 = ''19''" "dec_nat 65536 = ''65536''" "dec_nat 3 = ''3''" "dec_nat 4 = ''4''"
  by (simp_all add: dec_nat.simps dec_digit_def)

lemma scan_params_const: "scan_params ''m=65536,t=3,p=4'' = Some (65536, 3, 4)"
  by (simp add: scan_params_def scan_lit_def scan_d_def HasPrefix_def runes.simps rune_len_def
      byte_in_def cont_def is_space_rune_def is_dec_def dec_val_def Let_def)

lemma Split_hash:
  "Split (''$argon2id$v=19$m=65536,t=3,p=4$'' @ b64_encode std_alphabet s @ ''$'' @
      b64_encode std_alphabet k) (CHR ''$'') =
   [[], ''argon2id'', ''v=19'', ''m=65536,t=3,p=4'', b64_encode std_alphabet s,
    b64_encode std_alphabet k]"
  using std_encode_no_dollar [of s] std_encode_no_dollar [of k]
  by (simp add: Split_append_sep Split_no_sep)

lemma Split_token:
  "Split (b64_encode url_alphabet a @ ''.'' @ b64_encode url_alphabet b @ ''.'' @
      b64_encode url_alphabet c) (CHR ''.'') =
   [b64_encode url_alphabet a, b64_encode url_alphabet b, b64_encode url_alphabet c]"
  using url_encode_no_dot by (simp add: Split_append_sep Split_no_sep)

subsection \<open>The contract of the tokens\<close>

text \<open>What the HTTP layer relies on, under the hypothesis \<open>ok\<close> on the JSON codec: a token is accepted
  until it expires and then gives back the account and role it was issued for, and it is not empty.\<close>

locale session_tokens =
  fixes issue :: "time \<Rightarrow> string \<Rightarrow> string \<Rightarrow> string"
    and parse :: "time \<Rightarrow> string \<Rightarrow> claims result"
    and expiry :: "time \<Rightarrow> int"
    and ok :: bool
  assumes issue_nonempty: "issue t acc role \<noteq> []"
    and parse_live: "ok \<Longrightarrow> Unix now < expiry t \<Longrightarrow>
          \<exists>c. parse now (issue t acc role) = Inr c \<and> cl_Sub c = acc \<and> cl_Role c = role"
    and parse_dead: "ok \<Longrightarrow> expiry t \<le> Unix now \<Longrightarrow> parse now (issue t acc role) = Inl ErrInvalidToken"
begin

lemma parse_issued_iff:
  assumes ok
  shows "(\<exists>c. parse now (issue t acc role) = Inr c) \<longleftrightarrow> Unix now < expiry t"
  using assms parse_live parse_dead [of t now acc role]
  by (cases "expiry t \<le> Unix now") (fastforce simp: not_le)+

lemma bearer_accepted:
  assumes ok "Unix now < expiry t"
  shows "TrimPrefix (''Bearer '' @ issue t acc role) ''Bearer '' \<noteq> []"
    and "TrimPrefix (''Bearer '' @ issue t acc role) ''Bearer '' \<noteq> ''Bearer '' @ issue t acc role"
    and "\<exists>c. parse now (TrimPrefix (''Bearer '' @ issue t acc role) ''Bearer '') = Inr c \<and>
           cl_Sub c = acc \<and> cl_Role c = role"
  unfolding TrimPrefix_append using assms issue_nonempty parse_live by simp_all

end

text \<open>The codec reads back what it wrote for this token.\<close>

definition codec_ok :: "lib \<Rightarrow> bool" where
  "codec_ok L \<longleftrightarrow> (\<forall>c. L_unmarshal_claims L (L_marshal_claims L c) = Some c)"

lemma Parse_Issue_cases:
  assumes "L_unmarshal_claims L (L_marshal_claims L (issued_claims s t acc role)) =
             Some (issued_claims s t acc role)"
  shows "Parse L s now (Issue L s t acc role) =
    (if Unix now < Unix (t + sg_ttl s) then Inr (issued_claims s t acc role) else Inl ErrInvalidToken)"
proof -
  let ?p = "b64_encode url_alphabet (L_marshal_claims L (issued_claims s t acc role))"
  have "Split (Issue L s t acc role) (CHR ''.'') =
      [jwt_header, ?p, mac L s (jwt_header @ ''.'' @ ?p)]"
    using Split_token unfolding Issue_def Let_def mac_def jwt_header_def by simp
  with assms show ?thesis
    by (simp add: Parse_def Let_def b64_roundtrip) (simp add: issued_claims_def)
qed

interpretation jwt: session_tokens "Issue L s" "Parse L s" "\<lambda>t. Unix (t + sg_ttl s)" "codec_ok L"
  for L s
  by unfold_locales
     (simp_all add: Parse_Issue_cases codec_ok_def, simp_all add: Issue_def Let_def issued_claims_def)

subsection \<open>Properties\<close>

lemma VerifyPassword_hash:
  assumes "HashPassword L (Inr salt) pw = Inr enc"
    and "length (L_argon2id L pw salt argonTime argonMemory argonThreads argonKeyLen) = argonKeyLen"
  shows "VerifyPassword L pw enc = Some True \<and>
    VerifyPassword L pw' enc =
      Some (L_argon2id L pw' salt argonTime argonMemory argonThreads argonKeyLen =
            L_argon2id L pw salt argonTime argonMemory argonThreads argonKeyLen)"
proof -
  let ?k = "L_argon2id L pw salt argonTime argonMemory argonThreads argonKeyLen"
  have enc: "enc = ''$argon2id$v=19$m=65536,t=3,p=4$'' @ b64_encode std_alphabet salt @ ''$'' @
      b64_encode std_alphabet ?k"
    using assms(1) by (simp add: HashPassword_def Let_def)
  have "VerifyPassword L q enc =
      Some (L_argon2id L q salt argonTime argonMemory argonThreads argonKeyLen = ?k)" for q
    unfolding VerifyPassword_def enc Split_hash
    using assms(2) by (simp add: Let_def scan_params_const b64_roundtrip)
  then show ?thesis by simp
qed

text \<open>C30: A password record checks exactly the password it was made from: \<open>VerifyPassword\<close> never
  panics on a record that \<open>HashPassword\<close> wrote, accepts the password, and accepts another one only
  if Argon2id derives the same key from it with the same salt.\<close>

theorem password_roundtrip:
  assumes "HashPassword L (Inr salt) pw = Inr enc"
    and "length (L_argon2id L pw salt argonTime argonMemory argonThreads argonKeyLen) = argonKeyLen"
  shows "VerifyPassword L pw enc = Some True \<and>
    VerifyPassword L pw' enc =
      Some (L_argon2id L pw' salt argonTime argonMemory argonThreads argonKeyLen =
            L_argon2id L pw salt argonTime argonMemory argonThreads argonKeyLen)"
  using assms by (rule VerifyPassword_hash)

theorem password_roundtrip_witness:
  "VerifyPassword demo_lib ''secret99'' (projr (HashPassword demo_lib (Inr ''salt'') ''secret99'')) = Some True"
  using password_roundtrip [of demo_lib "''salt''" "''secret99''"]
  by (simp add: HashPassword_def demo_lib_def Let_def)

text \<open>A session token is accepted exactly until its expiry second and then carries the account
  and the role it was issued for; from the expiry on it is rejected.\<close>

theorem token_roundtrip:
  assumes "L_unmarshal_claims L (L_marshal_claims L (issued_claims s t acc role)) =
             Some (issued_claims s t acc role)"
  shows "Parse L s now (Issue L s t acc role) =
    (if Unix now < Unix (t + sg_ttl s)
     then Inr \<lparr>cl_Sub = acc, cl_Role = role, cl_Exp = Unix (t + sg_ttl s), cl_Iat = Unix t\<rparr>
     else Inl ErrInvalidToken)"
  using Parse_Issue_cases [OF assms] by (simp add: issued_claims_def)

theorem token_roundtrip_witness:
  "Parse demo_lib (NewSigner ''k'' (5 * second)) (62135596803 * second)
     (Issue demo_lib (NewSigner ''k'' (5 * second)) (62135596801 * second) ''acct_1'' ''user'') =
   Inr \<lparr>cl_Sub = ''acct_1'', cl_Role = ''user'', cl_Exp = 6, cl_Iat = 1\<rparr>"
  by (subst token_roundtrip)
     (simp_all add: demo_lib_def demo_claims_code_def demo_claims_decode_def issued_claims_def
       NewSigner_def Unix_def second_def dec_int_def dec_nat.simps dec_digit_def ParseInt64_def
       is_dec_def byte_in_def dec_val_def)

lemma Parse_InrD:
  assumes "Parse L s now tok = Inr c"
  shows "\<exists>h p raw. tok = h @ ''.'' @ p @ ''.'' @ mac L s (h @ ''.'' @ p) \<and>
    b64_decode url_alphabet p = Some raw \<and> L_unmarshal_claims L raw = Some c \<and> Unix now < cl_Exp c"
proof -
  let ?parts = "Split tok (CHR ''.'')"
  have len: "length ?parts = 3" using assms by (auto simp: Parse_def Let_def split: if_splits)
  then obtain h p m where parts: "?parts = [h, p, m]"
    by (auto simp: numeral_3_eq_3 length_Suc_conv)
  have "tok = intercalate ''.'' ?parts" by (simp add: intercalate_Split)
  with parts have tok: "tok = h @ ''.'' @ p @ ''.'' @ m" by simp
  with assms parts show ?thesis
    by (intro exI [of _ h] exI [of _ p] exI [of _ "the (b64_decode url_alphabet p)"])
       (auto simp: Parse_def Let_def split: if_splits option.splits)
qed

text \<open>C11: A token that the server accepts carries a MAC under the server's secret over exactly the
  header and payload it is read from, decodes to the claims it yields and has not expired: changing
  any byte of the signature part, or of the other parts without the matching MAC, makes it invalid.\<close>

theorem accepted_token_is_authentic:
  assumes "Parse L s now tok = Inr c"
  shows "\<exists>h p raw. tok = h @ ''.'' @ p @ ''.'' @ mac L s (h @ ''.'' @ p) \<and>
    b64_decode url_alphabet p = Some raw \<and> L_unmarshal_claims L raw = Some c \<and> Unix now < cl_Exp c"
  using assms by (rule Parse_InrD)

theorem accepted_token_is_authentic_witness:
  "\<exists>h p raw. Issue demo_lib (NewSigner ''k'' 0) 0 ''a'' ''user'' =
      h @ ''.'' @ p @ ''.'' @ mac demo_lib (NewSigner ''k'' 0) (h @ ''.'' @ p) \<and>
    b64_decode url_alphabet p = Some raw \<and>
    L_unmarshal_claims demo_lib raw = Some (issued_claims (NewSigner ''k'' 0) 0 ''a'' ''user'')"
proof -
  let ?s = "NewSigner ''k'' 0"
  have "L_unmarshal_claims demo_lib (L_marshal_claims demo_lib (issued_claims ?s 0 ''a'' ''user'')) =
      Some (issued_claims ?s 0 ''a'' ''user'')"
    by (simp add: demo_lib_def demo_claims_code_def demo_claims_decode_def issued_claims_def
       NewSigner_def Unix_def second_def minute_def dec_int_def dec_nat.simps dec_digit_def
       ParseInt64_def is_dec_def byte_in_def dec_val_def)
  then have "Parse demo_lib ?s 0 (Issue demo_lib ?s 0 ''a'' ''user'') =
      Inr (issued_claims ?s 0 ''a'' ''user'')"
    by (subst Parse_Issue_cases) (simp_all add: NewSigner_def Unix_def second_def minute_def)
  from accepted_token_is_authentic [OF this] show ?thesis by blast
qed

end
