(* ===== verification/Certutil.thy ===== *)
theory Certutil
  imports Lib
begin

section \<open>X.509 material (\<open>core/certutil\<close>, \<open>core/enrollment\<close>, \<open>core/keys\<close>, \<open>core/hashutil\<close>)\<close>

text \<open>
  Parsing and profile checks of certificates, requests and revocation lists, all trust decisions
  against an explicit root. The loops over PEM blocks carry fuel, one unit per byte of input. A block
  consumes at least one byte, so the fuel never runs out on non-empty input: under that hypothesis
  (\<open>pem_progress\<close>) the functions satisfy the loops' own equations with no fuel in them.
\<close>

subsection \<open>Hashes and fingerprints\<close>

definition CalculateSHA512 :: "lib \<Rightarrow> bytes \<Rightarrow> string" where
  "CalculateSHA512 L b = hex_encode (L_sha512 L b)"

text \<open>A reader is what it yields, then its error if it has one.\<close>

definition CalculateSHA512Reader :: "lib \<Rightarrow> bytes \<times> error option \<Rightarrow> string result" where
  "CalculateSHA512Reader L r = (case snd r of Some e \<Rightarrow> Inl e | None \<Rightarrow> Inr (hex_encode (L_sha512 L (fst r))))"

definition FingerprintSHA256 :: "lib \<Rightarrow> x509cert \<Rightarrow> string" where
  "FingerprintSHA256 L c = hex_encode (L_sha256 L (x_Raw c))"

definition PublicKeyFingerprint :: "lib \<Rightarrow> public_key \<Rightarrow> string result" where
  "PublicKeyFingerprint L pub =
     (case L_MarshalPKIXPublicKey L pub of
        Inl e \<Rightarrow> Inl (Errorf (''keys: fingerprint: '' @ Error e))
      | Inr der \<Rightarrow> Inr (hex_encode (L_sha256 L der)))"

text \<open>\<open>%x\<close> of a serial number; a nil \<open>*big.Int\<close> prints as \<open><nil>\<close>.\<close>

definition serial_hex :: "int option \<Rightarrow> string" where
  "serial_hex s = (case s of None \<Rightarrow> ''<nil>'' | Some i \<Rightarrow> hex_int i)"

subsection \<open>PEM loops\<close>

fun ParseCertificatePEM_loop :: "lib \<Rightarrow> nat \<Rightarrow> bytes \<Rightarrow> x509cert result" where
  "ParseCertificatePEM_loop L 0 b = Inl (Errorf ''certutil: no CERTIFICATE block found'')"
| "ParseCertificatePEM_loop L (Suc n) b =
     (case L_pem_decode L b of
        None \<Rightarrow> Inl (Errorf ''certutil: no CERTIFICATE block found'')
      | Some (ty, block, rest) \<Rightarrow>
          if ty = ''CERTIFICATE'' then L_ParseCertificate L block
          else ParseCertificatePEM_loop L n rest)"

definition ParseCertificatePEM :: "lib \<Rightarrow> bytes \<Rightarrow> x509cert result" where
  "ParseCertificatePEM L b = ParseCertificatePEM_loop L (length b) b"

fun ParseChainPEM_loop :: "lib \<Rightarrow> nat \<Rightarrow> bytes \<Rightarrow> x509cert list result" where
  "ParseChainPEM_loop L 0 rest = Inr []"
| "ParseChainPEM_loop L (Suc n) rest =
     (case L_pem_decode L rest of
        None \<Rightarrow> Inr []
      | Some (ty, block, rest) \<Rightarrow>
          if ty \<noteq> ''CERTIFICATE'' then ParseChainPEM_loop L n rest
          else case L_ParseCertificate L block of
                 Inl e \<Rightarrow> Inl (Errorf (''certutil: parse certificate: '' @ Error e))
               | Inr c \<Rightarrow> map_sum id (Cons c) (ParseChainPEM_loop L n rest))"

definition ParseChainPEM :: "lib \<Rightarrow> bytes \<Rightarrow> x509cert list result" where
  "ParseChainPEM L b =
     (case ParseChainPEM_loop L (length b) b of
        Inl e \<Rightarrow> Inl e
      | Inr out \<Rightarrow> if out = [] then Inl (Errorf ''certutil: chain contains no certificates'') else Inr out)"

text \<open>\<open>pem.Decode\<close> returns the input after the block it found.\<close>

definition pem_progress :: "lib \<Rightarrow> bool" where
  "pem_progress L \<longleftrightarrow> (\<forall>b ty block rest. L_pem_decode L b = Some (ty, block, rest) \<longrightarrow> length rest < length b)"

lemma pem_progressD: "pem_progress L \<Longrightarrow> L_pem_decode L b = Some (ty, block, rest) \<Longrightarrow> length rest < length b"
  by (auto simp: pem_progress_def)

lemma ParseCertificatePEM_fuel:
  "pem_progress L \<Longrightarrow> length b \<le> n \<Longrightarrow>
     ParseCertificatePEM_loop L n b = ParseCertificatePEM_loop L (length b) b"
proof (induction n arbitrary: b rule: less_induct)
  case (less n)
  show ?case
  proof (cases "L_pem_decode L b")
    case None
    then show ?thesis by (cases n; cases "length b") simp_all
  next
    case (Some a)
    obtain ty block rest where a: "a = (ty, block, rest)" by (cases a)
    with Some less.prems have lt: "length rest < length b" by (simp add: pem_progressD)
    then obtain k m where k: "length b = Suc k" and m: "n = Suc m"
      using less.prems by (cases "length b"; cases n) auto
    have "ParseCertificatePEM_loop L m rest = ParseCertificatePEM_loop L (length rest) rest"
      and "ParseCertificatePEM_loop L k rest = ParseCertificatePEM_loop L (length rest) rest"
      using less.IH [of m rest] less.IH [of k rest] less.prems lt k m by simp_all
    with Some a k m show ?thesis by simp
  qed
qed

lemma ParseChainPEM_fuel:
  "pem_progress L \<Longrightarrow> length b \<le> n \<Longrightarrow> ParseChainPEM_loop L n b = ParseChainPEM_loop L (length b) b"
proof (induction n arbitrary: b rule: less_induct)
  case (less n)
  show ?case
  proof (cases "L_pem_decode L b")
    case None
    then show ?thesis by (cases n; cases "length b") simp_all
  next
    case (Some a)
    obtain ty block rest where a: "a = (ty, block, rest)" by (cases a)
    with Some less.prems have lt: "length rest < length b" by (simp add: pem_progressD)
    then obtain k m where k: "length b = Suc k" and m: "n = Suc m"
      using less.prems by (cases "length b"; cases n) auto
    have "ParseChainPEM_loop L m rest = ParseChainPEM_loop L (length rest) rest"
      and "ParseChainPEM_loop L k rest = ParseChainPEM_loop L (length rest) rest"
      using less.IH [of m rest] less.IH [of k rest] less.prems lt k m by simp_all
    with Some a k m show ?thesis by (simp split: sum.splits)
  qed
qed

subsection \<open>Certificates\<close>

abbreviation OIDDocumentSigningEKU :: "nat list" where
  "OIDDocumentSigningEKU \<equiv> [1, 3, 6, 1, 5, 5, 7, 3, 36]"

definition HasDocumentSigningEKU :: "x509cert \<Rightarrow> bool" where
  "HasDocumentSigningEKU c \<longleftrightarrow> list_ex (\<lambda>oid. oid = OIDDocumentSigningEKU) (x_UnknownExtKeyUsage c)"

record cert_info =
  ci_Subject :: string
  ci_Issuer :: string
  ci_SerialNumber :: string
  ci_FingerprintSHA256 :: string
  ci_PublicKeyAlgorithm :: string
  ci_SignatureAlgorithm :: string
  ci_NotBefore :: time
  ci_NotAfter :: time
  ci_IsCA :: bool
  ci_HasDocumentSigning :: bool

definition Describe :: "lib \<Rightarrow> x509cert \<Rightarrow> cert_info" where
  "Describe L c = \<lparr>ci_Subject = x_Subject c, ci_Issuer = x_Issuer c,
     ci_SerialNumber = serial_hex (x_SerialNumber c),
     ci_FingerprintSHA256 = FingerprintSHA256 L c,
     ci_PublicKeyAlgorithm = x_PublicKeyAlgorithm c,
     ci_SignatureAlgorithm = x_SignatureAlgorithm c,
     ci_NotBefore = x_NotBefore c, ci_NotAfter = x_NotAfter c, ci_IsCA = x_IsCA c,
     ci_HasDocumentSigning = HasDocumentSigningEKU c\<rparr>"

definition IsMLDSA :: "x509cert \<Rightarrow> bool" where
  "IsMLDSA c \<longleftrightarrow> (case x_PublicKey c of MLDSAKey p b \<Rightarrow> True | OtherKey b \<Rightarrow> False)"

definition ParseAndValidateCertificate :: "lib \<Rightarrow> bytes \<Rightarrow> time \<Rightarrow> (x509cert \<times> cert_info) result" where
  "ParseAndValidateCertificate L b at =
     (case ParseCertificatePEM L b of
        Inl e \<Rightarrow> Inl e
      | Inr c \<Rightarrow>
          if \<not> IsMLDSA c then
            Inl (Errorf (''certutil: device certificate must be ML-DSA, got '' @ x_PublicKeyAlgorithm c))
          else if at < x_NotBefore c \<or> x_NotAfter c < at then
            Inl (Errorf (''certutil: certificate not valid at '' @ Format_RFC3339 at (L_local_zone L at)
              @ '' (validity '' @ Format_RFC3339 (x_NotBefore c) 0 @ ''..''
              @ Format_RFC3339 (x_NotAfter c) 0 @ '')''))
          else if x_IsCA c then Inl (Errorf ''certutil: device certificate must not be a CA'')
          else if \<not> HasDocumentSigningEKU c then
            Inl (Errorf ''certutil: device certificate is missing id-kp-documentSigning EKU (1.3.6.1.5.5.7.3.36)'')
          else Inr (c, Describe L c))"

record chain_result =
  cr_Chains :: "x509cert list list"
  cr_TrustedChain :: bool
  cr_Error :: "error option"

definition ValidateCertificateChain ::
    "lib \<Rightarrow> x509cert \<Rightarrow> x509cert list \<Rightarrow> bytes \<Rightarrow> time \<Rightarrow> chain_result" where
  "ValidateCertificateChain L leaf intermediates rootPEM at =
     (if \<not> AppendCertsFromPEM L rootPEM then
        \<lparr>cr_Chains = [], cr_TrustedChain = False,
         cr_Error = Some (Errorf ''certutil: no valid certificates in root PEM'')\<rparr>
      else
        let inter = filter (\<lambda>c. x_Raw c \<noteq> x_Raw leaf) intermediates in
        (case L_cert_Verify L leaf (L_CertsFromPEM L rootPEM) inter at of
           Inl e \<Rightarrow> \<lparr>cr_Chains = [], cr_TrustedChain = False, cr_Error = Some e\<rparr>
         | Inr chs \<Rightarrow> \<lparr>cr_Chains = chs, cr_TrustedChain = (0 < length chs), cr_Error = None\<rparr>))"

subsection \<open>Revocation lists\<close>

record crl_status =
  cs_Checked :: bool
  cs_Revoked :: bool
  cs_RevokedAt :: time
  cs_ThisUpdate :: time
  cs_NextUpdate :: time
  cs_Stale :: bool
  cs_SignatureOK :: bool

definition crl_status_zero :: crl_status where
  "crl_status_zero = \<lparr>cs_Checked = False, cs_Revoked = False, cs_RevokedAt = zero_time,
     cs_ThisUpdate = zero_time, cs_NextUpdate = zero_time, cs_Stale = False, cs_SignatureOK = False\<rparr>"

definition serialEqual :: "int option \<Rightarrow> int option \<Rightarrow> bool" where
  "serialEqual a b \<longleftrightarrow> (case (a, b) of (Some x, Some y) \<Rightarrow> x = y | _ \<Rightarrow> False)"

definition pem_or_der :: "lib \<Rightarrow> bytes \<Rightarrow> bytes" where
  "pem_or_der L b = (case L_pem_decode L b of None \<Rightarrow> b | Some (ty, block, rest) \<Rightarrow> block)"

definition ValidateCRL :: "lib \<Rightarrow> bytes \<Rightarrow> x509cert option \<Rightarrow> x509cert \<Rightarrow> time \<Rightarrow>
    crl_status \<times> error option" where
  "ValidateCRL L crlBytes issuer target now =
     (case L_ParseRevocationList L (pem_or_der L crlBytes) of
        Inl e \<Rightarrow> (crl_status_zero, Some (Errorf (''certutil: parse CRL: '' @ Error e)))
      | Inr crl \<Rightarrow>
          let st = crl_status_zero\<lparr>cs_Checked := True, cs_ThisUpdate := rl_ThisUpdate crl,
                     cs_NextUpdate := rl_NextUpdate crl,
                     cs_Stale := (\<not> IsZero (rl_NextUpdate crl) \<and> rl_NextUpdate crl < now)\<rparr>;
              sigerr = (case issuer of None \<Rightarrow> None | Some i \<Rightarrow> L_crl_CheckSignatureFrom L crl i)
          in (case sigerr of
                Some e \<Rightarrow> (st, Some (Errorf (''certutil: CRL not signed by expected issuer: '' @ Error e)))
              | None \<Rightarrow>
                  let st = (if issuer \<noteq> None then st\<lparr>cs_SignatureOK := True\<rparr> else st)
                  in (case find (\<lambda>en. serialEqual (fst en) (x_SerialNumber target)) (rl_Entries crl) of
                        None \<Rightarrow> (st, None)
                      | Some en \<Rightarrow> (st\<lparr>cs_Revoked := True, cs_RevokedAt := snd en\<rparr>, None))))"

subsection \<open>Certificate requests\<close>

record csr_info =
  qi_Subject :: string
  qi_PublicKeyAlgorithm :: string
  qi_PublicKeyFP :: string
  qi_ProofOfPossession :: bool

definition ParseAndValidateCSR :: "lib \<Rightarrow> bytes \<Rightarrow> (x509csr \<times> csr_info) result" where
  "ParseAndValidateCSR L csrPEM =
     (case L_ParseCertificateRequest L (pem_or_der L csrPEM) of
        Inl e \<Rightarrow> Inl (Errorf (''enrollment: parse CSR: '' @ Error e))
      | Inr csr \<Rightarrow>
          (case L_csr_CheckSignature L csr of
             Some e \<Rightarrow> Inl (Errorf (''enrollment: CSR proof-of-possession failed: '' @ Error e))
           | None \<Rightarrow>
               (case q_PublicKey csr of
                  OtherKey b \<Rightarrow>
                    Inl (Errorf (''enrollment: CSR public key must be ML-DSA, got '' @ q_PublicKeyAlgorithm csr))
                | MLDSAKey p b \<Rightarrow>
                    if p \<noteq> ''ML-DSA-65'' then
                      Inl (Errorf (''enrollment: CSR public key must be ML-DSA-65, got '' @ p))
                    else
                      (case PublicKeyFingerprint L (MLDSAKey p b) of
                         Inl e \<Rightarrow> Inl e
                       | Inr fp \<Rightarrow>
                           Inr (csr, \<lparr>qi_Subject = q_Subject csr, qi_PublicKeyAlgorithm = ''ML-DSA-65'',
                                      qi_PublicKeyFP = fp, qi_ProofOfPossession = True\<rparr>)))))"

text \<open>What an accepted certificate and an accepted request satisfy.\<close>

lemma ParseAndValidateCertificate_InrD:
  assumes "ParseAndValidateCertificate L b at = Inr (c, info)"
  shows "ParseCertificatePEM L b = Inr c" "info = Describe L c" "IsMLDSA c"
    "x_NotBefore c \<le> at" "at \<le> x_NotAfter c" "\<not> x_IsCA c" "HasDocumentSigningEKU c"
  using assms by (auto simp: ParseAndValidateCertificate_def split: sum.splits if_splits)

lemma ParseAndValidateCSR_InrD:
  assumes "ParseAndValidateCSR L b = Inr (csr, info)"
  shows "L_ParseCertificateRequest L (pem_or_der L b) = Inr csr" "L_csr_CheckSignature L csr = None"
    "\<exists>kb. q_PublicKey csr = MLDSAKey ''ML-DSA-65'' kb"
    "PublicKeyFingerprint L (q_PublicKey csr) = Inr (qi_PublicKeyFP info)"
  using assms
  by (auto simp: ParseAndValidateCSR_def split: sum.splits option.splits public_key.splits if_splits)

subsection \<open>Properties\<close>

text \<open>The PEM loops end and do what their code says: with \<open>pem.Decode\<close> consuming input, the
  certificate parser satisfies the equation of its loop (skip blocks of other types, parse the first
  \<open>CERTIFICATE\<close> block), with no fuel left in the statement.\<close>

theorem ParseCertificatePEM_loop_equation:
  assumes "pem_progress L"
  shows "ParseCertificatePEM L b =
    (case L_pem_decode L b of
       None \<Rightarrow> Inl (Errorf ''certutil: no CERTIFICATE block found'')
     | Some (ty, block, rest) \<Rightarrow>
         if ty = ''CERTIFICATE'' then L_ParseCertificate L block else ParseCertificatePEM L rest)"
proof (cases "L_pem_decode L b")
  case None
  then show ?thesis by (cases "length b") (simp_all add: ParseCertificatePEM_def)
next
  case (Some a)
  obtain ty block rest where a: "a = (ty, block, rest)" by (cases a)
  with Some assms have "length rest < length b" by (simp add: pem_progressD)
  then obtain k where k: "length b = Suc k" "length rest \<le> k" by (cases "length b") auto
  with Some a ParseCertificatePEM_fuel [OF assms k(2)] show ?thesis
    by (simp add: ParseCertificatePEM_def)
qed

text \<open>A toy PEM: one byte of type, one byte of content per block.\<close>

definition demo_pem :: "bytes \<Rightarrow> (string \<times> bytes \<times> bytes) option" where
  "demo_pem b = (case b of t # c # r \<Rightarrow> Some (if t = CHR ''C'' then ''CERTIFICATE'' else ''OTHER'', [c], r) | _ \<Rightarrow> None)"

definition demo_cert :: x509cert where
  "demo_cert = \<lparr>x_Raw = ''raw'', x_Subject = ''CN=leaf'', x_Issuer = ''CN=ca'', x_SerialNumber = Some 255,
     x_PublicKeyAlgorithm = ''ML-DSA'', x_SignatureAlgorithm = ''ML-DSA'', x_NotBefore = 1, x_NotAfter = 100,
     x_IsCA = False, x_UnknownExtKeyUsage = [OIDDocumentSigningEKU],
     x_PublicKey = MLDSAKey ''ML-DSA-65'' ''pk''\<rparr>"

definition demo_csr :: x509csr where
  "demo_csr = \<lparr>q_Raw = ''q'', q_Subject = ''CN=me'', q_PublicKeyAlgorithm = ''ML-DSA'',
     q_PublicKey = MLDSAKey ''ML-DSA-65'' ''pk''\<rparr>"

definition demo_pki :: lib where
  "demo_pki = demo_lib\<lparr>L_pem_decode := demo_pem, L_ParseCertificate := (\<lambda>b. Inr demo_cert),
     L_ParseCertificateRequest := (\<lambda>b. Inr demo_csr), L_CertsFromPEM := (\<lambda>b. [demo_cert])\<rparr>"

lemma demo_pki_progress: "pem_progress demo_pki"
  by (auto simp: pem_progress_def demo_pki_def demo_pem_def split: list.splits)

theorem ParseCertificatePEM_loop_equation_witness:
  "ParseCertificatePEM demo_pki ''xyCz'' = Inr demo_cert"
  using ParseCertificatePEM_loop_equation [OF demo_pki_progress, of "''xyCz''"]
    ParseCertificatePEM_loop_equation [OF demo_pki_progress, of "''Cz''"]
  by (simp add: demo_pki_def demo_pem_def)

end
