(* ===== verification/Verification.thy ===== *)
theory Verification
  imports Certutil
begin

section \<open>Verification of a signed PDF (\<open>core/verification/verify.go\<close>)\<close>

text \<open>
  \<open>VerifyPDF\<close> is hardened against a hostile PDF: the third-party parser may panic or loop. A call that
  never returns is the value None, so that a bound on the running time is a theorem and not an
  assumption. The instant of \<open>time.Now\<close> is the argument \<open>now\<close>.
\<close>

record voptions =
  vo_RootPEM :: bytes
  vo_IntermediatePEM :: bytes
  vo_CRLPEM :: bytes
  vo_RequireMLDSAOnly :: bool
  vo_At :: time
  vo_AllowExternalRevocation :: bool
  vo_Timeout :: duration

abbreviation MaxPDFBytes :: int where "MaxPDFBytes \<equiv> 67108864"

record sig_result =
  sr_Valid :: bool
  sr_Algorithm :: string
  sr_CertificateSerial :: string
  sr_CertificateFingerprint :: string
  sr_Subject :: string
  sr_TrustedChain :: bool
  sr_Revoked :: bool
  sr_ClientClaimedSigningTime :: string
  sr_TimestampValid :: bool
  sr_Warnings :: "string list"
  sr_Errors :: "string list"
  sr_Reason :: string
  sr_Contact :: string

abbreviation PublicIDPrefix :: string where "PublicIDPrefix \<equiv> ''pqc-public-id:''"

definition PublicID :: "sig_result \<Rightarrow> string" where
  "PublicID s =
     (if length PublicIDPrefix < length (sr_Contact s)
         \<and> take (length PublicIDPrefix) (sr_Contact s) = PublicIDPrefix
      then drop (length PublicIDPrefix) (sr_Contact s) else [])"

record vresult =
  vr_Valid :: bool
  vr_DocumentSHA512 :: string
  vr_Signatures :: "sig_result list"
  vr_Errors :: "string list"

subsection \<open>One signature\<close>

definition algorithmName :: "x509cert \<Rightarrow> string" where
  "algorithmName c = (if IsMLDSA c then ''ML-DSA-65'' else x_PublicKeyAlgorithm c)"

definition errStrings :: "string option list \<Rightarrow> string list" where
  "errStrings errs = map the (filter (\<lambda>e. e \<noteq> None) errs)"

definition crlIssuerFor :: "x509cert \<Rightarrow> x509cert list \<Rightarrow> x509cert option" where
  "crlIssuerFor signer inters = find (\<lambda>c. x_Subject c = x_Issuer signer) inters"

definition sig_base :: "pdf_signature \<Rightarrow> sig_result" where
  "sig_base s = \<lparr>sr_Valid = p_Valid s, sr_Algorithm = [], sr_CertificateSerial = [],
     sr_CertificateFingerprint = [], sr_Subject = [], sr_TrustedChain = p_TrustedChain s,
     sr_Revoked = p_Revoked s,
     sr_ClientClaimedSigningTime =
       (if IsZero (p_SigningTime s) then [] else Format_RFC3339 (p_SigningTime s) (p_SigningZone s)),
     sr_TimestampValid = p_TimestampValid s, sr_Warnings = errStrings (p_Warnings s),
     sr_Errors = errStrings (p_Errors s), sr_Reason = p_Reason s, sr_Contact = p_Contact s\<rparr>"

text \<open>The offline CRL check of one signature.\<close>

definition crl_check :: "lib \<Rightarrow> bytes \<Rightarrow> x509cert list \<Rightarrow> x509cert \<Rightarrow> time \<Rightarrow> sig_result \<Rightarrow> sig_result" where
  "crl_check L crl extraInter c at sr =
     (let (st, err) = ValidateCRL L crl (crlIssuerFor c extraInter) c at in
      case err of
        Some e \<Rightarrow> sr\<lparr>sr_Warnings := sr_Warnings sr @ [''CRL check failed: '' @ Error e]\<rparr>
      | None \<Rightarrow>
          if cs_Revoked st then
            sr\<lparr>sr_Revoked := True, sr_Valid := False,
               sr_Errors := sr_Errors sr @ [''signer certificate is revoked (CRL)'']\<rparr>
          else if cs_Stale st then
            sr\<lparr>sr_Warnings := sr_Warnings sr @
               [''CRL is stale (past nextUpdate '' @ Format_RFC3339 (cs_NextUpdate st) 0 @ '')'']\<rparr>
          else sr)"

definition check_signature :: "lib \<Rightarrow> voptions \<Rightarrow> x509cert list \<Rightarrow> time \<Rightarrow> pdf_signature \<Rightarrow> sig_result" where
  "check_signature L o' extraInter at s =
     (let sr = sig_base s in
      case p_Certificate s of
        None \<Rightarrow> sr\<lparr>sr_Valid := False, sr_Errors := sr_Errors sr @ [''no signer certificate in signature'']\<rparr>
      | Some c \<Rightarrow>
          let sr = sr\<lparr>sr_Subject := x_Subject c, sr_CertificateSerial := serial_hex (x_SerialNumber c),
                      sr_CertificateFingerprint := FingerprintSHA256 L c,
                      sr_Algorithm := algorithmName c\<rparr>;
              sr = (if vo_RequireMLDSAOnly o' \<and> \<not> IsMLDSA c
                    then sr\<lparr>sr_Valid := False, sr_Errors := sr_Errors sr @
                           [''signer certificate is not ML-DSA (PQC-only profile)'']\<rparr>
                    else sr)
          in if vo_CRLPEM o' \<noteq> [] then crl_check L (vo_CRLPEM o') extraInter c at sr else sr)"

subsection \<open>The whole document\<close>

text \<open>Time spent in the parser before the next step.\<close>

fun after :: "duration \<Rightarrow> 'a run \<Rightarrow> 'a run" where
  "after d (Returns e x) = Returns (d + e) x"
| "after d (Panics e m) = Panics (d + e) m"
| "after d Diverges = Diverges"

definition finish :: "lib \<Rightarrow> bytes \<Rightarrow> voptions \<Rightarrow> time \<Rightarrow> error option \<times> pdf_signature list \<Rightarrow> vresult" where
  "finish L pdf o' at out =
     (let res = \<lparr>vr_Valid = False, vr_DocumentSHA512 = CalculateSHA512 L pdf, vr_Signatures = [],
                 vr_Errors = []\<rparr>;
          (err, sigs) = out
      in case err of
           Some e \<Rightarrow> res\<lparr>vr_Errors := [Error e]\<rparr>
         | None \<Rightarrow>
             if sigs = [] then res\<lparr>vr_Errors := [''no processable signatures found'']\<rparr>
             else
               let extraInter = (if vo_IntermediatePEM o' = [] then []
                                 else case ParseChainPEM L (vo_IntermediatePEM o') of
                                        Inl e \<Rightarrow> [] | Inr cs \<Rightarrow> cs);
                   srs = map (check_signature L o' extraInter at) sigs
               in res\<lparr>vr_Signatures := srs, vr_Valid := list_all sr_Valid srs\<rparr>)"

definition verifyPDF :: "lib \<Rightarrow> time \<Rightarrow> bytes \<Rightarrow> voptions \<Rightarrow> vresult result run" where
  "verifyPDF L now pdf o' =
     (if pdf = [] then Returns 0 (Inl (Errorf ''verification: empty PDF input''))
      else if vo_RootPEM o' = [] then
        Returns 0 (Inl (Errorf ''verification: RootPEM (explicit trust anchor) is required''))
      else
        let at = (if IsZero (vo_At o') then now else vo_At o') in
        if \<not> AppendCertsFromPEM L (vo_RootPEM o') then
          Returns 0 (Inl (Errorf ''verification: no valid certificates in RootPEM''))
        else case L_pdf_Open L pdf of
               Diverges \<Rightarrow> Diverges
             | Panics d m \<Rightarrow> Panics d m
             | Returns d (Some e) \<Rightarrow> Returns d (Inl (Errorf (''verification: open PDF: '' @ Error e)))
             | Returns d None \<Rightarrow>
                 after d (map_run (\<lambda>out. Inr (finish L pdf o' at out))
                   (L_pdf_Signatures L pdf
                     \<lparr>ps_Roots = L_CertsFromPEM L (vo_RootPEM o'), ps_At = at,
                      ps_MLDSAOnly = vo_RequireMLDSAOnly o',
                      ps_External = vo_AllowExternalRevocation o'\<rparr>)))"

text \<open>\<open>Duration.String\<close>, for the error of the watchdog.\<close>

definition frac_text :: "nat \<Rightarrow> nat \<Rightarrow> string" where
  "frac_text v prec =
     (let ds = dec_nat (v mod 10 ^ prec);
          ds = replicate (prec - length ds) (CHR ''0'') @ ds;
          ds = TrimRight ds (CHR ''0'')
      in if ds = [] then [] else CHR ''.'' # ds)"

definition Duration_String :: "duration \<Rightarrow> string" where
  "Duration_String d =
     (let u = nat (abs d); sign = (if d < 0 then ''-'' else []) in
      if u = 0 then ''0s''
      else if u < 1000 then sign @ dec_nat u @ ''ns''
      else if u < 1000000 then sign @ dec_nat (u div 1000) @ frac_text u 3 @ CHR 0xC2 # CHR 0xB5 # ''s''
      else if u < 1000000000 then sign @ dec_nat (u div 1000000) @ frac_text u 6 @ ''ms''
      else
        let s = u div 1000000000; sec = dec_nat (s mod 60) @ frac_text u 9 @ ''s''; mi = s div 60
        in sign @ (if mi = 0 then sec
                   else if mi div 60 = 0 then dec_nat (mi mod 60) @ ''m'' @ sec
                   else dec_nat (mi div 60) @ ''h'' @ dec_nat (mi mod 60) @ ''m'' @ sec))"

definition recovered :: "string \<Rightarrow> error" where
  "recovered m = Errorf (''verification: recovered from panic parsing PDF: '' @ m)"

definition VerifyPDF :: "lib \<Rightarrow> time \<Rightarrow> bytes \<Rightarrow> voptions \<Rightarrow> vresult result option" where
  "VerifyPDF L now pdf o' =
     (let gave_up = Inl (Errorf (''verification: gave up after '' @ Duration_String (vo_Timeout o')
                                  @ '' (malformed PDF?)''))
      in
      if MaxPDFBytes < int (length pdf) then
        Some (Inl (Errorf (''verification: PDF is '' @ dec_nat (length pdf) @ '' bytes, over the ''
                     @ dec_int MaxPDFBytes @ ''-byte limit'')))
      else if vo_Timeout o' \<le> 0 then
        (case verifyPDF L now pdf o' of
           Returns d r \<Rightarrow> Some r | Panics d m \<Rightarrow> Some (Inl (recovered m)) | Diverges \<Rightarrow> None)
      else
        (case verifyPDF L now pdf o' of
           Returns d r \<Rightarrow> Some (if d < vo_Timeout o' then r else gave_up)
         | Panics d m \<Rightarrow> Some (if d < vo_Timeout o' then Inl (recovered m) else gave_up)
         | Diverges \<Rightarrow> Some gave_up))"

text \<open>\<open>ListPDFSignatures\<close>: no trust decision; \<open>sigs\<close> is what the parser does in its self-signed mode.\<close>

definition ListPDFSignatures :: "lib \<Rightarrow> (bytes \<Rightarrow> pdf_signature list run) \<Rightarrow> bytes \<Rightarrow>
    cert_info list result option" where
  "ListPDFSignatures L sigs pdf =
     (case L_pdf_Open L pdf of
        Diverges \<Rightarrow> None
      | Panics d m \<Rightarrow> Some (Inl (recovered m))
      | Returns d (Some e) \<Rightarrow> Some (Inl (Errorf (''verification: open PDF: '' @ Error e)))
      | Returns d None \<Rightarrow>
          (case sigs pdf of
             Diverges \<Rightarrow> None
           | Panics d m \<Rightarrow> Some (Inl (recovered m))
           | Returns d ss \<Rightarrow> Some (Inr (map (Describe L) (List.map_filter p_Certificate ss)))))"

subsection \<open>What a valid result says\<close>

lemma errStrings_Nil [simp]: "errStrings [] = []"
  by (simp add: errStrings_def)

lemma after_Returns: "after d r = Returns e x \<longleftrightarrow> (\<exists>e'. r = Returns e' x \<and> e = d + e')"
  by (cases r) auto

lemma map_run_Returns: "map_run f r = Returns e x \<longleftrightarrow> (\<exists>y. r = Returns e y \<and> x = f y)"
  by (cases r) auto

lemma verifyPDF_ReturnsD:
  assumes "verifyPDF L now pdf o' = Returns d (Inr vr)"
  shows "\<exists>out e. L_pdf_Signatures L pdf
        \<lparr>ps_Roots = L_CertsFromPEM L (vo_RootPEM o'),
         ps_At = (if IsZero (vo_At o') then now else vo_At o'),
         ps_MLDSAOnly = vo_RequireMLDSAOnly o', ps_External = vo_AllowExternalRevocation o'\<rparr> = Returns e out
      \<and> vr = finish L pdf o' (if IsZero (vo_At o') then now else vo_At o') out
      \<and> AppendCertsFromPEM L (vo_RootPEM o') \<and> pdf \<noteq> []"
  using assms
  by (auto simp: verifyPDF_def Let_def after_Returns map_run_Returns
           split: if_splits run.splits option.splits)

lemma VerifyPDF_InrD:
  assumes "VerifyPDF L now pdf o' = Some (Inr vr)"
  shows "\<exists>d. verifyPDF L now pdf o' = Returns d (Inr vr)" "int (length pdf) \<le> MaxPDFBytes"
  using assms by (auto simp: VerifyPDF_def Let_def split: if_splits run.splits)

text \<open>A signature that passes every check of the loop.\<close>

lemma crl_check_valid:
  assumes "sr_Valid (crl_check L crl ics c at sr)"
  shows "sr_Valid sr \<and> sr_Revoked (crl_check L crl ics c at sr) = sr_Revoked sr \<and>
    \<not> (snd (ValidateCRL L crl (crlIssuerFor c ics) c at) = None \<and>
       cs_Revoked (fst (ValidateCRL L crl (crlIssuerFor c ics) c at)))"
  using assms by (auto simp: crl_check_def Let_def split: prod.splits option.splits if_splits)

lemma crl_check_frame [simp]:
  "sr_Algorithm (crl_check L crl ics c at sr) = sr_Algorithm sr"
  "sr_CertificateSerial (crl_check L crl ics c at sr) = sr_CertificateSerial sr"
  "sr_CertificateFingerprint (crl_check L crl ics c at sr) = sr_CertificateFingerprint sr"
  "sr_TrustedChain (crl_check L crl ics c at sr) = sr_TrustedChain sr"
  "sr_Contact (crl_check L crl ics c at sr) = sr_Contact sr"
  "sr_ClientClaimedSigningTime (crl_check L crl ics c at sr) = sr_ClientClaimedSigningTime sr"
  by (auto simp: crl_check_def Let_def split: prod.splits option.splits)

lemma check_signature_valid:
  assumes "sr_Valid (check_signature L o' ics at s)"
  shows "\<exists>c. p_Certificate s = Some c \<and> p_Valid s \<and>
    sr_CertificateSerial (check_signature L o' ics at s) = serial_hex (x_SerialNumber c) \<and>
    sr_CertificateFingerprint (check_signature L o' ics at s) = FingerprintSHA256 L c \<and>
    sr_Algorithm (check_signature L o' ics at s) = algorithmName c \<and>
    (vo_RequireMLDSAOnly o' \<longrightarrow> IsMLDSA c) \<and>
    (vo_CRLPEM o' \<noteq> [] \<longrightarrow>
       \<not> (snd (ValidateCRL L (vo_CRLPEM o') (crlIssuerFor c ics) c at) = None \<and>
          cs_Revoked (fst (ValidateCRL L (vo_CRLPEM o') (crlIssuerFor c ics) c at))))"
proof (cases "p_Certificate s")
  case None
  with assms show ?thesis by (simp add: check_signature_def Let_def)
next
  case (Some c)
  with assms show ?thesis
    by (auto simp: check_signature_def Let_def sig_base_def split: if_splits dest!: crl_check_valid)
qed

subsection \<open>Properties\<close>

text \<open>C15: With a positive timeout, verification always returns, whatever the PDF makes the parser do:
  a panic and a parser that never ends both become errors, and so does a result that comes too late.\<close>

theorem VerifyPDF_always_returns:
  assumes "0 < vo_Timeout o'"
  shows "\<exists>r. VerifyPDF L now pdf o' = Some r \<and>
    (\<forall>vr. r = Inr vr \<longrightarrow> (\<exists>d. verifyPDF L now pdf o' = Returns d (Inr vr) \<and> d < vo_Timeout o'))"
  using assms by (auto simp: VerifyPDF_def Let_def split: run.splits)

definition demo_options :: voptions where
  "demo_options = \<lparr>vo_RootPEM = ''root'', vo_IntermediatePEM = [], vo_CRLPEM = ''crl'',
     vo_RequireMLDSAOnly = True, vo_At = zero_time, vo_AllowExternalRevocation = False,
     vo_Timeout = 15 * second\<rparr>"

theorem VerifyPDF_always_returns_witness:
  "\<exists>r. VerifyPDF (demo_pki\<lparr>L_pdf_Open := (\<lambda>b. Diverges)\<rparr>) 5 ''%PDF-'' demo_options = Some (Inl r) \<and>
     VerifyPDF (demo_pki\<lparr>L_pdf_Open := (\<lambda>b. Diverges)\<rparr>) 5 ''%PDF-'' (demo_options\<lparr>vo_Timeout := 0\<rparr>) = None"
proof -
  let ?L = "demo_pki\<lparr>L_pdf_Open := (\<lambda>b. Diverges)\<rparr>"
  have div: "verifyPDF ?L 5 ''%PDF-'' (demo_options\<lparr>vo_Timeout := t\<rparr>) = Diverges" for t
    by (simp add: verifyPDF_def demo_options_def Let_def AppendCertsFromPEM_def demo_pki_def)
  have d: "verifyPDF ?L 5 ''%PDF-'' demo_options = Diverges"
    by (simp add: verifyPDF_def demo_options_def Let_def AppendCertsFromPEM_def demo_pki_def)
  obtain r where r: "VerifyPDF ?L 5 ''%PDF-'' demo_options = Some r"
    and ok: "\<And>vr. r = Inr vr \<Longrightarrow> \<exists>d. verifyPDF ?L 5 ''%PDF-'' demo_options = Returns d (Inr vr)"
    using VerifyPDF_always_returns [of demo_options ?L 5 "''%PDF-''"]
    by (auto simp: demo_options_def second_def)
  have "\<exists>e. r = Inl e" using ok d by (cases r) auto
  with r div [of 0] show ?thesis by (auto simp: VerifyPDF_def)
qed

text \<open>C5: A result marked valid means that the document has at least one signature and that every one
  of them was accepted by the PDF library against the configured roots, names its signer's
  certificate, is ML-DSA when the profile asks for it, and is not listed in the supplied CRL whenever
  that CRL parses and is signed by the issuer.\<close>

theorem VerifyPDF_valid_sound:
  assumes "VerifyPDF L now pdf o' = Some (Inr vr)" and "vr_Valid vr"
  defines "at \<equiv> if IsZero (vo_At o') then now else vo_At o'"
  shows "\<exists>sigs ics d. L_pdf_Signatures L pdf
        \<lparr>ps_Roots = L_CertsFromPEM L (vo_RootPEM o'), ps_At = at,
         ps_MLDSAOnly = vo_RequireMLDSAOnly o', ps_External = vo_AllowExternalRevocation o'\<rparr> =
          Returns d (None, sigs) \<and>
      sigs \<noteq> [] \<and> vr_Errors vr = [] \<and> vr_Signatures vr = map (check_signature L o' ics at) sigs \<and>
      list_all (\<lambda>s. p_Valid s \<and> (\<exists>c. p_Certificate s = Some c \<and>
        (vo_RequireMLDSAOnly o' \<longrightarrow> IsMLDSA c) \<and>
        (vo_CRLPEM o' \<noteq> [] \<and> snd (ValidateCRL L (vo_CRLPEM o') (crlIssuerFor c ics) c at) = None \<longrightarrow>
           \<not> cs_Revoked (fst (ValidateCRL L (vo_CRLPEM o') (crlIssuerFor c ics) c at))))) sigs"
proof -
  obtain d where "verifyPDF L now pdf o' = Returns d (Inr vr)"
    using VerifyPDF_InrD [OF assms(1)] by blast
  from verifyPDF_ReturnsD [OF this] obtain err sigs e where
    run: "L_pdf_Signatures L pdf
        \<lparr>ps_Roots = L_CertsFromPEM L (vo_RootPEM o'), ps_At = at,
         ps_MLDSAOnly = vo_RequireMLDSAOnly o', ps_External = vo_AllowExternalRevocation o'\<rparr> =
          Returns e (err, sigs)" and vr: "vr = finish L pdf o' at (err, sigs)"
    unfolding at_def by auto
  define ics where "ics = (if vo_IntermediatePEM o' = [] then []
      else case ParseChainPEM L (vo_IntermediatePEM o') of Inl e \<Rightarrow> [] | Inr cs \<Rightarrow> cs)"
  from assms(2) vr have none: "err = None" and ne: "sigs \<noteq> []"
    by (auto simp: finish_def Let_def split: option.splits if_splits)
  then have srs: "vr_Signatures vr = map (check_signature L o' ics at) sigs" "vr_Errors vr = []"
    and all: "list_all sr_Valid (map (check_signature L o' ics at) sigs)"
    using vr assms(2) by (simp_all add: finish_def Let_def ics_def)
  have "list_all (\<lambda>s. p_Valid s \<and> (\<exists>c. p_Certificate s = Some c \<and>
        (vo_RequireMLDSAOnly o' \<longrightarrow> IsMLDSA c) \<and>
        (vo_CRLPEM o' \<noteq> [] \<and> snd (ValidateCRL L (vo_CRLPEM o') (crlIssuerFor c ics) c at) = None \<longrightarrow>
           \<not> cs_Revoked (fst (ValidateCRL L (vo_CRLPEM o') (crlIssuerFor c ics) c at))))) sigs"
    using all by (fastforce simp: list_all_iff dest!: check_signature_valid)
  with run none ne srs show ?thesis by blast
qed

definition demo_pdf_sig :: pdf_signature where
  "demo_pdf_sig = \<lparr>p_Valid = True, p_TrustedChain = True, p_Revoked = False, p_TimestampValid = False,
     p_Reason = [], p_Contact = ''pqc-public-id:sig_1'', p_Warnings = [], p_Errors = [],
     p_SigningTime = zero_time, p_SigningZone = 0, p_Certificate = Some demo_cert\<rparr>"

definition demo_pdf_lib :: lib where
  "demo_pdf_lib = demo_pki\<lparr>L_pdf_Open := (\<lambda>b. Returns 1 None),
     L_pdf_Signatures := (\<lambda>b s. Returns 1 (None, [demo_pdf_sig])),
     L_ParseRevocationList := (\<lambda>b. Inr \<lparr>rl_Raw = b, rl_ThisUpdate = 1, rl_NextUpdate = 50,
        rl_Entries = (if b = ''full'' then [(Some 255, 3)] else [])\<rparr>)\<rparr>"

lemmas demo_verify_defs = VerifyPDF_def verifyPDF_def finish_def Let_def demo_options_def
  AppendCertsFromPEM_def demo_pdf_lib_def demo_pki_def demo_lib_def demo_pdf_sig_def
  check_signature_def sig_base_def crl_check_def ValidateCRL_def pem_or_der_def demo_pem_def
  demo_cert_def IsMLDSA_def crl_status_zero_def crlIssuerFor_def serialEqual_def time_defs

theorem VerifyPDF_valid_sound_witness:
  "\<exists>vr. VerifyPDF demo_pdf_lib 5 ''%PDF-'' demo_options = Some (Inr vr) \<and> vr_Valid vr \<and>
     vr_Errors vr = [] \<and> vr_Signatures vr \<noteq> []"
proof -
  obtain vr where vr: "VerifyPDF demo_pdf_lib 5 ''%PDF-'' demo_options = Some (Inr vr)" "vr_Valid vr"
    by (simp add: demo_verify_defs)
  from VerifyPDF_valid_sound [OF vr] have "vr_Errors vr = [] \<and> vr_Signatures vr \<noteq> []" by auto
  with vr show ?thesis by blast
qed

end
