(* ===== verification/Uploads.thy ===== *)
theory Uploads
  imports Lib
begin

section \<open>Resumable uploads (\<open>server/internal/api/uploads.go\<close>)\<close>

text \<open>
  The upload manager with its scratch directory: the sessions by id and the contents of the scratch
  files by path. A method holds the manager's mutex, so it is one atomic step. System calls can fail;
  their errors are arguments. A request body is its bytes and the error that ends it, if one does.
\<close>

record upload_session =
  us_id :: string
  us_account :: string
  us_path :: string
  us_size :: int
  us_updated :: time

record upload_manager =
  um_dir :: string
  um_m :: "(string, upload_session) gomap"
  um_files :: "(string, bytes) gomap"

text \<open>\<open>newUploadManager\<close>; \<open>os.TempDir\<close> is \<open>tmp\<close>. The directory is created if it can be.\<close>

definition newUploadManager :: "string \<Rightarrow> string \<Rightarrow> upload_manager" where
  "newUploadManager tmp dir = \<lparr>um_dir = (if dir = [] then tmp else dir), um_m = [], um_files = []\<rparr>"

definition upload_id :: "bytes \<Rightarrow> string" where
  "upload_id rb = ''up_'' @ hex_encode rb"

definition upload_path :: "string \<Rightarrow> string \<Rightarrow> string" where
  "upload_path dir i = Join2 dir (i @ ''.part'')"

text \<open>One pass of the reaper.\<close>

definition expired :: "time \<Rightarrow> upload_session \<Rightarrow> bool" where
  "expired now s \<longleftrightarrow> 2 * hour < now - us_updated s"

definition reaper :: "time \<Rightarrow> upload_manager \<Rightarrow> upload_manager" where
  "reaper now um =
     (let dead = filter (\<lambda>(i, s). expired now s) (um_m um)
      in um\<lparr>um_files := fold (\<lambda>(i, s) fs. AList.delete (us_path s) fs) dead (um_files um),
            um_m := filter (\<lambda>(i, s). \<not> expired now s) (um_m um)\<rparr>)"

definition create_upload :: "bytes result \<Rightarrow> time \<Rightarrow> error option \<Rightarrow> string \<Rightarrow> upload_manager \<Rightarrow>
    upload_session result \<times> upload_manager" where
  "create_upload rb now openerr account um =
     (case rb of
        Inl e \<Rightarrow> (Inl e, um)
      | Inr b \<Rightarrow>
          let i = upload_id b;
              s = \<lparr>us_id = i, us_account = account, us_path = upload_path (um_dir um) i, us_size = 0,
                   us_updated = now\<rparr>
          in (case openerr of
                Some e \<Rightarrow> (Inl e, um)
              | None \<Rightarrow> (Inr s, um\<lparr>um_files := AList.update (us_path s) [] (um_files um),
                                     um_m := AList.update i s (um_m um)\<rparr>)))"

definition get_upload :: "string \<Rightarrow> string \<Rightarrow> upload_manager \<Rightarrow> upload_session option" where
  "get_upload i account um =
     (case map_of (um_m um) i of
        None \<Rightarrow> None
      | Some s \<Rightarrow> if us_account s = account then Some s else None)"

text \<open>\<open>io.Copy(f, io.LimitReader(r, n))\<close>: the bytes that reach the file and the error. The reader's
  own error is only met when the limit is not reached first; a write can fail after some bytes.\<close>

definition copy_limited :: "int \<Rightarrow> bytes \<times> error option \<Rightarrow> (nat \<times> error) option \<Rightarrow> bytes \<times> error option" where
  "copy_limited n rd werr =
     (let b = take (nat n) (fst rd);
          rerr = (if int (length (fst rd)) < n then snd rd else None)
      in case werr of
           Some (k, e) \<Rightarrow> if k < length b then (take k b, Some e) else (b, rerr)
         | None \<Rightarrow> (b, rerr))"

definition appendChunk :: "upload_session \<Rightarrow> int \<Rightarrow> int \<Rightarrow> bytes \<times> error option \<Rightarrow> error option \<Rightarrow>
    (nat \<times> error) option \<Rightarrow> time \<Rightarrow> upload_manager \<Rightarrow> (int \<times> error option) \<times> upload_manager" where
  "appendChunk s offset max' rd openerr werr now um =
     (if offset \<noteq> us_size s then ((us_size s, Some errUploadOffset), um)
      else case (openerr, map_of (um_files um) (us_path s)) of
             (Some e, _) \<Rightarrow> ((us_size s, Some e), um)
           | (None, None) \<Rightarrow> ((us_size s, Some (Errorf ''no such file or directory'')), um)
           | (None, Some old) \<Rightarrow>
               let (b, err) = copy_limited (max' - us_size s + 1) rd werr;
                   s' = s\<lparr>us_size := us_size s + int (length b), us_updated := now\<rparr>;
                   um' = um\<lparr>um_files := AList.update (us_path s) (old @ b) (um_files um),
                            um_m := AList.map_entry (us_id s) (\<lambda>_. s') (um_m um)\<rparr>
               in (case err of
                     Some e \<Rightarrow> ((us_size s', Some e), um')
                   | None \<Rightarrow> if max' < us_size s' then ((us_size s', Some errUploadTooBig), um')
                             else ((us_size s', None), um')))"

definition discard :: "upload_session \<Rightarrow> upload_manager \<Rightarrow> upload_manager" where
  "discard s um = um\<lparr>um_m := AList.delete (us_id s) (um_m um),
                     um_files := AList.delete (us_path s) (um_files um)\<rparr>"

subsection \<open>Well-formedness\<close>

text \<open>Every session is stored under its id, its scratch file is its own, and the file holds exactly
  as many bytes as the session says.\<close>

definition upload_ok :: "upload_manager \<Rightarrow> string \<Rightarrow> upload_session \<Rightarrow> bool" where
  "upload_ok um i s \<longleftrightarrow> us_id s = i \<and> us_path s = upload_path (um_dir um) i \<and>
     (case map_of (um_files um) (us_path s) of None \<Rightarrow> False | Some b \<Rightarrow> int (length b) = us_size s)"

definition paths_apart :: "upload_manager \<Rightarrow> bool" where
  "paths_apart um \<longleftrightarrow> distinct (map (\<lambda>(i, s). us_path s) (um_m um))"

definition uploads_wf :: "upload_manager \<Rightarrow> bool" where
  "uploads_wf um \<longleftrightarrow> keys_distinct (um_m um) \<and> paths_apart um \<and>
     list_all (\<lambda>(i, s). upload_ok um i s) (um_m um)"

lemma uploads_wfD:
  assumes "uploads_wf um" "map_of (um_m um) i = Some s"
  shows "upload_ok um i s"
  using assms by (auto simp: uploads_wf_def list_all_iff dest: map_of_SomeD)

lemma uploads_wf_lookup:
  "uploads_wf um \<longleftrightarrow> keys_distinct (um_m um) \<and> paths_apart um \<and>
     (\<forall>i s. map_of (um_m um) i = Some s \<longrightarrow> upload_ok um i s)"
  by (auto simp: uploads_wf_def list_all_iff dest: map_of_SomeD intro: map_of_is_SomeI)

lemma paths_apartD:
  assumes "paths_apart um" "map_of (um_m um) i = Some s" "map_of (um_m um) j = Some t" "i \<noteq> j"
  shows "us_path s \<noteq> us_path t"
proof -
  have "(i, s) \<in> set (um_m um)" "(j, t) \<in> set (um_m um)" using assms by (auto dest: map_of_SomeD)
  moreover have "inj_on (\<lambda>(i, s). us_path s) (set (um_m um))"
    using assms(1) by (simp add: paths_apart_def distinct_map)
  ultimately show ?thesis
    using assms(4) inj_onD [of "\<lambda>(i, s). us_path s" "set (um_m um)" "(i, s)" "(j, t)"] by auto
qed

text \<open>A path that no session uses.\<close>

definition path_free :: "string \<Rightarrow> upload_manager \<Rightarrow> bool" where
  "path_free p um \<longleftrightarrow> list_all (\<lambda>(i, s). us_path s \<noteq> p) (um_m um)"

lemma path_freeD: "path_free p um \<Longrightarrow> map_of (um_m um) i = Some s \<Longrightarrow> us_path s \<noteq> p"
  by (auto simp: path_free_def list_all_iff dest: map_of_SomeD)

lemma map_of_map_entry [simp]:
  "map_of (AList.map_entry k f m) j = (if j = k then map_option f (map_of m k) else map_of m j)"
  by (induction m) (auto split: if_splits)

lemma keys_map_entry [simp]: "map fst (AList.map_entry k f m) = map fst m"
  by (induction m) (auto split: if_splits)

lemma paths_map_entry:
  assumes "\<And>s. map_of m k = Some s \<Longrightarrow> us_path (f s) = us_path s"
  shows "map (\<lambda>(i, s). us_path s) (AList.map_entry k f m) = map (\<lambda>(i, s). us_path s) m"
  using assms by (induction m) (auto split: if_splits)

subsection \<open>Every operation keeps the manager well formed\<close>

lemma create_upload_wf:
  assumes "uploads_wf um" and "map_of (um_m um) (upload_id (projr rb)) = None"
    and "path_free (upload_path (um_dir um) (upload_id (projr rb))) um"
  shows "uploads_wf (snd (create_upload rb now openerr acc um))"
proof (cases "\<exists>b. rb = Inr b \<and> openerr = None")
  case False
  with assms(1) show ?thesis by (auto simp: create_upload_def split: sum.splits option.splits)
next
  case True
  then obtain b where b: "rb = Inr b" "openerr = None" by blast
  define i where "i = upload_id b"
  define p where "p = upload_path (um_dir um) i"
  define s where "s = \<lparr>us_id = i, us_account = acc, us_path = p, us_size = 0, us_updated = now\<rparr>"
  have fresh: "map_of (um_m um) i = None" and free: "path_free p um"
    using assms(2,3) b by (simp_all add: i_def p_def)
  have eq: "snd (create_upload rb now openerr acc um) =
      um\<lparr>um_files := AList.update p [] (um_files um), um_m := um_m um @ [(i, s)]\<rparr>"
    using b fresh by (simp add: create_upload_def i_def p_def s_def Let_def update_fresh)
  have "i \<notin> fst ` set (um_m um)" using fresh by (simp add: map_of_eq_None_iff)
  moreover have "p \<notin> us_path ` snd ` set (um_m um)"
    using free by (auto simp: path_free_def list_all_iff)
  moreover have "list_all (\<lambda>(j, t). upload_ok (um\<lparr>um_files := AList.update p [] (um_files um),
      um_m := um_m um @ [(i, s)]\<rparr>) j t) (um_m um)"
    using assms(1) free
    by (auto simp: uploads_wf_def path_free_def list_all_iff upload_ok_def split: option.splits)
  ultimately show ?thesis
    using assms(1) unfolding eq
    by (auto simp: uploads_wf_def paths_apart_def upload_ok_def s_def p_def image_iff)
qed

text \<open>The three outcomes of a chunk that is written: an I/O error, the limit, success. In each of them
  the session records exactly what the file holds.\<close>

lemma appendChunk_cases:
  assumes "map_of (um_files um) (us_path s) = Some old" "openerr = None" "offset = us_size s"
  shows "snd (appendChunk s offset mx rd openerr werr now um) =
    um\<lparr>um_files := AList.update (us_path s) (old @ fst (copy_limited (mx - us_size s + 1) rd werr)) (um_files um),
       um_m := AList.map_entry (us_id s) (\<lambda>_. s\<lparr>us_size := us_size s +
          int (length (fst (copy_limited (mx - us_size s + 1) rd werr))), us_updated := now\<rparr>) (um_m um)\<rparr>"
  using assms
  by (cases "copy_limited (mx - us_size s + 1) rd werr") (auto simp: appendChunk_def Let_def split: option.splits)

lemma appendChunk_idle:
  assumes "offset \<noteq> us_size s \<or> openerr \<noteq> None \<or> map_of (um_files um) (us_path s) = None"
  shows "snd (appendChunk s offset mx rd openerr werr now um) = um"
  using assms by (auto simp: appendChunk_def split: option.splits)

lemma appendChunk_wf:
  assumes wf: "uploads_wf um" and s: "map_of (um_m um) i = Some s"
  shows "uploads_wf (snd (appendChunk s offset mx rd openerr werr now um))"
proof (cases "offset \<noteq> us_size s \<or> openerr \<noteq> None \<or> map_of (um_files um) (us_path s) = None")
  case True
  with wf show ?thesis by (simp add: appendChunk_idle)
next
  case False
  then obtain old where old: "map_of (um_files um) (us_path s) = Some old" by auto
  have ok: "upload_ok um i s" by (rule uploads_wfD [OF wf s])
  then have i: "us_id s = i" and len: "int (length old) = us_size s" using old by (simp_all add: upload_ok_def)
  define b where "b = fst (copy_limited (mx - us_size s + 1) rd werr)"
  define s' where "s' = s\<lparr>us_size := us_size s + int (length b), us_updated := now\<rparr>"
  define um' where "um' = um\<lparr>um_files := AList.update (us_path s) (old @ b) (um_files um),
      um_m := AList.map_entry i (\<lambda>_. s') (um_m um)\<rparr>"
  have eq: "snd (appendChunk s offset mx rd openerr werr now um) = um'"
    using False by (simp add: appendChunk_cases [OF old] b_def s'_def um'_def i)
  have "paths_apart um'"
    using wf s paths_map_entry [of "um_m um" i "\<lambda>_. s'"]
    by (simp add: paths_apart_def um'_def uploads_wf_def) (simp add: s'_def)
  moreover have "upload_ok um' j t" if "map_of (um_m um') j = Some t" for j t
  proof (cases "j = i")
    case True
    with that s have "t = s'" by (simp add: um'_def)
    with True ok len show ?thesis by (simp add: upload_ok_def um'_def s'_def)
  next
    case False
    with that have j: "map_of (um_m um) j = Some t" by (simp add: um'_def)
    have "us_path t \<noteq> us_path s"
      using paths_apartD [OF _ j s False] wf by (simp add: uploads_wf_def)
    with uploads_wfD [OF wf j] show ?thesis by (auto simp: upload_ok_def um'_def)
  qed
  ultimately show ?thesis using wf unfolding eq uploads_wf_lookup by (simp add: um'_def)
qed

lemma discard_wf:
  assumes wf: "uploads_wf um" and s: "map_of (um_m um) i = Some s"
  shows "uploads_wf (discard s um)"
proof -
  have i: "us_id s = i" using uploads_wfD [OF wf s] by (simp add: upload_ok_def)
  have "paths_apart (discard s um)"
    using wf by (auto simp: paths_apart_def discard_def uploads_wf_def AList.delete_eq distinct_map
                 intro: inj_on_subset)
  moreover have "upload_ok (discard s um) j t" if "map_of (um_m (discard s um)) j = Some t" for j t
  proof -
    have j: "map_of (um_m um) j = Some t" "j \<noteq> i" using that i by (auto simp: discard_def split: if_splits)
    have "us_path t \<noteq> us_path s" using paths_apartD [OF _ j(1) s j(2)] wf by (simp add: uploads_wf_def)
    with uploads_wfD [OF wf j(1)] show ?thesis by (auto simp: upload_ok_def discard_def)
  qed
  ultimately show ?thesis using wf unfolding uploads_wf_lookup by (simp add: discard_def)
qed

lemma fold_delete_lookup:
  "map_of (fold (\<lambda>(i, s) fs. AList.delete (us_path s) fs) xs fs) p =
     (if p \<in> us_path ` snd ` set xs then None else map_of fs p)"
  by (induction xs arbitrary: fs) (auto simp: image_iff)

lemma reaper_wf:
  assumes wf: "uploads_wf um"
  shows "uploads_wf (reaper now um)"
proof -
  have kd: "keys_distinct (um_m um)" using wf by (simp add: uploads_wf_def)
  have kept: "map_of (um_m um) j = Some t \<and> \<not> expired now t" if "map_of (um_m (reaper now um)) j = Some t" for j t
    using that kd by (auto simp: reaper_def Let_def dest!: map_of_SomeD intro: map_of_is_SomeI)
  have "upload_ok (reaper now um) j t" if t: "map_of (um_m (reaper now um)) j = Some t" for j t
  proof -
    have "us_path t \<notin> us_path ` snd ` set (filter (\<lambda>(i, s). expired now s) (um_m um))"
    proof
      assume "us_path t \<in> us_path ` snd ` set (filter (\<lambda>(i, s). expired now s) (um_m um))"
      then obtain k u where u: "(k, u) \<in> set (um_m um)" "expired now u" "us_path u = us_path t" by auto
      then have ku: "map_of (um_m um) k = Some u" using kd by (simp add: map_of_is_SomeI)
      then have "k = j" using u kept [OF t] paths_apartD [of um k u j t] wf by (auto simp: uploads_wf_def)
      with ku u kept [OF t] show False by simp
    qed
    with uploads_wfD [OF wf] kept [OF t] show ?thesis
      by (auto simp: upload_ok_def reaper_def Let_def fold_delete_lookup)
  qed
  moreover have "keys_distinct (um_m (reaper now um))" "paths_apart (reaper now um)"
    using wf by (auto simp: reaper_def Let_def uploads_wf_def paths_apart_def distinct_map
                 intro: inj_on_subset)
  ultimately show ?thesis by (simp add: uploads_wf_lookup)
qed

subsection \<open>Properties\<close>

text \<open>A client that sends its chunks in order, each at the offset the server reports.\<close>

fun push_chunks :: "string \<Rightarrow> int \<Rightarrow> time \<Rightarrow> bytes list \<Rightarrow> upload_manager \<Rightarrow> upload_manager" where
  "push_chunks i mx now [] um = um"
| "push_chunks i mx now (c # cs) um =
     (case map_of (um_m um) i of
        None \<Rightarrow> um
      | Some s \<Rightarrow> push_chunks i mx now cs
                   (snd (appendChunk s (us_size s) mx (c, None) None None now um)))"

lemma push_chunks_assemble:
  assumes "uploads_wf um" "map_of (um_m um) i = Some s" "map_of (um_files um) (us_path s) = Some old"
    and "us_size s + int (length (concat cs)) \<le> mx"
  shows "\<exists>s'. map_of (um_m (push_chunks i mx now cs um)) i = Some s' \<and>
    us_size s' = us_size s + int (length (concat cs)) \<and> us_path s' = us_path s \<and>
    us_account s' = us_account s \<and>
    map_of (um_files (push_chunks i mx now cs um)) (us_path s) = Some (old @ concat cs)"
  using assms
proof (induction cs arbitrary: um s old)
  case Nil
  then show ?case by simp
next
  case (Cons c cs)
  let ?um = "snd (appendChunk s (us_size s) mx (c, None) None None now um)"
  let ?s = "s\<lparr>us_size := us_size s + int (length c), us_updated := now\<rparr>"
  have i: "us_id s = i" using uploads_wfD [OF Cons.prems(1,2)] by (simp add: upload_ok_def)
  have whole: "copy_limited (mx - us_size s + 1) (c, None) None = (c, None)"
    using Cons.prems(4) by (simp add: copy_limited_def Let_def)
  have um: "?um = um\<lparr>um_files := AList.update (us_path s) (old @ c) (um_files um),
      um_m := AList.map_entry i (\<lambda>_. ?s) (um_m um)\<rparr>"
    by (simp add: appendChunk_cases [OF Cons.prems(3)] whole i)
  have "uploads_wf ?um" by (rule appendChunk_wf [OF Cons.prems(1,2)])
  moreover have "map_of (um_m ?um) i = Some ?s" using Cons.prems(2) by (simp add: um)
  moreover have "map_of (um_files ?um) (us_path ?s) = Some (old @ c)" by (simp add: um)
  moreover have "us_size ?s + int (length (concat cs)) \<le> mx" using Cons.prems(4) by simp
  ultimately have "\<exists>s'. map_of (um_m (push_chunks i mx now cs ?um)) i = Some s' \<and>
      us_size s' = us_size ?s + int (length (concat cs)) \<and> us_path s' = us_path ?s \<and>
      us_account s' = us_account ?s \<and>
      map_of (um_files (push_chunks i mx now cs ?um)) (us_path ?s) = Some ((old @ c) @ concat cs)"
    by (rule Cons.IH)
  then show ?case using Cons.prems(2) by (simp add: add.assoc)
qed

text \<open>C23: A resumable upload assembles the document: starting from a session of a well-formed
  manager, sending any split of a document into chunks in order, each at the offset the server
  reports, leaves exactly the document appended to the session's scratch file and its length in the
  session, as long as it fits the limit.\<close>

theorem chunks_assemble_document:
  assumes "uploads_wf um" "map_of (um_m um) i = Some s" "map_of (um_files um) (us_path s) = Some old"
    and "us_size s + int (length doc) \<le> mx" and "concat cs = doc"
  shows "\<exists>s'. get_upload i (us_account s) (push_chunks i mx now cs um) = Some s' \<and>
    us_size s' = us_size s + int (length doc) \<and>
    map_of (um_files (push_chunks i mx now cs um)) (us_path s') = Some (old @ doc)"
proof -
  obtain s' where "map_of (um_m (push_chunks i mx now cs um)) i = Some s'"
    "us_size s' = us_size s + int (length doc)" "us_path s' = us_path s" "us_account s' = us_account s"
    "map_of (um_files (push_chunks i mx now cs um)) (us_path s) = Some (old @ doc)"
    using push_chunks_assemble [OF assms(1-3), of cs mx now] assms(4,5) by auto
  then show ?thesis by (simp add: get_upload_def)
qed

definition demo_um :: upload_manager where
  "demo_um = snd (create_upload (Inr ''r'') 3 None ''acct'' (newUploadManager ''/tmp'' ''/up''))"

lemma demo_um_eq:
  "demo_um = \<lparr>um_dir = ''/up'', um_m = [(''up_72'', \<lparr>us_id = ''up_72'', us_account = ''acct'',
      us_path = ''/up/up_72.part'', us_size = 0, us_updated = 3\<rparr>)], um_files = [(''/up/up_72.part'', [])]\<rparr>"
  by (simp add: demo_um_def create_upload_def newUploadManager_def upload_id_def upload_path_def
      Let_def hex_encode_def hex_byte_def hex_digit_def Join2_def Clean_def)

theorem chunks_assemble_document_witness:
  "\<exists>s'. get_upload ''up_72'' ''acct'' (push_chunks ''up_72'' 10 4 [''ab'', ''c''] demo_um) = Some s' \<and>
     us_size s' = 3 \<and>
     map_of (um_files (push_chunks ''up_72'' 10 4 [''ab'', ''c''] demo_um)) (us_path s') = Some ''abc''"
  using chunks_assemble_document [of demo_um "''up_72''" "\<lparr>us_id = ''up_72'', us_account = ''acct'',
      us_path = ''/up/up_72.part'', us_size = 0, us_updated = 3\<rparr>" "[]" "''abc''" 10 "[''ab'', ''c'']" 4]
  by (simp add: demo_um_eq uploads_wf_def paths_apart_def upload_ok_def upload_path_def Join2_def
      Clean_def Let_def)



end
