(* ===== verification/Server.thy ===== *)
theory Server
  imports MemoryInv Auth Verification Uploads
begin

section \<open>The HTTP server's state and helpers (\<open>server/internal/api/api.go\<close>)\<close>

text \<open>
  Configuration, server state, requests and responses, the start-up of the server and the
  authentication wrapper. A handler is a function of the library, of an oracle for what one request
  draws from the outside (clock readings, random bytes, the outcome of system calls and of the
  \<open>ca-admin\<close> process; each call site has its own index), of the claims the wrapper put into the
  context, of the request and of the server, and gives the response and the new server. Error texts
  and response fields are those of the code; a JSON body is kept as the value that is encoded.
\<close>

subsection \<open>Configuration and state\<close>

record lab_issuer =
  li_Bin :: string
  li_Dir :: string
  li_Passphrase :: string
  li_Operator :: string
  li_Org :: string

record rate_limits =
  rt_LoginPerIP :: int
  rt_ReservePerAccount :: int
  rt_SubmitPerAccount :: int
  rt_VerifyPerIP :: int

definition defaultRateLimits :: rate_limits where
  "defaultRateLimits = \<lparr>rt_LoginPerIP = 10, rt_ReservePerAccount = 60, rt_SubmitPerAccount = 30,
     rt_VerifyPerIP = 30\<rparr>"

record config =
  cf_RootCAPEM :: bytes
  cf_CAChainPEM :: bytes
  cf_CRLPEM :: bytes
  cf_JWTSecret :: bytes
  cf_PublicBaseURL :: string
  cf_MaxUploadBytes :: int
  cf_MaxStampBytes :: int
  cf_MaxVerifyBytes :: int
  cf_UploadDir :: string
  cf_AccessTTL :: duration
  cf_Issuer :: string
  cf_SuperAdminUsername :: string
  cf_SuperAdminPassword :: string
  cf_RateLimits :: "rate_limits option"
  cf_LabIssuer :: "lab_issuer option"

record server =
  sv_st :: memory
  sv_signer :: signer
  sv_cfg :: config
  sv_crl :: bytes
  sv_issuer :: string
  sv_uploads :: upload_manager

subsection \<open>Requests, responses, oracle\<close>

record request =
  rq_Authorization :: string
  rq_XForwardedFor :: string
  rq_XForwardedProto :: string
  rq_RemoteAddr :: string
  rq_Host :: string
  rq_TLS :: bool
  rq_path :: "string \<Rightarrow> string"
  rq_query :: "string \<Rightarrow> string"
  rq_body :: bytes
  rq_body_err :: "error option"
  rq_form_err :: bool
  rq_file :: "(bytes \<times> error option) option"

datatype json =
    JStr string | JInt int | JBool bool | JObj "(string \<times> json) list" | JArr "json list"
  | JSignature signature | JAudit audit_event | JResult vresult

text \<open>\<open>Aborted\<close>: the handler panicked and \<open>net/http\<close> closed the connection.\<close>

datatype body = BJson json | BRaw bytes | Aborted

record response =
  rs_code :: int
  rs_type :: string
  rs_body :: body

record ca_run =
  ca_writeerr :: "error option"
  ca_out :: bytes
  ca_err :: bool
  ca_file :: "bytes result"

record orc =
  o_auth :: time
  o_allow :: bool
  o_clk :: "nat \<Rightarrow> time"
  o_rnd :: "nat \<Rightarrow> bytes"
  o_rnderr :: "nat \<Rightarrow> error option"
  o_tmp :: "nat \<Rightarrow> string result"
  o_ca :: "nat \<Rightarrow> string list \<Rightarrow> ca_run"
  o_open :: "nat \<Rightarrow> error option"
  o_werr :: "nat \<Rightarrow> (nat \<times> error) option"

text \<open>\<open>rand.Read\<close> into a slice.\<close>

definition rand_Read :: "orc \<Rightarrow> nat \<Rightarrow> bytes result" where
  "rand_Read ora n = (case o_rnderr ora n of Some e \<Rightarrow> Inl e | None \<Rightarrow> Inr (o_rnd ora n))"

type_synonym handler = "lib \<Rightarrow> orc \<Rightarrow> claims \<Rightarrow> request \<Rightarrow> server \<Rightarrow> response \<times> server"

subsection \<open>Helpers\<close>

definition writeJSON :: "int \<Rightarrow> json \<Rightarrow> response" where
  "writeJSON code v = \<lparr>rs_code = code, rs_type = ''application/json'', rs_body = BJson v\<rparr>"

definition writeErr :: "int \<Rightarrow> string \<Rightarrow> response" where
  "writeErr code msg = writeJSON code (JObj [(''error'', JStr msg)])"

definition writeRaw :: "string \<Rightarrow> bytes \<Rightarrow> response" where
  "writeRaw ctype b = \<lparr>rs_code = 200, rs_type = ctype, rs_body = BRaw b\<rparr>"

definition aborted :: response where
  "aborted = \<lparr>rs_code = 0, rs_type = [], rs_body = Aborted\<rparr>"

lemma rs_code_simps [simp]:
  "rs_code (writeJSON code v) = code" "rs_code (writeErr code msg) = code" "rs_code (writeRaw ctype b) = 200"
  "rs_code aborted = 0"
  by (simp_all add: writeJSON_def writeErr_def writeRaw_def aborted_def)

text \<open>\<open>decode\<close>: the JSON decoder over the first MiB of the body. It reports an error when the decoder
  does; a read error is one only if it comes before the value is complete, which is the decoder's
  business too. The result is the value of each field, as decoded so far even on an error.\<close>

definition decode :: "lib \<Rightarrow> string list \<Rightarrow> request \<Rightarrow> (string \<Rightarrow> string) \<times> bool" where
  "decode L fs r = L_decode_json L fs (take 1048576 (rq_body r))"

definition readBody :: "request \<Rightarrow> int \<Rightarrow> bytes result" where
  "readBody r mx =
     (if int (length (rq_body r)) < mx + 1 then
        (case rq_body_err r of Some e \<Rightarrow> Inl e | None \<Rightarrow> Inr (rq_body r))
      else Inr (take (nat (mx + 1)) (rq_body r)))"

definition withinLimit :: "bytes \<Rightarrow> int \<Rightarrow> error option" where
  "withinLimit b mx = (if mx < int (length b) then Some errTooLarge else None)"

definition fmtTime :: "time \<Rightarrow> string" where
  "fmtTime t = Format_RFC3339 t 0"

definition append_event :: "orc \<Rightarrow> nat \<Rightarrow> audit_event \<Rightarrow> server \<Rightarrow> server" where
  "append_event ora n ev s = s\<lparr>sv_st := Append (o_rnd ora n) (o_clk ora n) ev (sv_st s)\<rparr>"

definition event :: "string \<Rightarrow> string \<Rightarrow> string \<Rightarrow> string \<Rightarrow> string \<Rightarrow> audit_event" where
  "event ty acc dev result detail = audit_zero\<lparr>ev_Type := ty, ev_AccountID := acc, ev_DeviceID := dev,
     ev_Result := result, ev_Detail := detail\<rparr>"

definition audit :: "orc \<Rightarrow> nat \<Rightarrow> string \<Rightarrow> claims \<Rightarrow> string \<Rightarrow> string \<Rightarrow> string \<Rightarrow> server \<Rightarrow> server" where
  "audit ora n t c deviceID result detail = append_event ora n (event t (cl_Sub c) deviceID result detail)"

text \<open>Calls of a store method that changes the store.\<close>

definition st_upd :: "(memory \<Rightarrow> 'a \<times> memory) \<Rightarrow> server \<Rightarrow> 'a \<times> server" where
  "st_upd f s = (fst (f (sv_st s)), s\<lparr>sv_st := snd (f (sv_st s))\<rparr>)"

subsection \<open>Start-up\<close>

definition randToken :: "bytes result \<Rightarrow> string \<Rightarrow> string" where
  "randToken rb stamp =
     (case rb of Inl e \<Rightarrow> ''changeme-'' @ stamp | Inr b \<Rightarrow> b64_encode url_alphabet b)"

text \<open>\<open>stamp\<close> is the local time in the layout 20060102150405.\<close>

definition ensureSuperAdmin :: "lib \<Rightarrow> orc \<Rightarrow> string \<Rightarrow> server \<Rightarrow> server" where
  "ensureSuperAdmin L ora stamp s =
     (let u = TrimSpace (cf_SuperAdminUsername (sv_cfg s)) in
      if u = [] then s
      else if list_ex (\<lambda>a. a_Role a = RoleSuperAdmin) (ListAccounts (sv_st s)) then s
      else
        let pw = (if length (cf_SuperAdminPassword (sv_cfg s)) < 8
                  then randToken (rand_Read ora 0) stamp else cf_SuperAdminPassword (sv_cfg s))
        in (case HashPassword L (rand_Read ora 1) pw of
              Inl e \<Rightarrow> s
            | Inr hash \<Rightarrow>
                snd (st_upd (CreateAccount (o_rnd ora 2) (o_clk ora 2)
                   (account_zero\<lparr>a_Email := u, a_DisplayName := u, a_Role := RoleSuperAdmin,
                                 a_Status := AccountActive, a_PasswordHash := hash\<rparr>)) s)))"

text \<open>The defaults \<open>New\<close> fills in; \<open>tmp\<close> is \<open>os.TempDir()\<close>.\<close>

definition fill_defaults :: "string \<Rightarrow> config \<Rightarrow> config" where
  "fill_defaults tmp cfg =
     (let cfg = (if cf_MaxUploadBytes cfg = 0 then cfg\<lparr>cf_MaxUploadBytes := 26214400\<rparr> else cfg);
          cfg = (if cf_MaxStampBytes cfg \<le> 0 \<or> cf_MaxUploadBytes cfg < cf_MaxStampBytes cfg
                 then cfg\<lparr>cf_MaxStampBytes := min (cf_MaxUploadBytes cfg) 157286400\<rparr> else cfg);
          cfg = (if cf_MaxVerifyBytes cfg \<le> 0 \<or> cf_MaxUploadBytes cfg < cf_MaxVerifyBytes cfg
                 then cfg\<lparr>cf_MaxVerifyBytes := min (cf_MaxUploadBytes cfg) 367001600\<rparr> else cfg);
          cfg = (if cf_MaxVerifyBytes cfg < cf_MaxStampBytes cfg
                 then cfg\<lparr>cf_MaxVerifyBytes := cf_MaxStampBytes cfg\<rparr> else cfg);
          cfg = (if cf_UploadDir cfg = [] then cfg\<lparr>cf_UploadDir := tmp\<rparr> else cfg);
          cfg = (if cf_AccessTTL cfg = 0 then cfg\<lparr>cf_AccessTTL := 15 * minute\<rparr> else cfg)
      in cfg)"

lemma fill_defaults_tiers:
  assumes "0 \<le> cf_MaxUploadBytes cfg"
  shows "0 < cf_MaxStampBytes (fill_defaults tmp cfg)"
    "cf_MaxStampBytes (fill_defaults tmp cfg) \<le> cf_MaxVerifyBytes (fill_defaults tmp cfg)"
    "cf_MaxVerifyBytes (fill_defaults tmp cfg) \<le> cf_MaxUploadBytes (fill_defaults tmp cfg)"
  using assms by (auto simp: fill_defaults_def Let_def)

definition New :: "lib \<Rightarrow> orc \<Rightarrow> string \<Rightarrow> string \<Rightarrow> memory \<Rightarrow> config \<Rightarrow> server result" where
  "New L ora tmp stamp st cfg =
     (if cf_RootCAPEM cfg = [] then Inl (Errorf ''api: RootCAPEM is required'')
      else if \<not> AppendCertsFromPEM L (cf_RootCAPEM cfg) then
        Inl (Errorf ''api: RootCAPEM has no valid certificate'')
      else if length (cf_JWTSecret cfg) < 16 then
        Inl (Errorf ''api: JWTSecret must be at least 16 bytes'')
      else
        let cfg = fill_defaults tmp cfg
        in Inr (ensureSuperAdmin L ora stamp
             \<lparr>sv_st = st, sv_signer = NewSigner (cf_JWTSecret cfg) (cf_AccessTTL cfg), sv_cfg = cfg,
              sv_crl = cf_CRLPEM cfg,
              sv_issuer = (if cf_Issuer cfg = [] then ''PQC PDF Sign'' else cf_Issuer cfg),
              sv_uploads = newUploadManager tmp (cf_UploadDir cfg)\<rparr>))"

subsection \<open>Authentication\<close>

text \<open>A wrapper is a handler too: it ignores the claims it is given and passes on those of the
  token. \<open>o_auth\<close> is its clock reading.\<close>

definition authed :: "string \<Rightarrow> handler \<Rightarrow> handler" where
  "authed minRole h L ora c0 r s =
     (let tok = TrimPrefix (rq_Authorization r) ''Bearer '' in
      if tok = [] \<or> tok = rq_Authorization r then (writeErr 401 ''missing bearer token'', s)
      else case Parse L (sv_signer s) (o_auth ora) tok of
             Inl e \<Rightarrow> (writeErr 401 ''invalid token'', s)
           | Inr c \<Rightarrow>
               if minRole = RoleAdmin then
                 (if cl_Role c \<noteq> RoleAdmin \<and> cl_Role c \<noteq> RoleSuperAdmin
                  then (writeErr 403 ''admin only'', s) else h L ora c r s)
               else if minRole = RoleSuperAdmin then
                 (if cl_Role c \<noteq> RoleSuperAdmin then (writeErr 403 ''super admin only'', s)
                  else h L ora c r s)
               else h L ora c r s)"

text \<open>\<open>limit\<close> around a handler: \<open>o_allow\<close> is what the limiter set of the route answers for this request
  (true for a server without that limiter).\<close>

definition limited :: "handler \<Rightarrow> handler" where
  "limited h L ora c r s =
     (if \<not> o_allow ora then (writeErr 429 ''rate limit exceeded, slow down'', s) else h L ora c r s)"

definition pem_handler :: "(server \<Rightarrow> bytes) \<Rightarrow> server \<Rightarrow> response" where
  "pem_handler get s =
     (if get s = [] then writeErr 404 ''not configured''
      else writeRaw ''application/x-pem-file'' (get s))"

definition hCapabilities :: handler where
  "hCapabilities L ora c r s =
     (writeJSON 200 (JObj [(''lab_issuer'', JBool (cf_LabIssuer (sv_cfg s) \<noteq> None)),
                           (''role'', JStr (cl_Role c))]), s)"

end
