(* ===== verification/Contract.thy ===== *)
theory Contract
  imports Server
begin

section \<open>What a handler may do to the server\<close>

text \<open>
  Handlers reach the store only through its methods. Two relations say which: \<open>aux_step P\<close> are the
  calls of the administrative and enrollment handlers, which create accounts only with the property
  \<open>P\<close> and never write a super-admin row; \<open>doc_step\<close> are the calls of the reservation and submission
  handlers, which do not touch accounts, devices, enrollments or certificates. Both are store steps
  (\<open>mem_step\<close>), so everything proved of interleaved store calls holds for handlers running
  concurrently. The locale \<open>store_handler\<close> is the contract of one handler and is interpreted on every
  one of them.
\<close>

subsection \<open>The two kinds of store calls\<close>

definition not_super :: "string \<Rightarrow> memory \<Rightarrow> bool" where
  "not_super i m \<longleftrightarrow> (case map_of (m_accounts m) i of None \<Rightarrow> True | Some a \<Rightarrow> a_Role a \<noteq> RoleSuperAdmin)"

inductive aux_step :: "(account \<Rightarrow> bool) \<Rightarrow> memory \<Rightarrow> memory \<Rightarrow> bool" for P where
  aux_CreateAccount: "fresh_in ''acct'' rb (a_ID a) (m_accounts m) \<Longrightarrow> P a \<Longrightarrow>
     aux_step P m (snd (CreateAccount rb t a m))"
| aux_SetAccountStatus: "not_super i m \<Longrightarrow> aux_step P m (snd (SetAccountStatus i x m))"
| aux_UpdateAccountProfile: "not_super i m \<Longrightarrow> aux_step P m (snd (UpdateAccountProfile i x y m))"
| aux_SetAccountPassword: "not_super i m \<Longrightarrow> aux_step P m (snd (SetAccountPassword i x m))"
| aux_DeleteAccount: "not_super i m \<Longrightarrow> aux_step P m (snd (DeleteAccount i m))"
| aux_CreateDevice: "fresh_in ''dev'' rb (d_ID d) (m_devices m) \<Longrightarrow>
     aux_step P m (snd (CreateDevice rb t d m))"
| aux_SetDeviceStatus: "aux_step P m (snd (SetDeviceStatus i x m))"
| aux_CreateEnrollment: "fresh_in ''enr'' rb (e_ID e) (m_enrollments m) \<Longrightarrow>
     aux_step P m (snd (CreateEnrollment rb t e m))"
| aux_SetEnrollmentStatus: "aux_step P m (snd (SetEnrollmentStatus i x m))"
| aux_CreateCertificate: "fresh_in ''cert'' rb (c_ID c) (m_certificates m) \<Longrightarrow>
     aux_step P m (snd (CreateCertificate rb c m))"
| aux_RevokeCertificate: "aux_step P m (snd (RevokeCertificate t i x m))"
| aux_Append: "aux_step P m (Append rb t ev m)"

inductive doc_step :: "memory \<Rightarrow> memory \<Rightarrow> bool" where
  doc_CreateReservation: "fresh_in ''sig'' rb (r_PublicID r) (m_reservations m) \<Longrightarrow>
     doc_step m (snd (CreateReservation rb t r m))"
| doc_SetReservationStatus: "doc_step m (snd (SetReservationStatus i x m))"
| doc_CreateSignature: "doc_step m (snd (CreateSignature t sg m))"
| doc_PutObject: "doc_step m (snd (PutObject k b m))"
| doc_PutObjectFrom: "doc_step m (snd (PutObjectFrom k rd n m))"
| doc_Append: "doc_step m (Append rb t ev m)"

abbreviation aux_steps :: "(account \<Rightarrow> bool) \<Rightarrow> memory \<Rightarrow> memory \<Rightarrow> bool" where
  "aux_steps P \<equiv> (aux_step P)\<^sup>*\<^sup>*"

abbreviation doc_steps :: "memory \<Rightarrow> memory \<Rightarrow> bool" where
  "doc_steps \<equiv> doc_step\<^sup>*\<^sup>*"

lemma aux_step_mem: "aux_step P m m' \<Longrightarrow> mem_step m m'"
  by (induction rule: aux_step.induct) (auto intro: mem_step.intros)

lemma doc_step_mem: "doc_step m m' \<Longrightarrow> mem_step m m'"
  by (induction rule: doc_step.induct) (auto intro: mem_step.intros)

text \<open>Peeling the last call off a state, one rule per method.\<close>

lemma aux_peel:
  "aux_steps P m n \<Longrightarrow> fresh_in ''acct'' rb (a_ID a) (m_accounts n) \<Longrightarrow> P a \<Longrightarrow>
     aux_steps P m (snd (CreateAccount rb t a n))"
  "aux_steps P m n \<Longrightarrow> not_super i n \<Longrightarrow> aux_steps P m (snd (SetAccountStatus i x n))"
  "aux_steps P m n \<Longrightarrow> not_super i n \<Longrightarrow> aux_steps P m (snd (UpdateAccountProfile i x y n))"
  "aux_steps P m n \<Longrightarrow> not_super i n \<Longrightarrow> aux_steps P m (snd (SetAccountPassword i x n))"
  "aux_steps P m n \<Longrightarrow> not_super i n \<Longrightarrow> aux_steps P m (snd (DeleteAccount i n))"
  "aux_steps P m n \<Longrightarrow> fresh_in ''dev'' rb (d_ID d) (m_devices n) \<Longrightarrow>
     aux_steps P m (snd (CreateDevice rb t d n))"
  "aux_steps P m n \<Longrightarrow> aux_steps P m (snd (SetDeviceStatus i x n))"
  "aux_steps P m n \<Longrightarrow> fresh_in ''enr'' rb (e_ID e) (m_enrollments n) \<Longrightarrow>
     aux_steps P m (snd (CreateEnrollment rb t e n))"
  "aux_steps P m n \<Longrightarrow> aux_steps P m (snd (SetEnrollmentStatus i x n))"
  "aux_steps P m n \<Longrightarrow> fresh_in ''cert'' rb (c_ID c) (m_certificates n) \<Longrightarrow>
     aux_steps P m (snd (CreateCertificate rb c n))"
  "aux_steps P m n \<Longrightarrow> aux_steps P m (snd (RevokeCertificate t i x n))"
  "aux_steps P m n \<Longrightarrow> aux_steps P m (Append rb t ev n)"
  by (blast intro: rtranclp.rtrancl_into_rtrancl aux_step.intros)+

lemma doc_peel:
  "doc_steps m n \<Longrightarrow> fresh_in ''sig'' rb (r_PublicID r) (m_reservations n) \<Longrightarrow>
     doc_steps m (snd (CreateReservation rb t r n))"
  "doc_steps m n \<Longrightarrow> doc_steps m (snd (SetReservationStatus i x n))"
  "doc_steps m n \<Longrightarrow> doc_steps m (snd (CreateSignature t sg n))"
  "doc_steps m n \<Longrightarrow> doc_steps m (snd (PutObject k b n))"
  "doc_steps m n \<Longrightarrow> doc_steps m (snd (PutObjectFrom k rd sz n))"
  "doc_steps m n \<Longrightarrow> doc_steps m (Append rb t ev n)"
  by (blast intro: rtranclp.rtrancl_into_rtrancl doc_step.intros)+

subsection \<open>What the calls leave alone\<close>

lemma aux_step_frame:
  "aux_step P m m' \<Longrightarrow> m_signatures m' = m_signatures m \<and> m_reservations m' = m_reservations m \<and>
     m_objects m' = m_objects m"
  by (induction rule: aux_step.induct) simp_all

lemma aux_steps_frame:
  "aux_steps P m m' \<Longrightarrow> m_signatures m' = m_signatures m \<and> m_reservations m' = m_reservations m \<and>
     m_objects m' = m_objects m"
  by (induction rule: rtranclp_induct) (auto dest: aux_step_frame)

lemma doc_step_frame:
  "doc_step m m' \<Longrightarrow> m_accounts m' = m_accounts m \<and> m_byEmail m' = m_byEmail m \<and>
     m_devices m' = m_devices m \<and> m_enrollments m' = m_enrollments m \<and> m_certificates m' = m_certificates m"
  by (induction rule: doc_step.induct) simp_all

lemma doc_steps_frame:
  "doc_steps m m' \<Longrightarrow> m_accounts m' = m_accounts m \<and> m_byEmail m' = m_byEmail m \<and>
     m_devices m' = m_devices m \<and> m_enrollments m' = m_enrollments m \<and> m_certificates m' = m_certificates m"
  by (induction rule: rtranclp_induct) (auto dest: doc_step_frame)

text \<open>The rows of super admins, and the roles and addresses of all accounts.\<close>

definition super_rows :: "memory \<Rightarrow> string \<Rightarrow> account option" where
  "super_rows m i = (case map_of (m_accounts m) i of
     Some a \<Rightarrow> if a_Role a = RoleSuperAdmin then Some a else None | None \<Rightarrow> None)"

lemma aux_step_super:
  assumes "aux_step P m m'" and "\<And>a. P a \<Longrightarrow> a_Role a \<noteq> [] \<and> a_Role a \<noteq> RoleSuperAdmin"
  shows "super_rows m' = super_rows m"
  using assms
proof (induction rule: aux_step.induct)
  case (aux_CreateAccount rb a m t)
  then have "a_Role a \<noteq> []" "a_Role a \<noteq> RoleSuperAdmin" by blast+
  moreover have "map_of (m_accounts m) (stored_id rb a) = None"
    using aux_CreateAccount by (simp add: fresh_in_def stored_id_def)
  ultimately show ?case by (auto simp: super_rows_def CreateAccount_cases Let_def fun_eq_iff)
qed (auto simp: super_rows_def not_super_def fun_eq_iff row_lookups DeleteAccount_def split: option.splits)

lemma aux_steps_super:
  assumes "aux_steps P m m'" and "\<And>a. P a \<Longrightarrow> a_Role a \<noteq> [] \<and> a_Role a \<noteq> RoleSuperAdmin"
  shows "super_rows m' = super_rows m"
  using assms by (induction rule: rtranclp_induct) (auto dest: aux_step_super)

text \<open>Every account after the calls has the role and address it had before, or was created by them
  with the property \<open>P\<close>.\<close>

definition same_identity :: "account \<Rightarrow> account \<Rightarrow> bool" where
  "same_identity a b \<longleftrightarrow> a_Role b = a_Role a \<and> a_Email b = a_Email a \<and> a_ID b = a_ID a"

definition accounts_from :: "(account \<Rightarrow> bool) \<Rightarrow> memory \<Rightarrow> memory \<Rightarrow> bool" where
  "accounts_from P m m' \<longleftrightarrow>
     (\<forall>k b. map_of (m_accounts m') k = Some b \<longrightarrow>
        (\<exists>a. map_of (m_accounts m) k = Some a \<and> same_identity a b) \<or>
        (\<exists>a. P a \<and> a_Role b = (if a_Role a = [] then RoleUser else a_Role a)))"

lemma accounts_from_refl [simp]: "accounts_from P m m"
  by (auto simp: accounts_from_def same_identity_def)

lemma aux_step_accounts: "aux_step P m m' \<Longrightarrow> accounts_from P m m'"
proof (induction rule: aux_step.induct)
  case (aux_CreateAccount rb a m t)
  then show ?case
    by (auto simp: accounts_from_def same_identity_def CreateAccount_def Let_def split: option.splits if_splits)
qed (auto simp: accounts_from_def same_identity_def row_lookups DeleteAccount_def
     split: if_splits option.splits)

lemma accounts_from_trans:
  assumes ab: "accounts_from P a b" and bc: "accounts_from P b c"
  shows "accounts_from P a c"
  unfolding accounts_from_def
proof (intro allI impI)
  fix k z
  assume "map_of (m_accounts c) k = Some z"
  with bc consider (old) y where "map_of (m_accounts b) k = Some y" "same_identity y z"
    | (new) y where "P y" "a_Role z = (if a_Role y = [] then RoleUser else a_Role y)"
    unfolding accounts_from_def by blast
  then show "(\<exists>x. map_of (m_accounts a) k = Some x \<and> same_identity x z) \<or>
      (\<exists>x. P x \<and> a_Role z = (if a_Role x = [] then RoleUser else a_Role x))"
  proof cases
    case old
    then consider (old') x where "map_of (m_accounts a) k = Some x" "same_identity x y"
      | (new') x where "P x" "a_Role y = (if a_Role x = [] then RoleUser else a_Role x)"
      using ab unfolding accounts_from_def by blast
    then show ?thesis using old(2) by cases (auto simp: same_identity_def)
  next
    case new
    then show ?thesis by blast
  qed
qed

lemma aux_steps_accounts: "aux_steps P m m' \<Longrightarrow> accounts_from P m m'"
  by (induction rule: rtranclp_induct) (auto dest: aux_step_accounts intro: accounts_from_trans)

subsection \<open>The contract\<close>

text \<open>The ids a request draws are not in use.\<close>

definition fresh_orc :: "orc \<Rightarrow> memory \<Rightarrow> bool" where
  "fresh_orc ora m \<longleftrightarrow> (\<forall>n. map_of (m_accounts m) (ID ''acct'' (o_rnd ora n)) = None \<and>
     map_of (m_devices m) (ID ''dev'' (o_rnd ora n)) = None \<and>
     map_of (m_enrollments m) (ID ''enr'' (o_rnd ora n)) = None \<and>
     map_of (m_certificates m) (ID ''cert'' (o_rnd ora n)) = None \<and>
     map_of (m_reservations m) (ID ''sig'' (o_rnd ora n)) = None)"

definition fresh_upload :: "orc \<Rightarrow> upload_manager \<Rightarrow> bool" where
  "fresh_upload ora um \<longleftrightarrow> (\<forall>n. map_of (um_m um) (upload_id (o_rnd ora n)) = None \<and>
     path_free (upload_path (um_dir um) (upload_id (o_rnd ora n))) um)"

locale store_handler =
  fixes h :: handler
    and R :: "memory \<Rightarrow> memory \<Rightarrow> bool"
  assumes steps: "mem_wf (sv_st s) \<Longrightarrow> fresh_orc ora (sv_st s) \<Longrightarrow>
      R\<^sup>*\<^sup>* (sv_st s) (sv_st (snd (h L ora c r s)))"
    and R_mem: "R m m' \<Longrightarrow> mem_step m m'"
    and config: "sv_cfg (snd (h L ora c r s)) = sv_cfg s" "sv_signer (snd (h L ora c r s)) = sv_signer s"
    and uploads: "uploads_wf (sv_uploads s) \<Longrightarrow> fresh_upload ora (sv_uploads s) \<Longrightarrow>
      uploads_wf (sv_uploads (snd (h L ora c r s)))"
begin

lemma R_steps: "R\<^sup>*\<^sup>* m m' \<Longrightarrow> mem_steps m m'"
  by (induction rule: rtranclp_induct) (auto intro: rtranclp.rtrancl_into_rtrancl R_mem)

lemma handler_steps:
  "mem_wf (sv_st s) \<Longrightarrow> fresh_orc ora (sv_st s) \<Longrightarrow> mem_steps (sv_st s) (sv_st (snd (h L ora c r s)))"
  by (rule R_steps) (rule steps)

lemma keeps_wf:
  "mem_wf (sv_st s) \<Longrightarrow> fresh_orc ora (sv_st s) \<Longrightarrow> mem_wf (sv_st (snd (h L ora c r s)))"
  using mem_steps_wf [OF handler_steps] by blast

lemma keeps_history:
  "mem_wf (sv_st s) \<Longrightarrow> fresh_orc ora (sv_st s) \<Longrightarrow> mem_le (sv_st s) (sv_st (snd (h L ora c r s)))"
  using mem_steps_le [OF handler_steps] by blast

text \<open>Wrapping a handler in the authentication check keeps the contract.\<close>

lemma authed_contract: "store_handler (authed minRole h) R"
  by unfold_locales
     (auto simp: authed_def Let_def steps R_mem config uploads split: sum.splits)

lemma limited_contract: "store_handler (limited h) R"
  by unfold_locales (auto simp: limited_def steps R_mem config uploads)

end

text \<open>A handler that changes nothing.\<close>

lemma read_only_contract:
  assumes "\<And>L ora c r s. snd (h L ora c r s) = s" and "\<And>m m'. R m m' \<Longrightarrow> mem_step m m'"
  shows "store_handler h R"
  using assms by unfold_locales simp_all

lemma append_event_frame [simp]:
  "sv_cfg (append_event ora n ev s) = sv_cfg s" "sv_signer (append_event ora n ev s) = sv_signer s"
  "sv_crl (append_event ora n ev s) = sv_crl s" "sv_issuer (append_event ora n ev s) = sv_issuer s"
  "sv_uploads (append_event ora n ev s) = sv_uploads s"
  "sv_st (append_event ora n ev s) = Append (o_rnd ora n) (o_clk ora n) ev (sv_st s)"
  by (simp_all add: append_event_def)

lemma st_upd_frame [simp]:
  "sv_cfg (snd (st_upd f s)) = sv_cfg s" "sv_signer (snd (st_upd f s)) = sv_signer s"
  "sv_crl (snd (st_upd f s)) = sv_crl s" "sv_issuer (snd (st_upd f s)) = sv_issuer s"
  "sv_uploads (snd (st_upd f s)) = sv_uploads s" "sv_st (snd (st_upd f s)) = snd (f (sv_st s))"
  "fst (st_upd f s) = fst (f (sv_st s))"
  by (simp_all add: st_upd_def)

lemma fresh_orcD:
  assumes "fresh_orc ora m"
  shows "fresh_in ''acct'' (o_rnd ora n) [] (m_accounts m)" "fresh_in ''dev'' (o_rnd ora n) [] (m_devices m)"
    "fresh_in ''enr'' (o_rnd ora n) [] (m_enrollments m)" "fresh_in ''cert'' (o_rnd ora n) [] (m_certificates m)"
    "fresh_in ''sig'' (o_rnd ora n) [] (m_reservations m)"
  using assms by (simp_all add: fresh_orc_def fresh_in_def)

end
