(* ===== verification/StrictVerify.thy ===== *)
theory StrictVerify
  imports Contract
begin

section \<open>The checks on a submitted document (\<open>server/internal/api/verify.go\<close>)\<close>

text \<open>
  \<open>strictVerify\<close> decides whether a submission is recorded as verified. It gives facts and a reason; the
  caller treats an empty reason as acceptance. A verification that never returned would be the value
  None, and a theorem shows there is none. \<open>sanitizeName\<close> works on the runes of the name.
\<close>

record verified_info =
  vi_CertificateID :: string
  vi_CertSerial :: string
  vi_CertFingerprint :: string
  vi_ClaimedTime :: string

definition verified_zero :: verified_info where
  "verified_zero = \<lparr>vi_CertificateID = [], vi_CertSerial = [], vi_CertFingerprint = [], vi_ClaimedTime = []\<rparr>"

definition firstReason :: "vresult \<Rightarrow> string \<Rightarrow> string" where
  "firstReason vr fallback =
     (if vr_Errors vr \<noteq> [] then hd (vr_Errors vr)
      else if vr_Signatures vr \<noteq> [] \<and> sr_Errors (hd (vr_Signatures vr)) \<noteq> []
      then hd (sr_Errors (hd (vr_Signatures vr)))
      else fallback)"

definition server_options :: "server \<Rightarrow> voptions" where
  "server_options s = \<lparr>vo_RootPEM = cf_RootCAPEM (sv_cfg s), vo_IntermediatePEM = cf_CAChainPEM (sv_cfg s),
     vo_CRLPEM = sv_crl s, vo_RequireMLDSAOnly = True, vo_At = zero_time,
     vo_AllowExternalRevocation = False, vo_Timeout = 15 * second\<rparr>"

text \<open>The checks after a verification that came back without error.\<close>

definition judge :: "memory \<Rightarrow> reservation \<Rightarrow> vresult \<Rightarrow> verified_info \<times> string" where
  "judge m res vr =
     (if length (vr_Signatures vr) \<noteq> 1 then (verified_zero, ''expected exactly one signature'')
      else
        let sig = hd (vr_Signatures vr) in
        if \<not> vr_Valid vr \<or> \<not> sr_Valid sig then (verified_zero, firstReason vr ''signature is not valid'')
        else if sr_Algorithm sig \<noteq> ''ML-DSA-65'' then
          (verified_zero, ''signature algorithm is not ML-DSA-65'')
        else if \<not> sr_TrustedChain sig then
          (verified_zero, ''certificate chain does not reach the configured Root CA'')
        else if sr_Revoked sig then (verified_zero, ''signer certificate is revoked'')
        else if PublicID sig \<noteq> r_PublicID res then
          (verified_zero, ''public id in the PDF does not match this reservation'')
        else
          (case CertificateBySerial (sr_CertificateSerial sig) m of
             Inl e \<Rightarrow> (verified_zero, ''signer certificate is not registered with this server'')
           | Inr cert \<Rightarrow>
               if c_AccountID cert \<noteq> r_AccountID res then
                 (verified_zero, ''signer certificate belongs to a different account'')
               else if c_DeviceID cert \<noteq> r_DeviceID res then
                 (verified_zero, ''signer certificate belongs to a different device'')
               else if c_Status cert \<noteq> CertActive then
                 (verified_zero, ''signer certificate is '' @ c_Status cert)
               else if c_Fingerprint cert \<noteq> sr_CertificateFingerprint sig then
                 (verified_zero, ''certificate fingerprint mismatch'')
               else (\<lparr>vi_CertificateID = c_ID cert, vi_CertSerial = c_Serial cert,
                      vi_CertFingerprint = c_Fingerprint cert,
                      vi_ClaimedTime = sr_ClientClaimedSigningTime sig\<rparr>, [])))"

definition strictVerify :: "lib \<Rightarrow> time \<Rightarrow> reservation \<Rightarrow> bytes \<Rightarrow> server \<Rightarrow> (verified_info \<times> string) option" where
  "strictVerify L now res pdf s =
     (if length pdf < 5 \<or> take 5 pdf \<noteq> ''%PDF-'' then
        Some (verified_zero, ''not a PDF (missing %PDF- magic)'')
      else case Signature (r_PublicID res) (sv_st s) of
        Inr _ \<Rightarrow> Some (verified_zero, ''this reservation has already been completed'')
      | Inl _ \<Rightarrow>
          (case Device (r_DeviceID res) (sv_st s) of
             Inl e \<Rightarrow> Some (verified_zero, ''device is not active'')
           | Inr d \<Rightarrow>
               if d_Status d \<noteq> DeviceActive then Some (verified_zero, ''device is not active'')
               else case VerifyPDF L now pdf (server_options s) of
                      None \<Rightarrow> None
                    | Some (Inl e) \<Rightarrow> Some (verified_zero, ''verification error: '' @ Error e)
                    | Some (Inr vr) \<Rightarrow> Some (judge (sv_st s) res vr)))"

definition parseCRLBytes :: "lib \<Rightarrow> bytes \<Rightarrow> error option" where
  "parseCRLBytes L b =
     (case L_ParseRevocationList L (pem_or_der L b) of Inl e \<Rightarrow> Some e | Inr l \<Rightarrow> None)"

text \<open>The characters a sanitized name keeps.\<close>

definition name_char :: "char \<Rightarrow> bool" where
  "name_char c \<longleftrightarrow> byte_in c 97 122 \<or> byte_in c 65 90 \<or> byte_in c 48 57 \<or> c \<in> set ''.-_ ''"

definition name_rune :: "string \<Rightarrow> char" where
  "name_rune r = (if length r = 1 \<and> name_char (hd r) then hd r else CHR ''_'')"

definition sanitizeName :: "string \<Rightarrow> string" where
  "sanitizeName name =
     (let name = Base (ReplaceAll1 name (CHR 92) (CHR ''/''));
          name = map name_rune (runes name)
      in if name = [] \<or> name = ''.'' \<or> name = ''..'' then ''document.pdf''
         else if 128 < length name then take 128 name else name)"

definition readAll :: "bytes \<times> error option \<Rightarrow> int \<Rightarrow> bytes result" where
  "readAll rd mx =
     (case (if int (length (fst rd)) < mx + 1 then snd rd else None) of
        Some e \<Rightarrow> Inl e
      | None \<Rightarrow>
          let b = take (nat (mx + 1)) (fst rd)
          in if mx < int (length b) then Inl errTooLarge else Inr b)"

subsection \<open>Properties\<close>

lemma strictVerify_total: "strictVerify L now res pdf s \<noteq> None"
proof -
  have "0 < vo_Timeout (server_options s)" by (simp add: server_options_def second_def)
  then have "VerifyPDF L now pdf (server_options s) \<noteq> None"
    by (auto simp: VerifyPDF_def Let_def split: run.splits)
  then show ?thesis by (auto simp: strictVerify_def split: sum.splits option.splits)
qed

text \<open>The PDF library gives every error a text.\<close>

definition errors_have_text :: "lib \<Rightarrow> bytes \<Rightarrow> bool" where
  "errors_have_text L pdf \<longleftrightarrow>
     (\<forall>ps d err sigs. L_pdf_Signatures L pdf ps = Returns d (err, sigs) \<longrightarrow>
        list_all (\<lambda>s. Some [] \<notin> set (p_Errors s)) sigs)"

lemma errStrings_texts: "Some [] \<notin> set es \<Longrightarrow> [] \<notin> set (errStrings es)"
  by (auto simp: errStrings_def)

lemma check_signature_texts:
  assumes "Some [] \<notin> set (p_Errors s)"
  shows "[] \<notin> set (sr_Errors (check_signature L o' ics at s))"
  using errStrings_texts [OF assms]
  by (auto simp: check_signature_def sig_base_def crl_check_def Let_def split: option.splits prod.splits)

lemma VerifyPDF_texts:
  assumes "VerifyPDF L now pdf o' = Some (Inr vr)" and "errors_have_text L pdf"
    and "vr_Signatures vr \<noteq> []"
  shows "vr_Errors vr = [] \<and> (\<forall>sr \<in> set (vr_Signatures vr). [] \<notin> set (sr_Errors sr))"
proof -
  obtain d where "verifyPDF L now pdf o' = Returns d (Inr vr)" using VerifyPDF_InrD [OF assms(1)] by blast
  from verifyPDF_ReturnsD [OF this] obtain err sigs e ps at where
    "L_pdf_Signatures L pdf ps = Returns e (err, sigs)" and vr: "vr = finish L pdf o' at (err, sigs)"
    by auto
  with assms(2) have "list_all (\<lambda>s. Some [] \<notin> set (p_Errors s)) sigs"
    by (auto simp: errors_have_text_def)
  with vr assms(3) show ?thesis
    by (auto simp: finish_def Let_def list_all_iff check_signature_texts split: option.splits if_splits)
qed

lemma judge_accepts:
  assumes "judge m res vr = (info, [])"
    and "vr_Signatures vr \<noteq> [] \<Longrightarrow> vr_Errors vr = [] \<and> (\<forall>sr \<in> set (vr_Signatures vr). [] \<notin> set (sr_Errors sr))"
  shows "\<exists>sig cert. vr_Signatures vr = [sig] \<and> vr_Valid vr \<and> sr_Valid sig \<and>
    sr_Algorithm sig = ''ML-DSA-65'' \<and> sr_TrustedChain sig \<and> \<not> sr_Revoked sig \<and>
    PublicID sig = r_PublicID res \<and> CertificateBySerial (sr_CertificateSerial sig) m = Inr cert \<and>
    c_AccountID cert = r_AccountID res \<and> c_DeviceID cert = r_DeviceID res \<and> c_Status cert = CertActive \<and>
    c_Fingerprint cert = sr_CertificateFingerprint sig \<and>
    info = \<lparr>vi_CertificateID = c_ID cert, vi_CertSerial = c_Serial cert,
            vi_CertFingerprint = c_Fingerprint cert, vi_ClaimedTime = sr_ClientClaimedSigningTime sig\<rparr>"
proof -
  have one: "length (vr_Signatures vr) = 1" using assms(1) by (auto simp: judge_def split: if_splits)
  then obtain sig where sig: "vr_Signatures vr = [sig]" by (auto simp: length_Suc_conv)
  with assms(2) have texts: "vr_Errors vr = []" "[] \<notin> set (sr_Errors sig)" by simp_all
  have "firstReason vr ''signature is not valid'' \<noteq> []"
    using texts sig by (cases "sr_Errors sig") (auto simp: firstReason_def)
  with assms(1) sig show ?thesis
    by (auto simp: judge_def Let_def split: if_splits sum.splits)
qed

lemma strictVerify_checks:
  assumes "strictVerify L now res pdf s = Some (info, [])" and "errors_have_text L pdf"
  shows "take 5 pdf = ''%PDF-'' \<and> Signature (r_PublicID res) (sv_st s) = Inl ErrNotFound \<and>
    (\<exists>d. Device (r_DeviceID res) (sv_st s) = Inr d \<and> d_Status d = DeviceActive) \<and>
    (\<exists>vr sig cert. VerifyPDF L now pdf (server_options s) = Some (Inr vr) \<and> vr_Signatures vr = [sig] \<and>
       vr_Valid vr \<and> sr_Valid sig \<and> sr_Algorithm sig = ''ML-DSA-65'' \<and> sr_TrustedChain sig \<and>
       \<not> sr_Revoked sig \<and> PublicID sig = r_PublicID res \<and>
       CertificateBySerial (sr_CertificateSerial sig) (sv_st s) = Inr cert \<and>
       c_AccountID cert = r_AccountID res \<and> c_DeviceID cert = r_DeviceID res \<and>
       c_Status cert = CertActive \<and> c_Fingerprint cert = sr_CertificateFingerprint sig \<and>
       info = \<lparr>vi_CertificateID = c_ID cert, vi_CertSerial = c_Serial cert,
               vi_CertFingerprint = c_Fingerprint cert, vi_ClaimedTime = sr_ClientClaimedSigningTime sig\<rparr>)"
proof -
  obtain d vr where pre: "take 5 pdf = ''%PDF-''" "Signature (r_PublicID res) (sv_st s) = Inl ErrNotFound"
    "Device (r_DeviceID res) (sv_st s) = Inr d" "d_Status d = DeviceActive"
    and vr: "VerifyPDF L now pdf (server_options s) = Some (Inr vr)"
    and j: "judge (sv_st s) res vr = (info, [])"
    using assms(1)
    by (auto simp: strictVerify_def Signature_def split: if_splits sum.splits option.splits)
  from judge_accepts [OF j] VerifyPDF_texts [OF vr assms(2)] pre vr show ?thesis by blast
qed

text \<open>C2: Acceptance of a submission means every check passed: the document starts with the PDF
  magic, the reservation has no record yet, its device is active, the document has exactly one
  signature, valid under the configured roots, ML-DSA-65, with a trusted chain and not revoked, bound
  to this reservation's id; and the signer's certificate is registered, active, of the reservation's
  account and device and has the fingerprint found in the document. The facts handed to the record
  are those of that certificate.\<close>

theorem strictVerify_accepts_only_valid:
  assumes "strictVerify L now res pdf s = Some (info, [])" and "errors_have_text L pdf"
  shows "take 5 pdf = ''%PDF-'' \<and> Signature (r_PublicID res) (sv_st s) = Inl ErrNotFound \<and>
    (\<exists>d. Device (r_DeviceID res) (sv_st s) = Inr d \<and> d_Status d = DeviceActive) \<and>
    (\<exists>vr sig cert. VerifyPDF L now pdf (server_options s) = Some (Inr vr) \<and> vr_Signatures vr = [sig] \<and>
       vr_Valid vr \<and> sr_Valid sig \<and> sr_Algorithm sig = ''ML-DSA-65'' \<and> sr_TrustedChain sig \<and>
       \<not> sr_Revoked sig \<and> PublicID sig = r_PublicID res \<and>
       CertificateBySerial (sr_CertificateSerial sig) (sv_st s) = Inr cert \<and>
       c_AccountID cert = r_AccountID res \<and> c_DeviceID cert = r_DeviceID res \<and>
       c_Status cert = CertActive \<and> c_Fingerprint cert = sr_CertificateFingerprint sig \<and>
       info = \<lparr>vi_CertificateID = c_ID cert, vi_CertSerial = c_Serial cert,
               vi_CertFingerprint = c_Fingerprint cert, vi_ClaimedTime = sr_ClientClaimedSigningTime sig\<rparr>)"
  using assms by (rule strictVerify_checks)

text \<open>A file name from a client is harmless after \<open>sanitizeName\<close>: whatever bytes it has, the
  result is not empty, at most 128 bytes, made only of ASCII letters, digits, dot, dash, underscore
  and space (so no path separator, quote or control character), and is neither \<open>.\<close> nor \<open>..\<close>.\<close>

theorem sanitizeName_safe:
  "sanitizeName n \<noteq> [] \<and> length (sanitizeName n) \<le> 128 \<and> list_all name_char (sanitizeName n) \<and>
   sanitizeName n \<noteq> ''.'' \<and> sanitizeName n \<noteq> ''..''"
proof -
  have us: "name_char (CHR ''_'')" by (simp add: name_char_def)
  have rune: "name_char (name_rune r)" for r using us by (simp add: name_rune_def)
  have doc: "list_all name_char ''document.pdf''" by (simp add: name_char_def byte_in_def)
  define xs where "xs = map name_rune (runes (Base (ReplaceAll1 n (CHR 92) (CHR ''/''))))"
  have eq: "sanitizeName n = (if xs = [] \<or> xs = ''.'' \<or> xs = ''..'' then ''document.pdf''
      else if 128 < length xs then take 128 xs else xs)"
    by (simp only: sanitizeName_def Let_def xs_def)
  have all: "list_all name_char xs" using rune by (simp add: xs_def list_all_iff)
  show ?thesis
  proof (cases "128 < length xs")
    case True
    then have len: "length (take 128 xs) = 128" by simp
    then have "take 128 xs \<noteq> zs" if "length zs < 128" for zs using that by auto
    moreover have "sanitizeName n = take 128 xs" using True eq by auto
    ultimately show ?thesis
      using len all by (auto simp: list_all_iff dest: in_set_takeD)
  next
    case False
    then show ?thesis using doc all eq by auto
  qed
qed

subsection \<open>A server for the witnesses\<close>

definition demo_config :: config where
  "demo_config = \<lparr>cf_RootCAPEM = ''root'', cf_CAChainPEM = [], cf_CRLPEM = ''crl'',
     cf_JWTSecret = ''0123456789abcdef'', cf_PublicBaseURL = ''https://v.example/'', cf_MaxUploadBytes = 1000,
     cf_MaxStampBytes = 10, cf_MaxVerifyBytes = 100, cf_UploadDir = ''/up'', cf_AccessTTL = 15 * minute,
     cf_Issuer = [], cf_SuperAdminUsername = [], cf_SuperAdminPassword = [], cf_RateLimits = None,
     cf_LabIssuer = None\<rparr>"

definition demo_store :: memory where
  "demo_store = NewMemory\<lparr>
     m_accounts := [(''acct_1'', account_zero\<lparr>a_ID := ''acct_1'', a_Email := ''a@x'', a_Role := RoleUser,
                      a_Status := AccountActive\<rparr>)],
     m_byEmail := [(''a@x'', ''acct_1'')],
     m_devices := [(''dev_1'', device_zero\<lparr>d_ID := ''dev_1'', d_AccountID := ''acct_1'', d_Status := DeviceActive\<rparr>)],
     m_certificates := [(''cert_1'', certificate_zero\<lparr>c_ID := ''cert_1'', c_DeviceID := ''dev_1'',
        c_AccountID := ''acct_1'', c_Serial := ''ff'', c_Fingerprint := hex_encode ''raw'', c_Status := CertActive\<rparr>)],
     m_reservations := [(''sig_1'', reservation_zero\<lparr>r_PublicID := ''sig_1'', r_AccountID := ''acct_1'',
        r_DeviceID := ''dev_1'', r_Status := ReservationReserved\<rparr>)]\<rparr>"

definition demo_server :: server where
  "demo_server = \<lparr>sv_st = demo_store, sv_signer = NewSigner ''0123456789abcdef'' (15 * minute),
     sv_cfg = demo_config, sv_crl = ''crl'', sv_issuer = ''PQC PDF Sign'',
     sv_uploads = newUploadManager ''/tmp'' ''/up''\<rparr>"

definition demo_reservation :: reservation where
  "demo_reservation = reservation_zero\<lparr>r_PublicID := ''sig_1'', r_AccountID := ''acct_1'',
     r_DeviceID := ''dev_1'', r_Status := ReservationReserved\<rparr>"

lemma demo_errors_have_text: "errors_have_text demo_pdf_lib pdf"
  by (simp add: errors_have_text_def demo_pdf_lib_def demo_pdf_sig_def)

lemma demo_strictVerify:
  "strictVerify demo_pdf_lib 5 demo_reservation ''%PDF-x'' demo_server =
     Some (\<lparr>vi_CertificateID = ''cert_1'', vi_CertSerial = ''ff'', vi_CertFingerprint = hex_encode ''raw'',
            vi_ClaimedTime = []\<rparr>, [])"
  by (simp add: strictVerify_def demo_reservation_def demo_server_def demo_store_def demo_config_def
      Signature_def Device_def lookup_def NewMemory_def server_options_def demo_verify_defs zero_defs
      judge_def PublicID_def CertificateBySerial_def FingerprintSHA256_def serial_hex_def hex_int_def
      hex_nat.simps hex_digit_def algorithmName_def errStrings_def)

theorem strictVerify_accepts_only_valid_witness:
  "strictVerify demo_pdf_lib 5 demo_reservation ''%PDF-x'' demo_server =
     Some (\<lparr>vi_CertificateID = ''cert_1'', vi_CertSerial = ''ff'', vi_CertFingerprint = hex_encode ''raw'',
            vi_ClaimedTime = []\<rparr>, []) \<and>
   (\<exists>d. Device ''dev_1'' (sv_st demo_server) = Inr d \<and> d_Status d = DeviceActive)"
  using strictVerify_accepts_only_valid [OF demo_strictVerify demo_errors_have_text] demo_strictVerify
  by (simp add: demo_reservation_def)

end
