(* ===== verification/DevIssue.thy ===== *)
theory DevIssue
  imports StrictVerify
begin

section \<open>Driving the CA (\<open>server/internal/api/devissue.go\<close>) and binding certificates\<close>

text \<open>
  Issuance, revocation and CRL publication through the \<open>ca-admin\<close> binary, and \<open>bindIssuedCert\<close> of
  \<open>handlers.go\<close>, which records what was issued. One run of the binary is the oracle's answer to its
  argument list: whether the input file could be written, its output, whether it failed, and what the
  output file holds afterwards.
\<close>

definition firstNonEmpty :: "string list \<Rightarrow> string" where
  "firstNonEmpty v = (case find (\<lambda>s. s \<noteq> []) v of Some s \<Rightarrow> s | None \<Rightarrow> [])"

definition clip :: "bytes \<Rightarrow> nat \<Rightarrow> string" where
  "clip b n = (if n < length b then take n b else b)"

definition clipContains :: "bytes \<Rightarrow> string \<Rightarrow> bool" where
  "clipContains b sub \<longleftrightarrow> 0 < length b \<and> Contains b sub"

definition account_or_zero :: "account result \<Rightarrow> account" where
  "account_or_zero r = (case r of Inl e \<Rightarrow> account_zero | Inr a \<Rightarrow> a)"

definition device_or_zero :: "device result \<Rightarrow> device" where
  "device_or_zero r = (case r of Inl e \<Rightarrow> device_zero | Inr d \<Rightarrow> d)"

definition certificate_or_zero :: "certificate result \<Rightarrow> certificate" where
  "certificate_or_zero r = (case r of Inl e \<Rightarrow> certificate_zero | Inr c \<Rightarrow> c)"

definition issueViaCA :: "orc \<Rightarrow> nat \<Rightarrow> enrollment \<Rightarrow> server \<Rightarrow> bytes result" where
  "issueViaCA ora n e s =
     (case cf_LabIssuer (sv_cfg s) of
        None \<Rightarrow> Inl (Errorf ''no CA issuer configured'')
      | Some li \<Rightarrow>
          let acc = account_or_zero (Account (e_AccountID e) (sv_st s));
              dev = device_or_zero (Device (e_DeviceID e) (sv_st s));
              cn = firstNonEmpty [a_FullName acc, a_DisplayName acc, a_Email acc, ''Lab Device''];
              org = firstNonEmpty [a_Organization acc, li_Org li, ''PQC PDF Sign (lab)'']
          in (case o_tmp ora n of
                Inl err \<Rightarrow> Inl err
              | Inr tmp \<Rightarrow>
                  let run = o_ca ora n [''issue'', ''--dir'', li_Dir li, ''--csr'', Join2 tmp ''device.csr.pem'',
                              ''--account'', firstNonEmpty [a_Email acc, e_AccountID e],
                              ''--device'', firstNonEmpty [d_Label dev, e_DeviceID e],
                              ''--cn'', cn, ''--org'', org, ''--out'', Join2 tmp ''device.crt.pem'']
                  in (case ca_writeerr run of
                        Some err \<Rightarrow> Inl err
                      | None \<Rightarrow> if ca_err run then Inl (Errorf (''ca-admin issue: '' @ clip (ca_out run) 400))
                                else ca_file run)))"

definition revokeViaCA :: "orc \<Rightarrow> nat \<Rightarrow> string \<Rightarrow> string \<Rightarrow> server \<Rightarrow> error option" where
  "revokeViaCA ora n serialHex reason s =
     (case cf_LabIssuer (sv_cfg s) of
        None \<Rightarrow> None
      | Some li \<Rightarrow>
          let run = o_ca ora n [''revoke'', ''--dir'', li_Dir li, ''--serial'', serialHex, ''--reason'', reason]
          in if ca_err run \<and> \<not> clipContains (ca_out run) ''already revoked''
             then Some (Errorf (''ca-admin revoke: '' @ clip (ca_out run) 400)) else None)"

definition publishCRLViaCA :: "orc \<Rightarrow> nat \<Rightarrow> server \<Rightarrow> bytes result" where
  "publishCRLViaCA ora n s =
     (case cf_LabIssuer (sv_cfg s) of
        None \<Rightarrow> Inr []
      | Some li \<Rightarrow>
          (case o_tmp ora n of
             Inl err \<Rightarrow> Inl err
           | Inr tmp \<Rightarrow>
               let run = o_ca ora n [''crl'', ''--dir'', li_Dir li, ''--out'', Join2 tmp ''crl.pem'']
               in if ca_err run then Inl (Errorf (''ca-admin crl: '' @ clip (ca_out run) 400))
                  else ca_file run))"

text \<open>Both keys are ML-DSA keys and equal.\<close>

definition keys_match :: "x509csr \<Rightarrow> x509cert \<Rightarrow> bool" where
  "keys_match csr cert \<longleftrightarrow> (case q_PublicKey csr of
     OtherKey b \<Rightarrow> False | MLDSAKey p b \<Rightarrow> x_PublicKey cert = MLDSAKey p b)"

text \<open>\<open>bindIssuedCert\<close>. The clock is read at 11 and 12; the new row draws 13, the audit event 14.\<close>

definition bound_cert :: "enrollment \<Rightarrow> x509cert \<Rightarrow> cert_info \<Rightarrow> bytes \<Rightarrow> certificate" where
  "bound_cert e cert info leafPEM = certificate_zero\<lparr>c_EnrollmentID := e_ID e, c_DeviceID := e_DeviceID e,
     c_AccountID := e_AccountID e, c_Serial := ci_SerialNumber info,
     c_Fingerprint := ci_FingerprintSHA256 info, c_PEM := leafPEM, c_NotBefore := x_NotBefore cert,
     c_NotAfter := x_NotAfter cert, c_Status := CertActive\<rparr>"

definition bindIssuedCert :: "lib \<Rightarrow> orc \<Rightarrow> enrollment \<Rightarrow> bytes \<Rightarrow> server \<Rightarrow> certificate result \<times> server" where
  "bindIssuedCert L ora e leafPEM s =
     (case ParseAndValidateCertificate L leafPEM (o_clk ora 11) of
        Inl err \<Rightarrow> (Inl (Errorf (''certificate rejected: '' @ Error err)), s)
      | Inr (cert, info) \<Rightarrow>
          let ics = (case ParseChainPEM L (cf_CAChainPEM (sv_cfg s)) of Inl err \<Rightarrow> [] | Inr cs \<Rightarrow> cs);
              chain = ValidateCertificateChain L cert ics (cf_RootCAPEM (sv_cfg s)) (o_clk ora 12)
          in if cr_Error chain \<noteq> None \<or> \<not> cr_TrustedChain chain then
               (Inl (Errorf ''certificate does not chain to the configured Root CA''), s)
             else
               (case ParseAndValidateCSR L (e_CSRPEM e) of
                  Inl err \<Rightarrow> (Inl (Errorf ''stored CSR no longer parses''), s)
                | Inr (csr, qinfo) \<Rightarrow>
                    if \<not> keys_match csr cert
                    then (Inl (Errorf ''certificate public key does not match the enrolled CSR''), s)
                    else
                      let (stored, s) = st_upd (CreateCertificate (o_rnd ora 13) (bound_cert e cert info leafPEM)) s;
                          s = snd (st_upd (SetEnrollmentStatus (e_ID e) EnrollmentIssued) s);
                          s = append_event ora 14 (event ''certificate.issue'' (e_AccountID e) (e_DeviceID e)
                                ''ok'' (c_Serial stored)) s
                      in (Inr stored, s)))"

subsection \<open>Handler\<close>

definition certificate_created :: "certificate \<Rightarrow> response" where
  "certificate_created stored = writeJSON 201 (JObj [(''certificate_id'', JStr (c_ID stored)),
     (''serial'', JStr (c_Serial stored)), (''fingerprint'', JStr (c_Fingerprint stored))])"

definition hLabIssue :: handler where
  "hLabIssue L ora c r s =
     (if cf_LabIssuer (sv_cfg s) = None then (writeErr 404 ''lab issuer not enabled'', s)
      else case Enrollment (rq_path r ''id'') (sv_st s) of
             Inl err \<Rightarrow> (writeErr 404 ''enrollment not found'', s)
           | Inr e \<Rightarrow>
               (case issueViaCA ora 10 e s of
                  Inl err \<Rightarrow> (writeErr 502 (''issuance failed: '' @ Error err), s)
                | Inr leaf \<Rightarrow>
                    let (bound, s) = bindIssuedCert L ora e leaf s
                    in (case bound of
                          Inl err \<Rightarrow> writeErr 400 (Error err)
                        | Inr stored \<Rightarrow> certificate_created stored, s)))"

subsection \<open>Contract\<close>

lemma bindIssuedCert_frame:
  "sv_cfg (snd (bindIssuedCert L ora e leaf s)) = sv_cfg s"
  "sv_signer (snd (bindIssuedCert L ora e leaf s)) = sv_signer s"
  "sv_uploads (snd (bindIssuedCert L ora e leaf s)) = sv_uploads s"
  "sv_crl (snd (bindIssuedCert L ora e leaf s)) = sv_crl s"
  by (auto simp: bindIssuedCert_def Let_def st_upd_def split: sum.splits prod.splits)

lemma bindIssuedCert_steps:
  assumes "aux_steps P m (sv_st s)" "map_of (m_certificates (sv_st s)) (ID ''cert'' (o_rnd ora 13)) = None"
  shows "aux_steps P m (sv_st (snd (bindIssuedCert L ora e leaf s)))"
proof -
  have "c_ID (bound_cert e cert info leaf) = []" for cert info
    by (simp add: bound_cert_def certificate_zero_def)
  with assms show ?thesis
    by (auto simp: bindIssuedCert_def Let_def st_upd_def fresh_in_def
             split: sum.splits prod.splits intro!: aux_peel)
qed

abbreviation user_only :: "account \<Rightarrow> bool" where
  "user_only a \<equiv> a_Role a = RoleUser \<and> a_Status a = AccountPending"

lemma hLabIssue_state:
  "snd (hLabIssue L ora c r s) = s \<or> (\<exists>e leaf. snd (hLabIssue L ora c r s) = snd (bindIssuedCert L ora e leaf s))"
  by (auto simp: hLabIssue_def Let_def split_beta split: sum.splits)

lemma bindIssuedCert_contract:
  assumes "\<And>L ora c r s. snd (h L ora c r s) = s \<or>
      (\<exists>e leaf. snd (h L ora c r s) = snd (bindIssuedCert L ora e leaf s))"
  shows "store_handler h (aux_step user_only)"
proof unfold_locales
  fix s L ora c r
  show "sv_cfg (snd (h L ora c r s)) = sv_cfg s" "sv_signer (snd (h L ora c r s)) = sv_signer s"
    using assms [of L ora c r s] bindIssuedCert_frame(1,2) by auto
  show "uploads_wf (sv_uploads (snd (h L ora c r s)))" if "uploads_wf (sv_uploads s)"
    using that assms [of L ora c r s] bindIssuedCert_frame(3) by auto
  show "aux_steps user_only (sv_st s) (sv_st (snd (h L ora c r s)))"
    if "mem_wf (sv_st s)" "fresh_orc ora (sv_st s)"
  proof -
    have "aux_steps user_only (sv_st s) (sv_st (snd (bindIssuedCert L ora e leaf s)))" for e leaf
      by (rule bindIssuedCert_steps) (use that in \<open>simp_all add: fresh_orc_def\<close>)
    then show ?thesis using assms [of L ora c r s] by auto
  qed
qed (rule aux_step_mem)

interpretation labissue: store_handler hLabIssue "aux_step user_only"
  by (rule bindIssuedCert_contract) (rule hLabIssue_state)

subsection \<open>Properties\<close>

text \<open>C10: A certificate is bound to an account and device only after every check: it parses, has an
  ML-DSA key, is within its validity, is no CA, carries the document-signing usage, chains to the
  configured root, and its key is the ML-DSA-65 key of the enrolled request, whose proof of possession
  verifies. The stored row has the enrollment's account and device and the certificate's own serial
  and fingerprint, and is active. When any check fails, nothing is written.\<close>

theorem bindIssuedCert_sound:
  assumes "bindIssuedCert L ora e leaf s = (res, s')"
  shows "case res of
      Inl err \<Rightarrow> s' = s
    | Inr stored \<Rightarrow> \<exists>cert csr ics. ParseCertificatePEM L leaf = Inr cert \<and> IsMLDSA cert \<and>
        x_NotBefore cert \<le> o_clk ora 11 \<and> o_clk ora 11 \<le> x_NotAfter cert \<and> \<not> x_IsCA cert \<and>
        HasDocumentSigningEKU cert \<and>
        cr_TrustedChain (ValidateCertificateChain L cert ics (cf_RootCAPEM (sv_cfg s)) (o_clk ora 12)) \<and>
        L_ParseCertificateRequest L (pem_or_der L (e_CSRPEM e)) = Inr csr \<and>
        L_csr_CheckSignature L csr = None \<and> (\<exists>kb. q_PublicKey csr = MLDSAKey ''ML-DSA-65'' kb) \<and>
        x_PublicKey cert = q_PublicKey csr \<and>
        c_AccountID stored = e_AccountID e \<and> c_DeviceID stored = e_DeviceID e \<and>
        c_EnrollmentID stored = e_ID e \<and> c_Serial stored = serial_hex (x_SerialNumber cert) \<and>
        c_Fingerprint stored = FingerprintSHA256 L cert \<and> c_Status stored = CertActive \<and>
        Certificate (c_ID stored) (sv_st s') = Inr stored"
proof (cases res)
  case (Inl err)
  with assms show ?thesis
    by (auto simp: bindIssuedCert_def Let_def split_beta split: sum.splits if_splits)
next
  case (Inr stored)
  define ics where "ics = (case ParseChainPEM L (cf_CAChainPEM (sv_cfg s)) of Inl err \<Rightarrow> [] | Inr cs \<Rightarrow> cs)"
  from assms Inr obtain cert info csr qinfo where
    c: "ParseAndValidateCertificate L leaf (o_clk ora 11) = Inr (cert, info)"
    and chain: "cr_TrustedChain (ValidateCertificateChain L cert ics (cf_RootCAPEM (sv_cfg s)) (o_clk ora 12))"
    and q: "ParseAndValidateCSR L (e_CSRPEM e) = Inr (csr, qinfo)"
    and key: "keys_match csr cert"
    and st: "stored = fst (CreateCertificate (o_rnd ora 13) (bound_cert e cert info leaf) (sv_st s))"
    and s': "m_certificates (sv_st s') =
      m_certificates (snd (CreateCertificate (o_rnd ora 13) (bound_cert e cert info leaf) (sv_st s)))"
    by (auto simp: bindIssuedCert_def Let_def split_beta ics_def [symmetric] split: sum.splits if_splits)
  have "x_PublicKey cert = q_PublicKey csr" using key by (auto simp: keys_match_def split: public_key.splits)
  moreover have "Certificate (c_ID stored) (sv_st s') = Inr stored"
    by (simp add: Certificate_def s' st CreateCertificate_def Let_def)
  moreover have "c_AccountID stored = e_AccountID e" "c_DeviceID stored = e_DeviceID e"
    "c_EnrollmentID stored = e_ID e" "c_Serial stored = ci_SerialNumber info"
    "c_Fingerprint stored = ci_FingerprintSHA256 info" "c_Status stored = CertActive"
    by (simp_all add: st CreateCertificate_def bound_cert_def Let_def)
  ultimately show ?thesis
    using ParseAndValidateCertificate_InrD [OF c] ParseAndValidateCSR_InrD [OF q] chain Inr
    by (auto simp: Describe_def)
qed

definition demo_orc :: orc where
  "demo_orc = \<lparr>o_auth = 5, o_allow = True, o_clk = (\<lambda>n. 5), o_rnd = (\<lambda>n. ''n''), o_rnderr = (\<lambda>n. None),
     o_tmp = (\<lambda>n. Inr ''/tmp/x''),
     o_ca = (\<lambda>n args. \<lparr>ca_writeerr = None, ca_out = [], ca_err = False, ca_file = Inr ''Cx''\<rparr>),
     o_open = (\<lambda>n. None), o_werr = (\<lambda>n. None)\<rparr>"

definition demo_enrollment :: enrollment where
  "demo_enrollment = enrollment_zero\<lparr>e_ID := ''enr_1'', e_DeviceID := ''dev_1'', e_AccountID := ''acct_1'',
     e_CSRPEM := ''q''\<rparr>"

lemma demo_bind:
  "\<exists>s'. bindIssuedCert demo_pki demo_orc demo_enrollment ''Cx'' demo_server =
     (Inr ((bound_cert demo_enrollment demo_cert (Describe demo_pki demo_cert) ''Cx'')\<lparr>c_ID := ''cert_6e''\<rparr>), s')"
  by (simp add: bindIssuedCert_def ParseAndValidateCertificate_def ParseCertificatePEM_def
      ParseChainPEM_def ValidateCertificateChain_def AppendCertsFromPEM_def ParseAndValidateCSR_def
      PublicKeyFingerprint_def pem_or_der_def demo_pki_def demo_lib_def demo_pem_def demo_orc_def
      demo_server_def demo_config_def demo_enrollment_def demo_csr_def IsMLDSA_def demo_cert_def keys_match_def
      HasDocumentSigningEKU_def st_upd_def CreateCertificate_def Let_def bound_cert_def
      certificate_zero_def ID_def hex_encode_def hex_byte_def hex_digit_def)

theorem bindIssuedCert_sound_witness:
  "\<exists>s' stored. bindIssuedCert demo_pki demo_orc demo_enrollment ''Cx'' demo_server = (Inr stored, s') \<and>
     c_AccountID stored = ''acct_1'' \<and> c_Status stored = CertActive \<and>
     Certificate (c_ID stored) (sv_st s') = Inr stored"
proof -
  obtain s' stored where b: "bindIssuedCert demo_pki demo_orc demo_enrollment ''Cx'' demo_server = (Inr stored, s')"
    using demo_bind by blast
  from bindIssuedCert_sound [OF b] b show ?thesis by (auto simp: demo_enrollment_def)
qed

end
