(* ===== verification/Handlers.thy ===== *)
theory Handlers
  imports DevIssue
begin

section \<open>The request handlers (\<open>server/internal/api/handlers.go\<close>, \<open>uploads.go\<close>)\<close>

text \<open>
  One definition per handler, in the order of the source, with every early return. The indices of the
  oracle number the clock readings and random draws of one request; the store methods that stamp a
  row take both from the same index. Each handler's contract follows its definition.
\<close>

subsection \<open>Registration and login\<close>

definition new_user :: "(string \<Rightarrow> string) \<Rightarrow> string \<Rightarrow> account" where
  "new_user inp hash =
     (let displayName = (if inp ''display_name'' = [] then inp ''full_name'' else inp ''display_name'')
      in account_zero\<lparr>a_Email := inp ''email'', a_DisplayName := displayName,
           a_FullName := inp ''full_name'', a_Organization := inp ''organization'',
           a_Position := inp ''position'', a_NIP := inp ''nip'', a_PasswordHash := hash,
           a_Role := RoleUser, a_Status := AccountPending\<rparr>)"

definition hRegister :: handler where
  "hRegister L ora c r s =
     (let (inp, err) = decode L [''email'', ''password'', ''display_name'', ''full_name'', ''organization'',
                         ''position'', ''nip''] r
      in if err \<or> inp ''email'' = [] \<or> length (inp ''password'') < 8 then
           (writeErr 400 ''email and an 8+ char password are required'', s)
         else case HashPassword L (rand_Read ora 0) (inp ''password'') of
                Inl e \<Rightarrow> (writeErr 500 ''hash'', s)
              | Inr hash \<Rightarrow>
                  let (created, s) = st_upd (CreateAccount (o_rnd ora 1) (o_clk ora 1) (new_user inp hash)) s
                  in (case created of
                        Inl e \<Rightarrow> (writeErr 409 (Error e), s)
                      | Inr a \<Rightarrow>
                          (writeJSON 201 (JObj [(''account_id'', JStr (a_ID a)), (''role'', JStr (a_Role a)),
                             (''status'', JStr (a_Status a)),
                             (''message'', JStr ''akun dibuat, menunggu persetujuan admin'')]),
                           append_event ora 2 (event ''account.register'' (a_ID a) [] ''ok'' (a_Status a)) s)))"

text \<open>After a failed lookup the code still reads \<open>a.ID\<close>, of the zero account.\<close>

definition hLogin :: handler where
  "hLogin L ora c r s =
     (let (inp, err) = decode L [''email'', ''password''] r in
      if err then (writeErr 400 ''bad body'', s)
      else
        let found = AccountByEmail (inp ''email'') (sv_st s); a = account_or_zero found;
            ok = (case found of Inl e \<Rightarrow> Some False | Inr a \<Rightarrow> VerifyPassword L (inp ''password'') (a_PasswordHash a))
        in (case ok of
              None \<Rightarrow> (aborted, s)
            | Some False \<Rightarrow>
                (writeErr 401 ''invalid credentials'',
                 append_event ora 0 (event ''auth.login'' (a_ID a) [] ''fail'' []) s)
            | Some True \<Rightarrow>
                if a_Status a = AccountPending then
                  (writeJSON 403 (JObj [(''error'', JStr ''akun menunggu persetujuan admin''),
                                        (''account_status'', JStr AccountPending)]),
                   append_event ora 0 (event ''auth.login'' (a_ID a) [] ''fail'' ''pending'') s)
                else if a_Status a = AccountDisabled then
                  (writeJSON 403 (JObj [(''error'', JStr ''akun dinonaktifkan, hubungi admin''),
                                        (''account_status'', JStr AccountDisabled)]),
                   append_event ora 0 (event ''auth.login'' (a_ID a) [] ''fail'' ''disabled'') s)
                else
                  (writeJSON 200 (JObj
                     [(''access_token'', JStr (Issue L (sv_signer s) (o_clk ora 1) (a_ID a) (a_Role a))),
                      (''token_type'', JStr ''Bearer''),
                      (''expires_in'', JInt (TTL (sv_signer s) div second))]),
                   append_event ora 0 (event ''auth.login'' (a_ID a) [] ''ok'' []) s)))"

subsection \<open>Devices and enrollment\<close>

definition hCreateDevice :: handler where
  "hCreateDevice L ora c r s =
     (let (inp, err) = decode L [''Label'', ''Platform''] r;
          (d, s) = st_upd (CreateDevice (o_rnd ora 0) (o_clk ora 0)
            (device_zero\<lparr>d_AccountID := cl_Sub c, d_Label := inp ''Label'', d_Platform := inp ''Platform''\<rparr>)) s;
          s = audit ora 1 ''device.create'' c (d_ID d) ''ok'' (d_Label d) s
      in (writeJSON 201 (JObj [(''device_id'', JStr (d_ID d)), (''status'', JStr (d_Status d))]), s))"

definition hListDevices :: handler where
  "hListDevices L ora c r s =
     (writeJSON 200 (JObj [(''devices'', JArr (map (\<lambda>d.
        JObj ([(''device_id'', JStr (d_ID d)), (''label'', JStr (d_Label d)),
               (''platform'', JStr (d_Platform d)), (''status'', JStr (d_Status d))] @
              (case CertificateByDevice (d_ID d) (sv_st s) of
                 Inl e \<Rightarrow> []
               | Inr cert \<Rightarrow> [(''certificate_serial'', JStr (c_Serial cert)),
                              (''certificate_status'', JStr (c_Status cert))])))
        (DevicesByAccount (cl_Sub c) (sv_st s))))]), s)"

definition deviceOwnedBy :: "claims \<Rightarrow> request \<Rightarrow> server \<Rightarrow> device result" where
  "deviceOwnedBy c r s =
     (case Device (rq_path r ''device_id'') (sv_st s) of
        Inl e \<Rightarrow> Inl e
      | Inr d \<Rightarrow> if d_AccountID d \<noteq> cl_Sub c then Inl (Errorf ''forbidden'') else Inr d)"

definition pending_note :: string where
  "pending_note = ''penerbitan sertifikat tertunda, hubungi admin''"

text \<open>The automatic issuance at the end of \<open>hSubmitCSR\<close>: the extra response fields and the server.\<close>

definition autoIssue :: "lib \<Rightarrow> orc \<Rightarrow> claims \<Rightarrow> device \<Rightarrow> enrollment \<Rightarrow> server \<Rightarrow> (string \<times> json) list \<times> server" where
  "autoIssue L ora c d e s =
     (let acc = account_or_zero (Account (cl_Sub c) (sv_st s)) in
      if cf_LabIssuer (sv_cfg s) \<noteq> None \<and> a_Status acc = AccountActive then
        (case issueViaCA ora 10 e s of
           Inl err \<Rightarrow>
             ([(''status'', JStr (e_Status e)), (''note'', JStr pending_note)],
              audit ora 15 ''certificate.issue'' c (d_ID d) ''fail'' (Error err) s)
         | Inr leaf \<Rightarrow>
             let (bound, s) = bindIssuedCert L ora e leaf s
             in (case bound of
                   Inl err \<Rightarrow>
                     ([(''status'', JStr (e_Status e)), (''note'', JStr pending_note)],
                      audit ora 15 ''certificate.issue'' c (d_ID d) ''fail'' (Error err) s)
                 | Inr stored \<Rightarrow>
                     ([(''status'', JStr EnrollmentIssued), (''certificate_serial'', JStr (c_Serial stored))], s)))
      else ([(''status'', JStr (e_Status e))], s))"

definition hSubmitCSR :: handler where
  "hSubmitCSR L ora c r s =
     (case deviceOwnedBy c r s of
        Inl e \<Rightarrow> (writeErr 404 ''device not found'', s)
      | Inr d \<Rightarrow>
          (case readBody r 65536 of
             Inl e \<Rightarrow> (writeErr 400 ''read'', s)
           | Inr body \<Rightarrow>
               (case ParseAndValidateCSR L body of
                  Inl e \<Rightarrow>
                    (writeErr 400 (''CSR rejected: '' @ Error e),
                     audit ora 0 ''csr.submit'' c (d_ID d) ''reject'' (Error e) s)
                | Inr (csr, info) \<Rightarrow>
                    let (e, s) = st_upd (CreateEnrollment (o_rnd ora 1) (o_clk ora 1)
                          (enrollment_zero\<lparr>e_DeviceID := d_ID d, e_AccountID := cl_Sub c, e_CSRPEM := body,
                                           e_CSRKeyFP := qi_PublicKeyFP info\<rparr>)) s;
                        s = audit ora 2 ''csr.submit'' c (d_ID d) ''accept'' (e_ID e) s;
                        (extra, s) = autoIssue L ora c d e s
                    in (writeJSON 201 (JObj ((''enrollment_id'', JStr (e_ID e)) # extra)), s))))"

definition hDeviceCertificate :: handler where
  "hDeviceCertificate L ora c r s =
     (case deviceOwnedBy c r s of
        Inl e \<Rightarrow> (writeErr 404 ''device not found'', s)
      | Inr d \<Rightarrow>
          (case CertificateByDevice (rq_path r ''device_id'') (sv_st s) of
             Inl e \<Rightarrow> (writeErr 404 ''no certificate issued yet'', s)
           | Inr cert \<Rightarrow> (writeRaw ''application/x-pem-file'' (c_PEM cert), s)))"

definition hReportLost :: handler where
  "hReportLost L ora c r s =
     (case deviceOwnedBy c r s of
        Inl e \<Rightarrow> (writeErr 404 ''device not found'', s)
      | Inr d \<Rightarrow>
          let s = snd (st_upd (SetDeviceStatus (d_ID d) DeviceLost) s);
              s = audit ora 0 ''device.report_lost'' c (d_ID d) ''ok'' [] s
          in (writeJSON 200 (JObj [(''device_id'', JStr (d_ID d)), (''status'', JStr DeviceLost),
                (''note'', JStr ''an admin must now revoke the device certificate and publish a new CRL'')]), s))"

subsection \<open>Certificate issuance and revocation\<close>

definition hListEnrollments :: handler where
  "hListEnrollments L ora c r s =
     (writeJSON 200 (JObj [(''enrollments'', JArr (map (\<lambda>e.
        JObj [(''enrollment_id'', JStr (e_ID e)), (''device_id'', JStr (e_DeviceID e)),
              (''account_id'', JStr (e_AccountID e)), (''csr_key_fingerprint'', JStr (e_CSRKeyFP e)),
              (''status'', JStr (e_Status e)), (''created_at'', JStr (fmtTime (e_CreatedAt e)))])
        (ListEnrollments (sv_st s))))]), s)"

definition hExportEnrollment :: handler where
  "hExportEnrollment L ora c r s =
     (case Enrollment (rq_path r ''id'') (sv_st s) of
        Inl e \<Rightarrow> (writeErr 404 ''enrollment not found'', s)
      | Inr e \<Rightarrow> (writeRaw ''application/x-pem-file'' (e_CSRPEM e), s))"

definition hApproveEnrollment :: handler where
  "hApproveEnrollment L ora c r s =
     (let i = rq_path r ''id'';
          (err, s) = st_upd (SetEnrollmentStatus i EnrollmentApproved) s
      in (case err of
            Some e \<Rightarrow> (writeErr 404 ''enrollment not found'', s)
          | None \<Rightarrow>
              (writeJSON 200 (JObj [(''enrollment_id'', JStr i), (''status'', JStr EnrollmentApproved)]),
               append_event ora 0 (event ''enrollment.approve'' [] [] ''ok'' i) s)))"

definition hIssueCertificate :: handler where
  "hIssueCertificate L ora c r s =
     (case Enrollment (rq_path r ''id'') (sv_st s) of
        Inl e \<Rightarrow> (writeErr 404 ''enrollment not found'', s)
      | Inr e \<Rightarrow>
          (case readBody r 65536 of
             Inl err \<Rightarrow> (writeErr 400 ''read'', s)
           | Inr body \<Rightarrow>
               let (bound, s) = bindIssuedCert L ora e body s
               in (case bound of
                     Inl err \<Rightarrow> writeErr 400 (Error err)
                   | Inr stored \<Rightarrow> certificate_created stored, s)))"

definition hRevoke :: handler where
  "hRevoke L ora c r s =
     (let (inp, err) = decode L [''Reason''] r;
          i = rq_path r ''id'';
          (err, s) = st_upd (RevokeCertificate (o_clk ora 0) i (inp ''Reason'')) s
      in (case err of
            Some e \<Rightarrow> (writeErr 404 ''certificate not found'', s)
          | None \<Rightarrow>
              let cert = certificate_or_zero (Certificate i (sv_st s))
              in (writeJSON 200 (JObj [(''certificate_id'', JStr i), (''status'', JStr CertRevoked)]),
                  append_event ora 1 (event ''certificate.revoke'' (c_AccountID cert) (c_DeviceID cert) ''ok''
                    (c_Serial cert @ '' '' @ inp ''Reason'')) s)))"

definition hImportCRL :: handler where
  "hImportCRL L ora c r s =
     (case readBody r 262144 of
        Inl e \<Rightarrow> (writeErr 400 ''read'', s)
      | Inr body \<Rightarrow>
          (case parseCRLBytes L body of
             Some e \<Rightarrow> (writeErr 400 (''not a parseable CRL: '' @ Error e), s)
           | None \<Rightarrow>
               (writeJSON 200 (JObj [(''status'', JStr ''crl updated'')]),
                append_event ora 0 (event ''crl.import'' [] [] ''ok'' []) (s\<lparr>sv_crl := body\<rparr>))))"

definition hAudit :: handler where
  "hAudit L ora c r s = (writeJSON 200 (JObj [(''events'', JArr (map JAudit (AuditEvents 500 (sv_st s))))]), s)"

subsection \<open>Contracts\<close>

lemmas handler_simps = Let_def split_beta audit_def

text \<open>A handler is within the contract when its new store is reached by administrative calls and it
  leaves configuration, signer and uploads alone.\<close>

lemma aux_contract:
  assumes "\<And>L ora c r s. mem_wf (sv_st s) \<Longrightarrow> fresh_orc ora (sv_st s) \<Longrightarrow>
      aux_steps P (sv_st s) (sv_st (snd (h L ora c r s)))"
    and "\<And>L ora c r s. sv_cfg (snd (h L ora c r s)) = sv_cfg s \<and>
      sv_signer (snd (h L ora c r s)) = sv_signer s \<and> sv_uploads (snd (h L ora c r s)) = sv_uploads s"
  shows "store_handler h (aux_step P)"
  using assms by unfold_locales (simp_all add: aux_step_mem)

lemma account_zero_simps [simp]: "a_ID account_zero = []" "d_ID device_zero = []" "e_ID enrollment_zero = []"
  "r_PublicID reservation_zero = []"
  by (simp_all add: zero_defs)

lemma new_user_simps [simp]:
  "a_ID (new_user inp hash) = []" "a_Role (new_user inp hash) = RoleUser"
  "a_Status (new_user inp hash) = AccountPending" "a_Email (new_user inp hash) = inp ''email''"
  by (simp_all add: new_user_def Let_def)

interpretation register: store_handler hRegister "aux_step user_only"
  by (rule aux_contract; simp add: hRegister_def handler_simps split: sum.split;
      intro conjI impI allI aux_peel; simp add: fresh_in_def fresh_orc_def)

interpretation login: store_handler hLogin "aux_step user_only"
  by (rule aux_contract; simp add: hLogin_def handler_simps split: option.split bool.split;
      intro conjI impI allI aux_peel; simp add: fresh_in_def fresh_orc_def)

interpretation createdevice: store_handler hCreateDevice "aux_step user_only"
  by (rule aux_contract; simp add: hCreateDevice_def handler_simps split: sum.split;
      intro conjI impI allI aux_peel; simp add: fresh_in_def fresh_orc_def)

lemma autoIssue_frame:
  "sv_cfg (snd (autoIssue L ora c d e s)) = sv_cfg s"
  "sv_signer (snd (autoIssue L ora c d e s)) = sv_signer s"
  "sv_uploads (snd (autoIssue L ora c d e s)) = sv_uploads s"
  by (auto simp: autoIssue_def handler_simps bindIssuedCert_frame split: sum.splits)

lemma autoIssue_steps:
  assumes "aux_steps P m (sv_st s)" "map_of (m_certificates (sv_st s)) (ID ''cert'' (o_rnd ora 13)) = None"
  shows "aux_steps P m (sv_st (snd (autoIssue L ora c d e s)))"
  using assms bindIssuedCert_steps [OF assms]
  by (simp add: autoIssue_def handler_simps split: sum.split;
      intro conjI impI allI aux_peel; simp add: fresh_in_def fresh_orc_def)

interpretation submitcsr: store_handler hSubmitCSR "aux_step user_only"
  by (rule aux_contract; simp add: hSubmitCSR_def handler_simps autoIssue_frame split: sum.split;
      intro conjI impI allI aux_peel autoIssue_steps; simp add: fresh_in_def fresh_orc_def;
      intro aux_peel; simp add: fresh_in_def)

interpretation reportlost: store_handler hReportLost "aux_step user_only"
  by (rule aux_contract; simp add: hReportLost_def handler_simps split: sum.split;
      intro conjI impI allI aux_peel; simp add: fresh_in_def fresh_orc_def)

interpretation approveenrollment: store_handler hApproveEnrollment "aux_step user_only"
  by (rule aux_contract; simp add: hApproveEnrollment_def handler_simps split: option.split;
      intro conjI impI allI aux_peel; simp add: fresh_in_def fresh_orc_def)

interpretation issuecertificate: store_handler hIssueCertificate "aux_step user_only"
  by (rule bindIssuedCert_contract)
     (auto simp: hIssueCertificate_def Let_def split_beta split: sum.splits)

interpretation revoke: store_handler hRevoke "aux_step user_only"
  by (rule aux_contract; simp add: hRevoke_def handler_simps split: option.split;
      intro conjI impI allI aux_peel; simp add: fresh_in_def fresh_orc_def)

interpretation importcrl: store_handler hImportCRL "aux_step user_only"
  by (rule aux_contract; simp add: hImportCRL_def handler_simps split: sum.split option.split;
      intro conjI impI allI aux_peel; simp add: fresh_in_def fresh_orc_def)

text \<open>The handlers that only read.\<close>

interpretation listdevices: store_handler hListDevices "aux_step user_only"
  by (rule read_only_contract) (simp_all add: hListDevices_def aux_step_mem)

interpretation devicecertificate: store_handler hDeviceCertificate "aux_step user_only"
  by (rule read_only_contract) (simp_all add: hDeviceCertificate_def aux_step_mem split: sum.splits)

interpretation listenrollments: store_handler hListEnrollments "aux_step user_only"
  by (rule read_only_contract) (simp_all add: hListEnrollments_def aux_step_mem)

interpretation exportenrollment: store_handler hExportEnrollment "aux_step user_only"
  by (rule read_only_contract) (simp_all add: hExportEnrollment_def aux_step_mem split: sum.splits)

interpretation auditlist: store_handler hAudit "aux_step user_only"
  by (rule read_only_contract) (simp_all add: hAudit_def aux_step_mem)

interpretation capabilities: store_handler hCapabilities "aux_step user_only"
  by (rule read_only_contract) (simp_all add: hCapabilities_def aux_step_mem)

end
