(* ===== verification/Submission.thy ===== *)
theory Submission
  imports Handlers
begin

section \<open>Reservation, submission and the public record (\<open>handlers.go\<close>, \<open>uploads.go\<close>, \<open>qrpage.go\<close>)\<close>

text \<open>
  The handlers through which a signed document enters the server and is looked up again. A reader is
  its bytes and the error that ends it. The upload a request names is read from the scratch file.
\<close>

subsection \<open>Addresses\<close>

definition publicBase :: "server \<Rightarrow> string" where
  "publicBase s =
     (let base = TrimRight (cf_PublicBaseURL (sv_cfg s)) (CHR ''/'')
      in if base = [] then ''http://localhost:8443'' else base)"

definition verifyURL :: "server \<Rightarrow> string \<Rightarrow> string" where
  "verifyURL s publicID = publicBase s @ ''/v/'' @ publicID"

definition isLoopbackBase :: "string \<Rightarrow> bool" where
  "isLoopbackBase b \<longleftrightarrow> b = [] \<or> Contains b ''localhost'' \<or> Contains b ''127.0.0.1''"

text \<open>\<open>strings.EqualFold(x, "https")\<close>: ASCII case folding, and the long s (C5 BF) folds to s.\<close>

definition fold_rune :: "string \<Rightarrow> string" where
  "fold_rune r =
     (if map of_char r = [0xC5, 0xBF :: nat] then ''s''
      else if length r = 1 \<and> byte_in (hd r) 65 90 then [char_of (of_char (hd r) + 32 :: nat)] else r)"

definition EqualFold_https :: "string \<Rightarrow> bool" where
  "EqualFold_https x \<longleftrightarrow> map fold_rune (runes x) = [''h'', ''t'', ''t'', ''p'', ''s'']"

definition reqBase :: "request \<Rightarrow> string" where
  "reqBase r = (if rq_TLS r \<or> EqualFold_https (rq_XForwardedProto r) then ''https'' else ''http'')
     @ ''://'' @ rq_Host r"

fun qr_pick :: "string \<Rightarrow> string list \<Rightarrow> string" where
  "qr_pick publicID [] = publicID"
| "qr_pick publicID (cand # cands) =
     (let cand = TrimRight cand (CHR ''/'') in
      if isLoopbackBase cand then qr_pick publicID cands
      else (if \<not> HasPrefix cand ''http://'' \<and> \<not> HasPrefix cand ''https://'' then ''http://'' @ cand else cand)
             @ ''/v/'' @ publicID)"

definition qrTarget :: "request \<Rightarrow> string \<Rightarrow> server \<Rightarrow> string" where
  "qrTarget r publicID s =
     qr_pick publicID [TrimSpace (rq_query r ''base''), reqBase r,
       TrimRight (cf_PublicBaseURL (sv_cfg s)) (CHR ''/'')]"

subsection \<open>Reservation\<close>

definition hReserve :: handler where
  "hReserve L ora c r s =
     (let (inp, err) = decode L [''device_id'', ''original_sha512'', ''file_name''] r in
      if err \<or> inp ''device_id'' = [] then (writeErr 400 ''device_id is required'', s)
      else case Device (inp ''device_id'') (sv_st s) of
             Inl e \<Rightarrow> (writeErr 404 ''device not found'', s)
           | Inr d \<Rightarrow>
               if d_AccountID d \<noteq> cl_Sub c then (writeErr 404 ''device not found'', s)
               else if d_Status d \<noteq> DeviceActive then (writeErr 403 (''device is '' @ d_Status d), s)
               else case CertificateByDevice (d_ID d) (sv_st s) of
                      Inl e \<Rightarrow> (writeErr 403 ''device has no active certificate'', s)
                    | Inr cert \<Rightarrow>
                        if c_Status cert \<noteq> CertActive then
                          (writeErr 403 ''device has no active certificate'', s)
                        else
                          let (res, s) = st_upd (CreateReservation (o_rnd ora 0) (o_clk ora 0)
                                (reservation_zero\<lparr>r_AccountID := cl_Sub c, r_DeviceID := d_ID d,
                                   r_OriginalSHA512 := inp ''original_sha512'',
                                   r_FileName := sanitizeName (inp ''file_name''),
                                   r_ExpiresAt := o_clk ora 1 + 2 * hour\<rparr>)) s;
                              s = audit ora 2 ''signature.reserve'' c (d_ID d) ''ok'' (r_PublicID res) s
                          in (writeJSON 201 (JObj [(''public_id'', JStr (r_PublicID res)),
                                (''verification_url'', JStr (verifyURL s (r_PublicID res))),
                                (''expires_at'', JStr (fmtTime (r_ExpiresAt res)))]), s))"

subsection \<open>Submission\<close>

definition signedInput :: "orc \<Rightarrow> request \<Rightarrow> string \<Rightarrow> server \<Rightarrow>
    ((bytes \<times> error option) \<times> int \<times> upload_session option) result" where
  "signedInput ora r account s =
     (let i = rq_query r ''upload_id'' in
      if i \<noteq> [] then
        (case get_upload i account (sv_uploads s) of
           None \<Rightarrow> Inl errNoUpload
         | Some sess \<Rightarrow>
             (case (o_open ora 0, map_of (um_files (sv_uploads s)) (us_path sess)) of
                (Some e, _) \<Rightarrow> Inl e
              | (None, None) \<Rightarrow> Inl (Errorf ''no such file or directory'')
              | (None, Some b) \<Rightarrow> Inr ((b, o_open ora 1), us_size sess, Some sess)))
      else
        (case readBody r (cf_MaxUploadBytes (sv_cfg s)) of
           Inl e \<Rightarrow> Inl e
         | Inr body \<Rightarrow>
             (case withinLimit body (cf_MaxUploadBytes (sv_cfg s)) of
                Some e \<Rightarrow> Inl errTooLarge
              | None \<Rightarrow> Inr ((body, None), int (length body), None))))"

definition submissionResult :: "signature \<Rightarrow> json" where
  "submissionResult sig = JObj [(''public_id'', JStr (s_PublicID sig)),
     (''status'', JStr (if s_VerificationStatus sig = VerificationStoredOnly
                        then ''stored_unverified'' else ''accepted'')),
     (''verification_status'', JStr (s_VerificationStatus sig)),
     (''signed_pdf_sha512'', JStr (s_SignedSHA512 sig)),
     (''certificate_serial'', JStr (s_CertSerial sig)),
     (''server_received_at'', JStr (fmtTime (s_ServerReceivedAt sig)))]"

text \<open>The key of a document; year and month are in the server's local zone.\<close>

definition object_key :: "lib \<Rightarrow> orc \<Rightarrow> string \<Rightarrow> string" where
  "object_key L ora publicID =
     ''documents/'' @ dec_int (Year (o_clk ora 3) (L_local_zone L (o_clk ora 3))) @ ''/''
       @ dec02 (Month (o_clk ora 4) (L_local_zone L (o_clk ora 4))) @ ''/'' @ publicID @ ''/signed.pdf''"

definition verified_signature :: "lib \<Rightarrow> orc \<Rightarrow> reservation \<Rightarrow> verified_info \<Rightarrow> string \<Rightarrow> bytes \<Rightarrow> signature" where
  "verified_signature L ora res info key body = signature_zero\<lparr>s_PublicID := r_PublicID res,
     s_AccountID := r_AccountID res, s_DeviceID := r_DeviceID res,
     s_OriginalSHA512 := r_OriginalSHA512 res, s_SignedSHA512 := CalculateSHA512 L body,
     s_StorageObjectKey := key, s_SignedSize := int (length body), s_ServerReceivedAt := o_clk ora 6,
     s_VerificationStatus := VerificationAccepted, s_Algorithm := ''ML-DSA-65'', s_PDFProfile := ''PAdES_B'',
     s_CertSerial := vi_CertSerial info, s_CertFingerprint := vi_CertFingerprint info,
     s_CertificateID := vi_CertificateID info, s_ClientClaimedSigningTime := vi_ClaimedTime info\<rparr>"

definition stored_signature :: "lib \<Rightarrow> orc \<Rightarrow> reservation \<Rightarrow> string \<Rightarrow> bytes \<Rightarrow> int \<Rightarrow> signature" where
  "stored_signature L ora res key body size' = signature_zero\<lparr>s_PublicID := r_PublicID res,
     s_AccountID := r_AccountID res, s_DeviceID := r_DeviceID res,
     s_OriginalSHA512 := r_OriginalSHA512 res, s_SignedSHA512 := hex_encode (L_sha512 L body),
     s_StorageObjectKey := key, s_SignedSize := size', s_ServerReceivedAt := o_clk ora 6,
     s_VerificationStatus := VerificationStoredOnly, s_Algorithm := ''ML-DSA-65'', s_PDFProfile := ''PAdES_B''\<rparr>"

text \<open>The end of \<open>hSubmitDocument\<close>, after the object is stored: the record, the reservation, the
  audit event, the upload.\<close>

definition record_submission :: "orc \<Rightarrow> claims \<Rightarrow> reservation \<Rightarrow> upload_session option \<Rightarrow> signature \<Rightarrow> server \<Rightarrow>
    response \<times> server" where
  "record_submission ora c res sess sg s =
     (let (created, s) = st_upd (CreateSignature (o_clk ora 7) sg) s in
      case created of
        Inl e \<Rightarrow> (writeErr 409 ''submission already recorded'', s)
      | Inr sig \<Rightarrow>
          let s = snd (st_upd (SetReservationStatus (r_PublicID res) ReservationAccepted) s);
              s = audit ora 8 ''signature.submit'' c (r_DeviceID res) ''accept''
                    (r_PublicID res @ '' '' @ s_VerificationStatus sig) s;
              s = (case sess of None \<Rightarrow> s | Some u \<Rightarrow> s\<lparr>sv_uploads := discard u (sv_uploads s)\<rparr>)
          in (writeJSON 200 (submissionResult sig), s))"

text \<open>The two tiers, by size.\<close>

definition submit_verified :: "lib \<Rightarrow> orc \<Rightarrow> claims \<Rightarrow> reservation \<Rightarrow> bytes \<times> error option \<Rightarrow>
    upload_session option \<Rightarrow> server \<Rightarrow> response \<times> server" where
  "submit_verified L ora c res rc sess s =
     (let key = object_key L ora (r_PublicID res) in
      case snd rc of
        Some e \<Rightarrow> (writeErr 400 ''read'', s)
      | None \<Rightarrow>
          (case strictVerify L (o_clk ora 5) res (fst rc) s of
             None \<Rightarrow> (aborted, s)
           | Some (info, reason) \<Rightarrow>
               if reason \<noteq> [] then
                 (writeErr 422 reason, audit ora 8 ''signature.submit'' c (r_DeviceID res) ''reject'' reason s)
               else
                 let (perr, s) = st_upd (PutObject key (fst rc)) s
                 in if perr \<noteq> None then (writeErr 500 ''store'', s)
                    else record_submission ora c res sess
                           (verified_signature L ora res info key (fst rc)) s))"

definition submit_stored :: "lib \<Rightarrow> orc \<Rightarrow> claims \<Rightarrow> reservation \<Rightarrow> bytes \<times> error option \<Rightarrow> int \<Rightarrow>
    upload_session option \<Rightarrow> server \<Rightarrow> response \<times> server" where
  "submit_stored L ora c res rc sz sess s =
     (let key = object_key L ora (r_PublicID res);
          (perr, s) = st_upd (PutObjectFrom key rc sz) s
      in if perr \<noteq> None then (writeErr 500 ''store'', s)
         else record_submission ora c res sess (stored_signature L ora res key (fst rc) sz) s)"

definition hSubmitDocument :: handler where
  "hSubmitDocument L ora c r s =
     (case Reservation (rq_path r ''public_id'') (sv_st s) of
        Inl e \<Rightarrow> (writeErr 404 ''reservation not found'', s)
      | Inr res \<Rightarrow>
          if r_AccountID res \<noteq> cl_Sub c then (writeErr 404 ''reservation not found'', s)
          else
            (case (if r_Status res = ReservationAccepted then Signature (r_PublicID res) (sv_st s)
                   else Inl ErrNotFound) of
               Inr sig \<Rightarrow> (writeJSON 200 (submissionResult sig), s)
             | Inl _ \<Rightarrow>
                 (case signedInput ora r (cl_Sub c) s of
                    Inl e \<Rightarrow>
                      (if e = errNoUpload then writeErr 404 ''sesi unggah tidak ditemukan''
                       else if e = errTooLarge then writeErr 413 ''PDF exceeds the upload limit''
                       else writeErr 400 ''read'', s)
                  | Inr (rc, sz, sess) \<Rightarrow>
                      if sz \<le> cf_MaxVerifyBytes (sv_cfg s) then submit_verified L ora c res rc sess s
                      else submit_stored L ora c res rc sz sess s)))"

subsection \<open>Reading records back\<close>

definition hGetSignature :: handler where
  "hGetSignature L ora c r s =
     (case Signature (rq_path r ''public_id'') (sv_st s) of
        Inl e \<Rightarrow> (writeErr 404 ''not found'', s)
      | Inr sig \<Rightarrow> (if s_AccountID sig \<noteq> cl_Sub c then writeErr 404 ''not found''
                    else writeJSON 200 (JSignature sig), s))"

definition hDownload :: handler where
  "hDownload L ora c r s =
     (case Signature (rq_path r ''public_id'') (sv_st s) of
        Inl e \<Rightarrow> (writeErr 404 ''not found'', s)
      | Inr sig \<Rightarrow>
          (if s_AccountID sig \<noteq> cl_Sub c then writeErr 404 ''not found''
           else case GetObject (s_StorageObjectKey sig) (sv_st s) of
                  Inl e \<Rightarrow> writeErr 404 ''object missing''
                | Inr b \<Rightarrow> writeRaw ''application/pdf'' b, s))"

definition hMySignatures :: handler where
  "hMySignatures L ora c r s =
     (writeJSON 200 (JObj [(''signatures'', JArr (map JSignature (SignaturesByAccount (cl_Sub c) (sv_st s))))]), s)"

definition note_text :: string where
  "note_text = ''QR memastikan kecocokan dengan catatan server; integritas seluruh dokumen diverifikasi dari file PDF asli.''"

definition stored_note :: string where
  "stored_note = ''Berkas ini terlalu besar untuk diverifikasi otomatis di server. '' @
     ''Server hanya mencatat SHA-512-nya dan menyimpan salinannya. '' @
     ''Verifikasi tanda tangan secara manual dengan mengunggah PDF di halaman verifikasi.''"

text \<open>\<open>certificate_status\<close> of the public record.\<close>

definition public_status :: "signature \<Rightarrow> device \<Rightarrow> server \<Rightarrow> string" where
  "public_status sig d s =
     (if s_VerificationStatus sig = VerificationStoredOnly then ''not_server_verified''
      else case CertificateBySerial (s_CertSerial sig) (sv_st s) of
             Inr c \<Rightarrow> if c_Status c = CertRevoked then ''revoked''
                     else if d_Status d = DeviceLost then ''device_reported_lost'' else ''active''
           | Inl e \<Rightarrow> if d_Status d = DeviceLost then ''device_reported_lost'' else ''active'')"

definition publicRecord :: "signature \<Rightarrow> account \<Rightarrow> device \<Rightarrow> server \<Rightarrow> json" where
  "publicRecord sig a d s = JObj [(''public_id'', JStr (s_PublicID sig)),
     (''signer_name'', JStr (a_DisplayName a)), (''position'', JStr (a_Position a)), (''nip'', JStr (a_NIP a)),
     (''device_label'', JStr (d_Label d)), (''certificate_serial'', JStr (s_CertSerial sig)),
     (''certificate_fingerprint'', JStr (s_CertFingerprint sig)),
     (''certificate_status'', JStr (public_status sig d s)),
     (''verification_status'', JStr (s_VerificationStatus sig)),
     (''signed_pdf_sha512'', JStr (s_SignedSHA512 sig)),
     (''client_claimed_signing_time'', JStr (s_ClientClaimedSigningTime sig)),
     (''server_received_at'', JStr (fmtTime (s_ServerReceivedAt sig))),
     (''note'', JStr (if s_VerificationStatus sig = VerificationStoredOnly then stored_note else note_text))]"

definition record_of :: "signature \<Rightarrow> server \<Rightarrow> json" where
  "record_of sig s =
     publicRecord sig (account_or_zero (Account (s_AccountID sig) (sv_st s)))
       (device_or_zero (Device (s_DeviceID sig) (sv_st s))) s"

definition hPublicRecord :: handler where
  "hPublicRecord L ora c r s =
     (case Signature (rq_path r ''public_id'') (sv_st s) of
        Inl e \<Rightarrow> (writeErr 404 ''no such record'', s)
      | Inr sig \<Rightarrow> (writeJSON 200 (record_of sig s), s))"

text \<open>\<open>http.Error\<close>: plain text with a newline.\<close>

definition http_Error :: "int \<Rightarrow> string \<Rightarrow> response" where
  "http_Error code msg = \<lparr>rs_code = code, rs_type = ''text/plain; charset=utf-8'', rs_body = BRaw (msg @ [CHR 0x0A])\<rparr>"

definition hPublicDocument :: handler where
  "hPublicDocument L ora c r s =
     (case Signature (rq_path r ''public_id'') (sv_st s) of
        Inl e \<Rightarrow> (http_Error 404 ''tidak ada dokumen dengan ID itu'', s)
      | Inr sig \<Rightarrow>
          (case GetObject (s_StorageObjectKey sig) (sv_st s) of
             Inl e \<Rightarrow> http_Error 404 ''berkas dokumen tidak tersedia di server''
           | Inr b \<Rightarrow> writeRaw ''application/pdf'' b, s))"

text \<open>The multipart form is parsed by \<open>net/http\<close>: \<open>rq_form_err\<close> and \<open>rq_file\<close> are its outcome.\<close>

definition hPublicVerify :: handler where
  "hPublicVerify L ora c r s =
     (if rq_form_err r then (writeErr 400 ''expected multipart/form-data with a 'file' field'', s)
      else case rq_file r of
             None \<Rightarrow> (writeErr 400 (''missing '' @ [CHR 0x27] @ ''file'' @ [CHR 0x27]), s)
           | Some f \<Rightarrow>
               (case readAll f (cf_MaxUploadBytes (sv_cfg s)) of
                  Inl e \<Rightarrow> (writeErr 413 ''file too large'', s)
                | Inr pdf \<Rightarrow>
                    (case VerifyPDF L (o_clk ora 0) pdf (server_options s) of
                       None \<Rightarrow> (aborted, s)
                     | Some (Inl e) \<Rightarrow> (writeErr 422 (Error e), s)
                     | Some (Inr vr) \<Rightarrow>
                         let pid = (if vr_Signatures vr = [] then [] else PublicID (hd (vr_Signatures vr)));
                             found = (if pid = [] then Inl ErrNotFound else Signature pid (sv_st s))
                         in (writeJSON 200 (JObj (case found of
                               Inl e \<Rightarrow> [(''verification'', JResult vr), (''registered'', JBool False)]
                             | Inr sig \<Rightarrow> [(''verification'', JResult vr), (''registered'', JBool True),
                                            (''record'', record_of sig s)])), s))))"

subsection \<open>Upload handlers\<close>

definition hUploadCreate :: handler where
  "hUploadCreate L ora c r s =
     (let (created, um) = create_upload (rand_Read ora 0) (o_clk ora 0) (o_open ora 0) (cl_Sub c) (sv_uploads s);
          s = s\<lparr>sv_uploads := um\<rparr>
      in (case created of
            Inl e \<Rightarrow> writeErr 500 ''gagal memulai unggah''
          | Inr sess \<Rightarrow> writeJSON 201 (JObj [(''upload_id'', JStr (us_id sess)), (''received'', JInt 0),
                          (''max_bytes'', JInt (cf_MaxUploadBytes (sv_cfg s)))]), s))"

definition hUploadChunk :: handler where
  "hUploadChunk L ora c r s =
     (case get_upload (rq_path r ''id'') (cl_Sub c) (sv_uploads s) of
        None \<Rightarrow> (writeErr 404 ''sesi unggah tidak ditemukan'', s)
      | Some sess \<Rightarrow>
          let offset = ParseInt64 (rq_query r ''offset'');
              ((got, err), um) = appendChunk sess offset (cf_MaxUploadBytes (sv_cfg s))
                 (rq_body r, rq_body_err r) (o_open ora 0) (o_werr ora 0) (o_clk ora 0) (sv_uploads s);
              s = s\<lparr>sv_uploads := um\<rparr>
          in if err = Some errUploadOffset then
               (writeJSON 409 (JObj [(''error'', JStr ''offset tidak sesuai''), (''received'', JInt got)]), s)
             else if err = Some errUploadTooBig then
               (writeErr 413 ''unggahan melebihi batas'', s\<lparr>sv_uploads := discard sess (sv_uploads s)\<rparr>)
             else if err \<noteq> None then (writeErr 500 ''gagal menulis potongan'', s)
             else (writeJSON 200 (JObj [(''received'', JInt got)]), s))"

definition hUploadStatus :: handler where
  "hUploadStatus L ora c r s =
     (case get_upload (rq_path r ''id'') (cl_Sub c) (sv_uploads s) of
        None \<Rightarrow> (writeErr 404 ''sesi unggah tidak ditemukan'', s)
      | Some sess \<Rightarrow> (writeJSON 200 (JObj [(''received'', JInt (us_size sess))]), s))"

subsection \<open>Contracts\<close>

interpretation reserve: store_handler hReserve doc_step
proof unfold_locales
  fix s L ora c r
  show "sv_cfg (snd (hReserve L ora c r s)) = sv_cfg s" "sv_signer (snd (hReserve L ora c r s)) = sv_signer s"
    by (simp_all add: hReserve_def handler_simps split: sum.split)
  show "uploads_wf (sv_uploads (snd (hReserve L ora c r s)))" if "uploads_wf (sv_uploads s)"
    using that by (simp add: hReserve_def handler_simps split: sum.split)
  show "doc_steps (sv_st s) (sv_st (snd (hReserve L ora c r s)))" if "fresh_orc ora (sv_st s)"
    by (simp add: hReserve_def handler_simps split: sum.split; intro conjI impI allI doc_peel;
        simp add: fresh_orcD [OF that])
qed (rule doc_step_mem)

lemma record_submission_frame [simp]:
  "sv_cfg (snd (record_submission ora c res sess sg s)) = sv_cfg s"
  "sv_signer (snd (record_submission ora c res sess sg s)) = sv_signer s"
  "sv_crl (snd (record_submission ora c res sess sg s)) = sv_crl s"
  by (simp_all add: record_submission_def handler_simps split: sum.split option.split)

lemma record_submission_steps:
  "doc_steps m (sv_st s) \<Longrightarrow> doc_steps m (sv_st (snd (record_submission ora c res sess sg s)))"
  by (simp add: record_submission_def handler_simps split: sum.split option.split;
      intro conjI impI allI doc_peel; simp)

lemma record_submission_uploads:
  assumes "uploads_wf (sv_uploads s)" "\<And>u. sess = Some u \<Longrightarrow> \<exists>i. map_of (um_m (sv_uploads s)) i = Some u"
  shows "uploads_wf (sv_uploads (snd (record_submission ora c res sess sg s)))"
  using assms by (auto simp: record_submission_def handler_simps intro: discard_wf split: sum.split option.split)

lemma submit_verified_frame [simp]:
  "sv_cfg (snd (submit_verified L ora c res rc sess s)) = sv_cfg s"
  "sv_signer (snd (submit_verified L ora c res rc sess s)) = sv_signer s"
  by (simp_all add: submit_verified_def handler_simps split: option.split)

lemma submit_stored_frame [simp]:
  "sv_cfg (snd (submit_stored L ora c res rc sz sess s)) = sv_cfg s"
  "sv_signer (snd (submit_stored L ora c res rc sz sess s)) = sv_signer s"
  by (simp_all add: submit_stored_def handler_simps split: option.split)

lemma submit_steps:
  "doc_steps (sv_st s) (sv_st (snd (submit_verified L ora c res rc sess s)))"
  "doc_steps (sv_st s) (sv_st (snd (submit_stored L ora c res rc sz sess s)))"
  by (simp_all add: submit_verified_def submit_stored_def handler_simps split: option.split)
     (auto intro!: doc_peel record_submission_steps)

lemma submit_uploads:
  assumes "uploads_wf (sv_uploads s)" "\<And>u. sess = Some u \<Longrightarrow> \<exists>i. map_of (um_m (sv_uploads s)) i = Some u"
  shows "uploads_wf (sv_uploads (snd (submit_verified L ora c res rc sess s)))"
    "uploads_wf (sv_uploads (snd (submit_stored L ora c res rc sz sess s)))"
  using assms
  by (auto simp: submit_verified_def submit_stored_def handler_simps split: option.split
      intro!: record_submission_uploads)

lemma signedInput_session:
  "signedInput ora r acc s = Inr (rc, sz, Some u) \<Longrightarrow> map_of (um_m (sv_uploads s)) (rq_query r ''upload_id'') = Some u"
  by (auto simp: signedInput_def get_upload_def Let_def split: option.splits if_splits sum.splits)

interpretation submit: store_handler hSubmitDocument doc_step
proof unfold_locales
  fix s L ora c r
  show "sv_cfg (snd (hSubmitDocument L ora c r s)) = sv_cfg s"
    "sv_signer (snd (hSubmitDocument L ora c r s)) = sv_signer s"
    by (simp_all add: hSubmitDocument_def split: sum.split prod.split)
  show "uploads_wf (sv_uploads (snd (hSubmitDocument L ora c r s)))" if "uploads_wf (sv_uploads s)"
    using that
    by (auto simp: hSubmitDocument_def split: sum.split prod.split intro!: submit_uploads
             dest: signedInput_session)
  show "doc_steps (sv_st s) (sv_st (snd (hSubmitDocument L ora c r s)))"
    by (auto simp: hSubmitDocument_def split: sum.split prod.split intro: submit_steps)
qed (rule doc_step_mem)

text \<open>The upload handlers do not touch the store.\<close>

interpretation uploadcreate: store_handler hUploadCreate "aux_step user_only"
proof unfold_locales
  fix s L ora c r
  show "uploads_wf (sv_uploads (snd (hUploadCreate L ora c r s)))"
    if "uploads_wf (sv_uploads s)" "fresh_upload ora (sv_uploads s)"
  proof (cases "rand_Read ora 0")
    case (Inl e)
    with that show ?thesis by (simp add: hUploadCreate_def handler_simps create_upload_def)
  next
    case (Inr b)
    then have "b = o_rnd ora 0" by (simp add: rand_Read_def split: option.splits)
    with Inr that have "uploads_wf (snd (create_upload (rand_Read ora 0) (o_clk ora 0) (o_open ora 0) (cl_Sub c) (sv_uploads s)))"
      by (intro create_upload_wf) (simp_all add: fresh_upload_def)
    then show ?thesis by (simp add: hUploadCreate_def handler_simps)
  qed
qed (simp_all add: hUploadCreate_def handler_simps aux_step_mem)

interpretation uploadchunk: store_handler hUploadChunk "aux_step user_only"
proof unfold_locales
  fix s L ora c r
  show "uploads_wf (sv_uploads (snd (hUploadChunk L ora c r s)))" if wf: "uploads_wf (sv_uploads s)"
  proof (cases "get_upload (rq_path r ''id'') (cl_Sub c) (sv_uploads s)")
    case None
    with wf show ?thesis by (simp add: hUploadChunk_def)
  next
    case (Some u)
    then have u: "map_of (um_m (sv_uploads s)) (rq_path r ''id'') = Some u"
      by (auto simp: get_upload_def split: option.splits if_splits)
    let ?a = "appendChunk u (ParseInt64 (rq_query r ''offset'')) (cf_MaxUploadBytes (sv_cfg s))
       (rq_body r, rq_body_err r) (o_open ora 0) (o_werr ora 0) (o_clk ora 0) (sv_uploads s)"
    have awf: "uploads_wf (snd ?a)" by (rule appendChunk_wf [OF wf u])
    have iu: "us_id u = rq_path r ''id''" using uploads_wfD [OF wf u] by (simp add: upload_ok_def)
    have "\<exists>u'. map_of (um_m (snd ?a)) (rq_path r ''id'') = Some u' \<and> us_id u' = us_id u \<and> us_path u' = us_path u"
      using u iu by (auto simp: appendChunk_def handler_simps split: option.split)
    then obtain u' where u': "map_of (um_m (snd ?a)) (rq_path r ''id'') = Some u'"
      and same: "us_id u' = us_id u" "us_path u' = us_path u" by blast
    have "discard u (snd ?a) = discard u' (snd ?a)" by (simp add: discard_def same)
    then have "uploads_wf (discard u (snd ?a))" using discard_wf [OF awf u'] by simp
    with awf Some show ?thesis by (simp add: hUploadChunk_def handler_simps)
  qed
qed (simp_all add: hUploadChunk_def handler_simps aux_step_mem split: option.split)

interpretation uploadstatus: store_handler hUploadStatus "aux_step user_only"
  by (rule read_only_contract) (simp_all add: hUploadStatus_def aux_step_mem split: option.splits)

interpretation getsignature: store_handler hGetSignature "aux_step user_only"
  by (rule read_only_contract) (simp_all add: hGetSignature_def aux_step_mem split: sum.splits)

interpretation download: store_handler hDownload "aux_step user_only"
  by (rule read_only_contract) (simp_all add: hDownload_def aux_step_mem split: sum.splits)

interpretation mysignatures: store_handler hMySignatures "aux_step user_only"
  by (rule read_only_contract) (simp_all add: hMySignatures_def aux_step_mem)

interpretation publicrecord: store_handler hPublicRecord "aux_step user_only"
  by (rule read_only_contract) (simp_all add: hPublicRecord_def aux_step_mem split: sum.splits)

interpretation publicdocument: store_handler hPublicDocument "aux_step user_only"
  by (rule read_only_contract) (simp_all add: hPublicDocument_def aux_step_mem split: sum.splits)

interpretation publicverify: store_handler hPublicVerify "aux_step user_only"
  by (rule read_only_contract)
     (simp_all add: hPublicVerify_def aux_step_mem Let_def split: sum.splits option.splits)

end
