(* ===== verification/Accounts.thy ===== *)
theory Accounts
  imports Submission
begin

section \<open>Account administration (\<open>server/internal/api/accounts.go\<close>)\<close>

text \<open>
  The super admin manages admins, admins manage end users. Disabling or deleting a user revokes every
  active certificate of the account, marks its devices lost and publishes a new CRL. The answer of the
  CA to a single revocation is ignored by the code and changes nothing in the server.
\<close>

definition accountView :: "account \<Rightarrow> server \<Rightarrow> json" where
  "accountView a s =
     (let certs = CertificatesByAccount (a_ID a) (sv_st s)
      in JObj [(''account_id'', JStr (a_ID a)), (''email'', JStr (a_Email a)), (''username'', JStr (a_Email a)),
           (''full_name'', JStr (a_FullName a)), (''organization'', JStr (a_Organization a)),
           (''role'', JStr (a_Role a)), (''status'', JStr (a_Status a)),
           (''created_at'', JStr (fmtTime (a_CreatedAt a))),
           (''certificates'', JInt (int (length certs))),
           (''active_certificates'', JInt (int (length (filter (\<lambda>c. c_Status c = CertActive) certs))))])"

subsection \<open>Admins\<close>

definition new_admin :: "string \<Rightarrow> string \<Rightarrow> account" where
  "new_admin u hash = account_zero\<lparr>a_Email := u, a_DisplayName := u, a_Role := RoleAdmin,
     a_Status := AccountActive, a_PasswordHash := hash\<rparr>"

definition hCreateAdmin :: handler where
  "hCreateAdmin L ora c r s =
     (let (inp, err) = decode L [''username'', ''email'', ''password''] r in
      if err then (writeErr 400 ''bad body'', s)
      else
        let u = (if TrimSpace (inp ''username'') = [] then TrimSpace (inp ''email'')
                 else TrimSpace (inp ''username''))
        in if u = [] \<or> length (inp ''password'') < 8 then
             (writeErr 400 ''username dan kata sandi minimal 8 karakter wajib diisi'', s)
           else case HashPassword L (rand_Read ora 0) (inp ''password'') of
                  Inl e \<Rightarrow> (writeErr 500 ''hash'', s)
                | Inr hash \<Rightarrow>
                    let (created, s) = st_upd (CreateAccount (o_rnd ora 1) (o_clk ora 1) (new_admin u hash)) s
                    in (case created of
                          Inl e \<Rightarrow> (writeErr 409 (Error e), s)
                        | Inr a \<Rightarrow>
                            let s = append_event ora 2 (event ''admin.create'' (a_ID a) [] ''ok'' (cl_Sub c)) s
                            in (writeJSON 201 (accountView a s), s)))"

definition hListAdmins :: handler where
  "hListAdmins L ora c r s =
     (writeJSON 200 (JObj [(''admins'', JArr (map (\<lambda>a.
        JObj [(''account_id'', JStr (a_ID a)), (''username'', JStr (a_Email a)), (''role'', JStr (a_Role a)),
              (''status'', JStr (a_Status a)), (''self'', JBool (a_ID a = cl_Sub c)),
              (''created_at'', JStr (fmtTime (a_CreatedAt a)))])
        (filter (\<lambda>a. a_Role a = RoleAdmin \<or> a_Role a = RoleSuperAdmin) (ListAccounts (sv_st s)))))]), s)"

text \<open>The status part of \<open>hUpdateAdmin\<close>.\<close>

definition set_admin_status :: "orc \<Rightarrow> account \<Rightarrow> string \<Rightarrow> server \<Rightarrow> response \<times> server" where
  "set_admin_status ora a status s =
     (let done' = (\<lambda>s. (writeJSON 200 (accountView (account_or_zero (Account (a_ID a) (sv_st s))) s), s)) in
      if status = AccountActive \<or> status = AccountDisabled then
        (let (err, s) = st_upd (SetAccountStatus (a_ID a) status) s
         in if err \<noteq> None then (writeErr 500 ''update'', s)
            else done' (append_event ora 3 (event ''admin.status'' (a_ID a) [] ''ok'' status) s))
      else if status = [] then done' s
      else (writeErr 400 ''status harus active atau disabled'', s))"

definition hUpdateAdmin :: handler where
  "hUpdateAdmin L ora c r s =
     (case Account (rq_path r ''id'') (sv_st s) of
        Inl e \<Rightarrow> (writeErr 404 ''admin tidak ditemukan'', s)
      | Inr a \<Rightarrow>
          if a_Role a \<noteq> RoleAdmin \<and> a_Role a \<noteq> RoleSuperAdmin then (writeErr 404 ''admin tidak ditemukan'', s)
          else if a_Role a = RoleSuperAdmin then
            (writeErr 403 ''akun super admin tidak bisa diubah dari sini'', s)
          else
            let (inp, err) = decode L [''password'', ''status''] r in
            if err then (writeErr 400 ''bad body'', s)
            else if inp ''password'' \<noteq> [] then
              (if length (inp ''password'') < 8 then (writeErr 400 ''kata sandi minimal 8 karakter'', s)
               else case HashPassword L (rand_Read ora 0) (inp ''password'') of
                      Inl e \<Rightarrow> (writeErr 500 ''hash'', s)
                    | Inr hash \<Rightarrow>
                        let (err, s) = st_upd (SetAccountPassword (a_ID a) hash) s
                        in if err \<noteq> None then (writeErr 500 ''update'', s)
                           else set_admin_status ora a (inp ''status'')
                                  (append_event ora 2 (event ''admin.password'' (a_ID a) [] ''ok'' (cl_Sub c)) s))
            else set_admin_status ora a (inp ''status'') s)"

definition hDeleteAdmin :: handler where
  "hDeleteAdmin L ora c r s =
     (case Account (rq_path r ''id'') (sv_st s) of
        Inl e \<Rightarrow> (writeErr 404 ''admin tidak ditemukan'', s)
      | Inr a \<Rightarrow>
          if a_Role a \<noteq> RoleAdmin then (writeErr 404 ''admin tidak ditemukan'', s)
          else
            let (err, s) = st_upd (DeleteAccount (a_ID a)) s
            in if err \<noteq> None then
                 let s = snd (st_upd (SetAccountStatus (a_ID a) AccountDisabled) s)
                 in (writeJSON 200 (JObj [(''account_id'', JStr (a_ID a)), (''status'', JStr AccountDisabled),
                       (''note'', JStr ''akun masih dirujuk; dinonaktifkan permanen alih-alih dihapus'')]),
                     append_event ora 0 (event ''admin.delete'' (a_ID a) [] ''tombstone'' []) s)
               else
                 (writeJSON 200 (JObj [(''account_id'', JStr (a_ID a)), (''status'', JStr ''deleted'')]),
                  append_event ora 0 (event ''admin.delete'' (a_ID a) [] ''ok'' (cl_Sub c)) s))"

subsection \<open>End users\<close>

text \<open>\<open>clientTarget\<close>: the account, or the error response already written.\<close>

definition clientTarget :: "request \<Rightarrow> server \<Rightarrow> response + account" where
  "clientTarget r s =
     (case Account (rq_path r ''id'') (sv_st s) of
        Inl e \<Rightarrow> Inl (writeErr 404 ''account not found'')
      | Inr a \<Rightarrow> if a_Role a \<noteq> RoleUser then
                   Inl (writeErr 403 ''akun admin dikelola di menu Admin (khusus super admin)'')
                 else Inr a)"

definition hListAccounts :: handler where
  "hListAccounts L ora c r s =
     (writeJSON 200 (JObj [(''accounts'', JArr (map (\<lambda>a. accountView a s) (ListAccounts (sv_st s))))]), s)"

text \<open>The common end: read the account again and show it.\<close>

definition show_account :: "string \<Rightarrow> server \<Rightarrow> response" where
  "show_account i s = writeJSON 200 (accountView (account_or_zero (Account i (sv_st s))) s)"

definition hApproveAccount :: handler where
  "hApproveAccount L ora c r s =
     (case clientTarget r s of
        Inl resp \<Rightarrow> (resp, s)
      | Inr a \<Rightarrow>
          if a_Status a = AccountActive then (writeJSON 200 (accountView a s), s)
          else
            let (err, s) = st_upd (SetAccountStatus (a_ID a) AccountActive) s
            in if err \<noteq> None then (writeErr 500 ''update'', s)
               else
                 let s = append_event ora 0 (event ''account.approve'' (a_ID a) [] ''ok'' []) s
                 in (show_account (a_ID a) s, s))"

definition hEnableAccount :: handler where
  "hEnableAccount L ora c r s =
     (case clientTarget r s of
        Inl resp \<Rightarrow> (resp, s)
      | Inr a \<Rightarrow>
          let (err, s) = st_upd (SetAccountStatus (a_ID a) AccountActive) s
          in if err \<noteq> None then (writeErr 500 ''update'', s)
             else
               let s = append_event ora 0 (event ''account.enable'' (a_ID a) [] ''ok''
                     ''prior certificates stay revoked; the user re-enrols on next login'') s
               in (show_account (a_ID a) s, s))"

definition hUpdateAccount :: handler where
  "hUpdateAccount L ora c r s =
     (case clientTarget r s of
        Inl resp \<Rightarrow> (resp, s)
      | Inr a \<Rightarrow>
          let (inp, err) = decode L [''full_name'', ''organization''] r in
          if err then (writeErr 400 ''bad body'', s)
          else
            let (err, s) = st_upd (UpdateAccountProfile (a_ID a) (inp ''full_name'') (inp ''organization'')) s
            in if err \<noteq> None then (writeErr 500 ''update'', s)
               else
                 let s = append_event ora 0 (event ''account.update'' (a_ID a) [] ''ok'' []) s
                 in (show_account (a_ID a) s, s))"

subsection \<open>The cascade\<close>

text \<open>One certificate of the loop; \<open>k\<close> numbers the iterations.\<close>

definition mark_lost :: "string \<Rightarrow> device \<Rightarrow> server \<Rightarrow> server" where
  "mark_lost deviceID d s =
     (if d_ID d = deviceID then snd (st_upd (SetDeviceStatus (d_ID d) DeviceLost) s) else s)"

definition lose_device :: "string \<Rightarrow> string \<Rightarrow> server \<Rightarrow> server" where
  "lose_device accountID deviceID s = fold (mark_lost deviceID) (DevicesByAccount accountID (sv_st s)) s"

definition revoke_one :: "orc \<Rightarrow> string \<Rightarrow> string \<Rightarrow> nat \<Rightarrow> certificate \<Rightarrow> server \<Rightarrow> server" where
  "revoke_one ora accountID reason k c s =
     (let s = snd (st_upd (RevokeCertificate (o_clk ora (20 + 2 * k)) (c_ID c) reason) s);
          s = lose_device accountID (c_DeviceID c) s
      in append_event ora (21 + 2 * k) (event ''certificate.revoke'' accountID (c_DeviceID c) ''ok''
           (c_Serial c @ '' '' @ reason)) s)"

fun cascade :: "orc \<Rightarrow> string \<Rightarrow> string \<Rightarrow> nat \<Rightarrow> certificate list \<Rightarrow> server \<Rightarrow> int \<times> server" where
  "cascade ora accountID reason k [] s = (0, s)"
| "cascade ora accountID reason k (c # cs) s =
     (if c_Status c \<noteq> CertActive then cascade ora accountID reason (Suc k) cs s
      else let (n, s) = cascade ora accountID reason (Suc k) cs (revoke_one ora accountID reason k c s)
           in (n + 1, s))"

definition disableCascade :: "orc \<Rightarrow> string \<Rightarrow> string \<Rightarrow> server \<Rightarrow> int \<times> server" where
  "disableCascade ora accountID reason s =
     (let (n, s) = cascade ora accountID reason 0 (CertificatesByAccount accountID (sv_st s)) s;
          s = (if 0 < n then
                 (case publishCRLViaCA ora 0 s of
                    Inl e \<Rightarrow> s
                  | Inr crl \<Rightarrow>
                      if crl = [] then s
                      else append_event ora 1 (event ''crl.publish'' accountID [] ''ok'' []) (s\<lparr>sv_crl := crl\<rparr>))
               else s)
      in (n, s))"

definition hDisableAccount :: handler where
  "hDisableAccount L ora c r s =
     (case clientTarget r s of
        Inl resp \<Rightarrow> (resp, s)
      | Inr a \<Rightarrow>
          let s = snd (st_upd (SetAccountStatus (a_ID a) AccountDisabled) s);
              (revoked, s) = disableCascade ora (a_ID a) ''account disabled'' s
          in (writeJSON 200 (JObj [(''account_id'', JStr (a_ID a)), (''status'', JStr AccountDisabled),
                (''certificates_revoked'', JInt revoked)]),
              append_event ora 2 (event ''account.disable'' (a_ID a) [] ''ok'' []) s))"

definition hDeleteAccount :: handler where
  "hDeleteAccount L ora c r s =
     (case clientTarget r s of
        Inl resp \<Rightarrow> (resp, s)
      | Inr a \<Rightarrow>
          let s = snd (st_upd (SetAccountStatus (a_ID a) AccountDisabled) s);
              (revoked, s) = disableCascade ora (a_ID a) ''account deleted'' s;
              (err, s) = st_upd (DeleteAccount (a_ID a)) s
          in if err \<noteq> None then
               (writeJSON 200 (JObj [(''account_id'', JStr (a_ID a)), (''status'', JStr AccountDisabled),
                  (''certificates_revoked'', JInt revoked),
                  (''note'', JStr ''akun punya riwayat tanda tangan; dinonaktifkan permanen alih-alih dihapus'')]),
                append_event ora 2 (event ''account.delete'' (a_ID a) [] ''tombstone'' []) s)
             else
               (writeJSON 200 (JObj [(''account_id'', JStr (a_ID a)), (''status'', JStr ''deleted''),
                  (''certificates_revoked'', JInt revoked)]),
                append_event ora 2 (event ''account.delete'' (a_ID a) [] ''ok'' []) s))"

subsection \<open>What the cascade does\<close>

lemma mark_lost_fold_frame:
  "sv_cfg (fold (mark_lost dev) ds s) = sv_cfg s" "sv_signer (fold (mark_lost dev) ds s) = sv_signer s"
  "sv_uploads (fold (mark_lost dev) ds s) = sv_uploads s" "sv_crl (fold (mark_lost dev) ds s) = sv_crl s"
  "m_accounts (sv_st (fold (mark_lost dev) ds s)) = m_accounts (sv_st s)"
  "m_certificates (sv_st (fold (mark_lost dev) ds s)) = m_certificates (sv_st s)"
  "m_signatures (sv_st (fold (mark_lost dev) ds s)) = m_signatures (sv_st s)"
  by (induction ds arbitrary: s) (simp_all add: mark_lost_def)

lemma lose_device_frame [simp]:
  "sv_cfg (lose_device acc dev s) = sv_cfg s" "sv_signer (lose_device acc dev s) = sv_signer s"
  "sv_uploads (lose_device acc dev s) = sv_uploads s" "sv_crl (lose_device acc dev s) = sv_crl s"
  "m_accounts (sv_st (lose_device acc dev s)) = m_accounts (sv_st s)"
  "m_certificates (sv_st (lose_device acc dev s)) = m_certificates (sv_st s)"
  by (simp_all add: lose_device_def mark_lost_fold_frame)

lemma lose_device_steps:
  assumes "aux_steps P m (sv_st s)"
  shows "aux_steps P m (sv_st (lose_device acc dev s))"
proof -
  have "aux_steps P m (sv_st s) \<Longrightarrow> aux_steps P m (sv_st (fold (mark_lost dev) ds s))" for ds s
    by (induction ds arbitrary: s) (simp_all add: mark_lost_def aux_peel)
  with assms show ?thesis by (simp add: lose_device_def)
qed

lemma revoke_one_frame [simp]:
  "sv_cfg (revoke_one ora acc reason k c s) = sv_cfg s"
  "sv_signer (revoke_one ora acc reason k c s) = sv_signer s"
  "sv_uploads (revoke_one ora acc reason k c s) = sv_uploads s"
  "m_accounts (sv_st (revoke_one ora acc reason k c s)) = m_accounts (sv_st s)"
  by (simp_all add: revoke_one_def Let_def)

lemma cascade_frame:
  "sv_cfg (snd (cascade ora acc reason k cs s)) = sv_cfg s"
  "sv_signer (snd (cascade ora acc reason k cs s)) = sv_signer s"
  "sv_uploads (snd (cascade ora acc reason k cs s)) = sv_uploads s"
  "m_accounts (sv_st (snd (cascade ora acc reason k cs s))) = m_accounts (sv_st s)"
  by (induction cs arbitrary: k s) (simp_all add: split_beta)

lemma cascade_steps:
  "aux_steps P m (sv_st s) \<Longrightarrow> aux_steps P m (sv_st (snd (cascade ora acc reason k cs s)))"
  by (induction cs arbitrary: k s)
     (simp_all add: split_beta revoke_one_def Let_def lose_device_steps aux_peel)

lemma disableCascade_frame [simp]:
  "sv_cfg (snd (disableCascade ora acc reason s)) = sv_cfg s"
  "sv_signer (snd (disableCascade ora acc reason s)) = sv_signer s"
  "sv_uploads (snd (disableCascade ora acc reason s)) = sv_uploads s"
  "m_accounts (sv_st (snd (disableCascade ora acc reason s))) = m_accounts (sv_st s)"
  by (simp_all add: disableCascade_def split_beta Let_def cascade_frame split: sum.split)

lemma disableCascade_steps:
  "aux_steps P m (sv_st s) \<Longrightarrow> aux_steps P m (sv_st (snd (disableCascade ora acc reason s)))"
  by (simp add: disableCascade_def split_beta Let_def split: sum.split;
      intro conjI impI allI aux_peel; simp add: cascade_steps aux_peel)

subsection \<open>Contracts\<close>

text \<open>The account a handler works on is the stored row of that id and no super admin.\<close>

lemma Account_row:
  assumes "mem_wf (sv_st s)" "Account i (sv_st s) = Inr a"
  shows "map_of (m_accounts (sv_st s)) (a_ID a) = Some a"
  using assms keyedD [of a_ID "m_accounts (sv_st s)" i a] by (simp add: Account_def mem_wf_def)

lemma clientTarget_row:
  assumes "mem_wf (sv_st s)" "clientTarget r s = Inr a"
  shows "map_of (m_accounts (sv_st s)) (a_ID a) = Some a" "a_Role a = RoleUser"
  using assms Account_row by (auto simp: clientTarget_def split: sum.splits if_splits)

lemma not_super_row: "map_of (m_accounts m) i = Some a \<Longrightarrow> a_Role a \<noteq> RoleSuperAdmin \<Longrightarrow> not_super i m"
  by (simp add: not_super_def)

lemma not_super_after [simp]:
  "not_super i (snd (SetAccountStatus j x m)) = not_super i m"
  "not_super i (snd (SetAccountPassword j x m)) = not_super i m"
  "not_super i (Append rb t ev m) = not_super i m"
  "not_super i (sv_st (snd (disableCascade ora acc reason s))) = not_super i (sv_st s)"
  by (auto simp: not_super_def row_lookups split: option.splits)

abbreviation admin_only :: "account \<Rightarrow> bool" where
  "admin_only a \<equiv> a_Role a = RoleAdmin \<and> a_Status a = AccountActive"

lemma new_admin_simps [simp]:
  "a_ID (new_admin u hash) = []" "a_Role (new_admin u hash) = RoleAdmin"
  "a_Status (new_admin u hash) = AccountActive" "a_Email (new_admin u hash) = u"
  by (simp_all add: new_admin_def)

interpretation createadmin: store_handler hCreateAdmin "aux_step admin_only"
  by (rule aux_contract; simp add: hCreateAdmin_def handler_simps split: sum.split;
      intro conjI impI allI aux_peel; simp add: fresh_in_def fresh_orc_def)

lemma set_admin_status_frame [simp]:
  "sv_cfg (snd (set_admin_status ora a x s)) = sv_cfg s"
  "sv_signer (snd (set_admin_status ora a x s)) = sv_signer s"
  "sv_uploads (snd (set_admin_status ora a x s)) = sv_uploads s"
  by (simp_all add: set_admin_status_def handler_simps)

lemma set_admin_status_steps:
  assumes "aux_steps P m (sv_st s)" "not_super (a_ID a) (sv_st s)"
  shows "aux_steps P m (sv_st (snd (set_admin_status ora a x s)))"
  using assms by (simp add: set_admin_status_def handler_simps aux_peel)

interpretation updateadmin: store_handler hUpdateAdmin "aux_step user_only"
proof (rule aux_contract)
  fix L ora c r s
  show "sv_cfg (snd (hUpdateAdmin L ora c r s)) = sv_cfg s \<and> sv_signer (snd (hUpdateAdmin L ora c r s)) = sv_signer s \<and>
      sv_uploads (snd (hUpdateAdmin L ora c r s)) = sv_uploads s"
    by (simp add: hUpdateAdmin_def handler_simps split: sum.split)
  assume wf: "mem_wf (sv_st s)"
  show "aux_steps user_only (sv_st s) (sv_st (snd (hUpdateAdmin L ora c r s)))"
  proof (cases "Account (rq_path r ''id'') (sv_st s)")
    case (Inr a)
    have "a_Role a \<noteq> RoleSuperAdmin \<Longrightarrow> not_super (a_ID a) (sv_st s)"
      using not_super_row [OF Account_row [OF wf Inr]] .
    with Inr show ?thesis
      by (auto simp: hUpdateAdmin_def handler_simps intro!: set_admin_status_steps aux_peel split: sum.split)
  qed (simp add: hUpdateAdmin_def)
qed

interpretation deleteadmin: store_handler hDeleteAdmin "aux_step user_only"
proof (rule aux_contract)
  fix L ora c r s
  show "sv_cfg (snd (hDeleteAdmin L ora c r s)) = sv_cfg s \<and> sv_signer (snd (hDeleteAdmin L ora c r s)) = sv_signer s \<and>
      sv_uploads (snd (hDeleteAdmin L ora c r s)) = sv_uploads s"
    by (simp add: hDeleteAdmin_def handler_simps split: sum.split)
  assume wf: "mem_wf (sv_st s)"
  show "aux_steps user_only (sv_st s) (sv_st (snd (hDeleteAdmin L ora c r s)))"
  proof (cases "Account (rq_path r ''id'') (sv_st s)")
    case (Inr a)
    have row: "map_of (m_accounts (sv_st s)) (a_ID a) = Some a" by (rule Account_row [OF wf Inr])
    then have ok: "fst (DeleteAccount (a_ID a) (sv_st s)) = None" by (simp add: DeleteAccount_def)
    have "a_Role a = RoleAdmin \<Longrightarrow> not_super (a_ID a) (sv_st s)" using not_super_row [OF row] by simp
    with Inr ok show ?thesis by (simp add: hDeleteAdmin_def handler_simps aux_peel)
  qed (simp add: hDeleteAdmin_def)
qed

text \<open>The handlers on an end user.\<close>

lemma client_contract:
  assumes "\<And>L ora c r s resp. clientTarget r s = Inl resp \<Longrightarrow> snd (h L ora c r s) = s"
    and "\<And>L ora c r s a. clientTarget r s = Inr a \<Longrightarrow> not_super (a_ID a) (sv_st s) \<Longrightarrow>
      aux_steps user_only (sv_st s) (sv_st (snd (h L ora c r s)))"
    and "\<And>L ora c r s a. clientTarget r s = Inr a \<Longrightarrow> sv_cfg (snd (h L ora c r s)) = sv_cfg s \<and>
      sv_signer (snd (h L ora c r s)) = sv_signer s \<and> sv_uploads (snd (h L ora c r s)) = sv_uploads s"
  shows "store_handler h (aux_step user_only)"
proof (rule aux_contract)
  fix L ora c r s
  show "sv_cfg (snd (h L ora c r s)) = sv_cfg s \<and> sv_signer (snd (h L ora c r s)) = sv_signer s \<and>
      sv_uploads (snd (h L ora c r s)) = sv_uploads s"
    using assms(1,3) by (cases "clientTarget r s") auto
  assume wf: "mem_wf (sv_st s)"
  show "aux_steps user_only (sv_st s) (sv_st (snd (h L ora c r s)))"
  proof (cases "clientTarget r s")
    case (Inr a)
    with clientTarget_row [OF wf Inr] not_super_row assms(2) show ?thesis by force
  qed (simp add: assms(1))
qed

interpretation approveaccount: store_handler hApproveAccount "aux_step user_only"
  by (rule client_contract) (auto simp: hApproveAccount_def handler_simps intro!: aux_peel)

interpretation enableaccount: store_handler hEnableAccount "aux_step user_only"
  by (rule client_contract) (auto simp: hEnableAccount_def handler_simps intro!: aux_peel)

interpretation updateaccount: store_handler hUpdateAccount "aux_step user_only"
  by (rule client_contract) (auto simp: hUpdateAccount_def handler_simps intro!: aux_peel)

interpretation disableaccount: store_handler hDisableAccount "aux_step user_only"
  by (rule client_contract)
     (auto simp: hDisableAccount_def handler_simps intro!: aux_peel disableCascade_steps)

interpretation deleteaccount: store_handler hDeleteAccount "aux_step user_only"
  by (rule client_contract)
     (auto simp: hDeleteAccount_def handler_simps intro!: aux_peel disableCascade_steps)

interpretation listaccounts: store_handler hListAccounts "aux_step user_only"
  by (rule read_only_contract) (simp_all add: hListAccounts_def aux_step_mem)

interpretation listadmins: store_handler hListAdmins "aux_step user_only"
  by (rule read_only_contract) (simp_all add: hListAdmins_def aux_step_mem)

subsection \<open>The effect of the cascade\<close>

definition revoked_row :: "time \<Rightarrow> string \<Rightarrow> certificate \<Rightarrow> certificate" where
  "revoked_row t reason c = c\<lparr>c_Status := CertRevoked, c_RevokedAt := t, c_RevReason := reason\<rparr>"

lemma revoked_row_twice [simp]: "revoked_row t reason (revoked_row u reason' c) = revoked_row t reason c"
  by (simp add: revoked_row_def)

lemma revoke_one_certs:
  "map_of (m_certificates (sv_st (revoke_one ora acc reason k c s))) i =
     (if i = c_ID c then map_option (revoked_row (o_clk ora (20 + 2 * k)) reason) (map_of (m_certificates (sv_st s)) i)
      else map_of (m_certificates (sv_st s)) i)"
  by (simp add: revoke_one_def Let_def row_lookups revoked_row_def cong: map_option_cong)

lemma cascade_count: "fst (cascade ora acc reason k cs s) = int (length (filter (\<lambda>c. c_Status c = CertActive) cs))"
  by (induction cs arbitrary: k s) (simp_all add: split_beta)

lemma cascade_others:
  "\<forall>c \<in> set cs. c_Status c = CertActive \<longrightarrow> c_ID c \<noteq> i \<Longrightarrow>
     map_of (m_certificates (sv_st (snd (cascade ora acc reason k cs s)))) i = map_of (m_certificates (sv_st s)) i"
  by (induction cs arbitrary: k s) (auto simp: split_beta revoke_one_certs)

lemma cascade_hits:
  "c \<in> set cs \<Longrightarrow> c_Status c = CertActive \<Longrightarrow> map_of (m_certificates (sv_st s)) (c_ID c) = Some c0 \<Longrightarrow>
     \<exists>t. map_of (m_certificates (sv_st (snd (cascade ora acc reason k cs s)))) (c_ID c) = Some (revoked_row t reason c0)"
proof (induction cs arbitrary: k s c c0)
  case (Cons b cs)
  show ?case
  proof (cases "c_Status b = CertActive")
    case False
    with Cons show ?thesis by auto
  next
    case True
    let ?s = "revoke_one ora acc reason k b s"
    show ?thesis
    proof (cases "c \<in> set cs")
      case in_cs: True
      obtain u where u: "map_of (m_certificates (sv_st ?s)) (c_ID c) = Some u" "u = c0 \<or> (\<exists>t. u = revoked_row t reason c0)"
        using Cons.prems(3) by (cases "c_ID c = c_ID b") (auto simp: revoke_one_certs)
      from Cons.IH [OF in_cs Cons.prems(2) u(1), of "Suc k"] u(2) True show ?thesis
        by (auto simp: split_beta)
    next
      case False
      with Cons.prems have "c = b" by simp
      show ?thesis
      proof (cases "\<exists>d \<in> set cs. c_Status d = CertActive \<and> c_ID d = c_ID c")
        case True': True
        then obtain d where d: "d \<in> set cs" "c_Status d = CertActive" "c_ID d = c_ID c" by blast
        have "map_of (m_certificates (sv_st ?s)) (c_ID d) = Some (revoked_row (o_clk ora (20 + 2 * k)) reason c0)"
          using Cons.prems(3) d(3) \<open>c = b\<close> by (simp add: revoke_one_certs)
        from Cons.IH [OF d(1,2) this, of "Suc k"] True d(3) show ?thesis by (auto simp: split_beta)
      next
        case False
        with True Cons.prems(3) \<open>c = b\<close> show ?thesis
          by (auto simp: split_beta cascade_others revoke_one_certs)
      qed
    qed
  qed
qed simp

text \<open>The cascade on the whole account.\<close>

lemma set_CertificatesByAccount:
  assumes "keyed c_ID (m_certificates m)"
  shows "c \<in> set (CertificatesByAccount acc m) \<longleftrightarrow> map_of (m_certificates m) (c_ID c) = Some c \<and> c_AccountID c = acc"
  using keyed_vals [OF assms] by (auto simp: CertificatesByAccount_def)

lemma disableCascade_certs:
  assumes wf: "keyed c_ID (m_certificates (sv_st s))" and row: "map_of (m_certificates (sv_st s)) i = Some c0"
  shows "\<exists>t. map_of (m_certificates (sv_st (snd (disableCascade ora acc reason s)))) i =
    Some (if c_AccountID c0 = acc \<and> c_Status c0 = CertActive then revoked_row t reason c0 else c0)"
proof -
  let ?cs = "CertificatesByAccount acc (sv_st s)"
  have same: "m_certificates (sv_st (snd (disableCascade ora acc reason s))) =
      m_certificates (sv_st (snd (cascade ora acc reason 0 ?cs s)))"
    by (simp add: disableCascade_def split_beta Let_def split: sum.split)
  have id0: "c_ID c0 = i" using keyedD [OF wf row] .
  show ?thesis
  proof (cases "c_AccountID c0 = acc \<and> c_Status c0 = CertActive")
    case True
    then have "c0 \<in> set ?cs" using row id0 by (simp add: set_CertificatesByAccount [OF wf])
    from cascade_hits [OF this, of s c0 ora acc reason 0] True row id0 show ?thesis by (simp add: same)
  next
    case False
    have "\<forall>c \<in> set ?cs. c_Status c = CertActive \<longrightarrow> c_ID c \<noteq> i"
      using False row by (auto simp: set_CertificatesByAccount [OF wf])
    from cascade_others [OF this] False row show ?thesis by (auto simp: same)
  qed
qed

lemma disableCascade_count:
  "fst (disableCascade ora acc reason s) =
     int (length (filter (\<lambda>c. c_Status c = CertActive) (CertificatesByAccount acc (sv_st s))))"
  by (simp add: disableCascade_def split_beta Let_def cascade_count)

subsection \<open>Properties\<close>

lemma cascade_none:
  "map_of (m_certificates (sv_st s)) i = None \<Longrightarrow>
     map_of (m_certificates (sv_st (snd (cascade ora acc reason k cs s)))) i = None"
proof (induction cs arbitrary: k s)
  case (Cons c cs)
  have "map_of (m_certificates (sv_st (revoke_one ora acc reason k c s))) i = None"
    unfolding revoke_one_certs Cons.prems by simp
  with Cons.IH Cons.prems show ?case by (simp add: split_beta)
qed simp

lemma disableCascade_none:
  "map_of (m_certificates (sv_st s)) i = None \<Longrightarrow>
     map_of (m_certificates (sv_st (snd (disableCascade ora acc reason s)))) i = None"
  by (simp add: disableCascade_def split_beta Let_def cascade_none split: sum.split)

lemma hDisableAccount_effect:
  assumes wf: "mem_wf (sv_st s)" and target: "clientTarget r s = Inr a"
    and run: "hDisableAccount L ora c r s = (resp, s')"
  shows "(\<exists>b. Account (a_ID a) (sv_st s') = Inr b \<and> a_Status b = AccountDisabled) \<and>
    (\<forall>i c0. Certificate i (sv_st s) = Inr c0 \<longrightarrow>
       (\<exists>t. Certificate i (sv_st s') =
          Inr (if c_AccountID c0 = a_ID a \<and> c_Status c0 = CertActive
               then revoked_row t ''account disabled'' c0 else c0))) \<and>
    resp = writeJSON 200 (JObj [(''account_id'', JStr (a_ID a)), (''status'', JStr AccountDisabled),
      (''certificates_revoked'', JInt (int (length (filter (\<lambda>c. c_Status c = CertActive)
         (CertificatesByAccount (a_ID a) (sv_st s))))))])"
proof -
  define s1 where "s1 = snd (st_upd (SetAccountStatus (a_ID a) AccountDisabled) s)"
  have row: "map_of (m_accounts (sv_st s)) (a_ID a) = Some a" by (rule clientTarget_row [OF wf target])
  have certs: "m_certificates (sv_st s1) = m_certificates (sv_st s)" by (simp add: s1_def)
  have resp: "resp = writeJSON 200 (JObj [(''account_id'', JStr (a_ID a)), (''status'', JStr AccountDisabled),
      (''certificates_revoked'', JInt (fst (disableCascade ora (a_ID a) ''account disabled'' s1)))])"
    and s': "s' = append_event ora 2 (event ''account.disable'' (a_ID a) [] ''ok'' [])
      (snd (disableCascade ora (a_ID a) ''account disabled'' s1))"
    using run target by (simp_all add: hDisableAccount_def s1_def Let_def split_beta)
  have "Account (a_ID a) (sv_st s') = Inr (a\<lparr>a_Status := AccountDisabled\<rparr>)"
    using row by (simp add: Account_def s' s1_def row_lookups)
  moreover have "\<exists>t. Certificate i (sv_st s') = Inr (if c_AccountID c0 = a_ID a \<and> c_Status c0 = CertActive
      then revoked_row t ''account disabled'' c0 else c0)" if "Certificate i (sv_st s) = Inr c0" for i c0
    using disableCascade_certs [of s1 i c0 ora "a_ID a" "''account disabled''"] that wf certs
    by (simp add: Certificate_def s' mem_wf_def)
  ultimately show ?thesis
    by (simp add: resp disableCascade_count CertificatesByAccount_def certs)
qed

lemma hDisableAccount_none:
  assumes "Certificate i (sv_st s) = Inl ErrNotFound" "hDisableAccount L ora c r s = (resp, s')"
  shows "Certificate i (sv_st s') = Inl ErrNotFound"
proof -
  have none: "map_of (m_certificates (sv_st s)) i = None"
    using assms(1) by (simp add: Certificate_def split: option.splits)
  have "map_of (m_certificates (sv_st (snd (disableCascade ora acc reason (snd (st_upd (SetAccountStatus k x) s)))))) i = None"
    for acc reason k x
    by (rule disableCascade_none) (simp add: none)
  then show ?thesis
    using assms none by (cases "clientTarget r s") (auto simp: hDisableAccount_def Certificate_def Let_def split_beta)
qed

lemma hDisableAccount_wf:
  assumes "mem_wf (sv_st s)" "clientTarget r s = Inr a" "hDisableAccount L ora c r s = (resp, s')"
  shows "mem_wf (sv_st s')"
proof -
  have "not_super (a_ID a) (sv_st s)" 
    using clientTarget_row [OF assms(1,2)] not_super_row by force
  then have "aux_steps user_only (sv_st s) (sv_st s')"
    using assms(2,3) by (auto simp: hDisableAccount_def handler_simps intro!: aux_peel disableCascade_steps)
  then show ?thesis
    using assms(1) by (induction rule: rtranclp_induct) (auto dest: aux_step_mem mem_step_wf)
qed

text \<open>C14: Disabling an end user revokes exactly its active certificates: the account becomes disabled,
  every active certificate of the account becomes revoked with the reason, every other certificate of
  the server is untouched, and the response reports how many were revoked.\<close>

theorem disable_account_revokes:
  assumes wf: "mem_wf (sv_st s)" and target: "clientTarget r s = Inr a"
    and run: "hDisableAccount L ora c r s = (resp, s')"
  shows "(\<exists>b. Account (a_ID a) (sv_st s') = Inr b \<and> a_Status b = AccountDisabled) \<and>
    (\<forall>i c0. Certificate i (sv_st s) = Inr c0 \<longrightarrow>
       (\<exists>t. Certificate i (sv_st s') =
          Inr (if c_AccountID c0 = a_ID a \<and> c_Status c0 = CertActive
               then revoked_row t ''account disabled'' c0 else c0))) \<and>
    resp = writeJSON 200 (JObj [(''account_id'', JStr (a_ID a)), (''status'', JStr AccountDisabled),
      (''certificates_revoked'', JInt (int (length (filter (\<lambda>c. c_Status c = CertActive)
         (CertificatesByAccount (a_ID a) (sv_st s))))))])"
  using assms by (rule hDisableAccount_effect)

definition demo_request :: request where
  "demo_request = \<lparr>rq_Authorization = [], rq_XForwardedFor = [], rq_XForwardedProto = [], rq_RemoteAddr = [],
     rq_Host = ''h'', rq_TLS = False,
     rq_path = (\<lambda>k. if k = ''id'' then ''acct_1'' else if k = ''public_id'' then ''sig_1'' else []), rq_query = (\<lambda>k. []),
     rq_body = ''%PDF-x'', rq_body_err = None, rq_form_err = True, rq_file = None\<rparr>"

lemma demo_store_wf: "mem_wf demo_store"
  by (simp add: mem_wf_def keyed_def email_index_def demo_store_def NewMemory_def zero_defs)

lemma demo_target: "\<exists>a. clientTarget demo_request demo_server = Inr a \<and> a_ID a = ''acct_1''"
  by (simp add: clientTarget_def demo_request_def demo_server_def demo_store_def Account_def lookup_def NewMemory_def)

lemma demo_certificate:
  "Certificate ''cert_1'' demo_store = Inr (certificate_zero\<lparr>c_ID := ''cert_1'', c_DeviceID := ''dev_1'',
     c_AccountID := ''acct_1'', c_Serial := ''ff'', c_Fingerprint := hex_encode ''raw'', c_Status := CertActive\<rparr>)"
  by (simp add: Certificate_def demo_store_def NewMemory_def)

theorem disable_account_revokes_witness:
  "\<exists>cert. Certificate ''cert_1'' (sv_st (snd (hDisableAccount demo_lib demo_orc claims_zero demo_request demo_server))) = Inr cert
     \<and> c_Status cert = CertRevoked"
proof -
  obtain a where a: "clientTarget demo_request demo_server = Inr a" "a_ID a = ''acct_1''"
    using demo_target by blast
  obtain resp s' where r: "hDisableAccount demo_lib demo_orc claims_zero demo_request demo_server = (resp, s')"
    by (cases "hDisableAccount demo_lib demo_orc claims_zero demo_request demo_server")
  have wf: "mem_wf (sv_st demo_server)" by (simp add: demo_server_def demo_store_wf)
  let ?c0 = "certificate_zero\<lparr>c_ID := ''cert_1'', c_DeviceID := ''dev_1'', c_AccountID := ''acct_1'',
     c_Serial := ''ff'', c_Fingerprint := hex_encode ''raw'', c_Status := CertActive\<rparr>"
  have "Certificate ''cert_1'' (sv_st demo_server) = Inr ?c0" by (simp add: demo_server_def demo_certificate)
  with disable_account_revokes [OF wf a(1) r] have "\<exists>t. Certificate ''cert_1'' (sv_st s') =
      Inr (if c_AccountID ?c0 = a_ID a \<and> c_Status ?c0 = CertActive then revoked_row t ''account disabled'' ?c0 else ?c0)"
    by blast
  then show ?thesis by (auto simp: a(2) r revoked_row_def)
qed

end
