(* ===== verification/Stamp.thy ===== *)
theory Stamp
  imports Submission
begin

section \<open>The QR stamp (\<open>server/internal/api/stamp.go\<close>, \<open>stamppng.go\<close>)\<close>

text \<open>
  The handler that draws the signer's stamp onto a reserved document, the placement of the stamp on
  the page, the caption and its line breaking, and the drawing as a list of drawing operations handed
  to the PNG encoder. Floating point, fonts, the QR and PNG encoders and \<open>pdfcpu\<close> are the record
  \<open>stamp_lib\<close>.
\<close>

subsection \<open>Words and lines\<close>

text \<open>\<open>strings.Fields\<close>: the parts between runs of white space.\<close>

fun fields_runes :: "string \<Rightarrow> string list \<Rightarrow> string list" where
  "fields_runes cur [] = (if cur = [] then [] else [cur])"
| "fields_runes cur (r # rs) =
     (if is_space_rune r then (if cur = [] then [] else [cur]) @ fields_runes [] rs
      else fields_runes (cur @ r) rs)"

definition Fields :: "string \<Rightarrow> string list" where
  "Fields s = fields_runes [] (runes s)"

text \<open>The loop of \<open>wrapText\<close> over the remaining words; \<open>width\<close> is \<open>stringWidth\<close> in the face.\<close>

fun wrap_words :: "(string \<Rightarrow> int) \<Rightarrow> int \<Rightarrow> string \<Rightarrow> string list \<Rightarrow> string list" where
  "wrap_words width maxW cur [] = [cur]"
| "wrap_words width maxW cur (w # ws) =
     (if width (cur @ '' '' @ w) \<le> maxW then wrap_words width maxW (cur @ '' '' @ w) ws
      else cur # wrap_words width maxW w ws)"

definition wrapText :: "lib \<Rightarrow> font_face \<Rightarrow> string \<Rightarrow> int \<Rightarrow> string list" where
  "wrapText L f s maxW =
     (case Fields s of
        [] \<Rightarrow> [[]]
      | w # ws \<Rightarrow> wrap_words (st_width (L_stamp L) f) maxW w ws)"

subsection \<open>The caption\<close>

record caption_data =
  ca_FullName :: string
  ca_Position :: string
  ca_NIP :: string
  ca_IssuedPlace :: string
  ca_DateText :: string

record caption_line =
  ln_text :: string
  ln_bold :: bool

definition caption_part :: "string \<Rightarrow> string \<Rightarrow> caption_line list" where
  "caption_part prefix v =
     (if TrimSpace v = [] then [] else [\<lparr>ln_text = prefix @ TrimSpace v, ln_bold = False\<rparr>])"

definition captionLines :: "caption_data \<Rightarrow> caption_line list" where
  "captionLines c =
     (if TrimSpace (ca_FullName c) = [] then []
      else [\<lparr>ln_text = ''Ditandatangani secara elektronik oleh:'', ln_bold = False\<rparr>,
            \<lparr>ln_text = TrimSpace (ca_FullName c), ln_bold = True\<rparr>])
     @ caption_part [] (ca_Position c) @ caption_part ''NIP. '' (ca_NIP c)
     @ caption_part ''Dikeluarkan di '' (ca_IssuedPlace c)
     @ caption_part ''Pada tanggal '' (ca_DateText c)"

subsection \<open>Drawing\<close>

text \<open>\<open>face\<close>: a face of the wanted size, or of size 8 if the library refuses it.\<close>

definition face :: "lib \<Rightarrow> bool \<Rightarrow> float64 \<Rightarrow> font_face" where
  "face L bold sizePx =
     (let fc = \<lparr>fc_bold = bold, fc_size = sizePx, fc_hinted = True\<rparr>
      in if st_face_ok (L_stamp L) fc then fc
         else \<lparr>fc_bold = bold, fc_size = fl_of_int (L_stamp L) 8, fc_hinted = False\<rparr>)"

text \<open>Integer division of Go, for a positive divisor.\<close>

definition quot :: "int \<Rightarrow> int \<Rightarrow> int" where
  "quot a b = (if a < 0 then - ((- a) div b) else a div b)"

definition drawBorder :: "int \<Rightarrow> int \<Rightarrow> int \<Rightarrow> color \<Rightarrow> draw_op list" where
  "drawBorder w h thick col =
     [Fill (0, 0, w, thick) col, Fill (0, h - thick, w, h) col, Fill (0, 0, thick, h) col,
      Fill (w - thick, 0, w, h) col]"

text \<open>The lines of the caption with their faces, broken to the width, for one body size.\<close>

definition caption_faces :: "lib \<Rightarrow> int \<Rightarrow> caption_line list \<Rightarrow> int \<Rightarrow> (string \<times> font_face) list" where
  "caption_faces L sz ls maxW =
     (let F = L_stamp L; body = face L False (fl_of_int F sz); bold = face L True (fl_of_int F sz);
          head = face L False (fl_mul F (fl_of_int F sz) (fl_lit F ''0.82''))
      in concat (map (\<lambda>(i, ln).
           let f = (if i = 0 \<and> \<not> ln_bold ln then head else if ln_bold ln then bold else body)
           in map (\<lambda>w. (w, f)) (wrapText L f (ln_text ln) maxW)) (enumerate 0 ls)))"

fun draw_lines :: "int \<Rightarrow> int \<Rightarrow> int \<Rightarrow> (string \<times> font_face) list \<Rightarrow> draw_op list" where
  "draw_lines x baseline lineH [] = []"
| "draw_lines x baseline lineH ((s, f) # ps) =
     DrawText f (RGBA 0x11 0x11 0x11 0xff) x baseline s # draw_lines x (baseline + lineH) lineH ps"

fun draw_ladder :: "lib \<Rightarrow> caption_line list \<Rightarrow> int \<Rightarrow> int \<Rightarrow> int \<Rightarrow> int \<Rightarrow> int list \<Rightarrow> draw_op list" where
  "draw_ladder L ls x0 y0 maxW maxH [] = []"
| "draw_ladder L ls x0 y0 maxW maxH (sz # szs) =
     (let ps = caption_faces L sz ls maxW;
          lineH = quot (st_height (L_stamp L) (face L False (fl_of_int (L_stamp L) sz)) * 4) 3 + 1;
          total = lineH * int (length ps)
      in if maxH < total \<and> 10 < sz then draw_ladder L ls x0 y0 maxW maxH szs
         else let top = (if total < maxH then y0 + quot (maxH - total) 2 else y0)
              in draw_lines x0 (top + quot (lineH * 3) 4) lineH ps)"

definition drawCaption :: "lib \<Rightarrow> caption_line list \<Rightarrow> int \<Rightarrow> int \<Rightarrow> int \<Rightarrow> int \<Rightarrow> draw_op list" where
  "drawCaption L ls x0 y0 maxW maxH =
     draw_ladder L ls x0 y0 maxW maxH [26, 24, 22, 20, 18, 16, 14, 12, 10]"

definition buildStampPNG :: "lib \<Rightarrow> string \<Rightarrow> caption_data \<Rightarrow> int \<Rightarrow> bytes result" where
  "buildStampPNG L qrContent cap widthPx0 =
     (let F = L_stamp L;
          widthPx = (if widthPx0 < 480 then 900 else widthPx0);
          heightPx = fl_to_int F (fl_add F (fl_mul F (fl_of_int F widthPx) (fl_lit F ''0.42'')) (fl_lit F ''0.5''));
          pad = (let p = quot heightPx 12 in if p < 6 then 6 else p);
          qrSide = (if heightPx - 2 * pad < 16 then heightPx else heightPx - 2 * pad);
          qrX0 = widthPx - pad - qrSide;
          qrY0 = quot (heightPx - qrSide) 2;
          h = quot pad 2;
          textX0 = pad + h;
          textW = qrX0 - pad - textX0;
          ls = captionLines cap
      in case st_qrcode F qrContent qrSide of
           Inl e \<Rightarrow> Inl e
         | Inr qrImg \<Rightarrow>
             st_png F widthPx heightPx
               ([Fill (0, 0, widthPx, heightPx) White,
                 Fill (qrX0 - h, qrY0 - h, qrX0 + qrSide + h, qrY0 + qrSide + h) White,
                 QRImage (qrX0, qrY0, qrX0 + qrSide, qrY0 + qrSide) qrImg]
                @ (if ls \<noteq> [] \<and> 40 < textW then drawCaption L ls textX0 pad textW (heightPx - 2 * pad) else [])
                @ drawBorder widthPx heightPx 2 (RGBA 0x33 0x33 0x33 0xff)))"

subsection \<open>Placement\<close>

record stamp_placement =
  sp_Page :: int
  sp_X :: float64
  sp_Y :: float64
  sp_W :: float64

definition atoiDefault :: "string \<Rightarrow> int \<Rightarrow> int" where
  "atoiDefault s d = (case Atoi (TrimSpace s) of Some v \<Rightarrow> v | None \<Rightarrow> d)"

definition atofDefault :: "lib \<Rightarrow> string \<Rightarrow> float64 \<Rightarrow> float64" where
  "atofDefault L s d = (case fl_Parse (L_stamp L) (TrimSpace s) of Some v \<Rightarrow> v | None \<Rightarrow> d)"

definition clampf :: "lib \<Rightarrow> float64 \<Rightarrow> float64 \<Rightarrow> float64 \<Rightarrow> float64" where
  "clampf L v lo hi = (if fl_lt (L_stamp L) v lo then lo else if fl_lt (L_stamp L) hi v then hi else v)"

definition round2 :: "lib \<Rightarrow> float64 \<Rightarrow> float64" where
  "round2 L v = (let F = L_stamp L; h = fl_of_int F 100 in fl_div F (fl_Round F (fl_mul F v h)) h)"

definition default_placement :: "lib \<Rightarrow> request \<Rightarrow> stamp_placement" where
  "default_placement L r =
     (let F = L_stamp L
      in \<lparr>sp_Page = atoiDefault (rq_query r ''page'') 0, sp_X = atofDefault L (rq_query r ''x'') (fl_lit F ''0.62''),
          sp_Y = atofDefault L (rq_query r ''y'') (fl_lit F ''0.80''),
          sp_W = atofDefault L (rq_query r ''w'') (fl_lit F ''0.26'')\<rparr>)"

definition parseStampPlacements :: "lib \<Rightarrow> request \<Rightarrow> stamp_placement list" where
  "parseStampPlacements L r =
     (let raw = TrimSpace (rq_query r ''stamps'') in
      if raw \<noteq> [] then
        (case st_unmarshal (L_stamp L) raw of
           Some (e # es) \<Rightarrow> map (\<lambda>(p, x, y, w). \<lparr>sp_Page = p, sp_X = x, sp_Y = y, sp_W = w\<rparr>) (e # es)
         | _ \<Rightarrow> [default_placement L r])
      else [default_placement L r])"

text \<open>One placement on a page of \<open>pw\<close> by \<open>ph\<close> points.\<close>

definition place_box :: "lib \<Rightarrow> string \<Rightarrow> stamp_placement \<Rightarrow> float64 \<Rightarrow> float64 \<Rightarrow> cp_image result" where
  "place_box L src p pw ph =
     (let F = L_stamp L; zero = fl_of_int F 0; one = fl_of_int F 1; aspect = fl_lit F ''0.42'';
          wf = clampf L (sp_W p) (fl_lit F ''0.06'') (fl_lit F ''0.9'');
          w0 = fl_mul F wf pw;
          h0 = fl_mul F w0 aspect;
          lim = fl_mul F ph (fl_lit F ''0.9'');
          (boxW, boxH) = (if fl_lt F lim h0 then (fl_div F lim aspect, lim) else (w0, h0))
      in if fl_le F boxW zero \<or> fl_le F boxH zero then Inl (Errorf ''titik QR di luar halaman'')
         else
           let xf = clampf L (sp_X p) zero one; yf = clampf L (sp_Y p) zero one;
               llx = clampf L (fl_mul F xf pw) zero (fl_Max F zero (fl_sub F pw boxW));
               lly = clampf L (fl_sub F (fl_sub F ph (fl_mul F yf ph)) boxH) zero (fl_Max F zero (fl_sub F ph boxH))
           in Inr \<lparr>cp_Src = src, cp_Pos = (round2 L llx, round2 L lly), cp_Width = round2 L boxW,
                   cp_Height = round2 L boxH\<rparr>)"

text \<open>The loop over the placements. The page of an entry defaults to the last one; for a document
  without pages that index is out of range and the code panics.\<close>

fun place_all :: "lib \<Rightarrow> string \<Rightarrow> int \<Rightarrow> (float64 \<times> float64) list \<Rightarrow> stamp_placement list \<Rightarrow>
    (int, cp_image list) gomap \<Rightarrow> (int, cp_image list) gomap result call" where
  "place_all L src pageCount dims [] byPage = Ret (Inr byPage)"
| "place_all L src pageCount dims (p # ps) byPage =
     (let page = (if sp_Page p < 1 \<or> pageCount < sp_Page p then pageCount else sp_Page p) in
      if page < 1 then Panic ''index out of range''
      else case place_box L src p (fst (dims ! nat (page - 1))) (snd (dims ! nat (page - 1))) of
             Inl e \<Rightarrow> Ret (Inl e)
           | Inr img \<Rightarrow>
               place_all L src pageCount dims ps
                 (AList.update page ((case map_of byPage page of None \<Rightarrow> [] | Some is \<Rightarrow> is) @ [img]) byPage))"

subsection \<open>Stamping a document\<close>

record cover_data =
  cd_PublicID :: string
  cd_VerifyURL :: string

text \<open>\<open>sanitizePDF\<close>: without the attachment entries of the catalog; a panic of the library is an error.\<close>

definition without_attachments :: "cpu_context \<Rightarrow> cpu_context" where
  "without_attachments ctx =
     (case cx_Catalog ctx of
        Inl e \<Rightarrow> ctx
      | Inr root \<Rightarrow> ctx\<lparr>cx_Catalog := Inr (root(''Names'' := None, ''AF'' := None))\<rparr>)"

definition sanitizePDF :: "lib \<Rightarrow> bytes \<Rightarrow> bytes result" where
  "sanitizePDF L pdf =
     (case cpu_ReadContext (L_stamp L) pdf of
        Panic m \<Rightarrow> Inl (Errorf (''sanitize: '' @ m))
      | Ret (Inl e) \<Rightarrow> Inl e
      | Ret (Inr ctx) \<Rightarrow>
          (case cpu_WriteContext (L_stamp L) (without_attachments ctx) of
             Panic m \<Rightarrow> Inl (Errorf (''sanitize: '' @ m))
           | Ret out \<Rightarrow> out))"

text \<open>The document that is stamped and its number of pages: the given one, or a sanitized copy.\<close>

definition readable_pdf :: "lib \<Rightarrow> bytes \<Rightarrow> (bytes \<times> int) result call" where
  "readable_pdf L pdf =
     (case cpu_PageCount (L_stamp L) pdf of
        Panic m \<Rightarrow> Panic m
      | Ret (Inr n) \<Rightarrow> Ret (Inr (pdf, n))
      | Ret (Inl e) \<Rightarrow>
          (case sanitizePDF L pdf of
             Inl _ \<Rightarrow> Ret (Inl (Errorf (''gagal membaca PDF: '' @ Error e)))
           | Inr clean \<Rightarrow>
               (case cpu_PageCount (L_stamp L) clean of
                  Panic m \<Rightarrow> Panic m
                | Ret (Inl _) \<Rightarrow> Ret (Inl (Errorf (''gagal membaca PDF: '' @ Error e)))
                | Ret (Inr n) \<Rightarrow> Ret (Inr (clean, n)))))"

definition wrapped :: "error option \<Rightarrow> string" where
  "wrapped e = (case e of None \<Rightarrow> ''%!w(<nil>)'' | Some e \<Rightarrow> Error e)"

text \<open>\<open>tmp\<close> is the outcome of creating the scratch directory, \<open>werr\<close> that of writing the image there;
  the directory is removed on every path.\<close>

definition stampQR :: "lib \<Rightarrow> string result \<Rightarrow> error option \<Rightarrow> bytes \<Rightarrow> stamp_placement list \<Rightarrow> cover_data \<Rightarrow>
    caption_data \<Rightarrow> bytes result call" where
  "stampQR L tmp werr pdf0 places d cap =
     (if places = [] then Ret (Inl (Errorf ''tidak ada titik QR''))
      else case readable_pdf L pdf0 of
        Panic m \<Rightarrow> Panic m
      | Ret (Inl e) \<Rightarrow> Ret (Inl e)
      | Ret (Inr (pdf, pageCount)) \<Rightarrow>
          (case cpu_PageDims (L_stamp L) pdf of
             Panic m \<Rightarrow> Panic m
           | Ret (dims, derr) \<Rightarrow>
               if derr \<noteq> None \<or> int (length dims) \<noteq> pageCount then
                 Ret (Inl (Errorf (''gagal membaca ukuran halaman: '' @ wrapped derr)))
               else case tmp of
                 Inl e \<Rightarrow> Ret (Inl e)
               | Inr dir \<Rightarrow>
                   let qrContent = (if cd_VerifyURL d = [] then cd_PublicID d else cd_VerifyURL d) in
                   (case buildStampPNG L qrContent cap 900 of
                      Inl e \<Rightarrow> Ret (Inl (Errorf (''menyusun stempel: '' @ Error e)))
                    | Inr png \<Rightarrow>
                        (case werr of
                           Some e \<Rightarrow> Ret (Inl e)
                         | None \<Rightarrow>
                             (case place_all L (Join2 dir ''stamp.png'') pageCount dims places [] of
                                Panic m \<Rightarrow> Panic m
                              | Ret (Inl e) \<Rightarrow> Ret (Inl e)
                              | Ret (Inr byPage) \<Rightarrow>
                                  (case st_marshal (L_stamp L) (map (\<lambda>(page, imgs). (dec_int page, imgs)) byPage) of
                                     Inl e \<Rightarrow> Ret (Inl e)
                                   | Inr desc \<Rightarrow>
                                       (case cpu_Create (L_stamp L) pdf desc of
                                          Panic m \<Rightarrow> Panic m
                                        | Ret (Inl e) \<Rightarrow> Ret (Inl (Errorf (''menempel QR: '' @ Error e)))
                                        | Ret (Inr out) \<Rightarrow> Ret (Inr out))))))))"

subsection \<open>Dates\<close>

definition idMonths :: "string list" where
  "idMonths = [''Januari'', ''Februari'', ''Maret'', ''April'', ''Mei'', ''Juni'', ''Juli'', ''Agustus'',
     ''September'', ''Oktober'', ''November'', ''Desember'']"

definition idMonth :: "int \<Rightarrow> string" where
  "idMonth m = idMonths ! nat (m - 1)"

definition idDate :: "time \<Rightarrow> int \<Rightarrow> string" where
  "idDate t zone = dec_int (Day t zone) @ '' '' @ idMonth (Month t zone) @ '' '' @ dec_int (Year t zone)"

text \<open>The zone of \<open>jakartaNow\<close>: the loaded location, or seven hours east.\<close>

definition jakarta_zone :: "lib \<Rightarrow> time \<Rightarrow> int" where
  "jakarta_zone L t = (case st_Jakarta (L_stamp L) of None \<Rightarrow> 7 * 3600 | Some z \<Rightarrow> z t)"

subsection \<open>The handler\<close>

definition stamp_too_big :: "int \<Rightarrow> int \<Rightarrow> string" where
  "stamp_too_big sz mx = ''berkas '' @ dec_int (sz div 1048576) @
     '' MB terlalu besar untuk stempel QR di server (maks '' @ dec_int (mx div 1048576) @ '' MB). '' @
     ''Tandatangani tanpa stempel server untuk berkas sebesar ini.''"

definition stamp_refused :: string where
  "stamp_refused = ''PDF ini tidak bisa diproses untuk penempelan QR (mungkin memakai fitur seperti '' @
     ''Content Credentials/C2PA, enkripsi, atau formulir yang kompleks). '' @
     ''Cetak ulang ke PDF (Print '' @ [CHR 0xE2, CHR 0x86, CHR 0x92] @ '' Simpan sebagai PDF) lalu coba lagi.''"

definition stamp_caption :: "lib \<Rightarrow> orc \<Rightarrow> request \<Rightarrow> account \<Rightarrow> caption_data" where
  "stamp_caption L ora r acc =
     \<lparr>ca_FullName = firstNonEmpty [a_FullName acc, a_DisplayName acc], ca_Position = a_Position acc, ca_NIP = a_NIP acc,
      ca_IssuedPlace = TrimSpace (rq_query r ''issued_place''),
      ca_DateText = idDate (o_clk ora 0) (jakarta_zone L (o_clk ora 0))\<rparr>"

text \<open>The part of \<open>hStamp\<close> after the document has been read; the upload is discarded by then.\<close>

definition stamp_document :: "lib \<Rightarrow> orc \<Rightarrow> claims \<Rightarrow> request \<Rightarrow> reservation \<Rightarrow> account \<Rightarrow> bytes \<Rightarrow> server \<Rightarrow>
    response \<times> server" where
  "stamp_document L ora c r res acc body s =
     (if \<not> HasPrefix body ''%PDF-'' then (writeErr 422 ''bukan berkas PDF'', s)
      else case stampQR L (o_tmp ora 0) (o_open ora 2) body (parseStampPlacements L r)
                  \<lparr>cd_PublicID = r_PublicID res, cd_VerifyURL = qrTarget r (r_PublicID res) s\<rparr>
                  (stamp_caption L ora r acc) of
             Panic m \<Rightarrow> (aborted, s)
           | Ret (Inl e) \<Rightarrow> (writeErr 422 stamp_refused, audit ora 1 ''stamp.apply'' c (r_DeviceID res) ''fail'' (Error e) s)
           | Ret (Inr stamped) \<Rightarrow>
               (writeRaw ''application/pdf'' stamped,
                audit ora 1 ''stamp.apply'' c (r_DeviceID res) ''ok'' (r_PublicID res) s))"

text \<open>The upload is discarded once it has been read.\<close>

definition after_read :: "upload_session option \<Rightarrow> server \<Rightarrow> server" where
  "after_read sess s = (case sess of None \<Rightarrow> s | Some u \<Rightarrow> s\<lparr>sv_uploads := discard u (sv_uploads s)\<rparr>)"

definition hStamp :: handler where
  "hStamp L ora c r s =
     (case Reservation (rq_path r ''public_id'') (sv_st s) of
        Inl e \<Rightarrow> (writeErr 404 ''reservation not found'', s)
      | Inr res \<Rightarrow>
          if r_AccountID res \<noteq> cl_Sub c then (writeErr 404 ''reservation not found'', s)
          else if r_Status res = ReservationAccepted then (writeErr 409 ''this reservation is already completed'', s)
          else case CertificateByDevice (r_DeviceID res) (sv_st s) of
            Inl e \<Rightarrow> (writeErr 409 ''perangkat belum punya sertifikat aktif'', s)
          | Inr cert \<Rightarrow>
              if c_Status cert \<noteq> CertActive then (writeErr 409 ''perangkat belum punya sertifikat aktif'', s)
              else case Account (cl_Sub c) (sv_st s) of
                Inl e \<Rightarrow> (writeErr 404 ''account not found'', s)
              | Inr acc \<Rightarrow>
                  (case signedInput ora r (cl_Sub c) s of
                     Inl e \<Rightarrow>
                       (if e = errNoUpload then writeErr 404 ''sesi unggah tidak ditemukan''
                        else if e = errTooLarge then writeErr 413 ''PDF exceeds the upload limit''
                        else writeErr 400 ''read'', s)
                   | Inr (rc, sz, sess) \<Rightarrow>
                       if cf_MaxStampBytes (sv_cfg s) < sz then
                         (writeErr 413 (stamp_too_big sz (cf_MaxStampBytes (sv_cfg s))), s)
                       else
                         let s = after_read sess s
                         in if snd rc \<noteq> None then (writeErr 400 ''read'', s)
                            else stamp_document L ora c r res acc (fst rc) s))"

subsection \<open>Contract\<close>

lemma stamp_document_state:
  "snd (stamp_document L ora c r res acc body s) = s \<or>
   (\<exists>t d. snd (stamp_document L ora c r res acc body s) = audit ora 1 ''stamp.apply'' c (r_DeviceID res) t d s)"
  by (auto simp: stamp_document_def split: call.splits sum.splits)

lemma hStamp_state:
  "snd (hStamp L ora c r s) = s \<or>
   (\<exists>rc sz sess. signedInput ora r (cl_Sub c) s = Inr (rc, sz, sess) \<and>
      (snd (hStamp L ora c r s) = after_read sess s \<or>
       (\<exists>dev t d. snd (hStamp L ora c r s) = audit ora 1 ''stamp.apply'' c dev t d (after_read sess s))))"
proof (cases "signedInput ora r (cl_Sub c) s")
  case (Inl e)
  then show ?thesis by (simp add: hStamp_def split: sum.split)
next
  case (Inr inp)
  obtain rc sz sess where inp: "inp = (rc, sz, sess)" by (cases inp)
  have "snd (hStamp L ora c r s) = s \<or> snd (hStamp L ora c r s) = after_read sess s \<or>
      (\<exists>res acc. snd (hStamp L ora c r s) = snd (stamp_document L ora c r res acc (fst rc) (after_read sess s)))"
    by (auto simp: hStamp_def Inr inp Let_def split: sum.split)
  with Inr inp show ?thesis using stamp_document_state [of L ora c r _ _ "fst rc" "after_read sess s"] by metis
qed

interpretation stamp: store_handler hStamp "aux_step user_only"
proof unfold_locales
  fix s L ora c r
  note st = hStamp_state [of L ora c r s]
  have frame: "sv_cfg (after_read sess s) = sv_cfg s" "sv_signer (after_read sess s) = sv_signer s"
    "sv_st (after_read sess s) = sv_st s" for sess
    by (simp_all add: after_read_def split: option.split)
  show "sv_cfg (snd (hStamp L ora c r s)) = sv_cfg s" "sv_signer (snd (hStamp L ora c r s)) = sv_signer s"
    using st frame by (auto simp: audit_def)
  show "uploads_wf (sv_uploads (snd (hStamp L ora c r s)))" if wf: "uploads_wf (sv_uploads s)"
  proof -
    have "uploads_wf (sv_uploads (after_read sess s))" if "signedInput ora r (cl_Sub c) s = Inr (rc, sz, sess)" for rc sz sess
      using that wf signedInput_session [of ora r "cl_Sub c" s rc sz] discard_wf
      by (fastforce simp: after_read_def split: option.splits)
    then show ?thesis using st wf by (auto simp: audit_def)
  qed
  show "aux_steps user_only (sv_st s) (sv_st (snd (hStamp L ora c r s)))"
    using st frame by (auto simp: audit_def intro!: aux_peel)
qed (rule aux_step_mem)

subsection \<open>Properties\<close>

lemma wrap_words_join:
  "intercalate '' '' (wrap_words width maxW cur ws) = intercalate '' '' (cur # ws)"
proof (induction width maxW cur ws rule: wrap_words.induct)
  case (2 width maxW cur w ws)
  then show ?case
    by (cases ws; cases "wrap_words width maxW w ws") auto
qed simp

lemma wrap_words_fit:
  "l \<in> set (wrap_words width maxW cur ws) \<Longrightarrow> l = cur \<or> width l \<le> maxW \<or> l \<in> set ws"
  by (induction width maxW cur ws rule: wrap_words.induct) (auto split: if_splits)

text \<open>Breaking a caption into lines loses nothing: the lines joined by blanks are the words of the
  text joined by blanks, in order; and a line is wider than the box only if it is a single word.\<close>

theorem wrapText_keeps_words:
  "intercalate '' '' (wrapText L f s maxW) = intercalate '' '' (Fields s) \<and>
   list_all (\<lambda>l. st_width (L_stamp L) f l \<le> maxW \<or> l \<in> insert [] (set (Fields s))) (wrapText L f s maxW)"
proof (cases "Fields s")
  case (Cons w ws)
  then show ?thesis
    using wrap_words_fit [of _ "st_width (L_stamp L) f" maxW w ws]
    by (auto simp: wrapText_def wrap_words_join list_all_iff)
qed (simp add: wrapText_def)

end
