(* ===== verification/Receiver.thy ===== *)
theory Receiver
  imports Accounts Stamp
begin

section \<open>The receiver as a whole\<close>

text \<open>
  The routes of \<open>Routes\<close> (\<open>api.go\<close>) as a table from routes to wrapped handlers, the step relation of
  the server (one request served, or one pass of the upload reaper) and the invariants that hold in
  every reachable state. The routes that only render a page or serve a static asset are not listed.
\<close>

subsection \<open>Routes\<close>

datatype route =
    RRegister | RLogin | RCreateDevice | RListDevices | RSubmitCSR | RDeviceCertificate | RReportLost
  | RUploadCreate | RUploadChunk | RUploadStatus
  | RReserve | RStamp | RSubmit | RGetSignature | RDownload | RMySignatures
  | RVerify | RPublicRecord | RPublicDocument | RRootCA | RChain | RCRL
  | RCapabilities | RListAdmins | RCreateAdmin | RUpdateAdmin | RDeleteAdmin
  | RListAccounts | RApproveAccount | RDisableAccount | REnableAccount | RUpdateAccount | RDeleteAccount
  | RListEnrollments | RExportEnrollment | RApproveEnrollment | RIssueCertificate | RRevoke
  | RImportCRL | RAudit | RLabIssue

definition user :: "handler \<Rightarrow> handler" where "user h = authed RoleUser h"
definition admin :: "handler \<Rightarrow> handler" where "admin h = authed RoleAdmin h"
definition superadmin :: "handler \<Rightarrow> handler" where "superadmin h = authed RoleSuperAdmin h"

definition serve_pem :: "(server \<Rightarrow> bytes) \<Rightarrow> handler" where
  "serve_pem get L ora c r s = (pem_handler get s, s)"

text \<open>A route that is registered only when an online issuer is configured; otherwise the path is unknown.\<close>

definition lab_route :: "handler \<Rightarrow> handler" where
  "lab_route h L ora c r s =
     (if cf_LabIssuer (sv_cfg s) = None then (http_Error 404 ''404 page not found'', s) else h L ora c r s)"

fun dispatch :: "route \<Rightarrow> handler" where
  "dispatch RRegister = hRegister"
| "dispatch RLogin = limited hLogin"
| "dispatch RCreateDevice = user hCreateDevice"
| "dispatch RListDevices = user hListDevices"
| "dispatch RSubmitCSR = user hSubmitCSR"
| "dispatch RDeviceCertificate = user hDeviceCertificate"
| "dispatch RReportLost = user hReportLost"
| "dispatch RUploadCreate = user hUploadCreate"
| "dispatch RUploadChunk = user hUploadChunk"
| "dispatch RUploadStatus = user hUploadStatus"
| "dispatch RReserve = user (limited hReserve)"
| "dispatch RStamp = user (limited hStamp)"
| "dispatch RSubmit = user (limited hSubmitDocument)"
| "dispatch RGetSignature = user hGetSignature"
| "dispatch RDownload = user hDownload"
| "dispatch RMySignatures = user hMySignatures"
| "dispatch RVerify = limited hPublicVerify"
| "dispatch RPublicRecord = hPublicRecord"
| "dispatch RPublicDocument = hPublicDocument"
| "dispatch RRootCA = serve_pem (\<lambda>s. cf_RootCAPEM (sv_cfg s))"
| "dispatch RChain = serve_pem (\<lambda>s. cf_CAChainPEM (sv_cfg s))"
| "dispatch RCRL = serve_pem sv_crl"
| "dispatch RCapabilities = admin hCapabilities"
| "dispatch RListAdmins = superadmin hListAdmins"
| "dispatch RCreateAdmin = superadmin hCreateAdmin"
| "dispatch RUpdateAdmin = superadmin hUpdateAdmin"
| "dispatch RDeleteAdmin = superadmin hDeleteAdmin"
| "dispatch RListAccounts = admin hListAccounts"
| "dispatch RApproveAccount = admin hApproveAccount"
| "dispatch RDisableAccount = admin hDisableAccount"
| "dispatch REnableAccount = admin hEnableAccount"
| "dispatch RUpdateAccount = admin hUpdateAccount"
| "dispatch RDeleteAccount = admin hDeleteAccount"
| "dispatch RListEnrollments = admin hListEnrollments"
| "dispatch RExportEnrollment = admin hExportEnrollment"
| "dispatch RApproveEnrollment = admin hApproveEnrollment"
| "dispatch RIssueCertificate = admin hIssueCertificate"
| "dispatch RRevoke = admin hRevoke"
| "dispatch RImportCRL = admin hImportCRL"
| "dispatch RAudit = admin hAudit"
| "dispatch RLabIssue = lab_route (admin hLabIssue)"

text \<open>The store calls a route may make.\<close>

fun route_calls :: "route \<Rightarrow> memory \<Rightarrow> memory \<Rightarrow> bool" where
  "route_calls RReserve = doc_step"
| "route_calls RSubmit = doc_step"
| "route_calls RCreateAdmin = aux_step admin_only"
| "route_calls _ = aux_step user_only"

interpretation servepem: store_handler "serve_pem get" "aux_step user_only" for get
  by (rule read_only_contract) (simp_all add: serve_pem_def aux_step_mem)

lemma lab_route_contract: "store_handler h R \<Longrightarrow> store_handler (lab_route h) R"
  unfolding store_handler_def lab_route_def by auto

lemmas public_contracts = register.store_handler_axioms login.limited_contract
  publicverify.limited_contract publicrecord.store_handler_axioms publicdocument.store_handler_axioms
  servepem.store_handler_axioms

lemmas user_contracts = createdevice.authed_contract listdevices.authed_contract submitcsr.authed_contract
  devicecertificate.authed_contract reportlost.authed_contract uploadcreate.authed_contract
  uploadchunk.authed_contract uploadstatus.authed_contract store_handler.authed_contract [OF reserve.limited_contract]
  store_handler.authed_contract [OF stamp.limited_contract] store_handler.authed_contract [OF submit.limited_contract]
  getsignature.authed_contract download.authed_contract mysignatures.authed_contract

lemmas admin_contracts = capabilities.authed_contract listadmins.authed_contract
  createadmin.authed_contract updateadmin.authed_contract deleteadmin.authed_contract
  listaccounts.authed_contract approveaccount.authed_contract disableaccount.authed_contract
  enableaccount.authed_contract updateaccount.authed_contract deleteaccount.authed_contract
  listenrollments.authed_contract exportenrollment.authed_contract approveenrollment.authed_contract
  issuecertificate.authed_contract revoke.authed_contract importcrl.authed_contract
  auditlist.authed_contract lab_route_contract [OF labissue.authed_contract]

lemma dispatch_contract: "store_handler (dispatch rt) (route_calls rt)"
  by (cases rt)
     (simp_all add: user_def admin_def superadmin_def public_contracts user_contracts admin_contracts)

interpretation routes: store_handler "dispatch rt" "route_calls rt" for rt
  by (rule dispatch_contract)

text \<open>The role a route asks for.\<close>

fun route_role :: "route \<Rightarrow> string option" where
  "route_role rt =
     (if rt \<in> {RRegister, RLogin, RVerify, RPublicRecord, RPublicDocument, RRootCA, RChain, RCRL} then None
      else if rt \<in> {RListAdmins, RCreateAdmin, RUpdateAdmin, RDeleteAdmin} then Some RoleSuperAdmin
      else if rt \<in> {RCapabilities, RListAccounts, RApproveAccount, RDisableAccount, REnableAccount, RUpdateAccount,
                    RDeleteAccount, RListEnrollments, RExportEnrollment, RApproveEnrollment, RIssueCertificate,
                    RRevoke, RImportCRL, RAudit, RLabIssue} then Some RoleAdmin
      else Some RoleUser)"

definition role_allows :: "string \<Rightarrow> string \<Rightarrow> bool" where
  "role_allows need have \<longleftrightarrow> need = RoleUser \<or> have = RoleSuperAdmin \<or> have = need"

definition bearer :: "request \<Rightarrow> string option" where
  "bearer r = (if HasPrefix (rq_Authorization r) ''Bearer '' \<and> rq_Authorization r \<noteq> ''Bearer ''
     then Some (drop 7 (rq_Authorization r)) else None)"

definition caller :: "lib \<Rightarrow> orc \<Rightarrow> request \<Rightarrow> server \<Rightarrow> claims option" where
  "caller L ora r s = (case bearer r of None \<Rightarrow> None
     | Some tok \<Rightarrow> (case Parse L (sv_signer s) (o_auth ora) tok of Inl e \<Rightarrow> None | Inr c \<Rightarrow> Some c))"

lemma bearer_TrimPrefix:
  "bearer r = (let tok = TrimPrefix (rq_Authorization r) ''Bearer '' in
     if tok = [] \<or> tok = rq_Authorization r then None else Some tok)"
proof (cases "HasPrefix (rq_Authorization r) ''Bearer ''")
  case True
  then obtain t where "rq_Authorization r = ''Bearer '' @ t" by (auto simp: HasPrefix_iff)
  then show ?thesis by (auto simp: bearer_def Let_def HasPrefix_def TrimPrefix_def)
next
  case False
  then show ?thesis by (simp add: bearer_def TrimPrefix_def Let_def)
qed

lemma authed_cases:
  assumes "minRole \<in> {RoleUser, RoleAdmin, RoleSuperAdmin}"
  shows "authed minRole h L ora c0 r s = (case caller L ora r s of
     None \<Rightarrow> (writeErr 401 (if bearer r = None then ''missing bearer token'' else ''invalid token''), s)
   | Some c \<Rightarrow> if role_allows minRole (cl_Role c) then h L ora c r s
       else (writeErr 403 (if minRole = RoleAdmin then ''admin only'' else ''super admin only''), s))"
  using assms
  by (auto simp: authed_def caller_def bearer_TrimPrefix role_allows_def Let_def split: sum.split)

text \<open>A route with a role runs its handler on the claims of the caller, or refuses and changes nothing.\<close>

lemma dispatch_gate:
  assumes "route_role rt = Some need" "rt \<noteq> RLabIssue \<or> cf_LabIssuer (sv_cfg s) \<noteq> None"
  shows "\<exists>h. dispatch rt L ora c0 r s = (case caller L ora r s of
      None \<Rightarrow> (writeErr 401 (if bearer r = None then ''missing bearer token'' else ''invalid token''), s)
    | Some c \<Rightarrow> if role_allows need (cl_Role c) then h L ora c r s
        else (writeErr 403 (if need = RoleAdmin then ''admin only'' else ''super admin only''), s))"
proof -
  have "\<exists>h. dispatch rt = authed need h \<or> dispatch rt = lab_route (authed need h) \<and> rt = RLabIssue"
    "need \<in> {RoleUser, RoleAdmin, RoleSuperAdmin}"
    using assms(1) by (cases rt; auto simp: user_def admin_def superadmin_def)+
  then obtain h where "dispatch rt = authed need h \<or> dispatch rt = lab_route (authed need h) \<and> rt = RLabIssue" by blast
  with \<open>need \<in> _\<close> assms(2) show ?thesis by (auto simp: authed_cases lab_route_def)
qed

lemma caller_SomeD:
  assumes "caller L ora r s = Some c"
  obtains hd pl raw where "rq_Authorization r = ''Bearer '' @ hd @ ''.'' @ pl @ ''.'' @ mac L (sv_signer s) (hd @ ''.'' @ pl)"
    "b64_decode url_alphabet pl = Some raw" "L_unmarshal_claims L raw = Some c" "Unix (o_auth ora) < cl_Exp c"
proof -
  obtain tok where "bearer r = Some tok" "Parse L (sv_signer s) (o_auth ora) tok = Inr c"
    using assms by (auto simp: caller_def split: option.splits sum.splits)
  moreover from this have "rq_Authorization r = ''Bearer '' @ tok"
    by (auto simp: bearer_def HasPrefix_iff split: if_splits)
  ultimately show ?thesis using Parse_InrD that by metis
qed

subsection \<open>Steps of the server\<close>

inductive srv_step :: "lib \<Rightarrow> server \<Rightarrow> server \<Rightarrow> bool" for L where
  serve: "fresh_orc ora (sv_st s) \<Longrightarrow> fresh_upload ora (sv_uploads s) \<Longrightarrow>
     srv_step L s (snd (dispatch rt L ora claims_zero r s))"
| reap: "srv_step L s (s\<lparr>sv_uploads := reaper now (sv_uploads s)\<rparr>)"

abbreviation srv_steps :: "lib \<Rightarrow> server \<Rightarrow> server \<Rightarrow> bool" where
  "srv_steps L \<equiv> (srv_step L)\<^sup>*\<^sup>*"

inductive_cases srv_stepE: "srv_step L s s'"

definition srv_wf :: "server \<Rightarrow> bool" where
  "srv_wf s \<longleftrightarrow> mem_wf (sv_st s) \<and> uploads_wf (sv_uploads s)"

lemma srv_step_wf: "srv_step L s s' \<Longrightarrow> srv_wf s \<Longrightarrow> srv_wf s'"
  by (induction rule: srv_step.induct) (simp_all add: srv_wf_def routes.keeps_wf routes.uploads reaper_wf)

lemma srv_step_mem: "srv_step L s s' \<Longrightarrow> mem_wf (sv_st s) \<Longrightarrow> mem_steps (sv_st s) (sv_st s')"
  by (induction rule: srv_step.induct) (simp_all add: routes.handler_steps)

lemma srv_steps_wf_mem:
  "srv_steps L s s' \<Longrightarrow> srv_wf s \<Longrightarrow> srv_wf s' \<and> mem_steps (sv_st s) (sv_st s')"
proof (induction rule: rtranclp_induct)
  case (step y z)
  then have "srv_wf z" "mem_steps (sv_st y) (sv_st z)"
    using srv_step_wf srv_step_mem by (auto simp: srv_wf_def)
  with step show ?case by (meson rtranclp_trans)
qed simp

lemma srv_step_super:
  assumes "srv_step L s s'" "srv_wf s"
  shows "super_rows (sv_st s') = super_rows (sv_st s)"
  using assms
proof (induction rule: srv_step.induct)
  case (serve ora s rt r)
  have "(route_calls rt)\<^sup>*\<^sup>* (sv_st s) (sv_st (snd (dispatch rt L ora claims_zero r s)))"
    using serve by (simp add: routes.steps srv_wf_def)
  moreover have "doc_steps m m' \<Longrightarrow> super_rows m' = super_rows m" for m m'
    by (drule doc_steps_frame) (simp add: super_rows_def fun_eq_iff)
  moreover have "aux_steps user_only m m' \<Longrightarrow> super_rows m' = super_rows m" for m m'
    by (erule aux_steps_super) auto
  moreover have "aux_steps admin_only m m' \<Longrightarrow> super_rows m' = super_rows m" for m m'
    by (erule aux_steps_super) auto
  ultimately show ?case by (cases rt) auto
qed simp

lemma srv_steps_super:
  "srv_steps L s s' \<Longrightarrow> srv_wf s \<Longrightarrow> super_rows (sv_st s') = super_rows (sv_st s)"
proof (induction rule: rtranclp_induct)
  case (step y z)
  then show ?case using srv_step_super srv_steps_wf_mem by metis
qed simp

subsection \<open>Stored documents match their records\<close>

text \<open>
  What every stored signature record satisfies: its object is stored under a key of its own and has
  the recorded hash and size; its reservation is completed and of the same account and device; and if
  the server verified it, the signer's certificate is registered with the recorded serial and
  fingerprint, for that account and device.
\<close>

definition cert_linked :: "memory \<Rightarrow> signature \<Rightarrow> bool" where
  "cert_linked m sg \<longleftrightarrow> (case map_of (m_certificates m) (s_CertificateID sg) of
     None \<Rightarrow> False
   | Some cert \<Rightarrow> c_Serial cert = s_CertSerial sg \<and> c_Fingerprint cert = s_CertFingerprint sg \<and>
       c_AccountID cert = s_AccountID sg \<and> c_DeviceID cert = s_DeviceID sg)"

definition object_matches :: "lib \<Rightarrow> memory \<Rightarrow> signature \<Rightarrow> bool" where
  "object_matches L m sg \<longleftrightarrow> (case map_of (m_objects m) (s_StorageObjectKey sg) of
     None \<Rightarrow> False
   | Some body \<Rightarrow> s_SignedSHA512 sg = CalculateSHA512 L body \<and> s_SignedSize sg = int (length body))"

definition reservation_done :: "memory \<Rightarrow> signature \<Rightarrow> bool" where
  "reservation_done m sg \<longleftrightarrow> (case map_of (m_reservations m) (s_PublicID sg) of
     None \<Rightarrow> False
   | Some res \<Rightarrow> r_Status res = ReservationAccepted \<and> r_AccountID res = s_AccountID sg \<and>
       r_DeviceID res = s_DeviceID sg)"

definition sig_ok :: "lib \<Rightarrow> memory \<Rightarrow> signature \<Rightarrow> bool" where
  "sig_ok L m sg \<longleftrightarrow> Split (s_StorageObjectKey sg) (CHR ''/'') ! 3 = s_PublicID sg \<and>
     object_matches L m sg \<and> reservation_done m sg \<and>
     (s_VerificationStatus sg = VerificationAccepted \<longrightarrow> cert_linked m sg)"

definition docs_ok :: "lib \<Rightarrow> memory \<Rightarrow> bool" where
  "docs_ok L m \<longleftrightarrow> list_all (\<lambda>(k, sg). sig_ok L m sg) (m_signatures m) \<and>
     list_all (\<lambda>(k, r). CHR ''/'' \<notin> set k) (m_reservations m)"

lemma docs_ok_lookup:
  assumes "mem_wf m"
  shows "docs_ok L m \<longleftrightarrow> (\<forall>k sg. map_of (m_signatures m) k = Some sg \<longrightarrow> sig_ok L m sg) \<and>
    (\<forall>k r. map_of (m_reservations m) k = Some r \<longrightarrow> CHR ''/'' \<notin> set k)"
proof -
  have "keys_distinct (m_signatures m)" "keys_distinct (m_reservations m)"
    using assms by (simp_all add: mem_wf_def keyed_def)
  then show ?thesis by (simp add: docs_ok_def list_all_lookup)
qed

lemma sig_ok_aux:
  assumes "aux_steps P m m'" and ok: "sig_ok L m sg"
  shows "sig_ok L m' sg"
proof -
  have "mem_steps m m'" using assms(1)
    by (induction rule: rtranclp_induct) (auto intro: rtranclp.rtrancl_into_rtrancl aux_step_mem)
  then have "evolves cert_evolves (m_certificates m) (m_certificates m')"
    using mem_steps_le by (simp add: mem_le_def)
  then have "cert_linked m sg \<Longrightarrow> cert_linked m' sg"
    by (fastforce simp: cert_linked_def evolves_def cert_evolves_def split: option.splits)
  with ok aux_steps_frame [OF assms(1)] show ?thesis
    by (auto simp: sig_ok_def object_matches_def reservation_done_def)
qed

lemma docs_ok_aux: "aux_steps P m m' \<Longrightarrow> docs_ok L m \<Longrightarrow> docs_ok L m'"
  using sig_ok_aux aux_steps_frame [of P m m'] by (fastforce simp: docs_ok_def list_all_iff)

text \<open>Keys of different documents differ.\<close>

lemma object_key_segment:
  assumes "CHR ''/'' \<notin> set pid"
  shows "Split (object_key L ora pid) (CHR ''/'') ! 3 = pid"
  using assms dec_int_no_slash dec02_no_slash
  by (simp add: object_key_def Split_append_sep)

subsubsection \<open>Reservation\<close>

lemma ID_no_slash: "CHR ''/'' \<notin> set (ID ''sig'' rb)"
  using hex_encode_lower by (auto simp: ID_def lower_hex_def)

lemma docs_ok_append [simp]: "docs_ok L (Append rb t ev m) = docs_ok L m"
  by (simp add: docs_ok_def sig_ok_def object_matches_def reservation_done_def cert_linked_def)

lemma docs_ok_reserve:
  assumes wf: "mem_wf m" and ok: "docs_ok L m" and "r_PublicID r = []"
    and fresh: "map_of (m_reservations m) (ID ''sig'' rb) = None"
  shows "docs_ok L (snd (CreateReservation rb t r m))"
proof -
  have "sig_ok L (snd (CreateReservation rb t r m)) sg" if "map_of (m_signatures m) k = Some sg" for k sg
  proof -
    have sok: "sig_ok L m sg" using ok that by (simp add: docs_ok_lookup [OF wf])
    then have "s_PublicID sg \<noteq> ID ''sig'' rb" using fresh by (auto simp: sig_ok_def reservation_done_def)
    with sok assms(3) show ?thesis
      by (simp add: sig_ok_def object_matches_def reservation_done_def cert_linked_def
          CreateReservation_def Let_def)
  qed
  moreover have "CHR ''/'' \<notin> set k" if "map_of (m_reservations (snd (CreateReservation rb t r m))) k = Some x" for k x
    using that ok assms(3) ID_no_slash
    by (auto simp: docs_ok_lookup [OF wf] CreateReservation_def Let_def split: if_splits)
  ultimately show ?thesis using wf by (simp add: docs_ok_lookup creators_wf)
qed

lemma docs_ok_hReserve:
  assumes wf: "mem_wf (sv_st s)" and ok: "docs_ok L (sv_st s)" and fresh: "fresh_orc ora (sv_st s)"
  shows "docs_ok L (sv_st (snd (hReserve L ora c r s)))"
  using ok by (simp add: hReserve_def handler_simps split: sum.split; intro conjI impI allI docs_ok_reserve;
               simp add: wf fresh [unfolded fresh_orc_def])

subsubsection \<open>Submission\<close>

text \<open>The store after a submission that is recorded.\<close>

definition submitted :: "string \<Rightarrow> bytes \<Rightarrow> time \<Rightarrow> signature \<Rightarrow> memory \<Rightarrow> memory" where
  "submitted key body t sg m =
     snd (SetReservationStatus (s_PublicID sg) ReservationAccepted
       (snd (CreateSignature t sg (m\<lparr>m_objects := AList.update key body (m_objects m)\<rparr>))))"

lemma docs_ok_submitted:
  assumes wf: "mem_wf m" and ok: "docs_ok L m"
    and res: "map_of (m_reservations m) (s_PublicID sg) = Some res"
    and none: "map_of (m_signatures m) (s_PublicID sg) = None"
    and key: "s_StorageObjectKey sg = object_key L ora (s_PublicID sg)"
    and own: "r_AccountID res = s_AccountID sg" "r_DeviceID res = s_DeviceID sg"
    and doc: "s_SignedSHA512 sg = CalculateSHA512 L body" "s_SignedSize sg = int (length body)"
    and link: "s_VerificationStatus sg = VerificationAccepted \<Longrightarrow> cert_linked m sg"
  shows "docs_ok L (submitted (s_StorageObjectKey sg) body t sg m)"
proof -
  let ?m = "submitted (s_StorageObjectKey sg) body t sg m"
  have seg: "Split (s_StorageObjectKey sg) (CHR ''/'') ! 3 = s_PublicID sg"
    using ok res key by (simp add: docs_ok_lookup [OF wf] object_key_segment)
  have sigs: "m_signatures ?m = AList.update (s_PublicID sg) (sg\<lparr>s_CreatedAt := t\<rparr>) (m_signatures m)"
    using none by (simp add: submitted_def CreateSignature_def Let_def)
  have resv: "map_of (m_reservations ?m) k = (if k = s_PublicID sg
      then Some (res\<lparr>r_Status := ReservationAccepted\<rparr>) else map_of (m_reservations m) k)" for k
    using res by (simp add: submitted_def row_lookups)
  have objs: "map_of (m_objects ?m) k = (if k = s_StorageObjectKey sg then Some body else map_of (m_objects m) k)" for k
    by (simp add: submitted_def)
  have certs: "m_certificates ?m = m_certificates m" by (simp add: submitted_def)
  have mwf: "mem_wf ?m"
    using wf unfolding submitted_def by (intro row_rewrites_wf creators_wf) (simp add: mem_wf_def email_index_def)
  have new: "sig_ok L ?m (sg\<lparr>s_CreatedAt := t\<rparr>)"
    using seg own doc link by (auto simp: sig_ok_def object_matches_def reservation_done_def objs resv
        cert_linked_def certs split: option.splits)
  have old: "sig_ok L ?m x" if "map_of (m_signatures m) k = Some x" "k \<noteq> s_PublicID sg" for k x
  proof -
    have xok: "sig_ok L m x" using ok that(1) by (simp add: docs_ok_lookup [OF wf])
    have "s_PublicID x = k" using keyedD [of s_PublicID "m_signatures m" k x] wf that(1) by (simp add: mem_wf_def)
    then have "s_StorageObjectKey x \<noteq> s_StorageObjectKey sg" using xok seg that(2) by (auto simp: sig_ok_def)
    with xok \<open>s_PublicID x = k\<close> that(2) show ?thesis
      by (simp add: sig_ok_def object_matches_def reservation_done_def cert_linked_def objs resv certs)
  qed
  show ?thesis
    unfolding docs_ok_lookup [OF mwf]
    using new old ok by (auto simp: sigs resv docs_ok_lookup [OF wf] res split: if_splits)
qed

lemma record_submission_state:
  assumes "map_of (m_signatures (sv_st s)) (s_PublicID sg) = None" "r_PublicID res = s_PublicID sg"
    and "sv_st s = m\<lparr>m_objects := AList.update key body (m_objects m)\<rparr>"
  shows "\<exists>rb t ev. sv_st (snd (record_submission ora c res sess sg s)) =
    Append rb t ev (submitted key body (o_clk ora 7) sg m)"
  using assms
  by (auto simp: record_submission_def handler_simps submitted_def CreateSignature_def split: option.split)

lemma record_submission_result:
  assumes "map_of (m_signatures (sv_st s)) i = None" "s_PublicID sg = i"
  shows "fst (record_submission ora c res sess sg s) = writeJSON 200 (submissionResult (sg\<lparr>s_CreatedAt := o_clk ora 7\<rparr>))"
    and "map_of (m_signatures (sv_st (snd (record_submission ora c res sess sg s)))) i =
      Some (sg\<lparr>s_CreatedAt := o_clk ora 7\<rparr>)"
  using assms
  by (auto simp: record_submission_def handler_simps CreateSignature_def submissionResult_def split: option.split)

text \<open>The size a client is charged with is the length of what is stored.\<close>

lemma signedInput_size:
  assumes "uploads_wf (sv_uploads s)" "signedInput ora r acc s = Inr (rc, sz, sess)"
  shows "sz = int (length (fst rc))"
proof (cases sess)
  case None
  with assms(2) show ?thesis
    by (auto simp: signedInput_def Let_def split: if_splits option.splits sum.splits)
next
  case (Some u)
  have u: "map_of (um_m (sv_uploads s)) (rq_query r ''upload_id'') = Some u"
    using signedInput_session assms(2) Some by blast
  from uploads_wfD [OF assms(1) u] assms(2) Some show ?thesis
    by (auto simp: signedInput_def upload_ok_def Let_def split: if_splits option.splits sum.splits)
qed

lemma find_SomeD: "List.find P xs = Some x \<Longrightarrow> x \<in> set xs \<and> P x"
  by (auto simp: find_Some_iff)

lemma strictVerify_linked:
  assumes "mem_wf (sv_st s)" "\<And>pdf. errors_have_text L pdf"
    and "strictVerify L now res body s = Some (info, [])"
  shows "cert_linked (sv_st s) (verified_signature L ora res info key body)"
proof -
  obtain cert and sig :: sig_result where cert: "CertificateBySerial (sr_CertificateSerial sig) (sv_st s) = Inr cert"
    "c_AccountID cert = r_AccountID res" "c_DeviceID cert = r_DeviceID res"
    and info: "info = \<lparr>vi_CertificateID = c_ID cert, vi_CertSerial = c_Serial cert,
               vi_CertFingerprint = c_Fingerprint cert, vi_ClaimedTime = sr_ClientClaimedSigningTime sig\<rparr>"
    using strictVerify_checks [OF assms(3,2)] by blast
  have "cert \<in> set (vals (m_certificates (sv_st s)))"
    using cert(1) by (auto simp del: set_map simp: CertificateBySerial_def dest: find_SomeD split: option.splits)
  then have "map_of (m_certificates (sv_st s)) (c_ID cert) = Some cert"
    using keyed_vals [of c_ID "m_certificates (sv_st s)"] assms(1) by (simp add: mem_wf_def)
  with cert info show ?thesis by (simp add: cert_linked_def verified_signature_def)
qed


text \<open>A submission is taken up only when the id has no record yet.\<close>

lemma submission_unrecorded:
  assumes "mem_wf m" "docs_ok L m" "Reservation i m = Inr res"
    and "(if r_Status res = ReservationAccepted then Signature (r_PublicID res) m else Inl ErrNotFound) = Inl e"
  shows "map_of (m_signatures m) (r_PublicID res) = None"
proof (rule ccontr)
  assume "map_of (m_signatures m) (r_PublicID res) \<noteq> None"
  then obtain sg where sg: "map_of (m_signatures m) (r_PublicID res) = Some sg" by blast
  have key: "map_of (m_reservations m) (r_PublicID res) = Some res"
    using assms(1,3) keyedD [of r_PublicID "m_reservations m" i res]
    by (auto simp: Reservation_def mem_wf_def split: option.splits)
  have "s_PublicID sg = r_PublicID res"
    using keyedD [of s_PublicID "m_signatures m" _ sg] sg assms(1) by (simp add: mem_wf_def)
  moreover have "sig_ok L m sg" using assms(1,2) sg by (simp add: docs_ok_lookup)
  ultimately have "r_Status res = ReservationAccepted" using key by (simp add: sig_ok_def reservation_done_def)
  with assms(4) sg show False by (simp add: Signature_def)
qed

lemma PutObject_ok [simp]: "fst (PutObject k b m) = None" "snd (PutObject k b m) = m\<lparr>m_objects := AList.update k b (m_objects m)\<rparr>"
  by (simp_all add: PutObject_def)

lemma docs_ok_recorded:
  assumes wf: "mem_wf m" and ok: "docs_ok L m"
    and res: "map_of (m_reservations m) (r_PublicID res) = Some res"
    and none: "map_of (m_signatures m) (r_PublicID res) = None"
    and sg: "s_PublicID sg = r_PublicID res" "s_AccountID sg = r_AccountID res" "s_DeviceID sg = r_DeviceID res"
      "s_StorageObjectKey sg = object_key L ora (r_PublicID res)"
      "s_SignedSHA512 sg = CalculateSHA512 L body" "s_SignedSize sg = int (length body)"
    and link: "s_VerificationStatus sg = VerificationAccepted \<Longrightarrow> cert_linked m sg"
    and st: "sv_st s = m\<lparr>m_objects := AList.update (object_key L ora (r_PublicID res)) body (m_objects m)\<rparr>"
  shows "docs_ok L (sv_st (snd (record_submission ora c res sess sg s)))"
proof -
  have "map_of (m_signatures (sv_st s)) (s_PublicID sg) = None" using none sg(1) st by simp
  then obtain rb t ev where "sv_st (snd (record_submission ora c res sess sg s)) =
      Append rb t ev (submitted (s_StorageObjectKey sg) body (o_clk ora 7) sg m)"
    using record_submission_state [OF _ sg(1) [symmetric] st] sg(4) by metis
  moreover have "docs_ok L (submitted (s_StorageObjectKey sg) body (o_clk ora 7) sg m)"
    using res none sg link by (intro docs_ok_submitted [OF wf ok, where ora = ora]) simp_all
  ultimately show ?thesis by simp
qed

lemma docs_ok_submit_verified:
  assumes wf: "mem_wf (sv_st s)" and ok: "docs_ok L (sv_st s)" and texts: "\<And>pdf. errors_have_text L pdf"
    and res: "map_of (m_reservations (sv_st s)) (r_PublicID res) = Some res"
    and none: "map_of (m_signatures (sv_st s)) (r_PublicID res) = None"
  shows "docs_ok L (sv_st (snd (submit_verified L ora c res rc sess s)))"
proof -
  have "docs_ok L (sv_st (snd (record_submission ora c res sess
      (verified_signature L ora res info (object_key L ora (r_PublicID res)) (fst rc))
      (snd (st_upd (PutObject (object_key L ora (r_PublicID res)) (fst rc)) s)))))"
    if "strictVerify L (o_clk ora 5) res (fst rc) s = Some (info, [])" for info
    using strictVerify_linked [OF wf texts that]
    by (intro docs_ok_recorded [OF wf ok res none, where body = "fst rc" and ora = ora])
       (simp_all add: verified_signature_def)
  then show ?thesis
    using ok by (auto simp: submit_verified_def handler_simps split: option.split)
qed

lemma docs_ok_submit_stored:
  assumes wf: "mem_wf (sv_st s)" and ok: "docs_ok L (sv_st s)"
    and res: "map_of (m_reservations (sv_st s)) (r_PublicID res) = Some res"
    and none: "map_of (m_signatures (sv_st s)) (r_PublicID res) = None"
    and sz: "sz = int (length (fst rc))"
  shows "docs_ok L (sv_st (snd (submit_stored L ora c res rc sz sess s)))"
proof -
  have "docs_ok L (sv_st (snd (record_submission ora c res sess
      (stored_signature L ora res (object_key L ora (r_PublicID res)) (fst rc) sz)
      (snd (st_upd (PutObject (object_key L ora (r_PublicID res)) (fst rc)) s)))))"
    using sz
    by (intro docs_ok_recorded [OF wf ok res none, where body = "fst rc" and ora = ora])
       (simp_all add: stored_signature_def CalculateSHA512_def)
  then show ?thesis
    using ok by (auto simp: submit_stored_def PutObjectFrom_def st_upd_def handler_simps split: option.split)
qed

lemma docs_ok_hSubmitDocument:
  assumes wf: "mem_wf (sv_st s)" "uploads_wf (sv_uploads s)" and ok: "docs_ok L (sv_st s)"
    and texts: "\<And>pdf. errors_have_text L pdf"
  shows "docs_ok L (sv_st (snd (hSubmitDocument L ora c r s)))"
proof (cases "Reservation (rq_path r ''public_id'') (sv_st s)")
  case (Inr res)
  then have res: "map_of (m_reservations (sv_st s)) (r_PublicID res) = Some res"
    using wf(1) keyedD [of r_PublicID "m_reservations (sv_st s)" _ res]
    by (auto simp: Reservation_def mem_wf_def split: option.splits)
  show ?thesis
  proof (cases "if r_Status res = ReservationAccepted then Signature (r_PublicID res) (sv_st s) else Inl ErrNotFound")
    case (Inl e)
    note none = submission_unrecorded [OF wf(1) ok Inr Inl]
    have "docs_ok L (sv_st (snd (submit_verified L ora c res rc sess s)))" for rc sess
      by (rule docs_ok_submit_verified [OF wf(1) ok texts res none])
    moreover have "docs_ok L (sv_st (snd (submit_stored L ora c res rc sz sess s)))"
      if "signedInput ora r (cl_Sub c) s = Inr (rc, sz, sess)" for rc sz sess
      by (rule docs_ok_submit_stored [OF wf(1) ok res none signedInput_size [OF wf(2) that]])
    ultimately show ?thesis
      using Inr Inl ok by (simp add: hSubmitDocument_def split: sum.split prod.split)
  qed (use Inr ok in \<open>simp add: hSubmitDocument_def\<close>)
qed (simp add: hSubmitDocument_def ok)

text \<open>The only ways to the answer 200: the reservation was already completed, or the document is
  recorded now.\<close>

definition recorded_now :: "lib \<Rightarrow> orc \<Rightarrow> claims \<Rightarrow> reservation \<Rightarrow> bytes \<Rightarrow> upload_session option \<Rightarrow> signature \<Rightarrow>
    server \<Rightarrow> response \<times> server" where
  "recorded_now L ora c res body sess sg s = record_submission ora c res sess sg
     (snd (st_upd (PutObject (object_key L ora (r_PublicID res)) body) s))"

definition recorded_as :: "lib \<Rightarrow> orc \<Rightarrow> reservation \<Rightarrow> bytes \<Rightarrow> int \<Rightarrow> server \<Rightarrow> signature \<Rightarrow> bool" where
  "recorded_as L ora res body sz s sg \<longleftrightarrow>
     (if sz \<le> cf_MaxVerifyBytes (sv_cfg s)
      then \<exists>info. strictVerify L (o_clk ora 5) res body s = Some (info, []) \<and>
             sg = verified_signature L ora res info (object_key L ora (r_PublicID res)) body
      else sg = stored_signature L ora res (object_key L ora (r_PublicID res)) body sz)"

lemma recorded_as_fields:
  assumes "recorded_as L ora res body sz s sg" "sz = int (length body)"
  shows "s_PublicID sg = r_PublicID res" "s_StorageObjectKey sg = object_key L ora (r_PublicID res)"
    "s_SignedSize sg = sz" "s_SignedSHA512 sg = CalculateSHA512 L body" "s_AccountID sg = r_AccountID res"
    "s_DeviceID sg = r_DeviceID res"
  using assms
  by (auto simp: recorded_as_def verified_signature_def stored_signature_def CalculateSHA512_def split: if_splits)

lemma hSubmitDocument_200 [consumes 2, case_names again now]:
  assumes "hSubmitDocument L ora c r s = (resp, s')" "rs_code resp = 200"
  obtains (again) res sig where "Reservation (rq_path r ''public_id'') (sv_st s) = Inr res" "r_AccountID res = cl_Sub c"
      "r_Status res = ReservationAccepted" "Signature (r_PublicID res) (sv_st s) = Inr sig"
      "resp = writeJSON 200 (submissionResult sig)" "s' = s"
    | (now) res body sz sess sg where
      "Reservation (rq_path r ''public_id'') (sv_st s) = Inr res" "r_AccountID res = cl_Sub c"
      "(if r_Status res = ReservationAccepted then Signature (r_PublicID res) (sv_st s) else Inl ErrNotFound) = Inl ErrNotFound"
      "signedInput ora r (cl_Sub c) s = Inr ((body, None), sz, sess)"
      "recorded_now L ora c res body sess sg s = (resp, s')" "recorded_as L ora res body sz s sg"
proof -
  from assms obtain res where res: "Reservation (rq_path r ''public_id'') (sv_st s) = Inr res" "r_AccountID res = cl_Sub c"
    by (auto simp: hSubmitDocument_def split: sum.splits if_splits)
  show ?thesis
  proof (cases "r_Status res = ReservationAccepted \<and> (\<exists>sig. Signature (r_PublicID res) (sv_st s) = Inr sig)")
    case True
    then obtain sig where "Signature (r_PublicID res) (sv_st s) = Inr sig" by blast
    with True res assms(1) show ?thesis by (intro again [OF res]) (auto simp: hSubmitDocument_def)
  next
    case False
    then have none: "(if r_Status res = ReservationAccepted then Signature (r_PublicID res) (sv_st s) else Inl ErrNotFound) = Inl ErrNotFound"
      by (auto simp: Signature_def split: option.splits)
    with assms res obtain body e sz sess where inp: "signedInput ora r (cl_Sub c) s = Inr ((body, e), sz, sess)"
      by (cases "signedInput ora r (cl_Sub c) s") (auto simp: hSubmitDocument_def split: if_splits)
    have run: "(if sz \<le> cf_MaxVerifyBytes (sv_cfg s) then submit_verified L ora c res (body, e) sess s
        else submit_stored L ora c res (body, e) sz sess s) = (resp, s')"
      using assms(1) res none inp by (simp add: hSubmitDocument_def split: if_splits)
    have "e = None"
      using run assms(2) by (auto simp: submit_verified_def submit_stored_def PutObjectFrom_def st_upd_def
          Let_def split: if_splits option.splits)
    moreover from this run assms(2) have "\<exists>sg. recorded_now L ora c res body sess sg s = (resp, s') \<and> recorded_as L ora res body sz s sg"
      by (auto simp: submit_verified_def submit_stored_def recorded_now_def recorded_as_def PutObjectFrom_def st_upd_def
          Let_def split: if_splits option.splits)
    ultimately show ?thesis using now [OF res none] inp by blast
  qed
qed

lemma reservation_key:
  assumes "srv_wf s" "Reservation i (sv_st s) = Inr res"
  shows "r_PublicID res = i"
  using assms keyedD [of r_PublicID "m_reservations (sv_st s)" i res]
  by (auto simp: Reservation_def srv_wf_def mem_wf_def split: option.splits)

lemma recorded_now_result:
  assumes "recorded_now L ora c res body sess sg s = (resp, s')"
    and "map_of (m_signatures (sv_st s)) i = None" "s_PublicID sg = i" "s_StorageObjectKey sg = object_key L ora i"
    and "r_PublicID res = i"
  shows "Signature i (sv_st s') = Inr (sg\<lparr>s_CreatedAt := o_clk ora 7\<rparr>)"
    and "resp = writeJSON 200 (submissionResult (sg\<lparr>s_CreatedAt := o_clk ora 7\<rparr>))"
    and "GetObject (s_StorageObjectKey sg) (sv_st s') = Inr body"
    and "Reservation i (sv_st s) = Inr res \<Longrightarrow> Reservation i (sv_st s') = Inr (res\<lparr>r_Status := ReservationAccepted\<rparr>)"
proof -
  let ?s = "snd (st_upd (PutObject (object_key L ora i) body) s)"
  have run: "record_submission ora c res sess sg ?s = (resp, s')" using assms(1,5) by (simp add: recorded_now_def)
  have none: "map_of (m_signatures (sv_st ?s)) i = None" using assms(2) by simp
  from record_submission_result [OF none assms(3), of ora c res sess] run
  show "Signature i (sv_st s') = Inr (sg\<lparr>s_CreatedAt := o_clk ora 7\<rparr>)"
    "resp = writeJSON 200 (submissionResult (sg\<lparr>s_CreatedAt := o_clk ora 7\<rparr>))"
    by (simp_all add: Signature_def)
  have "\<exists>rb t ev. sv_st (snd (record_submission ora c res sess sg ?s)) =
      Append rb t ev (submitted (object_key L ora i) body (o_clk ora 7) sg (sv_st s))"
    by (rule record_submission_state) (use none assms(3,5) in simp_all)
  then obtain rb t ev where st: "sv_st s' = Append rb t ev (submitted (object_key L ora i) body (o_clk ora 7) sg (sv_st s))"
    using run by auto
  show "GetObject (s_StorageObjectKey sg) (sv_st s') = Inr body"
    using assms(4) by (simp add: st submitted_def GetObject_def)
  show "Reservation i (sv_st s') = Inr (res\<lparr>r_Status := ReservationAccepted\<rparr>)" if "Reservation i (sv_st s) = Inr res"
    using that assms(3) by (auto simp: st submitted_def Reservation_def row_lookups split: option.splits)
qed

lemma hSubmitDocument_records:
  assumes wf: "srv_wf s"
    and run: "hSubmitDocument L ora c r s = (resp, s')" "rs_code resp = 200"
    and new: "Signature (rq_path r ''public_id'') (sv_st s) = Inl ErrNotFound"
  shows "\<exists>res body sz sess sig. Reservation (rq_path r ''public_id'') (sv_st s) = Inr res \<and> r_AccountID res = cl_Sub c \<and>
    signedInput ora r (cl_Sub c) s = Inr ((body, None), sz, sess) \<and> sz = int (length body) \<and>
    Signature (rq_path r ''public_id'') (sv_st s') = Inr sig \<and> resp = writeJSON 200 (submissionResult sig) \<and>
    GetObject (s_StorageObjectKey sig) (sv_st s') = Inr body \<and>
    s_SignedSHA512 sig = CalculateSHA512 L body \<and> s_SignedSize sig = sz \<and>
    s_AccountID sig = cl_Sub c \<and> s_DeviceID sig = r_DeviceID res \<and>
    (if sz \<le> cf_MaxVerifyBytes (sv_cfg s)
     then s_VerificationStatus sig = VerificationAccepted \<and>
       (\<exists>info. strictVerify L (o_clk ora 5) res body s = Some (info, []) \<and>
          s_CertSerial sig = vi_CertSerial info \<and> s_CertFingerprint sig = vi_CertFingerprint info)
     else s_VerificationStatus sig = VerificationStoredOnly)"
  using run
proof (cases rule: hSubmitDocument_200)
  case (again res sig)
  then show ?thesis using new reservation_key [OF wf] by simp
next
  case (now res body sz sess sg)
  let ?pid = "rq_path r ''public_id''"
  have pid: "r_PublicID res = ?pid" using wf now(1) by (rule reservation_key)
  have sz: "sz = int (length body)" using signedInput_size wf(1) now(4) by (fastforce simp: srv_wf_def)
  note sg = recorded_as_fields [OF now(6) sz, unfolded pid]
  have none: "map_of (m_signatures (sv_st s)) ?pid = None" using new by (simp add: Signature_def split: option.splits)
  show ?thesis
    using now(1,2,4) sz recorded_now_result [OF now(5) none sg(1,2) pid] sg now(6)
    by (intro exI [of _ res] exI [of _ body] exI [of _ sz] exI [of _ sess] exI [of _ "sg\<lparr>s_CreatedAt := o_clk ora 7\<rparr>"])
       (auto simp: recorded_as_def verified_signature_def stored_signature_def split: if_splits)
qed

lemma hSubmitDocument_ok_status:
  "hSubmitDocument L ora c r s = (resp, s') \<Longrightarrow> rs_code resp < 400 \<Longrightarrow> rs_body resp \<noteq> Aborted \<Longrightarrow>
     rs_code resp = 200"
  by (auto simp: hSubmitDocument_def submit_verified_def submit_stored_def record_submission_def aborted_def Let_def
      split: sum.splits option.splits if_splits prod.splits)

subsubsection \<open>Every step\<close>

lemma authed_state:
  "snd (authed minRole h L ora c r s) = s \<or> (\<exists>c'. snd (authed minRole h L ora c r s) = snd (h L ora c' r s))"
  by (auto simp: authed_def Let_def split: sum.splits)

lemma limited_state: "snd (limited h L ora c r s) = s \<or> snd (limited h L ora c r s) = snd (h L ora c r s)"
  by (simp add: limited_def)

lemma srv_step_docs:
  assumes "srv_step L s s'" "srv_wf s" "docs_ok L (sv_st s)" "\<And>pdf. errors_have_text L pdf"
  shows "docs_ok L (sv_st s')"
  using assms
proof (induction rule: srv_step.induct)
  case (serve ora s rt r)
  have wf: "mem_wf (sv_st s)" "uploads_wf (sv_uploads s)" using serve by (simp_all add: srv_wf_def)
  have calls: "(route_calls rt)\<^sup>*\<^sup>* (sv_st s) (sv_st (snd (dispatch rt L ora claims_zero r s)))"
    using serve wf by (simp add: routes.steps)
  consider "rt = RReserve" | "rt = RSubmit" | P where "route_calls rt = aux_step P" by (cases rt) auto
  then show ?case
  proof cases
    case 1
    then show ?thesis
      using authed_state [of RoleUser "limited hReserve" L ora claims_zero r s] limited_state [of hReserve L ora _ r s]
        docs_ok_hReserve [OF wf(1)] serve
      by (simp add: user_def) metis
  next
    case 2
    then show ?thesis
      using authed_state [of RoleUser "limited hSubmitDocument" L ora claims_zero r s] limited_state [of hSubmitDocument L ora _ r s]
        docs_ok_hSubmitDocument [OF wf] serve
      by (simp add: user_def) metis
  next
    case 3
    then show ?thesis using calls serve docs_ok_aux by auto
  qed
qed simp

lemma srv_steps_docs:
  assumes "srv_steps L s s'" "srv_wf s" "docs_ok L (sv_st s)" "\<And>pdf. errors_have_text L pdf"
  shows "docs_ok L (sv_st s')"
  using assms
proof (induction rule: rtranclp_induct)
  case (step y z)
  then show ?case using srv_step_docs srv_steps_wf_mem by metis
qed simp

lemma docs_ok_object:
  assumes "mem_wf m" "docs_ok L m" "Signature pid m = Inr sig"
  shows "\<exists>body. GetObject (s_StorageObjectKey sig) m = Inr body \<and>
    s_SignedSHA512 sig = CalculateSHA512 L body \<and> s_SignedSize sig = int (length body)"
proof -
  have "sig_ok L m sig"
    using assms docs_ok_lookup [OF assms(1), of L] by (auto simp: Signature_def split: option.splits)
  then show ?thesis by (auto simp: sig_ok_def object_matches_def GetObject_def split: option.splits)
qed

subsection \<open>A server and sessions for the witnesses\<close>

definition demo_root_account :: account where
  "demo_root_account = account_zero\<lparr>a_ID := ''acct_0'', a_Email := ''root'', a_Role := RoleSuperAdmin,
     a_Status := AccountActive\<rparr>"

definition demo_root_server :: server where
  "demo_root_server = demo_server\<lparr>sv_st := demo_store\<lparr>m_accounts := (''acct_0'', demo_root_account) # m_accounts demo_store,
     m_byEmail := (''root'', ''acct_0'') # m_byEmail demo_store\<rparr>\<rparr>"

lemma demo_root_wf: "srv_wf demo_root_server"
  by (simp add: srv_wf_def mem_wf_def keyed_def email_index_def demo_root_server_def demo_store_def NewMemory_def
      zero_defs demo_root_account_def demo_server_def newUploadManager_def uploads_wf_def paths_apart_def)

text \<open>The clock and the random numbers of the witnesses are fresh for the witnesses' server.\<close>

lemma demo_fresh:
  "fresh_orc demo_orc (sv_st demo_root_server)" "fresh_upload demo_orc (sv_uploads demo_root_server)"
  by (simp_all add: fresh_orc_def fresh_upload_def demo_orc_def demo_root_server_def demo_store_def NewMemory_def
      demo_server_def newUploadManager_def path_free_def ID_def hex_encode_def hex_byte_def hex_digit_def)

text \<open>A request with a session of the witnesses' server, issued at the time of \<open>demo_orc\<close>.\<close>

definition demo_session :: "lib \<Rightarrow> string \<Rightarrow> string \<Rightarrow> request" where
  "demo_session L acc role =
     demo_request\<lparr>rq_Authorization := ''Bearer '' @ Issue L (sv_signer demo_server) 5 acc role\<rparr>"

lemma demo_codec:
  assumes "CHR ''|'' \<notin> set acc" "CHR ''|'' \<notin> set role"
  shows "demo_claims_decode (demo_claims_code (issued_claims (sv_signer demo_server) 5 acc role)) =
    Some (issued_claims (sv_signer demo_server) 5 acc role)"
  using assms
  by (simp add: demo_claims_code_def demo_claims_decode_def issued_claims_def demo_server_def NewSigner_def
      Unix_def second_def minute_def dec_int_def dec_nat.simps dec_digit_def ParseInt64_def is_dec_def byte_in_def
      dec_val_def Split_append_sep)

lemma demo_session_caller:
  assumes "L_marshal_claims L = demo_claims_code" "L_unmarshal_claims L = demo_claims_decode"
    and "sv_signer s = sv_signer demo_server" "CHR ''|'' \<notin> set acc" "CHR ''|'' \<notin> set role"
  shows "caller L demo_orc (demo_session L acc role) s = Some (issued_claims (sv_signer demo_server) 5 acc role)"
proof -
  let ?tok = "Issue L (sv_signer demo_server) 5 acc role"
  have "bearer (demo_session L acc role) = Some ?tok"
    using jwt.issue_nonempty by (simp add: bearer_def demo_session_def HasPrefix_def)
  moreover have "Unix (o_auth demo_orc) < Unix (5 + sg_ttl (sv_signer demo_server))"
    by (simp add: demo_orc_def demo_server_def NewSigner_def Unix_def minute_def second_def)
  ultimately show ?thesis
    using assms demo_codec [OF assms(4,5)] by (simp add: caller_def Parse_Issue_cases)
qed

lemma accounts_fromD:
  assumes "accounts_from P m m'" "Account k m' = Inr b"
  shows "(\<exists>a. Account k m = Inr a \<and> same_identity a b) \<or>
    (\<exists>a. P a \<and> a_Role b = (if a_Role a = [] then RoleUser else a_Role a))"
  using assms by (fastforce simp: accounts_from_def Account_def split: option.splits)

lemma demo_docs_ok: "docs_ok L demo_store"
  by (simp add: docs_ok_def demo_store_def NewMemory_def)

lemma demo_server_wf: "srv_wf demo_server"
  by (simp add: srv_wf_def demo_server_def demo_store_wf newUploadManager_def uploads_wf_def paths_apart_def)

lemma demo_server_fresh:
  "fresh_orc demo_orc (sv_st demo_server)" "fresh_upload demo_orc (sv_uploads demo_server)"
  using demo_fresh by (auto simp: fresh_orc_def demo_root_server_def demo_server_def split: if_splits)

definition demo_submitted :: server where
  "demo_submitted = snd (dispatch RSubmit demo_pdf_lib demo_orc claims_zero
     (demo_session demo_pdf_lib ''acct_1'' RoleUser) demo_server)"

lemma demo_submit_step: "srv_step demo_pdf_lib demo_server demo_submitted"
  unfolding demo_submitted_def by (intro srv_step.serve demo_server_fresh)

lemma demo_submit_steps: "srv_steps demo_pdf_lib demo_server demo_submitted"
  using demo_submit_step by (rule r_into_rtranclp [where r = "srv_step demo_pdf_lib"])

abbreviation demo_claims :: claims where
  "demo_claims \<equiv> issued_claims (sv_signer demo_server) 5 ''acct_1'' RoleUser"

abbreviation demo_submission :: request where
  "demo_submission \<equiv> demo_session demo_pdf_lib ''acct_1'' RoleUser"

lemma demo_submit_run:
  "\<exists>resp sig. hSubmitDocument demo_pdf_lib demo_orc demo_claims demo_submission demo_server = (resp, demo_submitted) \<and>
     rs_code resp = 200 \<and> Signature ''sig_1'' (sv_st demo_submitted) = Inr sig \<and>
     s_SignedSHA512 sig = CalculateSHA512 demo_pdf_lib ''%PDF-x''"
proof -
  let ?h = "hSubmitDocument demo_pdf_lib demo_orc demo_claims demo_submission demo_server"
  have "caller demo_pdf_lib demo_orc demo_submission demo_server = Some demo_claims"
    by (rule demo_session_caller) (simp_all add: demo_pdf_lib_def demo_pki_def demo_lib_def)
  then have sub: "demo_submitted = snd ?h"
    by (simp add: demo_submitted_def user_def authed_cases role_allows_def limited_def demo_orc_def)
  have "Reservation ''sig_1'' (sv_st demo_server) = Inr demo_reservation"
    by (simp add: Reservation_def demo_server_def demo_store_def demo_reservation_def)
  moreover have "signedInput demo_orc demo_submission ''acct_1'' demo_server = Inr ((''%PDF-x'', None), 6, None)"
    by (simp add: signedInput_def demo_session_def demo_request_def readBody_def withinLimit_def demo_server_def demo_config_def)
  moreover have "rq_path demo_submission ''public_id'' = ''sig_1''" by (simp add: demo_session_def demo_request_def)
  moreover have "cf_MaxVerifyBytes (sv_cfg demo_server) = 100" by (simp add: demo_server_def demo_config_def)
  ultimately have h: "?h = submit_verified demo_pdf_lib demo_orc demo_claims demo_reservation (''%PDF-x'', None) None demo_server"
    by (simp add: hSubmitDocument_def issued_claims_def demo_reservation_def)
  have "map_of (m_signatures (sv_st demo_server)) ''sig_1'' = None" "o_clk demo_orc 5 = 5"
    "r_PublicID demo_reservation = ''sig_1''"
    by (simp_all add: demo_server_def demo_store_def NewMemory_def demo_orc_def demo_reservation_def)
  then have "rs_code (fst ?h) = 200 \<and> (\<exists>sig. Signature ''sig_1'' (sv_st (snd ?h)) = Inr sig \<and>
      s_SignedSHA512 sig = CalculateSHA512 demo_pdf_lib ''%PDF-x'')"
    unfolding h
    by (simp add: submit_verified_def demo_strictVerify handler_simps verified_signature_def Signature_def
        record_submission_result)
  then show ?thesis unfolding sub by (metis surjective_pairing)
qed

lemma demo_submit_recorded:
  "\<exists>sig. Signature ''sig_1'' (sv_st demo_submitted) = Inr sig \<and> s_SignedSHA512 sig = CalculateSHA512 demo_pdf_lib ''%PDF-x''"
  using demo_submit_run by blast

lemma demo_submit_fields:
  assumes "Signature ''sig_1'' (sv_st demo_submitted) = Inr sig"
  shows "s_AccountID sig = ''acct_1''" "s_VerificationStatus sig = VerificationAccepted"
proof -
  obtain resp where run: "hSubmitDocument demo_pdf_lib demo_orc demo_claims demo_submission demo_server = (resp, demo_submitted)"
    "rs_code resp = 200" using demo_submit_run by blast
  have pid: "rq_path demo_submission ''public_id'' = ''sig_1''" by (simp add: demo_session_def demo_request_def)
  have none: "map_of (m_signatures (sv_st demo_server)) ''sig_1'' = None" "cf_MaxVerifyBytes (sv_cfg demo_server) = 100"
    by (simp_all add: demo_server_def demo_store_def NewMemory_def demo_config_def)
  from run have "s_AccountID sig = ''acct_1'' \<and> s_VerificationStatus sig = VerificationAccepted"
  proof (cases rule: hSubmitDocument_200)
    case (again res sg)
    then show ?thesis using reservation_key [OF demo_server_wf] none pid by (simp add: Signature_def)
  next
    case (now res body sz sess sg)
    have p: "r_PublicID res = ''sig_1''" using reservation_key [OF demo_server_wf now(1)] pid by simp
    have sz: "sz = 6"
      using now(4) by (simp add: signedInput_def demo_session_def demo_request_def readBody_def withinLimit_def
          demo_server_def demo_config_def issued_claims_def)
    have len: "sz = int (length body)" using signedInput_size now(4) demo_server_wf by (fastforce simp: srv_wf_def)
    note f = recorded_as_fields [OF now(6) len, unfolded p]
    from recorded_now_result(1) [OF now(5) none(1) f(1,2) p] assms f(5) now(2,6) sz none(2) show ?thesis
      by (auto simp: recorded_as_def verified_signature_def issued_claims_def)
  qed
  then show "s_AccountID sig = ''acct_1''" "s_VerificationStatus sig = VerificationAccepted" by blast+
qed

end
