(* ===== verification/ObjectStore.thy ===== *)
theory ObjectStore
  imports Memory GoStd
begin

section \<open>Object storage (\<open>server/internal/store/objectstore.go\<close>)\<close>

text \<open>
  The Go interface \<open>ObjectStore\<close> as the locale \<open>object_store\<close>, with the in-memory store, the
  database-backed store and the file-system store as its interpretations. The file system is a map
  from paths to contents; every system call of the file-system store can fail, which is the record
  \<open>fs_fault\<close>. A reader is its bytes and the error that ends it, if one does. The MinIO client is
  third-party code and the S3 store only forwards to it.
\<close>

subsection \<open>The interface\<close>

text \<open>What the server relies on: a stored object is read back, and storing one leaves the others
  alone. \<open>valid\<close> are the keys the server generates.\<close>

locale object_store =
  fixes put :: "string \<Rightarrow> bytes \<Rightarrow> 's \<Rightarrow> error option \<times> 's"
    and get :: "string \<Rightarrow> 's \<Rightarrow> bytes result"
    and valid :: "string \<Rightarrow> bool"
  assumes put_ok: "valid k \<Longrightarrow> fst (put k d st) = None"
    and put_get: "valid k \<Longrightarrow> get k (snd (put k d st)) = Inr d"
    and put_other: "valid k \<Longrightarrow> valid k' \<Longrightarrow> k' \<noteq> k \<Longrightarrow> get k' (snd (put k d st)) = get k' st"
begin

lemma get_after_puts:
  "list_all (\<lambda>w. valid (fst w)) ws \<Longrightarrow> valid k \<Longrightarrow>
     get k (fold (\<lambda>w st. snd (put (fst w) (snd w) st)) ws st) =
       (case map_of (rev ws) k of Some d \<Rightarrow> Inr d | None \<Rightarrow> get k st)"
proof (induction ws arbitrary: st)
  case Nil
  then show ?case by simp
next
  case (Cons w ws)
  have "get k (snd (put (fst w) (snd w) st)) = (if k = fst w then Inr (snd w) else get k st)"
    using Cons.prems put_get [of k] put_other [of "fst w" k] by auto
  with Cons show ?case by (cases w) (simp add: map_add_Some_iff map_add_def split: option.splits)
qed

end

interpretation mem_objects: object_store PutObject GetObject "\<lambda>k. True"
  by unfold_locales (simp_all add: PutObject_def GetObject_def lookup_def)

subsection \<open>The objects table of the database\<close>

text \<open>\<open>dbObjects\<close>: the table with its primary key \<open>key\<close>; a statement can fail with an error of the
  driver (\<open>f\<close>), and an upsert that succeeds replaces the row.\<close>

definition db_PutObject :: "error option \<Rightarrow> string \<Rightarrow> bytes \<Rightarrow> (string, bytes) gomap \<Rightarrow>
    error option \<times> (string, bytes) gomap" where
  "db_PutObject f key data db =
     (case f of Some e \<Rightarrow> (Some e, db) | None \<Rightarrow> (None, AList.update key data db))"

definition db_GetObject :: "error option \<Rightarrow> string \<Rightarrow> (string, bytes) gomap \<Rightarrow> bytes result" where
  "db_GetObject f key db =
     (case f of Some e \<Rightarrow> Inl e
      | None \<Rightarrow> (case map_of db key of None \<Rightarrow> Inl ErrNotFound | Some b \<Rightarrow> Inr b))"

definition db_PutObjectFrom :: "error option \<Rightarrow> string \<Rightarrow> bytes \<times> error option \<Rightarrow> int \<Rightarrow>
    (string, bytes) gomap \<Rightarrow> error option \<times> (string, bytes) gomap" where
  "db_PutObjectFrom f key rd sz db =
     (case snd rd of Some e \<Rightarrow> (Some e, db) | None \<Rightarrow> db_PutObject f key (fst rd) db)"

definition db_OpenObject :: "error option \<Rightarrow> string \<Rightarrow> (string, bytes) gomap \<Rightarrow> (bytes \<times> int) result" where
  "db_OpenObject f key db =
     (case db_GetObject f key db of Inl e \<Rightarrow> Inl e | Inr b \<Rightarrow> Inr (b, int (length b)))"

interpretation db_objects: object_store "db_PutObject None" "db_GetObject None" "\<lambda>k. True"
  by unfold_locales (simp_all add: db_PutObject_def db_GetObject_def)

subsection \<open>The file-system store\<close>

record fs_fault =
  ff_mkdir :: "error option"
  ff_open :: "error option"
  ff_write :: "error option"
  ff_close :: "error option"
  ff_rename :: "error option"
  ff_remove :: "error option"
  ff_stat :: "error option"
  ff_read :: "error option"

definition no_fault :: fs_fault where
  "no_fault = \<lparr>ff_mkdir = None, ff_open = None, ff_write = None, ff_close = None,
     ff_rename = None, ff_remove = None, ff_stat = None, ff_read = None\<rparr>"

text \<open>\<open>NewFSObjects\<close>: the store is its directory.\<close>

definition NewFSObjects :: "fs_fault \<Rightarrow> string \<Rightarrow> string result" where
  "NewFSObjects ff dir =
     (case ff_mkdir ff of
        Some e \<Rightarrow> Inl (Errorf (''store: object dir: '' @ Error e))
      | None \<Rightarrow> Inr dir)"

text \<open>The error text of \<open>resolve\<close> also carries the quoted key.\<close>

definition resolve :: "string \<Rightarrow> string \<Rightarrow> string result" where
  "resolve dir key =
     (let clean = Clean (''/'' @ key)
      in if clean = ''/'' \<or> Contains clean ''..'' then Inl (Errorf ''store: bad object key'')
         else Inr (Join2 dir clean))"

definition fs_Remove :: "fs_fault \<Rightarrow> string \<Rightarrow> (string, bytes) gomap \<Rightarrow> (string, bytes) gomap" where
  "fs_Remove ff p fs = (case ff_remove ff of Some e \<Rightarrow> fs | None \<Rightarrow> AList.delete p fs)"

text \<open>\<open>io.Copy\<close> ends in the reader's error or in an error of the write.\<close>

definition copy_err :: "fs_fault \<Rightarrow> bytes \<times> error option \<Rightarrow> error option" where
  "copy_err ff rd = (case ff_write ff of Some e \<Rightarrow> Some e | None \<Rightarrow> snd rd)"

definition fs_PutObjectFrom :: "string \<Rightarrow> fs_fault \<Rightarrow> string \<Rightarrow> bytes \<times> error option \<Rightarrow> int \<Rightarrow>
    (string, bytes) gomap \<Rightarrow> error option \<times> (string, bytes) gomap" where
  "fs_PutObjectFrom dir ff key rd sz fs =
     (case resolve dir key of
        Inl e \<Rightarrow> (Some e, fs)
      | Inr p \<Rightarrow>
          (case ff_mkdir ff of
             Some e \<Rightarrow> (Some e, fs)
           | None \<Rightarrow>
               let tmp = p @ ''.tmp'' in
               (case ff_open ff of
                  Some e \<Rightarrow> (Some e, fs)
                | None \<Rightarrow>
                    let fs1 = AList.update tmp (fst rd) fs in
                    (case copy_err ff rd of
                       Some e \<Rightarrow> (Some e, fs_Remove ff tmp fs1)
                     | None \<Rightarrow>
                         (case ff_close ff of
                            Some e \<Rightarrow> (Some e, fs_Remove ff tmp fs1)
                          | None \<Rightarrow>
                              (case ff_rename ff of
                                 Some e \<Rightarrow> (Some e, fs1)
                               | None \<Rightarrow> (None, AList.update p (fst rd) (AList.delete tmp fs1))))))))"

definition fs_PutObject :: "string \<Rightarrow> fs_fault \<Rightarrow> string \<Rightarrow> bytes \<Rightarrow> (string, bytes) gomap \<Rightarrow>
    error option \<times> (string, bytes) gomap" where
  "fs_PutObject dir ff key data fs =
     fs_PutObjectFrom dir ff key (data, None) (int (length data)) fs"

definition fs_OpenObject :: "string \<Rightarrow> fs_fault \<Rightarrow> string \<Rightarrow> (string, bytes) gomap \<Rightarrow>
    (bytes \<times> int) result" where
  "fs_OpenObject dir ff key fs =
     (case resolve dir key of
        Inl e \<Rightarrow> Inl e
      | Inr p \<Rightarrow>
          (case map_of fs p of
             None \<Rightarrow> Inl ErrNotFound
           | Some b \<Rightarrow>
               (case ff_open ff of
                  Some e \<Rightarrow> Inl e
                | None \<Rightarrow> (case ff_stat ff of Some e \<Rightarrow> Inl e | None \<Rightarrow> Inr (b, int (length b))))))"

definition fs_GetObject :: "string \<Rightarrow> fs_fault \<Rightarrow> string \<Rightarrow> (string, bytes) gomap \<Rightarrow> bytes result" where
  "fs_GetObject dir ff key fs =
     (case fs_OpenObject dir ff key fs of
        Inl e \<Rightarrow> Inl e
      | Inr (b, n) \<Rightarrow> (case ff_read ff of Some e \<Rightarrow> Inl e | None \<Rightarrow> Inr b))"

subsection \<open>Keys\<close>

text \<open>The shape of a server-generated key: clean segments, no \<open>..\<close>, not the name of a temporary
  file. An object directory is a clean absolute path.\<close>

definition valid_key :: "string \<Rightarrow> bool" where
  "valid_key k \<longleftrightarrow> list_all plain_seg (Split k (CHR ''/'')) \<and> \<not> Contains (CHR ''/'' # k) ''..'' \<and>
     \<not> HasSuffix k ''.tmp''"

definition abs_dir :: "string list \<Rightarrow> string" where
  "abs_dir ds = ''/'' @ intercalate ''/'' ds"

lemma Clean_key:
  assumes "list_all plain_seg (Split k (CHR ''/''))"
  shows "Clean (''/'' @ k) = ''/'' @ k"
  using Clean_rooted [OF assms] by (simp add: intercalate_Split)

lemma Join_abs:
  assumes "list_all plain_seg ds" "ds \<noteq> []" "list_all plain_seg xs" "xs \<noteq> []"
  shows "Join2 (abs_dir ds) (''/'' @ intercalate ''/'' xs) = abs_dir ds @ ''/'' @ intercalate ''/'' xs"
proof -
  have s: "Split (intercalate ''/'' zs) (CHR ''/'') = zs" if "list_all plain_seg zs" "zs \<noteq> []" for zs
    by (rule Split_intercalate) (use that in \<open>auto simp: plain_seg_def list_all_iff\<close>)
  have split_app: "Split (a @ CHR ''/'' # b) (CHR ''/'') = Split a (CHR ''/'') @ Split b (CHR ''/'')" for a b
    by (induction a) (auto split: list.splits)
  have "Split (abs_dir ds @ ''/'' @ ''/'' @ intercalate ''/'' xs) (CHR ''/'') = [] # ds @ [] # xs"
    using assms by (simp add: abs_dir_def split_app s)
  moreover have "clean_segs True [] ([] # ds @ [] # xs) = ds @ xs"
  proof -
    have "clean_segs True out (ys @ [] # zs) = clean_segs True (rev ys @ out) zs"
      if "list_all plain_seg ys" for out ys zs
      using that by (induction ys arbitrary: out) (auto simp: plain_seg_def)
    then show ?thesis using assms by (simp add: clean_segs_plain)
  qed
  ultimately show ?thesis
    using assms by (simp add: Join2_def Clean_def Let_def abs_dir_def intercalate_append)
qed

lemma resolve_valid:
  assumes "list_all plain_seg ds" "ds \<noteq> []" "valid_key k"
  shows "resolve (abs_dir ds) k = Inr (abs_dir ds @ ''/'' @ k)"
proof -
  from assms(3) have "list_all plain_seg (Split k (CHR ''/''))" by (simp add: valid_key_def)
  with assms Join_abs [OF assms(1,2) this] have "Join2 (abs_dir ds) (''/'' @ k) = abs_dir ds @ ''/'' @ k"
    by (simp add: intercalate_Split)
  moreover have "k \<noteq> []" using assms(3) by (auto simp: valid_key_def plain_seg_def)
  ultimately show ?thesis
    using assms by (simp add: resolve_def Let_def Clean_key valid_key_def del: Contains.simps)
       (simp add: Clean_key [unfolded append_Cons append_Nil] valid_key_def del: Contains.simps)
qed

subsection \<open>The file-system store implements the interface\<close>

definition good_dir :: "string list \<Rightarrow> bool" where
  "good_dir ds \<longleftrightarrow> ds \<noteq> [] \<and> list_all plain_seg ds"

lemma resolve_good: "good_dir ds \<Longrightarrow> valid_key k \<Longrightarrow> resolve (abs_dir ds) k = Inr (abs_dir ds @ ''/'' @ k)"
  by (simp add: good_dir_def resolve_valid)

lemma valid_not_tmp: "valid_key k \<Longrightarrow> k \<noteq> k' @ ''.tmp''"
  by (auto simp: valid_key_def HasSuffix_def)

lemma fs_put_valid:
  assumes "good_dir ds" "valid_key k"
  shows "fs_PutObject (abs_dir ds) no_fault k d fs =
    (None, AList.update (abs_dir ds @ ''/'' @ k) d
       (AList.delete (abs_dir ds @ ''/'' @ k @ ''.tmp'')
         (AList.update (abs_dir ds @ ''/'' @ k @ ''.tmp'') d fs)))"
  using assms
  by (simp add: fs_PutObject_def fs_PutObjectFrom_def resolve_good no_fault_def copy_err_def Let_def)

lemma fs_get_valid:
  assumes "good_dir ds" "valid_key k"
  shows "fs_GetObject (abs_dir ds) no_fault k fs = lookup fs (abs_dir ds @ ''/'' @ k)"
  using assms
  by (simp add: fs_GetObject_def fs_OpenObject_def resolve_good no_fault_def lookup_def
      split: option.splits)

interpretation fs_objects: object_store "fs_PutObject (abs_dir ds) no_fault"
    "fs_GetObject (abs_dir ds) no_fault" "\<lambda>k. good_dir ds \<and> valid_key k"
  for ds
proof unfold_locales
  fix k d st
  assume k: "good_dir ds \<and> valid_key k"
  then show "fst (fs_PutObject (abs_dir ds) no_fault k d st) = None"
    and "fs_GetObject (abs_dir ds) no_fault k (snd (fs_PutObject (abs_dir ds) no_fault k d st)) = Inr d"
    by (simp_all add: fs_put_valid fs_get_valid lookup_def)
  fix k' :: string
  assume k': "good_dir ds \<and> valid_key k'" "k' \<noteq> k"
  moreover from k'(1) have "k' \<noteq> k @ ''.tmp''" by (simp add: valid_not_tmp)
  ultimately show "fs_GetObject (abs_dir ds) no_fault k'
      (snd (fs_PutObject (abs_dir ds) no_fault k d st)) = fs_GetObject (abs_dir ds) no_fault k' st"
    using k by (simp add: fs_put_valid fs_get_valid lookup_def)
qed

subsection \<open>Properties\<close>

text \<open>C20: The file-system store and the in-memory store are interchangeable: after any sequence of
  writes under server-generated keys, each starting empty, every key reads the same from both, the
  last document written to it or \<open>ErrNotFound\<close>.\<close>

theorem fs_store_equals_memory:
  assumes "good_dir ds" "list_all (\<lambda>w. valid_key (fst w)) ws" "valid_key k"
  shows "fs_GetObject (abs_dir ds) no_fault k
      (fold (\<lambda>w fs. snd (fs_PutObject (abs_dir ds) no_fault (fst w) (snd w) fs)) ws []) =
    GetObject k (fold (\<lambda>w m. snd (PutObject (fst w) (snd w) m)) ws NewMemory)"
proof -
  have "fs_GetObject (abs_dir ds) no_fault k [] = GetObject k NewMemory"
    using assms by (simp add: fs_get_valid GetObject_def lookup_def NewMemory_def)
  moreover have "list_all (\<lambda>w. good_dir ds \<and> valid_key (fst w)) ws"
    using assms by (simp add: list_all_iff)
  ultimately show ?thesis
    using assms fs_objects.get_after_puts [of ds ws k "[]"]
      mem_objects.get_after_puts [of ws k NewMemory]
    by (simp add: list_all_iff split: option.splits)
qed

lemma demo_keys:
  "good_dir [''data'']" "valid_key ''documents/2026/07/sig_a/signed.pdf''"
  "valid_key ''documents/2026/07/sig_b/signed.pdf''"
  by (simp_all add: good_dir_def valid_key_def plain_seg_def HasPrefix_def HasSuffix_def)

theorem fs_store_equals_memory_witness:
  "fs_GetObject (abs_dir [''data'']) no_fault ''documents/2026/07/sig_a/signed.pdf''
     (fold (\<lambda>w fs. snd (fs_PutObject (abs_dir [''data'']) no_fault (fst w) (snd w) fs))
        [(''documents/2026/07/sig_a/signed.pdf'', ''one''),
         (''documents/2026/07/sig_b/signed.pdf'', ''two'')] []) = Inr ''one''"
  by (subst fs_store_equals_memory)
     (simp_all add: demo_keys GetObject_def PutObject_def NewMemory_def lookup_def)

text \<open>C27: No object key escapes the object directory: whatever bytes a key has, a path that
  \<open>resolve\<close> accepts is the directory followed by one or more ordinary segments, none of them empty,
  \<open>.\<close> or \<open>..\<close>.\<close>

theorem resolve_confined:
  assumes "good_dir ds" "resolve (abs_dir ds) key = Inr p"
  shows "\<exists>xs. xs \<noteq> [] \<and> list_all plain_seg xs \<and> p = abs_dir ds @ ''/'' @ intercalate ''/'' xs"
proof -
  define xs where "xs = clean_segs True [] (Split (''/'' @ key) (CHR ''/''))"
  have clean: "Clean (''/'' @ key) = ''/'' @ intercalate ''/'' xs"
    by (simp add: Clean_def xs_def Let_def)
  have plain: "list_all plain_seg xs"
    unfolding xs_def by (rule clean_segs_rooted_plain) (auto dest: Split_seg_no_sep)
  from assms(2) clean have "xs \<noteq> []" by (auto simp: resolve_def Let_def split: if_splits)
  moreover have "p = Join2 (abs_dir ds) (''/'' @ intercalate ''/'' xs)"
    using assms(2) by (simp only: resolve_def Let_def clean split: if_splits) simp_all
  ultimately show ?thesis
    using assms(1) plain Join_abs [of ds xs] by (auto simp: good_dir_def)
qed

theorem resolve_confined_witness:
  "resolve (abs_dir [''data'']) ''a/../b//./c'' = Inr ''/data/b/c'' \<and>
   (\<exists>xs. xs \<noteq> [] \<and> list_all plain_seg xs \<and>
      ''/data/b/c'' = abs_dir [''data''] @ ''/'' @ intercalate ''/'' xs)"
proof -
  have r: "resolve (abs_dir [''data'']) ''a/../b//./c'' = Inr ''/data/b/c''"
    by (simp add: resolve_def Clean_def Join2_def abs_dir_def Let_def HasPrefix_def)
  with resolve_confined [OF demo_keys(1) r] show ?thesis by blast
qed

text \<open>C28: Writing an object to the file system is atomic for readers: when a write fails, at
  whatever system call, every path but the temporary file keeps its contents, so the previous
  version of the object is still there in full; when it succeeds, the object is the whole input and
  no temporary file remains.\<close>

theorem fs_put_atomic:
  assumes "resolve dir key = Inr p"
  shows "case fs_PutObjectFrom dir ff key rd sz fs of
      (Some e, fs') \<Rightarrow> (\<forall>q. q \<noteq> p @ ''.tmp'' \<longrightarrow> map_of fs' q = map_of fs q)
    | (None, fs') \<Rightarrow> map_of fs' p = Some (fst rd) \<and> snd rd = None \<and> map_of fs' (p @ ''.tmp'') = None \<and>
        (\<forall>q. q \<noteq> p \<longrightarrow> q \<noteq> p @ ''.tmp'' \<longrightarrow> map_of fs' q = map_of fs q)"
  using assms
  by (auto simp: fs_PutObjectFrom_def Let_def fs_Remove_def copy_err_def split: option.splits)

theorem fs_put_atomic_witness:
  "fs_PutObjectFrom ''/d'' (no_fault\<lparr>ff_rename := Some (Errorf ''x'')\<rparr>) ''k'' (''new'', None) 3
      [(''/d/k'', ''old'')] =
     (Some (Errorf ''x''), [(''/d/k'', ''old''), (''/d/k.tmp'', ''new'')]) \<and>
   map_of [(''/d/k'', ''old''), (''/d/k.tmp'', ''new'')] ''/d/k'' = Some ''old''"
proof -
  have r: "resolve ''/d'' ''k'' = Inr ''/d/k''"
    by (simp add: resolve_def Clean_def Join2_def Let_def HasPrefix_def)
  have e: "fs_PutObjectFrom ''/d'' (no_fault\<lparr>ff_rename := Some (Errorf ''x'')\<rparr>) ''k'' (''new'', None) 3
      [(''/d/k'', ''old'')] =
     (Some (Errorf ''x''), [(''/d/k'', ''old''), (''/d/k.tmp'', ''new'')])"
    by (simp add: fs_PutObjectFrom_def r Let_def copy_err_def no_fault_def)
  with fs_put_atomic [OF r, where ff = "no_fault\<lparr>ff_rename := Some (Errorf ''x'')\<rparr>"
      and rd = "(''new'', None)" and sz = 3 and fs = "[(''/d/k'', ''old'')]"]
  show ?thesis by simp
qed

end
