(* ===== verification/Postgres.thy ===== *)
theory Postgres
  imports MemoryInv "HOL-Library.List_Lexorder" "HOL-Library.Char_ord"
begin

section \<open>The PostgreSQL store (\<open>server/internal/store/postgres.go\<close> and its migrations)\<close>

text \<open>
  One definition per method of \<open>*Postgres\<close>. Every method sends one statement, so a method is one step on the
  tables; a statement has the constraints of the schema (primary and foreign keys, unique indexes, the width
  of an integer column). A statement may also be refused, or its answer may be lost after it took effect; a query
  may fail at once, stop after some rows or give rows that cannot be read. Such faults are arguments, and so are the text the driver
  gives to a violated constraint and the clock. The rows of a table are listed in the order an unordered scan
  yields them, and an updated row keeps its place; the order shows only between rows with equal sort keys. A \<open>TIMESTAMPTZ\<close> keeps microseconds. The methods on blobs only forward to the object store (theory
  \<open>ObjectStore\<close>).
\<close>

subsection \<open>Tables, statements, faults\<close>

record pg =
  g_accounts :: "(string, account) gomap"
  g_devices :: "(string, device) gomap"
  g_enrollments :: "(string, enrollment) gomap"
  g_certificates :: "(string, certificate) gomap"
  g_reservations :: "(string, reservation) gomap"
  g_signatures :: "(string, signature) gomap"
  g_audit :: "(string, audit_event) gomap"

text \<open>The error of a violated constraint, by the constraint's name.\<close>

type_synonym driver = "string \<Rightarrow> error"

text \<open>A statement: the number of rows it changed and the tables after it, or the constraint it violates.\<close>

type_synonym statement = "pg \<Rightarrow> (string + nat \<times> pg)"

datatype exec_fault = Refused error | AnswerLost error
datatype rows_fault = QueryFails error | StopsAfter nat | BadRows "nat list"

definition exec :: "driver \<Rightarrow> exec_fault option \<Rightarrow> statement \<Rightarrow> pg \<Rightarrow> nat result \<times> pg" where
  "exec V f stmt db =
     (case f of
        Some (Refused e) \<Rightarrow> (Inl e, db)
      | Some (AnswerLost e) \<Rightarrow> (Inl e, case stmt db of Inl c \<Rightarrow> db | Inr (n, db') \<Rightarrow> db')
      | None \<Rightarrow> (case stmt db of Inl c \<Rightarrow> (Inl (V c), db) | Inr (n, db') \<Rightarrow> (Inr n, db')))"

definition affected :: "nat result \<times> pg \<Rightarrow> error option \<times> pg" where
  "affected r = (case r of
      (Inl e, db) \<Rightarrow> (Some e, db) | (Inr n, db) \<Rightarrow> (if n = 0 then Some ErrNotFound else None, db))"

text \<open>\<open>QueryRow\<close> and \<open>Scan\<close> with \<open>norm\<close>: no row is \<open>ErrNotFound\<close>.\<close>

definition query_row :: "error option \<Rightarrow> 'a option \<Rightarrow> 'a result" where
  "query_row f row = (case f of Some e \<Rightarrow> Inl e | None \<Rightarrow> (case row of None \<Rightarrow> Inl ErrNotFound | Some x \<Rightarrow> Inr x))"

text \<open>\<open>Query\<close> with the loop over \<open>Next\<close>: a row that cannot be scanned is left out, and the code does not ask why the rows
  ended.\<close>

definition query_rows :: "rows_fault option \<Rightarrow> 'a list \<Rightarrow> 'a list" where
  "query_rows f rows = (case f of
      Some (QueryFails e) \<Rightarrow> [] | Some (StopsAfter n) \<Rightarrow> take n rows
    | Some (BadRows bad) \<Rightarrow> map snd (filter (\<lambda>(i, x). i \<notin> set bad) (enumerate 0 rows)) | None \<Rightarrow> rows)"

definition pg_time :: "time \<Rightarrow> time" where
  "pg_time t = t div 1000 * 1000"

definition has :: "(string, 'v) gomap \<Rightarrow> string \<Rightarrow> bool" where
  "has tab k \<longleftrightarrow> map_of tab k \<noteq> None"

text \<open>\<open>UPDATE ... WHERE id = i\<close>.\<close>

definition set_row :: "(pg \<Rightarrow> (string, 'v) gomap) \<Rightarrow> ((string, 'v) gomap \<Rightarrow> pg \<Rightarrow> pg) \<Rightarrow> ('v \<Rightarrow> 'v) \<Rightarrow> string \<Rightarrow> statement" where
  "set_row tab put f i db =
     (case map_of (tab db) i of None \<Rightarrow> Inr (0, db) | Some v \<Rightarrow> Inr (1, put (AList.update i (f v) (tab db)) db))"

definition put_accounts :: "(string, account) gomap \<Rightarrow> pg \<Rightarrow> pg" where
  "put_accounts x db = db\<lparr>g_accounts := x\<rparr>"
definition put_devices :: "(string, device) gomap \<Rightarrow> pg \<Rightarrow> pg" where
  "put_devices x db = db\<lparr>g_devices := x\<rparr>"
definition put_enrollments :: "(string, enrollment) gomap \<Rightarrow> pg \<Rightarrow> pg" where
  "put_enrollments x db = db\<lparr>g_enrollments := x\<rparr>"
definition put_certificates :: "(string, certificate) gomap \<Rightarrow> pg \<Rightarrow> pg" where
  "put_certificates x db = db\<lparr>g_certificates := x\<rparr>"
definition put_reservations :: "(string, reservation) gomap \<Rightarrow> pg \<Rightarrow> pg" where
  "put_reservations x db = db\<lparr>g_reservations := x\<rparr>"

lemmas put_defs = put_accounts_def put_devices_def put_enrollments_def put_certificates_def put_reservations_def

subsection \<open>Accounts\<close>

definition insert_account :: "account \<Rightarrow> statement" where
  "insert_account a db =
     (if has (g_accounts db) (a_ID a) then Inl ''accounts_pkey''
      else if list_ex (\<lambda>b. a_Email b = a_Email a) (vals (g_accounts db)) then Inl ''accounts_email_key''
      else if a_Role a = RoleSuperAdmin \<and> list_ex (\<lambda>b. a_Role b = RoleSuperAdmin) (vals (g_accounts db))
        then Inl ''accounts_one_superadmin''
      else Inr (1, db\<lparr>g_accounts := AList.update (a_ID a) (a\<lparr>a_CreatedAt := pg_time (a_CreatedAt a)\<rparr>) (g_accounts db)\<rparr>))"

definition pg_CreateAccount :: "driver \<Rightarrow> exec_fault option \<Rightarrow> bytes \<Rightarrow> time \<Rightarrow> account \<Rightarrow> pg \<Rightarrow> account result \<times> pg" where
  "pg_CreateAccount V f rb t a db =
     (let a = (if a_ID a = [] then a\<lparr>a_ID := ID ''acct'' rb\<rparr> else a);
          a = (if a_Role a = [] then a\<lparr>a_Role := RoleUser\<rparr> else a);
          a = (if a_Status a = [] then a\<lparr>a_Status := AccountActive\<rparr> else a);
          a = a\<lparr>a_CreatedAt := t\<rparr>
      in case exec V f (insert_account a) db of
           (Inl e, db') \<Rightarrow> (Inl (Errorf ''store: email already registered''), db')
         | (Inr n, db') \<Rightarrow> (Inr a, db'))"

definition pg_AccountByEmail :: "error option \<Rightarrow> string \<Rightarrow> pg \<Rightarrow> account result" where
  "pg_AccountByEmail f email db = query_row f (find (\<lambda>a. a_Email a = email) (vals (g_accounts db)))"

definition pg_Account :: "error option \<Rightarrow> string \<Rightarrow> pg \<Rightarrow> account result" where
  "pg_Account f i db = query_row f (map_of (g_accounts db) i)"

definition pg_ListAccounts :: "rows_fault option \<Rightarrow> pg \<Rightarrow> account list" where
  "pg_ListAccounts f db = query_rows f (sort_by_time a_CreatedAt (vals (g_accounts db)))"

definition pg_SetAccountStatus :: "driver \<Rightarrow> exec_fault option \<Rightarrow> string \<Rightarrow> string \<Rightarrow> pg \<Rightarrow> error option \<times> pg" where
  "pg_SetAccountStatus V f i status db =
     affected (exec V f (set_row g_accounts put_accounts (\<lambda>a. a\<lparr>a_Status := status\<rparr>) i) db)"

definition pg_UpdateAccountProfile :: "driver \<Rightarrow> exec_fault option \<Rightarrow> string \<Rightarrow> string \<Rightarrow> string \<Rightarrow> pg \<Rightarrow> error option \<times> pg" where
  "pg_UpdateAccountProfile V f i fullName org db =
     affected (exec V f (set_row g_accounts put_accounts (\<lambda>a. a\<lparr>a_FullName := fullName, a_Organization := org\<rparr>) i) db)"

definition pg_SetAccountPassword :: "driver \<Rightarrow> exec_fault option \<Rightarrow> string \<Rightarrow> string \<Rightarrow> pg \<Rightarrow> error option \<times> pg" where
  "pg_SetAccountPassword V f i passwordHash db =
     affected (exec V f (set_row g_accounts put_accounts (\<lambda>a. a\<lparr>a_PasswordHash := passwordHash\<rparr>) i) db)"

text \<open>An account that a row of another table refers to cannot be deleted.\<close>

definition account_referenced :: "string \<Rightarrow> pg \<Rightarrow> bool" where
  "account_referenced i db \<longleftrightarrow> list_ex (\<lambda>d. d_AccountID d = i) (vals (g_devices db)) \<or>
     list_ex (\<lambda>e. e_AccountID e = i) (vals (g_enrollments db)) \<or> list_ex (\<lambda>c. c_AccountID c = i) (vals (g_certificates db)) \<or>
     list_ex (\<lambda>r. r_AccountID r = i) (vals (g_reservations db)) \<or> list_ex (\<lambda>s. s_AccountID s = i) (vals (g_signatures db))"

definition delete_account :: "string \<Rightarrow> statement" where
  "delete_account i db =
     (if \<not> has (g_accounts db) i then Inr (0, db)
      else if account_referenced i db then Inl ''accounts_referenced''
      else Inr (1, db\<lparr>g_accounts := AList.delete i (g_accounts db)\<rparr>))"

definition pg_DeleteAccount :: "driver \<Rightarrow> exec_fault option \<Rightarrow> string \<Rightarrow> pg \<Rightarrow> error option \<times> pg" where
  "pg_DeleteAccount V f i db = affected (exec V f (delete_account i) db)"

subsection \<open>Devices and enrollments\<close>

text \<open>The creators below return the row they built, with the error of the statement beside it.\<close>

definition with_row :: "'a \<Rightarrow> nat result \<times> pg \<Rightarrow> ('a \<times> error option) \<times> pg" where
  "with_row x r = (case r of (Inl e, db) \<Rightarrow> ((x, Some e), db) | (Inr n, db) \<Rightarrow> ((x, None), db))"

definition insert_device :: "device \<Rightarrow> statement" where
  "insert_device d db =
     (if has (g_devices db) (d_ID d) then Inl ''devices_pkey''
      else if \<not> has (g_accounts db) (d_AccountID d) then Inl ''devices_account_id_fkey''
      else Inr (1, db\<lparr>g_devices := AList.update (d_ID d) (d\<lparr>d_CreatedAt := pg_time (d_CreatedAt d)\<rparr>) (g_devices db)\<rparr>))"

definition pg_CreateDevice :: "driver \<Rightarrow> exec_fault option \<Rightarrow> bytes \<Rightarrow> time \<Rightarrow> device \<Rightarrow> pg \<Rightarrow> (device \<times> error option) \<times> pg" where
  "pg_CreateDevice V f rb t d db =
     (let d = (if d_ID d = [] then d\<lparr>d_ID := ID ''dev'' rb\<rparr> else d);
          d = (if d_Status d = [] then d\<lparr>d_Status := DeviceActive\<rparr> else d);
          d = d\<lparr>d_CreatedAt := t\<rparr>
      in with_row d (exec V f (insert_device d) db))"

definition pg_Device :: "error option \<Rightarrow> string \<Rightarrow> pg \<Rightarrow> device result" where
  "pg_Device f i db = query_row f (map_of (g_devices db) i)"

definition pg_SetDeviceStatus :: "driver \<Rightarrow> exec_fault option \<Rightarrow> string \<Rightarrow> string \<Rightarrow> pg \<Rightarrow> error option \<times> pg" where
  "pg_SetDeviceStatus V f i status db =
     affected (exec V f (set_row g_devices put_devices (\<lambda>d. d\<lparr>d_Status := status\<rparr>) i) db)"

definition pg_DevicesByAccount :: "rows_fault option \<Rightarrow> string \<Rightarrow> pg \<Rightarrow> device list" where
  "pg_DevicesByAccount f accountID db =
     query_rows f (sort_by_time d_CreatedAt (filter (\<lambda>d. d_AccountID d = accountID) (vals (g_devices db))))"

definition insert_enrollment :: "enrollment \<Rightarrow> statement" where
  "insert_enrollment e db =
     (if has (g_enrollments db) (e_ID e) then Inl ''enrollments_pkey''
      else if \<not> has (g_devices db) (e_DeviceID e) then Inl ''enrollments_device_id_fkey''
      else if \<not> has (g_accounts db) (e_AccountID e) then Inl ''enrollments_account_id_fkey''
      else Inr (1, db\<lparr>g_enrollments := AList.update (e_ID e) (e\<lparr>e_CreatedAt := pg_time (e_CreatedAt e)\<rparr>) (g_enrollments db)\<rparr>))"

definition pg_CreateEnrollment :: "driver \<Rightarrow> exec_fault option \<Rightarrow> bytes \<Rightarrow> time \<Rightarrow> enrollment \<Rightarrow> pg \<Rightarrow>
    (enrollment \<times> error option) \<times> pg" where
  "pg_CreateEnrollment V f rb t e db =
     (let e = (if e_ID e = [] then e\<lparr>e_ID := ID ''enr'' rb\<rparr> else e);
          e = (if e_Status e = [] then e\<lparr>e_Status := EnrollmentSubmitted\<rparr> else e);
          e = e\<lparr>e_CreatedAt := t\<rparr>
      in with_row e (exec V f (insert_enrollment e) db))"

definition pg_Enrollment :: "error option \<Rightarrow> string \<Rightarrow> pg \<Rightarrow> enrollment result" where
  "pg_Enrollment f i db = query_row f (map_of (g_enrollments db) i)"

definition pg_ListEnrollments :: "rows_fault option \<Rightarrow> pg \<Rightarrow> enrollment list" where
  "pg_ListEnrollments f db = query_rows f (sort_by_time e_CreatedAt (vals (g_enrollments db)))"

definition pg_SetEnrollmentStatus :: "driver \<Rightarrow> exec_fault option \<Rightarrow> string \<Rightarrow> string \<Rightarrow> pg \<Rightarrow> error option \<times> pg" where
  "pg_SetEnrollmentStatus V f i status db =
     affected (exec V f (set_row g_enrollments put_enrollments (\<lambda>e. e\<lparr>e_Status := status\<rparr>) i) db)"

subsection \<open>Certificates\<close>

text \<open>The statement leaves \<open>revoked_at\<close> null, which is read back as the zero time.\<close>

definition insert_certificate :: "certificate \<Rightarrow> statement" where
  "insert_certificate c db =
     (if has (g_certificates db) (c_ID c) then Inl ''certificates_pkey''
      else if list_ex (\<lambda>b. c_Serial b = c_Serial c) (vals (g_certificates db)) then Inl ''certificates_serial_idx''
      else if \<not> has (g_enrollments db) (c_EnrollmentID c) then Inl ''certificates_enrollment_id_fkey''
      else if \<not> has (g_devices db) (c_DeviceID c) then Inl ''certificates_device_id_fkey''
      else if \<not> has (g_accounts db) (c_AccountID c) then Inl ''certificates_account_id_fkey''
      else Inr (1, db\<lparr>g_certificates := AList.update (c_ID c)
             (c\<lparr>c_NotBefore := pg_time (c_NotBefore c), c_NotAfter := pg_time (c_NotAfter c), c_RevokedAt := zero_time,
                c_RevReason := []\<rparr>) (g_certificates db)\<rparr>))"

definition pg_CreateCertificate :: "driver \<Rightarrow> exec_fault option \<Rightarrow> bytes \<Rightarrow> certificate \<Rightarrow> pg \<Rightarrow>
    (certificate \<times> error option) \<times> pg" where
  "pg_CreateCertificate V f rb c db =
     (let c = (if c_ID c = [] then c\<lparr>c_ID := ID ''cert'' rb\<rparr> else c);
          c = (if c_Status c = [] then c\<lparr>c_Status := CertActive\<rparr> else c)
      in with_row c (exec V f (insert_certificate c) db))"

definition pg_Certificate :: "error option \<Rightarrow> string \<Rightarrow> pg \<Rightarrow> certificate result" where
  "pg_Certificate f i db = query_row f (map_of (g_certificates db) i)"

definition first_row :: "'a list \<Rightarrow> 'a option" where
  "first_row xs = (case xs of [] \<Rightarrow> None | x # r \<Rightarrow> Some x)"

definition pg_CertificateByDevice :: "error option \<Rightarrow> string \<Rightarrow> pg \<Rightarrow> certificate result" where
  "pg_CertificateByDevice f deviceID db =
     query_row f (first_row (sort_by_time (\<lambda>c. - c_NotBefore c)
       (filter (\<lambda>c. c_DeviceID c = deviceID) (vals (g_certificates db)))))"

definition pg_CertificateBySerial :: "error option \<Rightarrow> string \<Rightarrow> pg \<Rightarrow> certificate result" where
  "pg_CertificateBySerial f serial db = query_row f (find (\<lambda>c. c_Serial c = serial) (vals (g_certificates db)))"

definition pg_CertificatesByAccount :: "rows_fault option \<Rightarrow> string \<Rightarrow> pg \<Rightarrow> certificate list" where
  "pg_CertificatesByAccount f accountID db =
     query_rows f (sort_by_time c_NotBefore (filter (\<lambda>c. c_AccountID c = accountID) (vals (g_certificates db))))"

text \<open>\<open>revoked_at\<close> is set to the clock of the database.\<close>

definition pg_RevokeCertificate :: "driver \<Rightarrow> exec_fault option \<Rightarrow> time \<Rightarrow> string \<Rightarrow> string \<Rightarrow> pg \<Rightarrow> error option \<times> pg" where
  "pg_RevokeCertificate V f now i reason db =
     affected (exec V f (set_row g_certificates put_certificates
       (\<lambda>c. c\<lparr>c_Status := CertRevoked, c_RevokedAt := pg_time now, c_RevReason := reason\<rparr>) i) db)"

subsection \<open>Reservations and signatures\<close>

definition insert_reservation :: "reservation \<Rightarrow> statement" where
  "insert_reservation r db =
     (if has (g_reservations db) (r_PublicID r) then Inl ''reservations_pkey''
      else if \<not> has (g_accounts db) (r_AccountID r) then Inl ''reservations_account_id_fkey''
      else if \<not> has (g_devices db) (r_DeviceID r) then Inl ''reservations_device_id_fkey''
      else Inr (1, db\<lparr>g_reservations := AList.update (r_PublicID r)
             (r\<lparr>r_CreatedAt := pg_time (r_CreatedAt r), r_ExpiresAt := pg_time (r_ExpiresAt r)\<rparr>) (g_reservations db)\<rparr>))"

definition pg_CreateReservation :: "driver \<Rightarrow> exec_fault option \<Rightarrow> bytes \<Rightarrow> time \<Rightarrow> reservation \<Rightarrow> pg \<Rightarrow>
    (reservation \<times> error option) \<times> pg" where
  "pg_CreateReservation V f rb t r db =
     (let r = (if r_PublicID r = [] then r\<lparr>r_PublicID := ID ''sig'' rb\<rparr> else r);
          r = (if r_Status r = [] then r\<lparr>r_Status := ReservationReserved\<rparr> else r);
          r = r\<lparr>r_CreatedAt := t\<rparr>
      in with_row r (exec V f (insert_reservation r) db))"

definition pg_Reservation :: "error option \<Rightarrow> string \<Rightarrow> pg \<Rightarrow> reservation result" where
  "pg_Reservation f publicID db = query_row f (map_of (g_reservations db) publicID)"

definition pg_SetReservationStatus :: "driver \<Rightarrow> exec_fault option \<Rightarrow> string \<Rightarrow> string \<Rightarrow> pg \<Rightarrow> error option \<times> pg" where
  "pg_SetReservationStatus V f publicID status db =
     affected (exec V f (set_row g_reservations put_reservations (\<lambda>r. r\<lparr>r_Status := status\<rparr>) publicID) db)"

text \<open>The column \<open>signed_size\<close> has 32 bits.\<close>

definition insert_signature :: "signature \<Rightarrow> statement" where
  "insert_signature s db =
     (if s_SignedSize s < - (2 ^ 31) \<or> 2 ^ 31 \<le> s_SignedSize s then Inl ''integer out of range''
      else if has (g_signatures db) (s_PublicID s) then Inl ''signatures_pkey''
      else if \<not> has (g_reservations db) (s_PublicID s) then Inl ''signatures_public_id_fkey''
      else if \<not> has (g_accounts db) (s_AccountID s) then Inl ''signatures_account_id_fkey''
      else if \<not> has (g_devices db) (s_DeviceID s) then Inl ''signatures_device_id_fkey''
      else Inr (1, db\<lparr>g_signatures := AList.update (s_PublicID s)
             (s\<lparr>s_ServerReceivedAt := pg_time (s_ServerReceivedAt s), s_CreatedAt := pg_time (s_CreatedAt s)\<rparr>) (g_signatures db)\<rparr>))"

definition pg_CreateSignature :: "driver \<Rightarrow> exec_fault option \<Rightarrow> time \<Rightarrow> signature \<Rightarrow> pg \<Rightarrow> signature result \<times> pg" where
  "pg_CreateSignature V f t s db =
     (let s = s\<lparr>s_CreatedAt := t\<rparr>
      in case exec V f (insert_signature s) db of
           (Inl e, db') \<Rightarrow> (Inl (Errorf (''store: signature '' @ s_PublicID s @ '' already exists'')), db')
         | (Inr n, db') \<Rightarrow> (Inr s, db'))"

definition pg_Signature :: "error option \<Rightarrow> string \<Rightarrow> pg \<Rightarrow> signature result" where
  "pg_Signature f publicID db = query_row f (map_of (g_signatures db) publicID)"

definition pg_SignaturesByAccount :: "rows_fault option \<Rightarrow> string \<Rightarrow> pg \<Rightarrow> signature list" where
  "pg_SignaturesByAccount f accountID db =
     query_rows f (sort_by_time (\<lambda>s. - s_CreatedAt s) (filter (\<lambda>s. s_AccountID s = accountID) (vals (g_signatures db))))"

subsection \<open>Audit\<close>

definition insert_audit :: "audit_event \<Rightarrow> statement" where
  "insert_audit ev db =
     (if has (g_audit db) (ev_ID ev) then Inl ''audit_events_pkey''
      else Inr (1, db\<lparr>g_audit := AList.update (ev_ID ev) ev (g_audit db)\<rparr>))"

definition pg_Append :: "driver \<Rightarrow> exec_fault option \<Rightarrow> bytes \<Rightarrow> time \<Rightarrow> audit_event \<Rightarrow> pg \<Rightarrow> pg" where
  "pg_Append V f rb now ev db = snd (exec V f (insert_audit (ev\<lparr>ev_ID := ID ''evt'' rb, ev_Time := pg_time now\<rparr>)) db)"

definition pg_AuditEvents :: "rows_fault option \<Rightarrow> int \<Rightarrow> pg \<Rightarrow> audit_event list" where
  "pg_AuditEvents f limit db =
     (let limit = (if limit \<le> 0 then 500 else limit)
      in rev (query_rows f (take (nat limit) (sort_by_time (\<lambda>e. - ev_Time e) (vals (g_audit db))))))"

subsection \<open>Migrations and opening\<close>

text \<open>\<open>applyMigrations\<close> over a database of any kind: what a script does to it is an argument (a script runs in a
  transaction, so it takes effect as a whole or not at all), and every call can fail. A failing query for the version
  counts as "not applied".\<close>

record 'd schema =
  sm_versions :: "string list"
  sm_data :: 'd

record mig_faults =
  mf_create :: "error option"
  mf_select :: "string \<Rightarrow> bool"
  mf_read :: "string \<Rightarrow> error option"
  mf_begin :: "string \<Rightarrow> error option"
  mf_insert :: "string \<Rightarrow> error option"
  mf_commit :: "string \<Rightarrow> exec_fault option"

definition version_of :: "string \<Rightarrow> string" where
  "version_of path = TrimSuffix (TrimPrefix path ''migrations/'') ''.up.sql''"

definition migrate_one :: "mig_faults \<Rightarrow> driver \<Rightarrow> (string \<Rightarrow> 'd \<Rightarrow> 'd result) \<Rightarrow> string \<Rightarrow> 'd schema \<Rightarrow>
    error option \<times> 'd schema" where
  "migrate_one F V script path s =
     (let version = version_of path;
          s' = (\<lambda>d. s\<lparr>sm_versions := sm_versions s @ [version], sm_data := d\<rparr>)
      in if \<not> mf_select F version \<and> version \<in> set (sm_versions s) then (None, s)
         else case mf_read F path of
           Some e \<Rightarrow> (Some e, s)
         | None \<Rightarrow>
             (case mf_begin F version of
                Some e \<Rightarrow> (Some e, s)
              | None \<Rightarrow>
                  (case script path (sm_data s) of
                     Inl e \<Rightarrow> (Some (Wrap (''store: migration '' @ version) e), s)
                   | Inr d \<Rightarrow>
                       if mf_insert F version \<noteq> None then (mf_insert F version, s)
                       else if version \<in> set (sm_versions s) then (Some (V ''schema_migrations_pkey''), s)
                       else (case mf_commit F version of
                               None \<Rightarrow> (None, s' d)
                             | Some (Refused e) \<Rightarrow> (Some e, s)
                             | Some (AnswerLost e) \<Rightarrow> (Some e, s' d)))))"

fun migrate_each :: "mig_faults \<Rightarrow> driver \<Rightarrow> (string \<Rightarrow> 'd \<Rightarrow> 'd result) \<Rightarrow> string list \<Rightarrow> 'd schema \<Rightarrow>
    error option \<times> 'd schema" where
  "migrate_each F V script [] s = (None, s)"
| "migrate_each F V script (p # ps) s =
     (case migrate_one F V script p s of
        (Some e, s1) \<Rightarrow> (Some e, s1)
      | (None, s1) \<Rightarrow> migrate_each F V script ps s1)"

text \<open>Creating the table when it is not there changes nothing that is modelled; the glob gives the paths unsorted.\<close>

definition applyMigrations :: "mig_faults \<Rightarrow> driver \<Rightarrow> (string \<Rightarrow> 'd \<Rightarrow> 'd result) \<Rightarrow> string list \<Rightarrow> 'd schema \<Rightarrow>
    error option \<times> 'd schema" where
  "applyMigrations F V script paths s =
     (case mf_create F of Some e \<Rightarrow> (Some e, s) | None \<Rightarrow> migrate_each F V script (sort paths) s)"

text \<open>Up to thirty pings; the error of the last one is reported.\<close>

fun ping_loop :: "(nat \<Rightarrow> error option) \<Rightarrow> nat \<Rightarrow> nat \<Rightarrow> error option \<Rightarrow> error option" where
  "ping_loop ping i 0 err = err"
| "ping_loop ping i (Suc n) err = (case ping i of None \<Rightarrow> None | Some e \<Rightarrow> ping_loop ping (Suc i) n (Some e))"

text \<open>The result is the store of the blobs: the one given, or the table of the database.\<close>

definition OpenPostgres :: "error option \<Rightarrow> (nat \<Rightarrow> error option) \<Rightarrow> mig_faults \<Rightarrow> driver \<Rightarrow> (string \<Rightarrow> 'd \<Rightarrow> 'd result) \<Rightarrow>
    string list \<Rightarrow> 'o \<Rightarrow> 'o option \<Rightarrow> 'd schema \<Rightarrow> 'o result \<times> 'd schema" where
  "OpenPostgres openErr ping F V script paths dbObjs objs s =
     (case openErr of
        Some e \<Rightarrow> (Inl (Wrap ''store: open'' e), s)
      | None \<Rightarrow>
          (case ping_loop ping 0 30 None of
             Some e \<Rightarrow> (Inl (Wrap ''store: ping'' e), s)
           | None \<Rightarrow>
               (case applyMigrations F V script paths s of
                  (Some e, s1) \<Rightarrow> (Inl e, s1)
                | (None, s1) \<Rightarrow> (Inr (case objs of Some x \<Rightarrow> x | None \<Rightarrow> dbObjs), s1))))"

subsection \<open>Every script runs at most once\<close>

text \<open>The data is what the recorded versions make of the initial data, each run once in the order of the record.\<close>

fun run_scripts :: "(string \<Rightarrow> 'd \<Rightarrow> 'd result) \<Rightarrow> string list \<Rightarrow> 'd \<Rightarrow> 'd result" where
  "run_scripts script [] d = Inr d"
| "run_scripts script (p # ps) d = (case script p d of Inl e \<Rightarrow> Inl e | Inr d1 \<Rightarrow> run_scripts script ps d1)"

definition migrated :: "(string \<Rightarrow> 'd \<Rightarrow> 'd result) \<Rightarrow> 'd \<Rightarrow> 'd schema \<Rightarrow> bool" where
  "migrated script d0 s \<longleftrightarrow> distinct (sm_versions s) \<and>
     (\<exists>ps. map version_of ps = sm_versions s \<and> run_scripts script ps d0 = Inr (sm_data s))"

lemma run_scripts_snoc:
  "run_scripts script ps d = Inr d1 \<Longrightarrow> run_scripts script (ps @ [p]) d = script p d1"
  by (induction ps arbitrary: d) (auto split: sum.splits)

lemma migrate_one_migrated: "migrated script d0 s \<Longrightarrow> migrated script d0 (snd (migrate_one F V script p s))"
proof -
  assume m: "migrated script d0 s"
  then obtain ps where ps: "map version_of ps = sm_versions s" "run_scripts script ps d0 = Inr (sm_data s)" "distinct (sm_versions s)"
    by (auto simp: migrated_def)
  have "migrated script d0 (s\<lparr>sm_versions := sm_versions s @ [version_of p], sm_data := d\<rparr>)"
    if "script p (sm_data s) = Inr d" "version_of p \<notin> set (sm_versions s)" for d
    using ps that run_scripts_snoc [OF ps(2), of p] by (auto simp: migrated_def intro!: exI [of _ "ps @ [p]"])
  with m show ?thesis
    by (auto simp: migrate_one_def Let_def split: option.splits sum.splits exec_fault.splits)
qed

lemma migrate_each_migrated: "migrated script d0 s \<Longrightarrow> migrated script d0 (snd (migrate_each F V script ps s))"
proof (induction ps arbitrary: s)
  case (Cons p ps)
  have "migrated script d0 (snd (migrate_one F V script p s))" by (rule migrate_one_migrated [OF Cons.prems])
  then show ?case using Cons.IH by (auto split: prod.splits option.splits)
qed simp

text \<open>A run that succeeds has recorded every version, and the next one finds nothing to do.\<close>

lemma migrate_one_keeps: "set (sm_versions s) \<subseteq> set (sm_versions (snd (migrate_one F V script p s)))"
  by (auto simp: migrate_one_def Let_def split: option.splits sum.splits exec_fault.splits)

lemma migrate_each_keeps: "set (sm_versions s) \<subseteq> set (sm_versions (snd (migrate_each F V script ps s)))"
proof (induction ps arbitrary: s)
  case (Cons p ps)
  show ?case using migrate_one_keeps [of s F V script p] Cons.IH by (auto split: prod.splits option.splits) (metis (no_types) snd_conv subsetD)
qed simp

lemma migrate_each_done:
  "migrate_each F V script ps s = (None, s') \<Longrightarrow> p \<in> set ps \<Longrightarrow> version_of p \<in> set (sm_versions s')"
proof (induction ps arbitrary: s)
  case (Cons q ps)
  obtain s1 where s1: "migrate_one F V script q s = (None, s1)" "migrate_each F V script ps s1 = (None, s')"
    using Cons.prems(1) by (auto split: prod.splits option.splits)
  have "version_of q \<in> set (sm_versions s1)"
    using s1(1) by (auto simp: migrate_one_def Let_def split: if_splits option.splits sum.splits exec_fault.splits)
  then show ?case using Cons.prems(2) Cons.IH [OF s1(2)] migrate_each_keeps [of s1 F V script ps] s1(2) by auto
qed simp

lemma migrate_each_again:
  "(\<And>v. \<not> mf_select F v) \<Longrightarrow> (\<And>p. p \<in> set ps \<Longrightarrow> version_of p \<in> set (sm_versions s)) \<Longrightarrow>
     migrate_each F V script ps s = (None, s)"
  by (induction ps) (auto simp: migrate_one_def Let_def)

lemma migrations_run_once:
  assumes "migrated script d0 s" "applyMigrations F V script paths s = (r, s')"
  shows "migrated script d0 s'" "r = None \<Longrightarrow> p \<in> set paths \<Longrightarrow> version_of p \<in> set (sm_versions s')"
    "r = None \<Longrightarrow> (\<And>v. \<not> mf_select F' v) \<Longrightarrow> mf_create F' = None \<Longrightarrow> applyMigrations F' V script paths s' = (None, s')"
proof -
  show m: "migrated script d0 s'"
    using assms migrate_each_migrated [OF assms(1), of F V "sort paths"] by (auto simp: applyMigrations_def split: option.splits)
  have d: "version_of q \<in> set (sm_versions s')" if "r = None" "q \<in> set paths" for q
    using assms(2) that migrate_each_done [of F V script "sort paths" s s' q] by (auto simp: applyMigrations_def split: option.splits)
  then show "r = None \<Longrightarrow> p \<in> set paths \<Longrightarrow> version_of p \<in> set (sm_versions s')" .
  show "applyMigrations F' V script paths s' = (None, s')" if "r = None" "\<And>v. \<not> mf_select F' v" "mf_create F' = None"
    using migrate_each_again [of F' "sort paths" s'] that d by (simp add: applyMigrations_def)
qed

lemma ping_loop_None_iff: "ping_loop ping i n (Some e) = None \<longleftrightarrow> (\<exists>k < n. ping (i + k) = None)"
proof (induction n arbitrary: i e)
  case (Suc n)
  show ?case
  proof (cases "ping i")
    case None
    then show ?thesis by (auto intro: exI [of _ 0])
  next
    case (Some x)
    then have "(\<exists>k < Suc n. ping (i + k) = None) \<longleftrightarrow> (\<exists>k < n. ping (Suc i + k) = None)"
      by (metis add_Suc_shift gr0_conv_Suc less_Suc_eq_0_disj nat_arith.rule0 option.distinct(1))
    with Some Suc.IH show ?thesis by simp
  qed
qed simp

end
