(* ===== verification/PostgresProps.thy ===== *)
theory PostgresProps
  imports Postgres
begin

section \<open>The PostgreSQL store: integrity, and agreement with the memory store\<close>

text \<open>
  The methods of the store as operations of one datatype, run by either store. Whatever faults occur, the tables
  satisfy the constraints of the schema. Without faults, and for operations the schema allows, the PostgreSQL
  store answers like the memory store, for any sequence of operations.
\<close>

subsection \<open>Operations and answers\<close>

datatype store_op =
    CreateAccountOp account | AccountByEmailOp string | AccountOp string | ListAccountsOp
  | SetAccountStatusOp string string | UpdateAccountProfileOp string string string | SetAccountPasswordOp string string
  | DeleteAccountOp string
  | CreateDeviceOp device | DeviceOp string | SetDeviceStatusOp string string | DevicesByAccountOp string
  | CreateEnrollmentOp enrollment | EnrollmentOp string | ListEnrollmentsOp | SetEnrollmentStatusOp string string
  | CreateCertificateOp certificate | CertificateOp string | CertificateByDeviceOp string | CertificateBySerialOp string
  | CertificatesByAccountOp string | RevokeCertificateOp string string
  | CreateReservationOp reservation | ReservationOp string | SetReservationStatusOp string string
  | CreateSignatureOp signature | SignatureOp string | SignaturesByAccountOp string
  | AppendOp audit_event | AuditEventsOp int

datatype store_out =
    ErrOut "error option" | AccountOut "account result" | AccountsOut "account list"
  | NewDeviceOut device "error option" | DeviceOut "device result" | DevicesOut "device list"
  | NewEnrollmentOut enrollment "error option" | EnrollmentOut "enrollment result" | EnrollmentsOut "enrollment list"
  | NewCertificateOut certificate "error option" | CertificateOut "certificate result" | CertificatesOut "certificate list"
  | NewReservationOut reservation "error option" | ReservationOut "reservation result"
  | SignatureOut "signature result" | SignaturesOut "signature list" | AuditOut "audit_event list" | NoOut

record pg_fault =
  pf_exec :: "exec_fault option"
  pf_query :: "error option"
  pf_rows :: "rows_fault option"

definition no_pg_fault :: pg_fault where
  "no_pg_fault = \<lparr>pf_exec = None, pf_query = None, pf_rows = None\<rparr>"

definition out_of :: "('a \<Rightarrow> store_out) \<Rightarrow> 'a \<times> 's \<Rightarrow> store_out \<times> 's" where
  "out_of f r = (f (fst r), snd r)"

fun pg_run :: "driver \<Rightarrow> pg_fault \<Rightarrow> bytes \<Rightarrow> time \<Rightarrow> store_op \<Rightarrow> pg \<Rightarrow> store_out \<times> pg" where
  "pg_run V f rb t (CreateAccountOp a) db = out_of AccountOut (pg_CreateAccount V (pf_exec f) rb t a db)"
| "pg_run V f rb t (AccountByEmailOp x) db = (AccountOut (pg_AccountByEmail (pf_query f) x db), db)"
| "pg_run V f rb t (AccountOp i) db = (AccountOut (pg_Account (pf_query f) i db), db)"
| "pg_run V f rb t ListAccountsOp db = (AccountsOut (pg_ListAccounts (pf_rows f) db), db)"
| "pg_run V f rb t (SetAccountStatusOp i x) db = out_of ErrOut (pg_SetAccountStatus V (pf_exec f) i x db)"
| "pg_run V f rb t (UpdateAccountProfileOp i x y) db = out_of ErrOut (pg_UpdateAccountProfile V (pf_exec f) i x y db)"
| "pg_run V f rb t (SetAccountPasswordOp i x) db = out_of ErrOut (pg_SetAccountPassword V (pf_exec f) i x db)"
| "pg_run V f rb t (DeleteAccountOp i) db = out_of ErrOut (pg_DeleteAccount V (pf_exec f) i db)"
| "pg_run V f rb t (CreateDeviceOp d) db = out_of (\<lambda>(x, e). NewDeviceOut x e) (pg_CreateDevice V (pf_exec f) rb t d db)"
| "pg_run V f rb t (DeviceOp i) db = (DeviceOut (pg_Device (pf_query f) i db), db)"
| "pg_run V f rb t (SetDeviceStatusOp i x) db = out_of ErrOut (pg_SetDeviceStatus V (pf_exec f) i x db)"
| "pg_run V f rb t (DevicesByAccountOp i) db = (DevicesOut (pg_DevicesByAccount (pf_rows f) i db), db)"
| "pg_run V f rb t (CreateEnrollmentOp d) db = out_of (\<lambda>(x, e). NewEnrollmentOut x e) (pg_CreateEnrollment V (pf_exec f) rb t d db)"
| "pg_run V f rb t (EnrollmentOp i) db = (EnrollmentOut (pg_Enrollment (pf_query f) i db), db)"
| "pg_run V f rb t ListEnrollmentsOp db = (EnrollmentsOut (pg_ListEnrollments (pf_rows f) db), db)"
| "pg_run V f rb t (SetEnrollmentStatusOp i x) db = out_of ErrOut (pg_SetEnrollmentStatus V (pf_exec f) i x db)"
| "pg_run V f rb t (CreateCertificateOp d) db = out_of (\<lambda>(x, e). NewCertificateOut x e) (pg_CreateCertificate V (pf_exec f) rb d db)"
| "pg_run V f rb t (CertificateOp i) db = (CertificateOut (pg_Certificate (pf_query f) i db), db)"
| "pg_run V f rb t (CertificateByDeviceOp i) db = (CertificateOut (pg_CertificateByDevice (pf_query f) i db), db)"
| "pg_run V f rb t (CertificateBySerialOp i) db = (CertificateOut (pg_CertificateBySerial (pf_query f) i db), db)"
| "pg_run V f rb t (CertificatesByAccountOp i) db = (CertificatesOut (pg_CertificatesByAccount (pf_rows f) i db), db)"
| "pg_run V f rb t (RevokeCertificateOp i x) db = out_of ErrOut (pg_RevokeCertificate V (pf_exec f) t i x db)"
| "pg_run V f rb t (CreateReservationOp d) db = out_of (\<lambda>(x, e). NewReservationOut x e) (pg_CreateReservation V (pf_exec f) rb t d db)"
| "pg_run V f rb t (ReservationOp i) db = (ReservationOut (pg_Reservation (pf_query f) i db), db)"
| "pg_run V f rb t (SetReservationStatusOp i x) db = out_of ErrOut (pg_SetReservationStatus V (pf_exec f) i x db)"
| "pg_run V f rb t (CreateSignatureOp s) db = out_of SignatureOut (pg_CreateSignature V (pf_exec f) t s db)"
| "pg_run V f rb t (SignatureOp i) db = (SignatureOut (pg_Signature (pf_query f) i db), db)"
| "pg_run V f rb t (SignaturesByAccountOp i) db = (SignaturesOut (pg_SignaturesByAccount (pf_rows f) i db), db)"
| "pg_run V f rb t (AppendOp ev) db = (NoOut, pg_Append V (pf_exec f) rb t ev db)"
| "pg_run V f rb t (AuditEventsOp n) db = (AuditOut (pg_AuditEvents (pf_rows f) n db), db)"

fun mem_run :: "bytes \<Rightarrow> time \<Rightarrow> store_op \<Rightarrow> memory \<Rightarrow> store_out \<times> memory" where
  "mem_run rb t (CreateAccountOp a) m = out_of AccountOut (CreateAccount rb t a m)"
| "mem_run rb t (AccountByEmailOp x) m = (AccountOut (AccountByEmail x m), m)"
| "mem_run rb t (AccountOp i) m = (AccountOut (Account i m), m)"
| "mem_run rb t ListAccountsOp m = (AccountsOut (ListAccounts m), m)"
| "mem_run rb t (SetAccountStatusOp i x) m = out_of ErrOut (SetAccountStatus i x m)"
| "mem_run rb t (UpdateAccountProfileOp i x y) m = out_of ErrOut (UpdateAccountProfile i x y m)"
| "mem_run rb t (SetAccountPasswordOp i x) m = out_of ErrOut (SetAccountPassword i x m)"
| "mem_run rb t (DeleteAccountOp i) m = out_of ErrOut (DeleteAccount i m)"
| "mem_run rb t (CreateDeviceOp d) m = out_of (\<lambda>x. NewDeviceOut x None) (CreateDevice rb t d m)"
| "mem_run rb t (DeviceOp i) m = (DeviceOut (Device i m), m)"
| "mem_run rb t (SetDeviceStatusOp i x) m = out_of ErrOut (SetDeviceStatus i x m)"
| "mem_run rb t (DevicesByAccountOp i) m = (DevicesOut (DevicesByAccount i m), m)"
| "mem_run rb t (CreateEnrollmentOp d) m = out_of (\<lambda>x. NewEnrollmentOut x None) (CreateEnrollment rb t d m)"
| "mem_run rb t (EnrollmentOp i) m = (EnrollmentOut (Enrollment i m), m)"
| "mem_run rb t ListEnrollmentsOp m = (EnrollmentsOut (ListEnrollments m), m)"
| "mem_run rb t (SetEnrollmentStatusOp i x) m = out_of ErrOut (SetEnrollmentStatus i x m)"
| "mem_run rb t (CreateCertificateOp d) m = out_of (\<lambda>x. NewCertificateOut x None) (CreateCertificate rb d m)"
| "mem_run rb t (CertificateOp i) m = (CertificateOut (Certificate i m), m)"
| "mem_run rb t (CertificateByDeviceOp i) m = (CertificateOut (CertificateByDevice i m), m)"
| "mem_run rb t (CertificateBySerialOp i) m = (CertificateOut (CertificateBySerial i m), m)"
| "mem_run rb t (CertificatesByAccountOp i) m = (CertificatesOut (CertificatesByAccount i m), m)"
| "mem_run rb t (RevokeCertificateOp i x) m = out_of ErrOut (RevokeCertificate t i x m)"
| "mem_run rb t (CreateReservationOp d) m = out_of (\<lambda>x. NewReservationOut x None) (CreateReservation rb t d m)"
| "mem_run rb t (ReservationOp i) m = (ReservationOut (Reservation i m), m)"
| "mem_run rb t (SetReservationStatusOp i x) m = out_of ErrOut (SetReservationStatus i x m)"
| "mem_run rb t (CreateSignatureOp s) m = out_of SignatureOut (CreateSignature t s m)"
| "mem_run rb t (SignatureOp i) m = (SignatureOut (Signature i m), m)"
| "mem_run rb t (SignaturesByAccountOp i) m = (SignaturesOut (SignaturesByAccount i m), m)"
| "mem_run rb t (AppendOp ev) m = (NoOut, Append rb t ev m)"
| "mem_run rb t (AuditEventsOp n) m = (AuditOut (AuditEvents n m), m)"

text \<open>A sequence of operations, each with its random bytes and its clock; for the database each with its faults.\<close>

fun pg_runs :: "driver \<Rightarrow> (pg_fault \<times> bytes \<times> time \<times> store_op) list \<Rightarrow> pg \<Rightarrow> store_out list \<times> pg" where
  "pg_runs V [] db = ([], db)"
| "pg_runs V ((f, rb, t, x) # xs) db =
     (let (o1, db1) = pg_run V f rb t x db; (os, db2) = pg_runs V xs db1 in (o1 # os, db2))"

fun mem_runs :: "(bytes \<times> time \<times> store_op) list \<Rightarrow> memory \<Rightarrow> store_out list \<times> memory" where
  "mem_runs [] m = ([], m)"
| "mem_runs ((rb, t, x) # xs) m =
     (let (o1, m1) = mem_run rb t x m; (os, m2) = mem_runs xs m1 in (o1 # os, m2))"

subsection \<open>Integrity\<close>

definition refers :: "('v \<Rightarrow> string) \<Rightarrow> (string, 'v) gomap \<Rightarrow> (string, 'w) gomap \<Rightarrow> bool" where
  "refers f tab target \<longleftrightarrow> f ` set (vals tab) \<subseteq> dom (map_of target)"

definition pg_keys :: "pg \<Rightarrow> bool" where
  "pg_keys db \<longleftrightarrow> keyed a_ID (g_accounts db) \<and> keyed d_ID (g_devices db) \<and> keyed e_ID (g_enrollments db) \<and>
     keyed c_ID (g_certificates db) \<and> keyed r_PublicID (g_reservations db) \<and> keyed s_PublicID (g_signatures db) \<and>
     keyed ev_ID (g_audit db)"

definition pg_unique :: "pg \<Rightarrow> bool" where
  "pg_unique db \<longleftrightarrow> distinct (map a_Email (vals (g_accounts db))) \<and> distinct (map c_Serial (vals (g_certificates db))) \<and>
     count_list (map a_Role (vals (g_accounts db))) RoleSuperAdmin \<le> 1"

definition pg_refs :: "pg \<Rightarrow> bool" where
  "pg_refs db \<longleftrightarrow> refers d_AccountID (g_devices db) (g_accounts db) \<and>
     refers e_DeviceID (g_enrollments db) (g_devices db) \<and> refers e_AccountID (g_enrollments db) (g_accounts db) \<and>
     refers c_EnrollmentID (g_certificates db) (g_enrollments db) \<and> refers c_DeviceID (g_certificates db) (g_devices db) \<and>
     refers c_AccountID (g_certificates db) (g_accounts db) \<and> refers r_AccountID (g_reservations db) (g_accounts db) \<and>
     refers r_DeviceID (g_reservations db) (g_devices db) \<and> refers s_PublicID (g_signatures db) (g_reservations db) \<and>
     refers s_AccountID (g_signatures db) (g_accounts db) \<and> refers s_DeviceID (g_signatures db) (g_devices db)"

definition pg_wf :: "pg \<Rightarrow> bool" where
  "pg_wf db \<longleftrightarrow> pg_keys db \<and> pg_unique db \<and> pg_refs db"

lemmas pg_wf_defs = pg_wf_def pg_keys_def pg_unique_def pg_refs_def

lemma refers_source: "refers f tab target \<Longrightarrow> has target (f v) \<Longrightarrow> refers f (AList.update k v tab) target"
  unfolding refers_def has_def using vals_update_cases [of _ k v tab] by blast

lemma refers_target [simp]: "refers f tab target \<Longrightarrow> refers f tab (AList.update k v target)"
  by (auto simp: refers_def)

lemma refers_delete: "refers f tab target \<Longrightarrow> \<not> list_ex (\<lambda>x. f x = k) (vals tab) \<Longrightarrow> refers f tab (AList.delete k target)"
  by (auto simp: refers_def list_ex_iff)

lemma map_vals_update: "map_of tab i = Some v \<Longrightarrow> g w = g v \<Longrightarrow> map g (vals (AList.update i w tab)) = map g (vals tab)"
  by (induction tab) (auto split: if_splits)

lemma image_vals_update: "map_of tab i = Some v \<Longrightarrow> g w = g v \<Longrightarrow> g ` set (vals (AList.update i w tab)) = g ` set (vals tab)"
  by (metis map_vals_update set_map)

lemma refers_row: "map_of tab i = Some v \<Longrightarrow> f w = f v \<Longrightarrow> refers f (AList.update i w tab) target = refers f tab target"
  unfolding refers_def by (simp only: image_vals_update)

lemma vals_delete_distinct: "distinct (map (g \<circ> snd) tab) \<Longrightarrow> distinct (map (g \<circ> snd) (AList.delete k tab))"
  by (induction tab) (auto simp: AList.delete_eq)

lemma vals_delete_count: "count_list (map (g \<circ> snd) (AList.delete k tab)) x \<le> count_list (map (g \<circ> snd) tab) x"
  by (induction tab) (auto simp: AList.delete_eq)

definition keeps_wf :: "statement \<Rightarrow> bool" where
  "keeps_wf stmt \<longleftrightarrow> (\<forall>db n db'. pg_wf db \<longrightarrow> stmt db = Inr (n, db') \<longrightarrow> pg_wf db')"

lemma exec_wf: "keeps_wf stmt \<Longrightarrow> pg_wf db \<Longrightarrow> pg_wf (snd (exec V f stmt db))"
  by (auto simp: exec_def keeps_wf_def split: option.splits exec_fault.splits sum.splits)

lemma has_None: "\<not> has tab k \<longleftrightarrow> map_of tab k = None"
  by (simp add: has_def)

lemma insert_account_wf: "keeps_wf (insert_account a)"
  unfolding keeps_wf_def
proof (intro allI impI)
  fix db :: pg and n db'
  let ?T = "g_accounts db"
  let ?b = "a\<lparr>a_CreatedAt := pg_time (a_CreatedAt a)\<rparr>"
  assume w: "pg_wf db" "insert_account a db = Inr (n, db')"
  then have f: "map_of ?T (a_ID a) = None" "\<forall>b \<in> set (vals ?T). a_Email b \<noteq> a_Email a"
    "a_Role a = RoleSuperAdmin \<longrightarrow> RoleSuperAdmin \<notin> set (map a_Role (vals ?T))"
    and db': "db' = db\<lparr>g_accounts := AList.update (a_ID a) ?b ?T\<rparr>"
    by (auto simp: insert_account_def has_None list_ex_iff split: if_splits)
  have "pg_keys db'" using w(1) by (simp add: pg_wf_def pg_keys_def db' keyed_update)
  moreover have "pg_unique db'"
    using w(1) f(2,3) by (auto simp: pg_wf_def pg_unique_def db' update_fresh [OF f(1)] count_list_0_iff)
  moreover have "pg_refs db'" using w(1) by (simp add: pg_wf_def pg_refs_def db')
  ultimately show "pg_wf db'" by (simp add: pg_wf_def)
qed

lemma insert_device_wf: "keeps_wf (insert_device d)"
  by (auto simp: keeps_wf_def insert_device_def pg_wf_defs keyed_update refers_source split: if_splits)

lemma insert_enrollment_wf: "keeps_wf (insert_enrollment e)"
  by (auto simp: keeps_wf_def insert_enrollment_def pg_wf_defs keyed_update refers_source split: if_splits)

lemma insert_certificate_wf: "keeps_wf (insert_certificate c)"
  unfolding keeps_wf_def
proof (intro allI impI)
  fix db n db'
  assume w: "pg_wf db" "insert_certificate c db = Inr (n, db')"
  then have f: "map_of (g_certificates db) (c_ID c) = None" "\<forall>b \<in> set (vals (g_certificates db)). c_Serial b \<noteq> c_Serial c"
    by (auto simp: insert_certificate_def has_None list_ex_iff split: if_splits)
  have "distinct (map (c_Serial \<circ> snd) (AList.update (c_ID c) v (g_certificates db)))" if "c_Serial v = c_Serial c" for v
    using f w(1) that by (auto simp: update_fresh pg_wf_def pg_unique_def)
  with w show "pg_wf db'"
    by (auto simp: insert_certificate_def pg_wf_defs keyed_update refers_source split: if_splits)
qed

lemma insert_reservation_wf: "keeps_wf (insert_reservation r)"
  by (auto simp: keeps_wf_def insert_reservation_def pg_wf_defs keyed_update refers_source split: if_splits)

lemma insert_signature_wf: "keeps_wf (insert_signature s)"
  by (auto simp: keeps_wf_def insert_signature_def pg_wf_defs keyed_update refers_source split: if_splits)

lemma insert_audit_wf: "keeps_wf (insert_audit ev)"
  by (auto simp: keeps_wf_def insert_audit_def pg_wf_defs keyed_update split: if_splits)

lemma delete_account_wf: "keeps_wf (delete_account i)"
  by (auto simp: keeps_wf_def delete_account_def account_referenced_def pg_wf_defs keyed_delete vals_delete_distinct refers_delete
      intro: order_trans [OF vals_delete_count] split: if_splits)

text \<open>An update of a row changes neither its id nor what the constraints speak of.\<close>

lemma set_row_Inr:
  "set_row tab put f i db = Inr (n, db') \<Longrightarrow> db' = db \<or> (\<exists>v. map_of (tab db) i = Some v \<and> db' = put (AList.update i (f v) (tab db)) db)"
  by (auto simp: set_row_def split: option.splits)

lemma keyed_row: "keyed idf tab \<Longrightarrow> map_of tab i = Some v \<Longrightarrow> idf w = idf v \<Longrightarrow> keyed idf (AList.update i w tab)"
  using keyedD [of idf tab i v] by (simp add: keyed_update)

lemma map_row: "map_of tab i = Some v \<Longrightarrow> g w = g v \<Longrightarrow> map (g \<circ> snd) (AList.update i w tab) = map (g \<circ> snd) tab"
  using map_vals_update [of tab i v g w] by (simp add: comp_def)

lemma account_row_wf:
  assumes "\<And>a. a_ID (f a) = a_ID a" "\<And>a. a_Email (f a) = a_Email a" "\<And>a. a_Role (f a) = a_Role a"
  shows "keeps_wf (set_row g_accounts put_accounts f i)"
  using assms unfolding keeps_wf_def
  by (auto simp: pg_wf_defs put_defs keyed_row map_row dest!: set_row_Inr)

lemma device_row_wf:
  assumes "\<And>a. d_ID (f a) = d_ID a" "\<And>a. d_AccountID (f a) = d_AccountID a"
  shows "keeps_wf (set_row g_devices put_devices f i)"
  using assms unfolding keeps_wf_def
  by (auto simp: pg_wf_defs put_defs keyed_row refers_row dest!: set_row_Inr)

lemma enrollment_row_wf:
  assumes "\<And>a. e_ID (f a) = e_ID a" "\<And>a. e_AccountID (f a) = e_AccountID a" "\<And>a. e_DeviceID (f a) = e_DeviceID a"
  shows "keeps_wf (set_row g_enrollments put_enrollments f i)"
  using assms unfolding keeps_wf_def
  by (auto simp: pg_wf_defs put_defs keyed_row refers_row dest!: set_row_Inr)

lemma certificate_row_wf:
  assumes "\<And>a. c_ID (f a) = c_ID a" "\<And>a. c_AccountID (f a) = c_AccountID a" "\<And>a. c_DeviceID (f a) = c_DeviceID a"
    "\<And>a. c_EnrollmentID (f a) = c_EnrollmentID a" "\<And>a. c_Serial (f a) = c_Serial a"
  shows "keeps_wf (set_row g_certificates put_certificates f i)"
  using assms unfolding keeps_wf_def
  by (auto simp: pg_wf_defs put_defs keyed_row refers_row map_row dest!: set_row_Inr)

lemma reservation_row_wf:
  assumes "\<And>a. r_PublicID (f a) = r_PublicID a" "\<And>a. r_AccountID (f a) = r_AccountID a" "\<And>a. r_DeviceID (f a) = r_DeviceID a"
  shows "keeps_wf (set_row g_reservations put_reservations f i)"
  using assms unfolding keeps_wf_def
  by (auto simp: pg_wf_defs put_defs keyed_row refers_row dest!: set_row_Inr)

lemmas statements_wf = insert_account_wf insert_device_wf insert_enrollment_wf insert_certificate_wf insert_reservation_wf
  insert_signature_wf insert_audit_wf delete_account_wf account_row_wf device_row_wf enrollment_row_wf certificate_row_wf
  reservation_row_wf

lemma snd_affected [simp]: "snd (affected r) = snd r"
  by (auto simp: affected_def split: prod.splits sum.splits)

lemma snd_with_row [simp]: "snd (with_row x r) = snd r"
  by (auto simp: with_row_def split: prod.splits sum.splits)

lemma snd_created [simp]:
  "snd (case r of (Inl e, db) \<Rightarrow> (f e, db) | (Inr n, db) \<Rightarrow> (g n, db)) = snd r"
  by (auto split: prod.splits sum.splits)

lemma snd_out_of [simp]: "snd (out_of f r) = snd r"
  by (simp add: out_of_def)

lemma pg_run_wf: "pg_wf db \<Longrightarrow> pg_wf (snd (pg_run V f rb t x db))"
  by (cases x) (simp_all add: pg_CreateAccount_def pg_SetAccountStatus_def pg_UpdateAccountProfile_def pg_SetAccountPassword_def
      pg_DeleteAccount_def pg_CreateDevice_def pg_SetDeviceStatus_def pg_CreateEnrollment_def pg_SetEnrollmentStatus_def
      pg_CreateCertificate_def pg_RevokeCertificate_def pg_CreateReservation_def pg_SetReservationStatus_def
      pg_CreateSignature_def pg_Append_def Let_def exec_wf statements_wf)

definition pg_empty :: pg where
  "pg_empty = \<lparr>g_accounts = [], g_devices = [], g_enrollments = [], g_certificates = [], g_reservations = [],
     g_signatures = [], g_audit = []\<rparr>"

lemma pg_empty_wf: "pg_wf pg_empty"
  by (simp add: pg_wf_defs pg_empty_def keyed_def refers_def)

lemma pg_runs_wf: "pg_wf db \<Longrightarrow> pg_wf (snd (pg_runs V xs db))"
proof (induction xs arbitrary: db)
  case (Cons x xs)
  obtain f rb t op where x: "x = (f, rb, t, op)" by (cases x)
  show ?case using Cons.IH [OF pg_run_wf [OF Cons.prems, of V f rb t op]]
    by (auto simp: x split: prod.splits)
qed simp

text \<open>C22: Whatever statements are refused or lose their answer, at every point of every sequence of operations from an empty
  database the tables are consistent: each row under its own id, no two accounts with one e-mail and no two certificates with
  one serial, at most one superadmin, and every row refers to accounts, devices, enrollments and reservations that exist.\<close>

theorem pg_integrity: "pg_wf (snd (pg_runs V xs pg_empty))"
  by (rule pg_runs_wf [OF pg_empty_wf])

subsection \<open>Agreement with the memory store\<close>

text \<open>The operations on which the two stores agree: a new row has an unused id and refers to rows that exist, times are whole
  microseconds, a second superadmin, a second certificate with a serial and the deletion of an account in use are
  left out, and the audit clock advances. A list is asked for only when no two of its rows have the same time: neither
  store orders such rows.\<close>

definition new_id :: "string \<Rightarrow> bytes \<Rightarrow> string \<Rightarrow> (string, 'v) gomap \<Rightarrow> bool" where
  "new_id prefix rb i tab \<longleftrightarrow> \<not> has tab (if i = [] then ID prefix rb else i)"

definition whole :: "time \<Rightarrow> bool" where
  "whole t \<longleftrightarrow> pg_time t = t"

definition untied :: "('v \<Rightarrow> time) \<Rightarrow> 'v list \<Rightarrow> bool" where
  "untied f rows \<longleftrightarrow> distinct (map f rows)"

fun admissible :: "bytes \<Rightarrow> time \<Rightarrow> store_op \<Rightarrow> pg \<Rightarrow> bool" where
  "admissible rb t (CreateAccountOp a) db \<longleftrightarrow> new_id ''acct'' rb (a_ID a) (g_accounts db) \<and> whole t \<and>
     \<not> (a_Role a = RoleSuperAdmin \<and> list_ex (\<lambda>b. a_Role b = RoleSuperAdmin) (vals (g_accounts db)))"
| "admissible rb t (DeleteAccountOp i) db \<longleftrightarrow> \<not> account_referenced i db"
| "admissible rb t (CreateDeviceOp d) db \<longleftrightarrow> new_id ''dev'' rb (d_ID d) (g_devices db) \<and> whole t \<and>
     has (g_accounts db) (d_AccountID d)"
| "admissible rb t (CreateEnrollmentOp e) db \<longleftrightarrow> new_id ''enr'' rb (e_ID e) (g_enrollments db) \<and> whole t \<and>
     has (g_devices db) (e_DeviceID e) \<and> has (g_accounts db) (e_AccountID e)"
| "admissible rb t (CreateCertificateOp c) db \<longleftrightarrow> new_id ''cert'' rb (c_ID c) (g_certificates db) \<and>
     whole (c_NotBefore c) \<and> whole (c_NotAfter c) \<and> c_RevokedAt c = zero_time \<and> c_RevReason c = [] \<and>
     \<not> list_ex (\<lambda>b. c_Serial b = c_Serial c) (vals (g_certificates db)) \<and>
     has (g_enrollments db) (c_EnrollmentID c) \<and> has (g_devices db) (c_DeviceID c) \<and> has (g_accounts db) (c_AccountID c)"
| "admissible rb t (RevokeCertificateOp i x) db \<longleftrightarrow> whole t"
| "admissible rb t (CreateReservationOp r) db \<longleftrightarrow> new_id ''sig'' rb (r_PublicID r) (g_reservations db) \<and> whole t \<and>
     whole (r_ExpiresAt r) \<and> has (g_accounts db) (r_AccountID r) \<and> has (g_devices db) (r_DeviceID r)"
| "admissible rb t (CreateSignatureOp s) db \<longleftrightarrow> whole t \<and> whole (s_ServerReceivedAt s) \<and>
     - (2 ^ 31) \<le> s_SignedSize s \<and> s_SignedSize s < 2 ^ 31 \<and> has (g_reservations db) (s_PublicID s) \<and>
     has (g_accounts db) (s_AccountID s) \<and> has (g_devices db) (s_DeviceID s)"
| "admissible rb t (AppendOp ev) db \<longleftrightarrow> \<not> has (g_audit db) (ID ''evt'' rb) \<and> whole t \<and>
     list_all (\<lambda>e. ev_Time e < t) (vals (g_audit db))"
| "admissible rb t (AuditEventsOp n) db \<longleftrightarrow> 0 < n \<or> length (g_audit db) \<le> 500"
| "admissible rb t ListAccountsOp db \<longleftrightarrow> untied a_CreatedAt (vals (g_accounts db))"
| "admissible rb t ListEnrollmentsOp db \<longleftrightarrow> untied e_CreatedAt (vals (g_enrollments db))"
| "admissible rb t (DevicesByAccountOp i) db \<longleftrightarrow>
     untied d_CreatedAt (filter (\<lambda>d. d_AccountID d = i) (vals (g_devices db)))"
| "admissible rb t (CertificateByDeviceOp i) db \<longleftrightarrow>
     untied c_NotBefore (filter (\<lambda>c. c_DeviceID c = i) (vals (g_certificates db)))"
| "admissible rb t (CertificatesByAccountOp i) db \<longleftrightarrow>
     untied c_NotBefore (filter (\<lambda>c. c_AccountID c = i) (vals (g_certificates db)))"
| "admissible rb t (SignaturesByAccountOp i) db \<longleftrightarrow>
     untied s_CreatedAt (filter (\<lambda>s. s_AccountID s = i) (vals (g_signatures db)))"
| "admissible rb t _ db \<longleftrightarrow> True"

fun admissible_runs :: "driver \<Rightarrow> (bytes \<times> time \<times> store_op) list \<Rightarrow> pg \<Rightarrow> bool" where
  "admissible_runs V [] db \<longleftrightarrow> True"
| "admissible_runs V ((rb, t, x) # xs) db \<longleftrightarrow>
     admissible rb t x db \<and> admissible_runs V xs (snd (pg_run V no_pg_fault rb t x db))"

definition same_tables :: "pg \<Rightarrow> memory \<Rightarrow> bool" where
  "same_tables db m \<longleftrightarrow> g_accounts db = m_accounts m \<and> g_devices db = m_devices m \<and> g_enrollments db = m_enrollments m \<and>
     g_certificates db = m_certificates m \<and> g_reservations db = m_reservations m \<and> g_signatures db = m_signatures m \<and>
     vals (g_audit db) = m_audit m"

definition agrees :: "pg \<Rightarrow> memory \<Rightarrow> bool" where
  "agrees db m \<longleftrightarrow> same_tables db m \<and> mem_wf m \<and> sorted_wrt (\<lambda>a b. ev_Time a < ev_Time b) (m_audit m)"

lemma find_unique: "x \<in> set xs \<Longrightarrow> P x \<Longrightarrow> (\<And>y. y \<in> set xs \<Longrightarrow> P y \<Longrightarrow> y = x) \<Longrightarrow> find P xs = Some x"
proof (induction xs)
  case (Cons y ys)
  show ?case
  proof (cases "P y")
    case True
    then have "y = x" by (intro Cons.prems(3)) simp_all
    then show ?thesis using True by simp
  next
    case False
    then have "x \<in> set ys" using Cons.prems(1,2) by auto
    then have "find P ys = Some x" by (rule Cons.IH [OF _ Cons.prems(2)]) (simp add: Cons.prems(3))
    then show ?thesis using False by simp
  qed
qed simp

lemma latest_Some: "latest p f (Some a) xs =
    (case latest p f None xs of None \<Rightarrow> Some a | Some y \<Rightarrow> if f a < f y then Some y else Some a)"
proof (induction xs arbitrary: a)
  case (Cons x xs)
  show ?case using Cons.IH [of a] Cons.IH [of x] by (cases "latest p f None xs") auto
qed simp

lemma first_row_insort: "first_row (insort_key g x ys) =
    (case first_row ys of None \<Rightarrow> Some x | Some y \<Rightarrow> if g x \<le> g y then Some x else Some y)"
  by (cases ys) (auto simp: first_row_def)

lemma first_row_latest: "first_row (sort_by_time (\<lambda>x. - f x) (filter p xs)) = latest p f None xs"
proof (induction xs)
  case Nil
  show ?case by (simp add: first_row_def)
next
  case (Cons x xs)
  then show ?case by (cases "latest p f None xs") (simp_all add: first_row_insort latest_Some)
qed

lemma newest_first: "sorted_wrt (\<lambda>a b. f a < f b) xs \<Longrightarrow> sort_by_time (\<lambda>x. - (f x :: int)) xs = rev xs"
proof (induction xs)
  case (Cons x xs)
  then have "sort_by_time (\<lambda>x. - f x) xs = rev xs" "\<forall>y \<in> set (rev xs). - f y < - f x" by simp_all
  moreover have "insort_key g x ys = ys @ [x]" if "\<forall>y \<in> set ys. g y < g x" for ys and g :: "'a \<Rightarrow> int"
    using that by (induction ys) auto
  ultimately show ?case by simp
qed simp

lemma mem_run_wf:
  "mem_wf m \<Longrightarrow> (\<And>a. x = CreateAccountOp a \<Longrightarrow> map_of (m_accounts m) (stored_id rb a) = None) \<Longrightarrow>
     mem_wf (snd (mem_run rb t x m))"
  by (cases x) (auto intro: wf_intros)

lemma mem_run_audit: "(\<And>ev. x \<noteq> AppendOp ev) \<Longrightarrow> m_audit (snd (mem_run rb t x m)) = m_audit m"
  by (cases x) auto

lemma by_email_agrees:
  assumes "mem_wf m"
  shows "query_row None (find (\<lambda>a. a_Email a = x) (vals (m_accounts m))) = AccountByEmail x m"
proof -
  have w: "keyed a_ID (m_accounts m)" "email_index m" using assms by (simp_all add: mem_wf_def)
  have at: "a_Email b = x \<Longrightarrow> b \<in> set (vals (m_accounts m)) \<Longrightarrow> map_of (m_byEmail m) x = Some (a_ID b)" for b
    unfolding keyed_vals [OF w(1)] using email_indexD1 [OF w(2), of "a_ID b" b] by simp
  show ?thesis
  proof (cases "map_of (m_byEmail m) x")
    case None
    then have "find (\<lambda>a. a_Email a = x) (vals (m_accounts m)) = None" using at by (auto simp: find_None_iff)
    with None show ?thesis by (simp add: AccountByEmail_def query_row_def)
  next
    case (Some k)
    then obtain a where a: "map_of (m_accounts m) k = Some a" "a_Email a = x" using email_indexD2 [OF w(2)] by blast
    have "find (\<lambda>a. a_Email a = x) (vals (m_accounts m)) = Some a"
    proof (rule find_unique)
      show "a \<in> set (vals (m_accounts m))" by (rule map_of_vals [OF a(1)])
      show "b = a" if "b \<in> set (vals (m_accounts m))" "a_Email b = x" for b
        using at [OF that(2,1)] that(1) Some a(1) unfolding keyed_vals [OF w(1)] by simp
    qed (rule a(2))
    with Some a show ?thesis by (simp add: AccountByEmail_def query_row_def)
  qed
qed

lemma rev_take_rev: "rev (take n (rev xs)) = drop (length xs - n) xs"
  by (simp add: take_rev)

lemma audit_agrees:
  assumes "agrees db m" "0 < n \<or> length (g_audit db) \<le> 500"
  shows "pg_AuditEvents None n db = AuditEvents n m"
proof -
  have v: "vals (g_audit db) = m_audit m" "length (g_audit db) = length (m_audit m)"
    using assms(1) by (auto simp: agrees_def same_tables_def dest: arg_cong [of _ _ length])
  have "sort_by_time (\<lambda>e. - ev_Time e) (m_audit m) = rev (m_audit m)"
    using assms(1) by (simp add: agrees_def newest_first)
  with v assms(2) show ?thesis
    by (auto simp: pg_AuditEvents_def AuditEvents_def query_rows_def rev_take_rev Let_def nat_diff_distrib')
qed

lemmas pg_answer_defs = out_of_def no_pg_fault_def exec_def affected_def with_row_def query_row_def query_rows_def
  set_row_def put_defs Let_def

lemmas pg_method_defs = pg_CreateAccount_def pg_SetAccountStatus_def pg_UpdateAccountProfile_def pg_SetAccountPassword_def
  pg_DeleteAccount_def pg_CreateDevice_def pg_SetDeviceStatus_def pg_CreateEnrollment_def pg_SetEnrollmentStatus_def
  pg_CreateCertificate_def pg_RevokeCertificate_def pg_CreateReservation_def pg_SetReservationStatus_def
  pg_CreateSignature_def pg_Append_def

lemmas pg_reader_defs = pg_Account_def pg_ListAccounts_def pg_Device_def pg_DevicesByAccount_def pg_Enrollment_def
  pg_ListEnrollments_def pg_Certificate_def pg_CertificateByDevice_def pg_CertificateBySerial_def pg_CertificatesByAccount_def
  pg_Reservation_def pg_Signature_def pg_SignaturesByAccount_def

lemmas mem_reader_defs = reader_defs ListAccounts_def DevicesByAccount_def ListEnrollments_def CertificateByDevice_def
  CertificateBySerial_def CertificatesByAccount_def SignaturesByAccount_def lookup_def

fun pure_read :: "store_op \<Rightarrow> bool" where
  "pure_read (AccountByEmailOp x) = True" | "pure_read (AccountOp x) = True" | "pure_read ListAccountsOp = True"
| "pure_read (DeviceOp x) = True" | "pure_read (DevicesByAccountOp x) = True" | "pure_read (EnrollmentOp x) = True"
| "pure_read ListEnrollmentsOp = True" | "pure_read (CertificateOp x) = True" | "pure_read (CertificateByDeviceOp x) = True"
| "pure_read (CertificateBySerialOp x) = True" | "pure_read (CertificatesByAccountOp x) = True"
| "pure_read (ReservationOp x) = True" | "pure_read (SignatureOp x) = True" | "pure_read (SignaturesByAccountOp x) = True"
| "pure_read (AuditEventsOp n) = True" | "pure_read _ = False"

definition step_agrees :: "store_out \<times> pg \<Rightarrow> store_out \<times> memory \<Rightarrow> bool" where
  "step_agrees r s \<longleftrightarrow> fst r = fst s \<and> same_tables (snd r) (snd s)"

lemma read_agrees:
  assumes a: "agrees db m" and ok: "admissible rb t x db" and p: "pure_read x"
  shows "step_agrees (pg_run V no_pg_fault rb t x db) (mem_run rb t x m)"
proof -
  have s: "same_tables db m" and w: "mem_wf m" using a by (simp_all add: agrees_def)
  show ?thesis
    using s p ok by_email_agrees [OF w] audit_agrees [OF a]
    by (cases x) (auto simp: step_agrees_def same_tables_def pg_answer_defs pg_reader_defs mem_reader_defs pg_AccountByEmail_def
        first_row_latest split: option.splits)
qed

fun row_write :: "store_op \<Rightarrow> bool" where
  "row_write (SetAccountStatusOp i x) = True" | "row_write (UpdateAccountProfileOp i x y) = True"
| "row_write (SetAccountPasswordOp i x) = True" | "row_write (SetDeviceStatusOp i x) = True"
| "row_write (SetEnrollmentStatusOp i x) = True" | "row_write (RevokeCertificateOp i x) = True"
| "row_write (SetReservationStatusOp i x) = True" | "row_write _ = False"

lemma write_agrees:
  assumes "same_tables db m" "admissible rb t x db" "row_write x"
  shows "step_agrees (pg_run V no_pg_fault rb t x db) (mem_run rb t x m)"
  using assms
  by (cases x) (auto simp: step_agrees_def same_tables_def pg_answer_defs pg_method_defs mutator_defs whole_def
      split: option.splits)

lemma email_taken:
  assumes "mem_wf m"
  shows "list_ex (\<lambda>b. a_Email b = x) (vals (m_accounts m)) \<longleftrightarrow> map_of (m_byEmail m) x \<noteq> None"
proof -
  have "find (\<lambda>a. a_Email a = x) (vals (m_accounts m)) = None \<longleftrightarrow> map_of (m_byEmail m) x = None"
    using by_email_agrees [OF assms, of x] by (auto simp: query_row_def AccountByEmail_def split: option.splits)
  then show ?thesis by (auto simp: find_None_iff list_ex_iff)
qed

lemma create_account_agrees:
  assumes s: "same_tables db m" and w: "mem_wf m" and ok: "admissible rb t (CreateAccountOp a) db"
  shows "step_agrees (pg_run V no_pg_fault rb t (CreateAccountOp a) db) (mem_run rb t (CreateAccountOp a) m)"
proof (cases "map_of (m_byEmail m) (a_Email a)")
  case None
  then have "\<not> list_ex (\<lambda>b. a_Email b = a_Email a) (vals (m_accounts m))" by (simp only: email_taken [OF w] not_not)
  with s ok None show ?thesis
    by (cases "a_ID a = []"; cases "a_Role a = []"; cases "a_Status a = []")
      (auto simp: step_agrees_def same_tables_def pg_answer_defs pg_CreateAccount_def CreateAccount_def insert_account_def
        new_id_def whole_def)
next
  case (Some k)
  then have "list_ex (\<lambda>b. a_Email b = a_Email a) (vals (m_accounts m))" by (simp only: email_taken [OF w]) simp
  with s ok Some show ?thesis
    by (cases "a_ID a = []"; cases "a_Role a = []"; cases "a_Status a = []")
      (auto simp: step_agrees_def same_tables_def pg_answer_defs pg_CreateAccount_def CreateAccount_def insert_account_def
        new_id_def)
qed

fun creation :: "store_op \<Rightarrow> bool" where
  "creation (CreateDeviceOp d) = True" | "creation (CreateEnrollmentOp e) = True" | "creation (CreateCertificateOp c) = True"
| "creation (CreateReservationOp r) = True" | "creation (CreateSignatureOp s) = True" | "creation _ = False"

lemmas insert_defs = insert_device_def insert_enrollment_def insert_certificate_def insert_reservation_def insert_signature_def

lemma unrevoked: "c_RevokedAt c = zero_time \<Longrightarrow> c_RevReason c = [] \<Longrightarrow> c\<lparr>c_RevokedAt := zero_time, c_RevReason := []\<rparr> = c"
  by (cases c) simp

lemma unrevoked_active: "c_RevokedAt c = zero_time \<Longrightarrow> c_RevReason c = [] \<Longrightarrow>
    c\<lparr>c_Status := x, c_RevokedAt := zero_time, c_RevReason := []\<rparr> = c\<lparr>c_Status := x\<rparr>"
  by (cases c) simp

lemma unrevoked_named: "c_RevokedAt c = zero_time \<Longrightarrow> c_RevReason c = [] \<Longrightarrow>
    c\<lparr>c_ID := i, c_RevokedAt := zero_time, c_RevReason := []\<rparr> = c\<lparr>c_ID := i\<rparr> \<and>
    c\<lparr>c_ID := i, c_Status := x, c_RevokedAt := zero_time, c_RevReason := []\<rparr> = c\<lparr>c_ID := i, c_Status := x\<rparr>"
  by (cases c) simp

lemma creation_agrees:
  assumes "same_tables db m" "admissible rb t x db" "creation x"
  shows "step_agrees (pg_run V no_pg_fault rb t x db) (mem_run rb t x m)"
  using assms
  by (cases x) (auto simp: step_agrees_def same_tables_def pg_answer_defs pg_method_defs mutator_defs insert_defs whole_def
      new_id_def has_def unrevoked unrevoked_active unrevoked_named split: option.splits if_splits)

lemma delete_agrees:
  assumes "same_tables db m" "admissible rb t (DeleteAccountOp i) db"
  shows "step_agrees (pg_run V no_pg_fault rb t (DeleteAccountOp i) db) (mem_run rb t (DeleteAccountOp i) m)"
  using assms
  by (auto simp: step_agrees_def same_tables_def pg_answer_defs pg_method_defs mutator_defs delete_account_def has_def
      split: option.splits)

lemma append_agrees:
  assumes "same_tables db m" "admissible rb t (AppendOp ev) db"
  shows "step_agrees (pg_run V no_pg_fault rb t (AppendOp ev) db) (mem_run rb t (AppendOp ev) m)"
  using assms
  by (simp add: step_agrees_def same_tables_def pg_answer_defs pg_method_defs mutator_defs insert_audit_def has_None
      has_def [symmetric] vals_update_fresh whole_def)

subsection \<open>The two stores answer alike\<close>

lemma op_cases:
  "pure_read x \<or> row_write x \<or> creation x \<or> (\<exists>a. x = CreateAccountOp a) \<or> (\<exists>i. x = DeleteAccountOp i) \<or> (\<exists>ev. x = AppendOp ev)"
  by (cases x) simp_all

lemma run_agrees:
  assumes a: "agrees db m" and ok: "admissible rb t x db"
  shows "step_agrees (pg_run V no_pg_fault rb t x db) (mem_run rb t x m)"
  using op_cases [of x] a ok
  by (auto simp: agrees_def simp del: pg_run.simps mem_run.simps admissible.simps
      intro: read_agrees [OF a] write_agrees creation_agrees create_account_agrees delete_agrees append_agrees)

lemma run_keeps_agreement:
  assumes a: "agrees db m" and ok: "admissible rb t x db"
  shows "agrees (snd (pg_run V no_pg_fault rb t x db)) (snd (mem_run rb t x m))"
proof -
  have s: "same_tables db m" "mem_wf m" "sorted_wrt (\<lambda>a b. ev_Time a < ev_Time b) (m_audit m)"
    using a by (simp_all add: agrees_def)
  have "map_of (m_accounts m) (stored_id rb b) = None" if "x = CreateAccountOp b" for b
    using ok s(1) that by (auto simp: same_tables_def new_id_def has_def stored_id_def split: if_splits)
  then have "mem_wf (snd (mem_run rb t x m))" by (rule mem_run_wf [OF s(2)])
  moreover have "sorted_wrt (\<lambda>a b. ev_Time a < ev_Time b) (m_audit (snd (mem_run rb t x m)))"
  proof (cases "\<exists>ev. x = AppendOp ev")
    case True
    then show ?thesis using ok s by (auto simp: same_tables_def Append_def sorted_wrt_append list_all_iff)
  next
    case False
    then show ?thesis using s(3) mem_run_audit [of x rb t m] by auto
  qed
  ultimately show ?thesis using run_agrees [OF a ok, of V] by (simp add: agrees_def step_agrees_def)
qed

abbreviation faultless :: "(bytes \<times> time \<times> store_op) list \<Rightarrow> (pg_fault \<times> bytes \<times> time \<times> store_op) list" where
  "faultless xs \<equiv> map (Pair no_pg_fault) xs"


lemma runs_agree:
  assumes "agrees db m" "admissible_runs V xs db"
  shows "fst (pg_runs V (faultless xs) db) = fst (mem_runs xs m) \<and>
    agrees (snd (pg_runs V (faultless xs) db)) (snd (mem_runs xs m))"
  using assms
proof (induction xs arbitrary: db m)
  case (Cons y xs)
  obtain rb t x where y: "y = (rb, t, x)" by (cases y)
  let ?r = "pg_run V no_pg_fault rb t x db" and ?s = "mem_run rb t x m"
  have ok: "admissible rb t x db" "admissible_runs V xs (snd ?r)" using Cons.prems(2) by (simp_all add: y)
  have "fst ?r = fst ?s" using run_agrees [OF Cons.prems(1) ok(1), of V] by (simp add: step_agrees_def)
  moreover have "fst (pg_runs V (faultless xs) (snd ?r)) = fst (mem_runs xs (snd ?s)) \<and>
      agrees (snd (pg_runs V (faultless xs) (snd ?r))) (snd (mem_runs xs (snd ?s)))"
    by (rule Cons.IH [OF run_keeps_agreement [OF Cons.prems(1) ok(1)] ok(2)])
  ultimately show ?case by (auto simp: y split: prod.splits)
qed simp

lemma agrees_empty: "agrees pg_empty NewMemory"
  by (simp add: agrees_def same_tables_def pg_empty_def) (simp add: NewMemory_def)


text \<open>A run with every kind of row, a second account with a taken e-mail, a revocation and a deletion.\<close>

definition demo_ops :: "(bytes \<times> time \<times> store_op) list" where
  "demo_ops = [([], 1000, CreateAccountOp (account_zero\<lparr>a_ID := ''a'', a_Email := ''x'', a_Role := RoleSuperAdmin\<rparr>)),
     ([], 2000, CreateAccountOp (account_zero\<lparr>a_ID := ''b'', a_Email := ''x''\<rparr>)),
     ([], 3000, CreateAccountOp (account_zero\<lparr>a_ID := ''c'', a_Email := ''y''\<rparr>)),
     ([], 4000, CreateDeviceOp (device_zero\<lparr>d_ID := ''d'', d_AccountID := ''a''\<rparr>)),
     ([], 5000, CreateEnrollmentOp (enrollment_zero\<lparr>e_ID := ''e'', e_DeviceID := ''d'', e_AccountID := ''a''\<rparr>)),
     ([], 0, CreateCertificateOp (certificate_zero\<lparr>c_ID := ''k'', c_EnrollmentID := ''e'', c_DeviceID := ''d'', c_AccountID := ''a'',
        c_Serial := ''1'', c_NotBefore := 1000, c_NotAfter := 2000\<rparr>)),
     ([], 0, CertificateByDeviceOp ''d''), ([], 6000, RevokeCertificateOp ''k'' ''lost''), ([], 0, CertificateBySerialOp ''1''),
     ([], 0, AccountByEmailOp ''x''), ([], 0, DeleteAccountOp ''c''), ([], 0, AccountOp ''c''), ([], 0, AuditEventsOp 0)]"

lemma demo_ops_admissible: "admissible_runs V demo_ops pg_empty"
  by (simp add: demo_ops_def zero_defs pg_empty_def new_id_def has_def whole_def untied_def pg_time_def time_defs pg_answer_defs
      pg_CreateAccount_def pg_CreateDevice_def pg_CreateEnrollment_def pg_CreateCertificate_def pg_RevokeCertificate_def
      pg_DeleteAccount_def insert_account_def insert_device_def insert_enrollment_def insert_certificate_def delete_account_def
      account_referenced_def)

lemma demo_ops_length: "length (fst (mem_runs demo_ops NewMemory)) = 13"
  by (simp add: demo_ops_def split: prod.splits)


end
