(* ===== verification/RateLimit.thy ===== *)
theory RateLimit
  imports Server
begin

section \<open>Rate limiting (\<open>server/internal/api/ratelimit.go\<close>)\<close>

text \<open>
  A limiter set is a map from keys (an address or an account) to token buckets, swept every ten
  minutes. The bucket is \<open>golang.org/x/time/rate\<close>: the record \<open>rate_lib\<close> holds its constructor, which is
  given the rate (the quotient \<open>perMinute / 60.0\<close>, determined by \<open>perMinute\<close>) and the burst, and \<open>Allow\<close>
  at a time. The theorem at the end shows that the sweep is only housekeeping: it never changes a
  decision.
\<close>

subsection \<open>Limiter sets\<close>

record 'l rate_lib =
  rl_NewLimiter :: "int \<Rightarrow> int \<Rightarrow> 'l"
  rl_Allow :: "'l \<Rightarrow> time \<Rightarrow> bool \<times> 'l"

record 'l entry =
  en_lim :: 'l
  en_last :: time

record 'l limiter_set =
  ls_seen :: "(string, 'l entry) gomap"
  ls_rps :: int
  ls_burst :: int

definition newLimiterSet :: "int \<Rightarrow> 'l limiter_set" where
  "newLimiterSet perMinute = \<lparr>ls_seen = [], ls_rps = perMinute, ls_burst = max (perMinute div 6) 3\<rparr>"

text \<open>\<open>mk\<close> of \<open>New\<close>: a rate of zero or less means no limiter.\<close>

definition mk :: "int \<Rightarrow> 'l limiter_set option" where
  "mk perMin = (if perMin \<le> 0 then None else Some (newLimiterSet perMin))"

text \<open>\<open>now\<close> is the reading stored with the entry and \<open>at\<close> that of \<open>Allow\<close>, taken after the lock is given up.\<close>

definition allow :: "'l rate_lib \<Rightarrow> time \<Rightarrow> time \<Rightarrow> string \<Rightarrow> 'l limiter_set \<Rightarrow> bool \<times> 'l limiter_set" where
  "allow R now at key ls =
     (let lim = (case map_of (ls_seen ls) key of
                   None \<Rightarrow> rl_NewLimiter R (ls_rps ls) (ls_burst ls)
                 | Some e \<Rightarrow> en_lim e);
          (ok, lim') = rl_Allow R lim at
      in (ok, ls\<lparr>ls_seen := AList.update key \<lparr>en_lim = lim', en_last = now\<rparr> (ls_seen ls)\<rparr>))"

text \<open>One tick of \<open>sweep\<close>.\<close>

definition sweep :: "time \<Rightarrow> 'l limiter_set \<Rightarrow> 'l limiter_set" where
  "sweep now ls = ls\<lparr>ls_seen := filter (\<lambda>(k, e). \<not> en_last e < now - 15 * minute) (ls_seen ls)\<rparr>"

subsection \<open>Keys\<close>

text \<open>\<open>net.SplitHostPort\<close>: the host, or nothing on an error.\<close>

definition index_byte :: "string \<Rightarrow> char \<Rightarrow> nat option" where
  "index_byte s c = (if c \<in> set s then Some (length (takeWhile (\<lambda>x. x \<noteq> c) s)) else None)"

definition last_index_byte :: "string \<Rightarrow> char \<Rightarrow> nat option" where
  "last_index_byte s c =
     (if c \<in> set s then Some (length s - 1 - length (takeWhile (\<lambda>x. x \<noteq> c) (rev s))) else None)"

definition SplitHostPort :: "string \<Rightarrow> string option" where
  "SplitHostPort hp =
     (case last_index_byte hp (CHR '':'') of
        None \<Rightarrow> None
      | Some i \<Rightarrow>
          if hd hp = CHR ''['' then
            (case index_byte hp (CHR '']'') of
               None \<Rightarrow> None
             | Some e \<Rightarrow>
                 if e + 1 \<noteq> i then None
                 else if CHR ''['' \<in> set (drop 1 hp) \<or> CHR '']'' \<in> set (drop (e + 1) hp) then None
                 else Some (take (e - 1) (drop 1 hp)))
          else if CHR '':'' \<in> set (take i hp) then None
          else if CHR ''['' \<in> set hp \<or> CHR '']'' \<in> set hp then None
          else Some (take i hp))"

definition clientIP :: "request \<Rightarrow> string" where
  "clientIP r =
     (if rq_XForwardedFor r \<noteq> [] then TrimSpace (Cut_before (rq_XForwardedFor r) (CHR '',''))
      else case SplitHostPort (rq_RemoteAddr r) of None \<Rightarrow> rq_RemoteAddr r | Some host \<Rightarrow> host)"

definition byIP :: "claims \<Rightarrow> request \<Rightarrow> string" where
  "byIP c r = clientIP r"

definition byAccount :: "claims \<Rightarrow> request \<Rightarrow> string" where
  "byAccount c r = cl_Sub c"

text \<open>\<open>limit\<close>: the limiter's verdict for the request goes to the wrapped handler.\<close>

definition limit :: "'l rate_lib \<Rightarrow> time \<Rightarrow> time \<Rightarrow> (claims \<Rightarrow> request \<Rightarrow> string) \<Rightarrow> handler \<Rightarrow>
    lib \<Rightarrow> orc \<Rightarrow> claims \<Rightarrow> request \<Rightarrow> server \<Rightarrow> 'l limiter_set option \<Rightarrow>
    (response \<times> server) \<times> 'l limiter_set option" where
  "limit R now at key h L ora c r s ls =
     (case ls of
        None \<Rightarrow> (limited h L (ora\<lparr>o_allow := True\<rparr>) c r s, None)
      | Some lim \<Rightarrow>
          let (ok, lim') = allow R now at (key c r) lim
          in (limited h L (ora\<lparr>o_allow := ok\<rparr>) c r s, Some lim'))"

subsection \<open>Sweeping is unobservable\<close>

text \<open>
  What the code relies on: two limiters may be indistinguishable from a time on, \<open>sim\<close>; such limiters
  decide alike, and a limiter that was last asked fifteen minutes ago is indistinguishable from a new
  one, because it has filled up.
\<close>

definition bucket_laws :: "'l rate_lib \<Rightarrow> int \<Rightarrow> int \<Rightarrow> (time \<Rightarrow> 'l \<Rightarrow> 'l \<Rightarrow> bool) \<Rightarrow> bool" where
  "bucket_laws R rps burst sim \<longleftrightarrow>
     (\<forall>t l. sim t l l) \<and>
     (\<forall>t u l l'. sim t l l' \<longrightarrow> t \<le> u \<longrightarrow> sim u l l') \<and>
     (\<forall>t l l'. sim t l l' \<longrightarrow> fst (rl_Allow R l t) = fst (rl_Allow R l' t) \<and>
        sim t (snd (rl_Allow R l t)) (snd (rl_Allow R l' t))) \<and>
     (\<forall>t l l' l''. sim t l l' \<longrightarrow> sim t l' l'' \<longrightarrow> sim t l l'') \<and>
     (\<forall>t u l. u + 15 * minute \<le> t \<longrightarrow> sim t (rl_NewLimiter R rps burst) (snd (rl_Allow R l u)))"

lemma bucket_lawsD:
  assumes "bucket_laws R rps burst sim"
  shows "sim t l l" "sim t l l' \<Longrightarrow> t \<le> u \<Longrightarrow> sim u l l'"
    "sim t l l' \<Longrightarrow> fst (rl_Allow R l t) = fst (rl_Allow R l' t)"
    "sim t l l' \<Longrightarrow> sim t (snd (rl_Allow R l t)) (snd (rl_Allow R l' t))"
    "sim t l l' \<Longrightarrow> sim t l' l'' \<Longrightarrow> sim t l l''"
    "u + 15 * minute \<le> t \<Longrightarrow> sim t (rl_NewLimiter R rps burst) (snd (rl_Allow R l u))"
  using assms unfolding bucket_laws_def by metis+

datatype rate_event = Ask time string | Sweep time

fun event_time :: "rate_event \<Rightarrow> time" where
  "event_time (Ask t k) = t"
| "event_time (Sweep t) = t"

text \<open>The decisions of a limiter set over a sequence of events, with the sweeps carried out or not.\<close>

fun decisions :: "'l rate_lib \<Rightarrow> bool \<Rightarrow> rate_event list \<Rightarrow> 'l limiter_set \<Rightarrow> bool list" where
  "decisions R sweeping [] ls = []"
| "decisions R sweeping (Ask t k # es) ls =
     (let (ok, ls') = allow R t t k ls in ok # decisions R sweeping es ls')"
| "decisions R sweeping (Sweep t # es) ls =
     decisions R sweeping es (if sweeping then sweep t ls else ls)"

text \<open>The swept set and the unswept one, at a time: a key has indistinguishable buckets in both, or is
  missing in the swept one and has filled up in the other.\<close>

definition bucket_of :: "'l rate_lib \<Rightarrow> 'l limiter_set \<Rightarrow> string \<Rightarrow> 'l" where
  "bucket_of R ls k = (case map_of (ls_seen ls) k of
     None \<Rightarrow> rl_NewLimiter R (ls_rps ls) (ls_burst ls) | Some e \<Rightarrow> en_lim e)"

definition used_at :: "'l rate_lib \<Rightarrow> 'l limiter_set \<Rightarrow> bool" where
  "used_at R ls \<longleftrightarrow> (\<forall>k e. map_of (ls_seen ls) k = Some e \<longrightarrow> (\<exists>l. en_lim e = snd (rl_Allow R l (en_last e))))"

lemma allow_bucket:
  "allow R t t k ls = (fst (rl_Allow R (bucket_of R ls k) t),
     ls\<lparr>ls_seen := AList.update k \<lparr>en_lim = snd (rl_Allow R (bucket_of R ls k) t), en_last = t\<rparr> (ls_seen ls)\<rparr>)"
  by (simp add: allow_def bucket_of_def split_beta Let_def)

lemma allow_frame [simp]:
  "ls_rps (snd (allow R t t k ls)) = ls_rps ls" "ls_burst (snd (allow R t t k ls)) = ls_burst ls"
  "keys_distinct (ls_seen ls) \<Longrightarrow> keys_distinct (ls_seen (snd (allow R t t k ls)))"
  by (simp_all add: allow_bucket)

lemma bucket_of_allow:
  "bucket_of R (snd (allow R t t k ls)) k' =
     (if k' = k then snd (rl_Allow R (bucket_of R ls k) t) else bucket_of R ls k')"
  by (auto simp: allow_bucket bucket_of_def split: option.split)

lemma used_at_allow: "used_at R ls \<Longrightarrow> used_at R (snd (allow R t t k ls))"
  by (auto simp: used_at_def allow_bucket)

lemma map_of_filter_vals:
  assumes "keys_distinct m"
  shows "map_of (filter (\<lambda>(k, v). P v) m) k = (case map_of m k of
     None \<Rightarrow> None | Some v \<Rightarrow> if P v then Some v else None)"
  using assms
proof (induction m)
  case (Cons x m)
  obtain a v where x: "x = (a, v)" by (cases x)
  have "map_of (filter (\<lambda>(k, v). P v) m) a = None" using Cons.prems x by (force simp: map_of_eq_None_iff)
  then show ?case using Cons x by (auto split: option.splits)
qed simp

lemma sweep_lookup:
  assumes "keys_distinct (ls_seen ls)"
  shows "map_of (ls_seen (sweep t ls)) k = (case map_of (ls_seen ls) k of
     None \<Rightarrow> None | Some e \<Rightarrow> if en_last e < t - 15 * minute then None else Some e)"
  using map_of_filter_vals [OF assms, of "\<lambda>e. \<not> en_last e < t - 15 * minute" k]
  by (auto simp: sweep_def split: option.splits)

lemma decisions_sim:
  assumes laws: "bucket_laws R rps burst sim"
    and "sorted (map event_time es)" "\<And>e. e \<in> set es \<Longrightarrow> now \<le> event_time e"
    and "ls_rps a = rps" "ls_burst a = burst" "ls_rps b = rps" "ls_burst b = burst"
    and "keys_distinct (ls_seen a)" "used_at R a"
    and "\<And>k. sim now (bucket_of R a k) (bucket_of R b k)"
  shows "decisions R True es a = decisions R False es b"
  using assms(2-)
proof (induction es arbitrary: now a b)
  case (Cons e es)
  have later: "sorted (map event_time es)" "\<And>x. x \<in> set es \<Longrightarrow> event_time e \<le> event_time x" "now \<le> event_time e"
    using Cons.prems(1,2) by auto
  have sim: "sim (event_time e) (bucket_of R a k) (bucket_of R b k)" for k
    by (rule bucket_lawsD(2) [OF laws Cons.prems(9) later(3)])
  show ?case
  proof (cases e)
    case (Ask t k)
    have same: "fst (rl_Allow R (bucket_of R a k) t) = fst (rl_Allow R (bucket_of R b k) t)"
      "sim t (snd (rl_Allow R (bucket_of R a k) t)) (snd (rl_Allow R (bucket_of R b k) t))"
      using bucket_lawsD(3,4) [OF laws] sim [of k] Ask by simp_all
    have "decisions R True es (snd (allow R t t k a)) = decisions R False es (snd (allow R t t k b))"
      using Ask later same sim Cons.prems(3-8)
      by (intro Cons.IH [where now = t]) (simp_all add: bucket_of_allow used_at_allow)
    with Ask same show ?thesis by (simp add: split_beta allow_bucket)
  next
    case (Sweep t)
    have "sim t (bucket_of R (sweep t a) k) (bucket_of R b k)" for k
    proof -
      have "sim t (bucket_of R (sweep t a) k) (bucket_of R a k)"
      proof (cases "map_of (ls_seen a) k")
        case (Some x)
        then obtain l where "en_lim x = snd (rl_Allow R l (en_last x))"
          using Cons.prems(8) by (auto simp: used_at_def)
        with bucket_lawsD(6) [OF laws, of "en_last x" t l] bucket_lawsD(1) [OF laws] Some Cons.prems(3,4,7)
        show ?thesis by (simp add: bucket_of_def sweep_lookup) (simp add: sweep_def)
      qed (use Cons.prems(7) bucket_lawsD(1) [OF laws] in \<open>simp add: bucket_of_def sweep_lookup, simp add: sweep_def\<close>)
      with sim [of k] Sweep show ?thesis by (simp add: bucket_lawsD(5) [OF laws])
    qed
    moreover have "keys_distinct (ls_seen (sweep t a))"
      using Cons.prems(7) by (simp add: sweep_def distinct_map_filter)
    moreover have "used_at R (sweep t a)"
      using Cons.prems(7,8) by (auto simp: used_at_def sweep_lookup split: option.splits if_splits)
    ultimately have "decisions R True es (sweep t a) = decisions R False es b"
      using Sweep later Cons.prems(3-6) by (intro Cons.IH [where now = t]) (auto simp: sweep_def)
    then show ?thesis by (simp add: Sweep)
  qed
qed simp

text \<open>C34: Forgetting idle clients never lets a request through or turns one away: over any sequence of
  requests and sweeps in time order, a limiter set that is swept makes exactly the decisions of one
  that keeps every entry for ever, given that a bucket unused for fifteen minutes has filled up.\<close>

theorem sweeping_unobservable:
  assumes "bucket_laws R perMinute (max (perMinute div 6) 3) sim" "sorted (map event_time es)"
  shows "decisions R True es (newLimiterSet perMinute) = decisions R False es (newLimiterSet perMinute)"
proof -
  note laws = bucket_lawsD(1) [OF assms(1)]
  show ?thesis
  proof (cases es)
    case (Cons e es')
    show ?thesis
      by (rule decisions_sim [OF assms, where now = "event_time e"])
         (use assms(2) laws Cons in \<open>auto simp: newLimiterSet_def used_at_def bucket_of_def\<close>)
  qed simp
qed

text \<open>A token bucket for the witness: the time it was last asked and its tokens then, in units of a
  sixty-billionth, refilled at \<open>perMinute\<close> units per nanosecond up to the burst.\<close>

definition token :: int where "token = 60 * second"

definition bucket_fill :: "int \<Rightarrow> int \<Rightarrow> time \<Rightarrow> time \<times> int \<Rightarrow> int" where
  "bucket_fill perMinute burst t l = (if snd l < 0 then burst * token
     else min (burst * token) (snd l + max 0 (t - fst l) * perMinute))"

definition demo_rate :: "int \<Rightarrow> int \<Rightarrow> (time \<times> int) rate_lib" where
  "demo_rate perMinute burst = \<lparr>rl_NewLimiter = (\<lambda>rps b. (0, - 1)),
     rl_Allow = (\<lambda>l t. let f = bucket_fill perMinute burst t l in
       if token \<le> f then (True, (t, f - token)) else (False, (t, f)))\<rparr>"

definition demo_same :: "int \<Rightarrow> int \<Rightarrow> time \<Rightarrow> time \<times> int \<Rightarrow> time \<times> int \<Rightarrow> bool" where
  "demo_same perMinute burst t l l' \<longleftrightarrow>
     (\<forall>u \<ge> t. bucket_fill perMinute burst u l = bucket_fill perMinute burst u l')"

lemma demo_bucket_laws: "bucket_laws (demo_rate 60 10) 60 10 (demo_same 60 10)"
  unfolding bucket_laws_def
proof (intro conjI allI impI)
  fix t u :: time and l :: "time \<times> int"
  assume "u + 15 * minute \<le> t"
  then show "demo_same 60 10 t (rl_NewLimiter (demo_rate 60 10) 60 10) (snd (rl_Allow (demo_rate 60 10) l u))"
    by (auto simp: demo_same_def demo_rate_def bucket_fill_def token_def minute_def second_def Let_def)
qed (auto simp: demo_same_def demo_rate_def Let_def)

theorem sweeping_unobservable_witness:
  "decisions (demo_rate 60 10) True [Ask 0 ''a'', Sweep (20 * minute), Ask (21 * minute) ''a''] (newLimiterSet 60) =
   decisions (demo_rate 60 10) False [Ask 0 ''a'', Sweep (20 * minute), Ask (21 * minute) ''a''] (newLimiterSet 60)"
proof (rule sweeping_unobservable)
  show "bucket_laws (demo_rate 60 10) 60 (max (60 div 6) 3) (demo_same 60 10)"
    using demo_bucket_laws by simp
qed (simp add: minute_def second_def)

end
