(* ===== verification/Boot.thy ===== *)
theory Boot
  imports Server
begin

section \<open>The server program (\<open>server/cmd/api/main.go\<close>)\<close>

text \<open>
  How the process environment and the command line become the configuration of the server, and which
  store is opened. The environment is a function from names to values (the empty string when unset),
  \<open>flag\<close> gives the value of a command line flag if it was given, \<open>ReadFile\<close> reads a file. A fatal error of
  the program is the left side of the result. Sizes are \<open>int64\<close>: the shift in \<open>mbEnv\<close> drops high bits.
\<close>

subsection \<open>Environment\<close>

definition envOr :: "(string \<Rightarrow> string) \<Rightarrow> string \<Rightarrow> string \<Rightarrow> string" where
  "envOr env k d = (if env k \<noteq> [] then env k else d)"

text \<open>\<open>strconv.ParseBool\<close>, the error ignored.\<close>

definition boolEnv :: "(string \<Rightarrow> string) \<Rightarrow> string \<Rightarrow> bool" where
  "boolEnv env k \<longleftrightarrow> env k \<in> {''1'', ''t'', ''T'', ''TRUE'', ''true'', ''True''}"

definition shl20 :: "int \<Rightarrow> int" where
  "shl20 n = sint (push_bit 20 (word_of_int n :: 64 word))"

definition mbEnv :: "(string \<Rightarrow> string) \<Rightarrow> string \<Rightarrow> int \<Rightarrow> int" where
  "mbEnv env k d =
     (if env k \<noteq> [] then
        (case Atoi (env k) of
           Some n \<Rightarrow> if 0 < n then shl20 n else shl20 d
         | None \<Rightarrow> shl20 d)
      else shl20 d)"

subsection \<open>Configuration\<close>

definition flag_or :: "(string \<Rightarrow> string option) \<Rightarrow> string \<Rightarrow> string \<Rightarrow> string" where
  "flag_or flag name d = (case flag name of None \<Rightarrow> d | Some v \<Rightarrow> v)"

text \<open>The zero value of \<open>api.Config\<close>.\<close>

definition config_zero :: config where
  "config_zero = \<lparr>cf_RootCAPEM = [], cf_CAChainPEM = [], cf_CRLPEM = [], cf_JWTSecret = [], cf_PublicBaseURL = [],
     cf_MaxUploadBytes = 0, cf_MaxStampBytes = 0, cf_MaxVerifyBytes = 0, cf_UploadDir = [], cf_AccessTTL = 0,
     cf_Issuer = [], cf_SuperAdminUsername = [], cf_SuperAdminPassword = [], cf_RateLimits = None, cf_LabIssuer = None\<rparr>"

definition env_config :: "(string \<Rightarrow> string) \<Rightarrow> string \<Rightarrow> config" where
  "env_config env baseURL = config_zero\<lparr>cf_JWTSecret := env ''PQC_JWT_SECRET'', cf_PublicBaseURL := baseURL,
     cf_AccessTTL := 15 * minute,
     cf_SuperAdminUsername := envOr env ''PQC_SUPERADMIN_USERNAME'' ''superadmin'',
     cf_SuperAdminPassword := env ''PQC_SUPERADMIN_PASSWORD'',
     cf_MaxUploadBytes := mbEnv env ''PQC_MAX_UPLOAD_MB'' 25,
     cf_MaxStampBytes := mbEnv env ''PQC_MAX_STAMP_MB'' 150,
     cf_MaxVerifyBytes := mbEnv env ''PQC_MAX_VERIFY_MB'' 350,
     cf_UploadDir := env ''PQC_UPLOAD_DIR'',
     cf_RateLimits := (if boolEnv env ''PQC_RATE_LIMIT_DISABLED''
       then Some \<lparr>rt_LoginPerIP = 0, rt_ReservePerAccount = 0, rt_SubmitPerAccount = 0, rt_VerifyPerIP = 0\<rparr> else None),
     cf_LabIssuer := (if env ''PQC_DEV_LAB_CA_ADMIN'' \<noteq> []
       then Some \<lparr>li_Bin = env ''PQC_DEV_LAB_CA_ADMIN'', li_Dir = envOr env ''PQC_DEV_LAB_CA_DIR'' ''ca'',
                  li_Passphrase = env ''PQC_CA_PASSPHRASE'', li_Operator = envOr env ''PQC_CA_OPERATOR'' ''dev-admin-console'',
                  li_Org = []\<rparr>
       else None)\<rparr>"

definition read_optional :: "(string \<Rightarrow> bytes result) \<Rightarrow> string \<Rightarrow> string \<Rightarrow> bytes result" where
  "read_optional ReadFile what path =
     (if path = [] then Inr []
      else case ReadFile path of Inl e \<Rightarrow> Inl (Errorf (''api: read '' @ what @ '': '' @ Error e)) | Inr b \<Rightarrow> Inr b)"

definition main_config :: "(string \<Rightarrow> string) \<Rightarrow> (string \<Rightarrow> string option) \<Rightarrow> (string \<Rightarrow> bytes result) \<Rightarrow> config result" where
  "main_config env flag ReadFile =
     (let rootPath = flag_or flag ''root-ca'' (env ''PQC_ROOT_CA_PEM'');
          chainPath = flag_or flag ''ca-chain'' (env ''PQC_CA_CHAIN_PEM'');
          crlPath = flag_or flag ''crl'' (env ''PQC_CRL_PEM'');
          baseURL = flag_or flag ''public-base-url'' (envOr env ''PQC_PUBLIC_BASE_URL'' ''http://localhost:8443'')
      in if rootPath = [] then Inl (Errorf ''api: -root-ca (or PQC_ROOT_CA_PEM) is required'')
         else if length (env ''PQC_JWT_SECRET'') < 16 then
           Inl (Errorf ''api: PQC_JWT_SECRET must be set to at least 16 bytes'')
         else case ReadFile rootPath of
           Inl e \<Rightarrow> Inl (Errorf (''api: read root CA: '' @ Error e))
         | Inr root \<Rightarrow>
             (case read_optional ReadFile ''CA chain'' chainPath of
                Inl e \<Rightarrow> Inl e
              | Inr chain \<Rightarrow>
                  (case read_optional ReadFile ''CRL'' crlPath of
                     Inl e \<Rightarrow> Inl e
                   | Inr crl \<Rightarrow>
                       Inr ((env_config env baseURL)\<lparr>cf_RootCAPEM := root, cf_CAChainPEM := chain, cf_CRLPEM := crl\<rparr>))))"

subsection \<open>The store\<close>

record s3_config =
  s3_Endpoint :: string
  s3_Region :: string
  s3_Bucket :: string
  s3_AccessKey :: string
  s3_SecretKey :: string
  s3_UseSSL :: bool

datatype 'p backend = InMemory memory | Postgres 'p

text \<open>\<open>NewS3Objects\<close>, \<open>NewFSObjects\<close> and \<open>OpenPostgres\<close> open external services.\<close>

definition openStore :: "(s3_config \<Rightarrow> 'o result) \<Rightarrow> (string \<Rightarrow> 'o result) \<Rightarrow> (string \<Rightarrow> 'o option \<Rightarrow> 'p result) \<Rightarrow>
    (string \<Rightarrow> string) \<Rightarrow> ('p backend \<times> string) result" where
  "openStore newS3 newFS openPG env =
     (let dsn = env ''PQC_DATABASE_URL'' in
      if dsn = [] then Inr (InMemory NewMemory, ''in-memory'')
      else
        let objs =
              (if env ''PQC_S3_ENDPOINT'' \<noteq> [] then
                 (case newS3 \<lparr>s3_Endpoint = env ''PQC_S3_ENDPOINT'', s3_Region = envOr env ''PQC_S3_REGION'' ''us-east-1'',
                     s3_Bucket = envOr env ''PQC_S3_BUCKET'' ''pqc-pdf-sign'', s3_AccessKey = env ''PQC_S3_ACCESS_KEY'',
                     s3_SecretKey = env ''PQC_S3_SECRET_KEY'', s3_UseSSL = boolEnv env ''PQC_S3_USE_SSL''\<rparr> of
                    Inl e \<Rightarrow> Inl e | Inr ob \<Rightarrow> Inr (Some ob, ''postgres + s3''))
               else if env ''PQC_OBJECT_DIR'' \<noteq> [] then
                 (case newFS (env ''PQC_OBJECT_DIR'') of
                    Inl e \<Rightarrow> Inl e | Inr ob \<Rightarrow> Inr (Some ob, ''postgres + fs:'' @ env ''PQC_OBJECT_DIR''))
               else Inr (None, ''postgres''))
        in (case objs of
              Inl e \<Rightarrow> Inl e
            | Inr (ob, label) \<Rightarrow>
                (case openPG dsn ob of Inl e \<Rightarrow> Inl e | Inr pg \<Rightarrow> Inr (Postgres pg, label))))"

subsection \<open>Sizes\<close>

lemma shl20_signed: "shl20 n = signed_take_bit 63 (n * 2 ^ 20)"
proof -
  have "push_bit 20 (word_of_int n :: 64 word) = word_of_int (n * 2 ^ 20)"
    by (simp add: push_bit_eq_mult)
  then show ?thesis unfolding shl20_def by (simp only: sint_sbintrunc') simp
qed

lemma shl20_exact: "0 \<le> n \<Longrightarrow> n < 2 ^ 43 \<Longrightarrow> shl20 n = n * 2 ^ 20"
  by (simp add: shl20_signed signed_take_bit_int_eq_self)

text \<open>A size limit from the environment is the number of mebibytes asked for, and positive, as long as
  it is below \<open>2\<^sup>4\<^sup>3\<close>; an unset, unparsable or non-positive value gives the default. From \<open>2\<^sup>4\<^sup>3\<close> on the
  shift overflows: that value itself gives a negative limit.\<close>

theorem mbEnv_spec:
  assumes "0 < d" "d < 2 ^ 43"
  shows "mbEnv env k d = (case Atoi (env k) of
      Some n \<Rightarrow> if 0 < n then (if n < 2 ^ 43 then n * 2 ^ 20 else shl20 n) else d * 2 ^ 20
    | None \<Rightarrow> d * 2 ^ 20) \<and>
    shl20 (2 ^ 43) = - (2 ^ 63)"
proof -
  have "Atoi [] = None" by (simp add: Atoi_def)
  then show ?thesis
    using assms shl20_exact by (auto simp: mbEnv_def shl20_signed split: option.split)
qed

theorem mbEnv_spec_witness:
  "mbEnv (\<lambda>k. if k = ''PQC_MAX_UPLOAD_MB'' then ''500'' else []) ''PQC_MAX_UPLOAD_MB'' 25 = 500 * 2 ^ 20"
  using mbEnv_spec [of 25 "\<lambda>k. if k = ''PQC_MAX_UPLOAD_MB'' then ''500'' else []" "''PQC_MAX_UPLOAD_MB''"]
  by (simp add: Atoi_def is_dec_def byte_in_def dec_val_def)

end
