(* ===== verification/LabPKI.thy ===== *)
theory LabPKI
  imports Certutil
begin

section \<open>Keys, requests and the certificate authority (\<open>core/keys\<close>, \<open>core/enrollment\<close>, \<open>core/labpki\<close>)\<close>

text \<open>
  Private keys and their encodings, the device's certificate request, and the issuing side: root and
  intermediate authorities, device certificates and revocation lists. Key generation, PKCS#8, the
  encoding and signing of X.509 structures and the PEM encoder are the record \<open>pki_lib\<close>; what the
  sources decide, the templates they hand to those functions and the checks around them, is modelled.
\<close>

subsection \<open>The library\<close>

record private_key =
  sk_params :: string
  sk_bytes :: bytes

text \<open>What \<open>x509.ParsePKCS8PrivateKey\<close> returns: an ML-DSA key or a key of another type.\<close>

datatype any_key = MLDSAPriv private_key | OtherPriv string

record name =
  n_CommonName :: string
  n_Organization :: "string list"
  n_OrganizationalUnit :: "string list"

datatype key_usage = KeyUsageDigitalSignature | KeyUsageCertSign | KeyUsageCRLSign

text \<open>The fields of \<open>x509.Certificate\<close> that the templates set.\<close>

record cert_template =
  t_SerialNumber :: int
  t_Subject :: name
  t_NotBefore :: time
  t_NotAfter :: time
  t_KeyUsage :: "key_usage list"
  t_UnknownExtKeyUsage :: "nat list list"
  t_BasicConstraintsValid :: bool
  t_IsCA :: bool
  t_MaxPathLen :: int
  t_MaxPathLenZero :: bool
  t_CRLDistributionPoints :: "string list"

record revoked_entry =
  re_Serial :: "int option"
  re_Reason :: int
  re_At :: time

record crl_template =
  ct_Number :: int
  ct_ThisUpdate :: time
  ct_NextUpdate :: time
  ct_Entries :: "(int option \<times> time \<times> int) list"

text \<open>The parent of a new certificate: an existing certificate, or the template itself.\<close>

datatype parent = ParentCert x509cert | SelfTemplate

record pki_lib =
  P_GenerateKey :: "nat \<Rightarrow> private_key result"
  P_MarshalPKCS8 :: "private_key \<Rightarrow> bytes result"
  P_ParsePKCS8 :: "bytes \<Rightarrow> any_key result"
  P_Public :: "private_key \<Rightarrow> public_key"
  P_randInt :: "nat \<Rightarrow> int result"
  P_CreateCertificate :: "cert_template \<Rightarrow> parent \<Rightarrow> public_key \<Rightarrow> private_key \<Rightarrow> bytes result"
  P_CreateCertificateRequest :: "name \<Rightarrow> private_key \<Rightarrow> bytes result"
  P_CreateRevocationList :: "crl_template \<Rightarrow> x509cert \<Rightarrow> private_key \<Rightarrow> bytes result"
  P_pem_encode :: "string \<Rightarrow> bytes \<Rightarrow> bytes"

subsection \<open>Keys\<close>

definition GenerateMLDSA65Key :: "pki_lib \<Rightarrow> nat \<Rightarrow> private_key result" where
  "GenerateMLDSA65Key P n =
     (case P_GenerateKey P n of
        Inl e \<Rightarrow> Inl (Errorf (''keys: generate ML-DSA-65: '' @ Error e))
      | Inr sk \<Rightarrow> Inr sk)"

text \<open>A nil pointer is no key.\<close>

definition MarshalPKCS8 :: "pki_lib \<Rightarrow> private_key option \<Rightarrow> bytes result" where
  "MarshalPKCS8 P sk =
     (case sk of
        None \<Rightarrow> Inl (Errorf ''keys: nil private key'')
      | Some k \<Rightarrow>
          (case P_MarshalPKCS8 P k of
             Inl e \<Rightarrow> Inl (Errorf (''keys: marshal PKCS#8: '' @ Error e))
           | Inr der \<Rightarrow> Inr der))"

definition MarshalPKCS8PEM :: "pki_lib \<Rightarrow> private_key option \<Rightarrow> bytes result" where
  "MarshalPKCS8PEM P sk =
     (case MarshalPKCS8 P sk of Inl e \<Rightarrow> Inl e | Inr der \<Rightarrow> Inr (P_pem_encode P ''PRIVATE KEY'' der))"

definition ParsePKCS8 :: "lib \<Rightarrow> pki_lib \<Rightarrow> bytes \<Rightarrow> private_key result" where
  "ParsePKCS8 L P data =
     (case P_ParsePKCS8 P (pem_or_der L data) of
        Inl e \<Rightarrow> Inl (Errorf (''keys: parse PKCS#8: '' @ Error e))
      | Inr (OtherPriv ty) \<Rightarrow> Inl (Errorf (''keys: expected ML-DSA private key, got '' @ ty))
      | Inr (MLDSAPriv sk) \<Rightarrow>
          if sk_params sk \<noteq> ''ML-DSA-65'' then
            Inl (Errorf (''keys: expected ML-DSA-65 parameter set, got '' @ sk_params sk))
          else Inr sk)"

definition ExportPublicKey :: "lib \<Rightarrow> pki_lib \<Rightarrow> private_key option \<Rightarrow> bytes result" where
  "ExportPublicKey L P sk =
     (case sk of
        None \<Rightarrow> Inl (Errorf ''keys: nil private key'')
      | Some k \<Rightarrow>
          (case L_MarshalPKIXPublicKey L (P_Public P k) of
             Inl e \<Rightarrow> Inl (Errorf (''keys: marshal PKIX public key: '' @ Error e))
           | Inr der \<Rightarrow> Inr der))"

definition ExportPublicKeyPEM :: "lib \<Rightarrow> pki_lib \<Rightarrow> private_key option \<Rightarrow> bytes result" where
  "ExportPublicKeyPEM L P sk =
     (case ExportPublicKey L P sk of Inl e \<Rightarrow> Inl e | Inr der \<Rightarrow> Inr (P_pem_encode P ''PUBLIC KEY'' der))"

definition SameKeyPair :: "pki_lib \<Rightarrow> private_key \<Rightarrow> public_key \<Rightarrow> bool" where
  "SameKeyPair P sk certPub \<longleftrightarrow>
     (case certPub of OtherKey b \<Rightarrow> False | MLDSAKey p b \<Rightarrow> P_Public P sk = MLDSAKey p b)"

subsection \<open>The device's request\<close>

record csr_request =
  rqs_CommonName :: string
  rqs_Organization :: string
  rqs_OrganizationalUnit :: string

definition CreateDeviceCSR :: "lib \<Rightarrow> pki_lib \<Rightarrow> bytes \<Rightarrow> csr_request \<Rightarrow> bytes result" where
  "CreateDeviceCSR L P pkcs8 req =
     (case ParsePKCS8 L P pkcs8 of
        Inl e \<Rightarrow> Inl e
      | Inr sk \<Rightarrow>
          if rqs_CommonName req = [] then Inl (Errorf ''enrollment: CommonName is required'')
          else
            let subject = \<lparr>n_CommonName = rqs_CommonName req,
                  n_Organization = (if rqs_Organization req \<noteq> [] then [rqs_Organization req] else []),
                  n_OrganizationalUnit = (if rqs_OrganizationalUnit req \<noteq> [] then [rqs_OrganizationalUnit req] else [])\<rparr>
            in (case P_CreateCertificateRequest P subject sk of
                  Inl e \<Rightarrow> Inl (Errorf (''enrollment: create CSR: '' @ Error e))
                | Inr der \<Rightarrow> Inr (P_pem_encode P ''CERTIFICATE REQUEST'' der)))"

subsection \<open>Authorities\<close>

record ca =
  ca_Key :: private_key
  ca_Cert :: x509cert

definition template_zero :: cert_template where
  "template_zero = \<lparr>t_SerialNumber = 0, t_Subject = \<lparr>n_CommonName = [], n_Organization = [], n_OrganizationalUnit = []\<rparr>,
     t_NotBefore = zero_time, t_NotAfter = zero_time, t_KeyUsage = [], t_UnknownExtKeyUsage = [],
     t_BasicConstraintsValid = False, t_IsCA = False, t_MaxPathLen = 0, t_MaxPathLenZero = False,
     t_CRLDistributionPoints = []\<rparr>"

definition randSerial :: "pki_lib \<Rightarrow> nat \<Rightarrow> int result" where
  "randSerial P n = P_randInt P n"

definition selfSign :: "lib \<Rightarrow> pki_lib \<Rightarrow> cert_template \<Rightarrow> private_key \<Rightarrow> x509cert result" where
  "selfSign L P tmpl key =
     (case P_CreateCertificate P tmpl SelfTemplate (P_Public P key) key of
        Inl e \<Rightarrow> Inl (Errorf (''labpki: self-sign: '' @ Error e))
      | Inr der \<Rightarrow> L_ParseCertificate L der)"

text \<open>The index numbers the draw of the key and of the serial number; \<open>now\<close> is the clock reading.\<close>

definition NewRootCA :: "lib \<Rightarrow> pki_lib \<Rightarrow> nat \<Rightarrow> time \<Rightarrow> string \<Rightarrow> duration \<Rightarrow> ca result" where
  "NewRootCA L P n now commonName validity =
     (case GenerateMLDSA65Key P n of
        Inl e \<Rightarrow> Inl e
      | Inr key \<Rightarrow>
          (case randSerial P n of
             Inl e \<Rightarrow> Inl e
           | Inr serial \<Rightarrow>
               let tmpl = template_zero\<lparr>t_SerialNumber := serial,
                     t_Subject := \<lparr>n_CommonName = commonName, n_Organization = [], n_OrganizationalUnit = [''PQC Root CA'']\<rparr>,
                     t_NotBefore := now - hour, t_NotAfter := now + validity,
                     t_KeyUsage := [KeyUsageCertSign, KeyUsageCRLSign], t_BasicConstraintsValid := True,
                     t_IsCA := True, t_MaxPathLen := 1\<rparr>
               in (case selfSign L P tmpl key of
                     Inl e \<Rightarrow> Inl e
                   | Inr cert \<Rightarrow> Inr \<lparr>ca_Key = key, ca_Cert = cert\<rparr>)))"

definition NewIntermediateCA :: "lib \<Rightarrow> pki_lib \<Rightarrow> nat \<Rightarrow> time \<Rightarrow> ca option \<Rightarrow> string \<Rightarrow> duration \<Rightarrow> ca result" where
  "NewIntermediateCA L P n now parent commonName validity =
     (case parent of
        None \<Rightarrow> Inl (Errorf ''labpki: nil parent CA'')
      | Some pa \<Rightarrow>
          (case GenerateMLDSA65Key P n of
             Inl e \<Rightarrow> Inl e
           | Inr key \<Rightarrow>
               (case randSerial P n of
                  Inl e \<Rightarrow> Inl e
                | Inr serial \<Rightarrow>
                    let tmpl = template_zero\<lparr>t_SerialNumber := serial,
                          t_Subject := \<lparr>n_CommonName = commonName, n_Organization = [],
                                       n_OrganizationalUnit = [''PQC Device Signing CA'']\<rparr>,
                          t_NotBefore := now - hour, t_NotAfter := now + validity,
                          t_KeyUsage := [KeyUsageCertSign, KeyUsageCRLSign], t_BasicConstraintsValid := True,
                          t_IsCA := True, t_MaxPathLen := 0, t_MaxPathLenZero := True\<rparr>
                    in (case P_CreateCertificate P tmpl (ParentCert (ca_Cert pa)) (P_Public P key) (ca_Key pa) of
                          Inl e \<Rightarrow> Inl (Errorf (''labpki: create intermediate: '' @ Error e))
                        | Inr der \<Rightarrow>
                            (case L_ParseCertificate L der of
                               Inl e \<Rightarrow> Inl e
                             | Inr cert \<Rightarrow> Inr \<lparr>ca_Key = key, ca_Cert = cert\<rparr>)))))"

record device_cert_options =
  dc_Subject :: name
  dc_Validity :: duration
  dc_CRLURL :: string
  dc_NotBefore :: time

definition device_template :: "int \<Rightarrow> time \<Rightarrow> device_cert_options \<Rightarrow> cert_template" where
  "device_template serial now opts =
     (let validity = (if dc_Validity opts = 0 then 365 * 24 * hour else dc_Validity opts);
          nb = (if IsZero (dc_NotBefore opts) then now - hour else dc_NotBefore opts)
      in template_zero\<lparr>t_SerialNumber := serial, t_Subject := dc_Subject opts, t_NotBefore := nb,
           t_NotAfter := nb + validity, t_KeyUsage := [KeyUsageDigitalSignature],
           t_UnknownExtKeyUsage := [OIDDocumentSigningEKU], t_BasicConstraintsValid := True, t_IsCA := False,
           t_CRLDistributionPoints := (if dc_CRLURL opts \<noteq> [] then [dc_CRLURL opts] else [])\<rparr>)"

definition IssueDeviceCert :: "lib \<Rightarrow> pki_lib \<Rightarrow> nat \<Rightarrow> time \<Rightarrow> ca \<Rightarrow> x509csr option \<Rightarrow> device_cert_options \<Rightarrow>
    x509cert result" where
  "IssueDeviceCert L P n now c csr opts =
     (case csr of
        None \<Rightarrow> Inl (Errorf ''labpki: nil CSR'')
      | Some q \<Rightarrow>
          (case q_PublicKey q of
             OtherKey b \<Rightarrow> Inl (Errorf (''labpki: CSR public key must be ML-DSA, got '' @ q_PublicKeyAlgorithm q))
           | MLDSAKey p b \<Rightarrow>
               (case randSerial P n of
                  Inl e \<Rightarrow> Inl e
                | Inr serial \<Rightarrow>
                    (case P_CreateCertificate P (device_template serial now opts) (ParentCert (ca_Cert c)) (q_PublicKey q) (ca_Key c) of
                       Inl e \<Rightarrow> Inl (Errorf (''labpki: issue device cert: '' @ Error e))
                     | Inr der \<Rightarrow> L_ParseCertificate L der))))"

definition crl_entry :: "time \<Rightarrow> revoked_entry \<Rightarrow> int option \<times> time \<times> int" where
  "crl_entry now e = (re_Serial e, if IsZero (re_At e) then now else re_At e, re_Reason e)"

definition NewCRLDetailed :: "pki_lib \<Rightarrow> time \<Rightarrow> ca \<Rightarrow> revoked_entry list \<Rightarrow> int \<Rightarrow> duration \<Rightarrow> bytes result" where
  "NewCRLDetailed P now c entries number validity0 =
     (let validity = (if validity0 = 0 then 7 * 24 * hour else validity0);
          tmpl = \<lparr>ct_Number = number, ct_ThisUpdate = now, ct_NextUpdate = now + validity,
                  ct_Entries = map (crl_entry now) entries\<rparr>
      in case P_CreateRevocationList P tmpl (ca_Cert c) (ca_Key c) of
           Inl e \<Rightarrow> Inl (Errorf (''labpki: create CRL: '' @ Error e))
         | Inr der \<Rightarrow> Inr (P_pem_encode P ''X509 CRL'' der))"

definition NewCRL :: "pki_lib \<Rightarrow> time \<Rightarrow> ca \<Rightarrow> int option list \<Rightarrow> int \<Rightarrow> duration \<Rightarrow> bytes result" where
  "NewCRL P now c serials number validity =
     NewCRLDetailed P now c (map (\<lambda>s. \<lparr>re_Serial = s, re_Reason = 0, re_At = zero_time\<rparr>) serials) number validity"

definition CertPEM :: "pki_lib \<Rightarrow> x509cert \<Rightarrow> bytes" where
  "CertPEM P c = P_pem_encode P ''CERTIFICATE'' (x_Raw c)"

definition ChainPEM :: "pki_lib \<Rightarrow> x509cert list \<Rightarrow> bytes" where
  "ChainPEM P certs = concat (map (CertPEM P) certs)"

subsection \<open>What the code relies on\<close>

text \<open>
  A block that was PEM encoded is decoded again, whatever follows it; a certificate that was created
  from a template and is parsed again has the template's serial number, validity to the second, basic
  constraints, the document-signing usage and the given key, and its raw bytes are the encoding; a list that
  was created has its entries and its number; a private key survives its encoding.
\<close>

definition pem_law :: "lib \<Rightarrow> pki_lib \<Rightarrow> bool" where
  "pem_law L P \<longleftrightarrow> (\<forall>ty b rest. L_pem_decode L (P_pem_encode P ty b @ rest) = Some (ty, b, rest))"

definition whole_second :: "time \<Rightarrow> time" where
  "whole_second t = t div second * second"

definition create_law :: "lib \<Rightarrow> pki_lib \<Rightarrow> bool" where
  "create_law L P \<longleftrightarrow> (\<forall>tmpl pa pub key der. P_CreateCertificate P tmpl pa pub key = Inr der \<longrightarrow>
     (\<exists>cert. L_ParseCertificate L der = Inr cert \<and> x_Raw cert = der \<and>
        x_SerialNumber cert = Some (t_SerialNumber tmpl) \<and> x_NotBefore cert = whole_second (t_NotBefore tmpl) \<and>
        x_NotAfter cert = whole_second (t_NotAfter tmpl) \<and>
        x_IsCA cert = (t_BasicConstraintsValid tmpl \<and> t_IsCA tmpl) \<and>
        (t_UnknownExtKeyUsage tmpl = [OIDDocumentSigningEKU] \<longrightarrow> x_UnknownExtKeyUsage cert = [OIDDocumentSigningEKU]) \<and>
        x_PublicKey cert = pub))"

definition key_law :: "pki_lib \<Rightarrow> bool" where
  "key_law P \<longleftrightarrow> (\<forall>sk der. P_MarshalPKCS8 P sk = Inr der \<longrightarrow> P_ParsePKCS8 P der = Inr (MLDSAPriv sk))"

lemma pem_lawD: "pem_law L P \<Longrightarrow> L_pem_decode L (P_pem_encode P ty b) = Some (ty, b, [])"
  using spec [of _ "[]"] unfolding pem_law_def by (metis append_Nil2)

lemma key_roundtrip:
  assumes "pem_law L P" "key_law P" "sk_params sk = ''ML-DSA-65''" "MarshalPKCS8PEM P (Some sk) = Inr b"
  shows "ParsePKCS8 L P b = Inr sk"
  using assms pem_lawD [OF assms(1)]
  by (auto simp: MarshalPKCS8PEM_def MarshalPKCS8_def ParsePKCS8_def pem_or_der_def key_law_def split: sum.splits)

lemma ParseCertificatePEM_CertPEM:
  assumes "pem_law L P" "pem_progress L"
  shows "ParseCertificatePEM L (CertPEM P c @ rest) = L_ParseCertificate L (x_Raw c)"
proof -
  have d: "L_pem_decode L (CertPEM P c @ rest) = Some (''CERTIFICATE'', x_Raw c, rest)"
    using assms(1) by (simp add: pem_law_def CertPEM_def)
  then have "length rest < length (CertPEM P c @ rest)" using pem_progressD [OF assms(2)] by blast
  then obtain n where "length (CertPEM P c @ rest) = Suc n" by (cases "length (CertPEM P c @ rest)") auto
  with d show ?thesis by (simp add: ParseCertificatePEM_def)
qed

text \<open>An issued device certificate, read back from its file.\<close>

lemma IssueDeviceCert_result:
  assumes "create_law L P" "IssueDeviceCert L P n now c (Some q) opts = Inr cert"
  shows "L_ParseCertificate L (x_Raw cert) = Inr cert" "x_PublicKey cert = q_PublicKey q" "\<not> x_IsCA cert"
    "HasDocumentSigningEKU cert" "\<exists>p b. q_PublicKey q = MLDSAKey p b"
    "\<exists>serial. P_randInt P n = Inr serial \<and> x_SerialNumber cert = Some serial \<and>
       x_NotBefore cert = whole_second (t_NotBefore (device_template serial now opts)) \<and>
       x_NotAfter cert = whole_second (t_NotAfter (device_template serial now opts)) \<and>
       P_CreateCertificate P (device_template serial now opts) (ParentCert (ca_Cert c)) (q_PublicKey q) (ca_Key c) = Inr (x_Raw cert)"
proof -
  obtain p b serial der where q: "q_PublicKey q = MLDSAKey p b" and ser: "P_randInt P n = Inr serial"
    and der: "P_CreateCertificate P (device_template serial now opts) (ParentCert (ca_Cert c)) (q_PublicKey q) (ca_Key c) = Inr der"
    and cert: "L_ParseCertificate L der = Inr cert"
    using assms(2) by (auto simp: IssueDeviceCert_def randSerial_def split: public_key.splits sum.splits)
  define t where "t = device_template serial now opts"
  have t: "t_SerialNumber t = serial" "t_BasicConstraintsValid t" "\<not> t_IsCA t"
      "t_UnknownExtKeyUsage t = [OIDDocumentSigningEKU]"
    by (simp_all add: t_def device_template_def Let_def)
  obtain c1 where c1: "L_ParseCertificate L der = Inr c1" "x_Raw c1 = der" "x_SerialNumber c1 = Some (t_SerialNumber t)"
      "x_NotBefore c1 = whole_second (t_NotBefore t)" "x_NotAfter c1 = whole_second (t_NotAfter t)"
      "x_IsCA c1 = (t_BasicConstraintsValid t \<and> t_IsCA t)"
      "t_UnknownExtKeyUsage t = [OIDDocumentSigningEKU] \<longrightarrow> x_UnknownExtKeyUsage c1 = [OIDDocumentSigningEKU]"
      "x_PublicKey c1 = q_PublicKey q"
    using assms(1) der unfolding create_law_def t_def by blast
  have "c1 = cert" using c1(1) cert by simp
  note law = c1 [unfolded this]
  show "L_ParseCertificate L (x_Raw cert) = Inr cert" "x_PublicKey cert = q_PublicKey q" "\<exists>p b. q_PublicKey q = MLDSAKey p b"
    using law cert q by simp_all
  show "\<not> x_IsCA cert" "HasDocumentSigningEKU cert"
    using law t by (simp_all add: HasDocumentSigningEKU_def)
  show "\<exists>serial. P_randInt P n = Inr serial \<and> x_SerialNumber cert = Some serial \<and>
       x_NotBefore cert = whole_second (t_NotBefore (device_template serial now opts)) \<and>
       x_NotAfter cert = whole_second (t_NotAfter (device_template serial now opts)) \<and>
       P_CreateCertificate P (device_template serial now opts) (ParentCert (ca_Cert c)) (q_PublicKey q) (ca_Key c) = Inr (x_Raw cert)"
    by (intro exI [of _ serial] conjI) (simp_all add: ser law t t_def [symmetric] der [folded t_def])
qed

end
