(* ===== verification/Disk.thy ===== *)
theory Disk
  imports GoStd "HOL-Library.List_Lexorder" "HOL-Library.Char_ord"
begin

section \<open>The file system the command line tools work on (\<open>os\<close>, \<open>path/filepath\<close>)\<close>

text \<open>
  A disk is the contents of its files and the set of its directories, both under cleaned paths: a path
  is resolved by cleaning it, there are no symbolic links, and file modes are not kept. Every system
  call may fail; which ones do is the record \<open>faults\<close>. A failing write may have truncated the file and
  written a prefix of the data.
\<close>

record disk =
  d_files :: "(string, bytes) gomap"
  d_dirs :: "string list"

datatype write_fault = OpenFails error | WriteFails nat error

record faults =
  fa_read :: "string \<Rightarrow> error option"
  fa_write :: "string \<Rightarrow> write_fault option"
  fa_mkdir :: "string \<Rightarrow> error option"
  fa_rename :: "string \<Rightarrow> error option"
  fa_remove :: "string \<Rightarrow> error option"

definition no_faults :: faults where
  "no_faults = \<lparr>fa_read = (\<lambda>p. None), fa_write = (\<lambda>p. None), fa_mkdir = (\<lambda>p. None),
     fa_rename = (\<lambda>p. None), fa_remove = (\<lambda>p. None)\<rparr>"

definition ENOENT :: "string \<Rightarrow> string \<Rightarrow> error" where
  "ENOENT oper p = ErrNotExist (oper @ '' '' @ p @ '': no such file or directory'')"

text \<open>The segments of a cleaned path.\<close>

definition segs :: "string \<Rightarrow> string list" where
  "segs q = (if q = ''.'' \<or> q = ''/'' then [] else Split (TrimPrefix q ''/'') (CHR ''/''))"

text \<open>The working directory, the root and their parents always exist.\<close>

definition is_dir :: "disk \<Rightarrow> string \<Rightarrow> bool" where
  "is_dir d q \<longleftrightarrow> segs q = [] \<or> last (segs q) = ''..'' \<or> q \<in> set (d_dirs d)"

text \<open>\<open>os.Stat\<close> succeeds.\<close>

definition Stat :: "disk \<Rightarrow> string \<Rightarrow> bool" where
  "Stat d p \<longleftrightarrow> p \<noteq> [] \<and> (map_of (d_files d) (Clean p) \<noteq> None \<or> is_dir d (Clean p))"

definition ReadFile :: "faults \<Rightarrow> disk \<Rightarrow> string \<Rightarrow> bytes result" where
  "ReadFile F d p =
     (if p = [] then Inl (ENOENT ''open'' p)
      else case fa_read F (Clean p) of
        Some e \<Rightarrow> Inl e
      | None \<Rightarrow>
          (case map_of (d_files d) (Clean p) of
             None \<Rightarrow> Inl (if is_dir d (Clean p) then Errorf (''read '' @ p @ '': is a directory'') else ENOENT ''open'' p)
           | Some b \<Rightarrow> Inr b))"

text \<open>A file can be created at a path that ends in a name, in an existing directory, where no directory is.\<close>

definition creatable :: "disk \<Rightarrow> string \<Rightarrow> bool" where
  "creatable d p \<longleftrightarrow> p \<noteq> [] \<and> plain_seg (last (Split p (CHR ''/''))) \<and> is_dir d (Dir (Clean p)) \<and> \<not> is_dir d (Clean p)"

definition put_file :: "string \<Rightarrow> bytes \<Rightarrow> disk \<Rightarrow> disk" where
  "put_file p b d = d\<lparr>d_files := AList.update (Clean p) b (d_files d)\<rparr>"

text \<open>Opening for writing with \<open>old\<close> as the contents kept (none for a truncating open), then one write.\<close>

definition write_over :: "faults \<Rightarrow> bytes \<Rightarrow> string \<Rightarrow> bytes \<Rightarrow> disk \<Rightarrow> error option \<times> disk" where
  "write_over F old p b d =
     (if \<not> creatable d p then (Some (ENOENT ''open'' p), d)
      else case fa_write F (Clean p) of
        Some (OpenFails e) \<Rightarrow> (Some e, d)
      | Some (WriteFails n e) \<Rightarrow> (Some e, put_file p (old @ take n b) d)
      | None \<Rightarrow> (None, put_file p (old @ b) d))"

definition WriteFile :: "faults \<Rightarrow> string \<Rightarrow> bytes \<Rightarrow> disk \<Rightarrow> error option \<times> disk" where
  "WriteFile F p b d = write_over F [] p b d"

definition AppendFile :: "faults \<Rightarrow> string \<Rightarrow> bytes \<Rightarrow> disk \<Rightarrow> error option \<times> disk" where
  "AppendFile F p b d =
     write_over F (case map_of (d_files d) (Clean p) of None \<Rightarrow> [] | Some old \<Rightarrow> old) p b d"

text \<open>\<open>os.Rename\<close> of a file: the new name takes over the contents in one step, or nothing happens.\<close>

definition Rename :: "faults \<Rightarrow> string \<Rightarrow> string \<Rightarrow> disk \<Rightarrow> error option \<times> disk" where
  "Rename F p q d =
     (case (if p = [] then None else map_of (d_files d) (Clean p)) of
        None \<Rightarrow> (Some (ENOENT ''rename'' p), d)
      | Some b \<Rightarrow>
          if \<not> creatable d q then (Some (ENOENT ''rename'' q), d)
          else case fa_rename F (Clean q) of
            Some e \<Rightarrow> (Some e, d)
          | None \<Rightarrow>
              (None, if Clean p = Clean q then d
                     else put_file q b (d\<lparr>d_files := AList.delete (Clean p) (d_files d)\<rparr>)))"

text \<open>\<open>os.Remove\<close>: a file, or a directory with nothing in it.\<close>

definition Remove :: "faults \<Rightarrow> string \<Rightarrow> disk \<Rightarrow> error option \<times> disk" where
  "Remove F p d =
     (if \<not> Stat d p then (Some (ENOENT ''remove'' p), d)
      else case fa_remove F (Clean p) of
        Some e \<Rightarrow> (Some e, d)
      | None \<Rightarrow>
          if map_of (d_files d) (Clean p) \<noteq> None then
            (None, d\<lparr>d_files := AList.delete (Clean p) (d_files d)\<rparr>)
          else if Clean p \<in> set (d_dirs d) \<and> list_all (\<lambda>q. q = Clean p \<or> Dir q \<noteq> Clean p) (map fst (d_files d) @ d_dirs d) then
            (None, d\<lparr>d_dirs := removeAll (Clean p) (d_dirs d)\<rparr>)
          else (Some (Errorf (''remove '' @ p @ '': directory not empty'')), d))"

text \<open>The directories on the way to a cleaned path.\<close>

definition ancestors :: "string \<Rightarrow> string list" where
  "ancestors q =
     (let xs = segs q in
      map (\<lambda>n. (if HasPrefix q ''/'' then ''/'' else []) @ intercalate ''/'' (take (Suc n) xs)) [0..<length xs])"

fun mkdirs :: "faults \<Rightarrow> string list \<Rightarrow> disk \<Rightarrow> error option \<times> disk" where
  "mkdirs F [] d = (None, d)"
| "mkdirs F (a # as) d =
     (if is_dir d a then mkdirs F as d
      else if map_of (d_files d) a \<noteq> None then (Some (Errorf (''mkdir '' @ a @ '': not a directory'')), d)
      else case fa_mkdir F a of
        Some e \<Rightarrow> (Some e, d)
      | None \<Rightarrow> mkdirs F as (d\<lparr>d_dirs := d_dirs d @ [a]\<rparr>))"

definition MkdirAll :: "faults \<Rightarrow> string \<Rightarrow> disk \<Rightarrow> error option \<times> disk" where
  "MkdirAll F p d = (if p = [] then (Some (ENOENT ''mkdir'' p), d) else mkdirs F (ancestors (Clean p)) d)"

text \<open>\<open>os.ReadDir\<close>: the names in a directory in byte order, with whether each is a directory.\<close>

definition ReadDir :: "disk \<Rightarrow> string \<Rightarrow> (string \<times> bool) list result" where
  "ReadDir d p =
     (if p = [] \<or> \<not> is_dir d (Clean p) then Inl (ENOENT ''open'' p)
      else
        let child = (\<lambda>q. q \<noteq> Clean p \<and> Dir q = Clean p) in
        Inr (sort_key fst (map (\<lambda>q. (Base q, True)) (filter child (remdups (d_dirs d)))
                         @ map (\<lambda>q. (Base q, False)) (filter child (map fst (d_files d))))))"

text \<open>\<open>filepath.Walk\<close> visits a directory before its entries and the entries of one directory in byte
  order of their names: the lexicographic order on the segments.\<close>

definition under :: "string \<Rightarrow> string \<Rightarrow> bool" where
  "under root q \<longleftrightarrow> HasPrefix q ''/'' = HasPrefix root ''/'' \<and> take (length (segs root)) (segs q) = segs root"

definition Walk :: "disk \<Rightarrow> string \<Rightarrow> (string \<times> bytes option) list" where
  "Walk d root = sort_key (\<lambda>e. segs (fst e))
     (map (\<lambda>q. (q, None)) (filter (under root) (remdups (d_dirs d))) @
      map (\<lambda>(q, b). (q, Some b)) (filter (\<lambda>(q, b). under root q) (d_files d)))"

text \<open>\<open>os.RemoveAll\<close> takes away what it can below a path and the path itself, and reports the first
  failure; a directory that still holds something stays. A missing path is not an error.\<close>

definition RemoveAll :: "faults \<Rightarrow> string \<Rightarrow> disk \<Rightarrow> error option \<times> disk" where
  "RemoveAll F p d =
     (if p = [] then (None, d)
      else if p = ''.'' \<or> HasSuffix p ''/.'' then (Some (Errorf (''RemoveAll '' @ p @ '': invalid argument'')), d)
      else
        let stuck = (\<lambda>q. fa_remove F q \<noteq> None);
            files = filter (\<lambda>(q, b). \<not> under (Clean p) q \<or> stuck q) (d_files d);
            held = (\<lambda>q. stuck q \<or> list_ex (\<lambda>x. x \<noteq> q \<and> under q x) (map fst files @ filter stuck (d_dirs d)));
            dirs = filter (\<lambda>q. \<not> under (Clean p) q \<or> held q) (d_dirs d)
        in (case filter (\<lambda>e. under (Clean p) (fst e) \<and> stuck (fst e)) (Walk d (Clean p)) of
              [] \<Rightarrow> None
            | e # es \<Rightarrow> fa_remove F (fst e), d\<lparr>d_files := files, d_dirs := dirs\<rparr>))"

text \<open>\<open>filepath.Join\<close> of any number of elements, \<open>filepath.Rel\<close>, \<open>filepath.IsAbs\<close>.\<close>

definition Join :: "string list \<Rightarrow> string" where
  "Join es = (case dropWhile (\<lambda>e. e = []) es of [] \<Rightarrow> [] | ne \<Rightarrow> Clean (intercalate ''/'' ne))"

definition IsAbs :: "string \<Rightarrow> bool" where
  "IsAbs p \<longleftrightarrow> HasPrefix p ''/''"

fun drop_common :: "string list \<Rightarrow> string list \<Rightarrow> string list \<times> string list" where
  "drop_common (x # xs) (y # ys) = (if x = y then drop_common xs ys else (x # xs, y # ys))"
| "drop_common xs ys = (xs, ys)"

definition Rel :: "string \<Rightarrow> string \<Rightarrow> string result" where
  "Rel base targ =
     (let b = Clean base; t = Clean targ in
      if t = b then Inr ''.''
      else if IsAbs b \<noteq> IsAbs t then Inl (Errorf (''Rel: can't make '' @ targ @ '' relative to '' @ base))
      else
        let (bs, ts) = drop_common (segs b) (segs t) in
        if bs \<noteq> [] \<and> hd bs = ''..'' then Inl (Errorf (''Rel: can't make '' @ targ @ '' relative to '' @ base))
        else Inr (intercalate ''/'' (map (\<lambda>x. ''..'') bs @ ts)))"

subsection \<open>What a system call leaves alone\<close>

lemma put_file_lookup [simp]:
  "map_of (d_files (put_file p b d)) q = (if q = Clean p then Some b else map_of (d_files d) q)"
  by (simp add: put_file_def)

lemma put_file_dirs [simp]: "d_dirs (put_file p b d) = d_dirs d" "is_dir (put_file p b d) q = is_dir d q"
  by (simp_all add: put_file_def is_dir_def)

lemma write_over_cases:
  "write_over F old p b d = (e, d') \<Longrightarrow> d' = d \<and> e \<noteq> None \<or> (\<exists>c. d' = put_file p c d \<and> (e = None \<longrightarrow> c = old @ b))"
  by (auto simp: write_over_def split: if_splits option.splits write_fault.splits)

lemma write_over_other: "q \<noteq> Clean p \<Longrightarrow> map_of (d_files (snd (write_over F old p b d))) q = map_of (d_files d) q"
  using write_over_cases [of F old p b d] by (cases "write_over F old p b d") auto

lemma WriteFile_other: "q \<noteq> Clean p \<Longrightarrow> map_of (d_files (snd (WriteFile F p b d))) q = map_of (d_files d) q"
  by (simp add: WriteFile_def write_over_other)

lemma AppendFile_other: "q \<noteq> Clean p \<Longrightarrow> map_of (d_files (snd (AppendFile F p b d))) q = map_of (d_files d) q"
  by (simp add: AppendFile_def write_over_other)

lemma WriteFile_ok: "WriteFile F p b d = (None, d') \<Longrightarrow> d' = put_file p b d \<and> creatable d p"
  by (auto simp: WriteFile_def write_over_def split: if_splits option.splits write_fault.splits)

lemma Rename_cases:
  assumes "Rename F p q d = (e, d')"
  shows "d' = d \<and> (e \<noteq> None \<or> Clean p = Clean q) \<or>
    e = None \<and> creatable d q \<and> (\<exists>b. map_of (d_files d) (Clean p) = Some b \<and>
      d' = put_file q b (d\<lparr>d_files := AList.delete (Clean p) (d_files d)\<rparr>))"
  using assms by (auto simp: Rename_def split: option.splits if_splits)

lemma Remove_cases:
  "Remove F p d = (e, d') \<Longrightarrow> d' = d \<and> e \<noteq> None \<or> e = None \<and>
     (d' = d\<lparr>d_files := AList.delete (Clean p) (d_files d)\<rparr> \<or> d' = d\<lparr>d_dirs := removeAll (Clean p) (d_dirs d)\<rparr>)"
  by (auto simp: Remove_def split: option.splits if_splits)

lemma Rename_other:
  "x \<noteq> Clean p \<Longrightarrow> x \<noteq> Clean q \<Longrightarrow> map_of (d_files (snd (Rename F p q d))) x = map_of (d_files d) x"
  using Rename_cases [of F p q d] by (cases "Rename F p q d") auto

lemma Remove_other: "x \<noteq> Clean p \<Longrightarrow> map_of (d_files (snd (Remove F p d))) x = map_of (d_files d) x"
  using Remove_cases [of F p d] by (cases "Remove F p d") auto

lemma AppendFile_prefix:
  "AppendFile F p b d = (e, d') \<Longrightarrow> map_of (d_files d) (Clean p) = Some old \<Longrightarrow>
     \<exists>x. map_of (d_files d') (Clean p) = Some (old @ x)"
  by (auto simp: AppendFile_def write_over_def split: if_splits option.splits write_fault.splits)

lemma write_over_dirs [simp]: "d_dirs (snd (write_over F old p b d)) = d_dirs d"
  by (auto simp: write_over_def put_file_def split: option.splits write_fault.splits)

lemma WriteFile_dirs [simp]: "d_dirs (snd (WriteFile F p b d)) = d_dirs d"
  by (simp add: WriteFile_def)

lemma AppendFile_dirs [simp]: "d_dirs (snd (AppendFile F p b d)) = d_dirs d"
  by (simp add: AppendFile_def)

lemma mkdirs_files [simp]: "d_files (snd (mkdirs F as d)) = d_files d"
  by (induction as arbitrary: d) (auto split: option.splits)

lemma MkdirAll_files [simp]: "d_files (snd (MkdirAll F p d)) = d_files d"
  by (simp add: MkdirAll_def)

lemma ReadFile_InrD: "ReadFile F d p = Inr b \<Longrightarrow> map_of (d_files d) (Clean p) = Some b \<and> fa_read F (Clean p) = None \<and> p \<noteq> []"
  by (auto simp: ReadFile_def split: if_splits option.splits)

lemma ReadFile_cong:
  "map_of (d_files d') (Clean p) = map_of (d_files d) (Clean p) \<Longrightarrow> is_dir d' (Clean p) = is_dir d (Clean p) \<Longrightarrow>
     ReadFile F d' p = ReadFile F d p"
  by (auto simp: ReadFile_def split: option.splits)

subsection \<open>The form of a cleaned path\<close>

text \<open>A cleaned path is a sequence of \<open>..\<close> segments, none in a rooted path, followed by plain ones.\<close>

definition render :: "bool \<Rightarrow> string list \<Rightarrow> string" where
  "render r xs = (if r then ''/'' @ intercalate ''/'' xs else if xs = [] then ''.'' else intercalate ''/'' xs)"

definition rooted :: "string \<Rightarrow> bool" where
  "rooted p \<longleftrightarrow> p \<noteq> [] \<and> hd p = CHR ''/''"

definition csegs :: "string \<Rightarrow> string list" where
  "csegs p = clean_segs (rooted p) [] (Split p (CHR ''/''))"

definition normal :: "bool \<Rightarrow> string list \<Rightarrow> bool" where
  "normal r xs \<longleftrightarrow> (\<exists>k zs. xs = replicate k ''..'' @ zs \<and> list_all plain_seg zs \<and> (r \<longrightarrow> k = 0))"

lemma Clean_render: "Clean p = render (rooted p) (csegs p)"
  by (simp add: Clean_def render_def rooted_def csegs_def Let_def)

lemma normal_append: "normal r xs \<Longrightarrow> list_all plain_seg ys \<Longrightarrow> normal r (xs @ ys)"
proof -
  assume "normal r xs" and y: "list_all plain_seg ys"
  then obtain k zs where "xs = replicate k ''..'' @ zs" "list_all plain_seg zs" "r \<longrightarrow> k = 0" by (auto simp: normal_def)
  with y have "xs @ ys = replicate k ''..'' @ (zs @ ys) \<and> list_all plain_seg (zs @ ys) \<and> (r \<longrightarrow> k = 0)" by simp
  then show ?thesis unfolding normal_def by blast
qed

lemma normal_Nil [simp]: "normal r []"
  unfolding normal_def by (intro exI [of _ 0] exI [of _ "[]"]) simp

lemma normal_butlast:
  assumes "normal r (xs @ [y])" "y \<noteq> ''..''" shows "normal r xs"
proof -
  obtain k zs where "xs @ [y] = replicate k ''..'' @ zs" "list_all plain_seg zs" "r \<longrightarrow> k = 0"
    using assms(1) by (auto simp: normal_def)
  moreover have "zs \<noteq> []"
  proof
    assume "zs = []"
    with calculation have "y \<in> set (replicate k ''..'')" by (metis append_Nil2 in_set_conv_decomp)
    then show False using assms(2) by simp
  qed
  moreover from calculation have "xs = replicate k ''..'' @ butlast zs" by (metis butlast_append butlast_snoc)
  moreover have "list_all plain_seg (butlast zs)" using calculation by (auto simp: list_all_iff dest: in_set_butlastD)
  ultimately show ?thesis unfolding normal_def by blast
qed

lemma normal_dots:
  assumes "normal False xs" "xs = [] \<or> last xs = ''..''" shows "normal False (xs @ [''..''])"
proof -
  obtain k zs where x: "xs = replicate k ''..'' @ zs" "list_all plain_seg zs"
    using assms(1) by (auto simp: normal_def)
  have "zs = []" using x assms(2) by (cases zs rule: rev_cases) (auto simp: plain_seg_def)
  then have "xs @ [''..''] = replicate (Suc k) ''..'' @ []" using x by (simp add: replicate_append_same)
  then show ?thesis unfolding normal_def by (intro exI [of _ "Suc k"] exI [of _ "[]"]) simp
qed

lemma normal_rooted_no_dots: "normal True xs \<Longrightarrow> ''..'' \<notin> set xs"
  by (auto simp: normal_def list_all_iff plain_seg_def)

lemma clean_segs_normal:
  "normal r (rev out) \<Longrightarrow> \<forall>x \<in> set xs. CHR ''/'' \<notin> set x \<Longrightarrow> normal r (clean_segs r out xs)"
proof (induction xs arbitrary: out)
  case (Cons x xs)
  then have rec: "normal r (rev o') \<Longrightarrow> normal r (clean_segs r o' xs)" for o' by simp
  consider "x = [] \<or> x = ''.''" | "x = ''..''" | "plain_seg x" using Cons.prems by (auto simp: plain_seg_def)
  then show ?case
  proof cases
    case 1
    then show ?thesis using rec Cons.prems(1) by auto
  next
    case 2
    have "r \<Longrightarrow> y \<in> set out \<Longrightarrow> y \<noteq> ''..''" for y
      using normal_rooted_no_dots [of "rev out"] Cons.prems(1) by auto
    then show ?thesis
      using 2 rec Cons.prems(1) normal_dots [of "rev out"] normal_butlast [of r "rev (tl out)" "hd out"]
      by (cases out; cases r) auto
  next
    case 3
    then show ?thesis using rec [of "x # out"] normal_append [OF Cons.prems(1), of "[x]"] by (auto simp: plain_seg_def)
  qed
qed simp

lemma csegs_normal: "normal (rooted p) (csegs p)"
  unfolding csegs_def by (rule clean_segs_normal) (auto dest: Split_seg_no_sep)

lemma clean_segs_append_plain:
  "list_all plain_seg ys \<Longrightarrow> clean_segs r out (xs @ ys) = clean_segs r out xs @ ys"
  by (induction xs arbitrary: out) (auto simp: clean_segs_plain split: list.splits)

lemma clean_segs_dots: "clean_segs False (replicate m ''..'') (replicate k ''..'' @ zs) = clean_segs False (replicate (k + m) ''..'') zs"
proof (induction k arbitrary: m)
  case (Suc k)
  have "clean_segs False (replicate m ''..'') (''..'' # ys) = clean_segs False (replicate (Suc m) ''..'') ys" for ys
    by (cases m) simp_all
  with Suc [of "Suc m"] show ?case by simp
qed simp

lemma clean_segs_id: "normal r xs \<Longrightarrow> clean_segs r [] xs = xs"
proof -
  assume "normal r xs"
  then obtain k zs where x: "xs = replicate k ''..'' @ zs" "list_all plain_seg zs" "r \<longrightarrow> k = 0"
    by (auto simp: normal_def)
  then show ?thesis
    using clean_segs_dots [of 0 k zs] by (cases r) (simp_all add: clean_segs_plain)
qed

lemma normal_no_slash: "normal r xs \<Longrightarrow> x \<in> set xs \<Longrightarrow> CHR ''/'' \<notin> set x \<and> x \<noteq> [] \<and> x \<noteq> ''.''"
proof -
  assume "normal r xs" "x \<in> set xs"
  then obtain k zs where xs: "xs = replicate k ''..'' @ zs" and zs: "list_all plain_seg zs" by (auto simp: normal_def)
  have "x \<in> set xs" by fact
  then have "x = ''..'' \<or> plain_seg x" unfolding xs using zs by (auto simp: list_all_iff)
  then show ?thesis by (elim disjE) (simp_all add: plain_seg_def)
qed

lemma Split_render: "normal r xs \<Longrightarrow> xs \<noteq> [] \<Longrightarrow> Split (intercalate ''/'' xs) (CHR ''/'') = xs"
  by (rule Split_intercalate) (use normal_no_slash in blast)+

lemma render_hd: "normal r xs \<Longrightarrow> rooted (render r xs) = r"
proof -
  assume n: "normal r xs"
  show ?thesis
  proof (cases xs rule: intercalate_cases)
    case Nil
    then show ?thesis by (simp add: render_def rooted_def)
  next
    case (one x)
    with normal_no_slash [OF n, of x] show ?thesis by (cases x) (auto simp: render_def rooted_def)
  next
    case (more x y zs)
    with normal_no_slash [OF n, of x] show ?thesis by (cases x) (auto simp: render_def rooted_def)
  qed
qed

lemma csegs_render: "normal r xs \<Longrightarrow> csegs (render r xs) = xs"
proof -
  assume n: "normal r xs"
  have "clean_segs r [] (Split (render r xs) (CHR ''/'')) = xs"
    using n Split_render [OF n] clean_segs_id [OF n] by (cases "xs = []"; cases r) (simp_all add: render_def)
  then show ?thesis by (simp add: csegs_def render_hd [OF n])
qed

lemma Clean_render_id: "normal r xs \<Longrightarrow> Clean (render r xs) = render r xs"
  by (simp add: Clean_render render_hd csegs_render)

lemma Clean_Clean [simp]: "Clean (Clean p) = Clean p"
  using Clean_render_id [OF csegs_normal] by (simp add: Clean_render [of p])

lemma render_inj: "normal r xs \<Longrightarrow> normal r ys \<Longrightarrow> render r xs = render r ys \<Longrightarrow> xs = ys"
  by (metis csegs_render)

lemma Split_app_sep: "Split (a @ c # b) c = Split a c @ Split b c"
  by (induction a) (auto split: list.splits)

text \<open>Joining plain names to a directory appends them to its segments.\<close>

lemma Join_plain:
  assumes "list_all plain_seg ys" "ys \<noteq> []"
  shows "Join (dir # ys) = render (rooted dir) (csegs dir @ ys)"
proof -
  have ny: "normal False ys" using assms by (auto simp: normal_def intro: exI [of _ 0])
  show ?thesis
  proof (cases "dir = []")
    case True
    obtain y r where y: "ys = y # r" "y \<noteq> []" using assms by (cases ys) (auto simp: plain_seg_def)
    have c: "csegs dir = []" using True by (simp add: csegs_def)
    have "Join (dir # ys) = Clean (render False ys)"
      using True y by (simp add: Join_def render_def)
    then show ?thesis using True c Clean_render_id [OF ny] by (simp add: rooted_def)
  next
    case False
    have i: "intercalate ''/'' (dir # ys) = dir @ CHR ''/'' # intercalate ''/'' ys"
      using assms(2) by (cases ys) simp_all
    have r: "rooted (intercalate ''/'' (dir # ys)) = rooted dir" using False unfolding i by (simp add: rooted_def)
    have "csegs (intercalate ''/'' (dir # ys)) = csegs dir @ ys"
      unfolding csegs_def r unfolding i
      by (simp add: Split_app_sep Split_render [OF ny assms(2)] clean_segs_append_plain [OF assms(1)])
    then show ?thesis using False by (simp add: Join_def Clean_render r)
  qed
qed

lemma Join_plain_Clean: "list_all plain_seg ys \<Longrightarrow> ys \<noteq> [] \<Longrightarrow> Clean (Join (dir # ys)) = Join (dir # ys)"
  by (simp add: Join_plain Clean_render_id normal_append csegs_normal)

lemma Join_plain_inj:
  assumes "list_all plain_seg xs" "xs \<noteq> []" "list_all plain_seg ys" "ys \<noteq> []"
  shows "Join (dir # xs) = Join (dir # ys) \<longleftrightarrow> xs = ys"
  using render_inj [OF normal_append [OF csegs_normal assms(1)] normal_append [OF csegs_normal assms(3)]]
  by (auto simp: Join_plain assms)

lemma Join_plain_nonempty: "list_all plain_seg ys \<Longrightarrow> ys \<noteq> [] \<Longrightarrow> Join (dir # ys) \<noteq> []"
  by (metis Join_plain_Clean Clean_def list.distinct(1) Clean_Clean)

subsection \<open>Well-formed disks\<close>

text \<open>Every file and every directory lies in a directory, under a cleaned path.\<close>

definition wf_disk :: "disk \<Rightarrow> bool" where
  "wf_disk d \<longleftrightarrow> (\<forall>q b. map_of (d_files d) q = Some b \<longrightarrow> is_dir d (Dir q) \<and> \<not> is_dir d q) \<and>
     (\<forall>q \<in> set (d_dirs d). is_dir d (Dir q) \<and> map_of (d_files d) q = None)"

lemma dropWhile_seg: "c \<notin> set y \<Longrightarrow> dropWhile (\<lambda>x. x \<noteq> c) (rev y @ c # zs) = c # zs"
  by (induction y rule: rev_induct) auto

lemma csegs_slash: "p \<noteq> [] \<Longrightarrow> csegs (p @ ''/'') = csegs p"
proof -
  assume "p \<noteq> []"
  then have "rooted (p @ ''/'') = rooted p" by (simp add: rooted_def)
  moreover have "clean_segs r out (xs @ [[]]) = clean_segs r out xs" for r out xs
    by (induction xs arbitrary: out) (auto split: list.splits)
  ultimately show ?thesis by (simp add: csegs_def Split_app_sep)
qed

lemma Dir_render:
  assumes n: "normal r (xs @ [y])"
  shows "Dir (render r (xs @ [y])) = render r xs"
proof -
  have y: "CHR ''/'' \<notin> set y" using normal_no_slash [OF n, of y] by simp
  have nx: "normal r xs"
  proof -
    obtain k zs where z: "xs @ [y] = replicate k ''..'' @ zs" "list_all plain_seg zs" "r \<longrightarrow> k = 0"
      using n by (auto simp: normal_def)
    show ?thesis
    proof (cases zs rule: rev_cases)
      case Nil
      then obtain m where "k = Suc m" using z by (cases k) auto
      then have "xs = replicate m ''..'' @ []" using z Nil by (metis append_Nil2 butlast_snoc replicate_append_same replicate_Suc)
      then show ?thesis using z \<open>k = Suc m\<close> unfolding normal_def by (intro exI [of _ m] exI [of _ "[]"]) simp
    next
      case (snoc ws w)
      then show ?thesis using z by (auto simp: normal_def)
    qed
  qed
  have dw: "dropWhile (\<lambda>c. c \<noteq> CHR ''/'') (rev (u @ ''/'' @ y)) = rev (u @ ''/'')" for u
    using dropWhile_seg [OF y, of "rev u"] by simp
  have d0: "dropWhile (\<lambda>c. c \<noteq> CHR ''/'') (rev y) = []" using y by (simp add: dropWhile_eq_Nil_conv) blast
  show ?thesis
  proof (cases "xs = []")
    case True
    then show ?thesis using dw [of "[]"] d0 by (simp add: Dir_def render_def Clean_def)
  next
    case False
    have e: "render r (xs @ [y]) = render r xs @ ''/'' @ y"
      using False by (simp add: render_def intercalate_append)
    have ne: "render r xs \<noteq> []" using Clean_render_id [OF nx] by (metis Clean_def list.distinct(1))
    have "Dir (render r (xs @ [y])) = Clean (render r xs @ ''/'')" unfolding e Dir_def dw by simp
    also have "\<dots> = render r xs"
      using csegs_slash [OF ne] csegs_render [OF nx] render_hd [OF nx] ne
      by (simp add: Clean_render) (simp add: rooted_def)
    finally show ?thesis .
  qed
qed

lemma is_dir_put_file: "is_dir (put_file p b d) = is_dir d"
  by (rule ext) simp

lemma wf_put_file: "wf_disk d \<Longrightarrow> creatable d p \<Longrightarrow> wf_disk (put_file p b d)"
  by (auto simp: wf_disk_def creatable_def is_dir_put_file) (auto simp: is_dir_def)

lemma wf_write_over: "wf_disk d \<Longrightarrow> wf_disk (snd (write_over F old p b d))"
  by (auto simp: write_over_def wf_put_file split: option.splits write_fault.splits)

lemma wf_WriteFile: "wf_disk d \<Longrightarrow> wf_disk (snd (WriteFile F p b d))"
  by (simp add: WriteFile_def wf_write_over)

lemma wf_AppendFile: "wf_disk d \<Longrightarrow> wf_disk (snd (AppendFile F p b d))"
  by (simp add: AppendFile_def wf_write_over)

lemma is_dir_add: "is_dir (d\<lparr>d_dirs := d_dirs d @ [a]\<rparr>) q \<longleftrightarrow> is_dir d q \<or> q = a"
  by (auto simp: is_dir_def)

lemma wf_add_dir:
  "wf_disk d \<Longrightarrow> is_dir d (Dir a) \<Longrightarrow> map_of (d_files d) a = None \<Longrightarrow> wf_disk (d\<lparr>d_dirs := d_dirs d @ [a]\<rparr>)"
  unfolding wf_disk_def is_dir_add by auto

text \<open>The list of ancestors is built from the top.\<close>

fun dir_chain :: "disk \<Rightarrow> string list \<Rightarrow> bool" where
  "dir_chain d [] = True"
| "dir_chain d (a # as) = (is_dir d (Dir a) \<and> dir_chain (d\<lparr>d_dirs := d_dirs d @ [a]\<rparr>) as)"

lemma dir_chain_mono: "(\<And>q. is_dir d q \<Longrightarrow> is_dir d' q) \<Longrightarrow> dir_chain d as \<Longrightarrow> dir_chain d' as"
proof (induction as arbitrary: d d')
  case (Cons a as)
  have "dir_chain (d'\<lparr>d_dirs := d_dirs d' @ [a]\<rparr>) as"
    by (rule Cons.IH [of "d\<lparr>d_dirs := d_dirs d @ [a]\<rparr>"]) (use Cons.prems in \<open>auto simp: is_dir_add\<close>)
  then show ?case using Cons.prems by simp
qed simp

lemma wf_mkdirs: "wf_disk d \<Longrightarrow> dir_chain d as \<Longrightarrow> wf_disk (snd (mkdirs F as d))"
proof (induction as arbitrary: d)
  case (Cons a as)
  have "is_dir d a \<Longrightarrow> dir_chain d as"
    by (rule dir_chain_mono [of "d\<lparr>d_dirs := d_dirs d @ [a]\<rparr>"]) (use Cons.prems(2) in \<open>auto simp: is_dir_add\<close>)
  then show ?case using Cons by (auto simp: wf_add_dir split: option.splits)
qed simp

lemma dir_chain_render:
  "normal r (xs @ ys) \<Longrightarrow> is_dir d (render r xs) \<Longrightarrow>
     dir_chain d (map (\<lambda>n. render r (xs @ take (Suc n) ys)) [0..<length ys])"
proof (induction ys arbitrary: xs d)
  case (Cons y ys)
  have n: "normal r ((xs @ [y]) @ ys)" using Cons.prems(1) by simp
  have n1: "normal r (xs @ [y])"
  proof -
    obtain k zs where z: "(xs @ [y]) @ ys = replicate k ''..'' @ zs" "list_all plain_seg zs" "r \<longrightarrow> k = 0"
      using n by (auto simp: normal_def)
    have "xs @ [y] = take (length (xs @ [y])) (replicate k ''..'' @ zs)" by (metis append_eq_conv_conj z(1))
    then have e: "xs @ [y] = replicate (min (length (xs @ [y])) k) ''..'' @ take (length (xs @ [y]) - k) zs"
      by (simp only: take_append take_replicate length_replicate)
    have "list_all plain_seg (take (length (xs @ [y]) - k) zs)" using z(2) by (auto simp: list_all_iff dest: in_set_takeD)
    then show ?thesis unfolding normal_def using e z(3) by (metis min_0R)
  qed
  have "dir_chain (d\<lparr>d_dirs := d_dirs d @ [render r (xs @ [y])]\<rparr>)
      (map (\<lambda>n. render r ((xs @ [y]) @ take (Suc n) ys)) [0..<length ys])"
    using Cons.IH [OF n] by (simp add: is_dir_add)
  moreover have "[0..<length (y # ys)] = 0 # map Suc [0..<length ys]" unfolding map_Suc_upt by (simp add: upt_conv_Cons del: upt_Suc)
  ultimately show ?case using Cons.prems(2) Dir_render [OF n1] by (simp add: comp_def)
qed simp

lemma HasPrefix_slash: "HasPrefix q ''/'' \<longleftrightarrow> rooted q"
  by (cases q) (auto simp: HasPrefix_def rooted_def)

lemma segs_render: "normal r xs \<Longrightarrow> segs (render r xs) = xs"
proof -
  assume n: "normal r xs"
  show ?thesis
  proof (cases "xs = []")
    case True
    then show ?thesis by (simp add: segs_def render_def)
  next
    case False
    have "render r xs \<noteq> ''.''" "render r xs \<noteq> ''/''"
      using False csegs_render [OF n] csegs_render [of r "[]"] csegs_render [of "\<not> r" "[]"] render_hd [OF n]
      by (auto simp: csegs_def render_def rooted_def split: if_splits)
    moreover have "TrimPrefix (render r xs) ''/'' = intercalate ''/'' xs"
      using render_hd [OF n] False by (cases r) (simp_all add: TrimPrefix_def HasPrefix_slash, simp_all add: render_def)
    ultimately show ?thesis using Split_render [OF n False] by (simp add: segs_def)
  qed
qed

lemma wf_MkdirAll: "wf_disk d \<Longrightarrow> wf_disk (snd (MkdirAll F p d))"
proof -
  assume w: "wf_disk d"
  define r where "r = rooted p"
  define xs where "xs = csegs p"
  have n: "normal r xs" unfolding r_def xs_def by (rule csegs_normal)
  have a: "ancestors (Clean p) = map (\<lambda>n. render r ([] @ take (Suc n) xs)) [0..<length xs]"
    unfolding ancestors_def Clean_render r_def [symmetric] xs_def [symmetric] HasPrefix_slash render_hd [OF n] segs_render [OF n]
    by (auto simp: Let_def render_def)
  have "dir_chain d (ancestors (Clean p))"
    unfolding a by (rule dir_chain_render) (use n in \<open>simp_all add: render_def is_dir_def segs_def\<close>)
  with w show ?thesis by (simp add: MkdirAll_def wf_mkdirs)
qed

lemmas wf_disk_ops = wf_WriteFile wf_AppendFile wf_MkdirAll

text \<open>The directories above a file exist.\<close>

lemma wf_ancestor:
  "wf_disk d \<Longrightarrow> list_all plain_seg ys \<Longrightarrow> normal r xs \<Longrightarrow> ys \<noteq> [] \<Longrightarrow>
     map_of (d_files d) (render r (xs @ ys)) \<noteq> None \<or> is_dir d (render r (xs @ ys)) \<Longrightarrow> is_dir d (render r xs)"
proof (induction ys rule: rev_induct)
  case (snoc y ys)
  have n: "normal r ((xs @ ys) @ [y])" using normal_append [OF snoc.prems(3), of "ys @ [y]"] snoc.prems(2) by simp
  have "y \<noteq> ''..''" using snoc.prems(2) by (simp add: plain_seg_def)
  then have "is_dir d (render r ((xs @ ys) @ [y])) \<Longrightarrow> render r ((xs @ ys) @ [y]) \<in> set (d_dirs d)"
    unfolding is_dir_def segs_render [OF n] by simp
  then have "is_dir d (Dir (render r ((xs @ ys) @ [y])))"
    using snoc.prems(1,5) unfolding wf_disk_def by auto
  then have "is_dir d (render r (xs @ ys))" unfolding Dir_render [OF n] .
  then show ?case using snoc by (cases "ys = []") auto
qed simp

end
