(* ===== verification/CAStore.thy ===== *)
theory CAStore
  imports LabPKI Disk
begin

section \<open>The authority's directory (\<open>tools/ca-admin/keyfile.go\<close>, \<open>castore.go\<close>)\<close>

text \<open>
  The on-disk state of the offline certificate authority: sealed private keys, certificates, the ledger
  of revocations, the log of issued certificates and the ceremony log. The authenticated cipher, the
  random source and the JSON codecs are the record \<open>ca_lib\<close>; Argon2id is the field of \<open>lib\<close> the server's
  password hash uses. The clock is read by index, and so are the draws of random bytes.
\<close>

subsection \<open>Data\<close>

record enc_blob =
  eb_Version :: int
  eb_KDF :: string
  eb_Time :: nat
  eb_MemKiB :: nat
  eb_Threads :: nat
  eb_Salt :: bytes
  eb_Nonce :: bytes
  eb_CT :: bytes

record ca_store =
  st_Dir :: string
  st_Passphrase :: string
  st_Operator :: string

record revocation =
  rv_Serial :: string
  rv_Reason :: string
  rv_ReasonCode :: int
  rv_RevokedAt :: time

record ledger =
  lg_CRLNumber :: int
  lg_Revocations :: "revocation list"

record ceremony_entry =
  ce_At :: time
  ce_Action :: string
  ce_Operator :: string
  ce_Encrypted :: bool
  ce_Artifacts :: "(string, string) gomap"
  ce_Note :: string

record issued_record =
  ir_Serial :: string
  ir_Subject :: string
  ir_Account :: string
  ir_DeviceLabel :: string
  ir_Fingerprint :: string
  ir_NotAfter :: time
  ir_IssuedAt :: time
  ir_CSRFP :: string

text \<open>\<open>json.Marshal\<close> can fail (a time whose year has more than four digits); the sources ignore that, and
  what is written then is nothing.\<close>

record ca_lib =
  C_rand :: "nat \<Rightarrow> nat \<Rightarrow> bytes result"
  C_NewGCM :: "bytes \<Rightarrow> error option"
  C_NonceSize :: nat
  C_Seal :: "bytes \<Rightarrow> bytes \<Rightarrow> bytes \<Rightarrow> bytes"
  C_Open :: "bytes \<Rightarrow> bytes \<Rightarrow> bytes \<Rightarrow> bytes result"
  C_marshal_blob :: "enc_blob \<Rightarrow> bytes result"
  C_unmarshal_blob :: "bytes \<Rightarrow> enc_blob result"
  C_marshal_ledger :: "ledger \<Rightarrow> bytes result"
  C_unmarshal_ledger :: "bytes \<Rightarrow> ledger result"
  C_marshal_issued :: "issued_record \<Rightarrow> bytes result"
  C_marshal_ceremony :: "ceremony_entry \<Rightarrow> bytes result"

text \<open>\<open>%q\<close> of a text without characters to escape.\<close>

definition quoted :: "string \<Rightarrow> string" where
  "quoted s = [CHR 0x22] @ s @ [CHR 0x22]"

definition or_nil :: "bytes result \<Rightarrow> bytes" where
  "or_nil r = (case r of Inl e \<Rightarrow> [] | Inr b \<Rightarrow> b)"

subsection \<open>Sealed keys\<close>

abbreviation (input) encVersion :: int where "encVersion \<equiv> 1"
abbreviation (input) argonTime :: nat where "argonTime \<equiv> 3"
abbreviation (input) argonMemKiB :: nat where "argonMemKiB \<equiv> 256 * 1024"
abbreviation (input) argonThreads :: nat where "argonThreads \<equiv> 4"
abbreviation (input) keyLen :: nat where "keyLen \<equiv> 32"
abbreviation (input) saltLen :: nat where "saltLen \<equiv> 16"

definition deriveKey :: "lib \<Rightarrow> string \<Rightarrow> bytes \<Rightarrow> nat \<Rightarrow> nat \<Rightarrow> nat \<Rightarrow> bytes" where
  "deriveKey L pass salt t m p = L_argon2id L pass salt t m p keyLen"

text \<open>\<open>aes.NewCipher\<close> followed by \<open>cipher.NewGCM\<close>.\<close>

definition gcm :: "ca_lib \<Rightarrow> bytes \<Rightarrow> error option" where
  "gcm C key = C_NewGCM C key"

definition sealKeyPEM :: "lib \<Rightarrow> ca_lib \<Rightarrow> nat \<Rightarrow> bytes \<Rightarrow> string \<Rightarrow> bytes result" where
  "sealKeyPEM L C n pemBytes passphrase =
     (if passphrase = [] then Inl (Errorf ''ca-admin: empty passphrase'')
      else case C_rand C (2 * n) saltLen of
        Inl e \<Rightarrow> Inl e
      | Inr salt \<Rightarrow>
          let dk = deriveKey L passphrase salt argonTime argonMemKiB argonThreads in
          (case gcm C dk of
             Some e \<Rightarrow> Inl e
           | None \<Rightarrow>
               (case C_rand C (2 * n + 1) (C_NonceSize C) of
                  Inl e \<Rightarrow> Inl e
                | Inr nonce \<Rightarrow>
                    C_marshal_blob C \<lparr>eb_Version = encVersion, eb_KDF = ''argon2id'', eb_Time = argonTime,
                      eb_MemKiB = argonMemKiB, eb_Threads = argonThreads, eb_Salt = salt, eb_Nonce = nonce,
                      eb_CT = C_Seal C dk nonce pemBytes\<rparr>)))"

definition openKeyPEM :: "lib \<Rightarrow> ca_lib \<Rightarrow> bytes \<Rightarrow> string \<Rightarrow> bytes result" where
  "openKeyPEM L C blob passphrase =
     (case C_unmarshal_blob C blob of
        Inl e \<Rightarrow> Inl (Errorf (''ca-admin: parse encrypted key: '' @ Error e))
      | Inr b \<Rightarrow>
          if eb_Version b \<noteq> encVersion \<or> eb_KDF b \<noteq> ''argon2id'' then
            Inl (Errorf ''ca-admin: unsupported encrypted key format'')
          else if passphrase = [] then
            Inl (Errorf ''ca-admin: this CA key is encrypted; set PQC_CA_PASSPHRASE'')
          else
            let dk = deriveKey L passphrase (eb_Salt b) (eb_Time b) (eb_MemKiB b) (eb_Threads b) in
            (case gcm C dk of
               Some e \<Rightarrow> Inl e
             | None \<Rightarrow>
                 (case C_Open C dk (eb_Nonce b) (eb_CT b) of
                    Inl e \<Rightarrow> Inl (Errorf ''ca-admin: wrong passphrase or corrupted CA key'')
                  | Inr pt \<Rightarrow> Inr pt)))"

subsection \<open>The store\<close>

text \<open>The method \<open>path\<close>.\<close>

definition ca_path :: "ca_store \<Rightarrow> string list \<Rightarrow> string" where
  "ca_path s parts = Join (st_Dir s # parts)"

definition ca_exists :: "ca_store \<Rightarrow> disk \<Rightarrow> bool" where
  "ca_exists s d \<longleftrightarrow> Stat d (ca_path s [''intermediate'', ''cert.pem''])"

definition encrypted :: "ca_store \<Rightarrow> disk \<Rightarrow> bool" where
  "encrypted s d \<longleftrightarrow> Stat d (ca_path s [''intermediate'', ''key.pem.enc''])"

definition writeCA :: "lib \<Rightarrow> pki_lib \<Rightarrow> ca_lib \<Rightarrow> faults \<Rightarrow> ca_store \<Rightarrow> nat \<Rightarrow> string \<Rightarrow> ca \<Rightarrow> disk \<Rightarrow> error option \<times> disk" where
  "writeCA L P C F s n name c d =
     (case MarshalPKCS8PEM P (Some (ca_Key c)) of
        Inl e \<Rightarrow> (Some e, d)
      | Inr keyPEM \<Rightarrow>
          let (e, d1) =
            (if st_Passphrase s \<noteq> [] then
               (case sealKeyPEM L C n keyPEM (st_Passphrase s) of
                  Inl e \<Rightarrow> (Some e, d)
                | Inr sealed \<Rightarrow> WriteFile F (ca_path s [name, ''key.pem.enc'']) sealed d)
             else WriteFile F (ca_path s [name, ''key.pem'']) keyPEM d)
          in (case e of
                Some e \<Rightarrow> (Some e, d1)
              | None \<Rightarrow> WriteFile F (ca_path s [name, ''cert.pem'']) (CertPEM P (ca_Cert c)) d1))"

definition load_key :: "lib \<Rightarrow> ca_lib \<Rightarrow> faults \<Rightarrow> ca_store \<Rightarrow> string \<Rightarrow> disk \<Rightarrow> bytes result" where
  "load_key L C F s name d =
     (case ReadFile F d (ca_path s [name, ''key.pem.enc'']) of
        Inr enc \<Rightarrow> openKeyPEM L C enc (st_Passphrase s)
      | Inl e \<Rightarrow>
          (case ReadFile F d (ca_path s [name, ''key.pem'']) of
             Inl e \<Rightarrow> Inl (Errorf (''ca-admin: no CA key for '' @ quoted name @ '': '' @ Error e))
           | Inr k \<Rightarrow> Inr k))"

definition loadCA :: "lib \<Rightarrow> pki_lib \<Rightarrow> ca_lib \<Rightarrow> faults \<Rightarrow> ca_store \<Rightarrow> string \<Rightarrow> disk \<Rightarrow> ca result" where
  "loadCA L P C F s name d =
     (case load_key L C F s name d of
        Inl e \<Rightarrow> Inl e
      | Inr keyPEM \<Rightarrow>
          (case ParsePKCS8 L P keyPEM of
             Inl e \<Rightarrow> Inl e
           | Inr sk \<Rightarrow>
               (case ReadFile F d (ca_path s [name, ''cert.pem'']) of
                  Inl e \<Rightarrow> Inl e
                | Inr certRaw \<Rightarrow>
                    (case ParseCertificatePEM L certRaw of
                       Inl e \<Rightarrow> Inl e
                     | Inr cert \<Rightarrow> Inr \<lparr>ca_Key = sk, ca_Cert = cert\<rparr>))))"

definition Intermediate :: "lib \<Rightarrow> pki_lib \<Rightarrow> ca_lib \<Rightarrow> faults \<Rightarrow> ca_store \<Rightarrow> disk \<Rightarrow> ca result" where
  "Intermediate L P C F s d = loadCA L P C F s ''intermediate'' d"

definition Root :: "lib \<Rightarrow> pki_lib \<Rightarrow> ca_lib \<Rightarrow> faults \<Rightarrow> ca_store \<Rightarrow> disk \<Rightarrow> ca result" where
  "Root L P C F s d = loadCA L P C F s ''root'' d"

definition loadLedger :: "ca_lib \<Rightarrow> faults \<Rightarrow> ca_store \<Rightarrow> disk \<Rightarrow> ledger result" where
  "loadLedger C F s d =
     (case ReadFile F d (ca_path s [''ledger.json'']) of
        Inl e \<Rightarrow> Inl e
      | Inr raw \<Rightarrow> C_unmarshal_ledger C raw)"

definition saveLedger :: "ca_lib \<Rightarrow> faults \<Rightarrow> ca_store \<Rightarrow> ledger \<Rightarrow> disk \<Rightarrow> error option \<times> disk" where
  "saveLedger C F s l d = WriteFile F (ca_path s [''ledger.json'']) (or_nil (C_marshal_ledger C l)) d"

definition appendIssued :: "ca_lib \<Rightarrow> faults \<Rightarrow> ca_store \<Rightarrow> issued_record \<Rightarrow> disk \<Rightarrow> error option \<times> disk" where
  "appendIssued C F s r d = AppendFile F (ca_path s [''issued.jsonl'']) (or_nil (C_marshal_issued C r) @ [CHR 0x0A]) d"

text \<open>The order in which a \<open>range\<close> over the map of writes visits it is the argument \<open>ord\<close>.\<close>

fun write_all :: "faults \<Rightarrow> ca_store \<Rightarrow> (string \<times> bytes) list \<Rightarrow> disk \<Rightarrow> error option \<times> disk" where
  "write_all F s [] d = (None, d)"
| "write_all F s ((name, b) # ws) d =
     (case WriteFile F (ca_path s [''public'', name]) b d of
        (Some e, d1) \<Rightarrow> (Some e, d1)
      | (None, d1) \<Rightarrow> write_all F s ws d1)"

definition publish_writes :: "pki_lib \<Rightarrow> ca \<Rightarrow> ca \<Rightarrow> bytes option \<Rightarrow> (string \<times> bytes) list" where
  "publish_writes P root interCA crlPEM =
     [(''root-ca.crt.pem'', CertPEM P (ca_Cert root)), (''intermediate-ca.crt.pem'', CertPEM P (ca_Cert interCA)),
      (''ca-chain.pem'', ChainPEM P [ca_Cert interCA, ca_Cert root])]
     @ (case crlPEM of None \<Rightarrow> [] | Some crl \<Rightarrow> [(''crl.pem'', crl)])"

definition publish :: "lib \<Rightarrow> pki_lib \<Rightarrow> ca_lib \<Rightarrow> faults \<Rightarrow> ((string \<times> bytes) list \<Rightarrow> (string \<times> bytes) list) \<Rightarrow>
    ca_store \<Rightarrow> ca \<Rightarrow> bytes option \<Rightarrow> disk \<Rightarrow> error option \<times> disk" where
  "publish L P C F ord s interCA crlPEM d =
     (case Root L P C F s d of
        Inl e \<Rightarrow> (Some e, d)
      | Inr root \<Rightarrow> write_all F s (ord (publish_writes P root interCA crlPEM)) d)"

fun mkdir_each :: "faults \<Rightarrow> ca_store \<Rightarrow> string list \<Rightarrow> disk \<Rightarrow> error option \<times> disk" where
  "mkdir_each F s [] d = (None, d)"
| "mkdir_each F s (x # xs) d =
     (case MkdirAll F (ca_path s [x]) d of
        (Some e, d1) \<Rightarrow> (Some e, d1)
      | (None, d1) \<Rightarrow> mkdir_each F s xs d1)"

text \<open>The method \<open>Init\<close>; one authority per index \<open>n\<close>, \<open>n + 1\<close>.\<close>

definition ca_Init :: "lib \<Rightarrow> pki_lib \<Rightarrow> ca_lib \<Rightarrow> faults \<Rightarrow> ((string \<times> bytes) list \<Rightarrow> (string \<times> bytes) list) \<Rightarrow>
    nat \<Rightarrow> (nat \<Rightarrow> time) \<Rightarrow> ca_store \<Rightarrow> string \<Rightarrow> string \<Rightarrow> disk \<Rightarrow> error option \<times> disk" where
  "ca_Init L P C F ord n now s rootCN interCN d =
     (if Stat d (st_Dir s) then
        (Some (Errorf (''ca-admin: '' @ st_Dir s @ '' already exists; refusing to overwrite'')), d)
      else case NewRootCA L P n (now 0) rootCN (10 * 365 * 24 * hour) of
        Inl e \<Rightarrow> (Some e, d)
      | Inr root \<Rightarrow>
          (case NewIntermediateCA L P (n + 1) (now 1) (Some root) interCN (5 * 365 * 24 * hour) of
             Inl e \<Rightarrow> (Some e, d)
           | Inr interCA \<Rightarrow>
               (case mkdir_each F s [''root'', ''intermediate'', ''public''] d of
                  (Some e, d1) \<Rightarrow> (Some e, d1)
                | (None, d1) \<Rightarrow>
                    (case writeCA L P C F s n ''root'' root d1 of
                       (Some e, d2) \<Rightarrow> (Some e, d2)
                     | (None, d2) \<Rightarrow>
                         (case writeCA L P C F s (n + 1) ''intermediate'' interCA d2 of
                            (Some e, d3) \<Rightarrow> (Some e, d3)
                          | (None, d3) \<Rightarrow>
                              (case publish L P C F ord s interCA None d3 of
                                 (Some e, d4) \<Rightarrow> (Some e, d4)
                               | (None, d4) \<Rightarrow>
                                   saveLedger C F s \<lparr>lg_CRLNumber = 0, lg_Revocations = []\<rparr> d4))))))"

definition errNotInitialised :: error where
  "errNotInitialised = Errorf ''ca-admin: CA directory not initialised (run `ca-admin init` first)''"

definition ca_openStore :: "string \<Rightarrow> string \<Rightarrow> string \<Rightarrow> disk \<Rightarrow> ca_store result" where
  "ca_openStore dir passphrase operator d =
     (let s = \<lparr>st_Dir = dir, st_Passphrase = passphrase, st_Operator = operator\<rparr> in
      if \<not> ca_exists s d then Inl errNotInitialised
      else if encrypted s d \<and> st_Passphrase s = [] then
        Inl (Errorf ''ca-admin: CA keys are encrypted; set PQC_CA_PASSPHRASE'')
      else Inr s)"

definition sha256Bytes :: "lib \<Rightarrow> bytes \<Rightarrow> bytes" where
  "sha256Bytes L b = L_sha256 L b"

definition sha256File :: "lib \<Rightarrow> faults \<Rightarrow> ca_store \<Rightarrow> disk \<Rightarrow> string \<Rightarrow> string result" where
  "sha256File L F s d rel =
     (case ReadFile F d (ca_path s [rel]) of
        Inl e \<Rightarrow> Inl e
      | Inr b \<Rightarrow> Inr (hex_encode (L_sha256 L b)))"

fun artifact_sums :: "lib \<Rightarrow> faults \<Rightarrow> ca_store \<Rightarrow> disk \<Rightarrow> string list \<Rightarrow> (string, string) gomap \<Rightarrow> (string, string) gomap" where
  "artifact_sums L F s d [] m = m"
| "artifact_sums L F s d (a # as) m =
     artifact_sums L F s d as
       (case sha256File L F s d a of Inl e \<Rightarrow> m | Inr h \<Rightarrow> AList.update a h m)"

definition logCeremony :: "lib \<Rightarrow> ca_lib \<Rightarrow> faults \<Rightarrow> time \<Rightarrow> ca_store \<Rightarrow> string \<Rightarrow> string \<Rightarrow> string list \<Rightarrow> disk \<Rightarrow>
    error option \<times> disk" where
  "logCeremony L C F now s action note artifacts d =
     AppendFile F (ca_path s [''ceremony.jsonl''])
       (or_nil (C_marshal_ceremony C
          \<lparr>ce_At = now, ce_Action = action, ce_Operator = st_Operator s, ce_Encrypted = encrypted s d,
           ce_Artifacts = artifact_sums L F s d artifacts [], ce_Note = note\<rparr>) @ [CHR 0x0A]) d"

text \<open>\<open>strings.ToUpper\<close> on ASCII; the substrings that are looked for are upper case already.\<close>

definition to_upper :: "char \<Rightarrow> char" where
  "to_upper c = (if byte_in c 97 122 then char_of ((of_char c :: nat) - 32) else c)"

definition bytesContainsAny :: "bytes \<Rightarrow> string list \<Rightarrow> bool" where
  "bytesContainsAny b subs \<longleftrightarrow> list_ex (\<lambda>x. Contains (map to_upper b) (map to_upper x)) subs"

definition hasPrivateKeyLeak :: "faults \<Rightarrow> ca_store \<Rightarrow> disk \<Rightarrow> string option" where
  "hasPrivateKeyLeak F s d =
     (case ReadDir d (ca_path s [''public'']) of
        Inl e \<Rightarrow> None
      | Inr entries \<Rightarrow>
          map_option fst (find (\<lambda>e. case ReadFile F d (ca_path s [''public'', fst e]) of
                              Inl err \<Rightarrow> False
                            | Inr b \<Rightarrow> bytesContainsAny b [''PRIVATE KEY'', ''BEGIN EC PRIVATE'', ''BEGIN RSA PRIVATE''])
                  entries))"

definition certSerialHex :: "x509cert \<Rightarrow> string" where
  "certSerialHex c = serial_hex (x_SerialNumber c)"

subsection \<open>What the code relies on\<close>

text \<open>Decryption under the same key and nonce gives the sealed text back, and the JSON codecs read back
  what they wrote.\<close>

definition gcm_law :: "ca_lib \<Rightarrow> bool" where
  "gcm_law C \<longleftrightarrow> (\<forall>k n p. C_NewGCM C k = None \<longrightarrow> C_Open C k n (C_Seal C k n p) = Inr p)"

definition blob_law :: "ca_lib \<Rightarrow> bool" where
  "blob_law C \<longleftrightarrow> (\<forall>b x. eb_KDF b = ''argon2id'' \<and> eb_Time b < 2 ^ 32 \<and> eb_MemKiB b < 2 ^ 32 \<and> eb_Threads b < 2 ^ 8 \<and>
     C_marshal_blob C b = Inr x \<longrightarrow> C_unmarshal_blob C x = Inr b)"

text \<open>A ledger that JSON can carry: times with a four-digit year, texts in ASCII, an \<open>int64\<close>.\<close>

definition good_revocation :: "revocation \<Rightarrow> bool" where
  "good_revocation r \<longleftrightarrow> json_time (rv_RevokedAt r) \<and> list_all (\<lambda>c. byte_in c 0 127) (rv_Serial r @ rv_Reason r)"

definition good_ledger :: "ledger \<Rightarrow> bool" where
  "good_ledger l \<longleftrightarrow> list_all good_revocation (lg_Revocations l) \<and> - (2 ^ 63) \<le> lg_CRLNumber l \<and> lg_CRLNumber l < 2 ^ 63"

definition ledger_law :: "ca_lib \<Rightarrow> bool" where
  "ledger_law C \<longleftrightarrow> (\<forall>l. good_ledger l \<longrightarrow> (\<exists>x. C_marshal_ledger C l = Inr x \<and> C_unmarshal_ledger C x = Inr l))"

subsection \<open>Round trips\<close>

lemma openKeyPEM_sealed:
  assumes "gcm_law C" "blob_law C" "sealKeyPEM L C n pem pass = Inr blob"
  shows "openKeyPEM L C blob pass = Inr pem"
proof -
  define dk where "dk salt = deriveKey L pass salt argonTime argonMemKiB argonThreads" for salt
  obtain salt nonce where p: "pass \<noteq> []" and g: "gcm C (dk salt) = None"
    and m: "C_marshal_blob C \<lparr>eb_Version = encVersion, eb_KDF = ''argon2id'', eb_Time = argonTime,
                      eb_MemKiB = argonMemKiB, eb_Threads = argonThreads, eb_Salt = salt, eb_Nonce = nonce,
                      eb_CT = C_Seal C (dk salt) nonce pem\<rparr> = Inr blob"
    using assms(3) by (auto simp: sealKeyPEM_def Let_def dk_def split: if_splits sum.splits option.splits)
  have "C_unmarshal_blob C blob = Inr \<lparr>eb_Version = encVersion, eb_KDF = ''argon2id'', eb_Time = argonTime,
                      eb_MemKiB = argonMemKiB, eb_Threads = argonThreads, eb_Salt = salt, eb_Nonce = nonce,
                      eb_CT = C_Seal C (dk salt) nonce pem\<rparr>"
    using assms(2) m by (simp add: blob_law_def)
  moreover have "C_Open C (dk salt) nonce (C_Seal C (dk salt) nonce pem) = Inr pem"
    using assms(1) g by (simp add: gcm_law_def gcm_def)
  ultimately show ?thesis using p g by (simp add: openKeyPEM_def Let_def dk_def)
qed

text \<open>The files of a store are where they were put, and different names are different files.\<close>

lemma plain_segs_code: "list_all plain_seg (x # xs) \<longleftrightarrow> plain_seg x \<and> list_all plain_seg xs" "list_all plain_seg []"
  by simp_all

lemma ca_path_Clean: "list_all plain_seg xs \<Longrightarrow> xs \<noteq> [] \<Longrightarrow> Clean (ca_path s xs) = ca_path s xs"
  by (simp add: ca_path_def Join_plain_Clean)

lemma ca_path_inj:
  "list_all plain_seg xs \<Longrightarrow> xs \<noteq> [] \<Longrightarrow> list_all plain_seg ys \<Longrightarrow> ys \<noteq> [] \<Longrightarrow>
     ca_path s xs = ca_path s ys \<longleftrightarrow> xs = ys"
  by (simp add: ca_path_def Join_plain_inj)

lemma ca_path_nonempty: "list_all plain_seg xs \<Longrightarrow> xs \<noteq> [] \<Longrightarrow> ca_path s xs \<noteq> []"
  by (simp add: ca_path_def Join_plain_nonempty)

lemmas path_simps = ca_path_Clean ca_path_inj ca_path_nonempty plain_seg_def

lemma loadLedger_saved:
  assumes "ledger_law C" "saveLedger C F s l d = (None, d')" "good_ledger l"
    "fa_read F (ca_path s [''ledger.json'']) = None"
  shows "loadLedger C F s d' = Inr l"
proof -
  obtain x where "C_marshal_ledger C l = Inr x" "C_unmarshal_ledger C x = Inr l"
    using assms(1,3) by (auto simp: ledger_law_def)
  then show ?thesis
    using assms(2,4) WriteFile_ok [of F "ca_path s [''ledger.json'']" x d d']
    by (simp add: saveLedger_def loadLedger_def ReadFile_def or_nil_def path_simps)
qed

text \<open>An authority that was written is loaded again, wherever no stale sealed key lies beside a plain one.\<close>

lemma writeCA_files:
  assumes "writeCA L P C F s n name c d = (None, d')" "plain_seg name"
  obtains pem key where "MarshalPKCS8PEM P (Some (ca_Key c)) = Inr pem"
    "if st_Passphrase s \<noteq> [] then sealKeyPEM L C n pem (st_Passphrase s) = Inr key else key = pem"
    "d' = put_file (ca_path s [name, ''cert.pem'']) (CertPEM P (ca_Cert c))
      (put_file (ca_path s [name, if st_Passphrase s \<noteq> [] then ''key.pem.enc'' else ''key.pem'']) key d)"
  using assms
  by (auto simp: writeCA_def Let_def split: sum.splits if_splits prod.splits option.splits dest!: WriteFile_ok)

lemma loadCA_written:
  assumes laws: "pem_law L P" "pem_progress L" "key_law P" "gcm_law C" "blob_law C"
    and w: "writeCA L P C F s n name c d = (None, d')" and name: "plain_seg name"
    and stale: "st_Passphrase s = [] \<Longrightarrow> map_of (d_files d) (ca_path s [name, ''key.pem.enc'']) = None"
    and rd: "\<And>f. fa_read F (ca_path s [name, f]) = None"
    and sk: "sk_params (ca_Key c) = ''ML-DSA-65''" and crt: "L_ParseCertificate L (x_Raw (ca_Cert c)) = Inr (ca_Cert c)"
  shows "loadCA L P C F s name d' = Inr c"
proof -
  obtain pem key where pem: "MarshalPKCS8PEM P (Some (ca_Key c)) = Inr pem"
    and key: "if st_Passphrase s \<noteq> [] then sealKeyPEM L C n pem (st_Passphrase s) = Inr key else key = pem"
    and d': "d' = put_file (ca_path s [name, ''cert.pem'']) (CertPEM P (ca_Cert c))
      (put_file (ca_path s [name, if st_Passphrase s \<noteq> [] then ''key.pem.enc'' else ''key.pem'']) key d)"
    using writeCA_files [OF w name] by blast
  have pl: "list_all plain_seg [name, ''cert.pem'']" "list_all plain_seg [name, ''key.pem.enc'']"
      "list_all plain_seg [name, ''key.pem'']"
    using name by (simp_all add: plain_seg_def)
  note ps = pl [THEN ca_path_Clean, simplified] pl [THEN ca_path_nonempty, simplified]
    ca_path_inj [OF pl(1) _ pl(2), simplified] ca_path_inj [OF pl(1) _ pl(3), simplified]
    ca_path_inj [OF pl(2) _ pl(1), simplified] ca_path_inj [OF pl(3) _ pl(1), simplified]
    ca_path_inj [OF pl(2) _ pl(3), simplified] ca_path_inj [OF pl(3) _ pl(2), simplified]
  have "load_key L C F s name d' = Inr pem"
    using key stale openKeyPEM_sealed [OF laws(4,5), of L n pem "st_Passphrase s" key]
    by (cases "st_Passphrase s = []") (simp_all add: load_key_def ReadFile_def d' ps rd)
  moreover have "ReadFile F d' (ca_path s [name, ''cert.pem'']) = Inr (CertPEM P (ca_Cert c))"
    by (simp add: ReadFile_def d' ps rd)
  moreover have "ParseCertificatePEM L (CertPEM P (ca_Cert c)) = Inr (ca_Cert c)"
    using ParseCertificatePEM_CertPEM [OF laws(1,2), of "ca_Cert c" "[]"] crt by simp
  ultimately show ?thesis
    using key_roundtrip [OF laws(1,3) sk pem] by (simp add: loadCA_def)
qed

text \<open>Writing the published files touches nothing outside \<open>public/\<close>, and each of them then has its contents.\<close>

lemma write_all_other:
  "list_all (\<lambda>w. plain_seg (fst w)) ws \<Longrightarrow> \<forall>w \<in> set ws. q \<noteq> ca_path s [''public'', fst w] \<Longrightarrow>
     map_of (d_files (snd (write_all F s ws d))) q = map_of (d_files d) q"
proof (induction F s ws d rule: write_all.induct)
  case (2 F s name b ws d)
  have "Clean (ca_path s [''public'', name]) = ca_path s [''public'', name]"
    using 2(2) by (intro ca_path_Clean) (simp_all add: plain_seg_def)
  then have "map_of (d_files (snd (WriteFile F (ca_path s [''public'', name]) b d))) q = map_of (d_files d) q"
    using 2(3) by (intro WriteFile_other) simp
  then show ?case using 2 by (auto split: prod.splits option.splits)
qed simp

lemma write_all_ok:
  "write_all F s ws d = (None, d') \<Longrightarrow> list_all (\<lambda>w. plain_seg (fst w)) ws \<Longrightarrow> keys_distinct ws \<Longrightarrow>
     map_of ws name = Some b \<Longrightarrow> map_of (d_files d') (ca_path s [''public'', name]) = Some b"
proof (induction F s ws d rule: write_all.induct)
  case (2 F s nm b' ws d)
  obtain d1 where d1: "WriteFile F (ca_path s [''public'', nm]) b' d = (None, d1)" "write_all F s ws d1 = (None, d')"
    using 2(2) by (auto split: prod.splits option.splits)
  show ?case
  proof (cases "name = nm")
    case True
    have pn: "Clean (ca_path s [''public'', nm]) = ca_path s [''public'', nm]"
      using 2(3) by (intro ca_path_Clean) (simp_all add: plain_seg_def)
    have "\<forall>w \<in> set ws. ca_path s [''public'', nm] \<noteq> ca_path s [''public'', fst w]"
    proof
      fix w assume "w \<in> set ws"
      then have "fst w \<noteq> nm" "plain_seg (fst w)" using 2(3,4) by (force simp: list_all_iff)+
      then show "ca_path s [''public'', nm] \<noteq> ca_path s [''public'', fst w]"
        using 2(3) by (subst ca_path_inj) (auto simp: plain_seg_def)
    qed
    then have "map_of (d_files d') (ca_path s [''public'', nm]) = map_of (d_files d1) (ca_path s [''public'', nm])"
      using write_all_other [of ws "ca_path s [''public'', nm]" s F d1] d1(2) 2(3) by simp
    then show ?thesis using WriteFile_ok [OF d1(1)] True 2(5) by (simp add: pn)
  next
    case False
    then show ?thesis using 2(1) [OF d1(1) [symmetric] refl d1(2)] 2(3,4,5) by simp
  qed
qed simp

end
