(* ===== verification/CAAdmin.thy ===== *)
theory CAAdmin
  imports CAStore
begin

section \<open>The commands of the offline authority (\<open>tools/ca-admin/main.go\<close>, \<open>backup.go\<close>)\<close>

text \<open>
  Every subcommand of \<open>ca-admin\<close> after its flags have been parsed, as a function on the disk. What is
  printed is not modelled; the exit of a command is its \<open>cmd_exit\<close>. \<open>PQC_CA_PASSPHRASE\<close> and
  \<open>PQC_CA_OPERATOR\<close>, the clock, the draws and the order of map iteration are the record \<open>ca_env\<close>. The
  archive formats \<open>tar\<close> and \<open>gzip\<close> are the record \<open>tar_lib\<close>: an archive is read as a stream of entries.
\<close>

subsection \<open>Environment\<close>

datatype cmd_exit = Exited | Failed error | Crashed string

record ca_env =
  ev_L :: lib
  ev_P :: pki_lib
  ev_C :: ca_lib
  ev_F :: faults
  ev_ord :: "(string \<times> bytes) list \<Rightarrow> (string \<times> bytes) list"
  ev_n :: nat
  ev_now :: "nat \<Rightarrow> time"
  ev_pass :: string
  ev_oper :: string

definition wrap64 :: "int \<Rightarrow> int" where
  "wrap64 n = sint (word_of_int n :: 64 word)"

text \<open>\<open>time.Duration(days) * 24 * time.Hour\<close>.\<close>

definition days_duration :: "int \<Rightarrow> duration" where
  "days_duration days = wrap64 (days * 24 * hour)"

definition pkixName :: "string \<Rightarrow> string \<Rightarrow> name" where
  "pkixName cn org = \<lparr>n_CommonName = cn, n_Organization = (if org \<noteq> [] then [org] else []), n_OrganizationalUnit = []\<rparr>"

definition reasonCodes :: "(string, int) gomap" where
  "reasonCodes = [(''unspecified'', 0), (''keyCompromise'', 1), (''cACompromise'', 2), (''affiliationChanged'', 3),
     (''superseded'', 4), (''cessationOfOperation'', 5), (''certificateHold'', 6), (''privilegeWithdrawn'', 9)]"

definition ca_open :: "ca_env \<Rightarrow> string \<Rightarrow> disk \<Rightarrow> ca_store result" where
  "ca_open E dir d = ca_openStore dir (ev_pass E) (ev_oper E) d"

abbreviation inter_of :: "ca_env \<Rightarrow> ca_store \<Rightarrow> disk \<Rightarrow> ca result" where
  "inter_of E s d \<equiv> Intermediate (ev_L E) (ev_P E) (ev_C E) (ev_F E) s d"

abbreviation root_of :: "ca_env \<Rightarrow> ca_store \<Rightarrow> disk \<Rightarrow> ca result" where
  "root_of E s d \<equiv> Root (ev_L E) (ev_P E) (ev_C E) (ev_F E) s d"

text \<open>The ceremony log is written last and its error is ignored.\<close>

definition log_done :: "ca_env \<Rightarrow> time \<Rightarrow> ca_store \<Rightarrow> string \<Rightarrow> string \<Rightarrow> string list \<Rightarrow> disk \<Rightarrow> cmd_exit \<times> disk" where
  "log_done E now s action note artifacts d =
     (Exited, snd (logCeremony (ev_L E) (ev_C E) (ev_F E) now s action note artifacts d))"

subsection \<open>Setting up\<close>

definition cmdInit :: "ca_env \<Rightarrow> string \<Rightarrow> string \<Rightarrow> string \<Rightarrow> disk \<Rightarrow> cmd_exit \<times> disk" where
  "cmdInit E dir rootCN interCN d =
     (let s = \<lparr>st_Dir = dir, st_Passphrase = ev_pass E, st_Operator = ev_oper E\<rparr> in
      case ca_Init (ev_L E) (ev_P E) (ev_C E) (ev_F E) (ev_ord E) (ev_n E) (ev_now E) s rootCN interCN d of
        (Some e, d1) \<Rightarrow> (Failed e, d1)
      | (None, d1) \<Rightarrow>
          let keyFiles = (if encrypted s d1 then [''root/key.pem.enc'', ''intermediate/key.pem.enc'']
                          else [''root/key.pem'', ''intermediate/key.pem'']);
              d2 = snd (logCeremony (ev_L E) (ev_C E) (ev_F E) (ev_now E 2) s ''ca.init'' ''root+intermediate generated''
                     (keyFiles @ [''root/cert.pem'', ''intermediate/cert.pem'', ''public/root-ca.crt.pem'',
                        ''public/intermediate-ca.crt.pem'', ''public/ca-chain.pem'']) d1)
          in (case (root_of E s d1, inter_of E s d1) of
                (Inr r, Inr i) \<Rightarrow> (Exited, d2)
              | _ \<Rightarrow> (Crashed ''nil pointer dereference'', d2)))"

subsection \<open>Issuing\<close>

definition cmdValidate :: "ca_env \<Rightarrow> string \<Rightarrow> disk \<Rightarrow> cmd_exit \<times> disk" where
  "cmdValidate E csrPath d =
     (if csrPath = [] then (Failed (Errorf ''-csr is required''), d)
      else case ReadFile (ev_F E) d csrPath of
        Inl e \<Rightarrow> (Failed e, d)
      | Inr raw \<Rightarrow>
          (case ParseAndValidateCSR (ev_L E) raw of
             Inl e \<Rightarrow> (Failed e, d)
           | Inr (csr, info) \<Rightarrow> (Exited, d)))"

text \<open>\<open>k\<close> is the index of the draw; the clock is read twice.\<close>

definition issueOne :: "ca_env \<Rightarrow> nat \<Rightarrow> ca_store \<Rightarrow> ca \<Rightarrow> bytes \<Rightarrow> string \<Rightarrow> string \<Rightarrow> string \<Rightarrow> string \<Rightarrow> string \<Rightarrow> int \<Rightarrow>
    string \<Rightarrow> disk \<Rightarrow> issued_record result \<times> disk" where
  "issueOne E k s i csrPEM account device cn org crlURL days outPath d =
     (case ParseAndValidateCSR (ev_L E) csrPEM of
        Inl e \<Rightarrow> (Inl (Errorf (''CSR rejected: '' @ Error e)), d)
      | Inr (csr, csrInfo) \<Rightarrow>
          (case IssueDeviceCert (ev_L E) (ev_P E) k (ev_now E (2 * k)) i (Some csr)
                  \<lparr>dc_Subject = pkixName cn org, dc_Validity = days_duration days, dc_CRLURL = crlURL,
                   dc_NotBefore = zero_time\<rparr> of
             Inl e \<Rightarrow> (Inl e, d)
           | Inr cert \<Rightarrow>
               (case WriteFile (ev_F E) outPath (CertPEM (ev_P E) cert) d of
                  (Some e, d1) \<Rightarrow> (Inl e, d1)
                | (None, d1) \<Rightarrow>
                    (case WriteFile (ev_F E) (outPath @ ''.fullchain.pem'') (ChainPEM (ev_P E) [cert, ca_Cert i]) d1 of
                       (Some e, d2) \<Rightarrow> (Inl e, d2)
                     | (None, d2) \<Rightarrow>
                         let r = \<lparr>ir_Serial = certSerialHex cert, ir_Subject = x_Subject cert, ir_Account = account,
                                  ir_DeviceLabel = device, ir_Fingerprint = FingerprintSHA256 (ev_L E) cert,
                                  ir_NotAfter = x_NotAfter cert, ir_IssuedAt = ev_now E (2 * k + 1),
                                  ir_CSRFP = qi_PublicKeyFP csrInfo\<rparr>
                         in (case appendIssued (ev_C E) (ev_F E) s r d2 of
                               (Some e, d3) \<Rightarrow> (Inl e, d3)
                             | (None, d3) \<Rightarrow> (Inr r, d3))))))"

definition cmdIssue :: "ca_env \<Rightarrow> string \<Rightarrow> string \<Rightarrow> string \<Rightarrow> string \<Rightarrow> string \<Rightarrow> string \<Rightarrow> int \<Rightarrow> string \<Rightarrow> string \<Rightarrow>
    disk \<Rightarrow> cmd_exit \<times> disk" where
  "cmdIssue E dir csrPath account device cn org days crlURL out d =
     (if csrPath = [] \<or> account = [] \<or> device = [] \<or> cn = [] then
        (Failed (Errorf ''-csr, -account, -device and -cn are required''), d)
      else case ca_open E dir d of
        Inl e \<Rightarrow> (Failed e, d)
      | Inr s \<Rightarrow>
          (case inter_of E s d of
             Inl e \<Rightarrow> (Failed e, d)
           | Inr i \<Rightarrow>
               (case ReadFile (ev_F E) d csrPath of
                  Inl e \<Rightarrow> (Failed e, d)
                | Inr raw \<Rightarrow>
                    (case issueOne E (ev_n E) s i raw account device cn org crlURL days out d of
                       (Inl e, d1) \<Rightarrow> (Failed e, d1)
                     | (Inr r, d1) \<Rightarrow>
                         log_done E (ev_now E (2 * ev_n E + 2)) s ''cert.issue'' ''1 certificate'' [''issued.jsonl''] d1))))"

definition certFileName :: "string \<Rightarrow> string" where
  "certFileName stem = stem @ ''.crt.pem''"

text \<open>The metadata file: the struct with the fields the JSON sets, starting from the defaults. The
  codec is the argument \<open>J\<close>; its error is ignored.\<close>

record batch_meta =
  bm_Account :: string
  bm_Device :: string
  bm_CN :: string

fun batch_loop :: "ca_env \<Rightarrow> (bytes \<Rightarrow> batch_meta \<Rightarrow> batch_meta) \<Rightarrow> ca_store \<Rightarrow> ca \<Rightarrow> string \<Rightarrow> string \<Rightarrow> string \<Rightarrow> string \<Rightarrow>
    string \<Rightarrow> int \<Rightarrow> nat \<Rightarrow> (string \<times> bool) list \<Rightarrow> disk \<Rightarrow> nat result \<times> disk" where
  "batch_loop E J s i inDir outDir account org crlURL days count [] d = (Inr count, d)"
| "batch_loop E J s i inDir outDir account org crlURL days count ((nm, isdir) # es) d =
     (if isdir \<or> \<not> HasSuffix nm ''.csr.pem'' then batch_loop E J s i inDir outDir account org crlURL days count es d
      else
        let stem = TrimSuffix nm ''.csr.pem'';
            m0 = \<lparr>bm_Account = account, bm_Device = stem, bm_CN = stem\<rparr>;
            m = (case ReadFile (ev_F E) d (Join [inDir, stem @ ''.meta.json'']) of Inl e \<Rightarrow> m0 | Inr mb \<Rightarrow> J mb m0)
        in (case ReadFile (ev_F E) d (Join [inDir, nm]) of
              Inl e \<Rightarrow> (Inl e, d)
            | Inr raw \<Rightarrow>
                (case issueOne E (ev_n E + count) s i raw (bm_Account m) (bm_Device m) (bm_CN m) org crlURL days
                        (Join [outDir, certFileName stem]) d of
                   (Inl e, d1) \<Rightarrow> (Inl (Errorf (nm @ '': '' @ Error e)), d1)
                 | (Inr r, d1) \<Rightarrow> batch_loop E J s i inDir outDir account org crlURL days (Suc count) es d1)))"

definition cmdBatchIssue :: "ca_env \<Rightarrow> (bytes \<Rightarrow> batch_meta \<Rightarrow> batch_meta) \<Rightarrow> string \<Rightarrow> string \<Rightarrow> string \<Rightarrow> string \<Rightarrow> string \<Rightarrow> int \<Rightarrow>
    string \<Rightarrow> disk \<Rightarrow> cmd_exit \<times> disk" where
  "cmdBatchIssue E J dir inDir outDir account org days crlURL d =
     (if inDir = [] then (Failed (Errorf ''-in is required''), d)
      else case ca_open E dir d of
        Inl e \<Rightarrow> (Failed e, d)
      | Inr s \<Rightarrow>
          (case inter_of E s d of
             Inl e \<Rightarrow> (Failed e, d)
           | Inr i \<Rightarrow>
               (case ReadDir d inDir of
                  Inl e \<Rightarrow> (Failed e, d)
                | Inr entries \<Rightarrow>
                    (case MkdirAll (ev_F E) outDir d of
                       (Some e, d1) \<Rightarrow> (Failed e, d1)
                     | (None, d1) \<Rightarrow>
                         (case batch_loop E J s i inDir outDir account org crlURL days 0 entries d1 of
                            (Inl e, d2) \<Rightarrow> (Failed e, d2)
                          | (Inr count, d2) \<Rightarrow>
                              log_done E (ev_now E (2 * (ev_n E + count) + 2)) s ''cert.batch-issue''
                                (dec_nat count @ '' certificates from '' @ inDir) [''issued.jsonl''] d2)))))"

subsection \<open>Revoking\<close>

text \<open>\<open>big.Int.SetString(s, 16)\<close>: an optional sign and at least one digit of either case.\<close>

definition hex_val :: "char \<Rightarrow> nat option" where
  "hex_val c =
     (if byte_in c 48 57 then Some (of_char c - 48)
      else if byte_in c 97 102 then Some (of_char c - 87)
      else if byte_in c 65 70 then Some (of_char c - 55) else None)"

fun hex_digits :: "nat \<Rightarrow> string \<Rightarrow> nat option" where
  "hex_digits acc [] = Some acc"
| "hex_digits acc (c # cs) = (case hex_val c of None \<Rightarrow> None | Some v \<Rightarrow> hex_digits (16 * acc + v) cs)"

definition SetString16 :: "string \<Rightarrow> int option" where
  "SetString16 s =
     (let neg = HasPrefix s ''-'';
          ds = (if neg \<or> HasPrefix s ''+'' then tl s else s)
      in if ds = [] then None
         else map_option (\<lambda>n. if neg then - int n else int n) (hex_digits 0 ds))"

definition cmdRevoke :: "ca_env \<Rightarrow> string \<Rightarrow> string \<Rightarrow> string \<Rightarrow> disk \<Rightarrow> cmd_exit \<times> disk" where
  "cmdRevoke E dir serial reason d =
     (if serial = [] then (Failed (Errorf ''-serial is required (hex, as printed by `issue` or `show`)''), d)
      else if SetString16 serial = None then (Failed (Errorf (''invalid hex serial '' @ quoted serial)), d)
      else case map_of reasonCodes reason of
        None \<Rightarrow> (Failed (Errorf (''unknown reason '' @ quoted reason)), d)
      | Some code \<Rightarrow>
          (case ca_open E dir d of
             Inl e \<Rightarrow> (Failed e, d)
           | Inr s \<Rightarrow>
               (case loadLedger (ev_C E) (ev_F E) s d of
                  Inl e \<Rightarrow> (Failed e, d)
                | Inr l \<Rightarrow>
                    (case find (\<lambda>r. rv_Serial r = serial) (lg_Revocations l) of
                       Some r \<Rightarrow>
                         (Failed (Errorf (''serial '' @ serial @ '' is already revoked ('' @ Format_RFC3339 (rv_RevokedAt r) 0 @ '')'')), d)
                     | None \<Rightarrow>
                         let l1 = l\<lparr>lg_Revocations := lg_Revocations l @
                               [\<lparr>rv_Serial = serial, rv_Reason = reason, rv_ReasonCode = code, rv_RevokedAt = ev_now E 0\<rparr>]\<rparr>
                         in (case saveLedger (ev_C E) (ev_F E) s l1 d of
                               (Some e, d1) \<Rightarrow> (Failed e, d1)
                             | (None, d1) \<Rightarrow>
                                 log_done E (ev_now E 1) s ''cert.revoke'' (serial @ '' '' @ reason) [''ledger.json''] d1)))))"

definition crl_entries :: "ledger \<Rightarrow> revoked_entry list" where
  "crl_entries l = map (\<lambda>r. \<lparr>re_Serial = SetString16 (rv_Serial r), re_Reason = rv_ReasonCode r, re_At = rv_RevokedAt r\<rparr>)
     (lg_Revocations l)"

text \<open>After publishing: the ledger, the copy and the log, for the ledger \<open>l1\<close> with its new number.\<close>

definition crl_record :: "ca_env \<Rightarrow> ca_store \<Rightarrow> ledger \<Rightarrow> bytes \<Rightarrow> string \<Rightarrow> disk \<Rightarrow> cmd_exit \<times> disk" where
  "crl_record E s l1 crlPEM out d =
     (case saveLedger (ev_C E) (ev_F E) s l1 d of
        (Some e, d2) \<Rightarrow> (Failed e, d2)
      | (None, d2) \<Rightarrow>
          (case (if out \<noteq> [] then WriteFile (ev_F E) out crlPEM d2 else (None, d2)) of
             (Some e, d3) \<Rightarrow> (Failed e, d3)
           | (None, d3) \<Rightarrow>
               log_done E (ev_now E 1) s ''crl.publish''
                 (''CRL #'' @ dec_int (lg_CRLNumber l1) @ '', '' @ dec_nat (length (lg_Revocations l1)) @ '' entries'')
                 [''public/crl.pem'', ''ledger.json''] d3))"

definition cmdCRL :: "ca_env \<Rightarrow> string \<Rightarrow> int \<Rightarrow> string \<Rightarrow> disk \<Rightarrow> cmd_exit \<times> disk" where
  "cmdCRL E dir days out d =
     (case ca_open E dir d of
        Inl e \<Rightarrow> (Failed e, d)
      | Inr s \<Rightarrow>
          (case loadLedger (ev_C E) (ev_F E) s d of
             Inl e \<Rightarrow> (Failed e, d)
           | Inr l \<Rightarrow>
               (case inter_of E s d of
                  Inl e \<Rightarrow> (Failed e, d)
                | Inr i \<Rightarrow>
                    let l1 = l\<lparr>lg_CRLNumber := wrap64 (lg_CRLNumber l + 1)\<rparr> in
                    (case NewCRLDetailed (ev_P E) (ev_now E 0) i (crl_entries l) (lg_CRLNumber l1) (days_duration days) of
                       Inl e \<Rightarrow> (Failed e, d)
                     | Inr crlPEM \<Rightarrow>
                         (case publish (ev_L E) (ev_P E) (ev_C E) (ev_F E) (ev_ord E) s i (Some crlPEM) d of
                            (Some e, d1) \<Rightarrow> (Failed e, d1)
                          | (None, d1) \<Rightarrow> crl_record E s l1 crlPEM out d1)))))"

subsection \<open>Looking\<close>

definition cmdStatus :: "ca_env \<Rightarrow> string \<Rightarrow> disk \<Rightarrow> cmd_exit \<times> disk" where
  "cmdStatus E dir d =
     (case ca_open E dir d of
        Inl e \<Rightarrow> (Failed e, d)
      | Inr s \<Rightarrow>
          (case root_of E s d of
             Inl e \<Rightarrow> (Failed e, d)
           | Inr r \<Rightarrow>
               (case inter_of E s d of
                  Inl e \<Rightarrow> (Failed e, d)
                | Inr i \<Rightarrow>
                    (case hasPrivateKeyLeak (ev_F E) s d of
                       Some nm \<Rightarrow> (Failed (Errorf (''GATE FAIL: '' @ dir @ ''/public/'' @ nm @ '' contains private key material'')), d)
                     | None \<Rightarrow> (Exited, d)))))"

definition cmdShow :: "ca_env \<Rightarrow> string \<Rightarrow> disk \<Rightarrow> cmd_exit \<times> disk" where
  "cmdShow E inPath d =
     (if inPath = [] then (Failed (Errorf ''-in is required''), d)
      else case ReadFile (ev_F E) d inPath of
        Inl e \<Rightarrow> (Failed e, d)
      | Inr raw \<Rightarrow>
          (case L_pem_decode (ev_L E) raw of
             None \<Rightarrow> (Failed (Errorf ''no PEM block found''), d)
           | Some (ty, block, rest) \<Rightarrow>
               if ty = ''CERTIFICATE'' then
                 (case L_ParseCertificate (ev_L E) block of Inl e \<Rightarrow> (Failed e, d) | Inr c \<Rightarrow> (Exited, d))
               else if ty = ''X509 CRL'' then
                 (case L_ParseRevocationList (ev_L E) block of Inl e \<Rightarrow> (Failed e, d) | Inr l \<Rightarrow> (Exited, d))
               else (Failed (Errorf (''unsupported PEM type '' @ quoted ty)), d)))"

subsection \<open>Backup and restore\<close>

datatype tar_type = TypeDir | TypeReg | TypeOther

record tar_entry =
  te_Name :: string
  te_Type :: tar_type
  te_Data :: bytes

text \<open>Reading an archive gives its entries until its end or an error; copying out a file may end in an
  error after part of its data.\<close>

datatype tar_stream = TarEnd | TarErr error | TarBroken tar_entry error | TarEntry tar_entry tar_stream

record tar_lib =
  T_write :: "tar_entry list \<Rightarrow> bytes"
  T_read :: "bytes \<Rightarrow> tar_stream result"

definition tar_name :: "string \<Rightarrow> string \<Rightarrow> string result" where
  "tar_name root p = Rel (Dir root) p"

fun tar_entries :: "faults \<Rightarrow> string \<Rightarrow> (string \<times> bytes option) list \<Rightarrow> tar_entry list result" where
  "tar_entries F root [] = Inr []"
| "tar_entries F root ((p, c) # ps) =
     (case tar_name root p of
        Inl e \<Rightarrow> Inl e
      | Inr rel \<Rightarrow>
          (case c of
             None \<Rightarrow> map_sum id (Cons \<lparr>te_Name = rel, te_Type = TypeDir, te_Data = []\<rparr>) (tar_entries F root ps)
           | Some b \<Rightarrow>
               (case fa_read F p of
                  Some e \<Rightarrow> Inl e
                | None \<Rightarrow> map_sum id (Cons \<lparr>te_Name = rel, te_Type = TypeReg, te_Data = b\<rparr>) (tar_entries F root ps))))"

text \<open>The archive is created empty before the directory is walked, written during the walk and completed
  when the writers are closed, after the ceremony log; the errors of closing are ignored. A write error
  that shows up before closing (\<open>early\<close>) ends the walk. A walk that fails leaves an incomplete archive,
  whose contents are \<open>part\<close>.\<close>

definition backup_stamp :: "time \<Rightarrow> string" where
  "backup_stamp t =
     (let (y, mo, dy) = civil (day_of t 0);
          sec = t div second mod 86400
      in dec04 y @ dec02 mo @ dec02 dy @ ''T'' @ dec02 (sec div 3600) @ dec02 (sec mod 3600 div 60) @ dec02 (sec mod 60) @ ''Z'')"

definition cmdBackup :: "ca_env \<Rightarrow> tar_lib \<Rightarrow> bool \<Rightarrow> bytes \<Rightarrow> string \<Rightarrow> string \<Rightarrow> disk \<Rightarrow> cmd_exit \<times> disk" where
  "cmdBackup E T early part dir out d =
     (case ca_open E dir d of
        Inl e \<Rightarrow> (Failed e, d)
      | Inr s \<Rightarrow>
          let target = (if out = [] then ''ca-backup-'' @ backup_stamp (ev_now E 0) @ ''.tar.gz'' else out) in
          (if \<not> creatable d target then (Failed (ENOENT ''open'' target), d)
           else case fa_write (ev_F E) (Clean target) of
             Some (OpenFails e) \<Rightarrow> (Failed e, d)
           | w \<Rightarrow>
               let d1 = put_file target [] d;
                   root = Clean dir
               in (case tar_entries (ev_F E) root (Walk d1 root) of
                     Inl e \<Rightarrow> (Failed e, put_file target part d1)
                   | Inr es \<Rightarrow>
                       let arch = T_write T es;
                           count = length (filter (\<lambda>e. te_Type e = TypeReg) es);
                           note = target @ '' ('' @ dec_nat count @ '' files)'';
                           d2 = snd (logCeremony (ev_L E) (ev_C E) (ev_F E) (ev_now E 1) s ''ca.backup'' note [] d1)
                       in (case w of
                             Some (WriteFails n e) \<Rightarrow>
                               if early then (Failed e, put_file target (take n arch) d1)
                               else (Exited, put_file target (take n arch) d2)
                           | _ \<Rightarrow> (Exited, put_file target arch d2)))))"

definition SplitN2 :: "string \<Rightarrow> char \<Rightarrow> string list" where
  "SplitN2 s c =
     (if c \<in> set s then [takeWhile (\<lambda>x. x \<noteq> c) s, tl (dropWhile (\<lambda>x. x \<noteq> c) s)] else [s])"

text \<open>The destination of an archive entry: an error, nothing for the top-level directory, or a path.\<close>

definition entry_dst :: "string \<Rightarrow> string \<Rightarrow> string option result" where
  "entry_dst dest nm =
     (let clean = Clean nm in
      if HasPrefix clean ''..'' \<or> IsAbs clean then Inl (Errorf (''unsafe path in archive: '' @ quoted nm))
      else case SplitN2 clean (CHR ''/'') of
        [a, b] \<Rightarrow>
          let dst = Join [dest, b];
              rel = (case Rel dest dst of Inl e \<Rightarrow> [] | Inr r \<Rightarrow> r)
          in if HasPrefix rel ''..'' then Inl (Errorf (''unsafe path in archive: '' @ quoted nm)) else Inr (Some dst)
      | _ \<Rightarrow> Inr None)"

definition restore_entry :: "faults \<Rightarrow> string \<Rightarrow> tar_entry \<Rightarrow> disk \<Rightarrow> error option \<times> disk" where
  "restore_entry F dest e d =
     (case entry_dst dest (te_Name e) of
        Inl er \<Rightarrow> (Some er, d)
      | Inr None \<Rightarrow> (None, d)
      | Inr (Some dst) \<Rightarrow>
          (case te_Type e of
             TypeDir \<Rightarrow> MkdirAll F dst d
           | TypeReg \<Rightarrow>
               (case MkdirAll F (Dir dst) d of
                  (Some er, d1) \<Rightarrow> (Some er, d1)
                | (None, d1) \<Rightarrow> WriteFile F dst (te_Data e) d1)
           | TypeOther \<Rightarrow> (None, d)))"

fun restore_loop :: "faults \<Rightarrow> string \<Rightarrow> tar_stream \<Rightarrow> disk \<Rightarrow> error option \<times> disk" where
  "restore_loop F dest TarEnd d = (None, d)"
| "restore_loop F dest (TarErr e) d = (Some e, d)"
| "restore_loop F dest (TarBroken te e) d =
     (case restore_entry F dest te d of
        (Some er, d1) \<Rightarrow> (Some er, d1)
      | (None, d1) \<Rightarrow> (Some e, d1))"
| "restore_loop F dest (TarEntry te ts) d =
     (case restore_entry F dest te d of
        (Some er, d1) \<Rightarrow> (Some er, d1)
      | (None, d1) \<Rightarrow> restore_loop F dest ts d1)"

definition cmdRestore :: "ca_env \<Rightarrow> tar_lib \<Rightarrow> string \<Rightarrow> string \<Rightarrow> disk \<Rightarrow> cmd_exit \<times> disk" where
  "cmdRestore E T inPath dir d =
     (if inPath = [] \<or> dir = [] then (Failed (Errorf ''-in and -dir are required''), d)
      else if Stat d dir then (Failed (Errorf (dir @ '' already exists; restore refuses to overwrite'')), d)
      else case ReadFile (ev_F E) d inPath of
        Inl e \<Rightarrow> (Failed e, d)
      | Inr raw \<Rightarrow>
          (case T_read T raw of
             Inl e \<Rightarrow> (Failed e, d)
           | Inr stream \<Rightarrow>
               (case MkdirAll (ev_F E) (Clean dir) d of
                  (Some e, d1) \<Rightarrow> (Failed e, d1)
                | (None, d1) \<Rightarrow>
                    (case restore_loop (ev_F E) (Clean dir) stream d1 of
                       (Some e, d2) \<Rightarrow> (Failed e, d2)
                     | (None, d2) \<Rightarrow>
                         (case ca_open E dir d2 of
                            Inl e \<Rightarrow> (Failed (Errorf (''restore incomplete: '' @ Error e)), d2)
                          | Inr s \<Rightarrow>
                              (case root_of E s d2 of
                                 Inl e \<Rightarrow> (Failed (Errorf (''restored CA is unusable: '' @ Error e)), d2)
                               | Inr r \<Rightarrow>
                                   (case hasPrivateKeyLeak (ev_F E) s d2 of
                                      Some nm \<Rightarrow> (Failed (Errorf (''GATE FAIL after restore: public/'' @ nm @ '' has private key material'')), d2)
                                    | None \<Rightarrow> (Exited, d2))))))))"

subsection \<open>The command line\<close>

datatype ca_cmd =
    CInit string string string
  | CValidate string
  | CIssue string string string string string string int string string
  | CBatch string string string string string int string
  | CRevoke string string string
  | CCRL string int string
  | CStatus string
  | CBackup string string
  | CRestore string string
  | CShow string
  | CHelp
  | CUnknown

text \<open>The exit code of the process: 0, 1 for an error, 2 for a usage error or a crash.\<close>

definition ca_run :: "ca_env \<Rightarrow> tar_lib \<Rightarrow> (bytes \<Rightarrow> batch_meta \<Rightarrow> batch_meta) \<Rightarrow> bool \<Rightarrow> bytes \<Rightarrow> ca_cmd \<Rightarrow> disk \<Rightarrow> cmd_exit \<times> disk" where
  "ca_run E T J early part c d =
     (case c of
        CInit dir rcn icn \<Rightarrow> cmdInit E dir rcn icn d
      | CValidate csr \<Rightarrow> cmdValidate E csr d
      | CIssue dir csr acct dev cn org days crl out \<Rightarrow> cmdIssue E dir csr acct dev cn org days crl out d
      | CBatch dir inDir outDir acct org days crl \<Rightarrow> cmdBatchIssue E J dir inDir outDir acct org days crl d
      | CRevoke dir serial reason \<Rightarrow> cmdRevoke E dir serial reason d
      | CCRL dir days out \<Rightarrow> cmdCRL E dir days out d
      | CStatus dir \<Rightarrow> cmdStatus E dir d
      | CBackup dir target \<Rightarrow> cmdBackup E T early part dir target d
      | CRestore arch dir \<Rightarrow> cmdRestore E T arch dir d
      | CShow f \<Rightarrow> cmdShow E f d
      | CHelp \<Rightarrow> (Exited, d)
      | CUnknown \<Rightarrow> (Exited, d))"

definition ca_main :: "ca_env \<Rightarrow> tar_lib \<Rightarrow> (bytes \<Rightarrow> batch_meta \<Rightarrow> batch_meta) \<Rightarrow> bool \<Rightarrow> bytes \<Rightarrow> ca_cmd \<Rightarrow> disk \<Rightarrow> nat \<times> disk" where
  "ca_main E T J early part c d =
     (if c = CUnknown then (2, d)
      else case ca_run E T J early part c d of
        (Exited, d1) \<Rightarrow> (0, d1)
      | (Failed e, d1) \<Rightarrow> (1, d1)
      | (Crashed m, d1) \<Rightarrow> (2, d1))"

end
