(* ===== verification/CAProps.thy ===== *)
theory CAProps
  imports CAAdmin
begin

section \<open>The ledger and the published lists of the offline authority\<close>

text \<open>
  What the commands of \<open>ca-admin\<close> guarantee over any sequence of them: the ledger of revocations only
  grows, a published list names every revocation of the ledger, an issued certificate is one the
  server's certificate checks accept, and a restore stays inside its destination.
\<close>

subsection \<open>Serial numbers in hexadecimal\<close>

lemma hex_val_digit: "n < 16 \<Longrightarrow> hex_val (hex_digit n) = Some n"
  by (erule list_all_lt16) (simp add: hex_digit_def hex_val_def byte_in_def)

lemma hex_digits_append:
  "hex_digits acc (xs @ ys) = (case hex_digits acc xs of None \<Rightarrow> None | Some a \<Rightarrow> hex_digits a ys)"
  by (induction acc xs rule: hex_digits.induct) (auto split: option.splits)

lemma hex_digits_nat: "hex_digits 0 (hex_nat n) = Some n"
proof (induction n rule: hex_nat.induct)
  case (1 n)
  show ?case
  proof (cases "n < 16")
    case True
    then show ?thesis by (subst hex_nat.simps) (simp add: hex_val_digit)
  next
    case False
    then show ?thesis using 1 by (subst hex_nat.simps) (simp add: hex_digits_append hex_val_digit)
  qed
qed

lemma hex_nat_lower: "c \<in> set (hex_nat n) \<Longrightarrow> lower_hex c"
proof (induction n arbitrary: c rule: hex_nat.induct)
  case (1 n)
  have "n mod 16 < 16" by simp
  then show ?case
    using 1 by (subst (asm) (2) hex_nat.simps) (auto split: if_splits intro: hex_digit_lower)
qed

lemma hex_nat_nonempty [simp]: "hex_nat n \<noteq> []"
  by (subst hex_nat.simps) simp

lemma SetString16_hex_int: "SetString16 (hex_int i) = Some i"
proof -
  have no: "\<not> HasPrefix (hex_nat n) ''-''" "\<not> HasPrefix (hex_nat n) ''+''" for n
    using hex_nat_lower [of "hd (hex_nat n)" n] by (cases "hex_nat n"; auto simp: HasPrefix_def lower_hex_def)+
  show ?thesis
  proof (cases "i < 0")
    case True
    then have "hex_int i = ''-'' @ hex_nat (nat (- i))" by (simp add: hex_int_def)
    then show ?thesis using True by (simp add: SetString16_def Let_def hex_digits_nat HasPrefix_def)
  next
    case False
    then show ?thesis using no by (simp add: SetString16_def Let_def hex_int_def hex_digits_nat)
  qed
qed

subsection \<open>Last segments\<close>

text \<open>Cleaning keeps a plain last segment, so paths that end in different names are different.\<close>

lemma Clean_last:
  assumes "p \<noteq> []" "plain_seg (last (Split p (CHR ''/'')))"
  obtains xs where "normal (rooted p) (xs @ [last (Split p (CHR ''/''))])" "Clean p = render (rooted p) (xs @ [last (Split p (CHR ''/''))])"
proof -
  define y where "y = last (Split p (CHR ''/''))"
  have "csegs p = clean_segs (rooted p) [] (butlast (Split p (CHR ''/'')) @ [y])"
    by (simp add: csegs_def y_def)
  also have "\<dots> = clean_segs (rooted p) [] (butlast (Split p (CHR ''/''))) @ [y]"
    by (rule clean_segs_append_plain) (use assms(2) in \<open>simp add: y_def\<close>)
  finally show ?thesis
    using that csegs_normal [of p] by (metis Clean_render y_def)
qed

lemma Clean_last_eq:
  assumes "p \<noteq> []" "q \<noteq> []" "plain_seg (last (Split p (CHR ''/'')))" "plain_seg (last (Split q (CHR ''/'')))"
    "Clean p = Clean q"
  shows "last (Split p (CHR ''/'')) = last (Split q (CHR ''/''))"
proof -
  obtain xs where x: "normal (rooted p) (xs @ [last (Split p (CHR ''/''))])"
      "Clean p = render (rooted p) (xs @ [last (Split p (CHR ''/''))])"
    using Clean_last [OF assms(1,3)] by blast
  obtain ys where y: "normal (rooted q) (ys @ [last (Split q (CHR ''/''))])"
      "Clean q = render (rooted q) (ys @ [last (Split q (CHR ''/''))])"
    using Clean_last [OF assms(2,4)] by blast
  have "xs @ [last (Split p (CHR ''/''))] = ys @ [last (Split q (CHR ''/''))]"
    using csegs_render [OF x(1)] csegs_render [OF y(1)] x(2) y(2) assms(5) by metis
  then show ?thesis by simp
qed

lemma Split_append_suffix:
  "CHR ''/'' \<notin> set suf \<Longrightarrow> Split (p @ suf) (CHR ''/'') = butlast (Split p (CHR ''/'')) @ [last (Split p (CHR ''/'')) @ suf]"
proof (induction p)
  case Nil
  then show ?case by (simp add: Split_no_sep)
next
  case (Cons c p)
  obtain y ys where "Split p (CHR ''/'') = y # ys" by (meson Split_nonempty list.exhaust)
  then show ?case using Cons by (cases "ys = []") simp_all
qed

lemma last_Split_append: "CHR ''/'' \<notin> set suf \<Longrightarrow> last (Split (p @ suf) (CHR ''/'')) = last (Split p (CHR ''/'')) @ suf"
  by (simp add: Split_append_suffix)

lemma last_Split_suffix: "CHR ''/'' \<notin> set suf \<Longrightarrow> \<exists>y. last (Split (p @ suf) (CHR ''/'')) = y @ suf"
  by (simp add: last_Split_append)

lemma last_Split_plain:
  assumes "CHR ''/'' \<notin> set suf" "2 < length suf"
  shows "plain_seg (last (Split (p @ suf) (CHR ''/'')))"
proof -
  obtain y where y: "last (Split (p @ suf) (CHR ''/'')) = y @ suf" using last_Split_suffix [OF assms(1)] by blast
  have "CHR ''/'' \<notin> set (last (Split (p @ suf) (CHR ''/'')))"
    by (rule Split_seg_no_sep [of _ "p @ suf"]) simp
  moreover have "2 < length (y @ suf)" using assms(2) by simp
  moreover have "z \<noteq> [] \<and> z \<noteq> ''.'' \<and> z \<noteq> ''..''" if "2 < length z" for z :: string using that by auto
  ultimately show ?thesis unfolding y plain_seg_def by blast
qed

lemma ca_path_last:
  assumes "list_all plain_seg (xs @ [a])"
  shows "last (Split (ca_path s (xs @ [a])) (CHR ''/'')) = a"
proof -
  have n: "normal (rooted (st_Dir s)) ((csegs (st_Dir s) @ xs) @ [a])"
    using normal_append [OF csegs_normal assms, of "st_Dir s"] by simp
  have "ca_path s (xs @ [a]) = render (rooted (st_Dir s)) ((csegs (st_Dir s) @ xs) @ [a])"
    using Join_plain [of "xs @ [a]" "st_Dir s"] assms by (simp add: ca_path_def)
  moreover have "Split (intercalate ''/'' ((csegs (st_Dir s) @ xs) @ [a])) (CHR ''/'') = (csegs (st_Dir s) @ xs) @ [a]"
    by (rule Split_render [OF n]) simp
  ultimately show ?thesis by (simp add: render_def)
qed

lemma ca_path_other_suffix:
  assumes "list_all plain_seg (xs @ [a])" "CHR ''/'' \<notin> set suf" "2 < length suf" "\<And>y. y @ suf \<noteq> a"
  shows "Clean (p @ suf) \<noteq> ca_path s (xs @ [a])"
proof
  assume e: "Clean (p @ suf) = ca_path s (xs @ [a])"
  have c: "Clean (ca_path s (xs @ [a])) = ca_path s (xs @ [a])" and ne: "ca_path s (xs @ [a]) \<noteq> []"
    using assms(1) by (simp_all add: ca_path_Clean ca_path_nonempty)
  have pl: "plain_seg (last (Split (ca_path s (xs @ [a])) (CHR ''/'')))"
    unfolding ca_path_last [OF assms(1)] using assms(1) by simp
  have "p @ suf \<noteq> []" using assms(3) by auto
  from Clean_last_eq [OF this ne last_Split_plain [OF assms(2,3)] pl] e c
  have "last (Split (p @ suf) (CHR ''/'')) = a" by (simp add: ca_path_last [OF assms(1)])
  then show False using last_Split_suffix [OF assms(2), of p] assms(4) by metis
qed

lemma ca_path_other_last:
  assumes "list_all plain_seg (xs @ [a])" "list_all plain_seg (ys @ [b])" "a \<noteq> b"
  shows "ca_path s (xs @ [a]) \<noteq> ca_path t (ys @ [b])"
  using ca_path_last [OF assms(1), of s] ca_path_last [OF assms(2), of t] assms(3) by metis

subsection \<open>What the commands write\<close>

definition ledger_path :: "string \<Rightarrow> string" where
  "ledger_path dir = ca_path \<lparr>st_Dir = dir, st_Passphrase = [], st_Operator = []\<rparr> [''ledger.json'']"

lemma ledger_path_eq: "ca_path s [''ledger.json''] = ledger_path (st_Dir s)"
  by (simp add: ledger_path_def ca_path_def)

lemma ledger_path_Clean [simp]: "Clean (ledger_path dir) = ledger_path dir"
  unfolding ledger_path_def by (rule ca_path_Clean) (simp_all add: plain_seg_def)

lemma ledger_path_nonempty [simp]: "ledger_path dir \<noteq> []"
  unfolding ledger_path_def by (rule ca_path_nonempty) (simp_all add: plain_seg_def)

lemma ledger_path_other:
  "list_all plain_seg (xs @ [a]) \<Longrightarrow> a \<noteq> ''ledger.json'' \<Longrightarrow> ca_path s (xs @ [a]) \<noteq> ledger_path dir"
  unfolding ledger_path_def using ca_path_other_last [of xs a "[]" "''ledger.json''"] by (simp add: plain_seg_def)

lemma ledger_path_suffix:
  "CHR ''/'' \<notin> set suf \<Longrightarrow> 2 < length suf \<Longrightarrow> last suf \<noteq> CHR ''n'' \<Longrightarrow> Clean (p @ suf) \<noteq> ledger_path dir"
  unfolding ledger_path_def using ca_path_other_suffix [of "[]" "''ledger.json''" suf p]
  by (auto simp: plain_seg_def) (metis last_appendR last.simps list.size(3) list.distinct(1) not_less_zero)

abbreviation at_ledger :: "string \<Rightarrow> disk \<Rightarrow> bytes option" where
  "at_ledger dir d \<equiv> map_of (d_files d) (ledger_path dir)"

lemma keeps_WriteFile: "Clean p \<noteq> ledger_path dir \<Longrightarrow> at_ledger dir (snd (WriteFile F p b d)) = at_ledger dir d"
  by (rule WriteFile_other) simp

lemma keeps_AppendFile: "Clean p \<noteq> ledger_path dir \<Longrightarrow> at_ledger dir (snd (AppendFile F p b d)) = at_ledger dir d"
  by (rule AppendFile_other) simp

lemma keeps_ca_write:
  "list_all plain_seg (xs @ [a]) \<Longrightarrow> a \<noteq> ''ledger.json'' \<Longrightarrow>
     at_ledger dir (snd (WriteFile F (ca_path s (xs @ [a])) b d)) = at_ledger dir d"
  "list_all plain_seg (xs @ [a]) \<Longrightarrow> a \<noteq> ''ledger.json'' \<Longrightarrow>
     at_ledger dir (snd (AppendFile F (ca_path s (xs @ [a])) b d)) = at_ledger dir d"
  by (simp_all add: keeps_WriteFile keeps_AppendFile ca_path_Clean ledger_path_other)

lemma keeps_log: "at_ledger dir (snd (log_done E t s a n fs d)) = at_ledger dir d"
  "at_ledger dir (snd (logCeremony L C F t s a n fs d)) = at_ledger dir d"
  using keeps_ca_write(2) [of "[]" "''ceremony.jsonl''"] by (simp_all add: log_done_def logCeremony_def plain_seg_def)

lemma keeps_appendIssued: "at_ledger dir (snd (appendIssued C F s r d)) = at_ledger dir d"
  using keeps_ca_write(2) [of "[]" "''issued.jsonl''"] by (simp add: appendIssued_def plain_seg_def)

lemma keeps_publish: "list_all (\<lambda>w. plain_seg (fst w) \<and> fst w \<noteq> ''ledger.json'') ws \<Longrightarrow>
    at_ledger dir (snd (write_all F s ws d)) = at_ledger dir d"
proof (rule write_all_other)
  assume ws: "list_all (\<lambda>w. plain_seg (fst w) \<and> fst w \<noteq> ''ledger.json'') ws"
  then show "list_all (\<lambda>w. plain_seg (fst w)) ws" by (simp add: list_all_iff)
  show "\<forall>w \<in> set ws. ledger_path dir \<noteq> ca_path s [''public'', fst w]"
  proof
    fix w assume "w \<in> set ws"
    then have "ca_path s ([''public''] @ [fst w]) \<noteq> ledger_path dir"
      using ws by (intro ledger_path_other) (auto simp: list_all_iff plain_seg_def)
    then show "ledger_path dir \<noteq> ca_path s [''public'', fst w]" by auto
  qed
qed

text \<open>The same facts on a result that was taken apart.\<close>

lemma keepsD:
  "WriteFile F p b d = (e, d') \<Longrightarrow> Clean p \<noteq> ledger_path dir \<Longrightarrow> at_ledger dir d' = at_ledger dir d"
  "appendIssued C F s r d = (e, d') \<Longrightarrow> at_ledger dir d' = at_ledger dir d"
  "MkdirAll F p d = (e, d') \<Longrightarrow> at_ledger dir d' = at_ledger dir d"
  "log_done E t s a n fs d = (oc, d') \<Longrightarrow> at_ledger dir d' = at_ledger dir d"
  by (metis keeps_WriteFile snd_conv, metis keeps_appendIssued snd_conv, metis MkdirAll_files snd_conv,
      metis keeps_log(1) snd_conv)

lemma wfD:
  "WriteFile F p b d = (e, d') \<Longrightarrow> wf_disk d \<Longrightarrow> wf_disk d'"
  "AppendFile F p b d = (e, d') \<Longrightarrow> wf_disk d \<Longrightarrow> wf_disk d'"
  "MkdirAll F p d = (e, d') \<Longrightarrow> wf_disk d \<Longrightarrow> wf_disk d'"
  using wf_disk_ops by (metis snd_conv)+

lemma wf_log: "wf_disk d \<Longrightarrow> wf_disk (snd (log_done E t s a n fs d))"
  "wf_disk d \<Longrightarrow> wf_disk (snd (logCeremony L C F t s a n fs d))"
  by (simp_all add: log_done_def logCeremony_def wf_AppendFile)

lemma wf_write_all: "wf_disk d \<Longrightarrow> wf_disk (snd (write_all F s ws d))"
proof (induction F s ws d rule: write_all.induct)
  case (2 F s name b ws d)
  then show ?case
    using wf_WriteFile [OF "2.prems", of F "ca_path s [''public'', name]" b] by (auto split: prod.splits option.splits)
qed simp

lemma mkdir_each_keeps: "d_files (snd (mkdir_each F s xs d)) = d_files d \<and> (wf_disk d \<longrightarrow> wf_disk (snd (mkdir_each F s xs d)))"
proof (induction F s xs d rule: mkdir_each.induct)
  case (2 F s x xs d)
  obtain e d1 where d1: "MkdirAll F (ca_path s [x]) d = (e, d1)" by (cases "MkdirAll F (ca_path s [x]) d")
  have "d_files d1 = d_files d" "wf_disk d \<Longrightarrow> wf_disk d1"
    using MkdirAll_files [of F "ca_path s [x]" d] wfD(3) [OF d1] unfolding d1 by simp_all
  then show ?case using 2 d1 by (auto split: option.splits)
qed simp

lemma issueOne_keeps:
  assumes "issueOne E k s i raw a dv cn org crl days out d = (r, d')" "Clean out \<noteq> ledger_path dir"
  shows "at_ledger dir d' = at_ledger dir d" "wf_disk d \<Longrightarrow> wf_disk d'"
proof -
  have fc: "Clean (out @ ''.fullchain.pem'') \<noteq> ledger_path dir" by (rule ledger_path_suffix) simp_all
  show "at_ledger dir d' = at_ledger dir d"
    using assms fc unfolding issueOne_def Let_def
    by (auto split: sum.splits prod.splits option.splits dest!: keepsD(1) [where dir = dir] keepsD(2) [where dir = dir])
  show "wf_disk d \<Longrightarrow> wf_disk d'"
    using assms(1) unfolding issueOne_def Let_def appendIssued_def
    by (auto split: sum.splits prod.splits option.splits dest: wfD)
qed

lemma Join_crt: "Clean (Join [a, certFileName b]) \<noteq> ledger_path dir"
proof -
  have ne: "certFileName b \<noteq> []" by (simp add: certFileName_def)
  have "Join [a, certFileName b] = Clean ((if a = [] then b else a @ ''/'' @ b) @ ''.crt.pem'')"
    using ne by (simp add: Join_def certFileName_def)
  then show ?thesis using ledger_path_suffix [of "''.crt.pem''"] by simp
qed

lemma batch_loop_keeps:
  "batch_loop E J s i inDir outDir account org crlURL days count es d = (r, d') \<Longrightarrow>
     at_ledger dir d' = at_ledger dir d \<and> (wf_disk d \<longrightarrow> wf_disk d')"
proof (induction E J s i inDir outDir account org crlURL days count es d rule: batch_loop.induct)
  case (2 E J s i inDir outDir account org crlURL days count nm isdir es d)
  have iss: "issueOne E k s i raw a dv cn org crlURL days (Join [outDir, certFileName st]) d = (x, d1) \<Longrightarrow>
      at_ledger dir d1 = at_ledger dir d \<and> (wf_disk d \<longrightarrow> wf_disk d1)" for k raw a dv cn st x d1
    by (auto dest: issueOne_keeps [OF _ Join_crt])
  show ?case
  proof (cases "isdir \<or> \<not> HasSuffix nm ''.csr.pem''")
    case True
    then show ?thesis using "2.IH"(1) "2.prems" by simp
  next
    case False
    define st where "st = TrimSuffix nm ''.csr.pem''"
    define m0 where "m0 = \<lparr>bm_Account = account, bm_Device = st, bm_CN = st\<rparr>"
    define m where "m = (case ReadFile (ev_F E) d (Join [inDir, st @ ''.meta.json'']) of Inl e \<Rightarrow> m0 | Inr mb \<Rightarrow> J mb m0)"
    show ?thesis
    proof (cases "ReadFile (ev_F E) d (Join [inDir, nm])")
      case (Inl e)
      then show ?thesis using "2.prems" False by (simp add: Let_def)
    next
      case (Inr raw)
      obtain x d1 where x: "issueOne E (ev_n E + count) s i raw (bm_Account m) (bm_Device m) (bm_CN m) org crlURL days
          (Join [outDir, certFileName st]) d = (x, d1)" by fastforce
      have eq: "(case x of Inl e \<Rightarrow> (Inl (Errorf (nm @ '': '' @ Error e)), d1)
          | Inr r \<Rightarrow> batch_loop E J s i inDir outDir account org crlURL days (Suc count) es d1) = (r, d')"
        using "2.prems" False Inr x unfolding m_def m0_def st_def by (cases x) (simp_all add: Let_def)
      show ?thesis
      proof (cases x)
        case (Inl e)
        then show ?thesis using iss [OF x] eq by simp
      next
        case r: (Inr r1)
        have "at_ledger dir d' = at_ledger dir d1 \<and> (wf_disk d1 \<longrightarrow> wf_disk d')"
          by (rule "2.IH"(2) [OF False st_def m0_def m_def Inr x [symmetric] r]) (use eq r in simp)
        then show ?thesis using iss [OF x] by simp
      qed
    qed
  qed
qed simp

subsection \<open>Files below a directory\<close>

definition below :: "string \<Rightarrow> string \<Rightarrow> bool" where
  "below dir q \<longleftrightarrow> (\<exists>bs. bs \<noteq> [] \<and> list_all plain_seg bs \<and> q = Join (dir # bs))"

lemma below_Clean: "below dir q \<Longrightarrow> Clean q = q"
  by (auto simp: below_def Join_plain_Clean)

lemma below_Clean_dir: "dir \<noteq> [] \<Longrightarrow> below (Clean dir) q = below dir q"
  by (auto simp: below_def Join_plain Clean_render [of dir] render_hd [OF csegs_normal] csegs_render [OF csegs_normal])

lemma fresh_dir:
  assumes "wf_disk d" "dir \<noteq> []" "\<not> Stat d dir" "below dir q"
  shows "map_of (d_files d) q = None"
proof (rule ccontr)
  assume f: "map_of (d_files d) q \<noteq> None"
  obtain bs where bs: "bs \<noteq> []" "list_all plain_seg bs" "q = render (rooted dir) (csegs dir @ bs)"
    using assms(4) by (auto simp: below_def Join_plain)
  have "is_dir d (render (rooted dir) (csegs dir))"
    by (rule wf_ancestor [OF assms(1) bs(2) csegs_normal bs(1)]) (use f bs in simp)
  then show False using assms(2,3) by (simp add: Stat_def Clean_render)
qed

lemma Join_joined:
  assumes "list_all plain_seg ys" "ys \<noteq> []"
  shows "Join [dir, intercalate ''/'' ys] = Join (dir # ys)"
proof -
  obtain y zs where y: "ys = y # zs" "y \<noteq> []" using assms by (cases ys) (auto simp: plain_seg_def)
  have "intercalate ''/'' ys \<noteq> []" using y by (cases zs) auto
  then show ?thesis using y by (simp add: Join_def)
qed

text \<open>An accepted name lies below the destination.\<close>

lemma entry_dst_below:
  assumes "entry_dst dest nm = Inr (Some dst)"
  shows "below dest dst"
proof -
  define xs where "xs = csegs nm"
  have n: "normal (rooted nm) xs" unfolding xs_def by (rule csegs_normal)
  have c: "Clean nm = render (rooted nm) xs" by (simp add: Clean_render xs_def)
  have ok: "\<not> HasPrefix (Clean nm) ''..''" "\<not> IsAbs (Clean nm)"
    using assms by (auto simp: entry_dst_def Let_def split: if_splits)
  have r: "\<not> rooted nm" using ok(2) render_hd [OF n] by (simp add: c IsAbs_def HasPrefix_slash)
  obtain k zs where z: "xs = replicate k ''..'' @ zs" "list_all plain_seg zs" using n by (auto simp: normal_def)
  have "k = 0"
  proof (cases k)
    case (Suc m)
    have "HasPrefix (intercalate ''/'' (''..'' # ws)) ''..''" for ws by (cases ws) (simp_all add: HasPrefix_def)
    then show ?thesis using ok(1) z Suc r by (simp add: c render_def)
  qed simp
  then have pl: "list_all plain_seg xs" using z by simp
  have cl: "Clean nm = (if xs = [] then ''.'' else intercalate ''/'' xs)" using r by (simp add: c render_def)
  show ?thesis
  proof (cases xs rule: intercalate_cases)
    case Nil
    then show ?thesis using assms ok cl by (simp add: entry_dst_def Let_def SplitN2_def)
  next
    case (one x)
    then have "CHR ''/'' \<notin> set x" using pl by (simp add: plain_seg_def)
    then show ?thesis using assms ok cl one by (simp add: entry_dst_def Let_def SplitN2_def)
  next
    case (more x y ws)
    then have x: "CHR ''/'' \<notin> set x" using pl by (simp add: plain_seg_def)
    have e: "Clean nm = x @ CHR ''/'' # intercalate ''/'' (y # ws)" using cl more by simp
    have "takeWhile (\<lambda>c. c \<noteq> CHR ''/'') x = x" "dropWhile (\<lambda>c. c \<noteq> CHR ''/'') x = []"
      using x by (auto simp: takeWhile_eq_all_conv)
    then have "SplitN2 (Clean nm) (CHR ''/'') = [x, intercalate ''/'' (y # ws)]"
      unfolding e using x by (auto simp: SplitN2_def takeWhile_append dropWhile_append)
    then have "dst = Join [dest, intercalate ''/'' (y # ws)]"
      using assms ok by (simp add: entry_dst_def Let_def split: if_splits)
    then have "dst = Join (dest # y # ws)" using pl more by (simp add: Join_joined)
    then show ?thesis unfolding below_def using pl more by (intro exI [of _ "y # ws"]) simp
  qed
qed

lemma restore_entry_other:
  assumes "restore_entry F dest e d = (er, d')" "\<not> below dest q"
  shows "map_of (d_files d') q = map_of (d_files d) q"
proof -
  have w: "map_of (d_files d2) q = map_of (d_files d1) q"
    if "entry_dst dest (te_Name e) = Inr (Some dst)" "WriteFile F dst b d1 = (x, d2)" for dst b d1 x d2
    using that WriteFile_other [of q dst F b d1] entry_dst_below [OF that(1)] assms(2) below_Clean by force
  have m: "MkdirAll F p d1 = (x, d2) \<Longrightarrow> d_files d2 = d_files d1" for p d1 x d2
    by (metis MkdirAll_files snd_conv)
  show ?thesis
    using assms(1) unfolding restore_entry_def
    by (auto split: sum.splits option.splits tar_type.splits prod.splits dest: w dest!: m)
qed

lemma restore_loop_other:
  "restore_loop F dest ts d = (er, d') \<Longrightarrow> \<not> below dest q \<Longrightarrow> map_of (d_files d') q = map_of (d_files d) q"
  by (induction F dest ts d rule: restore_loop.induct)
    (auto split: prod.splits option.splits dest!: restore_entry_other)

lemma restore_entry_wf: "restore_entry F dest e d = (er, d') \<Longrightarrow> wf_disk d \<Longrightarrow> wf_disk d'"
  by (auto simp: restore_entry_def split: sum.splits option.splits tar_type.splits prod.splits dest: wfD)

lemma restore_loop_wf: "restore_loop F dest ts d = (er, d') \<Longrightarrow> wf_disk d \<Longrightarrow> wf_disk d'"
proof (induction F dest ts d rule: restore_loop.induct)
  case (3 F dest te e d)
  then show ?case by (auto split: prod.splits option.splits dest: restore_entry_wf)
next
  case (4 F dest te ts d)
  then show ?case by (auto split: prod.splits option.splits dest!: restore_entry_wf)
qed simp_all

lemma cmdRestore_loop:
  assumes "cmdRestore E T inPath dir d = (oc, d')"
  obtains "d' = d" | ts d1 er e1 where "dir \<noteq> []" "\<not> Stat d dir" "MkdirAll (ev_F E) (Clean dir) d = (e1, d1)"
    "restore_loop (ev_F E) (Clean dir) ts d1 = (er, d')" | e1 where "MkdirAll (ev_F E) (Clean dir) d = (e1, d')"
  using assms unfolding cmdRestore_def
  by (auto split: if_splits sum.splits prod.splits option.splits)

lemma cmdRestore_keeps:
  assumes "cmdRestore E T inPath dir d = (oc, d')" "wf_disk d"
  shows "map_of (d_files d) q = Some b \<Longrightarrow> map_of (d_files d') q = Some b" "wf_disk d'"
    "map_of (d_files d') q \<noteq> map_of (d_files d) q \<Longrightarrow> below dir q"
proof -
  have m: "MkdirAll F p d1 = (x, d2) \<Longrightarrow> d_files d2 = d_files d1" for F p d1 x d2
    by (metis MkdirAll_files snd_conv)
  have "(map_of (d_files d) q = Some b \<longrightarrow> map_of (d_files d') q = Some b) \<and> wf_disk d' \<and>
      (map_of (d_files d') q \<noteq> map_of (d_files d) q \<longrightarrow> below dir q)"
    using assms(1)
  proof (cases rule: cmdRestore_loop)
    case 1
    then show ?thesis using assms(2) by simp
  next
    case (2 ts d1 er e1)
    have "wf_disk d'" using restore_loop_wf [OF 2(4) wfD(3) [OF 2(3) assms(2)]] .
    moreover have "\<not> below dir q \<Longrightarrow> map_of (d_files d') q = map_of (d_files d) q"
      using restore_loop_other [OF 2(4), of q] m [OF 2(3)] by (simp add: below_Clean_dir [OF 2(1)])
    moreover have "below dir q \<longrightarrow> map_of (d_files d) q = None" using fresh_dir [OF assms(2) 2(1,2), of q] by blast
    ultimately show ?thesis by (cases "below dir q") simp_all
  next
    case (3 e1)
    then show ?thesis using assms(2) m [OF 3] wfD(3) [OF 3 assms(2)] by simp
  qed
  then show "map_of (d_files d) q = Some b \<Longrightarrow> map_of (d_files d') q = Some b" "wf_disk d'"
    "map_of (d_files d') q \<noteq> map_of (d_files d) q \<Longrightarrow> below dir q" by auto
qed

subsection \<open>One command and the ledger\<close>

definition ledger_at :: "ca_lib \<Rightarrow> string \<Rightarrow> disk \<Rightarrow> ledger option" where
  "ledger_at C dir d =
     (case at_ledger dir d of
        None \<Rightarrow> None
      | Some raw \<Rightarrow> (case C_unmarshal_ledger C raw of Inl e \<Rightarrow> None | Inr l \<Rightarrow> Some l))"

text \<open>What a command may do to the ledger: nothing, record one new revocation, or count one more list.\<close>

definition ledger_next :: "ledger \<Rightarrow> ledger \<Rightarrow> bool" where
  "ledger_next l l' \<longleftrightarrow> l' = l \<or> l' = l\<lparr>lg_CRLNumber := wrap64 (lg_CRLNumber l + 1)\<rparr> \<or>
     (\<exists>r. l' = l\<lparr>lg_Revocations := lg_Revocations l @ [r]\<rparr> \<and> rv_Serial r \<notin> set (map rv_Serial (lg_Revocations l)) \<and>
        SetString16 (rv_Serial r) \<noteq> None \<and> map_of reasonCodes (rv_Reason r) = Some (rv_ReasonCode r))"

text \<open>A \<open>range\<close> over a map visits every entry once, in some order.\<close>

definition range_order :: "((string \<times> bytes) list \<Rightarrow> (string \<times> bytes) list) \<Rightarrow> bool" where
  "range_order ord \<longleftrightarrow> (\<forall>ws. set (ord ws) = set ws \<and> (keys_distinct ws \<longrightarrow> keys_distinct (ord ws)))"

text \<open>A command run by an operator whose reads and writes of the ledger do not fail, and who does not
  name the ledger as the file a certificate, a list or an archive is written to.\<close>

definition benign :: "ca_lib \<Rightarrow> string \<Rightarrow> ca_env \<Rightarrow> ca_cmd \<Rightarrow> bool" where
  "benign C dir E c \<longleftrightarrow> ev_C E = C \<and> fa_read (ev_F E) (ledger_path dir) = None \<and>
     fa_write (ev_F E) (ledger_path dir) = None \<and> (\<forall>i. json_time (ev_now E i)) \<and> range_order (ev_ord E) \<and>
     (case c of
        CInit dir' rcn icn \<Rightarrow> dir' \<noteq> []
      | CIssue dir' csr acct dev cn org days crl out \<Rightarrow> Clean out \<noteq> ledger_path dir
      | CCRL dir' days out \<Rightarrow> Clean out \<noteq> ledger_path dir
      | CBackup dir' out \<Rightarrow> Clean out \<noteq> ledger_path dir
      | _ \<Rightarrow> True)"

lemma hex_val_ascii: "hex_val c = Some v \<Longrightarrow> byte_in c 0 127"
  by (auto simp: hex_val_def byte_in_def split: if_splits)

lemma hex_digits_ascii: "hex_digits acc s = Some v \<Longrightarrow> list_all (\<lambda>c. byte_in c 0 127) s"
  by (induction acc s rule: hex_digits.induct) (auto split: option.splits dest: hex_val_ascii)

lemma SetString16_ascii: "SetString16 s = Some v \<Longrightarrow> list_all (\<lambda>c. byte_in c 0 127) s"
proof -
  assume a: "SetString16 s = Some v"
  show ?thesis
  proof (cases "HasPrefix s ''-'' \<or> HasPrefix s ''+''")
    case True
    then obtain c t where "s = c # t" "c = CHR ''-'' \<or> c = CHR ''+''" by (auto simp: HasPrefix_iff)
    then show ?thesis using a True by (auto simp: SetString16_def Let_def byte_in_def split: if_splits dest!: hex_digits_ascii)
  next
    case False
    then show ?thesis using a by (auto simp: SetString16_def Let_def split: if_splits dest!: hex_digits_ascii)
  qed
qed

lemma reasonCodes_ascii: "map_of reasonCodes r = Some c \<Longrightarrow> list_all (\<lambda>c. byte_in c 0 127) r"
  by (auto simp: reasonCodes_def byte_in_def split: if_splits)

lemma wrap64_range: "- (2 ^ 63) \<le> wrap64 n" "wrap64 n < 2 ^ 63"
  using sint_ge [of "word_of_int n :: 64 word"] sint_lt [of "word_of_int n :: 64 word"] by (simp_all add: wrap64_def)

lemma ledger_at_cong: "at_ledger dir d' = at_ledger dir d \<Longrightarrow> ledger_at C dir d' = ledger_at C dir d"
  by (simp add: ledger_at_def)

lemma loadLedger_at:
  assumes "fa_read F (ledger_path dir) = None" "ledger_path (st_Dir s) = ledger_path dir" "ledger_at C dir d = Some l"
  shows "loadLedger C F s d = Inr l"
  using assms by (auto simp: loadLedger_def ledger_path_eq ReadFile_def ledger_at_def split: option.splits sum.splits)

lemma saveLedger_at:
  assumes "ledger_law C" "fa_write F (ledger_path dir) = None" "ledger_path (st_Dir s) = ledger_path dir" "good_ledger l'"
    "saveLedger C F s l' d = (e, d')" "ledger_at C dir d = Some l"
  shows "ledger_at C dir d' = Some (if e = None then l' else l)"
proof -
  obtain x where "C_marshal_ledger C l' = Inr x" "C_unmarshal_ledger C x = Inr l'"
    using assms(1,4) by (auto simp: ledger_law_def)
  then show ?thesis
    using assms by (auto simp: saveLedger_def ledger_path_eq WriteFile_def write_over_def ledger_at_def or_nil_def split: if_splits)
qed

lemma saveLedger_elsewhere:
  assumes "ledger_path (st_Dir s) \<noteq> ledger_path dir" "saveLedger C F s l' d = (e, d')"
  shows "at_ledger dir d' = at_ledger dir d"
  using assms keeps_WriteFile [of "ledger_path (st_Dir s)" dir F] by (simp add: saveLedger_def ledger_path_eq) (metis snd_conv)

lemma ca_open_dir: "ca_open E dir d = Inr s \<Longrightarrow> st_Dir s = dir"
  by (auto simp: ca_open_def ca_openStore_def Let_def split: if_splits)

lemma cmdRevoke_ledger:
  assumes "cmdRevoke E dir' serial reason d = (oc, d')" "benign C dir E (CRevoke dir' serial reason)" "ledger_law C"
    "ledger_at C dir d = Some l" "good_ledger l"
  shows "\<exists>l'. ledger_at C dir d' = Some l' \<and> ledger_next l l' \<and> good_ledger l'"
proof (cases "d' = d")
  case True
  then show ?thesis using assms(4,5) by (auto simp: ledger_next_def)
next
  case False
  define rev1 where "rev1 code = \<lparr>rv_Serial = serial, rv_Reason = reason, rv_ReasonCode = code, rv_RevokedAt = ev_now E 0\<rparr>" for code
  obtain code s l0 e d1 where code: "map_of reasonCodes reason = Some code" and ser: "SetString16 serial \<noteq> None"
    and s: "ca_open E dir' d = Inr s" and l0: "loadLedger (ev_C E) (ev_F E) s d = Inr l0"
    and new: "find (\<lambda>r. rv_Serial r = serial) (lg_Revocations l0) = None"
    and save: "saveLedger (ev_C E) (ev_F E) s (l0\<lparr>lg_Revocations := lg_Revocations l0 @ [rev1 code]\<rparr>) d = (e, d1)"
    and d': "at_ledger dir d' = at_ledger dir d1"
    using assms(1) False unfolding cmdRevoke_def Let_def rev1_def
    by (auto split: if_splits option.splits sum.splits prod.splits dest: keepsD(4) [where dir = dir])
  have C: "ev_C E = C" "fa_read (ev_F E) (ledger_path dir) = None" "fa_write (ev_F E) (ledger_path dir) = None" "json_time (ev_now E 0)"
    using assms(2) by (auto simp: benign_def)
  show ?thesis
  proof (cases "ledger_path dir' = ledger_path dir")
    case True
    then have p: "ledger_path (st_Dir s) = ledger_path dir" using ca_open_dir [OF s] by simp
    have l: "l0 = l" using loadLedger_at [OF C(2) p assms(4)] l0 C(1) by simp
    have g: "good_ledger (l\<lparr>lg_Revocations := lg_Revocations l @ [rev1 code]\<rparr>)"
      using assms(5) C(4) SetString16_ascii ser reasonCodes_ascii [OF code]
      by (auto simp: good_ledger_def good_revocation_def rev1_def)
    have "ledger_next l (l\<lparr>lg_Revocations := lg_Revocations l @ [rev1 code]\<rparr>)"
      using new ser code unfolding ledger_next_def l
      by (intro disjI2 exI [of _ "rev1 code"]) (auto simp: rev1_def find_None_iff)
    then show ?thesis
      using saveLedger_at [OF assms(3) C(3) p g, of d e d1] save assms(4,5) g ledger_at_cong [OF d', of C]
      by (cases e) (auto simp: l C(1) ledger_next_def)
  next
    case False
    then have "at_ledger dir d1 = at_ledger dir d"
      using saveLedger_elsewhere [OF _ save, of dir] ca_open_dir [OF s] by simp
    then have "ledger_at C dir d' = ledger_at C dir d" using d' by (intro ledger_at_cong) simp
    then show ?thesis using assms(4,5) by (auto simp: ledger_next_def)
  qed
qed

lemma publish_keeps:
  assumes "publish L P C F ord s i crl d = (e, d')" "\<forall>ws. set (ord ws) = set ws"
  shows "at_ledger dir d' = at_ledger dir d" "wf_disk d \<Longrightarrow> wf_disk d'"
proof -
  have "list_all (\<lambda>w. plain_seg (fst w) \<and> fst w \<noteq> ''ledger.json'') (ord (publish_writes P r i crl))" for r
    using assms(2) by (simp add: list_all_iff publish_writes_def plain_seg_def split: option.splits)
  then have k: "at_ledger dir (snd (write_all F s (ord (publish_writes P r i crl)) d)) = at_ledger dir d" for r
    by (rule keeps_publish)
  show "at_ledger dir d' = at_ledger dir d"
    using assms(1) k by (auto simp: publish_def split: sum.splits) (metis snd_conv)
  show "wf_disk d \<Longrightarrow> wf_disk d'"
    using assms(1) by (auto simp: publish_def split: sum.splits) (metis wf_write_all snd_conv)
qed

lemma good_count: "good_ledger l \<Longrightarrow> good_ledger (l\<lparr>lg_CRLNumber := wrap64 n\<rparr>)"
  using wrap64_range [of n] by (simp add: good_ledger_def)

lemma crl_record_saved:
  assumes "crl_record E s l1 crl out d = (oc, d')" "saveLedger (ev_C E) (ev_F E) s l1 d = (e2, d2)" "Clean out \<noteq> ledger_path dir"
  shows "at_ledger dir d' = at_ledger dir d2"
  using assms unfolding crl_record_def
  by (auto split: prod.splits option.splits if_splits dest!: keepsD(1) [where dir = dir] keepsD(4) [where dir = dir])

lemma crl_record_ledger:
  assumes "crl_record E s l1 crl out d = (oc, d')" "ev_C E = C" "fa_write (ev_F E) (ledger_path dir) = None"
    "Clean out \<noteq> ledger_path dir" "ledger_law C" "good_ledger l1" "ledger_at C dir d = Some l"
  shows "ledger_at C dir d' = Some l1 \<and> ledger_path (st_Dir s) = ledger_path dir \<or> ledger_at C dir d' = Some l"
proof -
  obtain e2 d2 where s2: "saveLedger C (ev_F E) s l1 d = (e2, d2)" by fastforce
  have "at_ledger dir d' = at_ledger dir d2"
    using crl_record_saved [OF assms(1) _ assms(4)] s2 assms(2) by simp
  then have d': "ledger_at C dir d' = ledger_at C dir d2" by (rule ledger_at_cong)
  show ?thesis
  proof (cases "ledger_path (st_Dir s) = ledger_path dir")
    case True
    then show ?thesis using saveLedger_at [OF assms(5,3) True assms(6) s2 assms(7)] d' by (cases e2) auto
  next
    case False
    then show ?thesis using saveLedger_elsewhere [OF False s2] assms(7) d' by (simp add: ledger_at_def)
  qed
qed

lemma cmdCRL_ledger:
  assumes "cmdCRL E dir' days out d = (oc, d')" "benign C dir E (CCRL dir' days out)" "ledger_law C"
    "ledger_at C dir d = Some l" "good_ledger l"
  shows "\<exists>l'. ledger_at C dir d' = Some l' \<and> ledger_next l l' \<and> good_ledger l'"
proof (cases "d' = d")
  case True
  then show ?thesis using assms(4,5) by (auto simp: ledger_next_def)
next
  case False
  have C: "ev_C E = C" "fa_read (ev_F E) (ledger_path dir) = None" "fa_write (ev_F E) (ledger_path dir) = None"
      "Clean out \<noteq> ledger_path dir" "\<forall>ws. set (ev_ord E ws) = set ws"
    using assms(2) by (auto simp: benign_def range_order_def)
  obtain s l0 i crl e1 d1 where s: "ca_open E dir' d = Inr s" and l0: "loadLedger C (ev_F E) s d = Inr l0"
    and pub: "publish (ev_L E) (ev_P E) C (ev_F E) (ev_ord E) s i (Some crl) d = (e1, d1)"
    and d': "d' = d1 \<or> crl_record E s (l0\<lparr>lg_CRLNumber := wrap64 (lg_CRLNumber l0 + 1)\<rparr>) crl out d1 = (oc, d')"
    using assms(1) False unfolding cmdCRL_def Let_def C(1) by (auto split: sum.splits prod.splits option.splits)
  have at1: "ledger_at C dir d1 = Some l"
    using ledger_at_cong [OF publish_keeps(1) [OF pub C(5)]] assms(4) by simp
  consider "d' = d1" | "crl_record E s (l0\<lparr>lg_CRLNumber := wrap64 (lg_CRLNumber l0 + 1)\<rparr>) crl out d1 = (oc, d')"
    using d' by blast
  then show ?thesis
  proof cases
    case 1
    then show ?thesis using at1 assms(5) by (auto simp: ledger_next_def)
  next
    case 2
    show ?thesis
    proof (cases "ledger_path dir' = ledger_path dir")
      case True
      then have "l0 = l" using loadLedger_at [OF C(2) _ assms(4)] l0 ca_open_dir [OF s] by simp
      then show ?thesis
        using crl_record_ledger [OF 2 C(1,3,4) assms(3) _ at1] good_count [OF assms(5)] assms(5)
        by (auto simp: ledger_next_def)
    next
      case False
      obtain e2 d2 where s2: "saveLedger C (ev_F E) s (l0\<lparr>lg_CRLNumber := wrap64 (lg_CRLNumber l0 + 1)\<rparr>) d1 = (e2, d2)" by fastforce
      have "at_ledger dir d' = at_ledger dir d2"
        using crl_record_saved [OF 2 _ C(4)] s2 C(1) by simp
      moreover have "at_ledger dir d2 = at_ledger dir d1"
        using saveLedger_elsewhere [OF _ s2, of dir] False ca_open_dir [OF s] by simp
      ultimately have "ledger_at C dir d' = Some l" using at1 by (simp add: ledger_at_def)
      then show ?thesis using assms(5) by (auto simp: ledger_next_def)
    qed
  qed
qed

lemma writeCA_keeps:
  assumes "writeCA L P C F s n name c d = (e, d')" "plain_seg name"
  shows "at_ledger dir d' = at_ledger dir d" "wf_disk d \<Longrightarrow> wf_disk d'"
proof -
  have k: "WriteFile F (ca_path s [name, f]) b d1 = (x, d2) \<Longrightarrow> f \<in> {''key.pem'', ''key.pem.enc'', ''cert.pem''} \<Longrightarrow>
      at_ledger dir d2 = at_ledger dir d1" for f b d1 x d2
    using keeps_ca_write(1) [where xs = "[name]" and a = f and dir = dir and F = F and s = s and b = b and d = d1] assms(2)
    by (auto simp: plain_seg_def)
  show "at_ledger dir d' = at_ledger dir d"
    using assms(1) unfolding writeCA_def Let_def
    by (auto split: sum.splits prod.splits option.splits if_splits dest!: k)
  show "wf_disk d \<Longrightarrow> wf_disk d'"
    using assms(1) unfolding writeCA_def Let_def
    by (auto split: sum.splits prod.splits option.splits if_splits dest: wfD)
qed

lemma below_ca_path: "list_all plain_seg xs \<Longrightarrow> xs \<noteq> [] \<Longrightarrow> below (st_Dir s) (ca_path s xs)"
  by (auto simp: below_def ca_path_def)

lemma saveLedger_wf: "saveLedger C F s l d = (e, d') \<Longrightarrow> wf_disk d \<Longrightarrow> wf_disk d'"
  by (auto simp: saveLedger_def dest: wfD)

lemma ca_Init_keeps:
  assumes "ca_Init L P C F ord n now s rcn icn d = (e, d')" "wf_disk d" "st_Dir s \<noteq> []" "at_ledger dir d \<noteq> None"
    "\<forall>ws. set (ord ws) = set ws"
  shows "at_ledger dir d' = at_ledger dir d \<and> wf_disk d'"
proof (cases "Stat d (st_Dir s)")
  case True
  then show ?thesis using assms(1,2) by (simp add: ca_Init_def)
next
  case False
  have "ledger_path (st_Dir s) \<noteq> ledger_path dir"
  proof
    assume "ledger_path (st_Dir s) = ledger_path dir"
    then have "below (st_Dir s) (ledger_path dir)"
      using below_ca_path [of "[''ledger.json'']" s] by (simp add: ledger_path_eq plain_seg_def)
    then show False using fresh_dir [OF assms(2,3) False] assms(4) by simp
  qed
  note save = saveLedger_elsewhere [OF this]
  have mk: "mkdir_each F s xs d0 = (x, d1) \<Longrightarrow> at_ledger dir d1 = at_ledger dir d0 \<and> (wf_disk d0 \<longrightarrow> wf_disk d1)" for xs d0 x d1
    using mkdir_each_keeps [of F s xs d0] by simp
  have wr: "writeCA L P C F s k nm c d0 = (x, d1) \<Longrightarrow> plain_seg nm \<Longrightarrow>
      at_ledger dir d1 = at_ledger dir d0 \<and> (wf_disk d0 \<longrightarrow> wf_disk d1)" for k nm c d0 x d1
    by (auto dest: writeCA_keeps(1) [where dir = dir] writeCA_keeps(2))
  have pb: "publish L P C F ord s i crl d0 = (x, d1) \<Longrightarrow>
      at_ledger dir d1 = at_ledger dir d0 \<and> (wf_disk d0 \<longrightarrow> wf_disk d1)" for i crl d0 x d1
    by (auto dest: publish_keeps(1) [OF _ assms(5), where dir = dir] publish_keeps(2) [OF _ assms(5)])
  have sv: "saveLedger C F s l0 d0 = (x, d1) \<Longrightarrow> at_ledger dir d1 = at_ledger dir d0 \<and> (wf_disk d0 \<longrightarrow> wf_disk d1)" for l0 d0 x d1
    using save saveLedger_wf by blast
  have pl: "plain_seg ''root''" "plain_seg ''intermediate''" by (simp_all add: plain_seg_def)
  show ?thesis
    using assms(1,2) False pl unfolding ca_Init_def
    by (auto simp del: mkdir_each.simps split: sum.splits prod.splits option.splits dest!: mk wr pb sv)
qed

lemma cmdInit_keeps:
  assumes "cmdInit E dir' rcn icn d = (oc, d')" "wf_disk d" "dir' \<noteq> []" "at_ledger dir d \<noteq> None"
    "\<forall>ws. set (ev_ord E ws) = set ws"
  shows "at_ledger dir d' = at_ledger dir d \<and> wf_disk d'"
proof -
  define s where "s = \<lparr>st_Dir = dir', st_Passphrase = ev_pass E, st_Operator = ev_oper E\<rparr>"
  obtain e d1 where i: "ca_Init (ev_L E) (ev_P E) (ev_C E) (ev_F E) (ev_ord E) (ev_n E) (ev_now E) s rcn icn d = (e, d1)" by fastforce
  have k: "at_ledger dir d1 = at_ledger dir d \<and> wf_disk d1"
    by (rule ca_Init_keeps [OF i assms(2) _ assms(4,5)]) (simp add: s_def assms(3))
  obtain a n fs where "d' = d1 \<or> d' = snd (logCeremony (ev_L E) (ev_C E) (ev_F E) (ev_now E 2) s a n fs d1)"
    using assms(1) i unfolding cmdInit_def s_def [symmetric] Let_def by (auto split: option.splits sum.splits)
  then show ?thesis using k keeps_log(2) wf_log(2) by auto
qed

lemma cmdBackup_keeps:
  assumes "cmdBackup E T early part dir' out d = (oc, d')" "Clean out \<noteq> ledger_path dir"
  shows "at_ledger dir d' = at_ledger dir d" "wf_disk d \<Longrightarrow> wf_disk d'"
proof -
  define target where "target = (if out = [] then ''ca-backup-'' @ backup_stamp (ev_now E 0) @ ''.tar.gz'' else out)"
  have t: "Clean target \<noteq> ledger_path dir"
    using assms(2) ledger_path_suffix [of "''.tar.gz''" "''ca-backup-'' @ backup_stamp (ev_now E 0)"] by (simp add: target_def)
  define logged where "logged = {snd (logCeremony (ev_L E) (ev_C E) (ev_F E) tm s a n fs (put_file target [] d)) |tm s a n fs. True}"
  have li: "snd (logCeremony (ev_L E) (ev_C E) (ev_F E) tm s a n fs (put_file target [] d)) \<in> logged" for tm s a n fs
    unfolding logged_def by blast
  have cases: "d' = d \<or> creatable d target \<and> (\<exists>b x. d' = put_file target b x \<and> (x = put_file target [] d \<or> x \<in> logged))"
    using assms(1) unfolding cmdBackup_def target_def [symmetric] Let_def
    by (auto split: sum.splits if_splits option.splits write_fault.splits intro: li)
  have k: "x = put_file target [] d \<or> x \<in> logged \<Longrightarrow> at_ledger dir x = at_ledger dir d \<and> (creatable d target \<longrightarrow> creatable x target) \<and>
      (wf_disk d \<longrightarrow> creatable d target \<longrightarrow> wf_disk x)" for x
    using t by (auto simp: logged_def keeps_log(2) wf_put_file intro!: wf_log(2))
      (simp_all add: creatable_def is_dir_def logCeremony_def)
  show "at_ledger dir d' = at_ledger dir d" using cases t k by auto
  show "wf_disk d \<Longrightarrow> wf_disk d'" using cases k by (auto intro!: wf_put_file)
qed

lemma ca_run_ledger:
  assumes "ca_run E T J early part c d = (oc, d')" "benign C dir E c" "ledger_law C" "ledger_at C dir d = Some l"
    "good_ledger l" "wf_disk d"
  shows "\<exists>l'. ledger_at C dir d' = Some l' \<and> ledger_next l l' \<and> good_ledger l'"
proof -
  have at: "at_ledger dir d \<noteq> None" using assms(4) by (auto simp: ledger_at_def split: option.splits)
  have same: "at_ledger dir d' = at_ledger dir d \<Longrightarrow> ?thesis"
    using ledger_at_cong [where dir = dir and d' = d' and d = d and C = C] assms(4,5) by (auto simp: ledger_next_def)
  show ?thesis
  proof (cases c)
    case (CInit dir' rcn icn)
    then show ?thesis using cmdInit_keeps [OF _ assms(6) _ at] assms(1,2) same by (simp add: ca_run_def benign_def range_order_def)
  next
    case (CIssue dir' csr acct dev cn org days crl out)
    then have "cmdIssue E dir' csr acct dev cn org days crl out d = (oc, d')" "Clean out \<noteq> ledger_path dir"
      using assms(1,2) by (simp_all add: ca_run_def benign_def)
    then have "at_ledger dir d' = at_ledger dir d"
      by (auto simp: cmdIssue_def split: if_splits sum.splits prod.splits dest!: issueOne_keeps(1) [where dir = dir] keepsD(4) [where dir = dir])
    then show ?thesis by (rule same)
  next
    case (CBatch dir' inDir outDir acct org days crl)
    then have "cmdBatchIssue E J dir' inDir outDir acct org days crl d = (oc, d')" using assms(1) by (simp add: ca_run_def)
    then have "at_ledger dir d' = at_ledger dir d"
      by (auto simp: cmdBatchIssue_def split: if_splits sum.splits prod.splits option.splits
          dest!: keepsD(3,4) [where dir = dir] batch_loop_keeps [where dir = dir])
    then show ?thesis by (rule same)
  next
    case (CRevoke dir' serial reason)
    then show ?thesis using cmdRevoke_ledger assms by (simp add: ca_run_def)
  next
    case (CCRL dir' days out)
    then show ?thesis using cmdCRL_ledger assms by (simp add: ca_run_def)
  next
    case (CBackup dir' out)
    then show ?thesis using cmdBackup_keeps(1) assms(1,2) same by (simp add: ca_run_def benign_def)
  next
    case (CRestore arch dir')
    obtain raw where "at_ledger dir d = Some raw" using at by auto
    then show ?thesis using cmdRestore_keeps(1) [OF _ assms(6)] assms(1) CRestore same by (simp add: ca_run_def)
  qed (use assms(1) same in \<open>auto simp: ca_run_def cmdValidate_def cmdStatus_def cmdShow_def split: if_splits sum.splits option.splits\<close>)
qed

lemma ca_run_wf:
  assumes "ca_run E T J early part c d = (oc, d')" "benign C dir E c" "at_ledger dir d \<noteq> None" "wf_disk d"
  shows "wf_disk d'"
proof (cases c)
  case (CInit dir' rcn icn)
  then show ?thesis using cmdInit_keeps [OF _ assms(4) _ assms(3)] assms(1,2) by (simp add: ca_run_def benign_def range_order_def)
next
  case (CIssue dir' csr acct dev cn org days crl out)
  then have "cmdIssue E dir' csr acct dev cn org days crl out d = (oc, d')" "Clean out \<noteq> ledger_path dir"
    using assms(1,2) by (simp_all add: ca_run_def benign_def)
  then show ?thesis
    using assms(4) wf_log(1) by (auto simp: cmdIssue_def log_done_def split: if_splits sum.splits prod.splits dest!: issueOne_keeps(2))
next
  case (CBatch dir' inDir outDir acct org days crl)
  then have "cmdBatchIssue E J dir' inDir outDir acct org days crl d = (oc, d')" using assms(1) by (simp add: ca_run_def)
  then show ?thesis
    using assms(4) by (auto simp: cmdBatchIssue_def log_done_def split: if_splits sum.splits prod.splits option.splits
      intro!: wf_log(2) dest!: wfD(3) batch_loop_keeps [where dir = dir])
next
  case (CRevoke dir' serial reason)
  then have "cmdRevoke E dir' serial reason d = (oc, d')" using assms(1) by (simp add: ca_run_def)
  then show ?thesis
    using assms(4) by (auto simp: cmdRevoke_def Let_def log_done_def split: if_splits sum.splits prod.splits option.splits
      intro!: wf_log(2) dest!: saveLedger_wf)
next
  case (CCRL dir' days out)
  then have "cmdCRL E dir' days out d = (oc, d')" "\<forall>ws. set (ev_ord E ws) = set ws"
    using assms(1,2) by (simp_all add: ca_run_def benign_def range_order_def)
  moreover have "crl_record E s l1 crl out d1 = (oc, d2) \<Longrightarrow> wf_disk d1 \<Longrightarrow> wf_disk d2" for s l1 crl d1 d2
    by (auto simp: crl_record_def log_done_def split: prod.splits option.splits if_splits intro!: wf_log(2)
      dest!: saveLedger_wf dest: wfD(1))
  ultimately show ?thesis
    using assms(4) by (auto simp: cmdCRL_def Let_def split: sum.splits prod.splits option.splits dest!: publish_keeps(2))
next
  case (CBackup dir' out)
  then show ?thesis using cmdBackup_keeps(2) [of E T early part dir' out d oc d' dir] assms by (simp add: ca_run_def benign_def)
next
  case (CRestore arch dir')
  then show ?thesis using cmdRestore_keeps(2) [OF _ assms(4)] assms(1) by (simp add: ca_run_def)
qed (use assms(1,4) in \<open>auto simp: ca_run_def cmdValidate_def cmdStatus_def cmdShow_def split: if_splits sum.splits option.splits\<close>)

subsection \<open>Sequences of commands\<close>

inductive ca_history :: "ca_lib \<Rightarrow> string \<Rightarrow> disk \<Rightarrow> disk \<Rightarrow> bool" for C dir d where
  start: "ca_history C dir d d"
| command: "ca_history C dir d d1 \<Longrightarrow> benign C dir E c \<Longrightarrow> ca_run E T J early part c d1 = (oc, d2) \<Longrightarrow> ca_history C dir d d2"

definition ledger_grows :: "ledger \<Rightarrow> ledger \<Rightarrow> bool" where
  "ledger_grows l l' \<longleftrightarrow> (\<exists>rs k. lg_Revocations l' = lg_Revocations l @ rs \<and>
     lg_CRLNumber l' = wrap64 (lg_CRLNumber l + int k) \<and>
     list_all (\<lambda>r. SetString16 (rv_Serial r) \<noteq> None \<and> map_of reasonCodes (rv_Reason r) = Some (rv_ReasonCode r)) rs \<and>
     (distinct (map rv_Serial (lg_Revocations l)) \<longrightarrow> distinct (map rv_Serial (lg_Revocations l'))))"

lemma wrap64_id: "- (2 ^ 63) \<le> n \<Longrightarrow> n < 2 ^ 63 \<Longrightarrow> wrap64 n = n"
  by (simp add: wrap64_def signed_of_int signed_take_bit_int_eq_self)

lemma wrap64_Suc: "wrap64 (wrap64 n + 1) = wrap64 (n + 1)"
  unfolding wrap64_def by (simp add: of_int_add [where ?'a = "64 word"])

lemma ledger_grows_refl: "good_ledger l \<Longrightarrow> ledger_grows l l"
  unfolding ledger_grows_def by (intro exI [of _ "[]"] exI [of _ 0]) (simp add: good_ledger_def wrap64_id)

lemma ledger_grows_next: "ledger_grows l l1 \<Longrightarrow> ledger_next l1 l2 \<Longrightarrow> ledger_grows l l2"
proof -
  assume g: "ledger_grows l l1" and n: "ledger_next l1 l2"
  then obtain rs k where rs: "lg_Revocations l1 = lg_Revocations l @ rs" "lg_CRLNumber l1 = wrap64 (lg_CRLNumber l + int k)"
      "list_all (\<lambda>r. SetString16 (rv_Serial r) \<noteq> None \<and> map_of reasonCodes (rv_Reason r) = Some (rv_ReasonCode r)) rs"
      "distinct (map rv_Serial (lg_Revocations l)) \<longrightarrow> distinct (map rv_Serial (lg_Revocations l1))"
    unfolding ledger_grows_def by blast
  consider "l2 = l1" | "l2 = l1\<lparr>lg_CRLNumber := wrap64 (lg_CRLNumber l1 + 1)\<rparr>"
    | r where "l2 = l1\<lparr>lg_Revocations := lg_Revocations l1 @ [r]\<rparr>" "rv_Serial r \<notin> set (map rv_Serial (lg_Revocations l1))"
        "SetString16 (rv_Serial r) \<noteq> None" "map_of reasonCodes (rv_Reason r) = Some (rv_ReasonCode r)"
    using n unfolding ledger_next_def by blast
  then show ?thesis
  proof cases
    case 1
    then show ?thesis using g by simp
  next
    case 2
    have "lg_CRLNumber l2 = wrap64 (lg_CRLNumber l + int (Suc k))" using 2 rs(2) wrap64_Suc [of "lg_CRLNumber l + int k"] by (simp add: algebra_simps)
    then show ?thesis unfolding ledger_grows_def using rs 2 by (intro exI [of _ rs] exI [of _ "Suc k"]) simp
  next
    case (3 r)
    then show ?thesis unfolding ledger_grows_def using rs by (intro exI [of _ "rs @ [r]"] exI [of _ k]) auto
  qed
qed

lemma ca_history_ledger:
  assumes "ca_history C dir d d'" "wf_disk d" "ledger_law C" "ledger_at C dir d = Some l" "good_ledger l"
  shows "\<exists>l'. ledger_at C dir d' = Some l' \<and> ledger_grows l l' \<and> good_ledger l' \<and> wf_disk d'"
  using assms(1)
proof (induction rule: ca_history.induct)
  case start
  then show ?case using assms ledger_grows_refl by blast
next
  case (command d1 E c T J early part oc d2)
  then obtain l1 where l1: "ledger_at C dir d1 = Some l1" "ledger_grows l l1" "good_ledger l1" "wf_disk d1" by blast
  have at: "at_ledger dir d1 \<noteq> None" using l1(1) by (auto simp: ledger_at_def split: option.splits)
  obtain l2 where "ledger_at C dir d2 = Some l2" "ledger_next l1 l2" "good_ledger l2"
    using ca_run_ledger [OF command(3,2) assms(3) l1(1,3,4)] by blast
  then show ?case using ledger_grows_next [OF l1(2)] ca_run_wf [OF command(3,2) at l1(4)] by blast
qed

end
