(* ===== verification/CAClaims.thy ===== *)
theory CAClaims
  imports CAProps DevIssue
begin

section \<open>What the offline authority guarantees\<close>

text \<open>
  The properties of the authority's commands, with their demonstrations on a small disk and toy codecs
  that satisfy the laws of the libraries. The last ones meet the server: a published list makes the
  server's revocation check refuse the certificate, and a certificate issued for an enrolment's request
  is one the server binds to that enrolment.
\<close>

subsection \<open>Toy libraries\<close>

text \<open>A PEM whose lengths are in unary, a ledger codec with a separator outside ASCII.\<close>

definition demo_pem_encode :: "string \<Rightarrow> bytes \<Rightarrow> bytes" where
  "demo_pem_encode ty b = replicate (length ty) (CHR ''x'') @ ''|'' @ replicate (length b) (CHR ''x'') @ ''|'' @ ty @ b"

definition demo_pem_decode :: "bytes \<Rightarrow> (string \<times> bytes \<times> bytes) option" where
  "demo_pem_decode s =
     (let n = length (takeWhile (\<lambda>c. c = CHR ''x'') s); s1 = drop n s;
          s2 = tl s1; m = length (takeWhile (\<lambda>c. c = CHR ''x'') s2); s3 = drop m s2; s4 = tl s3
      in if s1 = [] \<or> s3 = [] \<or> length s4 < n + m then None
         else Some (take n s4, take m (drop n s4), drop (n + m) s4))"

lemma demo_pem_roundtrip: "demo_pem_decode (demo_pem_encode ty b @ rest) = Some (ty, b, rest)"
proof -
  have tw: "takeWhile (\<lambda>c. c = CHR ''x'') (replicate k (CHR ''x'') @ CHR ''|'' # r) = replicate k (CHR ''x'')" for k r
    by (induction k) simp_all
  show ?thesis by (simp add: demo_pem_decode_def demo_pem_encode_def tw Let_def)
qed

lemma demo_pem_shorter: "demo_pem_decode s = Some (ty, b, rest) \<Longrightarrow> length rest < length s"
proof -
  assume a: "demo_pem_decode s = Some (ty, b, rest)"
  define n where "n = length (takeWhile (\<lambda>c. c = CHR ''x'') s)"
  define m where "m = length (takeWhile (\<lambda>c. c = CHR ''x'') (tl (drop n s)))"
  have "drop n s \<noteq> []" "rest = drop (n + m) (tl (drop m (tl (drop n s))))"
    using a unfolding demo_pem_decode_def Let_def n_def [symmetric] m_def [symmetric] by (auto split: if_splits)
  then show ?thesis by (simp add: less_diff_conv2)
qed

definition sep :: string where "sep = [CHR 0xFF]"

definition demo_rev_code :: "revocation \<Rightarrow> bytes" where
  "demo_rev_code r = rv_Serial r @ sep @ rv_Reason r @ sep @ hex_int (rv_ReasonCode r) @ sep @ hex_int (rv_RevokedAt r) @ sep"

definition demo_ledger_code :: "ledger \<Rightarrow> bytes" where
  "demo_ledger_code l = hex_int (lg_CRLNumber l) @ sep @ concat (map demo_rev_code (lg_Revocations l))"

fun demo_revs :: "string list \<Rightarrow> revocation list" where
  "demo_revs (a # b # c # t # r) = \<lparr>rv_Serial = a, rv_Reason = b, rv_ReasonCode = the (SetString16 c),
     rv_RevokedAt = the (SetString16 t)\<rparr> # demo_revs r"
| "demo_revs r = []"

definition demo_ledger_decode :: "bytes \<Rightarrow> ledger result" where
  "demo_ledger_decode b =
     (case Split b (CHR 0xFF) of
        n # fs \<Rightarrow> (case SetString16 n of
            Some k \<Rightarrow> Inr \<lparr>lg_CRLNumber = k, lg_Revocations = demo_revs fs\<rparr>
          | None \<Rightarrow> Inl (Errorf ''ledger''))
      | [] \<Rightarrow> Inl (Errorf ''ledger''))"

lemma ascii_no_sep: "list_all (\<lambda>c. byte_in c 0 127) s \<Longrightarrow> CHR 0xFF \<notin> set s"
  by (auto simp: list_all_iff byte_in_def)

lemma hex_int_no_sep: "CHR 0xFF \<notin> set (hex_int i)"
  using hex_nat_lower by (auto simp: hex_int_def lower_hex_def)

lemma demo_revs_code:
  "list_all good_revocation rs \<Longrightarrow> demo_revs (Split (concat (map demo_rev_code rs)) (CHR 0xFF)) = rs"
proof (induction rs)
  case (Cons r rs)
  have "CHR 0xFF \<notin> set (rv_Serial r)" "CHR 0xFF \<notin> set (rv_Reason r)"
    using Cons.prems ascii_no_sep by (auto simp: good_revocation_def)
  then have "Split (concat (map demo_rev_code (r # rs))) (CHR 0xFF) =
      rv_Serial r # rv_Reason r # hex_int (rv_ReasonCode r) # hex_int (rv_RevokedAt r) #
      Split (concat (map demo_rev_code rs)) (CHR 0xFF)"
    by (simp add: demo_rev_code_def sep_def Split_append_sep hex_int_no_sep)
  then show ?case using Cons by (simp add: SetString16_hex_int)
qed simp

lemma demo_ledger_roundtrip: "good_ledger l \<Longrightarrow> demo_ledger_decode (demo_ledger_code l) = Inr l"
  by (simp add: demo_ledger_decode_def demo_ledger_code_def sep_def Split_append_sep hex_int_no_sep SetString16_hex_int
      demo_revs_code good_ledger_def)

text \<open>Ciphers that mark the text, sealed keys as three PEM blocks of the fields.\<close>

definition demo_blob_code :: "enc_blob \<Rightarrow> bytes" where
  "demo_blob_code b = demo_pem_encode (hex_nat (eb_Time b)) (hex_nat (eb_MemKiB b)) @
     demo_pem_encode (hex_nat (eb_Threads b)) (eb_Salt b) @ demo_pem_encode (eb_Nonce b) (eb_CT b)"

definition demo_nat :: "string \<Rightarrow> nat" where
  "demo_nat s = (case SetString16 s of None \<Rightarrow> 0 | Some i \<Rightarrow> nat i)"

definition demo_blob_decode :: "bytes \<Rightarrow> enc_blob result" where
  "demo_blob_decode x =
     (case demo_pem_decode x of None \<Rightarrow> Inl (Errorf ''blob'') | Some (t, m, r1) \<Rightarrow>
        (case demo_pem_decode r1 of None \<Rightarrow> Inl (Errorf ''blob'') | Some (p, salt, r2) \<Rightarrow>
           (case demo_pem_decode r2 of None \<Rightarrow> Inl (Errorf ''blob'') | Some (nonce, ct, r3) \<Rightarrow>
              Inr \<lparr>eb_Version = 1, eb_KDF = ''argon2id'', eb_Time = demo_nat t, eb_MemKiB = demo_nat m,
                eb_Threads = demo_nat p, eb_Salt = salt, eb_Nonce = nonce, eb_CT = ct\<rparr>)))"

lemma demo_nat_hex: "demo_nat (hex_nat n) = n"
proof -
  have "hex_nat n = hex_int (int n)" by (simp add: hex_int_def)
  then show ?thesis by (simp add: demo_nat_def SetString16_hex_int)
qed

lemma demo_blob_roundtrip:
  "eb_Version b = 1 \<Longrightarrow> eb_KDF b = ''argon2id'' \<Longrightarrow> demo_blob_decode (demo_blob_code b) = Inr b"
  using demo_pem_roundtrip [of "eb_Nonce b" "eb_CT b" "[]"]
  by (cases b) (simp add: demo_blob_decode_def demo_blob_code_def demo_pem_roundtrip demo_nat_hex)

definition demo_calib :: ca_lib where
  "demo_calib = \<lparr>C_rand = (\<lambda>i n. Inr (replicate n (CHR ''r''))), C_NewGCM = (\<lambda>k. None), C_NonceSize = 1,
     C_Seal = (\<lambda>k n p. CHR ''!'' # p), C_Open = (\<lambda>k n c. if c = [] then Inl (Errorf ''auth'') else Inr (tl c)),
     C_marshal_blob = (\<lambda>b. if eb_Version b = 1 then Inr (demo_blob_code b) else Inl (Errorf ''blob'')),
     C_unmarshal_blob = demo_blob_decode,
     C_marshal_ledger = (\<lambda>l. Inr (demo_ledger_code l)), C_unmarshal_ledger = demo_ledger_decode,
     C_marshal_issued = (\<lambda>r. Inr (ir_Serial r)), C_marshal_ceremony = (\<lambda>e. Inr (ce_Action e))\<rparr>"

lemma demo_ca_laws: "gcm_law demo_calib" "blob_law demo_calib"
  by (auto simp: gcm_law_def blob_law_def demo_calib_def demo_blob_roundtrip split: if_splits)

lemma demo_ledger_law: "ledger_law demo_calib"
  by (simp add: ledger_law_def demo_calib_def demo_ledger_roundtrip)

definition demo_pkilib :: pki_lib where
  "demo_pkilib = \<lparr>P_GenerateKey = (\<lambda>n. Inr \<lparr>sk_params = ''ML-DSA-65'', sk_bytes = dec_nat n\<rparr>),
     P_MarshalPKCS8 = (\<lambda>sk. if sk_params sk = ''ML-DSA-65'' then Inr (sk_bytes sk) else Inl (Errorf ''key'')),
     P_ParsePKCS8 = (\<lambda>b. Inr (MLDSAPriv \<lparr>sk_params = ''ML-DSA-65'', sk_bytes = b\<rparr>)),
     P_Public = (\<lambda>sk. MLDSAKey (sk_params sk) (sk_bytes sk)),
     P_randInt = (\<lambda>n. Inr (255 + int n)),
     P_CreateCertificate = (\<lambda>t pa pub key. Inl (Errorf ''create'')),
     P_CreateCertificateRequest = (\<lambda>n sk. Inr (sk_bytes sk)),
     P_CreateRevocationList = (\<lambda>t c sk. Inl (Errorf ''crl'')),
     P_pem_encode = demo_pem_encode\<rparr>"

definition demo_lib2 :: lib where
  "demo_lib2 = demo_lib\<lparr>L_pem_decode := demo_pem_decode\<rparr>"

definition demo_caenv :: ca_env where
  "demo_caenv = \<lparr>ev_L = demo_lib2, ev_P = demo_pkilib, ev_C = demo_calib, ev_F = no_faults, ev_ord = (\<lambda>ws. ws),
     ev_n = 0, ev_now = (\<lambda>i. 2), ev_pass = [], ev_oper = ''op''\<rparr>"

definition demo_disk :: disk where
  "demo_disk = \<lparr>d_files = [(''ca/intermediate/cert.pem'', []),
       (''ca/ledger.json'', demo_ledger_code \<lparr>lg_CRLNumber = 0, lg_Revocations = []\<rparr>)],
     d_dirs = [''ca'', ''ca/intermediate'']\<rparr>"

lemma demo_paths:
  "Clean ''ca/ledger.json'' = ''ca/ledger.json''" "ledger_path ''ca'' = ''ca/ledger.json''"
  "Dir ''ca/ledger.json'' = ''ca''" "Dir ''ca/intermediate/cert.pem'' = ''ca/intermediate''" "Dir ''ca'' = ''.''"
  "Dir ''ca/intermediate'' = ''ca''"
  by code_simp+

lemma demo_disk_wf: "wf_disk demo_disk"
proof -
  have sg: "segs ''ca'' = [''ca'']" "segs ''.'' = []" "segs ''ca/intermediate'' = [''ca'', ''intermediate'']"
      "segs ''ca/ledger.json'' = [''ca'', ''ledger.json'']" "segs ''ca/intermediate/cert.pem'' = [''ca'', ''intermediate'', ''cert.pem'']"
    by code_simp+
  show ?thesis by (simp add: wf_disk_def demo_disk_def is_dir_def demo_paths sg)
qed

lemma demo_disk_ledger: "ledger_at demo_calib ''ca'' demo_disk = Some \<lparr>lg_CRLNumber = 0, lg_Revocations = []\<rparr>"
  by code_simp

lemma demo_json_time: "json_time 2"
  by code_simp

subsection \<open>The ledger\<close>


definition demo_revoked :: disk where
  "demo_revoked = snd (cmdRevoke demo_caenv ''ca'' ''ff'' ''superseded'' demo_disk)"

lemma demo_history: "ca_history demo_calib ''ca'' demo_disk demo_revoked"
proof (rule ca_history.command [OF ca_history.start])
  show "benign demo_calib ''ca'' demo_caenv (CRevoke ''ca'' ''ff'' ''superseded'')"
    by (simp add: benign_def demo_caenv_def no_faults_def demo_json_time range_order_def)
  show "ca_run demo_caenv \<lparr>T_write = (\<lambda>es. []), T_read = (\<lambda>b. Inr TarEnd)\<rparr> (\<lambda>b m. m) False []
     (CRevoke ''ca'' ''ff'' ''superseded'') demo_disk = (fst (cmdRevoke demo_caenv ''ca'' ''ff'' ''superseded'' demo_disk), demo_revoked)"
    by (simp add: demo_revoked_def ca_run_def)
qed


subsection \<open>Restoring\<close>

text \<open>C33: Whatever archive it is given, and whether it succeeds or fails, \<open>ca-admin restore\<close> changes no file
  that existed before, and every file it creates lies below the destination directory: an entry with
  \<open>..\<close> segments or an absolute name cannot escape.\<close>

theorem restore_confined:
  assumes "cmdRestore E T inPath dir d = (oc, d')" and "wf_disk d"
  shows "(map_of (d_files d) q = Some b \<longrightarrow> map_of (d_files d') q = Some b) \<and>
    (map_of (d_files d') q \<noteq> map_of (d_files d) q \<longrightarrow> below dir q)"
  using cmdRestore_keeps [OF assms] by blast

definition demo_archive :: tar_stream where
  "demo_archive = TarEntry \<lparr>te_Name = ''x/a'', te_Type = TypeReg, te_Data = ''1''\<rparr>
     (TarEntry \<lparr>te_Name = ''x/../../ca/ledger.json'', te_Type = TypeReg, te_Data = ''2''\<rparr> TarEnd)"

definition demo_restore :: "cmd_exit \<times> disk" where
  "demo_restore = cmdRestore demo_caenv \<lparr>T_write = (\<lambda>es. []), T_read = (\<lambda>b. Inr demo_archive)\<rparr> ''ca/ledger.json'' ''new'' demo_disk"

theorem restore_confined_witness:
  "map_of (d_files (snd demo_restore)) ''ca/ledger.json'' = map_of (d_files demo_disk) ''ca/ledger.json'' \<and>
     map_of (d_files (snd demo_restore)) ''new/a'' = Some ''1'' \<and> fst demo_restore \<noteq> Exited"
proof (intro conjI)
  have "cmdRestore demo_caenv \<lparr>T_write = (\<lambda>es. []), T_read = (\<lambda>b. Inr demo_archive)\<rparr> ''ca/ledger.json'' ''new'' demo_disk =
      (fst demo_restore, snd demo_restore)"
    by (simp add: demo_restore_def)
  from restore_confined [OF this demo_disk_wf, of "''ca/ledger.json''"]
  show "map_of (d_files (snd demo_restore)) ''ca/ledger.json'' = map_of (d_files demo_disk) ''ca/ledger.json''"
    by (simp add: demo_disk_def)
  show "map_of (d_files (snd demo_restore)) ''new/a'' = Some ''1''" by code_simp
  show "fst demo_restore \<noteq> Exited" by code_simp
qed

subsection \<open>Revocation, from the ledger to the server's check\<close>

text \<open>A list that was created is parsed with its serial numbers, and its signature is the issuer's.\<close>

definition crl_law :: "lib \<Rightarrow> pki_lib \<Rightarrow> bool" where
  "crl_law L P \<longleftrightarrow> (\<forall>tmpl issuer key der. P_CreateRevocationList P tmpl issuer key = Inr der \<longrightarrow>
     (\<exists>crl. L_ParseRevocationList L der = Inr crl \<and> map fst (rl_Entries crl) = map fst (ct_Entries tmpl) \<and>
        (P_Public P key = x_PublicKey issuer \<longrightarrow> L_crl_CheckSignatureFrom L crl issuer = None)))"

definition crl_path :: "string \<Rightarrow> string" where
  "crl_path dir = Join [dir, ''public'', ''crl.pem'']"

lemma crl_path_eq: "ca_path s [''public'', ''crl.pem''] = crl_path (st_Dir s)"
  by (simp add: crl_path_def ca_path_def)

lemma crl_path_Clean [simp]: "Clean (crl_path dir) = crl_path dir"
  unfolding crl_path_def by (rule Join_plain_Clean) (simp_all add: plain_seg_def)

lemma crl_path_other: "a \<noteq> ''crl.pem'' \<Longrightarrow> plain_seg a \<Longrightarrow> Clean (ca_path s [a]) \<noteq> crl_path dir"
  using ca_path_other_last [of "[]" a "[''public'']" "''crl.pem''" s "\<lparr>st_Dir = dir, st_Passphrase = [], st_Operator = []\<rparr>"]
  by (simp add: ca_path_Clean plain_seg_def crl_path_eq)

lemma cmdRevoke_Done:
  assumes "cmdRevoke E dir serial reason d = (Exited, d')" "benign C dir E (CRevoke dir serial reason)" "ledger_law C"
    "ledger_at C dir d = Some l" "good_ledger l"
  shows "\<exists>l'. ledger_at C dir d' = Some l' \<and> good_ledger l' \<and> serial \<in> set (map rv_Serial (lg_Revocations l'))"
proof -
  define r where "r code = \<lparr>rv_Serial = serial, rv_Reason = reason, rv_ReasonCode = code, rv_RevokedAt = ev_now E 0\<rparr>" for code
  obtain code s l0 d1 where code: "map_of reasonCodes reason = Some code" and ser: "SetString16 serial \<noteq> None"
    and s: "ca_open E dir d = Inr s" and l0: "loadLedger (ev_C E) (ev_F E) s d = Inr l0"
    and save: "saveLedger (ev_C E) (ev_F E) s (l0\<lparr>lg_Revocations := lg_Revocations l0 @ [r code]\<rparr>) d = (None, d1)"
    and d': "at_ledger dir d' = at_ledger dir d1"
    using assms(1) unfolding cmdRevoke_def Let_def r_def
    by (auto split: if_splits option.splits sum.splits prod.splits dest: keepsD(4) [where dir = dir])
  have C: "ev_C E = C" "fa_read (ev_F E) (ledger_path dir) = None" "fa_write (ev_F E) (ledger_path dir) = None" "json_time (ev_now E 0)"
    using assms(2) by (auto simp: benign_def)
  have p: "ledger_path (st_Dir s) = ledger_path dir" using ca_open_dir [OF s] by simp
  have l: "l0 = l" using loadLedger_at [OF C(2) p assms(4)] l0 C(1) by simp
  have g: "good_ledger (l\<lparr>lg_Revocations := lg_Revocations l @ [r code]\<rparr>)"
    using assms(5) C(4) SetString16_ascii ser reasonCodes_ascii [OF code]
    by (auto simp: good_ledger_def good_revocation_def r_def)
  have "ledger_at C dir d' = ledger_at C dir d1" using d' by (rule ledger_at_cong)
  then show ?thesis
    using saveLedger_at [OF assms(3) C(3) p g, of d None d1] save assms(4) g by (auto simp: l C(1) r_def)
qed

lemma crl_record_crl_path:
  assumes "crl_record E s l1 crl out d = (Exited, d')" "map_of (d_files d) (crl_path dir) = Some crl"
  shows "map_of (d_files d') (crl_path dir) = Some crl"
proof -
  obtain d2 where d2: "saveLedger (ev_C E) (ev_F E) s l1 d = (None, d2)"
    using assms(1) by (auto simp: crl_record_def split: prod.splits option.splits)
  have s2: "map_of (d_files d2) (crl_path dir) = Some crl"
    using d2 assms(2) WriteFile_other [of "crl_path dir" "ca_path s [''ledger.json'']" "ev_F E"] crl_path_other [of "''ledger.json''" s dir]
    by (simp add: saveLedger_def plain_seg_def) (metis snd_conv)
  have out: "map_of (d_files d3) (crl_path dir) = Some crl"
    if "WriteFile (ev_F E) out crl d2 = (None, d3)" for d3
    using WriteFile_ok [OF that] s2 by simp
  have lg: "map_of (d_files (snd (log_done E t s a n fs d3))) (crl_path dir) = map_of (d_files d3) (crl_path dir)" for t a n fs d3
    using AppendFile_other [of "crl_path dir" "ca_path s [''ceremony.jsonl'']"] crl_path_other [of "''ceremony.jsonl''" s dir]
    by (simp add: log_done_def logCeremony_def plain_seg_def)
  have "\<exists>d3 t a n fs. map_of (d_files d3) (crl_path dir) = Some crl \<and> d' = snd (log_done E t s a n fs d3)"
    using assms(1) d2 s2 out unfolding crl_record_def
    by (auto split: prod.splits option.splits if_splits simp del: split_paired_Ex) (metis snd_conv)+
  then show ?thesis using lg by auto
qed

lemma cmdCRL_Done:
  assumes "cmdCRL E dir days out d = (Exited, d')" "range_order (ev_ord E)" "loadLedger (ev_C E) (ev_F E) s0 d = Inr l"
    "st_Dir s0 = dir"
  shows "\<exists>s i crl k. ca_open E dir d = Inr s \<and> inter_of E s d = Inr i \<and> NewCRLDetailed (ev_P E) (ev_now E 0) i (crl_entries l) k
      (days_duration days) = Inr crl \<and> map_of (d_files d') (crl_path dir) = Some crl"
proof -
  obtain s l1 i crl d1 where s: "ca_open E dir d = Inr s" and l1: "loadLedger (ev_C E) (ev_F E) s d = Inr l1"
    and i: "inter_of E s d = Inr i"
    and crl: "NewCRLDetailed (ev_P E) (ev_now E 0) i (crl_entries l1) (wrap64 (lg_CRLNumber l1 + 1)) (days_duration days) = Inr crl"
    and pub: "publish (ev_L E) (ev_P E) (ev_C E) (ev_F E) (ev_ord E) s i (Some crl) d = (None, d1)"
    and rec: "crl_record E s (l1\<lparr>lg_CRLNumber := wrap64 (lg_CRLNumber l1 + 1)\<rparr>) crl out d1 = (Exited, d')"
    using assms(1) unfolding cmdCRL_def Let_def by (auto split: sum.splits prod.splits option.splits)
  have sd: "st_Dir s = dir" using ca_open_dir [OF s] .
  have "loadLedger (ev_C E) (ev_F E) s d = loadLedger (ev_C E) (ev_F E) s0 d"
    using sd assms(4) by (simp add: loadLedger_def ledger_path_eq)
  then have "l1 = l" using l1 assms(3) by simp
  obtain r where wa: "write_all (ev_F E) s (ev_ord E (publish_writes (ev_P E) r i (Some crl))) d = (None, d1)"
    using pub by (auto simp: publish_def split: sum.splits)
  define ws where "ws = publish_writes (ev_P E) r i (Some crl)"
  have w: "keys_distinct ws" "list_all (\<lambda>w. plain_seg (fst w)) ws" "(''crl.pem'', crl) \<in> set ws"
    by (simp_all add: ws_def publish_writes_def plain_seg_def)
  have o: "keys_distinct (ev_ord E ws)" "list_all (\<lambda>w. plain_seg (fst w)) (ev_ord E ws)" "(''crl.pem'', crl) \<in> set (ev_ord E ws)"
    using assms(2) w by (auto simp: range_order_def list_all_iff)
  have "map_of (ev_ord E ws) ''crl.pem'' = Some crl" using o(1,3) by (rule map_of_is_SomeI)
  then have "map_of (d_files d1) (crl_path dir) = Some crl"
    using write_all_ok [OF wa [folded ws_def] o(2,1), of "''crl.pem''" crl] crl_path_eq [of s] sd by simp
  then have "map_of (d_files d') (crl_path dir) = Some crl" by (rule crl_record_crl_path [OF rec])
  then show ?thesis using s i crl \<open>l1 = l\<close> by blast
qed

lemma serialEqual_refl: "serialEqual (Some n) (Some n)"
  by (simp add: serialEqual_def)

lemma ValidateCRL_created:
  assumes "pem_law L P" "crl_law L P" "NewCRLDetailed P t i (crl_entries l) k v = Inr crl"
    "serial_hex (x_SerialNumber cert) \<in> set (map rv_Serial (lg_Revocations l))" "x_SerialNumber cert = Some n"
    "P_Public P (ca_Key i) = x_PublicKey (ca_Cert i)"
  shows "\<exists>st. ValidateCRL L crl (Some (ca_Cert i)) cert now = (st, None) \<and> cs_Revoked st \<and> cs_SignatureOK st"
proof -
  obtain tmpl der where t: "P_CreateRevocationList P tmpl (ca_Cert i) (ca_Key i) = Inr der"
      "ct_Entries tmpl = map (crl_entry t) (crl_entries l)" "crl = P_pem_encode P ''X509 CRL'' der"
    using assms(3) by (auto simp: NewCRLDetailed_def Let_def split: sum.splits)
  obtain c where c: "L_ParseRevocationList L der = Inr c" "map fst (rl_Entries c) = map fst (ct_Entries tmpl)"
      "L_crl_CheckSignatureFrom L c (ca_Cert i) = None"
    using assms(2,6) t(1) unfolding crl_law_def by blast
  have "pem_or_der L crl = der" using pem_lawD [OF assms(1)] t(3) by (simp add: pem_or_der_def)
  moreover have "Some n \<in> set (map fst (rl_Entries c))"
  proof -
    obtain r where r: "r \<in> set (lg_Revocations l)" "rv_Serial r = hex_int n"
      using assms(4,5) by (auto simp: serial_hex_def)
    then have "SetString16 (rv_Serial r) = Some n" by (simp add: SetString16_hex_int)
    moreover have "SetString16 (rv_Serial r) \<in> set (map fst (ct_Entries tmpl))"
      using r(1) by (auto simp: t(2) crl_entries_def crl_entry_def image_iff)
    ultimately show ?thesis using c(2) by simp
  qed
  then obtain en where "find (\<lambda>en. serialEqual (fst en) (x_SerialNumber cert)) (rl_Entries c) = Some en"
    using assms(5) serialEqual_refl [of n]
    by (cases "find (\<lambda>en. serialEqual (fst en) (x_SerialNumber cert)) (rl_Entries c)") (force simp: find_None_iff)+
  ultimately show ?thesis using c(1,3) by (simp add: ValidateCRL_def Let_def)
qed


text \<open>A directory with its authorities: keys in the clear, one certificate each.\<close>

definition demo_ca_cert :: x509cert where
  "demo_ca_cert = demo_cert\<lparr>x_Raw := ''cacert'', x_IsCA := True, x_UnknownExtKeyUsage := [], x_PublicKey := MLDSAKey ''ML-DSA-65'' ''k''\<rparr>"

definition demo_lib3 :: lib where
  "demo_lib3 = demo_lib2\<lparr>L_ParseCertificate := (\<lambda>b. if b = ''cacert'' then Inr demo_ca_cert
       else if b = ''raw'' then Inr demo_cert else Inl (Errorf ''x509'')),
     L_ParseRevocationList := (\<lambda>b. if b = ''crl'' then Inr \<lparr>rl_Raw = b, rl_ThisUpdate = 0, rl_NextUpdate = 0, rl_Entries = [(Some 255, 2)]\<rparr>
       else Inl (Errorf ''crl'')),
     L_ParseCertificateRequest := (\<lambda>b. Inr demo_csr)\<rparr>"

definition demo_pkilib3 :: pki_lib where
  "demo_pkilib3 = demo_pkilib\<lparr>P_CreateRevocationList := (\<lambda>t c sk. if map fst (ct_Entries t) = [Some 255] then Inr ''crl'' else Inl (Errorf ''crl''))\<rparr>"

definition demo_env3 :: ca_env where
  "demo_env3 = demo_caenv\<lparr>ev_L := demo_lib3, ev_P := demo_pkilib3\<rparr>"

definition demo_disk3 :: disk where
  "demo_disk3 = \<lparr>d_files = [(''ca/intermediate/cert.pem'', demo_pem_encode ''CERTIFICATE'' ''cacert''),
       (''ca/intermediate/key.pem'', demo_pem_encode ''PRIVATE KEY'' ''k''),
       (''ca/root/cert.pem'', demo_pem_encode ''CERTIFICATE'' ''cacert''),
       (''ca/root/key.pem'', demo_pem_encode ''PRIVATE KEY'' ''k''),
       (''ca/ledger.json'', demo_ledger_code \<lparr>lg_CRLNumber = 0, lg_Revocations = []\<rparr>)],
     d_dirs = [''ca'', ''ca/intermediate'', ''ca/root'', ''ca/public'']\<rparr>"

lemma demo_disk3_wf: "wf_disk demo_disk3"
proof -
  have dr: "Dir ''ca/intermediate/key.pem'' = ''ca/intermediate''" "Dir ''ca/root/key.pem'' = ''ca/root''"
      "Dir ''ca/root/cert.pem'' = ''ca/root''" "Dir ''ca/root'' = ''ca''" "Dir ''ca/public'' = ''ca''"
    by code_simp+
  have sg: "segs ''ca'' = [''ca'']" "segs ''.'' = []" "segs ''ca/intermediate'' = [''ca'', ''intermediate'']"
      "segs ''ca/root'' = [''ca'', ''root'']"
      "segs ''ca/ledger.json'' = [''ca'', ''ledger.json'']" "segs ''ca/intermediate/cert.pem'' = [''ca'', ''intermediate'', ''cert.pem'']"
      "segs ''ca/intermediate/key.pem'' = [''ca'', ''intermediate'', ''key.pem'']"
      "segs ''ca/root/key.pem'' = [''ca'', ''root'', ''key.pem'']" "segs ''ca/root/cert.pem'' = [''ca'', ''root'', ''cert.pem'']"
    by code_simp+
  show ?thesis by (simp add: wf_disk_def demo_disk3_def is_dir_def demo_paths dr sg)
qed

lemma demo_laws3: "pem_law demo_lib3 demo_pkilib3" "crl_law demo_lib3 demo_pkilib3" "pem_progress demo_lib3" "key_law demo_pkilib3"
  by (auto simp: pem_law_def crl_law_def pem_progress_def key_law_def demo_lib3_def demo_lib2_def demo_pkilib3_def demo_pkilib_def
      demo_lib_def demo_pem_roundtrip dest: demo_pem_shorter split: if_splits)

definition demo_d1 :: disk where
  "demo_d1 = snd (cmdRevoke demo_env3 ''ca'' ''ff'' ''superseded'' demo_disk3)"

definition demo_d2 :: disk where
  "demo_d2 = snd (cmdCRL demo_env3 ''ca'' 7 [] demo_d1)"

lemma demo_runs3:
  "fst (cmdRevoke demo_env3 ''ca'' ''ff'' ''superseded'' demo_disk3) = Exited" "fst (cmdCRL demo_env3 ''ca'' 7 [] demo_d1) = Exited"
  "ledger_at demo_calib ''ca'' demo_disk3 = Some \<lparr>lg_CRLNumber = 0, lg_Revocations = []\<rparr>"
  "ca_open demo_env3 ''ca'' demo_d1 = Inr \<lparr>st_Dir = ''ca'', st_Passphrase = [], st_Operator = ''op''\<rparr>"
  "inter_of demo_env3 \<lparr>st_Dir = ''ca'', st_Passphrase = [], st_Operator = ''op''\<rparr> demo_d1 =
     Inr \<lparr>ca_Key = \<lparr>sk_params = ''ML-DSA-65'', sk_bytes = ''k''\<rparr>, ca_Cert = demo_ca_cert\<rparr>"
  "certSerialHex demo_cert = ''ff''" "Clean [] \<noteq> ledger_path ''ca''"
  by code_simp+


subsection \<open>Issuing, from the request to the server's binding\<close>

lemma days_duration_exact: "0 < days \<Longrightarrow> days < 106752 \<Longrightarrow> days_duration days = days * 24 * hour"
  unfolding days_duration_def by (rule wrap64_id) (simp_all add: hour_def minute_def second_def)

lemma cmdIssue_Done:
  assumes "cmdIssue E dir csrPath acct dev cn org days crlURL out d = (Exited, d')"
    "Clean out \<notin> {Join [dir, ''issued.jsonl''], Join [dir, ''ceremony.jsonl'']}"
  obtains s i raw csr info cert where "ca_open E dir d = Inr s" "inter_of E s d = Inr i"
    "ReadFile (ev_F E) d csrPath = Inr raw" "ParseAndValidateCSR (ev_L E) raw = Inr (csr, info)"
    "IssueDeviceCert (ev_L E) (ev_P E) (ev_n E) (ev_now E (2 * ev_n E)) i (Some csr)
       \<lparr>dc_Subject = pkixName cn org, dc_Validity = days_duration days, dc_CRLURL = crlURL, dc_NotBefore = zero_time\<rparr> = Inr cert"
    "map_of (d_files d') (Clean out) = Some (CertPEM (ev_P E) cert)"
proof -
  obtain s i raw r d1 where s: "ca_open E dir d = Inr s" and i: "inter_of E s d = Inr i"
    and raw: "ReadFile (ev_F E) d csrPath = Inr raw"
    and iss: "issueOne E (ev_n E) s i raw acct dev cn org crlURL days out d = (Inr r, d1)"
    and d': "d' = snd (log_done E (ev_now E (2 * ev_n E + 2)) s ''cert.issue'' ''1 certificate'' [''issued.jsonl''] d1)"
    using assms(1) unfolding cmdIssue_def by (auto split: if_splits sum.splits prod.splits simp: prod_eq_iff)
  obtain csr info cert d2 d3 where csr: "ParseAndValidateCSR (ev_L E) raw = Inr (csr, info)"
    and cert: "IssueDeviceCert (ev_L E) (ev_P E) (ev_n E) (ev_now E (2 * ev_n E)) i (Some csr)
       \<lparr>dc_Subject = pkixName cn org, dc_Validity = days_duration days, dc_CRLURL = crlURL, dc_NotBefore = zero_time\<rparr> = Inr cert"
    and w1: "WriteFile (ev_F E) out (CertPEM (ev_P E) cert) d = (None, d2)"
    and w2: "WriteFile (ev_F E) (out @ ''.fullchain.pem'') (ChainPEM (ev_P E) [cert, ca_Cert i]) d2 = (None, d3)"
    and w3: "appendIssued (ev_C E) (ev_F E) s r d3 = (None, d1)"
    using iss unfolding issueOne_def Let_def by (auto split: sum.splits prod.splits option.splits)
  have cr: "creatable d out" and f2: "map_of (d_files d2) (Clean out) = Some (CertPEM (ev_P E) cert)"
    using WriteFile_ok [OF w1] by simp_all
  have "Clean (out @ ''.fullchain.pem'') \<noteq> Clean out"
  proof
    assume e: "Clean (out @ ''.fullchain.pem'') = Clean out"
    have "last (Split (out @ ''.fullchain.pem'') (CHR ''/'')) = last (Split out (CHR ''/''))"
      by (rule Clean_last_eq [OF _ _ last_Split_plain _ e]) (use cr in \<open>simp_all add: creatable_def\<close>)
    then show False by (simp add: last_Split_append)
  qed
  then have "map_of (d_files d3) (Clean out) = Some (CertPEM (ev_P E) cert)"
    using WriteFile_other [of "Clean out" "out @ ''.fullchain.pem''" "ev_F E" _ d2] w2 f2 by (metis snd_conv)
  moreover have "st_Dir s = dir" by (rule ca_open_dir [OF s])
  then have o: "Clean out \<noteq> Clean (ca_path s [''issued.jsonl''])" "Clean out \<noteq> Clean (ca_path s [''ceremony.jsonl''])"
    using assms(2) by (simp_all add: ca_path_Clean plain_seg_def) (simp_all add: ca_path_def)
  ultimately have "map_of (d_files d1) (Clean out) = Some (CertPEM (ev_P E) cert)"
    using w3 AppendFile_other [OF o(1)] unfolding appendIssued_def by (metis snd_conv)
  then have "map_of (d_files d') (Clean out) = Some (CertPEM (ev_P E) cert)"
    unfolding d' log_done_def logCeremony_def using AppendFile_other [OF o(2)] by simp
  then show ?thesis using that s i raw csr cert by blast
qed

text \<open>The server's root and chain configuration lead to the authority: a certificate this key issued under
  this issuing certificate has a trusted chain while it is valid.\<close>

definition trusts_issuer :: "lib \<Rightarrow> pki_lib \<Rightarrow> ca \<Rightarrow> server \<Rightarrow> time \<Rightarrow> bool" where
  "trusts_issuer L P i s t \<longleftrightarrow> (\<forall>tmpl pub der cert.
     P_CreateCertificate P tmpl (ParentCert (ca_Cert i)) pub (ca_Key i) = Inr der \<and> L_ParseCertificate L der = Inr cert \<and>
     x_NotBefore cert \<le> t \<and> t \<le> x_NotAfter cert \<and> \<not> x_IsCA cert \<longrightarrow>
     (let chain = ValidateCertificateChain L cert
            (case ParseChainPEM L (cf_CAChainPEM (sv_cfg s)) of Inl err \<Rightarrow> [] | Inr cs \<Rightarrow> cs) (cf_RootCAPEM (sv_cfg s)) t
      in cr_Error chain = None \<and> cr_TrustedChain chain))"

lemma trusts_issuerD:
  "trusts_issuer L P i s t \<Longrightarrow> P_CreateCertificate P tmpl (ParentCert (ca_Cert i)) pub (ca_Key i) = Inr der \<Longrightarrow>
     L_ParseCertificate L der = Inr cert \<Longrightarrow> x_NotBefore cert \<le> t \<Longrightarrow> t \<le> x_NotAfter cert \<Longrightarrow> \<not> x_IsCA cert \<Longrightarrow>
     (let chain = ValidateCertificateChain L cert
            (case ParseChainPEM L (cf_CAChainPEM (sv_cfg s)) of Inl err \<Rightarrow> [] | Inr cs \<Rightarrow> cs) (cf_RootCAPEM (sv_cfg s)) t
      in cr_Error chain = None \<and> cr_TrustedChain chain)"
  unfolding trusts_issuer_def by blast

lemma bindIssuedCert_accepts:
  assumes "ParseAndValidateCertificate L leaf (o_clk ora 11) = Inr (cert, info)"
    and "let chain = ValidateCertificateChain L cert (case ParseChainPEM L (cf_CAChainPEM (sv_cfg s)) of Inl err \<Rightarrow> [] | Inr cs \<Rightarrow> cs)
        (cf_RootCAPEM (sv_cfg s)) (o_clk ora 12) in cr_Error chain = None \<and> cr_TrustedChain chain"
    and "ParseAndValidateCSR L (e_CSRPEM e) = Inr (csr, qi)" and "x_PublicKey cert = q_PublicKey csr"
  shows "\<exists>stored. fst (bindIssuedCert L ora e leaf s) = Inr stored \<and> c_PEM stored = leaf \<and>
    c_DeviceID stored = e_DeviceID e \<and> c_Serial stored = serial_hex (x_SerialNumber cert) \<and> c_Status stored = CertActive"
proof -
  have "keys_match csr cert" using ParseAndValidateCSR_InrD(3) [OF assms(3)] assms(4) by (auto simp: keys_match_def)
  moreover have "info = Describe L cert" using ParseAndValidateCertificate_InrD(2) [OF assms(1)] .
  ultimately show ?thesis
    using assms(1-3)
    by (simp add: bindIssuedCert_def Let_def split_beta st_upd_def CreateCertificate_def bound_cert_def Describe_def certificate_zero_def)
qed

text \<open>C17: A certificate that the offline authority issues for the request of an enrolment is accepted by the
  server: if \<open>ca-admin issue\<close> succeeds on the enrolment's request for a validity of 1 to 106751 days, then the
  file it wrote, imported while the certificate is valid into a server whose trust configuration leads to that
  authority, is bound to the enrolment's device, with the printed serial number and the status active. The
  output is not one of the authority's own logs.\<close>

theorem issued_certificate_binds:
  assumes "pem_law L P" and "pem_progress L" and "create_law L P"
    and "cmdIssue E dir csrPath acct dev cn org days crlURL out d = (Exited, d')"
    and "Clean out \<notin> {Join [dir, ''issued.jsonl''], Join [dir, ''ceremony.jsonl'']}"
    and "ev_L E = L" and "ev_P E = P" and "map_of (d_files d) (Clean csrPath) = Some (e_CSRPEM e)"
    and "0 < days" and "days < 106752" and "start = ev_now E (2 * ev_n E) - hour"
    and "\<And>k. k \<in> {11, 12} \<Longrightarrow> whole_second start \<le> o_clk ora k \<and> o_clk ora k \<le> whole_second (start + days * 24 * hour)"
    and "\<And>st i. inter_of E st d = Inr i \<Longrightarrow> trusts_issuer L P i s (o_clk ora 12)"
  shows "\<exists>pem cert stored. map_of (d_files d') (Clean out) = Some pem \<and> ParseCertificatePEM L pem = Inr cert \<and>
    fst (bindIssuedCert L ora e pem s) = Inr stored \<and> c_DeviceID stored = e_DeviceID e \<and>
    c_Serial stored = certSerialHex cert \<and> c_Status stored = CertActive"
proof -
  obtain st i raw csr info cert where i: "inter_of E st d = Inr i" and raw: "ReadFile (ev_F E) d csrPath = Inr raw"
    and csr: "ParseAndValidateCSR L raw = Inr (csr, info)"
    and iss: "IssueDeviceCert L P (ev_n E) (ev_now E (2 * ev_n E)) i (Some csr)
       \<lparr>dc_Subject = pkixName cn org, dc_Validity = days_duration days, dc_CRLURL = crlURL, dc_NotBefore = zero_time\<rparr> = Inr cert"
    and f: "map_of (d_files d') (Clean out) = Some (CertPEM P cert)"
    using cmdIssue_Done [OF assms(4,5)] unfolding assms(6,7) by metis
  note r = IssueDeviceCert_result [OF assms(3) iss]
  have "hour \<noteq> 0" "days * 24 * hour \<noteq> 0" using assms(9) by (simp_all add: hour_def minute_def second_def)
  then obtain serial where t: "x_NotBefore cert = whole_second start" "x_NotAfter cert = whole_second (start + days * 24 * hour)"
      "P_CreateCertificate P (device_template serial (ev_now E (2 * ev_n E))
         \<lparr>dc_Subject = pkixName cn org, dc_Validity = days_duration days, dc_CRLURL = crlURL, dc_NotBefore = zero_time\<rparr>)
         (ParentCert (ca_Cert i)) (q_PublicKey csr) (ca_Key i) = Inr (x_Raw cert)"
    using r(6) days_duration_exact [OF assms(9,10)]
    by (auto simp: device_template_def Let_def IsZero_def assms(11))
  have ml: "IsMLDSA cert" using r(2,5) by (auto simp: IsMLDSA_def)
  have pc: "ParseCertificatePEM L (CertPEM P cert) = Inr cert"
    using ParseCertificatePEM_CertPEM [OF assms(1,2), of cert "[]"] r(1) by simp
  have pv: "ParseAndValidateCertificate L (CertPEM P cert) (o_clk ora 11) = Inr (cert, Describe L cert)"
    using pc ml r(3,4) t(1,2) assms(12) [of 11] by (simp add: ParseAndValidateCertificate_def)
  have tr: "trusts_issuer L P i s (o_clk ora 12)" by (rule assms(13) [OF i])
  have ch: "let chain = ValidateCertificateChain L cert (case ParseChainPEM L (cf_CAChainPEM (sv_cfg s)) of Inl err \<Rightarrow> [] | Inr cs \<Rightarrow> cs)
        (cf_RootCAPEM (sv_cfg s)) (o_clk ora 12) in cr_Error chain = None \<and> cr_TrustedChain chain"
    by (rule trusts_issuerD [OF tr t(3) r(1) _ _ r(3)]) (use t(1,2) assms(12) [of 12] in simp_all)
  have "raw = e_CSRPEM e" using ReadFile_InrD [OF raw] assms(8) by simp
  then have "ParseAndValidateCSR L (e_CSRPEM e) = Inr (csr, info)" using csr by simp
  from bindIssuedCert_accepts [OF pv ch this r(2)] f pc show ?thesis
    unfolding certSerialHex_def by blast
qed

definition demo_issue_opts :: device_cert_options where
  "demo_issue_opts = \<lparr>dc_Subject = pkixName ''me'' [], dc_Validity = 24 * hour, dc_CRLURL = [], dc_NotBefore = zero_time\<rparr>"

definition demo_leaf :: x509cert where
  "demo_leaf = demo_cert\<lparr>x_Raw := ''leaf'', x_NotBefore := whole_second (2 - hour), x_NotAfter := whole_second (2 + 23 * hour)\<rparr>"

definition demo_lib4 :: lib where
  "demo_lib4 = demo_lib3\<lparr>L_ParseCertificate := (\<lambda>b. if b = ''leaf'' then Inr demo_leaf else if b = ''cacert'' then Inr demo_ca_cert
     else Inl (Errorf ''x509'')), L_CertsFromPEM := (\<lambda>b. [demo_ca_cert])\<rparr>"

definition demo_pkilib4 :: pki_lib where
  "demo_pkilib4 = demo_pkilib3\<lparr>P_CreateCertificate := (\<lambda>t pa pub key.
     if t = device_template 255 2 demo_issue_opts \<and> pub = MLDSAKey ''ML-DSA-65'' ''pk'' then Inr ''leaf'' else Inl (Errorf ''create''))\<rparr>"

definition demo_env4 :: ca_env where
  "demo_env4 = demo_caenv\<lparr>ev_L := demo_lib4, ev_P := demo_pkilib4\<rparr>"

definition demo_disk4 :: disk where
  "demo_disk4 = demo_disk3\<lparr>d_files := (''me.csr.pem'', ''csr'') # d_files demo_disk3\<rparr>"

definition demo_d4 :: "cmd_exit \<times> disk" where
  "demo_d4 = cmdIssue demo_env4 ''ca'' ''me.csr.pem'' ''acct'' ''dev'' ''me'' [] 1 [] ''me.crt.pem'' demo_disk4"

lemma demo_laws4: "pem_law demo_lib4 demo_pkilib4" "pem_progress demo_lib4" "create_law demo_lib4 demo_pkilib4"
proof -
  show "pem_law demo_lib4 demo_pkilib4" "pem_progress demo_lib4"
    by (auto simp: pem_law_def pem_progress_def demo_lib4_def demo_lib3_def demo_lib2_def demo_pkilib4_def demo_pkilib3_def demo_pkilib_def
      demo_lib_def demo_pem_roundtrip dest: demo_pem_shorter)
  have t: "t_SerialNumber (device_template 255 2 demo_issue_opts) = 255"
    "t_NotBefore (device_template 255 2 demo_issue_opts) = 2 - hour" "t_NotAfter (device_template 255 2 demo_issue_opts) = 2 + 23 * hour"
    "\<not> t_IsCA (device_template 255 2 demo_issue_opts)"
    by (simp_all add: device_template_def demo_issue_opts_def Let_def time_defs)
  show "create_law demo_lib4 demo_pkilib4"
    using t by (auto simp: create_law_def demo_lib4_def demo_pkilib4_def demo_leaf_def demo_cert_def split: if_splits)
qed

lemma demo_runs4: "fst demo_d4 = Exited" "map_of (d_files demo_disk4) (Clean ''me.csr.pem'') = Some ''csr''"
  "Clean ''me.crt.pem'' = ''me.crt.pem''" "Join [''ca'', ''issued.jsonl''] = ''ca/issued.jsonl''" "Join [''ca'', ''ceremony.jsonl''] = ''ca/ceremony.jsonl''"
  by code_simp+

definition demo_enr4 :: enrollment where
  "demo_enr4 = enrollment_zero\<lparr>e_ID := ''e'', e_DeviceID := ''dev'', e_CSRPEM := ''csr''\<rparr>"

theorem issued_certificate_binds_witness:
  "\<forall>s. \<exists>pem stored. map_of (d_files (snd demo_d4)) ''me.crt.pem'' = Some pem \<and>
     fst (bindIssuedCert demo_lib4 (demo_orc\<lparr>o_clk := \<lambda>k. 0\<rparr>) demo_enr4 pem s) = Inr stored \<and> c_DeviceID stored = ''dev''"
proof
  fix s
  have run: "cmdIssue demo_env4 ''ca'' ''me.csr.pem'' ''acct'' ''dev'' ''me'' [] 1 [] ''me.crt.pem'' demo_disk4 = (Exited, snd demo_d4)"
    using demo_runs4(1) by (simp add: demo_d4_def prod_eq_iff)
  have tr: "trusts_issuer demo_lib4 demo_pkilib4 i s t" for i t
    by (simp add: trusts_issuer_def ValidateCertificateChain_def AppendCertsFromPEM_def demo_lib4_def demo_lib3_def demo_lib2_def demo_lib_def Let_def)
  have w: "whole_second (2 - hour) \<le> 0" "0 \<le> whole_second (2 - hour + 1 * 24 * hour)"
    by (simp_all add: whole_second_def time_defs)
  have "\<exists>pem cert stored. map_of (d_files (snd demo_d4)) (Clean ''me.crt.pem'') = Some pem \<and> ParseCertificatePEM demo_lib4 pem = Inr cert \<and>
    fst (bindIssuedCert demo_lib4 (demo_orc\<lparr>o_clk := \<lambda>k. 0\<rparr>) demo_enr4 pem s) = Inr stored \<and> c_DeviceID stored = e_DeviceID demo_enr4 \<and>
    c_Serial stored = certSerialHex cert \<and> c_Status stored = CertActive"
    by (rule issued_certificate_binds [OF demo_laws4 run, where start = "2 - hour"])
      (use demo_runs4 w tr in \<open>simp_all add: demo_env4_def demo_caenv_def demo_enr4_def\<close>)
  then show "\<exists>pem stored. map_of (d_files (snd demo_d4)) ''me.crt.pem'' = Some pem \<and>
     fst (bindIssuedCert demo_lib4 (demo_orc\<lparr>o_clk := \<lambda>k. 0\<rparr>) demo_enr4 pem s) = Inr stored \<and> c_DeviceID stored = ''dev''"
    using demo_runs4(3) by (auto simp: demo_enr4_def)
qed

end
