(* ===== verification/Outcome.thy ===== *)
theory Outcome
  imports Disk Lib
begin

section \<open>Programs with an early return (\<open>if err != nil { return err }\<close>)\<close>

text \<open>
  The desktop client is written in the usual style of Go: a call gives a value or an error, and most
  errors are returned at once. A call may also panic, and a call into a parser may never return. Such a
  result is an \<open>outcome\<close>; an \<open>act\<close> is a computation that carries a state along. The rules below take a
  sequence of calls apart at the point where it stopped; \<open>trace_relation\<close> is the contract of a relation
  that every single call respects, and then every sequence.
\<close>

datatype 'a outcome = Done 'a | Fail error | Crash string | Hang

type_synonym ('s, 'a) act = "'s \<Rightarrow> 'a outcome \<times> 's"

subsection \<open>Results without a state\<close>

fun obind :: "'a outcome \<Rightarrow> ('a \<Rightarrow> 'b outcome) \<Rightarrow> 'b outcome" where
  "obind (Done x) f = f x"
| "obind (Fail e) f = Fail e"
| "obind (Crash m) f = Crash m"
| "obind Hang f = Hang"

definition ofResult :: "'a result \<Rightarrow> 'a outcome" where
  "ofResult r = (case r of Inl e \<Rightarrow> Fail e | Inr x \<Rightarrow> Done x)"

definition ofCall :: "'a call \<Rightarrow> 'a outcome" where
  "ofCall c = (case c of Ret x \<Rightarrow> Done x | Panic m \<Rightarrow> Crash m)"

definition ofReturn :: "'a option \<Rightarrow> 'a outcome" where
  "ofReturn r = (case r of None \<Rightarrow> Hang | Some x \<Rightarrow> Done x)"

lemma ofResult_simps [simp]: "ofResult (Inl e) = Fail e" "ofResult (Inr x) = Done x"
  by (simp_all add: ofResult_def)

lemma ofCall_simps [simp]: "ofCall (Ret x) = Done x" "ofCall (Panic m) = Crash m"
  by (simp_all add: ofCall_def)

lemma ofReturn_simps [simp]: "ofReturn None = Hang" "ofReturn (Some x) = Done x"
  by (simp_all add: ofReturn_def)

lemma obind_Done_iff: "obind m f = Done y \<longleftrightarrow> (\<exists>x. m = Done x \<and> f x = Done y)"
  by (cases m) auto

lemma ofResult_Done_iff: "ofResult r = Done x \<longleftrightarrow> r = Inr x"
  by (cases r) auto

lemma ofCall_Done_iff: "ofCall c = Done x \<longleftrightarrow> c = Ret x"
  by (cases c) auto

lemmas outcome_iffs = obind_Done_iff ofResult_Done_iff ofCall_Done_iff

subsection \<open>Computations\<close>

definition ret :: "'a \<Rightarrow> ('s, 'a) act" where "ret x s = (Done x, s)"
definition fail :: "error \<Rightarrow> ('s, 'a) act" where "fail e s = (Fail e, s)"
definition lift :: "'a outcome \<Rightarrow> ('s, 'a) act" where "lift r s = (r, s)"
definition gets :: "('s \<Rightarrow> 'a) \<Rightarrow> ('s, 'a) act" where "gets f s = (Done (f s), s)"
definition modifies :: "('s \<Rightarrow> 's) \<Rightarrow> ('s, unit) act" where "modifies f s = (Done (), f s)"

fun on_done :: "('a \<Rightarrow> ('s, 'b) act) \<Rightarrow> 'a outcome \<times> 's \<Rightarrow> 'b outcome \<times> 's" where
  "on_done f (Done x, s) = f x s"
| "on_done f (Fail e, s) = (Fail e, s)"
| "on_done f (Crash m, s) = (Crash m, s)"
| "on_done f (Hang, s) = (Hang, s)"

definition andThen :: "('s, 'a) act \<Rightarrow> ('a \<Rightarrow> ('s, 'b) act) \<Rightarrow> ('s, 'b) act" where
  "andThen m f s = on_done f (m s)"

text \<open>A call whose error the caller looks at itself.\<close>

definition attempt :: "('s, 'a) act \<Rightarrow> ('s, 'a result) act" where
  "attempt m s = (case m s of
     (Done x, s') \<Rightarrow> (Done (Inr x), s') | (Fail e, s') \<Rightarrow> (Done (Inl e), s')
   | (Crash p, s') \<Rightarrow> (Crash p, s') | (Hang, s') \<Rightarrow> (Hang, s'))"

definition ignore :: "('s, 'a) act \<Rightarrow> ('s, unit) act" where
  "ignore m = andThen (attempt m) (\<lambda>r. ret ())"

definition orFail :: "(error \<Rightarrow> error) \<Rightarrow> ('s, 'a) act \<Rightarrow> ('s, 'a) act" where
  "orFail f m = andThen (attempt m) (\<lambda>r. case r of Inl e \<Rightarrow> fail (f e) | Inr x \<Rightarrow> ret x)"

text \<open>A computation on a part of the state.\<close>

definition within :: "('s \<Rightarrow> 't) \<Rightarrow> ('t \<Rightarrow> 's \<Rightarrow> 's) \<Rightarrow> ('t, 'a) act \<Rightarrow> ('s, 'a) act" where
  "within get put m s = (let (r, t) = m (get s) in (r, put t s))"

text \<open>A call of the file system that only succeeds or fails.\<close>

definition syscall :: "('s \<Rightarrow> error option \<times> 's) \<Rightarrow> ('s, unit) act" where
  "syscall f s = (case f s of (None, s') \<Rightarrow> (Done (), s') | (Some e, s') \<Rightarrow> (Fail e, s'))"

lemmas act_defs = ret_def fail_def lift_def gets_def modifies_def

subsection \<open>Taking a sequence apart\<close>

lemma andThen_run: "m s = (Done x, s') \<Longrightarrow> andThen m f s = f x s'"
  by (simp add: andThen_def)

lemma andThen_ret [simp]: "andThen (ret x) f = f x"
  by (rule ext) (simp add: andThen_def ret_def)

lemma andThen_gets: "andThen (gets g) f s = f (g s) s"
  by (simp add: andThen_def gets_def)

lemma andThen_modifies: "andThen (modifies g) f s = f () (g s)"
  by (simp add: andThen_def modifies_def)

lemma andThen_lift: "andThen (lift r) f s = on_done f (r, s)"
  by (simp add: andThen_def lift_def)

lemma andThen_Done_iff:
  "andThen m f s = (Done y, s'') \<longleftrightarrow> (\<exists>x s'. m s = (Done x, s') \<and> f x s' = (Done y, s''))"
proof (cases "m s")
  case (Pair r s')
  then show ?thesis by (cases r) (auto simp: andThen_def)
qed

lemma andThen_DoneE:
  assumes "andThen m f s = (Done y, s'')"
  obtains x s' where "m s = (Done x, s')" "f x s' = (Done y, s'')"
  using assms by (auto simp: andThen_Done_iff)

lemma attempt_Done_iff:
  "attempt m s = (Done r, s') \<longleftrightarrow> (\<exists>x. r = Inr x \<and> m s = (Done x, s')) \<or> (\<exists>e. r = Inl e \<and> m s = (Fail e, s'))"
proof (cases "m s")
  case (Pair q t)
  then show ?thesis by (cases q) (auto simp: attempt_def)
qed

lemma attempt_run [simp]:
  "m s = (Done x, s') \<Longrightarrow> attempt m s = (Done (Inr x), s')"
  "m s = (Fail e, s') \<Longrightarrow> attempt m s = (Done (Inl e), s')"
  by (simp_all add: attempt_def)

lemma orFail_Done_iff: "orFail g m s = (Done x, s') \<longleftrightarrow> m s = (Done x, s')"
proof (cases "m s")
  case (Pair q t)
  then show ?thesis by (cases q) (auto simp: orFail_def andThen_def attempt_def act_defs)
qed

lemma ignore_cases: "ignore m s = (case m s of
    (Done x, s') \<Rightarrow> (Done (), s') | (Fail e, s') \<Rightarrow> (Done (), s') | (Crash p, s') \<Rightarrow> (Crash p, s') | (Hang, s') \<Rightarrow> (Hang, s'))"
proof (cases "m s")
  case (Pair q t)
  then show ?thesis by (cases q) (auto simp: ignore_def andThen_def attempt_def act_defs)
qed

lemma lift_Done_iff: "lift r s = (Done x, s') \<longleftrightarrow> r = Done x \<and> s' = s"
  by (auto simp: lift_def)

lemma gets_Done_iff: "gets f s = (Done x, s') \<longleftrightarrow> x = f s \<and> s' = s"
  by (auto simp: gets_def)

lemma ret_Done_iff: "ret x s = (Done y, s') \<longleftrightarrow> y = x \<and> s' = s"
  by (auto simp: ret_def)

lemma fail_not_Done [simp]: "fail e s \<noteq> (Done x, s')"
  by (simp add: fail_def)

lemma within_Done_iff:
  "within get put m s = (Done x, s') \<longleftrightarrow> (\<exists>t. m (get s) = (Done x, t) \<and> s' = put t s)"
  by (cases "m (get s)") (auto simp: within_def)

lemma syscall_Done_iff: "syscall f s = (Done u, s') \<longleftrightarrow> f s = (None, s')"
  by (cases "f s") (auto simp: syscall_def split: option.splits)

lemmas act_iffs = andThen_Done_iff attempt_Done_iff orFail_Done_iff lift_Done_iff gets_Done_iff ret_Done_iff
  within_Done_iff syscall_Done_iff

subsection \<open>What every call respects, every sequence respects\<close>

text \<open>\<open>moves R m\<close>: from whatever state \<open>m\<close> starts, and however it ends, the states are related.\<close>

definition moves :: "('s \<Rightarrow> 's \<Rightarrow> bool) \<Rightarrow> ('s, 'a) act \<Rightarrow> bool" where
  "moves R m \<longleftrightarrow> (\<forall>s. R s (snd (m s)))"

lemma movesD: "moves R m \<Longrightarrow> m s = (r, s') \<Longrightarrow> R s s'"
  by (metis moves_def snd_conv)

locale trace_relation =
  fixes R :: "'s \<Rightarrow> 's \<Rightarrow> bool"
  assumes R_refl: "R s s"
    and R_trans: "R s t \<Longrightarrow> R t u \<Longrightarrow> R s u"
begin

lemma moves_pure:
  "moves R (ret x)" "moves R (fail e)" "moves R (lift r)" "moves R (gets f)"
  by (simp_all add: moves_def act_defs R_refl)

lemma moves_andThen:
  assumes "moves R m" and "\<And>x. moves R (f x)"
  shows "moves R (andThen m f)"
  unfolding moves_def
proof
  fix s
  obtain q t where q: "m s = (q, t)" by (cases "m s")
  then have "R s t" by (rule movesD [OF assms(1)])
  moreover have "R t (snd (f x t))" for x using assms(2) by (simp add: moves_def)
  ultimately show "R s (snd (andThen m f s))"
    using q by (cases q) (auto simp: andThen_def intro: R_trans)
qed

lemma moves_attempt: "moves R m \<Longrightarrow> moves R (attempt m)"
  unfolding moves_def attempt_def by (auto split: prod.splits outcome.splits) (metis snd_conv)+

lemma moves_ignore: "moves R m \<Longrightarrow> moves R (ignore m)"
  unfolding ignore_def by (intro moves_andThen moves_attempt moves_pure)

lemma moves_orFail: "moves R m \<Longrightarrow> moves R (orFail g m)"
  unfolding orFail_def by (intro moves_andThen moves_attempt) (auto intro: moves_pure split: sum.split)

lemmas moves_intros = moves_pure moves_andThen moves_attempt moves_ignore moves_orFail

end

text \<open>Relations that say a part of the state is as it was.\<close>

definition same :: "('s \<Rightarrow> 'v) \<Rightarrow> 's \<Rightarrow> 's \<Rightarrow> bool" where
  "same f s t \<longleftrightarrow> f t = f s"

interpretation same: trace_relation "same f" for f
  by unfold_locales (simp_all add: same_def)

lemma moves_within:
  assumes "\<And>s t. Q (get s) t \<Longrightarrow> R s (put t s)" and "moves Q m"
  shows "moves R (within get put m)"
  using assms by (auto simp: moves_def within_def split: prod.split) (metis snd_conv)

end
