(* ===== verification/Keystore.thy ===== *)
theory Keystore
  imports Outcome
begin

section \<open>The desktop client's vault (\<open>apps/windows/internal/keystore\<close>)\<close>

text \<open>
  The sealed device key (\<open>envelope.go\<close>, \<open>dpapi_windows.go\<close>) and the files of the vault (\<open>store.go\<close>).
  The authenticated cipher, Argon2id, the random source, the Windows data protection calls and the JSON
  codecs are the record \<open>key_lib\<close>; an environment lives for one operation of the client, and the
  random draws of that operation are numbered. A path is written with slashes, so \<open>filepath.FromSlash\<close>
  is the identity. Zeroing of buffers is not modelled.
\<close>

subsection \<open>The library\<close>

record kdf_params =
  kd_Name :: string
  kd_TimeCst :: nat
  kd_MemKiB :: nat
  kd_Threads :: nat
  kd_Salt :: bytes

record key_blob =
  kb_Version :: int
  kb_CreatedAt :: time
  kb_KDF :: "kdf_params option"
  kb_KeyNonce :: bytes
  kb_KeyCT :: bytes
  kb_WrapNonce :: bytes
  kb_WrapCT :: bytes
  kb_DPAPIBlob :: bytes

record client_state =
  cs_ServerBaseURL :: string
  cs_AccountEmail :: string
  cs_DeviceID :: string
  cs_EnrollmentID :: string
  cs_CertificateSN :: string
  cs_HasPIN :: bool
  cs_UpdatedAt :: time

definition state_zero :: client_state where
  "state_zero = \<lparr>cs_ServerBaseURL = [], cs_AccountEmail = [], cs_DeviceID = [], cs_EnrollmentID = [],
     cs_CertificateSN = [], cs_HasPIN = False, cs_UpdatedAt = zero_time\<rparr>"

text \<open>Argon2id panics on parameters it does not allow, the cipher on a nonce of the wrong length. The
  decoder of the state gives what it decoded even on an error.\<close>

record key_lib =
  K_rand :: "nat \<Rightarrow> nat \<Rightarrow> bytes result"
  K_NewGCM :: "bytes \<Rightarrow> error option"
  K_NonceSize :: nat
  K_Seal :: "bytes \<Rightarrow> bytes \<Rightarrow> bytes \<Rightarrow> bytes"
  K_Open :: "bytes \<Rightarrow> bytes \<Rightarrow> bytes \<Rightarrow> bytes result call"
  K_argon2id :: "bytes \<Rightarrow> bytes \<Rightarrow> nat \<Rightarrow> nat \<Rightarrow> nat \<Rightarrow> nat \<Rightarrow> bytes call"
  K_CryptProtectData :: "bytes \<Rightarrow> bytes \<Rightarrow> bytes result"
  K_CryptUnprotectData :: "bytes \<Rightarrow> bytes \<Rightarrow> bytes result"
  K_marshal_blob :: "key_blob \<Rightarrow> bytes result"
  K_unmarshal_blob :: "bytes \<Rightarrow> key_blob result"
  K_marshal_state :: "client_state \<Rightarrow> bytes"
  K_unmarshal_state :: "bytes \<Rightarrow> client_state \<times> error option"

subsection \<open>The envelope\<close>

abbreviation (input) BlobVersion :: int where "BlobVersion \<equiv> 1"
abbreviation (input) client_argonTime :: nat where "client_argonTime \<equiv> 3"
abbreviation (input) client_argonMemKiB :: nat where "client_argonMemKiB \<equiv> 64 * 1024"
abbreviation (input) client_argonThreads :: nat where "client_argonThreads \<equiv> 4"
abbreviation (input) wrapKeyLen :: nat where "wrapKeyLen \<equiv> 32"
abbreviation (input) client_saltLen :: nat where "client_saltLen \<equiv> 16"

definition dpapiEntropy :: bytes where
  "dpapiEntropy = ''pqc-pdf-sign/v1/device-key''"

definition dpapiProtect :: "key_lib \<Rightarrow> bytes \<Rightarrow> bytes result" where
  "dpapiProtect K inp = K_CryptProtectData K inp dpapiEntropy"

definition dpapiUnprotect :: "key_lib \<Rightarrow> bytes \<Rightarrow> bytes result" where
  "dpapiUnprotect K inp = K_CryptUnprotectData K inp dpapiEntropy"

definition seal :: "key_lib \<Rightarrow> nat \<Rightarrow> bytes \<Rightarrow> bytes \<Rightarrow> (bytes \<times> bytes) result" where
  "seal K n key plaintext =
     (case K_NewGCM K key of
        Some e \<Rightarrow> Inl e
      | None \<Rightarrow>
          (case K_rand K n (K_NonceSize K) of
             Inl e \<Rightarrow> Inl e
           | Inr nonce \<Rightarrow> Inr (nonce, K_Seal K key nonce plaintext)))"

definition openSeal :: "key_lib \<Rightarrow> bytes \<Rightarrow> bytes \<Rightarrow> bytes \<Rightarrow> bytes result call" where
  "openSeal K key nonce ct =
     (case K_NewGCM K key of Some e \<Rightarrow> Ret (Inl e) | None \<Rightarrow> K_Open K key nonce ct)"

definition pinKey :: "key_lib \<Rightarrow> string \<Rightarrow> kdf_params \<Rightarrow> bytes call" where
  "pinKey K pin k = K_argon2id K pin (kd_Salt k) (kd_TimeCst k) (kd_MemKiB k) (kd_Threads k) wrapKeyLen"

text \<open>What the PIN adds: the wrapping key is sealed under the PIN's key, and that is what the data
  protection call gets.\<close>

definition wrap_with_pin :: "key_lib \<Rightarrow> string \<Rightarrow> bytes \<Rightarrow> key_blob \<Rightarrow> (key_blob \<times> bytes) outcome" where
  "wrap_with_pin K pin wrapKey b =
     (if pin = [] then Done (b, wrapKey)
      else obind (ofResult (K_rand K 2 client_saltLen)) (\<lambda>salt.
        let kp = \<lparr>kd_Name = ''argon2id'', kd_TimeCst = client_argonTime, kd_MemKiB = client_argonMemKiB,
                  kd_Threads = client_argonThreads, kd_Salt = salt\<rparr> in
        obind (ofCall (pinKey K pin kp)) (\<lambda>pk.
        obind (ofResult (seal K 3 pk wrapKey)) (\<lambda>(wn, wct).
          Done (b\<lparr>kb_KDF := Some kp, kb_WrapNonce := wn, kb_WrapCT := wct\<rparr>, wct)))))"

definition Protect :: "key_lib \<Rightarrow> time \<Rightarrow> bytes \<Rightarrow> string \<Rightarrow> bytes outcome" where
  "Protect K now pkcs8 pin =
     (if pkcs8 = [] then Fail (Errorf ''keystore: empty key'')
      else obind (ofResult (K_rand K 0 wrapKeyLen)) (\<lambda>wrapKey.
        obind (ofResult (seal K 1 wrapKey pkcs8)) (\<lambda>(keyNonce, keyCT).
        obind (wrap_with_pin K pin wrapKey
            \<lparr>kb_Version = BlobVersion, kb_CreatedAt = now, kb_KDF = None, kb_KeyNonce = keyNonce,
             kb_KeyCT = keyCT, kb_WrapNonce = [], kb_WrapCT = [], kb_DPAPIBlob = []\<rparr>) (\<lambda>(b, toProtect).
          case dpapiProtect K toProtect of
            Inl e \<Rightarrow> Fail (Wrap ''keystore: DPAPI protect'' e)
          | Inr dp \<Rightarrow> ofResult (K_marshal_blob K (b\<lparr>kb_DPAPIBlob := dp\<rparr>))))))"

definition wrapping_key :: "key_lib \<Rightarrow> key_blob \<Rightarrow> bytes \<Rightarrow> string \<Rightarrow> bytes outcome" where
  "wrapping_key K b unprotected pin =
     (case kb_KDF b of
        None \<Rightarrow> Done unprotected
      | Some k \<Rightarrow>
          if pin = [] then Fail (Errorf ''keystore: this key is PIN-protected'')
          else obind (ofCall (pinKey K pin k)) (\<lambda>pk.
            obind (ofCall (openSeal K pk (kb_WrapNonce b) unprotected)) (\<lambda>r.
              case r of Inl e \<Rightarrow> Fail (Errorf ''keystore: wrong PIN'') | Inr w \<Rightarrow> Done w)))"

definition Unprotect :: "key_lib \<Rightarrow> bytes \<Rightarrow> string \<Rightarrow> bytes outcome" where
  "Unprotect K data pin =
     (case K_unmarshal_blob K data of
        Inl e \<Rightarrow> Fail (Wrap ''keystore: parse blob'' e)
      | Inr b \<Rightarrow>
          if kb_Version b \<noteq> BlobVersion then
            Fail (Errorf (''keystore: unsupported blob version '' @ dec_int (kb_Version b)))
          else case dpapiUnprotect K (kb_DPAPIBlob b) of
            Inl e \<Rightarrow> Fail (Wrap ''keystore: DPAPI unprotect (wrong Windows account or tampered blob)'' e)
          | Inr unprotected \<Rightarrow>
              obind (wrapping_key K b unprotected pin) (\<lambda>wrapKey.
              obind (ofCall (openSeal K wrapKey (kb_KeyNonce b) (kb_KeyCT b))) (\<lambda>r.
                case r of
                  Inl e \<Rightarrow> Fail (Errorf ''keystore: key blob is corrupt or tampered'')
                | Inr pkcs8 \<Rightarrow> Done pkcs8)))"

subsection \<open>The files of the vault\<close>

definition keyFile :: "string list" where "keyFile = [''keys'', ''device-key.pqk'']"
definition deviceCert :: "string list" where "deviceCert = [''certificates'', ''device.crt.pem'']"
definition chainCert :: "string list" where "chainCert = [''certificates'', ''ca-chain.pem'']"
definition rootCert :: "string list" where "rootCert = [''certificates'', ''root-ca.crt.pem'']"
definition stateFile :: "string list" where "stateFile = [''state.json'']"

text \<open>A store is its directory. A relative name is kept as its segments.\<close>

type_synonym vault = string

definition vault_path :: "vault \<Rightarrow> string list \<Rightarrow> string" where
  "vault_path v rel = Join [v, intercalate ''/'' rel]"

definition DefaultDir :: "(string \<Rightarrow> string) \<Rightarrow> string result \<Rightarrow> string result" where
  "DefaultDir getenv userConfigDir =
     (if getenv ''LOCALAPPDATA'' \<noteq> [] then Inr (Join [getenv ''LOCALAPPDATA'', ''PQC-PDF-Sign''])
      else case userConfigDir of Inl e \<Rightarrow> Inl e | Inr base \<Rightarrow> Inr (Join [base, ''PQC-PDF-Sign'']))"

fun mkdir_dirs :: "faults \<Rightarrow> string list \<Rightarrow> (disk, unit) act" where
  "mkdir_dirs F [] = ret ()"
| "mkdir_dirs F (p # ps) = andThen (syscall (MkdirAll F p)) (\<lambda>u. mkdir_dirs F ps)"

definition Open :: "faults \<Rightarrow> (string \<Rightarrow> string) \<Rightarrow> string result \<Rightarrow> string \<Rightarrow> (disk, vault) act" where
  "Open F getenv userConfigDir dir0 =
     andThen (lift (if dir0 = [] then ofResult (DefaultDir getenv userConfigDir) else Done dir0)) (\<lambda>dir.
     andThen (mkdir_dirs F [dir, Join [dir, ''keys''], Join [dir, ''certificates'']]) (\<lambda>u.
     ret dir))"

definition writeFile :: "faults \<Rightarrow> string \<Rightarrow> bytes \<Rightarrow> (disk, unit) act" where
  "writeFile F path b =
     (let tmp = path @ ''.tmp'' in
      andThen (syscall (WriteFile F tmp b)) (\<lambda>u. syscall (Rename F tmp path)))"

definition HasKey :: "vault \<Rightarrow> (disk, bool) act" where
  "HasKey v = gets (\<lambda>d. Stat d (vault_path v keyFile))"

definition SaveKey :: "key_lib \<Rightarrow> faults \<Rightarrow> time \<Rightarrow> vault \<Rightarrow> bytes \<Rightarrow> string \<Rightarrow> (disk, unit) act" where
  "SaveKey K F now v pkcs8 pin =
     andThen (lift (Protect K now pkcs8 pin)) (\<lambda>b. writeFile F (vault_path v keyFile) b)"

definition read_file :: "faults \<Rightarrow> string \<Rightarrow> (disk, bytes) act" where
  "read_file F p d = (ofResult (ReadFile F d p), d)"

definition LoadKey :: "key_lib \<Rightarrow> faults \<Rightarrow> vault \<Rightarrow> string \<Rightarrow> (disk, bytes) act" where
  "LoadKey K F v pin =
     andThen (read_file F (vault_path v keyFile)) (\<lambda>b. lift (Unprotect K b pin))"

definition is_not_exist :: "error \<Rightarrow> bool" where
  "is_not_exist e = (case e of ErrNotExist m \<Rightarrow> True | _ \<Rightarrow> False)"

definition DeleteKey :: "faults \<Rightarrow> vault \<Rightarrow> (disk, unit) act" where
  "DeleteKey F v =
     andThen (attempt (syscall (Remove F (vault_path v keyFile)))) (\<lambda>r.
       case r of Inr u \<Rightarrow> ret () | Inl e \<Rightarrow> if is_not_exist e then ret () else fail e)"

definition SaveDeviceCertPEM :: "faults \<Rightarrow> vault \<Rightarrow> bytes \<Rightarrow> (disk, unit) act" where
  "SaveDeviceCertPEM F v pem = writeFile F (vault_path v deviceCert) pem"
definition SaveChainPEM :: "faults \<Rightarrow> vault \<Rightarrow> bytes \<Rightarrow> (disk, unit) act" where
  "SaveChainPEM F v pem = writeFile F (vault_path v chainCert) pem"
definition SaveRootPEM :: "faults \<Rightarrow> vault \<Rightarrow> bytes \<Rightarrow> (disk, unit) act" where
  "SaveRootPEM F v pem = writeFile F (vault_path v rootCert) pem"

definition DeviceCertPEM :: "faults \<Rightarrow> vault \<Rightarrow> (disk, bytes) act" where
  "DeviceCertPEM F v = read_file F (vault_path v deviceCert)"
definition vault_ChainPEM :: "faults \<Rightarrow> vault \<Rightarrow> (disk, bytes) act" where
  "vault_ChainPEM F v = read_file F (vault_path v chainCert)"
definition RootPEM :: "faults \<Rightarrow> vault \<Rightarrow> (disk, bytes) act" where
  "RootPEM F v = read_file F (vault_path v rootCert)"

text \<open>The method \<open>State\<close> gives a state and an error. \<open>return st, json.Unmarshal(b, &st)\<close>: the Go
  compiler calls the function first, so the state is the decoded one.\<close>

definition vault_State :: "key_lib \<Rightarrow> faults \<Rightarrow> vault \<Rightarrow> disk \<Rightarrow> client_state \<times> error option" where
  "vault_State K F v d =
     (case ReadFile F d (vault_path v stateFile) of
        Inl e \<Rightarrow> (state_zero, if is_not_exist e then None else Some e)
      | Inr b \<Rightarrow> K_unmarshal_state K b)"

definition SaveState :: "key_lib \<Rightarrow> faults \<Rightarrow> time \<Rightarrow> vault \<Rightarrow> client_state \<Rightarrow> (disk, unit) act" where
  "SaveState K F now v st =
     writeFile F (vault_path v stateFile) (K_marshal_state K (st\<lparr>cs_UpdatedAt := now\<rparr>))"

definition vault_Reset :: "faults \<Rightarrow> vault \<Rightarrow> (disk, unit) act" where
  "vault_Reset F v = syscall (RemoveAll F v)"

subsection \<open>What the code relies on\<close>

text \<open>Decryption under the same key and nonce gives the sealed text back, the data protection call is
  undone by its counterpart under the same entropy, the random source fills the buffer, the codec of
  the blob reads back what it wrote.\<close>

definition seal_law :: "key_lib \<Rightarrow> bool" where
  "seal_law K \<longleftrightarrow> (\<forall>k n p. K_NewGCM K k = None \<longrightarrow> length n = K_NonceSize K \<longrightarrow>
     K_Open K k n (K_Seal K k n p) = Ret (Inr p))"

definition dpapi_law :: "key_lib \<Rightarrow> bool" where
  "dpapi_law K \<longleftrightarrow> (\<forall>b e x. K_CryptProtectData K b e = Inr x \<longrightarrow> K_CryptUnprotectData K x e = Inr b)"

definition rand_law :: "key_lib \<Rightarrow> bool" where
  "rand_law K \<longleftrightarrow> (\<forall>n m b. K_rand K n m = Inr b \<longrightarrow> length b = m)"

definition good_kdf :: "kdf_params \<Rightarrow> bool" where
  "good_kdf k \<longleftrightarrow> kd_Name k = ''argon2id'' \<and> kd_TimeCst k < 2 ^ 32 \<and> kd_MemKiB k < 2 ^ 32 \<and> kd_Threads k < 2 ^ 8"

definition key_blob_law :: "key_lib \<Rightarrow> bool" where
  "key_blob_law K \<longleftrightarrow> (\<forall>b x. json_time (kb_CreatedAt b) \<longrightarrow> kb_Version b = BlobVersion \<longrightarrow>
     (\<forall>k. kb_KDF b = Some k \<longrightarrow> good_kdf k) \<longrightarrow> K_marshal_blob K b = Inr x \<longrightarrow> K_unmarshal_blob K x = Inr b)"

definition key_laws :: "key_lib \<Rightarrow> bool" where
  "key_laws K \<longleftrightarrow> seal_law K \<and> dpapi_law K \<and> rand_law K \<and> key_blob_law K"

subsection \<open>A sealed key is opened again with its PIN\<close>

lemma seal_open:
  assumes "seal_law K" "rand_law K" "seal K n key pt = Inr (nonce, ct)"
  shows "openSeal K key nonce ct = Ret (Inr pt)"
  using assms by (auto simp: seal_def openSeal_def seal_law_def rand_law_def split: option.splits sum.splits)

lemma Protect_DoneE:
  assumes "Protect K now pkcs8 pin = Done x"
  obtains wrapKey n ct b protected dp where "pkcs8 \<noteq> []" "seal K 1 wrapKey pkcs8 = Inr (n, ct)"
    "wrap_with_pin K pin wrapKey \<lparr>kb_Version = BlobVersion, kb_CreatedAt = now, kb_KDF = None, kb_KeyNonce = n,
       kb_KeyCT = ct, kb_WrapNonce = [], kb_WrapCT = [], kb_DPAPIBlob = []\<rparr> = Done (b, protected)"
    "dpapiProtect K protected = Inr dp" "K_marshal_blob K (b\<lparr>kb_DPAPIBlob := dp\<rparr>) = Inr x"
proof -
  from assms obtain wrapKey n ct b protected where "pkcs8 \<noteq> []" "seal K 1 wrapKey pkcs8 = Inr (n, ct)"
    "wrap_with_pin K pin wrapKey \<lparr>kb_Version = BlobVersion, kb_CreatedAt = now, kb_KDF = None, kb_KeyNonce = n,
       kb_KeyCT = ct, kb_WrapNonce = [], kb_WrapCT = [], kb_DPAPIBlob = []\<rparr> = Done (b, protected)"
    "(case dpapiProtect K protected of Inl e \<Rightarrow> Fail (Wrap ''keystore: DPAPI protect'' e)
      | Inr dp \<Rightarrow> ofResult (K_marshal_blob K (b\<lparr>kb_DPAPIBlob := dp\<rparr>))) = Done x"
    by (auto simp: Protect_def obind_Done_iff ofResult_Done_iff split: if_splits prod.splits)
  then show ?thesis using that by (auto simp: ofResult_Done_iff split: sum.splits)
qed

lemma wrap_with_pin_DoneE:
  assumes "wrap_with_pin K pin wrapKey b0 = Done (b, protected)"
  obtains (plain) "pin = []" "b = b0" "protected = wrapKey"
  | (pin) kp pk n where "pin \<noteq> []" "good_kdf kp" "pinKey K pin kp = Ret pk" "seal K 3 pk wrapKey = Inr (n, protected)"
      "b = b0\<lparr>kb_KDF := Some kp, kb_WrapNonce := n, kb_WrapCT := protected\<rparr>"
proof (cases "pin = []")
  case True
  then show ?thesis using assms plain by (simp add: wrap_with_pin_def)
next
  case False
  then obtain salt pk n where "pinKey K pin \<lparr>kd_Name = ''argon2id'', kd_TimeCst = client_argonTime,
      kd_MemKiB = client_argonMemKiB, kd_Threads = client_argonThreads, kd_Salt = salt\<rparr> = Ret pk"
    "seal K 3 pk wrapKey = Inr (n, protected)"
    "b = b0\<lparr>kb_KDF := Some \<lparr>kd_Name = ''argon2id'', kd_TimeCst = client_argonTime, kd_MemKiB = client_argonMemKiB,
      kd_Threads = client_argonThreads, kd_Salt = salt\<rparr>, kb_WrapNonce := n, kb_WrapCT := protected\<rparr>"
    using assms by (auto simp: wrap_with_pin_def outcome_iffs Let_def)
  then show ?thesis using False by (intro pin) (simp_all add: good_kdf_def)
qed

lemma Unprotect_sealed:
  assumes laws: "key_laws K" and p: "Protect K now pkcs8 pin = Done x" and t: "json_time now"
  shows "Unprotect K x pin = Done pkcs8"
proof -
  obtain wrapKey n ct b protected dp where k: "seal K 1 wrapKey pkcs8 = Inr (n, ct)"
    and w: "wrap_with_pin K pin wrapKey \<lparr>kb_Version = BlobVersion, kb_CreatedAt = now, kb_KDF = None, kb_KeyNonce = n,
       kb_KeyCT = ct, kb_WrapNonce = [], kb_WrapCT = [], kb_DPAPIBlob = []\<rparr> = Done (b, protected)"
    and dp: "dpapiProtect K protected = Inr dp" and x: "K_marshal_blob K (b\<lparr>kb_DPAPIBlob := dp\<rparr>) = Inr x"
    using p by (rule Protect_DoneE)
  have un: "dpapiUnprotect K dp = Inr protected"
    using laws dp by (simp add: key_laws_def dpapi_law_def dpapiProtect_def dpapiUnprotect_def)
  have op: "openSeal K key nonce c = Ret (Inr pt)" if "seal K i key pt = Inr (nonce, c)" for i key nonce c pt
    using laws that by (simp add: key_laws_def seal_open)
  have read: "K_unmarshal_blob K x = Inr (b\<lparr>kb_DPAPIBlob := dp\<rparr>)" if "kb_CreatedAt b = now" "kb_Version b = BlobVersion"
      "\<forall>k. kb_KDF b = Some k \<longrightarrow> good_kdf k"
    using laws x t that by (simp add: key_laws_def key_blob_law_def)
  from w show ?thesis
  proof (cases rule: wrap_with_pin_DoneE)
    case plain
    then show ?thesis using read un op [OF k] by (simp add: Unprotect_def wrapping_key_def)
  next
    case (pin kp pk m)
    then show ?thesis using read un op [OF k] op [OF pin(4)] by (simp add: Unprotect_def wrapping_key_def)
  qed
qed

text \<open>Without the right PIN a key that was sealed with one stays shut: an empty PIN is refused, and so is
  every PIN whose key does not open what the right PIN's key has sealed.\<close>

definition rejects_pin :: "key_lib \<Rightarrow> string \<Rightarrow> string \<Rightarrow> bool" where
  "rejects_pin K pin pin' \<longleftrightarrow> (\<forall>kp pk. good_kdf kp \<longrightarrow> pinKey K pin kp = Ret pk \<longrightarrow>
     (\<exists>pk'. pinKey K pin' kp = Ret pk' \<and> (\<forall>n p. \<exists>e. openSeal K pk' n (K_Seal K pk n p) = Ret (Inl e))))"

lemma Unprotect_other_pin:
  assumes laws: "key_laws K" and p: "Protect K now pkcs8 pin = Done x" and t: "json_time now" "pin \<noteq> []"
  shows "Unprotect K x [] = Fail (Errorf ''keystore: this key is PIN-protected'')"
    "rejects_pin K pin pin' \<Longrightarrow> \<exists>m. Unprotect K x pin' = Fail (Errorf m)"
proof -
  obtain wrapKey n ct b protected dp where k: "seal K 1 wrapKey pkcs8 = Inr (n, ct)"
    and w: "wrap_with_pin K pin wrapKey \<lparr>kb_Version = BlobVersion, kb_CreatedAt = now, kb_KDF = None, kb_KeyNonce = n,
       kb_KeyCT = ct, kb_WrapNonce = [], kb_WrapCT = [], kb_DPAPIBlob = []\<rparr> = Done (b, protected)"
    and dp: "dpapiProtect K protected = Inr dp" and x: "K_marshal_blob K (b\<lparr>kb_DPAPIBlob := dp\<rparr>) = Inr x"
    using p by (rule Protect_DoneE)
  have un: "dpapiUnprotect K dp = Inr protected"
    using laws dp by (simp add: key_laws_def dpapi_law_def dpapiProtect_def dpapiUnprotect_def)
  from w obtain kp pk m where b: "good_kdf kp" "pinKey K pin kp = Ret pk" "seal K 3 pk wrapKey = Inr (m, protected)"
      "b = \<lparr>kb_Version = BlobVersion, kb_CreatedAt = now, kb_KDF = Some kp,
      kb_KeyNonce = n, kb_KeyCT = ct, kb_WrapNonce = m, kb_WrapCT = protected, kb_DPAPIBlob = []\<rparr>"
    using t(2) by (cases rule: wrap_with_pin_DoneE) simp_all
  then have read: "K_unmarshal_blob K x = Inr (b\<lparr>kb_DPAPIBlob := dp\<rparr>)"
    using laws x t(1) by (simp add: key_laws_def key_blob_law_def)
  show "Unprotect K x [] = Fail (Errorf ''keystore: this key is PIN-protected'')"
    using read un b(4) by (simp add: Unprotect_def wrapping_key_def)
  assume r: "rejects_pin K pin pin'"
  then obtain pk' where pk': "pinKey K pin' kp = Ret pk'" "\<And>n p. \<exists>e. openSeal K pk' n (K_Seal K pk n p) = Ret (Inl e)"
    using b(1,2) unfolding rejects_pin_def by blast
  have "protected = K_Seal K pk m wrapKey" using b(3) by (auto simp: seal_def split: option.splits sum.splits)
  then obtain e where "openSeal K pk' m protected = Ret (Inl e)" using pk'(2) by blast
  then show "\<exists>m. Unprotect K x pin' = Fail (Errorf m)" using read un b(4) pk' by (simp add: Unprotect_def wrapping_key_def)
qed

subsection \<open>A file of the vault is replaced as a whole\<close>

lemma vault_path_Join: "list_all plain_seg ys \<Longrightarrow> ys \<noteq> [] \<Longrightarrow> vault_path v ys = Join (v # ys)"
proof -
  assume a: "list_all plain_seg ys" "ys \<noteq> []"
  then obtain y zs where y: "ys = y # zs" "y \<noteq> []" by (cases ys) (auto simp: plain_seg_def)
  then have "intercalate ''/'' ys \<noteq> []" by (cases zs) simp_all
  then show ?thesis using y by (cases "v = []") (simp_all add: vault_path_def Join_def)
qed

lemma vault_path_render: "list_all plain_seg ys \<Longrightarrow> ys \<noteq> [] \<Longrightarrow> vault_path v ys = render (rooted v) (csegs v @ ys)"
  by (simp add: vault_path_Join Join_plain)

lemma intercalate_suffix: "intercalate sep (ys @ [y @ t]) = intercalate sep (ys @ [y]) @ t"
  by (cases "ys = []") (simp_all add: intercalate_append)

lemma render_suffix: "xs \<noteq> [] \<Longrightarrow> render r xs @ t = render r (butlast xs @ [last xs @ t])"
  by (cases xs rule: rev_cases) (auto simp: render_def intercalate_suffix)

lemma vault_path_suffix:
  assumes "list_all plain_seg (ys @ [y])" "plain_seg (y @ t)"
  shows "vault_path v (ys @ [y]) @ t = vault_path v (ys @ [y @ t])"
  using assms by (simp add: vault_path_render render_suffix butlast_append)

lemma vault_path_Clean [simp]: "list_all plain_seg ys \<Longrightarrow> ys \<noteq> [] \<Longrightarrow> Clean (vault_path v ys) = vault_path v ys"
  by (simp add: vault_path_Join Join_plain_Clean)

lemma vault_path_inj: "list_all plain_seg xs \<Longrightarrow> xs \<noteq> [] \<Longrightarrow> list_all plain_seg ys \<Longrightarrow> ys \<noteq> [] \<Longrightarrow>
    vault_path v xs = vault_path v ys \<longleftrightarrow> xs = ys"
  by (simp add: vault_path_Join Join_plain_inj)

lemma vault_path_nonempty [simp]: "list_all plain_seg ys \<Longrightarrow> ys \<noteq> [] \<Longrightarrow> vault_path v ys \<noteq> []"
  by (simp add: vault_path_Join Join_plain_nonempty)

lemma writeFile_replaces:
  assumes "list_all plain_seg (ys @ [y])" "plain_seg (y @ ''.tmp'')"
    and run: "writeFile F (vault_path v (ys @ [y])) b d = (r, d')"
  shows "map_of (d_files d') (vault_path v (ys @ [y])) =
      (if r = Done () then Some b else map_of (d_files d) (vault_path v (ys @ [y])))"
    "r = Done () \<or> (\<exists>e. r = Fail e)" "d_dirs d' = d_dirs d"
    "q \<noteq> vault_path v (ys @ [y]) \<Longrightarrow> q \<noteq> vault_path v (ys @ [y @ ''.tmp'']) \<Longrightarrow> map_of (d_files d') q = map_of (d_files d) q"
proof -
  define p where "p = vault_path v (ys @ [y])"
  define t where "t = vault_path v (ys @ [y @ ''.tmp''])"
  have tmp: "p @ ''.tmp'' = t" unfolding p_def t_def by (rule vault_path_suffix [OF assms(1,2)])
  have cl: "Clean p = p" "Clean t = t" "t \<noteq> p" "t \<noteq> []"
    using assms(1,2) by (simp_all add: p_def t_def vault_path_inj)
  obtain e d1 where w: "WriteFile F t b d = (e, d1)" by (cases "WriteFile F t b d")
  have *: "(map_of (d_files d') p = (if r = Done () then Some b else map_of (d_files d) p)) \<and>
      (r = Done () \<or> (\<exists>e. r = Fail e)) \<and> d_dirs d' = d_dirs d \<and> (q \<noteq> p \<longrightarrow> q \<noteq> t \<longrightarrow> map_of (d_files d') q = map_of (d_files d) q)" for q
  proof (cases e)
    case (Some err)
    then have "r = Fail err" "d' = d1"
      using run w by (simp_all add: writeFile_def tmp p_def [symmetric] andThen_def syscall_def)
    then show ?thesis using WriteFile_other [of _ t F b d] WriteFile_dirs [of F t b d] w cl by simp
  next
    case None
    then have d1: "d1 = put_file t b d" using WriteFile_ok w by blast
    obtain e2 d2 where rn: "Rename F t p d1 = (e2, d2)" by (cases "Rename F t p d1")
    have r: "d' = d2" "r = (case e2 of None \<Rightarrow> Done () | Some e \<Rightarrow> Fail e)"
      using run w rn None by (simp_all add: writeFile_def tmp p_def [symmetric] andThen_def syscall_def split: option.splits)
    from Rename_cases [OF rn] cl have "d2 = d1 \<and> e2 \<noteq> None \<or>
        e2 = None \<and> d2 = put_file p b (d1\<lparr>d_files := AList.delete t (d_files d1)\<rparr>)"
      by (auto simp: d1)
    then show ?thesis using r d1 cl by (auto simp: put_file_def split: option.splits)
  qed
  show "map_of (d_files d') (vault_path v (ys @ [y])) =
      (if r = Done () then Some b else map_of (d_files d) (vault_path v (ys @ [y])))"
    "r = Done () \<or> (\<exists>e. r = Fail e)" "d_dirs d' = d_dirs d"
    "q \<noteq> vault_path v (ys @ [y]) \<Longrightarrow> q \<noteq> vault_path v (ys @ [y @ ''.tmp'']) \<Longrightarrow> map_of (d_files d') q = map_of (d_files d) q"
    using * [of q] by (simp_all add: p_def t_def)
qed

text \<open>What is in a file of the vault.\<close>

definition vault_file :: "vault \<Rightarrow> string list \<Rightarrow> disk \<Rightarrow> bytes option" where
  "vault_file v rel d = map_of (d_files d) (vault_path v rel)"

lemmas vault_names = keyFile_def deviceCert_def chainCert_def rootCert_def stateFile_def

definition vault_rel :: "string list \<Rightarrow> bool" where
  "vault_rel rel \<longleftrightarrow> rel \<in> {keyFile, deviceCert, chainCert, rootCert, stateFile}"

lemma vault_rel_simps [simp]:
  "vault_rel keyFile" "vault_rel deviceCert" "vault_rel chainCert" "vault_rel rootCert" "vault_rel stateFile"
  by (simp_all add: vault_rel_def)

lemma vault_rel_plain: "vault_rel rel \<Longrightarrow> list_all plain_seg rel \<and> rel \<noteq> []"
  by (auto simp: vault_rel_def vault_names plain_seg_def)

lemma vault_rel_snoc: "vault_rel rel \<Longrightarrow> \<exists>ys y. rel = ys @ [y] \<and> list_all plain_seg (ys @ [y]) \<and> plain_seg (y @ ''.tmp'') \<and>
    (\<forall>rel'. vault_rel rel' \<longrightarrow> rel' \<noteq> ys @ [y @ ''.tmp''])"
  by (rule exI [of _ "butlast rel"], rule exI [of _ "last rel"]) (auto simp: vault_rel_def vault_names plain_seg_def)

text \<open>Writing one file of the vault leaves the others as they are, and an unsuccessful write leaves
  every file as it was.\<close>

lemma write_vault:
  assumes "vault_rel rel" "writeFile F (vault_path v rel) b d = (r, d')"
  shows "r = Done () \<or> (\<exists>e. r = Fail e)" "d_dirs d' = d_dirs d"
    "vault_rel rel' \<Longrightarrow> vault_file v rel' d' = (if r = Done () \<and> rel' = rel then Some b else vault_file v rel' d)"
proof -
  obtain ys y where y: "rel = ys @ [y]" "list_all plain_seg (ys @ [y])" "plain_seg (y @ ''.tmp'')"
    "\<And>rel'. vault_rel rel' \<Longrightarrow> rel' \<noteq> ys @ [y @ ''.tmp'']"
    using vault_rel_snoc [OF assms(1)] by blast
  note w = writeFile_replaces [OF y(2,3) assms(2) [unfolded y(1)]]
  show "r = Done () \<or> (\<exists>e. r = Fail e)" "d_dirs d' = d_dirs d" by (rule w)+
  show "vault_file v rel' d' = (if r = Done () \<and> rel' = rel then Some b else vault_file v rel' d)"
    if rel': "vault_rel rel'"
  proof (cases "rel' = rel")
    case True
    then show ?thesis using w(1) by (simp add: vault_file_def y(1))
  next
    case False
    have "list_all plain_seg (ys @ [y @ ''.tmp''])" using y(2,3) by simp
    then have "vault_path v rel' \<noteq> vault_path v (ys @ [y])" "vault_path v rel' \<noteq> vault_path v (ys @ [y @ ''.tmp''])"
      using False rel' vault_rel_plain [OF rel'] y by (auto simp: vault_path_inj)
    then show ?thesis using w(4) False by (simp add: vault_file_def)
  qed
qed

lemma write_vault_keeps:
  "vault_rel rel \<Longrightarrow> vault_rel rel' \<Longrightarrow> rel \<noteq> rel' \<Longrightarrow> moves (same (vault_file v rel')) (writeFile F (vault_path v rel) b)"
  unfolding moves_def same_def using write_vault(3) by (metis surjective_pairing)

lemma read_vault:
  "vault_rel rel \<Longrightarrow> read_file F (vault_path v rel) d = (Done b, d') \<longleftrightarrow>
     d' = d \<and> fa_read F (vault_path v rel) = None \<and> vault_file v rel d = Some b"
  using vault_rel_plain [of rel]
  by (auto simp: read_file_def ReadFile_def vault_file_def split: option.splits)

subsection \<open>The key in the vault\<close>

lemma LoadKey_Done_iff:
  "LoadKey K F v pin d = (Done k, d') \<longleftrightarrow>
     d' = d \<and> fa_read F (vault_path v keyFile) = None \<and> (\<exists>x. vault_file v keyFile d = Some x \<and> Unprotect K x pin = Done k)"
  by (auto simp: LoadKey_def andThen_Done_iff lift_Done_iff read_vault)

lemma LoadKey_run:
  "fa_read F (vault_path v keyFile) = None \<Longrightarrow> vault_file v keyFile d = Some x \<Longrightarrow> LoadKey K F v pin d = (Unprotect K x pin, d)"
proof -
  assume "fa_read F (vault_path v keyFile) = None" "vault_file v keyFile d = Some x"
  then have "read_file F (vault_path v keyFile) d = (Done x, d)" by (simp add: read_vault)
  then show ?thesis by (simp add: LoadKey_def andThen_run lift_def)
qed

lemma SaveKey_cases:
  assumes "SaveKey K F now v k pin d = (r, d')"
  shows "(\<exists>x. r = Done () \<and> Protect K now k pin = Done x \<and> vault_file v keyFile d' = Some x) \<or>
     r \<noteq> Done () \<and> vault_file v keyFile d' = vault_file v keyFile d"
    and "vault_rel rel \<Longrightarrow> rel \<noteq> keyFile \<Longrightarrow> vault_file v rel d' = vault_file v rel d"
proof -
  have *: "((\<exists>x. r = Done () \<and> Protect K now k pin = Done x \<and> vault_file v keyFile d' = Some x) \<or>
     r \<noteq> Done () \<and> vault_file v keyFile d' = vault_file v keyFile d) \<and>
    (vault_rel rel \<longrightarrow> rel \<noteq> keyFile \<longrightarrow> vault_file v rel d' = vault_file v rel d)" for rel
  proof (cases "Protect K now k pin")
    case (Done x)
    then have w: "writeFile F (vault_path v keyFile) x d = (r, d')"
      using assms by (simp add: SaveKey_def andThen_lift)
    show ?thesis using write_vault [OF _ w] Done by auto
  qed (use assms in \<open>auto simp: SaveKey_def andThen_lift\<close>)
  show "(\<exists>x. r = Done () \<and> Protect K now k pin = Done x \<and> vault_file v keyFile d' = Some x) \<or>
     r \<noteq> Done () \<and> vault_file v keyFile d' = vault_file v keyFile d" using * by blast
  show "vault_rel rel \<Longrightarrow> rel \<noteq> keyFile \<Longrightarrow> vault_file v rel d' = vault_file v rel d" using * by blast
qed

lemma saved_key_loads:
  assumes "key_laws K" "json_time now" "fa_read F (vault_path v keyFile) = None"
    and "SaveKey K F now v k pin d = (Done (), d')"
  shows "LoadKey K F v pin d' = (Done k, d')"
  using SaveKey_cases(1) [OF assms(4)] assms Unprotect_sealed [OF assms(1)] by (auto simp: LoadKey_Done_iff)

text \<open>Removing the key, and what the other operations of the vault leave alone.\<close>

lemma DeleteKey_keeps: "vault_rel rel \<Longrightarrow> rel \<noteq> keyFile \<Longrightarrow> moves (same (vault_file v rel)) (DeleteKey F v)"
proof -
  assume r: "vault_rel rel" "rel \<noteq> keyFile"
  have "vault_path v rel \<noteq> Clean (vault_path v keyFile)"
    using r vault_rel_plain [of rel] vault_rel_plain [of keyFile] by (simp add: vault_path_inj)
  then have "moves (same (vault_file v rel)) (syscall (Remove F (vault_path v keyFile)))"
    unfolding moves_def same_def syscall_def vault_file_def
    using Remove_other [of "vault_path v rel" "vault_path v keyFile" F] by (auto split: prod.split option.split) (metis snd_conv)+
  then show ?thesis
    unfolding DeleteKey_def
    by (intro same.moves_andThen same.moves_attempt) (auto intro: same.moves_pure split: sum.split)
qed

lemmas vault_saves = SaveDeviceCertPEM_def SaveChainPEM_def SaveRootPEM_def SaveState_def

lemma saves_keep:
  "vault_rel rel \<Longrightarrow> rel \<noteq> deviceCert \<Longrightarrow> moves (same (vault_file v rel)) (SaveDeviceCertPEM F v pem)"
  "vault_rel rel \<Longrightarrow> rel \<noteq> chainCert \<Longrightarrow> moves (same (vault_file v rel)) (SaveChainPEM F v pem)"
  "vault_rel rel \<Longrightarrow> rel \<noteq> rootCert \<Longrightarrow> moves (same (vault_file v rel)) (SaveRootPEM F v pem)"
  "vault_rel rel \<Longrightarrow> rel \<noteq> stateFile \<Longrightarrow> moves (same (vault_file v rel)) (SaveState K F now v st)"
  by (auto simp: vault_saves intro!: write_vault_keeps)

lemma names_differ [simp]:
  "keyFile \<noteq> deviceCert" "keyFile \<noteq> chainCert" "keyFile \<noteq> rootCert" "keyFile \<noteq> stateFile"
  "deviceCert \<noteq> keyFile" "deviceCert \<noteq> chainCert" "deviceCert \<noteq> rootCert" "deviceCert \<noteq> stateFile"
  by (simp_all add: vault_names)

end
