(* ===== verification/ApiClient.thy ===== *)
theory ApiClient
  imports Outcome Server
begin

section \<open>The client's side of the HTTP interface (\<open>apps/windows/internal/apiclient/client.go\<close>)\<close>

text \<open>
  A client is its base address, whether it accepts any server certificate, and its token. The network
  is a parameter with a state of its own (\<open>'w\<close>, the world): it answers a request with a transport error
  or with a status and the bytes of the body, and changes the world. With the model of the server as
  the world the client talks to the server (theory \<open>ClientServer\<close>). JSON codecs, URL and form encoding
  are parameters too. A call that returns an error gives no other value.
\<close>

subsection \<open>The library\<close>

record wire =
  w_method :: string
  w_url :: string
  w_ctype :: string
  w_auth :: string
  w_body :: bytes

record client_enrollment =
  ce_EnrollmentID :: string
  ce_DeviceID :: string
  ce_AccountID :: string
  ce_Status :: string

record client_placement =
  pl_Page :: int
  pl_X :: float64
  pl_Y :: float64
  pl_W :: float64

text \<open>\<open>N_strings\<close> decodes an object into a struct of string fields, \<open>N_int\<close> one integer field, \<open>N_any\<close>
  a \<open>map[string]any\<close>; a field that is missing or of another type has its zero value.\<close>

record 'w api_lib =
  N_NewRequest :: "string \<Rightarrow> string \<Rightarrow> error option"
  N_Do :: "bool \<Rightarrow> wire \<Rightarrow> 'w \<Rightarrow> (int \<times> bytes) result \<times> 'w"
  N_encode :: "(string \<times> string) list \<Rightarrow> bytes"
  N_strings :: "string list \<Rightarrow> bytes \<Rightarrow> (string \<Rightarrow> string) \<times> error option"
  N_int :: "string \<Rightarrow> bytes \<Rightarrow> int"
  N_any :: "bytes \<Rightarrow> (string, json) gomap"
  N_enrollments :: "bytes \<Rightarrow> client_enrollment list"
  N_signatures :: "bytes \<Rightarrow> (string, json) gomap list"
  N_placements :: "client_placement list \<Rightarrow> string result"
  N_float4 :: "float64 \<Rightarrow> string"
  N_query :: "(string \<times> string) list \<Rightarrow> string"
  N_form :: "string \<Rightarrow> string \<Rightarrow> bytes \<Rightarrow> bytes \<times> string"

record client =
  ac_base :: string
  ac_insecure :: bool
  ac_token :: string

record 'w net =
  nt_client :: client
  nt_world :: 'w

abbreviation uploadChunkBytes :: int where "uploadChunkBytes \<equiv> 8388608"

definition client_New :: "string \<Rightarrow> bool \<Rightarrow> client" where
  "client_New baseURL insecureTLS =
     \<lparr>ac_base = TrimRight baseURL (CHR ''/''), ac_insecure = insecureTLS, ac_token = []\<rparr>"

fun error_as_api :: "error \<Rightarrow> (int \<times> string) option" where
  "error_as_api (ApiError status m) = Some (status, m)"
| "error_as_api (Wrap m e) = error_as_api e"
| "error_as_api _ = None"

definition IsTooLarge :: "error \<Rightarrow> bool" where
  "IsTooLarge e \<longleftrightarrow> (case error_as_api e of None \<Rightarrow> False | Some (status, m) \<Rightarrow> status = 413)"

definition SetToken :: "string \<Rightarrow> ('w net, unit) act" where
  "SetToken t = modifies (\<lambda>s. s\<lparr>nt_client := nt_client s\<lparr>ac_token := t\<rparr>\<rparr>)"

subsection \<open>One request\<close>

definition to_wire :: "client \<Rightarrow> string \<Rightarrow> string \<Rightarrow> bytes \<Rightarrow> string \<Rightarrow> wire" where
  "to_wire c meth path body ctype = \<lparr>w_method = meth, w_url = ac_base c @ path, w_ctype = ctype,
     w_auth = (if ac_token c \<noteq> [] then ''Bearer '' @ ac_token c else []), w_body = body\<rparr>"

definition api_error :: "'w api_lib \<Rightarrow> int \<Rightarrow> bytes \<Rightarrow> error option" where
  "api_error N status raw =
     (if status < 400 then None
      else let (f, err) = N_strings N [''error''] raw in
        Some (ApiError status (if err = None \<and> f ''error'' \<noteq> [] then f ''error'' else TrimSpace raw)))"

text \<open>The method \<open>do\<close>: the first 64 MiB of the body, the status, and the error if there is one.\<close>

definition api_do :: "'w api_lib \<Rightarrow> string \<Rightarrow> string \<Rightarrow> bytes \<Rightarrow> string \<Rightarrow> 'w net \<Rightarrow>
    (bytes \<times> int \<times> error option) \<times> 'w net" where
  "api_do N meth path body ctype s =
     (case N_NewRequest N meth (ac_base (nt_client s) @ path) of
        Some e \<Rightarrow> (([], 0, Some e), s)
      | None \<Rightarrow>
          (case N_Do N (ac_insecure (nt_client s)) (to_wire (nt_client s) meth path body ctype) (nt_world s) of
             (Inl e, w) \<Rightarrow> (([], 0, Some e), s\<lparr>nt_world := w\<rparr>)
           | (Inr (status, all), w) \<Rightarrow>
               let raw = take 67108864 all in ((raw, status, api_error N status raw), s\<lparr>nt_world := w\<rparr>)))"

definition api_call :: "'w api_lib \<Rightarrow> string \<Rightarrow> string \<Rightarrow> bytes \<Rightarrow> string \<Rightarrow> ('w net, bytes) act" where
  "api_call N meth path body ctype s =
     (case api_do N meth path body ctype s of
        ((raw, status, Some e), s') \<Rightarrow> (Fail e, s') | ((raw, status, None), s') \<Rightarrow> (Done raw, s'))"

definition postJSON :: "'w api_lib \<Rightarrow> string \<Rightarrow> (string \<times> string) list \<Rightarrow> string list option \<Rightarrow>
    ('w net, string \<Rightarrow> string) act" where
  "postJSON N path inp outs =
     andThen (api_call N ''POST'' path (N_encode N inp) ''application/json'') (\<lambda>raw.
       case outs of
         None \<Rightarrow> ret (\<lambda>f. [])
       | Some fs \<Rightarrow>
           if raw = [] then ret (\<lambda>f. [])
           else case N_strings N fs raw of (f, None) \<Rightarrow> ret f | (f, Some e) \<Rightarrow> fail e)"

subsection \<open>Accounts and devices\<close>

record register_result =
  rg_AccountID :: string
  rg_Status :: string
  rg_Message :: string

definition client_Register :: "'w api_lib \<Rightarrow> string \<Rightarrow> string \<Rightarrow> string \<Rightarrow> string \<Rightarrow> string \<Rightarrow> string \<Rightarrow>
    ('w net, register_result) act" where
  "client_Register N fullName org email password position nip =
     andThen (postJSON N ''/api/v1/auth/register''
         [(''email'', email), (''password'', password), (''full_name'', fullName), (''organization'', org),
          (''display_name'', fullName), (''position'', position), (''nip'', nip)]
         (Some [''account_id'', ''status'', ''message''])) (\<lambda>f.
       ret \<lparr>rg_AccountID = f ''account_id'', rg_Status = f ''status'', rg_Message = f ''message''\<rparr>)"

definition client_Login :: "'w api_lib \<Rightarrow> string \<Rightarrow> string \<Rightarrow> ('w net, unit) act" where
  "client_Login N email password =
     andThen (api_call N ''POST'' ''/api/v1/auth/login''
         (N_encode N [(''email'', email), (''password'', password)]) ''application/json'') (\<lambda>raw.
       let t = fst (N_strings N [''access_token''] raw) ''access_token'' in
       if t = [] then fail (Errorf ''login: no access token in response'') else SetToken t)"

definition client_CreateDevice :: "'w api_lib \<Rightarrow> string \<Rightarrow> string \<Rightarrow> ('w net, string) act" where
  "client_CreateDevice N label platform =
     andThen (postJSON N ''/api/v1/devices'' [(''label'', label), (''platform'', platform)] (Some [''device_id'']))
       (\<lambda>f. ret (f ''device_id''))"

definition client_SubmitCSR :: "'w api_lib \<Rightarrow> string \<Rightarrow> bytes \<Rightarrow> ('w net, string) act" where
  "client_SubmitCSR N deviceID csrPEM =
     andThen (api_call N ''POST'' (''/api/v1/devices/'' @ deviceID @ ''/csr'') csrPEM ''application/x-pem-file'')
       (\<lambda>raw. ret (fst (N_strings N [''enrollment_id''] raw) ''enrollment_id''))"

definition client_DeviceCertificate :: "'w api_lib \<Rightarrow> string \<Rightarrow> ('w net, bytes) act" where
  "client_DeviceCertificate N deviceID s =
     (case api_do N ''GET'' (''/api/v1/devices/'' @ deviceID @ ''/certificate'') [] [] s of
        ((raw, status, err), s') \<Rightarrow>
          (if status = 404 then Fail ErrNotYetIssued else case err of Some e \<Rightarrow> Fail e | None \<Rightarrow> Done raw, s'))"

definition client_ReportLost :: "'w api_lib \<Rightarrow> string \<Rightarrow> ('w net, unit) act" where
  "client_ReportLost N deviceID =
     andThen (api_call N ''POST'' (''/api/v1/devices/'' @ deviceID @ ''/report-lost'') [] []) (\<lambda>raw. ret ())"

subsection \<open>Issuing, by an administrator\<close>

definition client_ListEnrollments :: "'w api_lib \<Rightarrow> ('w net, client_enrollment list) act" where
  "client_ListEnrollments N =
     andThen (api_call N ''GET'' ''/api/v1/admin/enrollments'' [] []) (\<lambda>raw. ret (N_enrollments N raw))"

definition client_ExportEnrollmentCSR :: "'w api_lib \<Rightarrow> string \<Rightarrow> ('w net, bytes) act" where
  "client_ExportEnrollmentCSR N enrollmentID =
     api_call N ''GET'' (''/api/v1/admin/enrollments/'' @ enrollmentID @ ''/export'') [] []"

definition client_ApproveEnrollment :: "'w api_lib \<Rightarrow> string \<Rightarrow> ('w net, unit) act" where
  "client_ApproveEnrollment N enrollmentID =
     andThen (api_call N ''POST'' (''/api/v1/admin/enrollments/'' @ enrollmentID @ ''/approve'') [] []) (\<lambda>raw. ret ())"

definition client_IssueCertificate :: "'w api_lib \<Rightarrow> string \<Rightarrow> bytes \<Rightarrow> ('w net, (string, json) gomap) act" where
  "client_IssueCertificate N enrollmentID certPEM =
     andThen (api_call N ''POST'' (''/api/v1/admin/enrollments/'' @ enrollmentID @ ''/certificate'') certPEM
       ''application/x-pem-file'') (\<lambda>raw. ret (N_any N raw))"

definition client_RevokeCertificate :: "'w api_lib \<Rightarrow> string \<Rightarrow> string \<Rightarrow> ('w net, unit) act" where
  "client_RevokeCertificate N certID reason =
     andThen (postJSON N (''/api/v1/admin/certificates/'' @ certID @ ''/revoke'') [(''reason'', reason)] None) (\<lambda>f. ret ())"

definition getRaw :: "'w api_lib \<Rightarrow> string \<Rightarrow> ('w net, bytes) act" where
  "getRaw N path = api_call N ''GET'' path [] []"

definition PublicRootCA :: "'w api_lib \<Rightarrow> ('w net, bytes) act" where
  "PublicRootCA N = getRaw N ''/api/v1/public/ca/root.crt''"
definition PublicChain :: "'w api_lib \<Rightarrow> ('w net, bytes) act" where
  "PublicChain N = getRaw N ''/api/v1/public/ca/chain.pem''"
definition PublicCRL :: "'w api_lib \<Rightarrow> ('w net, bytes) act" where
  "PublicCRL N = getRaw N ''/api/v1/public/ca/crl.pem''"

subsection \<open>Large bodies\<close>

text \<open>The loop over the chunks: the next offset is the one the server reports, and it has to grow.\<close>

definition chunk_of :: "bytes \<Rightarrow> int \<Rightarrow> bytes" where
  "chunk_of data off = take (nat (min (off + uploadChunkBytes) (int (length data)) - off)) (drop (nat off) data)"

definition push_chunk :: "'w api_lib \<Rightarrow> string \<Rightarrow> bytes \<Rightarrow> int \<Rightarrow> ('w net, bytes) act" where
  "push_chunk N i data off =
     api_call N ''PATCH'' (''/api/v1/uploads/'' @ i @ ''?offset='' @ dec_int off) (chunk_of data off)
       ''application/octet-stream''"

function upload_loop :: "'w api_lib \<Rightarrow> string \<Rightarrow> bytes \<Rightarrow> int \<Rightarrow> ('w net, unit) act" where
  "upload_loop N i data off s =
     (if int (length data) \<le> off then (Done (), s)
      else case push_chunk N i data off s of
        (Done resp, s') \<Rightarrow>
          if N_int N ''received'' resp \<le> off then
            (Fail (Errorf (''unggah macet di offset '' @ dec_int off)), s')
          else upload_loop N i data (N_int N ''received'' resp) s'
      | (Fail e, s') \<Rightarrow> (Fail e, s')
      | (Crash m, s') \<Rightarrow> (Crash m, s')
      | (Hang, s') \<Rightarrow> (Hang, s'))"
  by pat_completeness auto
termination
  by (relation "measure (\<lambda>(N, i, data, off, s). nat (int (length data) - off))") auto

declare upload_loop.simps [simp del]

definition uploadBytes :: "'w api_lib \<Rightarrow> bytes \<Rightarrow> ('w net, string) act" where
  "uploadBytes N data =
     andThen (api_call N ''POST'' ''/api/v1/uploads'' [] []) (\<lambda>raw.
       let i = fst (N_strings N [''upload_id''] raw) ''upload_id'' in
       if i = [] then fail (Errorf ''respons unggah tanpa upload_id'')
       else andThen (upload_loop N i data 0) (\<lambda>u. ret i))"

definition upload_error :: "error \<Rightarrow> error" where
  "upload_error e = Wrap ''unggah bertahap'' e"

subsection \<open>Signatures\<close>

record client_reservation =
  cr_PublicID :: string
  cr_VerificationURL :: string
  cr_ExpiresAt :: string

definition client_Reserve :: "'w api_lib \<Rightarrow> string \<Rightarrow> string \<Rightarrow> string \<Rightarrow> ('w net, client_reservation) act" where
  "client_Reserve N deviceID originalSHA512 fileName =
     andThen (postJSON N ''/api/v1/signatures/reserve''
         [(''device_id'', deviceID), (''original_sha512'', originalSHA512), (''file_name'', fileName)]
         (Some [''public_id'', ''verification_url'', ''expires_at''])) (\<lambda>f.
       ret \<lparr>cr_PublicID = f ''public_id'', cr_VerificationURL = f ''verification_url'', cr_ExpiresAt = f ''expires_at''\<rparr>)"

definition stamp_query :: "'w api_lib \<Rightarrow> client_placement list \<Rightarrow> string \<Rightarrow> string \<Rightarrow> (string \<times> string) list" where
  "stamp_query N placements reason issuedPlace =
     (if reason \<noteq> [] then [(''reason'', reason)] else []) @
     (if issuedPlace \<noteq> [] then [(''issued_place'', issuedPlace)] else []) @
     (case N_placements N placements of Inl e \<Rightarrow> [] | Inr js \<Rightarrow> [(''stamps'', js)]) @
     (case placements of
        [p] \<Rightarrow> (if 0 < pl_Page p then [(''page'', dec_int (pl_Page p))] else []) @
               [(''x'', N_float4 N (pl_X p)), (''y'', N_float4 N (pl_Y p)), (''w'', N_float4 N (pl_W p))]
      | _ \<Rightarrow> [])"

definition client_Stamp :: "'w api_lib \<Rightarrow> string \<Rightarrow> bytes \<Rightarrow> client_placement list \<Rightarrow> string \<Rightarrow> string \<Rightarrow>
    ('w net, bytes) act" where
  "client_Stamp N publicID pdf placements reason issuedPlace =
     (let q = stamp_query N placements reason issuedPlace;
          base = ''/api/v1/signatures/'' @ publicID @ ''/stamp''
      in if uploadChunkBytes < int (length pdf) then
           andThen (orFail upload_error (uploadBytes N pdf)) (\<lambda>i.
             api_call N ''POST'' (base @ ''?'' @ N_query N (q @ [(''upload_id'', i)])) [] [])
         else api_call N ''POST'' (base @ ''?'' @ N_query N q) pdf ''application/pdf'')"

definition client_SubmitDocument :: "'w api_lib \<Rightarrow> string \<Rightarrow> bytes \<Rightarrow> ('w net, (string, json) gomap) act" where
  "client_SubmitDocument N publicID signedPDF =
     (let path = ''/api/v1/signatures/'' @ publicID @ ''/document'' in
      andThen
        (if uploadChunkBytes < int (length signedPDF) then
           andThen (orFail upload_error (uploadBytes N signedPDF)) (\<lambda>i.
             api_call N ''PUT'' (path @ ''?upload_id='' @ i) [] [])
         else api_call N ''PUT'' path signedPDF ''application/pdf'')
        (\<lambda>raw. ret (N_any N raw)))"

definition client_MySignatures :: "'w api_lib \<Rightarrow> ('w net, (string, json) gomap list) act" where
  "client_MySignatures N =
     andThen (api_call N ''GET'' ''/api/v1/me/signatures'' [] []) (\<lambda>raw. ret (N_signatures N raw))"

definition client_VerifyPublic :: "'w api_lib \<Rightarrow> bytes \<Rightarrow> ('w net, (string, json) gomap) act" where
  "client_VerifyPublic N pdf =
     (let (body, ctype) = N_form N ''file'' ''document.pdf'' pdf in
      andThen (api_call N ''POST'' ''/api/v1/verify'' body ctype) (\<lambda>raw. ret (N_any N raw)))"

subsection \<open>A call leaves the client alone\<close>

lemma api_do_client [simp]: "nt_client (snd (api_do N meth path body ctype s)) = nt_client s"
  by (auto simp: api_do_def Let_def split: option.split prod.split sum.split)

lemma api_call_keeps: "moves (same nt_client) (api_call N meth path body ctype)"
  unfolding moves_def same_def api_call_def
  using api_do_client by (auto split: prod.split option.split) (metis snd_conv api_do_client)+

lemma api_call_Done:
  assumes "api_call N meth path body ctype s = (Done raw, s')"
  obtains status all w where "N_NewRequest N meth (ac_base (nt_client s) @ path) = None"
    "N_Do N (ac_insecure (nt_client s)) (to_wire (nt_client s) meth path body ctype) (nt_world s) = (Inr (status, all), w)"
    "status < 400" "raw = take 67108864 all" "s' = s\<lparr>nt_world := w\<rparr>"
  using assms
  by (auto simp: api_call_def api_do_def api_error_def Let_def split: option.splits prod.splits sum.splits if_splits)

lemma push_chunk_keeps: "moves (same nt_client) (push_chunk N i data off)"
  unfolding push_chunk_def by (rule api_call_keeps)

lemma upload_loop_keeps: "nt_client (snd (upload_loop N i data off s)) = nt_client s"
proof (induction N i data off s rule: upload_loop.induct)
  case (1 N i data off s)
  obtain q s' where q: "push_chunk N i data off s = (q, s')" by (cases "push_chunk N i data off s")
  then have "nt_client s' = nt_client s"
    using movesD [OF push_chunk_keeps q] by (simp add: same_def)
  then show ?case using 1 q by (cases q) (auto simp: upload_loop.simps [of N i data off s])
qed

lemma upload_loop_no_hang: "fst (upload_loop N i data off s) \<noteq> Hang"
proof (induction N i data off s rule: upload_loop.induct)
  case (1 N i data off s)
  obtain q s' where q: "push_chunk N i data off s = (q, s')" by fastforce
  have "q \<noteq> Hang" using q by (auto simp: push_chunk_def api_call_def split: prod.splits option.splits)
  then show ?case using 1 q by (cases q) (auto simp: upload_loop.simps [of N i data off s])
qed

text \<open>A counter of requests that the network never raises by more than one per request.\<close>

lemma api_call_count:
  assumes "\<And>i w x. cnt (snd (N_Do N i w x)) \<le> Suc (cnt x)"
  shows "cnt (nt_world (snd (api_call N m p b c st))) \<le> Suc (cnt (nt_world st))"
  using assms [of "ac_insecure (nt_client st)" "to_wire (nt_client st) m p b c" "nt_world st"]
  by (auto simp: api_call_def api_do_def Let_def split: option.splits prod.splits sum.splits)

lemma upload_loop_count:
  assumes count: "\<And>i w x. cnt (snd (N_Do N i w x)) \<le> Suc (cnt x)"
  shows "cnt (nt_world (snd (upload_loop N i data off st))) \<le> cnt (nt_world st) + nat (int (length data) - off)"
  using count
proof (induction N i data off st rule: upload_loop.induct)
  case (1 N i data off st)
  show ?case
  proof (cases "int (length data) \<le> off")
    case True
    then show ?thesis by (simp add: upload_loop.simps [of N i data off st])
  next
    case False
    obtain q st1 where p: "push_chunk N i data off st = (q, st1)" by fastforce
    have one: "cnt (nt_world st1) \<le> Suc (cnt (nt_world st))"
      using api_call_count [of cnt N, OF 1(2)] p unfolding push_chunk_def by (metis snd_conv)
    have left: "1 \<le> nat (int (length data) - off)" using False by simp
    show ?thesis
    proof (cases "\<exists>resp. q = Done resp \<and> off < N_int N ''received'' resp")
      case True
      then obtain resp where r: "q = Done resp" "off < N_int N ''received'' resp" by blast
      have run: "upload_loop N i data off st = upload_loop N i data (N_int N ''received'' resp) st1"
        using False p r by (simp add: upload_loop.simps [of N i data off st])
      have "cnt (nt_world (snd (upload_loop N i data (N_int N ''received'' resp) st1))) \<le>
          cnt (nt_world st1) + nat (int (length data) - N_int N ''received'' resp)"
        using 1(1) [OF False _ refl] p r 1(2) by simp
      moreover have "Suc (nat (int (length data) - N_int N ''received'' resp)) \<le> nat (int (length data) - off)"
        using r(2) False by simp
      ultimately show ?thesis using one unfolding run by linarith
    next
      case no: False
      then have "snd (upload_loop N i data off st) = st1"
        using False p by (cases q) (auto simp: upload_loop.simps [of N i data off st])
      then show ?thesis using one left by simp
    qed
  qed
qed

end
