(* ===== verification/Signing.thy ===== *)
theory Signing
  imports LabPKI Verification
begin

section \<open>Signing a PDF (\<open>core/signing\<close>)\<close>

text \<open>
  \<open>SignPDF\<close> with its size limit, watchdog and recover, the checks before the signature, and the visible
  appearance (\<open>appearance.go\<close>). The builder of \<open>pdfsign\<close> collects settings until \<open>Write\<close>; it is the record
  \<open>sign_request\<close>, and \<open>Write\<close> is a parameter that may panic or never return, like every call into the PDF
  parser. Lengths in the appearance are whole points (the border is in hundredths).
\<close>

subsection \<open>Options, result, library\<close>

record sign_options =
  so_Reason :: string
  so_Location :: string
  so_SignerName :: string
  so_PublicID :: string
  so_VerificationURL :: string
  so_IncludeQR :: bool
  so_Page :: int
  so_X :: float64
  so_Y :: float64
  so_ClaimedSigningTime :: time
  so_ClaimedZone :: int
  so_Timeout :: duration

record sign_result =
  sn_SignedPDF :: bytes
  sn_OriginalSHA512 :: string
  sn_SignedSHA512 :: string
  sn_Algorithm :: string
  sn_PDFProfile :: string
  sn_CertificateSerial :: string
  sn_CertificateFP :: string
  sn_PublicID :: string
  sn_ClaimedSigningTime :: time

record appearance_text =
  at_text :: string
  at_bold :: bool
  at_size :: int
  at_pos :: "int \<times> int"

record appearance =
  ap_size :: "int \<times> int"
  ap_background :: "int \<times> int \<times> int"
  ap_border :: "int \<times> int \<times> int \<times> int"
  ap_texts :: "appearance_text list"
  ap_image :: "(string \<times> bytes \<times> (int \<times> int \<times> int \<times> int)) option"

record sign_request =
  sq_Key :: private_key
  sq_Leaf :: x509cert
  sq_Intermediates :: "x509cert list"
  sq_Format :: string
  sq_Digest :: string
  sq_SignerName :: string
  sq_Appearance :: "(appearance \<times> float64 \<times> float64 \<times> int) option"
  sq_Reason :: string
  sq_Location :: string
  sq_Contact :: string

record sign_lib =
  G_CommonName :: "x509cert \<Rightarrow> string"
  G_qrcode :: "string \<Rightarrow> bytes result"
  G_Write :: "bytes \<Rightarrow> sign_request \<Rightarrow> bytes result run"

abbreviation (input) appearanceW :: int where "appearanceW \<equiv> 320"
abbreviation (input) appearanceH :: int where "appearanceH \<equiv> 120"
abbreviation (input) qrSide :: int where "qrSide \<equiv> 96"

subsection \<open>The visible appearance\<close>

definition shorten :: "string \<Rightarrow> nat \<Rightarrow> string" where
  "shorten s n = (if length s \<le> n then s else take n s @ [CHR 0xE2, CHR 0x80, CHR 0xA6])"

definition safeText :: "string \<Rightarrow> string" where
  "safeText s = map (\<lambda>c. if c = CHR 0x0A \<or> c = CHR 0x0D then CHR '' '' else c) s"

text \<open>The layout \<open>2006-01-02 15:04:05 -07:00\<close>.\<close>

definition Format_claimed :: "time \<Rightarrow> int \<Rightarrow> string" where
  "Format_claimed t zone =
     (let (y, mo, d) = civil (day_of t zone);
          s = (t div second + zone) mod 86400
      in dec04 y @ ''-'' @ dec02 mo @ ''-'' @ dec02 d @ '' '' @ dec02 (s div 3600) @ '':''
           @ dec02 (s mod 3600 div 60) @ '':'' @ dec02 (s mod 60) @ '' ''
           @ (if zone = 0 then ''+00:00'' else zone_text zone))"

fun place_lines :: "int \<Rightarrow> nat \<Rightarrow> string list \<Rightarrow> appearance_text list" where
  "place_lines y i [] = []"
| "place_lines y i (ln # lns) =
     (let size' = (if i = 1 then 10 else 7) in
      \<lparr>at_text = ln, at_bold = (i = 1), at_size = size', at_pos = (6, y)\<rparr> # place_lines (y - (size' + 3)) (Suc i) lns)"

definition BuildSignatureAppearance :: "lib \<Rightarrow> sign_lib \<Rightarrow> time \<Rightarrow> x509cert \<Rightarrow> sign_options \<Rightarrow> appearance result" where
  "BuildSignatureAppearance L G now leaf o' =
     (let nm = (if so_SignerName o' = [] then G_CommonName G leaf else so_SignerName o');
          serial = serial_hex (x_SerialNumber leaf);
          claimed = (if IsZero (so_ClaimedSigningTime o') then Format_claimed now (L_local_zone L now)
                     else Format_claimed (so_ClaimedSigningTime o') (so_ClaimedZone o'));
          lns = [''Ditandatangani secara digital oleh:'', safeText nm, ''Algoritma: ML-DSA-65'',
                 ''No. sertifikat: '' @ shorten serial 32, ''Waktu (klaim klien): '' @ claimed]
                @ (if so_Reason o' \<noteq> [] then [''Alasan: '' @ safeText (so_Reason o')] else [])
                @ (if so_PublicID o' \<noteq> [] then [''ID verifikasi: '' @ so_PublicID o'] else []);
          app = \<lparr>ap_size = (appearanceW, appearanceH), ap_background = (255, 255, 255), ap_border = (75, 90, 90, 90),
                 ap_texts = place_lines (appearanceH - 14) 0 lns, ap_image = None\<rparr>;
          content = (if so_VerificationURL o' = [] then so_PublicID o' else so_VerificationURL o')
      in if so_IncludeQR o' \<and> content \<noteq> [] then
           (case G_qrcode G content of
              Inl e \<Rightarrow> Inl (Wrap ''signing: encode QR'' e)
            | Inr png \<Rightarrow>
                Inr (app\<lparr>ap_image := Some (''qr-'' @ so_PublicID o', png,
                       (appearanceW - qrSide - 6, (appearanceH - qrSide) div 2, qrSide, qrSide))\<rparr>))
         else Inr app)"

subsection \<open>The signature\<close>

text \<open>A \<open>float64\<close> is zero with either sign.\<close>

definition float_is_zero :: "float64 \<Rightarrow> bool" where
  "float_is_zero x \<longleftrightarrow> x = 0 \<or> x = push_bit 63 1"

definition with_appearance :: "lib \<Rightarrow> sign_lib \<Rightarrow> time \<Rightarrow> x509cert \<Rightarrow> sign_options \<Rightarrow>
    (appearance \<times> float64 \<times> float64 \<times> int) option result" where
  "with_appearance L G now leaf o' =
     (if \<not> so_IncludeQR o' then Inr None
      else case BuildSignatureAppearance L G now leaf o' of
        Inl e \<Rightarrow> Inl e
      | Inr app \<Rightarrow>
          let page = (if so_Page o' \<le> 0 then 1 else so_Page o');
              (x, y) = (if float_is_zero (so_X o') \<and> float_is_zero (so_Y o')
                        then (fl_of_int (L_stamp L) 40, fl_of_int (L_stamp L) 40) else (so_X o', so_Y o'))
          in Inr (Some (app, x, y, page)))"

definition request_for :: "sign_lib \<Rightarrow> private_key \<Rightarrow> x509cert list \<Rightarrow> sign_options \<Rightarrow>
    (appearance \<times> float64 \<times> float64 \<times> int) option \<Rightarrow> sign_request" where
  "request_for G sk chain o' app = \<lparr>sq_Key = sk, sq_Leaf = hd chain, sq_Intermediates = tl chain,
     sq_Format = ''PAdES_B'', sq_Digest = ''SHA512'',
     sq_SignerName = (if so_SignerName o' = [] then G_CommonName G (hd chain) else so_SignerName o'),
     sq_Appearance = app, sq_Reason = so_Reason o', sq_Location = so_Location o',
     sq_Contact = (if so_PublicID o' \<noteq> [] then PublicIDPrefix @ so_PublicID o' else [])\<rparr>"

definition sign_result_of :: "lib \<Rightarrow> bytes \<Rightarrow> x509cert \<Rightarrow> sign_options \<Rightarrow> time \<Rightarrow> bytes \<Rightarrow> sign_result" where
  "sign_result_of L pdf leaf o' claimed out = \<lparr>sn_SignedPDF = out, sn_OriginalSHA512 = CalculateSHA512 L pdf,
     sn_SignedSHA512 = CalculateSHA512 L out, sn_Algorithm = ''ML-DSA-65'', sn_PDFProfile = ''PAdES_B'',
     sn_CertificateSerial = serial_hex (x_SerialNumber leaf), sn_CertificateFP = FingerprintSHA256 L leaf,
     sn_PublicID = so_PublicID o', sn_ClaimedSigningTime = claimed\<rparr>"

text \<open>What is checked before the PDF is touched; gives the key and the chain.\<close>

definition sign_checks :: "lib \<Rightarrow> pki_lib \<Rightarrow> bytes \<Rightarrow> bytes \<Rightarrow> bytes \<Rightarrow> (private_key \<times> x509cert list) result" where
  "sign_checks L P pdf pkcs8 chainPEM =
     (if pdf = [] then Inl (Errorf ''signing: empty PDF input'')
      else case ParsePKCS8 L P pkcs8 of
        Inl e \<Rightarrow> Inl e
      | Inr sk \<Rightarrow>
          (case ParseChainPEM L chainPEM of
             Inl e \<Rightarrow> Inl e
           | Inr chain \<Rightarrow>
               let leaf = hd chain in
               if \<not> IsMLDSA leaf then
                 Inl (Errorf (''signing: leaf certificate is '' @ x_PublicKeyAlgorithm leaf @ '', want ML-DSA''))
               else if \<not> SameKeyPair P sk (x_PublicKey leaf) then
                 Inl (Errorf ''signing: certificate public key does not match the device private key'')
               else if \<not> HasDocumentSigningEKU leaf then
                 Inl (Errorf ''signing: leaf certificate lacks id-kp-documentSigning EKU'')
               else Inr (sk, chain)))"

definition core_signPDF :: "lib \<Rightarrow> pki_lib \<Rightarrow> sign_lib \<Rightarrow> (nat \<Rightarrow> time) \<Rightarrow> bytes \<Rightarrow> bytes \<Rightarrow> bytes \<Rightarrow> sign_options \<Rightarrow>
    sign_result result run" where
  "core_signPDF L P G now pdf pkcs8 chainPEM o' =
     (case sign_checks L P pdf pkcs8 chainPEM of
        Inl e \<Rightarrow> Returns 0 (Inl e)
      | Inr (sk, chain) \<Rightarrow>
          let claimed = (if IsZero (so_ClaimedSigningTime o') then now 0 else so_ClaimedSigningTime o') in
          (case L_pdf_Open L pdf of
             Diverges \<Rightarrow> Diverges
           | Panics d m \<Rightarrow> Panics d m
           | Returns d (Some e) \<Rightarrow> Returns d (Inl (Wrap ''signing: open PDF'' e))
           | Returns d None \<Rightarrow>
               (case with_appearance L G (now 1) (hd chain) o' of
                  Inl e \<Rightarrow> Returns d (Inl e)
                | Inr app \<Rightarrow>
                    after d (map_run
                      (map_sum (Wrap ''signing: write signed PDF'') (sign_result_of L pdf (hd chain) o' claimed))
                      (G_Write G pdf (request_for G sk chain o' app))))))"

definition sign_recovered :: "string \<Rightarrow> error" where
  "sign_recovered m = Errorf (''signing: recovered from panic parsing PDF: '' @ m)"

definition sign_gave_up :: "duration \<Rightarrow> error" where
  "sign_gave_up t = Errorf (''signing: gave up after '' @ Duration_String t @ '' (malformed PDF?)'')"

text \<open>None: the call does not return.\<close>

definition SignPDF :: "lib \<Rightarrow> pki_lib \<Rightarrow> sign_lib \<Rightarrow> (nat \<Rightarrow> time) \<Rightarrow> bytes \<Rightarrow> bytes \<Rightarrow> bytes \<Rightarrow> sign_options \<Rightarrow>
    sign_result result option" where
  "SignPDF L P G now pdf pkcs8 chainPEM o' =
     (if MaxPDFBytes < int (length pdf) then
        Some (Inl (Errorf (''signing: PDF is '' @ dec_nat (length pdf) @ '' bytes, over the ''
                     @ dec_int MaxPDFBytes @ ''-byte limit'')))
      else if so_Timeout o' \<le> 0 then
        (case core_signPDF L P G now pdf pkcs8 chainPEM o' of
           Returns d r \<Rightarrow> Some r | Panics d m \<Rightarrow> Some (Inl (sign_recovered m)) | Diverges \<Rightarrow> None)
      else
        (case core_signPDF L P G now pdf pkcs8 chainPEM o' of
           Returns d r \<Rightarrow> Some (if d < so_Timeout o' then r else Inl (sign_gave_up (so_Timeout o')))
         | Panics d m \<Rightarrow> Some (if d < so_Timeout o' then Inl (sign_recovered m) else Inl (sign_gave_up (so_Timeout o')))
         | Diverges \<Rightarrow> Some (Inl (sign_gave_up (so_Timeout o')))))"

subsection \<open>What a signature was made of\<close>

lemma sign_checks_InrD:
  assumes "sign_checks L P pdf pkcs8 chainPEM = Inr (sk, chain)"
  shows "ParsePKCS8 L P pkcs8 = Inr sk" "ParseChainPEM L chainPEM = Inr chain" "chain \<noteq> []" "IsMLDSA (hd chain)"
    "SameKeyPair P sk (x_PublicKey (hd chain))" "HasDocumentSigningEKU (hd chain)"
  using assms by (auto simp: sign_checks_def ParseChainPEM_def Let_def split: if_splits sum.splits)

lemma core_signPDF_ok:
  assumes "core_signPDF L P G now pdf pkcs8 chainPEM o' = Returns d (Inr res)"
  obtains sk chain app claimed out where "sign_checks L P pdf pkcs8 chainPEM = Inr (sk, chain)"
    "\<exists>d. G_Write G pdf (request_for G sk chain o' app) = Returns d (Inr out)"
    "res = sign_result_of L pdf (hd chain) o' claimed out"
proof -
  obtain sk chain where c: "sign_checks L P pdf pkcs8 chainPEM = Inr (sk, chain)"
    using assms by (auto simp: core_signPDF_def split: sum.splits)
  obtain d0 where op: "L_pdf_Open L pdf = Returns d0 None"
    using assms c by (auto simp: core_signPDF_def Let_def split: run.splits option.splits)
  obtain app where app: "with_appearance L G (now 1) (hd chain) o' = Inr app"
    using assms c op by (auto simp: core_signPDF_def Let_def split: sum.splits)
  obtain e y where w: "G_Write G pdf (request_for G sk chain o' app) = Returns e y"
    and y: "Inr res = map_sum (Wrap ''signing: write signed PDF'') (sign_result_of L pdf (hd chain) o'
        (if IsZero (so_ClaimedSigningTime o') then now 0 else so_ClaimedSigningTime o')) y"
    using assms c op app by (auto simp: core_signPDF_def after_Returns map_run_Returns)
  from y obtain out where out: "y = Inr out" by (cases y) auto
  show ?thesis by (rule that [OF c]) (use w y out in auto)
qed

lemma SignPDF_ok:
  assumes "SignPDF L P G now pdf pkcs8 chainPEM o' = Some (Inr res)"
  obtains sk chain app claimed out where "sign_checks L P pdf pkcs8 chainPEM = Inr (sk, chain)"
    "\<exists>d. G_Write G pdf (request_for G sk chain o' app) = Returns d (Inr out)"
    "res = sign_result_of L pdf (hd chain) o' claimed out" "int (length pdf) \<le> MaxPDFBytes"
proof -
  obtain d where d: "core_signPDF L P G now pdf pkcs8 chainPEM o' = Returns d (Inr res)"
    using assms by (auto simp: SignPDF_def split: if_splits run.splits)
  have "int (length pdf) \<le> MaxPDFBytes" using assms by (auto simp: SignPDF_def split: if_splits)
  with core_signPDF_ok [OF d] that show ?thesis by metis
qed

lemma SignPDF_returns: "0 < so_Timeout o' \<Longrightarrow> SignPDF L P G now pdf pkcs8 chainPEM o' \<noteq> None"
  by (auto simp: SignPDF_def split: run.split)

text \<open>The public id travels in the contact field: what the signer writes is what a verifier reads.\<close>

lemma PublicID_of_contact:
  "pid \<noteq> [] \<Longrightarrow> so_PublicID o' = pid \<Longrightarrow> sr_Contact s = sq_Contact (request_for G sk chain o' app) \<Longrightarrow> PublicID s = pid"
  by (simp add: request_for_def PublicID_def)

end
