(* ===== verification/AppCore.thy ===== *)
theory AppCore
  imports Keystore ApiClient Signing
begin

section \<open>The desktop client (\<open>apps/windows/internal/appcore\<close>)\<close>

text \<open>
  The operations behind the pages of the desktop application. A machine is the disk and the network
  (with the client's address and token); an environment is everything one operation draws from the
  outside: libraries, faults of the file system, clock readings (numbered by call site) and the vault's
  directory. Every operation is a sequence of calls with its early returns; an error that the code
  drops is dropped by \<open>attempt\<close> or \<open>ignore\<close>.
\<close>

record 'w machine =
  m_disk :: disk
  m_net :: "'w net"

record 'w env =
  e_L :: lib
  e_P :: pki_lib
  e_K :: key_lib
  e_G :: sign_lib
  e_N :: "'w api_lib"
  e_F :: faults
  e_vault :: vault
  e_now :: "nat \<Rightarrow> time"
  e_hostname :: string
  e_sigs :: "bytes \<Rightarrow> pdf_signature list run"
  e_places :: "string \<Rightarrow> client_placement list result"

definition on_disk :: "(disk, 'a) act \<Rightarrow> ('w machine, 'a) act" where
  "on_disk m = within m_disk (\<lambda>d s. s\<lparr>m_disk := d\<rparr>) m"

definition on_net :: "('w net, 'a) act \<Rightarrow> ('w machine, 'a) act" where
  "on_net m = within m_net (\<lambda>n s. s\<lparr>m_net := n\<rparr>) m"

text \<open>\<open>s, _ := a.store.State()\<close>.\<close>

definition app_state :: "'w env \<Rightarrow> ('w machine, client_state) act" where
  "app_state E = on_disk (gets (\<lambda>d. fst (vault_State (e_K E) (e_F E) (e_vault E) d)))"

definition app_save :: "'w env \<Rightarrow> nat \<Rightarrow> client_state \<Rightarrow> ('w machine, unit) act" where
  "app_save E n st = on_disk (SaveState (e_K E) (e_F E) (e_now E n) (e_vault E) st)"

subsection \<open>Start, login, registration\<close>

definition app_New :: "key_lib \<Rightarrow> faults \<Rightarrow> (string \<Rightarrow> string) \<Rightarrow> string result \<Rightarrow> string \<Rightarrow> string \<Rightarrow> bool \<Rightarrow>
    (disk, vault \<times> client) act" where
  "app_New K F getenv userConfigDir vaultDir serverURL insecureTLS =
     andThen (Open F getenv userConfigDir vaultDir) (\<lambda>v.
     andThen (gets (\<lambda>d. fst (vault_State K F v d))) (\<lambda>s.
       ret (v, client_New (if serverURL = [] \<and> cs_ServerBaseURL s \<noteq> [] then cs_ServerBaseURL s else serverURL)
                 insecureTLS)))"

definition app_Login :: "'w env \<Rightarrow> string \<Rightarrow> string \<Rightarrow> ('w machine, unit) act" where
  "app_Login E email password =
     andThen (on_net (client_Login (e_N E) email password)) (\<lambda>u.
     andThen (app_state E) (\<lambda>s.
       app_save E 0 (s\<lparr>cs_AccountEmail := email\<rparr>)))"

text \<open>A request through a client of its own, without a token.\<close>

definition with_client :: "client \<Rightarrow> ('w net, 'a) act \<Rightarrow> ('w net, 'a) act" where
  "with_client c m s =
     (let (r, s') = m (s\<lparr>nt_client := c\<rparr>) in (r, s'\<lparr>nt_client := nt_client s\<rparr>))"

definition app_VerifyPublic :: "'w env \<Rightarrow> string \<Rightarrow> string \<Rightarrow> ('w machine, (string, json) gomap) act" where
  "app_VerifyPublic E serverURL path =
     andThen (on_disk (read_file (e_F E) path)) (\<lambda>pdf.
       on_net (with_client (client_New serverURL True) (client_VerifyPublic (e_N E) pdf)))"

definition SetServerURL :: "'w env \<Rightarrow> string \<Rightarrow> bool \<Rightarrow> ('w machine, unit) act" where
  "SetServerURL E u insecure =
     andThen (on_net (modifies (\<lambda>s. s\<lparr>nt_client := client_New u insecure\<rparr>))) (\<lambda>_.
     andThen (app_state E) (\<lambda>s.
       app_save E 0 (s\<lparr>cs_ServerBaseURL := u\<rparr>)))"

definition app_Register :: "'w env \<Rightarrow> string \<Rightarrow> string \<Rightarrow> string \<Rightarrow> string \<Rightarrow> string \<Rightarrow> string \<Rightarrow>
    ('w machine, register_result) act" where
  "app_Register E fullName org email password position nip =
     on_net (client_Register (e_N E) fullName org email password position nip)"

subsection \<open>Enrolment\<close>

record enroll_result =
  er_DeviceID :: string
  er_EnrollmentID :: string

definition deviceUnknownToServer :: "'w env \<Rightarrow> ('w machine, bool) act" where
  "deviceUnknownToServer E =
     andThen (app_state E) (\<lambda>s.
       if cs_DeviceID s = [] then ret True
       else andThen (attempt (on_net (client_DeviceCertificate (e_N E) (cs_DeviceID s)))) (\<lambda>r.
         ret (r = Inl ErrNotYetIssued)))"

definition wipeDeviceState :: "'w env \<Rightarrow> ('w machine, unit) act" where
  "wipeDeviceState E =
     andThen (ignore (on_disk (DeleteKey (e_F E) (e_vault E)))) (\<lambda>u.
     andThen (ignore (on_disk (SaveDeviceCertPEM (e_F E) (e_vault E) []))) (\<lambda>u.
     andThen (app_state E) (\<lambda>s.
       ignore (app_save E 0 (s\<lparr>cs_DeviceID := [], cs_EnrollmentID := [], cs_CertificateSN := []\<rparr>)))))"

text \<open>\<open>if root, err := a.api.PublicRootCA(); err == nil { _ = a.store.SaveRootPEM(root) }\<close>.\<close>

definition cache_from :: "('w net, bytes) act \<Rightarrow> (bytes \<Rightarrow> (disk, unit) act) \<Rightarrow> ('w machine, unit) act" where
  "cache_from fetch save =
     andThen (attempt (on_net fetch)) (\<lambda>r. case r of Inl e \<Rightarrow> ret () | Inr b \<Rightarrow> ignore (on_disk (save b)))"

definition create_device :: "'w env \<Rightarrow> string \<Rightarrow> ('w machine, string) act" where
  "create_device E label =
     andThen (attempt (on_net (client_CreateDevice (e_N E) label ''windows''))) (\<lambda>r.
       case r of
         Inl e \<Rightarrow> andThen (ignore (on_disk (DeleteKey (e_F E) (e_vault E)))) (\<lambda>u. fail e)
       | Inr deviceID \<Rightarrow> ret deviceID)"

definition enrollDevice :: "'w env \<Rightarrow> string \<Rightarrow> string \<Rightarrow> ('w machine, enroll_result) act" where
  "enrollDevice E label pin =
     andThen (lift (ofResult (GenerateMLDSA65Key (e_P E) 0))) (\<lambda>sk.
     andThen (lift (ofResult (MarshalPKCS8PEM (e_P E) (Some sk)))) (\<lambda>pkcs8.
     andThen (orFail (Wrap ''protect key'') (on_disk (SaveKey (e_K E) (e_F E) (e_now E 1) (e_vault E) pkcs8 pin))) (\<lambda>u.
     andThen (create_device E label) (\<lambda>deviceID.
     andThen (lift (ofResult (CreateDeviceCSR (e_L E) (e_P E) pkcs8
       \<lparr>rqs_CommonName = label, rqs_Organization = [], rqs_OrganizationalUnit = []\<rparr>))) (\<lambda>csrPEM.
     andThen (on_net (client_SubmitCSR (e_N E) deviceID csrPEM)) (\<lambda>enrID.
     andThen (cache_from (PublicRootCA (e_N E)) (SaveRootPEM (e_F E) (e_vault E))) (\<lambda>u.
     andThen (cache_from (PublicChain (e_N E)) (SaveChainPEM (e_F E) (e_vault E))) (\<lambda>u.
     andThen (app_state E) (\<lambda>s.
     andThen (app_save E 2 (s\<lparr>cs_DeviceID := deviceID, cs_EnrollmentID := enrID, cs_HasPIN := (pin \<noteq> [])\<rparr>)) (\<lambda>u.
       ret \<lparr>er_DeviceID = deviceID, er_EnrollmentID = enrID\<rparr>))))))))))"

definition RegisterDevice :: "'w env \<Rightarrow> string \<Rightarrow> string \<Rightarrow> ('w machine, enroll_result) act" where
  "RegisterDevice E label pin =
     andThen (on_disk (HasKey (e_vault E))) (\<lambda>has.
       if has then fail (Errorf ''a device key already exists; use Security settings to reset first'')
       else enrollDevice E label pin)"

subsection \<open>Certificate status\<close>

datatype cert_status = CertNone | CertPending | CertOk cert_info

definition fresh_certificate :: "'w env \<Rightarrow> string \<Rightarrow> bytes \<Rightarrow> ('w machine, cert_info) act" where
  "fresh_certificate E pin pem =
     andThen (orFail (Wrap ''server returned an unusable certificate'')
       (lift (ofResult (ParseAndValidateCertificate (e_L E) pem (e_now E 4))))) (\<lambda>(cert, info).
     andThen (on_disk (LoadKey (e_K E) (e_F E) (e_vault E) pin)) (\<lambda>keyPEM.
     andThen (lift (ofResult (ParsePKCS8 (e_L E) (e_P E) keyPEM))) (\<lambda>sk.
       if \<not> SameKeyPair (e_P E) sk (x_PublicKey cert) then
         fail (Errorf (''issued certificate does not match the on-device key '' @ [CHR 0xE2, CHR 0x80, CHR 0x94] @ '' rejecting''))
       else andThen (on_disk (SaveDeviceCertPEM (e_F E) (e_vault E) pem)) (\<lambda>u. ret info))))"

definition poll_certificate :: "'w env \<Rightarrow> string \<Rightarrow> ('w machine, cert_status) act" where
  "poll_certificate E pin =
     andThen (app_state E) (\<lambda>s.
       if cs_DeviceID s = [] then ret CertPending
       else andThen (attempt (on_net (client_DeviceCertificate (e_N E) (cs_DeviceID s)))) (\<lambda>r.
         case r of
           Inl e \<Rightarrow> if e = ErrNotYetIssued then ret CertPending else fail e
         | Inr pem \<Rightarrow>
             andThen (fresh_certificate E pin pem) (\<lambda>info.
             andThen (ignore (app_save E 5 (s\<lparr>cs_CertificateSN := ci_SerialNumber info\<rparr>))) (\<lambda>u.
               ret (CertOk info)))))"

definition cached_certificate :: "'w env \<Rightarrow> ('w machine, cert_info option) act" where
  "cached_certificate E =
     andThen (attempt (on_disk (DeviceCertPEM (e_F E) (e_vault E)))) (\<lambda>r.
       ret (case r of
              Inl e \<Rightarrow> None
            | Inr pem \<Rightarrow> (case ParseAndValidateCertificate (e_L E) pem (e_now E 3) of
                            Inl e \<Rightarrow> None | Inr (cert, info) \<Rightarrow> Some info)))"

definition CertificateStatus :: "'w env \<Rightarrow> string \<Rightarrow> ('w machine, cert_status) act" where
  "CertificateStatus E pin =
     andThen (on_disk (HasKey (e_vault E))) (\<lambda>has.
       if \<not> has then ret CertNone
       else andThen (cached_certificate E) (\<lambda>c.
         case c of Some info \<Rightarrow> ret (CertOk info) | None \<Rightarrow> poll_certificate E pin))"

definition EnsureEnrolled :: "'w env \<Rightarrow> string \<Rightarrow> ('w machine, cert_status) act" where
  "EnsureEnrolled E pin =
     andThen (on_disk (HasKey (e_vault E))) (\<lambda>has.
     andThen (if has then deviceUnknownToServer E else ret True) (\<lambda>enrol.
     andThen (if enrol then
         andThen (wipeDeviceState E) (\<lambda>u.
         andThen (enrollDevice E (if e_hostname E = [] then ''Windows'' else ''Windows '' @ e_hostname E) pin) (\<lambda>r.
           ret ()))
       else ret ()) (\<lambda>u.
       CertificateStatus E pin)))"

subsection \<open>Signing a document\<close>

record sign_outcome =
  sg_OutputPath :: string
  sg_PublicID :: string
  sg_VerificationURL :: string
  sg_OriginalSHA512 :: string
  sg_SignedSHA512 :: string
  sg_ServerStatus :: string

abbreviation localVerifyMaxBytes :: int where "localVerifyMaxBytes \<equiv> 209715200"

definition firstErr :: "vresult result \<Rightarrow> string" where
  "firstErr r =
     (case r of
        Inl e \<Rightarrow> Error e
      | Inr vr \<Rightarrow> (case vr_Signatures vr of
                     sig # sigs \<Rightarrow> (case sr_Errors sig of m # ms \<Rightarrow> m | [] \<Rightarrow> ''invalid'')
                   | [] \<Rightarrow> ''invalid''))"

definition stored_text :: string where
  "stored_text = ''tersimpan '' @ [CHR 0xE2, CHR 0x80, CHR 0x94] @
     '' TIDAK diverifikasi server (berkas besar); verifikasi manual lewat halaman verifikasi''"

definition server_status :: "(string, json) gomap result \<Rightarrow> string" where
  "server_status sub =
     (case sub of
        Inl e \<Rightarrow> ''local-only (upload failed: '' @ Error e @ '')''
      | Inr m \<Rightarrow> (case map_of m ''status'' of
                    Some (JStr v) \<Rightarrow> if v = ''stored_unverified'' then stored_text else v
                  | _ \<Rightarrow> ''submitted''))"

definition already_signed :: error where
  "already_signed = Errorf (''dokumen ini sudah memiliki tanda tangan digital '' @ [CHR 0xE2, CHR 0x80, CHR 0x94] @
     '' satu dokumen hanya boleh ditandatangani sekali; pilih PDF yang belum ditandatangani'')"

definition local_options :: "bytes \<Rightarrow> bytes \<Rightarrow> voptions" where
  "local_options rootPEM chainPEM = \<lparr>vo_RootPEM = rootPEM, vo_IntermediatePEM = chainPEM, vo_CRLPEM = [],
     vo_RequireMLDSAOnly = True, vo_At = zero_time, vo_AllowExternalRevocation = False, vo_Timeout = 20 * second\<rparr>"

text \<open>The document that will be signed: stamped by the server, or as it is when that is refused for its
  size.\<close>

definition stamped :: "'w env \<Rightarrow> string \<Rightarrow> bytes \<Rightarrow> client_placement list \<Rightarrow> string \<Rightarrow> string \<Rightarrow> ('w machine, bytes) act" where
  "stamped E publicID pdf places reason issuedPlace =
     andThen (attempt (on_net (client_Stamp (e_N E) publicID pdf places reason issuedPlace))) (\<lambda>r.
       case r of
         Inr b \<Rightarrow> ret b
       | Inl e \<Rightarrow> if IsTooLarge e then ret pdf else fail (Wrap ''penempelan QR'' e))"

definition client_sign_options :: "string \<Rightarrow> string \<Rightarrow> client_reservation \<Rightarrow> sign_options" where
  "client_sign_options reason signerName res = \<lparr>so_Reason = reason, so_Location = [], so_SignerName = signerName,
     so_PublicID = cr_PublicID res, so_VerificationURL = cr_VerificationURL res, so_IncludeQR = False, so_Page = 0,
     so_X = 0, so_Y = 0, so_ClaimedSigningTime = zero_time, so_ClaimedZone = 0, so_Timeout = 20 * second\<rparr>"

text \<open>Signing and the verification before the upload; nothing is sent.\<close>

definition check_local :: "'w env \<Rightarrow> bytes \<Rightarrow> bytes \<Rightarrow> bytes \<Rightarrow> ('w machine, unit) act" where
  "check_local E rootPEM chainPEM out =
     (if int (length out) \<le> localVerifyMaxBytes then
        andThen (lift (ofReturn (VerifyPDF (e_L E) (e_now E 8) out (local_options rootPEM chainPEM)))) (\<lambda>r.
          if (case r of Inl e \<Rightarrow> False | Inr vr \<Rightarrow> vr_Valid vr) then ret ()
          else fail (Errorf (''local verification failed; not uploading: '' @ firstErr r)))
      else ret ())"

definition sign_locally :: "'w env \<Rightarrow> string \<Rightarrow> bytes \<Rightarrow> bytes \<Rightarrow> bytes \<Rightarrow> bytes \<Rightarrow> sign_options \<Rightarrow> ('w machine, sign_result) act" where
  "sign_locally E pin toSign fullChain rootPEM chainPEM opts =
     andThen (on_disk (LoadKey (e_K E) (e_F E) (e_vault E) pin)) (\<lambda>keyPEM.
     andThen (lift (ofReturn (SignPDF (e_L E) (e_P E) (e_G E) (\<lambda>n. e_now E (6 + n)) toSign keyPEM fullChain opts))) (\<lambda>r.
     andThen (orFail (Wrap ''sign'') (lift (ofResult r))) (\<lambda>out.
     andThen (check_local E rootPEM chainPEM (sn_SignedPDF out)) (\<lambda>u.
       ret out))))"

text \<open>What the signing of a document reads from the vault before it talks to the server.\<close>

definition cached_pems :: "'w env \<Rightarrow> ('w machine, bytes \<times> bytes \<times> bytes) act" where
  "cached_pems E =
     andThen (orFail (\<lambda>e. Errorf ''no CA chain cached; register the device first'')
       (on_disk (vault_ChainPEM (e_F E) (e_vault E)))) (\<lambda>chainPEM.
     andThen (orFail (\<lambda>e. Errorf ''no device certificate yet; check Certificate status'')
       (on_disk (DeviceCertPEM (e_F E) (e_vault E)))) (\<lambda>devCertPEM.
     andThen (orFail (\<lambda>e. Errorf ''no Root CA cached'') (on_disk (RootPEM (e_F E) (e_vault E)))) (\<lambda>rootPEM.
       ret (chainPEM, devCertPEM, rootPEM))))"

text \<open>From the reservation to the answer of the server.\<close>

definition sign_and_submit :: "'w env \<Rightarrow> string \<Rightarrow> string \<Rightarrow> string \<Rightarrow> string \<Rightarrow> string \<Rightarrow> client_placement list \<Rightarrow> string \<Rightarrow>
    bytes \<Rightarrow> bytes \<Rightarrow> bytes \<Rightarrow> bytes \<Rightarrow> ('w machine, sign_outcome) act" where
  "sign_and_submit E inPath outPath0 reason signerName pin places issuedPlace pdf chainPEM devCertPEM rootPEM =
     andThen (app_state E) (\<lambda>s.
     let origHash = CalculateSHA512 (e_L E) pdf in
     andThen (orFail (Wrap ''reserve'') (on_net (client_Reserve (e_N E) (cs_DeviceID s) origHash (Base inPath)))) (\<lambda>res.
     andThen (stamped E (cr_PublicID res) pdf places reason issuedPlace) (\<lambda>toSign.
     andThen (sign_locally E pin toSign (devCertPEM @ chainPEM) rootPEM chainPEM
                (client_sign_options reason signerName res)) (\<lambda>out.
     let outPath = (if outPath0 = [] then TrimSuffix inPath ''.pdf'' @ ''.signed.pdf'' else outPath0) in
     andThen (on_disk (syscall (WriteFile (e_F E) outPath (sn_SignedPDF out)))) (\<lambda>u.
     andThen (attempt (on_net (client_SubmitDocument (e_N E) (cr_PublicID res) (sn_SignedPDF out)))) (\<lambda>sub.
       ret \<lparr>sg_OutputPath = outPath, sg_PublicID = cr_PublicID res, sg_VerificationURL = cr_VerificationURL res,
            sg_OriginalSHA512 = origHash, sg_SignedSHA512 = sn_SignedSHA512 out,
            sg_ServerStatus = server_status sub\<rparr>))))))"

definition app_signPDF :: "'w env \<Rightarrow> string \<Rightarrow> string \<Rightarrow> string \<Rightarrow> string \<Rightarrow> string \<Rightarrow> client_placement list \<Rightarrow> string \<Rightarrow>
    ('w machine, sign_outcome) act" where
  "app_signPDF E inPath outPath0 reason signerName pin places issuedPlace =
     andThen (on_disk (read_file (e_F E) inPath)) (\<lambda>pdf.
     andThen (lift (ofReturn (ListPDFSignatures (e_L E) (e_sigs E) pdf))) (\<lambda>sigs.
       if (case sigs of Inl e \<Rightarrow> False | Inr cs \<Rightarrow> cs \<noteq> []) then fail already_signed
       else andThen (cached_pems E) (\<lambda>(chainPEM, devCertPEM, rootPEM).
         sign_and_submit E inPath outPath0 reason signerName pin places issuedPlace pdf chainPEM devCertPEM rootPEM)))"

definition app_SignPDF :: "'w env \<Rightarrow> string \<Rightarrow> string \<Rightarrow> string \<Rightarrow> string \<Rightarrow> string \<Rightarrow> string \<Rightarrow> string \<Rightarrow>
    ('w machine, sign_outcome) act" where
  "app_SignPDF E inPath outPath reason signerName pin placementsJSON issuedPlace =
     (let s = TrimSpace placementsJSON;
          default = [\<lparr>pl_Page = 0, pl_X = fl_lit (L_stamp (e_L E)) ''0.62'', pl_Y = fl_lit (L_stamp (e_L E)) ''0.80'',
                      pl_W = fl_lit (L_stamp (e_L E)) ''0.30''\<rparr>]
      in andThen (if s \<noteq> [] \<and> s \<noteq> ''[]'' then
                    orFail (Wrap ''placement tidak valid'') (lift (ofResult (e_places E s)))
                  else ret []) (\<lambda>places.
           app_signPDF E inPath outPath reason signerName pin (if places = [] then default else places) issuedPlace))"

text \<open>\<open>base64.StdEncoding\<close> pads with equals signs.\<close>

definition StdEncoding :: "bytes \<Rightarrow> string" where
  "StdEncoding b = (let s = b64_encode std_alphabet b in s @ replicate ((4 - length s mod 4) mod 4) (CHR ''=''))"

definition PdfBytesB64 :: "'w env \<Rightarrow> string \<Rightarrow> ('w machine, string) act" where
  "PdfBytesB64 E path = andThen (on_disk (read_file (e_F E) path)) (\<lambda>b. ret (StdEncoding b))"

subsection \<open>Verification, history, security settings\<close>

definition app_VerifyPDF :: "'w env \<Rightarrow> string \<Rightarrow> ('w machine, vresult) act" where
  "app_VerifyPDF E path =
     andThen (on_disk (read_file (e_F E) path)) (\<lambda>pdf.
     andThen (orFail (\<lambda>e. Errorf ''no Root CA cached; register the device or import the Root CA first'')
       (on_disk (RootPEM (e_F E) (e_vault E)))) (\<lambda>rootPEM.
     andThen (attempt (on_disk (vault_ChainPEM (e_F E) (e_vault E)))) (\<lambda>chain.
     andThen (attempt (on_net (PublicCRL (e_N E)))) (\<lambda>crl.
     andThen (lift (ofReturn (VerifyPDF (e_L E) (e_now E 0) pdf
       ((local_options rootPEM (case chain of Inl e \<Rightarrow> [] | Inr c \<Rightarrow> c))\<lparr>vo_CRLPEM := (case crl of Inl e \<Rightarrow> [] | Inr b \<Rightarrow> b)\<rparr>)))) (\<lambda>r.
       lift (ofResult r))))))"

definition app_History :: "'w env \<Rightarrow> ('w machine, (string, json) gomap list) act" where
  "app_History E = on_net (client_MySignatures (e_N E))"

definition SetPIN :: "'w env \<Rightarrow> string \<Rightarrow> string \<Rightarrow> ('w machine, unit) act" where
  "SetPIN E oldPIN newPIN =
     andThen (orFail (Wrap ''current PIN/DPAPI check failed'') (on_disk (LoadKey (e_K E) (e_F E) (e_vault E) oldPIN))) (\<lambda>keyPEM.
     andThen (on_disk (SaveKey (e_K E) (e_F E) (e_now E 0) (e_vault E) keyPEM newPIN)) (\<lambda>u.
     andThen (app_state E) (\<lambda>s.
       app_save E 1 (s\<lparr>cs_HasPIN := (newPIN \<noteq> [])\<rparr>))))"

definition app_ReportLost :: "'w env \<Rightarrow> ('w machine, unit) act" where
  "app_ReportLost E =
     andThen (app_state E) (\<lambda>s.
       if cs_DeviceID s = [] then fail (Errorf ''no device id on record'')
       else on_net (client_ReportLost (e_N E) (cs_DeviceID s)))"

definition app_Reset :: "'w env \<Rightarrow> ('w machine, unit) act" where
  "app_Reset E = on_disk (vault_Reset (e_F E) (e_vault E))"

end
