(* ===== verification/AppProps.thy ===== *)
theory AppProps
  imports AppCore
begin

section \<open>What the desktop client guarantees\<close>

text \<open>
  The private key survives a change of the PIN whatever fails; the certificate that is taken over
  belongs to the key of the device; a signed document is the one that was verified, written and sent.
  The first lemmas say which part of the machine an operation touches.
\<close>

lemma m_disk_simps [simp]:
  "m_disk (s\<lparr>m_net := n\<rparr>) = m_disk s" "m_net (s\<lparr>m_disk := d\<rparr>) = m_net s"
  by simp_all

lemma on_disk_run: "m (m_disk s) = (r, d) \<Longrightarrow> on_disk m s = (r, s\<lparr>m_disk := d\<rparr>)"
  by (simp add: on_disk_def within_def)

lemma on_disk_iff: "on_disk m s = (Done x, s') \<longleftrightarrow> (\<exists>d. m (m_disk s) = (Done x, d) \<and> s' = s\<lparr>m_disk := d\<rparr>)"
  by (simp add: on_disk_def within_Done_iff)

lemma on_net_iff: "on_net m s = (Done x, s') \<longleftrightarrow> (\<exists>n. m (m_net s) = (Done x, n) \<and> s' = s\<lparr>m_net := n\<rparr>)"
  by (simp add: on_net_def within_Done_iff)

lemma on_disk_keeps_net: "moves (same m_net) (on_disk m)"
  by (simp add: moves_def same_def on_disk_def within_def split: prod.split)

lemma on_net_keeps_disk: "moves (same m_disk) (on_net m)"
  by (simp add: moves_def same_def on_net_def within_def split: prod.split)

lemma on_disk_keeps_file:
  "moves (same (vault_file v rel)) m \<Longrightarrow> moves (same (\<lambda>s. vault_file v rel (m_disk s))) (on_disk m)"
  unfolding on_disk_def by (rule moves_within) (simp_all add: same_def)

lemma on_net_keeps_file: "moves (same (\<lambda>s. vault_file v rel (m_disk s))) (on_net m)"
  by (simp add: moves_def same_def on_net_def within_def split: prod.split)

lemma app_state_run: "app_state E s = (Done (fst (vault_State (e_K E) (e_F E) (e_vault E) (m_disk s))), s)"
  by (simp add: app_state_def on_disk_def within_def gets_def)

text \<open>The key file at a machine.\<close>

abbreviation key_in :: "'w env \<Rightarrow> 'w machine \<Rightarrow> bytes option" where
  "key_in E s \<equiv> vault_file (e_vault E) keyFile (m_disk s)"

abbreviation loads :: "'w env \<Rightarrow> string \<Rightarrow> 'w machine \<Rightarrow> bytes \<Rightarrow> bool" where
  "loads E pin s k \<equiv> LoadKey (e_K E) (e_F E) (e_vault E) pin (m_disk s) = (Done k, m_disk s)"

lemma app_save_keeps:
  "vault_rel rel \<Longrightarrow> rel \<noteq> stateFile \<Longrightarrow> moves (same (\<lambda>s. vault_file (e_vault E) rel (m_disk s))) (app_save E n st)"
  unfolding app_save_def by (intro on_disk_keeps_file saves_keep) auto

lemma app_state_keeps: "moves (same f) (app_state E)"
  by (simp add: moves_def same_def app_state_run)

lemma loads_cong: "key_in E s' = key_in E s \<Longrightarrow> loads E pin s k \<Longrightarrow> loads E pin s' k"
  by (auto simp: LoadKey_Done_iff)

subsection \<open>Changing the PIN\<close>

text \<open>The part after the old key was opened.\<close>

lemma SetPIN_run:
  assumes "loads E old s k" "SetPIN E old new s = (r, s')"
  obtains s1 q where "on_disk (SaveKey (e_K E) (e_F E) (e_now E 0) (e_vault E) k new) s = (q, s1)"
    "q \<noteq> Done () \<and> r = q \<and> s' = s1 \<or> q = Done () \<and> key_in E s' = key_in E s1 \<and> m_net s' = m_net s1 \<and>
       (\<forall>rel. vault_rel rel \<longrightarrow> rel \<noteq> stateFile \<longrightarrow>
          vault_file (e_vault E) rel (m_disk s') = vault_file (e_vault E) rel (m_disk s1))"
proof -
  have l: "orFail g (on_disk (LoadKey (e_K E) (e_F E) (e_vault E) old)) s = (Done k, s)" for g
    using assms(1) by (simp add: orFail_Done_iff on_disk_iff)
  obtain q s1 where sv: "on_disk (SaveKey (e_K E) (e_F E) (e_now E 0) (e_vault E) k new) s = (q, s1)" by fastforce
  define rest where "rest = andThen (app_state E) (\<lambda>st. app_save E 1 (st\<lparr>cs_HasPIN := (new \<noteq> [])\<rparr>))"
  have run: "(r, s') = on_done (\<lambda>u. rest) (q, s1)"
    using assms(2) l sv by (simp add: SetPIN_def rest_def andThen_def)
  have keep: "moves (same (\<lambda>s. vault_file (e_vault E) rel (m_disk s))) rest" if "vault_rel rel" "rel \<noteq> stateFile" for rel
    unfolding rest_def by (intro same.moves_andThen app_state_keeps app_save_keeps that)
  have net: "moves (same m_net) rest"
    unfolding rest_def app_save_def by (intro same.moves_andThen app_state_keeps on_disk_keeps_net)
  show ?thesis
  proof (rule that [OF sv])
    show "q \<noteq> Done () \<and> r = q \<and> s' = s1 \<or> q = Done () \<and> key_in E s' = key_in E s1 \<and> m_net s' = m_net s1 \<and>
       (\<forall>rel. vault_rel rel \<longrightarrow> rel \<noteq> stateFile \<longrightarrow>
          vault_file (e_vault E) rel (m_disk s') = vault_file (e_vault E) rel (m_disk s1))"
    proof (cases "q = Done ()")
      case True
      then have r: "rest s1 = (r, s')" using run by simp
      show ?thesis
        using True movesD [OF keep r] movesD [OF net r] by (simp add: same_def)
    next
      case False
      then show ?thesis using run by (cases q) auto
    qed
  qed
qed

lemma SetPIN_keeps:
  assumes laws: "key_laws (e_K E)" "json_time (e_now E 0)" and old: "loads E old s k"
    and run: "SetPIN E old new s = (r, s')"
  shows "loads E old s' k \<or> loads E new s' k" "r = Done () \<Longrightarrow> loads E new s' k" "m_net s' = m_net s"
    "vault_rel rel \<Longrightarrow> rel \<noteq> keyFile \<Longrightarrow> rel \<noteq> stateFile \<Longrightarrow>
       vault_file (e_vault E) rel (m_disk s') = vault_file (e_vault E) rel (m_disk s)"
proof -
  have rd: "fa_read (e_F E) (vault_path (e_vault E) keyFile) = None" using old by (simp add: LoadKey_Done_iff)
  obtain s1 q where sv: "on_disk (SaveKey (e_K E) (e_F E) (e_now E 0) (e_vault E) k new) s = (q, s1)"
    and rest: "q \<noteq> Done () \<and> r = q \<and> s' = s1 \<or> q = Done () \<and> key_in E s' = key_in E s1 \<and> m_net s' = m_net s1 \<and>
       (\<forall>rel. vault_rel rel \<longrightarrow> rel \<noteq> stateFile \<longrightarrow>
          vault_file (e_vault E) rel (m_disk s') = vault_file (e_vault E) rel (m_disk s1))"
    using SetPIN_run [OF old run] by blast
  obtain d1 where d1: "SaveKey (e_K E) (e_F E) (e_now E 0) (e_vault E) k new (m_disk s) = (q, d1)" "s1 = s\<lparr>m_disk := d1\<rparr>"
    using sv by (auto simp: on_disk_def within_def split: prod.splits)
  have new: "loads E new s1 k" if "q = Done ()"
    using saved_key_loads [OF laws rd] d1 that by simp
  have same_key: "key_in E s1 = key_in E s" if "q \<noteq> Done ()"
    using SaveKey_cases(1) [OF d1(1)] d1(2) that by auto
  show "loads E old s' k \<or> loads E new s' k"
    using rest new same_key old by (auto intro: loads_cong)
  show "r = Done () \<Longrightarrow> loads E new s' k" using rest new by (auto intro: loads_cong)
  show "m_net s' = m_net s" using rest d1(2) by auto
  show "vault_rel rel \<Longrightarrow> rel \<noteq> keyFile \<Longrightarrow> rel \<noteq> stateFile \<Longrightarrow>
       vault_file (e_vault E) rel (m_disk s') = vault_file (e_vault E) rel (m_disk s)"
    using rest SaveKey_cases(2) [OF d1(1)] d1(2) by auto
qed

subsection \<open>The certificate that is taken over\<close>

lemma read_file_same: "read_file F p d = (r, d') \<Longrightarrow> d' = d"
  by (simp add: read_file_def)

lemma HasKey_run: "on_disk (HasKey v) s = (Done (Stat (m_disk s) (vault_path v keyFile)), s)"
  by (simp add: on_disk_def within_def HasKey_def gets_def)

lemma cached_certificate_iff:
  "cached_certificate E s = (Done c, s') \<longleftrightarrow> s' = s \<and>
     c = (case ReadFile (e_F E) (m_disk s) (vault_path (e_vault E) deviceCert) of
            Inl e \<Rightarrow> None
          | Inr pem \<Rightarrow> (case ParseAndValidateCertificate (e_L E) pem (e_now E 3) of
                          Inl e \<Rightarrow> None | Inr (cert, info) \<Rightarrow> Some info))"
proof -
  have m: "s\<lparr>m_disk := m_disk s\<rparr> = s" by simp
  show ?thesis
    by (cases "ReadFile (e_F E) (m_disk s) (vault_path (e_vault E) deviceCert)")
       (auto simp: cached_certificate_def DeviceCertPEM_def andThen_def attempt_def on_disk_def within_def
          read_file_def act_defs m)
qed

lemma fresh_certificate_Done:
  assumes "fresh_certificate E pin pem s = (Done info, s')"
  obtains cert key sk where "ParseAndValidateCertificate (e_L E) pem (e_now E 4) = Inr (cert, info)"
    "loads E pin s key" "ParsePKCS8 (e_L E) (e_P E) key = Inr sk" "SameKeyPair (e_P E) sk (x_PublicKey cert)"
    "vault_file (e_vault E) deviceCert (m_disk s') = Some pem" "key_in E s' = key_in E s"
proof -
  obtain cert key sk where c: "ParseAndValidateCertificate (e_L E) pem (e_now E 4) = Inr (cert, info)"
    and k: "loads E pin s key" and sk: "ParsePKCS8 (e_L E) (e_P E) key = Inr sk"
    and same: "SameKeyPair (e_P E) sk (x_PublicKey cert)"
    and sv: "on_disk (SaveDeviceCertPEM (e_F E) (e_vault E) pem) s = (Done (), s')"
    using assms
    by (auto simp: fresh_certificate_def act_iffs on_disk_iff LoadKey_Done_iff ofResult_Done_iff
        split: if_splits prod.splits)
  obtain d where d: "writeFile (e_F E) (vault_path (e_vault E) deviceCert) pem (m_disk s) = (Done (), d)" "s' = s\<lparr>m_disk := d\<rparr>"
    using sv by (auto simp: on_disk_iff SaveDeviceCertPEM_def)
  show ?thesis
    by (rule that [OF c k sk same]) (use write_vault(3) [OF _ d(1)] d(2) in simp_all)
qed

lemma ignore_save_keeps:
  "vault_rel rel \<Longrightarrow> rel \<noteq> stateFile \<Longrightarrow> moves (same (\<lambda>s. vault_file (e_vault E) rel (m_disk s))) (ignore (app_save E n st))"
  by (intro same.moves_ignore app_save_keeps)

lemma poll_certificate_ok:
  assumes "poll_certificate E pin s = (Done (CertOk info), s')"
  shows "\<exists>pem cert key sk. vault_file (e_vault E) deviceCert (m_disk s') = Some pem \<and>
    ParseAndValidateCertificate (e_L E) pem (e_now E 4) = Inr (cert, info) \<and> loads E pin s' key \<and>
    ParsePKCS8 (e_L E) (e_P E) key = Inr sk \<and> SameKeyPair (e_P E) sk (x_PublicKey cert)"
proof -
  obtain pem st s1 s2 where f: "fresh_certificate E pin pem s1 = (Done info, s2)"
    and sv: "ignore (app_save E 5 (st\<lparr>cs_CertificateSN := ci_SerialNumber info\<rparr>)) s2 = (Done (), s')"
  proof -
    let ?st = "fst (vault_State (e_K E) (e_F E) (e_vault E) (m_disk s))"
    obtain r s1 where r: "attempt (on_net (client_DeviceCertificate (e_N E) (cs_DeviceID ?st))) s = (Done r, s1)"
      and rest: "(case r of Inl e \<Rightarrow> if e = ErrNotYetIssued then ret CertPending else fail e
        | Inr pem \<Rightarrow> andThen (fresh_certificate E pin pem) (\<lambda>info.
             andThen (ignore (app_save E 5 (?st\<lparr>cs_CertificateSN := ci_SerialNumber info\<rparr>))) (\<lambda>u.
               ret (CertOk info)))) s1 = (Done (CertOk info), s')"
      using assms
      by (auto simp: poll_certificate_def andThen_Done_iff app_state_run ret_Done_iff split: if_splits)
    from rest that show ?thesis
      by (cases r) (auto simp: andThen_Done_iff ret_Done_iff split: if_splits)
  qed
  obtain cert key sk where c: "ParseAndValidateCertificate (e_L E) pem (e_now E 4) = Inr (cert, info)"
    "loads E pin s1 key" "ParsePKCS8 (e_L E) (e_P E) key = Inr sk" "SameKeyPair (e_P E) sk (x_PublicKey cert)"
    "vault_file (e_vault E) deviceCert (m_disk s2) = Some pem" "key_in E s2 = key_in E s1"
    using f by (rule fresh_certificate_Done)
  have "vault_file (e_vault E) rel (m_disk s') = vault_file (e_vault E) rel (m_disk s2)" if "vault_rel rel" "rel \<noteq> stateFile" for rel
    using movesD [OF ignore_save_keeps [OF that] sv] by (simp add: same_def)
  then have "vault_file (e_vault E) deviceCert (m_disk s') = Some pem" "key_in E s' = key_in E s1"
    using c(5,6) by simp_all
  then show ?thesis using c loads_cong by blast
qed

lemma CertificateStatus_ok:
  assumes "CertificateStatus E pin s = (Done (CertOk info), s')"
  shows "(\<exists>pem cert. vault_file (e_vault E) deviceCert (m_disk s) = Some pem \<and>
      ParseAndValidateCertificate (e_L E) pem (e_now E 3) = Inr (cert, info) \<and> s' = s) \<or>
    (\<exists>pem cert key sk. vault_file (e_vault E) deviceCert (m_disk s') = Some pem \<and>
      ParseAndValidateCertificate (e_L E) pem (e_now E 4) = Inr (cert, info) \<and> loads E pin s' key \<and>
      ParsePKCS8 (e_L E) (e_P E) key = Inr sk \<and> SameKeyPair (e_P E) sk (x_PublicKey cert))"
proof -
  have "ReadFile (e_F E) (m_disk s) (vault_path (e_vault E) deviceCert) = Inr pem \<Longrightarrow>
      vault_file (e_vault E) deviceCert (m_disk s) = Some pem" for pem
    using read_vault [of deviceCert "e_F E" "e_vault E" "m_disk s" pem "m_disk s"] by (simp add: read_file_def)
  then show ?thesis
    using assms poll_certificate_ok [of E pin s info s']
    by (auto simp: CertificateStatus_def andThen_Done_iff HasKey_run cached_certificate_iff ret_Done_iff
        split: if_splits option.splits sum.splits prod.splits)
qed

subsection \<open>A signed document\<close>

lemma check_local_ok:
  "check_local E rootPEM chainPEM b s = (Done u, s') \<Longrightarrow> s' = s \<and> (int (length b) \<le> localVerifyMaxBytes \<longrightarrow>
     (\<exists>vr. VerifyPDF (e_L E) (e_now E 8) b (local_options rootPEM chainPEM) = Some (Inr vr) \<and> vr_Valid vr))"
  by (auto simp: check_local_def act_iffs ofReturn_def split: if_splits option.splits sum.splits)

lemma sign_locally_ok:
  assumes "sign_locally E pin toSign fullChain rootPEM chainPEM opts s = (Done res, s')"
  shows "s' = s" "\<exists>key. loads E pin s key \<and>
      SignPDF (e_L E) (e_P E) (e_G E) (\<lambda>n. e_now E (6 + n)) toSign key fullChain opts = Some (Inr res)"
    "int (length (sn_SignedPDF res)) \<le> localVerifyMaxBytes \<Longrightarrow>
      \<exists>vr. VerifyPDF (e_L E) (e_now E 8) (sn_SignedPDF res) (local_options rootPEM chainPEM) = Some (Inr vr) \<and> vr_Valid vr"
proof -
  obtain key s1 r where k: "on_disk (LoadKey (e_K E) (e_F E) (e_vault E) pin) s = (Done key, s1)"
    and sg: "SignPDF (e_L E) (e_P E) (e_G E) (\<lambda>n. e_now E (6 + n)) toSign key fullChain opts = Some r" "r = Inr res"
    and ck: "check_local E rootPEM chainPEM (sn_SignedPDF res) s1 = (Done (), s')"
    using assms by (auto simp: sign_locally_def act_iffs ofResult_Done_iff ofReturn_def split: option.splits)
  have s1: "s1 = s" "loads E pin s key" using k by (auto simp: on_disk_iff LoadKey_Done_iff)
  show "s' = s" using check_local_ok [OF ck] s1 by simp
  show "\<exists>key. loads E pin s key \<and>
      SignPDF (e_L E) (e_P E) (e_G E) (\<lambda>n. e_now E (6 + n)) toSign key fullChain opts = Some (Inr res)"
    using s1 sg by blast
  show "int (length (sn_SignedPDF res)) \<le> localVerifyMaxBytes \<Longrightarrow>
      \<exists>vr. VerifyPDF (e_L E) (e_now E 8) (sn_SignedPDF res) (local_options rootPEM chainPEM) = Some (Inr vr) \<and> vr_Valid vr"
    using check_local_ok [OF ck] by simp
qed

text \<open>A write of the disk shows at once, and nothing the client asks of the server changes the disk.\<close>

lemma on_disk_write:
  "on_disk (syscall (WriteFile F p b)) s = (Done u, s') \<longleftrightarrow>
     (\<exists>d. WriteFile F p b (m_disk s) = (None, d) \<and> s' = s\<lparr>m_disk := d\<rparr>)"
  by (auto simp: on_disk_iff syscall_Done_iff)

lemma attempt_net_disk: "attempt (on_net m) s = (Done r, s') \<Longrightarrow> m_disk s' = m_disk s"
  using movesD [OF same.moves_attempt [OF on_net_keeps_disk]] by (auto simp: same_def)

lemma cached_pems_iff:
  "cached_pems E s = (Done (c, d, r), s') \<Longrightarrow> s' = s \<and> vault_file (e_vault E) chainCert (m_disk s) = Some c \<and>
     vault_file (e_vault E) deviceCert (m_disk s) = Some d \<and> vault_file (e_vault E) rootCert (m_disk s) = Some r"
  by (auto simp: cached_pems_def act_iffs on_disk_iff vault_ChainPEM_def DeviceCertPEM_def RootPEM_def read_vault)

text \<open>The stages of a signature that went through.\<close>

lemma app_signPDF_stages:
  assumes "app_signPDF E inPath outPath0 reason signerName pin places issuedPlace s = (Done out, s')"
  obtains pdf sigs chainPEM devCertPEM rootPEM dev res toSign sn d sub s1 s2 outPath where
    "ReadFile (e_F E) (m_disk s) inPath = Inr pdf"
    "ListPDFSignatures (e_L E) (e_sigs E) pdf = Some sigs" "sigs \<noteq> Inr [] \<longrightarrow> (\<exists>e. sigs = Inl e)"
    "cached_pems E s = (Done (chainPEM, devCertPEM, rootPEM), s)"
    "on_net (client_Reserve (e_N E) dev (CalculateSHA512 (e_L E) pdf) (Base inPath)) s = (Done res, s1)"
    "stamped E (cr_PublicID res) pdf places reason issuedPlace s1 = (Done toSign, s2)"
    "sign_locally E pin toSign (devCertPEM @ chainPEM) rootPEM chainPEM (client_sign_options reason signerName res) s2 = (Done sn, s2)"
    "WriteFile (e_F E) outPath (sn_SignedPDF sn) (m_disk s2) = (None, d)"
    "attempt (on_net (client_SubmitDocument (e_N E) (cr_PublicID res) (sn_SignedPDF sn))) (s2\<lparr>m_disk := d\<rparr>) = (Done sub, s')"
    "out = \<lparr>sg_OutputPath = outPath, sg_PublicID = cr_PublicID res, sg_VerificationURL = cr_VerificationURL res,
       sg_OriginalSHA512 = CalculateSHA512 (e_L E) pdf, sg_SignedSHA512 = sn_SignedSHA512 sn,
       sg_ServerStatus = server_status sub\<rparr>"
proof -
  obtain pdf sigs chainPEM devCertPEM rootPEM s0 where pdf: "ReadFile (e_F E) (m_disk s) inPath = Inr pdf"
    and sigs: "ListPDFSignatures (e_L E) (e_sigs E) pdf = Some sigs" and none: "\<not> (case sigs of Inl e \<Rightarrow> False | Inr cs \<Rightarrow> cs \<noteq> [])"
    and pems0: "cached_pems E s = (Done (chainPEM, devCertPEM, rootPEM), s0)"
    and rest: "sign_and_submit E inPath outPath0 reason signerName pin places issuedPlace pdf chainPEM devCertPEM rootPEM s0
      = (Done out, s')"
    using assms
    by (auto simp: app_signPDF_def andThen_Done_iff on_disk_iff read_file_def ofResult_Done_iff lift_Done_iff ofReturn_def
        split: if_splits option.splits)
  from none have sg: "sigs \<noteq> Inr [] \<longrightarrow> (\<exists>e. sigs = Inl e)" by (cases sigs) auto
  have s0: "s0 = s" using pems0 cached_pems_iff by blast
  note pems = pems0 [unfolded s0]
  define st where "st = fst (vault_State (e_K E) (e_F E) (e_vault E) (m_disk s))"
  obtain res s1 toSign s2 sn s3 u s4 sub where
    res: "on_net (client_Reserve (e_N E) (cs_DeviceID st) (CalculateSHA512 (e_L E) pdf) (Base inPath)) s = (Done res, s1)"
    and stm: "stamped E (cr_PublicID res) pdf places reason issuedPlace s1 = (Done toSign, s2)"
    and loc: "sign_locally E pin toSign (devCertPEM @ chainPEM) rootPEM chainPEM (client_sign_options reason signerName res) s2 = (Done sn, s3)"
    and wr: "on_disk (syscall (WriteFile (e_F E) (if outPath0 = [] then TrimSuffix inPath ''.pdf'' @ ''.signed.pdf'' else outPath0)
        (sn_SignedPDF sn))) s3 = (Done u, s4)"
    and sub: "attempt (on_net (client_SubmitDocument (e_N E) (cr_PublicID res) (sn_SignedPDF sn))) s4 = (Done sub, s')"
    and out: "out = \<lparr>sg_OutputPath = if outPath0 = [] then TrimSuffix inPath ''.pdf'' @ ''.signed.pdf'' else outPath0,
       sg_PublicID = cr_PublicID res, sg_VerificationURL = cr_VerificationURL res,
       sg_OriginalSHA512 = CalculateSHA512 (e_L E) pdf, sg_SignedSHA512 = sn_SignedSHA512 sn,
       sg_ServerStatus = server_status sub\<rparr>"
    using rest unfolding s0 sign_and_submit_def Let_def andThen_Done_iff app_state_run orFail_Done_iff ret_Done_iff st_def
    by blast
  have s3: "s3 = s2" using sign_locally_ok(1) [OF loc] .
  obtain d where d: "WriteFile (e_F E) (if outPath0 = [] then TrimSuffix inPath ''.pdf'' @ ''.signed.pdf'' else outPath0)
      (sn_SignedPDF sn) (m_disk s2) = (None, d)" "s4 = s2\<lparr>m_disk := d\<rparr>"
    using wr s3 by (auto simp: on_disk_write)
  show ?thesis
    by (rule that [OF pdf sigs sg pems res stm loc [unfolded s3] d(1) sub [unfolded d(2)] out])
qed

lemma stamped_disk: "stamped E pid pdf places reason issuedPlace s = (Done b, s') \<Longrightarrow> m_disk s' = m_disk s"
proof -
  have "moves (same m_disk) (stamped E pid pdf places reason issuedPlace)"
    unfolding stamped_def
    by (intro same.moves_andThen same.moves_attempt on_net_keeps_disk) (auto intro: same.moves_pure split: sum.split)
  then show "stamped E pid pdf places reason issuedPlace s = (Done b, s') \<Longrightarrow> m_disk s' = m_disk s"
    using movesD by (fastforce simp: same_def)
qed

lemma signed_document:
  assumes "app_signPDF E inPath outPath0 reason signerName pin places issuedPlace s = (Done out, s')"
  shows "\<exists>pdf toSign key chain root inters sn opts. ReadFile (e_F E) (m_disk s) inPath = Inr pdf \<and>
    sg_OriginalSHA512 out = CalculateSHA512 (e_L E) pdf \<and> loads E pin s key \<and>
    SignPDF (e_L E) (e_P E) (e_G E) (\<lambda>n. e_now E (6 + n)) toSign key chain opts = Some (Inr sn) \<and>
    so_PublicID opts = sg_PublicID out \<and> sg_SignedSHA512 out = CalculateSHA512 (e_L E) (sn_SignedPDF sn) \<and>
    vault_file (e_vault E) rootCert (m_disk s) = Some root \<and>
    (int (length (sn_SignedPDF sn)) \<le> localVerifyMaxBytes \<longrightarrow>
       (\<exists>vr. VerifyPDF (e_L E) (e_now E 8) (sn_SignedPDF sn) (local_options root inters) = Some (Inr vr) \<and> vr_Valid vr)) \<and>
    m_disk s' = put_file (sg_OutputPath out) (sn_SignedPDF sn) (m_disk s) \<and>
    (\<exists>s1 sub. attempt (on_net (client_SubmitDocument (e_N E) (sg_PublicID out) (sn_SignedPDF sn))) s1 = (Done sub, s') \<and>
       sg_ServerStatus out = server_status sub)"
proof -
  obtain pdf sigs chainPEM devCertPEM rootPEM dev res toSign sn d sub s1 s2 outPath where
    pdf: "ReadFile (e_F E) (m_disk s) inPath = Inr pdf"
    and pems: "cached_pems E s = (Done (chainPEM, devCertPEM, rootPEM), s)"
    and res: "on_net (client_Reserve (e_N E) dev (CalculateSHA512 (e_L E) pdf) (Base inPath)) s = (Done res, s1)"
    and stm: "stamped E (cr_PublicID res) pdf places reason issuedPlace s1 = (Done toSign, s2)"
    and loc: "sign_locally E pin toSign (devCertPEM @ chainPEM) rootPEM chainPEM (client_sign_options reason signerName res) s2 = (Done sn, s2)"
    and wr: "WriteFile (e_F E) outPath (sn_SignedPDF sn) (m_disk s2) = (None, d)"
    and sub: "attempt (on_net (client_SubmitDocument (e_N E) (cr_PublicID res) (sn_SignedPDF sn))) (s2\<lparr>m_disk := d\<rparr>) = (Done sub, s')"
    and out: "out = \<lparr>sg_OutputPath = outPath, sg_PublicID = cr_PublicID res, sg_VerificationURL = cr_VerificationURL res,
       sg_OriginalSHA512 = CalculateSHA512 (e_L E) pdf, sg_SignedSHA512 = sn_SignedSHA512 sn,
       sg_ServerStatus = server_status sub\<rparr>"
    using assms by (rule app_signPDF_stages)
  have dk: "m_disk s2 = m_disk s"
    using stamped_disk [OF stm] movesD [OF on_net_keeps_disk res] by (simp add: same_def)
  obtain key where key: "loads E pin s2 key" and sp: "SignPDF (e_L E) (e_P E) (e_G E) (\<lambda>n. e_now E (6 + n)) toSign key
      (devCertPEM @ chainPEM) (client_sign_options reason signerName res) = Some (Inr sn)"
    using sign_locally_ok(2) [OF loc] by blast
  have d: "d = put_file outPath (sn_SignedPDF sn) (m_disk s)" using WriteFile_ok [OF wr] dk by simp
  have hash: "sn_SignedSHA512 sn = CalculateSHA512 (e_L E) (sn_SignedPDF sn)"
    using sp by (rule SignPDF_ok) (simp add: sign_result_of_def)
  have o: "sg_OutputPath out = outPath" "sg_PublicID out = cr_PublicID res" "sg_OriginalSHA512 out = CalculateSHA512 (e_L E) pdf"
    "sg_SignedSHA512 out = sn_SignedSHA512 sn" "sg_ServerStatus out = server_status sub" by (simp_all add: out)
  have "m_disk s' = put_file (sg_OutputPath out) (sn_SignedPDF sn) (m_disk s)"
    using attempt_net_disk [OF sub] d o(1) by simp
  moreover have "vault_file (e_vault E) rootCert (m_disk s) = Some rootPEM" using cached_pems_iff [OF pems] by blast
  moreover have "loads E pin s key" using key dk by simp
  moreover have "so_PublicID (client_sign_options reason signerName res) = sg_PublicID out"
    by (simp add: client_sign_options_def o(2))
  moreover have "\<exists>s1 sub. attempt (on_net (client_SubmitDocument (e_N E) (sg_PublicID out) (sn_SignedPDF sn))) s1 = (Done sub, s') \<and>
       sg_ServerStatus out = server_status sub" using sub o(2,5) by metis
  moreover have "sg_SignedSHA512 out = CalculateSHA512 (e_L E) (sn_SignedPDF sn)" using hash o(4) by simp
  ultimately show ?thesis using pdf o(3) sp sign_locally_ok(3) [OF loc] by blast
qed

subsection \<open>Enrolling again\<close>

abbreviation key_unchanged :: "'w env \<Rightarrow> 'w machine \<Rightarrow> 'w machine \<Rightarrow> bool" where
  "key_unchanged E \<equiv> same (\<lambda>s. vault_file (e_vault E) keyFile (m_disk s))"

lemma cache_from_keeps:
  "(\<And>b. moves (same (vault_file (e_vault E) keyFile)) (save b)) \<Longrightarrow> moves (key_unchanged E) (cache_from fetch save)"
  unfolding cache_from_def
  by (intro same.moves_andThen same.moves_attempt on_net_keeps_file)
     (auto split: sum.split intro: same.moves_pure same.moves_ignore on_disk_keeps_file)

lemma create_device_Done: "create_device E label s = (Done dev, s') \<Longrightarrow> m_disk s' = m_disk s"
proof -
  assume run: "create_device E label s = (Done dev, s')"
  obtain r s1 where r: "attempt (on_net (client_CreateDevice (e_N E) label ''windows'')) s = (Done r, s1)"
    and rest: "(case r of Inl e \<Rightarrow> andThen (ignore (on_disk (DeleteKey (e_F E) (e_vault E)))) (\<lambda>u. fail e)
       | Inr deviceID \<Rightarrow> ret deviceID) s1 = (Done dev, s')"
    using run by (auto simp: create_device_def andThen_Done_iff)
  show ?thesis using rest attempt_net_disk [OF r] by (cases r) (auto simp: andThen_Done_iff ret_Done_iff)
qed

lemma enrollDevice_key:
  assumes "enrollDevice E label pin s = (Done r, s')"
  obtains sk pkcs8 x where "GenerateMLDSA65Key (e_P E) 0 = Inr sk" "MarshalPKCS8PEM (e_P E) (Some sk) = Inr pkcs8"
    "Protect (e_K E) (e_now E 1) pkcs8 pin = Done x" "key_in E s' = Some x"
proof -
  define tailact where "tailact dev csr = andThen (on_net (client_SubmitCSR (e_N E) dev csr)) (\<lambda>enrID.
     andThen (cache_from (PublicRootCA (e_N E)) (SaveRootPEM (e_F E) (e_vault E))) (\<lambda>u.
     andThen (cache_from (PublicChain (e_N E)) (SaveChainPEM (e_F E) (e_vault E))) (\<lambda>u.
     andThen (app_state E) (\<lambda>s.
     andThen (app_save E 2 (s\<lparr>cs_DeviceID := dev, cs_EnrollmentID := enrID, cs_HasPIN := (pin \<noteq> [])\<rparr>)) (\<lambda>u.
       ret \<lparr>er_DeviceID = dev, er_EnrollmentID = enrID\<rparr>)))))" for dev csr
  obtain sk pkcs8 dev csr s1 s2 where k: "GenerateMLDSA65Key (e_P E) 0 = Inr sk"
      "MarshalPKCS8PEM (e_P E) (Some sk) = Inr pkcs8"
    and sv: "on_disk (SaveKey (e_K E) (e_F E) (e_now E 1) (e_vault E) pkcs8 pin) s = (Done (), s1)"
    and dev: "create_device E label s1 = (Done dev, s2)" and t: "tailact dev csr s2 = (Done r, s')"
    using assms
    by (auto simp: enrollDevice_def tailact_def [symmetric] andThen_Done_iff lift_Done_iff ofResult_Done_iff orFail_Done_iff)
  obtain d where d: "SaveKey (e_K E) (e_F E) (e_now E 1) (e_vault E) pkcs8 pin (m_disk s) = (Done (), d)" "s1 = s\<lparr>m_disk := d\<rparr>"
    using sv by (auto simp: on_disk_iff)
  obtain x where x: "Protect (e_K E) (e_now E 1) pkcs8 pin = Done x" "key_in E s1 = Some x"
    using SaveKey_cases(1) [OF d(1)] d(2) by auto
  have "moves (key_unchanged E) (tailact dev csr)"
    unfolding tailact_def
    by (intro same.moves_andThen on_net_keeps_file cache_from_keeps saves_keep app_state_keeps app_save_keeps same.moves_pure)
       auto
  then have "key_in E s' = Some x"
    using movesD t x(2) create_device_Done [OF dev] by (fastforce simp: same_def)
  with k x(1) show ?thesis by (rule that)
qed

lemma on_disk_looks: "(\<And>d. snd (m d) = d) \<Longrightarrow> moves (key_unchanged E) (on_disk m)"
  by (simp add: moves_def same_def on_disk_def within_def split: prod.split) (metis snd_conv)

lemma CertificateStatus_keeps_key: "moves (key_unchanged E) (CertificateStatus E pin)"
proof -
  have load: "moves (key_unchanged E) (on_disk (LoadKey (e_K E) (e_F E) (e_vault E) pin))"
    by (rule on_disk_looks) (auto simp: LoadKey_def andThen_def read_file_def lift_def ofResult_def split: sum.split)
  have fresh: "moves (key_unchanged E) (fresh_certificate E pin pem)" for pem
    unfolding fresh_certificate_def
    by (intro same.moves_andThen same.moves_orFail same.moves_pure load)
       (auto split: prod.split intro!: same.moves_andThen load same.moves_pure on_disk_keeps_file saves_keep)
  have poll: "moves (key_unchanged E) (poll_certificate E pin)"
    unfolding poll_certificate_def
    by (intro same.moves_andThen app_state_keeps)
       (auto split: sum.split intro!: same.moves_andThen same.moves_attempt on_net_keeps_file same.moves_pure fresh
          ignore_save_keeps)
  have cached: "moves (key_unchanged E) (cached_certificate E)"
    unfolding cached_certificate_def
    by (intro same.moves_andThen same.moves_attempt same.moves_pure on_disk_looks) (simp add: DeviceCertPEM_def read_file_def)
  show ?thesis
    unfolding CertificateStatus_def
    by (intro same.moves_andThen on_disk_looks) (auto simp: HasKey_def gets_def split: option.split
        intro!: same.moves_andThen same.moves_pure cached poll)
qed

lemma unknown_404:
  assumes "cs_DeviceID (fst (vault_State (e_K E) (e_F E) (e_vault E) (m_disk s))) \<noteq> []"
    and "api_do (e_N E) ''GET'' (''/api/v1/devices/'' @ cs_DeviceID (fst (vault_State (e_K E) (e_F E) (e_vault E) (m_disk s)))
           @ ''/certificate'') [] [] (m_net s) = ((raw, 404, err), n)"
  shows "deviceUnknownToServer E s = (Done True, s\<lparr>m_net := n\<rparr>)"
  using assms
  by (simp add: deviceUnknownToServer_def andThen_def app_state_run attempt_def on_net_def within_def
      client_DeviceCertificate_def ret_def)

lemma EnsureEnrolled_replaces:
  assumes run: "EnsureEnrolled E pin s = (Done st, s')"
    and enrol: "\<not> Stat (m_disk s) (vault_path (e_vault E) keyFile) \<or> (\<exists>s1. deviceUnknownToServer E s = (Done True, s1))"
  shows "\<exists>sk pkcs8 x. GenerateMLDSA65Key (e_P E) 0 = Inr sk \<and> MarshalPKCS8PEM (e_P E) (Some sk) = Inr pkcs8 \<and>
    Protect (e_K E) (e_now E 1) pkcs8 pin = Done x \<and> key_in E s' = Some x"
proof -
  obtain label s1 s2 r where e: "enrollDevice E label pin s1 = (Done r, s2)"
    and c: "CertificateStatus E pin s2 = (Done st, s')"
    using run enrol
    by (auto simp: EnsureEnrolled_def andThen_Done_iff HasKey_run ret_Done_iff split: if_splits)
  from e obtain sk pkcs8 x where "GenerateMLDSA65Key (e_P E) 0 = Inr sk" "MarshalPKCS8PEM (e_P E) (Some sk) = Inr pkcs8"
    "Protect (e_K E) (e_now E 1) pkcs8 pin = Done x" "key_in E s2 = Some x" by (rule enrollDevice_key)
  then show ?thesis using movesD [OF CertificateStatus_keeps_key c] by (auto simp: same_def)
qed

end
