(* ===== verification/ClientServer.thy ===== *)
theory ClientServer
  imports Receiver ApiClient
begin

section \<open>The client talks to the server\<close>

text \<open>
  The network of \<open>ApiClient\<close> with the model of the server behind it: a request is routed by method and
  path as the multiplexer of \<open>Routes\<close> does, served by \<open>dispatch\<close>, and the answer goes back as bytes. A
  handler that panics closes the connection. The world is the server and the number of requests it has
  served, which picks the oracle of the next one. Requests reach the server one after the other.
\<close>

subsection \<open>Routing by method and path\<close>

text \<open>The patterns of \<open>Routes\<close>, split at the slashes; a segment in braces is a wildcard.\<close>

definition api_routes :: "(string \<times> string list \<times> route) list" where
  "api_routes = [
     (''POST'', [''api'', ''v1'', ''auth'', ''register''], RRegister),
     (''POST'', [''api'', ''v1'', ''auth'', ''login''], RLogin),
     (''POST'', [''api'', ''v1'', ''devices''], RCreateDevice),
     (''GET'', [''api'', ''v1'', ''devices''], RListDevices),
     (''POST'', [''api'', ''v1'', ''devices'', ''{device_id}'', ''csr''], RSubmitCSR),
     (''GET'', [''api'', ''v1'', ''devices'', ''{device_id}'', ''certificate''], RDeviceCertificate),
     (''POST'', [''api'', ''v1'', ''devices'', ''{device_id}'', ''report-lost''], RReportLost),
     (''POST'', [''api'', ''v1'', ''uploads''], RUploadCreate),
     (''PATCH'', [''api'', ''v1'', ''uploads'', ''{id}''], RUploadChunk),
     (''GET'', [''api'', ''v1'', ''uploads'', ''{id}''], RUploadStatus),
     (''POST'', [''api'', ''v1'', ''signatures'', ''reserve''], RReserve),
     (''POST'', [''api'', ''v1'', ''signatures'', ''{public_id}'', ''stamp''], RStamp),
     (''PUT'', [''api'', ''v1'', ''signatures'', ''{public_id}'', ''document''], RSubmit),
     (''GET'', [''api'', ''v1'', ''signatures'', ''{public_id}''], RGetSignature),
     (''GET'', [''api'', ''v1'', ''signatures'', ''{public_id}'', ''download''], RDownload),
     (''GET'', [''api'', ''v1'', ''me'', ''signatures''], RMySignatures),
     (''POST'', [''api'', ''v1'', ''verify''], RVerify),
     (''GET'', [''api'', ''v1'', ''public'', ''signatures'', ''{public_id}''], RPublicRecord),
     (''GET'', [''v'', ''{public_id}'', ''document''], RPublicDocument),
     (''GET'', [''api'', ''v1'', ''public'', ''ca'', ''root.crt''], RRootCA),
     (''GET'', [''api'', ''v1'', ''public'', ''ca'', ''chain.pem''], RChain),
     (''GET'', [''api'', ''v1'', ''public'', ''ca'', ''crl.pem''], RCRL),
     (''GET'', [''api'', ''v1'', ''admin'', ''capabilities''], RCapabilities),
     (''GET'', [''api'', ''v1'', ''admin'', ''admins''], RListAdmins),
     (''POST'', [''api'', ''v1'', ''admin'', ''admins''], RCreateAdmin),
     (''PATCH'', [''api'', ''v1'', ''admin'', ''admins'', ''{id}''], RUpdateAdmin),
     (''DELETE'', [''api'', ''v1'', ''admin'', ''admins'', ''{id}''], RDeleteAdmin),
     (''GET'', [''api'', ''v1'', ''admin'', ''accounts''], RListAccounts),
     (''POST'', [''api'', ''v1'', ''admin'', ''accounts'', ''{id}'', ''approve''], RApproveAccount),
     (''POST'', [''api'', ''v1'', ''admin'', ''accounts'', ''{id}'', ''disable''], RDisableAccount),
     (''POST'', [''api'', ''v1'', ''admin'', ''accounts'', ''{id}'', ''enable''], REnableAccount),
     (''PATCH'', [''api'', ''v1'', ''admin'', ''accounts'', ''{id}''], RUpdateAccount),
     (''DELETE'', [''api'', ''v1'', ''admin'', ''accounts'', ''{id}''], RDeleteAccount),
     (''GET'', [''api'', ''v1'', ''admin'', ''enrollments''], RListEnrollments),
     (''GET'', [''api'', ''v1'', ''admin'', ''enrollments'', ''{id}'', ''export''], RExportEnrollment),
     (''POST'', [''api'', ''v1'', ''admin'', ''enrollments'', ''{id}'', ''approve''], RApproveEnrollment),
     (''POST'', [''api'', ''v1'', ''admin'', ''enrollments'', ''{id}'', ''certificate''], RIssueCertificate),
     (''POST'', [''api'', ''v1'', ''admin'', ''certificates'', ''{id}'', ''revoke''], RRevoke),
     (''POST'', [''api'', ''v1'', ''admin'', ''crl'', ''import''], RImportCRL),
     (''GET'', [''api'', ''v1'', ''admin'', ''audit-events''], RAudit),
     (''POST'', [''api'', ''v1'', ''admin'', ''enrollments'', ''{id}'', ''issue-lab''], RLabIssue)]"

definition is_wild :: "string \<Rightarrow> bool" where
  "is_wild p \<longleftrightarrow> HasPrefix p ''{''"

definition wild_name :: "string \<Rightarrow> string" where
  "wild_name p = butlast (tl p)"

fun seg_match :: "string list \<Rightarrow> string list \<Rightarrow> (string \<times> string) list option" where
  "seg_match [] [] = Some []"
| "seg_match (p # ps) (x # xs) =
     (if is_wild p then (if x = [] then None else map_option (Cons (wild_name p, x)) (seg_match ps xs))
      else if p = x then seg_match ps xs else None)"
| "seg_match _ _ = None"

fun find_route :: "(string \<times> string list \<times> route) list \<Rightarrow> string \<Rightarrow> string list \<Rightarrow>
    (route \<times> (string \<times> string) list) option" where
  "find_route [] meth xs = None"
| "find_route ((m, ps, rt) # tbl) meth xs =
     (case (if m = meth then seg_match ps xs else None) of
        Some vs \<Rightarrow> Some (rt, vs) | None \<Rightarrow> find_route tbl meth xs)"

subsection \<open>One exchange\<close>

text \<open>What the exchange takes from the outside: the libraries, one oracle per request, the JSON encoder,
  the decoder of the query, the multipart decoder, the connection.\<close>

record http_env =
  h_L :: lib
  h_oras :: "nat \<Rightarrow> orc"
  h_json :: "json \<Rightarrow> bytes"
  h_query :: "string \<Rightarrow> string \<Rightarrow> string"
  h_file :: "wire \<Rightarrow> (bytes \<times> error option) option"
  h_peer :: request
  h_base :: string

type_synonym world = "server \<times> nat"

definition request_of :: "http_env \<Rightarrow> (string \<times> string) list \<Rightarrow> string \<Rightarrow> wire \<Rightarrow> request" where
  "request_of H vs qs w = (h_peer H)\<lparr>rq_Authorization := w_auth w,
     rq_path := (\<lambda>k. case map_of vs k of None \<Rightarrow> [] | Some v \<Rightarrow> v), rq_query := h_query H qs,
     rq_body := w_body w, rq_body_err := None, rq_file := h_file H w\<rparr>"

definition answer :: "http_env \<Rightarrow> response \<Rightarrow> (int \<times> bytes) result" where
  "answer H resp = (case rs_body resp of
     Aborted \<Rightarrow> Inl (Errorf ''EOF'') | BRaw b \<Rightarrow> Inr (rs_code resp, b) | BJson v \<Rightarrow> Inr (rs_code resp, h_json H v))"

definition url_path :: "http_env \<Rightarrow> string \<Rightarrow> string list" where
  "url_path H url = Split (TrimPrefix (takeWhile (\<lambda>c. c \<noteq> CHR ''?'') (drop (length (h_base H)) url)) ''/'') (CHR ''/'')"

definition url_query :: "http_env \<Rightarrow> string \<Rightarrow> string" where
  "url_query H url = tl (dropWhile (\<lambda>c. c \<noteq> CHR ''?'') (drop (length (h_base H)) url))"

definition serve_wire :: "http_env \<Rightarrow> bool \<Rightarrow> wire \<Rightarrow> world \<Rightarrow> (int \<times> bytes) result \<times> world" where
  "serve_wire H insecure w x =
     (let (s, n) = x in
      case find_route api_routes (w_method w) (url_path H (w_url w)) of
        None \<Rightarrow> (Inr (404, ''404 page not found''), (s, Suc n))
      | Some (rt, vs) \<Rightarrow>
          let (resp, s') = dispatch rt (h_L H) (h_oras H n) claims_zero (request_of H vs (url_query H (w_url w)) w) s
          in (answer H resp, (s', Suc n)))"

subsection \<open>What the exchange relies on\<close>

text \<open>Characters that need no escaping in a path or a query, and objects of a few short ASCII fields.\<close>

definition plain_char :: "char \<Rightarrow> bool" where
  "plain_char c \<longleftrightarrow> byte_in c 48 57 \<or> byte_in c 65 90 \<or> byte_in c 97 122 \<or> c = CHR ''_'' \<or> c = CHR ''-''"

definition plain_id :: "string \<Rightarrow> bool" where
  "plain_id i \<longleftrightarrow> i \<noteq> [] \<and> list_all plain_char i"

fun small_value :: "json \<Rightarrow> bool" where
  "small_value (JStr x) \<longleftrightarrow> length x \<le> 4096 \<and> list_all (\<lambda>c. byte_in c 32 126) x"
| "small_value (JInt n) \<longleftrightarrow> - (2 ^ 63) \<le> n \<and> n < 2 ^ 63"
| "small_value _ \<longleftrightarrow> False"

definition small_object :: "(string \<times> json) list \<Rightarrow> bool" where
  "small_object kvs \<longleftrightarrow> length kvs \<le> 16 \<and> distinct (map fst kvs) \<and>
     list_all (\<lambda>(f, v). f \<noteq> [] \<and> length f \<le> 64 \<and> list_all plain_char f \<and> small_value v) kvs"

text \<open>The server's encoder and the client's decoders fit together, and such an object is well within the
  64 MiB the client reads; an empty query has no value, a query of one
  plain pair is decoded to that pair.\<close>

definition codec_law :: "http_env \<Rightarrow> 'w api_lib \<Rightarrow> bool" where
  "codec_law H N \<longleftrightarrow> (\<forall>kvs. small_object kvs \<longrightarrow> 0 < length (h_json H (JObj kvs)) \<and> length (h_json H (JObj kvs)) \<le> 67108864 \<and>
     (\<forall>f x. map_of kvs f = Some (JStr x) \<longrightarrow> (\<forall>fs. f \<in> set fs \<longrightarrow> fst (N_strings N fs (h_json H (JObj kvs))) f = x)) \<and>
     (\<forall>f n. map_of kvs f = Some (JInt n) \<longrightarrow> N_int N f (h_json H (JObj kvs)) = n) \<and>
     map_of (N_any N (h_json H (JObj kvs))) = map_of kvs)"

definition query_law :: "http_env \<Rightarrow> bool" where
  "query_law H \<longleftrightarrow> (\<forall>k. h_query H [] k = []) \<and>
     (\<forall>k v. plain_id k \<longrightarrow> plain_id v \<longrightarrow> h_query H (k @ ''='' @ v) k = v)"

text \<open>The client points at this server.\<close>

definition connected :: "http_env \<Rightarrow> world api_lib \<Rightarrow> bool" where
  "connected H N \<longleftrightarrow> N_Do N = serve_wire H \<and> codec_law H N \<and> query_law H"

text \<open>The client is signed in as the account of \<open>c\<close>: the server takes its token at every request.\<close>

definition signed_in :: "http_env \<Rightarrow> claims \<Rightarrow> world net \<Rightarrow> bool" where
  "signed_in H c st \<longleftrightarrow> ac_base (nt_client st) = h_base H \<and> ac_token (nt_client st) \<noteq> [] \<and>
     (\<forall>n. Parse (h_L H) (sv_signer (fst (nt_world st))) (o_auth (h_oras H n)) (ac_token (nt_client st)) = Inr c)"

lemma codec_lawD:
  assumes "codec_law H N" "small_object kvs"
  shows "take 67108864 (h_json H (JObj kvs)) = h_json H (JObj kvs)"
    "map_of kvs f = Some (JStr x) \<Longrightarrow> f \<in> set fs \<Longrightarrow> fst (N_strings N fs (h_json H (JObj kvs))) f = x"
    "map_of kvs f = Some (JInt n) \<Longrightarrow> N_int N f (h_json H (JObj kvs)) = n"
    "map_of (N_any N (h_json H (JObj kvs))) = map_of kvs"
  using assms unfolding codec_law_def by (auto intro!: take_all)

subsection \<open>Paths\<close>

lemma plain_char_not [simp]: "\<not> plain_char (CHR ''/'')" "\<not> plain_char (CHR ''?'')" "\<not> plain_char (CHR ''='')" "\<not> plain_char (CHR ''{'')"
  by (simp_all add: plain_char_def byte_in_def)

lemma plain_id_chars: "plain_id i \<Longrightarrow> CHR ''/'' \<notin> set i \<and> CHR ''?'' \<notin> set i \<and> i \<noteq> []"
  by (auto simp: plain_id_def list_all_iff)

lemma takeWhile_query: "c \<notin> set a \<Longrightarrow> takeWhile (\<lambda>x. x \<noteq> c) (a @ c # b) = a" "c \<notin> set a \<Longrightarrow> takeWhile (\<lambda>x. x \<noteq> c) a = a"
  "c \<notin> set a \<Longrightarrow> dropWhile (\<lambda>x. x \<noteq> c) (a @ c # b) = c # b"
  by (induction a) auto

lemma url_query_none: "CHR ''?'' \<notin> set p \<Longrightarrow> url_query H (h_base H @ p) = []"
proof -
  assume p: "CHR ''?'' \<notin> set p"
  have e: "dropWhile (\<lambda>c. c \<noteq> CHR ''?'') p = []" using p by (induction p) auto
  have "drop (length (h_base H)) (h_base H @ p) = p" by simp
  then show ?thesis unfolding url_query_def by (simp only: e list.sel)
qed

lemma url_path_simps:
  assumes "CHR ''?'' \<notin> set p"
  shows "url_path H (h_base H @ ''/'' @ p @ CHR ''?'' # q) = Split p (CHR ''/'')"
    "url_path H (h_base H @ ''/'' @ p) = Split p (CHR ''/'')"
    "url_query H (h_base H @ ''/'' @ p @ CHR ''?'' # q) = q"
proof -
  have "CHR ''?'' \<notin> set (''/'' @ p)" using assms by simp
  note t = takeWhile_query [OF this]
  have d: "drop (length (h_base H)) (h_base H @ x) = x" for x by simp
  show "url_path H (h_base H @ ''/'' @ p @ CHR ''?'' # q) = Split p (CHR ''/'')"
    "url_query H (h_base H @ ''/'' @ p @ CHR ''?'' # q) = q"
    using t(1,3) [of q] by (simp_all add: url_path_def url_query_def TrimPrefix_def HasPrefix_def)
  show "url_path H (h_base H @ ''/'' @ p) = Split p (CHR ''/'')"
    unfolding url_path_def d t(2) by (simp add: TrimPrefix_def HasPrefix_def)
qed

subsection \<open>A request that was answered was served\<close>

lemma served:
  assumes conn: "connected H N" and base: "ac_base (nt_client st) = h_base H"
    and call: "api_call N meth path body ct st = (Done raw, st')" and w: "nt_world st = (s, n)"
    and route: "find_route api_routes meth (url_path H (h_base H @ path)) = Some (rt, vs)"
  obtains resp s' all where
    "dispatch rt (h_L H) (h_oras H n) claims_zero
       (request_of H vs (url_query H (h_base H @ path)) (to_wire (nt_client st) meth path body ct)) s = (resp, s')"
    "rs_code resp < 400" "st' = st\<lparr>nt_world := (s', Suc n)\<rparr>" "answer H resp = Inr (rs_code resp, all)"
    "raw = take 67108864 all"
proof -
  obtain status all w' where do_it: "N_Do N (ac_insecure (nt_client st)) (to_wire (nt_client st) meth path body ct) (nt_world st) =
      (Inr (status, all), w')" "status < 400" "raw = take 67108864 all" "st' = st\<lparr>nt_world := w'\<rparr>"
    using call by (rule api_call_Done)
  obtain resp s' where d: "dispatch rt (h_L H) (h_oras H n) claims_zero
       (request_of H vs (url_query H (h_base H @ path)) (to_wire (nt_client st) meth path body ct)) s = (resp, s')"
    by fastforce
  have url: "w_url (to_wire (nt_client st) meth path body ct) = h_base H @ path"
    "w_method (to_wire (nt_client st) meth path body ct) = meth"
    by (simp_all add: to_wire_def base)
  have "answer H resp = Inr (status, all)" "w' = (s', Suc n)"
    using do_it(1) conn d by (simp_all add: connected_def serve_wire_def w url route)
  moreover from this have "status = rs_code resp" by (auto simp: answer_def split: body.splits)
  ultimately show ?thesis using that [OF d] do_it by simp
qed

lemma served_user:
  assumes conn: "connected H N" and c: "signed_in H c st"
    and call: "api_call N meth path body ct st = (Done raw, st')" and w: "nt_world st = (s, n)"
    and route: "find_route api_routes meth (url_path H (h_base H @ path)) = Some (rt, vs)"
    and user: "dispatch rt = user h"
  obtains resp s' all where
    "h (h_L H) (h_oras H n) c (request_of H vs (url_query H (h_base H @ path)) (to_wire (nt_client st) meth path body ct)) s = (resp, s')"
    "rs_code resp < 400" "st' = st\<lparr>nt_world := (s', Suc n)\<rparr>" "answer H resp = Inr (rs_code resp, all)"
    "raw = take 67108864 all"
proof -
  let ?r = "request_of H vs (url_query H (h_base H @ path)) (to_wire (nt_client st) meth path body ct)"
  have base: "ac_base (nt_client st) = h_base H" using c by (simp add: signed_in_def)
  obtain resp s' all where d: "dispatch rt (h_L H) (h_oras H n) claims_zero ?r s = (resp, s')"
    and rest: "rs_code resp < 400" "st' = st\<lparr>nt_world := (s', Suc n)\<rparr>" "answer H resp = Inr (rs_code resp, all)"
    "raw = take 67108864 all"
    using served [OF conn base call w route] by blast
  have "bearer ?r = Some (ac_token (nt_client st))"
    using c by (simp add: bearer_def request_of_def to_wire_def signed_in_def HasPrefix_def)
  then have "caller (h_L H) (h_oras H n) ?r s = Some c"
    using c w by (simp add: caller_def signed_in_def)
  then have "h (h_L H) (h_oras H n) c ?r s = (resp, s')"
    using d user by (simp add: user_def authed_cases role_allows_def)
  then show ?thesis using rest by (rule that)
qed

text \<open>Being signed in is kept by whatever leaves the signer and the client alone.\<close>

lemma signed_in_next:
  "signed_in H c st \<Longrightarrow> nt_world st = (s, n) \<Longrightarrow> sv_signer s' = sv_signer s \<Longrightarrow> signed_in H c (st\<lparr>nt_world := (s', m)\<rparr>)"
  by (simp add: signed_in_def)

subsection \<open>Uploading in chunks\<close>

lemma route_upload: "find_route api_routes ''POST'' (url_path H (h_base H @ ''/api/v1/uploads'')) = Some (RUploadCreate, [])"
proof -
  have "url_path H (h_base H @ ''/api/v1/uploads'') = [''api'', ''v1'', ''uploads'']"
    using url_path_simps(2) [of "''api/v1/uploads''" H] by simp
  then show ?thesis by (simp add: api_routes_def is_wild_def HasPrefix_def)
qed

lemma route_chunk:
  assumes "plain_id i"
  shows "find_route api_routes ''PATCH'' (url_path H (h_base H @ ''/api/v1/uploads/'' @ i @ ''?offset='' @ q)) =
      Some (RUploadChunk, [(''id'', i)])"
    "url_query H (h_base H @ ''/api/v1/uploads/'' @ i @ ''?offset='' @ q) = ''offset='' @ q"
proof -
  note i = plain_id_chars [OF assms]
  have p: "url_path H (h_base H @ ''/api/v1/uploads/'' @ i @ ''?offset='' @ q) = Split (''api/v1/uploads/'' @ i) (CHR ''/'')"
    "url_query H (h_base H @ ''/api/v1/uploads/'' @ i @ ''?offset='' @ q) = ''offset='' @ q"
    using i url_path_simps(1,3) [of "''api/v1/uploads/'' @ i" H "''offset='' @ q"] by simp_all
  have "Split (''api/v1/uploads/'' @ i) (CHR ''/'') = [''api'', ''v1'', ''uploads'', i]"
    using i Split_no_sep [of "CHR ''/''" i] by simp
  then show "find_route api_routes ''PATCH'' (url_path H (h_base H @ ''/api/v1/uploads/'' @ i @ ''?offset='' @ q)) =
      Some (RUploadChunk, [(''id'', i)])"
    unfolding p(1) using i by (simp add: api_routes_def is_wild_def wild_name_def HasPrefix_def)
  show "url_query H (h_base H @ ''/api/v1/uploads/'' @ i @ ''?offset='' @ q) = ''offset='' @ q" by (rule p)
qed

lemma route_document:
  assumes "plain_id i"
  shows "find_route api_routes ''PUT'' (url_path H (h_base H @ ''/api/v1/signatures/'' @ i @ ''/document'')) =
      Some (RSubmit, [(''public_id'', i)])"
    "find_route api_routes ''PUT'' (url_path H (h_base H @ ''/api/v1/signatures/'' @ i @ ''/document?upload_id='' @ u)) =
      Some (RSubmit, [(''public_id'', i)])"
    "url_query H (h_base H @ ''/api/v1/signatures/'' @ i @ ''/document?upload_id='' @ u) = ''upload_id='' @ u"
proof -
  note i = plain_id_chars [OF assms]
  have sp: "Split (''api/v1/signatures/'' @ i @ ''/document'') (CHR ''/'') = [''api'', ''v1'', ''signatures'', i, ''document'']"
    using i Split_append_sep [of "CHR ''/''" i "''document''"] by simp
  have p: "url_path H (h_base H @ ''/api/v1/signatures/'' @ i @ ''/document'') = [''api'', ''v1'', ''signatures'', i, ''document'']"
    "url_path H (h_base H @ ''/api/v1/signatures/'' @ i @ ''/document?upload_id='' @ u) = [''api'', ''v1'', ''signatures'', i, ''document'']"
    "url_query H (h_base H @ ''/api/v1/signatures/'' @ i @ ''/document?upload_id='' @ u) = ''upload_id='' @ u"
    using i sp url_path_simps [of "''api/v1/signatures/'' @ i @ ''/document''" H] by simp_all
  show "find_route api_routes ''PUT'' (url_path H (h_base H @ ''/api/v1/signatures/'' @ i @ ''/document'')) =
      Some (RSubmit, [(''public_id'', i)])"
    "find_route api_routes ''PUT'' (url_path H (h_base H @ ''/api/v1/signatures/'' @ i @ ''/document?upload_id='' @ u)) =
      Some (RSubmit, [(''public_id'', i)])"
    unfolding p(1,2) using i by (simp_all add: api_routes_def is_wild_def wild_name_def HasPrefix_def)
  show "url_query H (h_base H @ ''/api/v1/signatures/'' @ i @ ''/document?upload_id='' @ u) = ''upload_id='' @ u" by (rule p)
qed

subsection \<open>Numbers in a query\<close>

lemma dec_digit_is_dec: "n < 10 \<Longrightarrow> is_dec (dec_digit n) \<and> (of_char (dec_digit n) :: nat) = 48 + n"
proof -
  assume "n < 10"
  then have "n = 0 \<or> n = 1 \<or> n = 2 \<or> n = 3 \<or> n = 4 \<or> n = 5 \<or> n = 6 \<or> n = 7 \<or> n = 8 \<or> n = 9" by arith
  then show ?thesis by (elim disjE) (simp_all add: dec_digit_def is_dec_def byte_in_def)
qed

lemma dec_nat_digits: "list_all is_dec (dec_nat n) \<and> dec_nat n \<noteq> [] \<and> dec_val (dec_nat n) = n"
proof (induction n rule: dec_nat.induct)
  case (1 n)
  have d: "dec_val (xs @ [c]) = 10 * dec_val xs + (of_char c - 48)" for xs c by (simp add: dec_val_def)
  show ?case
  proof (cases "n < 10")
    case True
    then show ?thesis using dec_digit_is_dec [OF True] by (subst (1 2 3) dec_nat.simps) (simp add: dec_val_def)
  next
    case False
    have "n mod 10 < 10" by simp
    note dd = dec_digit_is_dec [OF this]
    have e: "dec_nat n = dec_nat (n div 10) @ [dec_digit (n mod 10)]" using False by (subst dec_nat.simps) simp
    have "10 * (n div 10) + n mod 10 = n" by simp
    then show ?thesis using 1 [OF False] dd unfolding e d by simp
  qed
qed

lemma ParseInt64_dec_int: "0 \<le> n \<Longrightarrow> n < 2 ^ 63 \<Longrightarrow> ParseInt64 (dec_int n) = n"
proof -
  assume n: "0 \<le> n" "n < 2 ^ 63"
  obtain x xs where x: "dec_nat (nat n) = x # xs" using dec_nat_digits [of "nat n"] by (cases "dec_nat (nat n)") auto
  have "is_dec x" using dec_nat_digits [of "nat n"] x by simp
  then have "x \<noteq> CHR ''-''" "x \<noteq> CHR ''+''" by (auto simp: is_dec_def byte_in_def)
  with n x dec_nat_digits [of "nat n"] show ?thesis by (simp add: ParseInt64_def dec_int_def Let_def)
qed

lemma dec_int_plain: "0 \<le> n \<Longrightarrow> plain_id (dec_int n)"
  using dec_nat_digits [of "nat n"] by (auto simp: plain_id_def dec_int_def list_all_iff plain_char_def is_dec_def)

lemma lower_hex_plain: "lower_hex c \<Longrightarrow> plain_char c"
proof -
  have "list_all plain_char ''0123456789abcdef''" by (simp add: plain_char_def byte_in_def)
  then show "lower_hex c \<Longrightarrow> plain_char c" unfolding lower_hex_def list_all_iff by blast
qed

lemma upload_id_plain: "plain_id (upload_id b)" "length (upload_id b) = 3 + 2 * length b"
  using hex_encode_lower [of _ b, THEN lower_hex_plain]
  by (simp_all add: upload_id_def plain_id_def list_all_iff) (simp add: plain_char_def byte_in_def)

lemma plain_char_ascii: "plain_char c \<Longrightarrow> byte_in c 32 126"
  by (auto simp: plain_char_def byte_in_def)

lemma plain_id_small: "plain_id i \<Longrightarrow> length i \<le> 4096 \<Longrightarrow> small_value (JStr i)"
  using plain_char_ascii by (auto simp: plain_id_def list_all_iff)

subsection \<open>One chunk\<close>

text \<open>The session \<open>i\<close> of the account holds the first \<open>off\<close> bytes of \<open>data\<close>.\<close>

definition upload_at :: "string \<Rightarrow> string \<Rightarrow> bytes \<Rightarrow> int \<Rightarrow> server \<Rightarrow> bool" where
  "upload_at i acc data off s \<longleftrightarrow> 0 \<le> off \<and> off \<le> int (length data) \<and> uploads_wf (sv_uploads s) \<and>
     (\<exists>u. map_of (um_m (sv_uploads s)) i = Some u \<and> us_account u = acc \<and> us_size u = off \<and>
        map_of (um_files (sv_uploads s)) (us_path u) = Some (take (nat off) data))"

lemma appendChunk_ok:
  assumes a: "appendChunk u off mx (b, None) operr werr now um = ((got, None), um')"
    and u: "map_of (um_m um) i = Some u" and wf: "uploads_wf um" and old: "map_of (um_files um) (us_path u) = Some old"
  shows "off = us_size u" "got = us_size u + int (length b)"
    "um' = um\<lparr>um_files := AList.update (us_path u) (old @ b) (um_files um),
       um_m := AList.map_entry i (\<lambda>_. u\<lparr>us_size := got, us_updated := now\<rparr>) (um_m um)\<rparr>"
proof -
  have i: "us_id u = i" using uploads_wfD [OF wf u] by (simp add: upload_ok_def)
  show off: "off = us_size u" using a by (auto simp: appendChunk_def split: if_splits)
  have op: "operr = None" using a off by (cases operr) (auto simp: appendChunk_def)
  obtain c e where c: "copy_limited (mx - us_size u + 1) (b, None) werr = (c, e)" by fastforce
  have e: "e = None" "got = us_size u + int (length c)" "\<not> mx < us_size u + int (length c)"
    using a off op old c by (auto simp: appendChunk_def Let_def split: option.splits if_splits)
  have "c = take (nat (mx - us_size u + 1)) b"
    using c e(1) by (auto simp: copy_limited_def Let_def split: option.splits if_splits)
  with e(3) have "c = b" by (cases "nat (mx - us_size u + 1) < length b") (auto split: if_splits)
  with e(2) show g: "got = us_size u + int (length b)" by simp
  show "um' = um\<lparr>um_files := AList.update (us_path u) (old @ b) (um_files um),
       um_m := AList.map_entry i (\<lambda>_. u\<lparr>us_size := got, us_updated := now\<rparr>) (um_m um)\<rparr>"
    using a off op old c e \<open>c = b\<close> i g by (auto simp: appendChunk_def Let_def split: if_splits)
qed

lemma hUploadChunk_ok:
  assumes h: "hUploadChunk L ora c r s = (resp, s')" "rs_code resp < 400"
    and at: "upload_at i (cl_Sub c) data off s" "rq_path r ''id'' = i" "ParseInt64 (rq_query r ''offset'') = off"
    and b: "rq_body_err r = None" "take (nat off) data @ rq_body r = take (nat (off + int (length (rq_body r)))) data"
      "off + int (length (rq_body r)) \<le> int (length data)"
  shows "resp = writeJSON 200 (JObj [(''received'', JInt (off + int (length (rq_body r))))])"
    "upload_at i (cl_Sub c) data (off + int (length (rq_body r))) s'"
    "sv_st s' = sv_st s" "sv_cfg s' = sv_cfg s" "sv_signer s' = sv_signer s"
proof -
  obtain u where u: "map_of (um_m (sv_uploads s)) i = Some u" "us_account u = cl_Sub c" "us_size u = off"
    "map_of (um_files (sv_uploads s)) (us_path u) = Some (take (nat off) data)" and wf: "uploads_wf (sv_uploads s)"
    and off: "0 \<le> off" using at(1) by (auto simp: upload_at_def)
  have g: "get_upload (rq_path r ''id'') (cl_Sub c) (sv_uploads s) = Some u" using u at(2) by (simp add: get_upload_def)
  obtain got err um where a: "appendChunk u off (cf_MaxUploadBytes (sv_cfg s)) (rq_body r, None) (o_open ora 0) (o_werr ora 0)
      (o_clk ora 0) (sv_uploads s) = ((got, err), um)" by (metis surjective_pairing)
  have err: "err = None" "resp = writeJSON 200 (JObj [(''received'', JInt got)])" "s' = s\<lparr>sv_uploads := um\<rparr>"
    using h g a at(3) b(1) by (auto simp: hUploadChunk_def Let_def split: if_splits)
  note ok = appendChunk_ok [OF a [unfolded err(1)] u(1) wf u(4)]
  show "resp = writeJSON 200 (JObj [(''received'', JInt (off + int (length (rq_body r))))])"
    using err(2) ok(2) u(3) by simp
  have "uploads_wf um" using appendChunk_wf [OF wf u(1)] a by (metis snd_conv)
  moreover have "map_of (um_m um) i = Some (u\<lparr>us_size := got, us_updated := o_clk ora 0\<rparr>)"
    using u(1) by (simp add: ok(3))
  moreover have "map_of (um_files um) (us_path u) = Some (take (nat got) data)"
    using b(2) ok(2) u(3) by (simp add: ok(3))
  ultimately show "upload_at i (cl_Sub c) data (off + int (length (rq_body r))) s'"
    using u(2,3) ok(2) off b(3) by (auto simp: upload_at_def err(3))
  show "sv_st s' = sv_st s" "sv_cfg s' = sv_cfg s" "sv_signer s' = sv_signer s" by (simp_all add: err(3))
qed

text \<open>What an upload leaves as it was.\<close>

definition same_store :: "server \<Rightarrow> server \<Rightarrow> bool" where
  "same_store s s' \<longleftrightarrow> sv_st s' = sv_st s \<and> sv_cfg s' = sv_cfg s \<and> sv_signer s' = sv_signer s"

interpretation same_store: trace_relation same_store
  by unfold_locales (simp_all add: same_store_def)

lemma chunk_of_simps:
  assumes "0 \<le> off" "off < int (length data)"
  shows "0 < int (length (chunk_of data off))" "off + int (length (chunk_of data off)) \<le> int (length data)"
    "take (nat off) data @ chunk_of data off = take (nat (off + int (length (chunk_of data off)))) data"
proof -
  let ?k = "nat (min (off + uploadChunkBytes) (int (length data)) - off)"
  have k: "0 < ?k" "nat off + ?k \<le> length data" using assms by auto
  have l: "length (chunk_of data off) = ?k" using k by (simp add: chunk_of_def)
  show "0 < int (length (chunk_of data off))" "off + int (length (chunk_of data off)) \<le> int (length data)"
    using l k assms by auto
  have "nat (off + int (length (chunk_of data off))) = nat off + ?k" using l assms by simp
  then show "take (nat off) data @ chunk_of data off = take (nat (off + int (length (chunk_of data off)))) data"
    by (simp add: chunk_of_def take_add)
qed

lemma push_chunk_step:
  assumes conn: "connected H N" and c: "signed_in H c st" and w: "nt_world st = (s, n)" and i: "plain_id i"
    and at: "upload_at i (cl_Sub c) data off s" "off < int (length data)" "int (length data) < 2 ^ 63"
    and run: "push_chunk N i data off st = (Done resp, st')"
  obtains s' where "nt_world st' = (s', Suc n)" "same_store s s'" "signed_in H c st'" "off < N_int N ''received'' resp"
    "upload_at i (cl_Sub c) data (N_int N ''received'' resp) s'"
proof -
  let ?q = "dec_int off"
  let ?p = "''/api/v1/uploads/'' @ i @ ''?offset='' @ ?q"
  let ?b = "chunk_of data off"
  let ?r = "request_of H [(''id'', i)] (url_query H (h_base H @ ?p)) (to_wire (nt_client st) ''PATCH'' ?p ?b ''application/octet-stream'')"
  have off: "0 \<le> off" using at(1) by (simp add: upload_at_def)
  note ch = chunk_of_simps [OF off at(2)]
  have "dispatch RUploadChunk = user hUploadChunk" by simp
  from served_user [OF conn c run [unfolded push_chunk_def] w route_chunk(1) [OF i] this]
  obtain rsp s' all where h: "hUploadChunk (h_L H) (h_oras H n) c ?r s = (rsp, s')" "rs_code rsp < 400"
    and st': "st' = st\<lparr>nt_world := (s', Suc n)\<rparr>" and ans: "answer H rsp = Inr (rs_code rsp, all)" "resp = take 67108864 all"
    by metis
  have "plain_id ''offset''" by (simp add: plain_id_def plain_char_def byte_in_def)
  then have "h_query H (''offset'' @ ''='' @ ?q) ''offset'' = ?q"
    using conn dec_int_plain [OF off] unfolding connected_def query_law_def by blast
  then have q: "rq_query ?r ''offset'' = ?q"
    unfolding route_chunk(2) [OF i] by (simp add: request_of_def)
  have pi: "ParseInt64 (rq_query ?r ''offset'') = off"
    unfolding q using ParseInt64_dec_int [OF off] at(2,3) by simp
  have r: "rq_path ?r ''id'' = i" "rq_body ?r = ?b" "rq_body_err ?r = None"
    by (simp_all add: request_of_def to_wire_def)
  note ok = hUploadChunk_ok [OF h at(1) r(1) pi r(3), unfolded r(2), OF ch(3,2)]
  let ?kvs = "[(''received'', JInt (off + int (length ?b)))]"
  have small: "small_object ?kvs"
    using off ch(2) at(3) by (simp add: small_object_def plain_char_def byte_in_def)
  have "all = h_json H (JObj ?kvs)" using ans(1) ok(1) by (simp add: answer_def writeJSON_def)
  moreover have cl: "codec_law H N" using conn by (simp add: connected_def)
  ultimately have rec: "N_int N ''received'' resp = off + int (length ?b)"
    using codec_lawD(1) [OF cl small] codec_lawD(3) [OF cl small, of "''received''" "off + int (length ?b)"] ans(2) by simp
  show ?thesis
  proof (rule that)
    show "nt_world st' = (s', Suc n)" by (simp add: st')
    show "same_store s s'" using ok(3-5) by (simp add: same_store_def)
    show "signed_in H c st'" unfolding st' using signed_in_next [OF c w ok(5)] .
    show "off < N_int N ''received'' resp" using rec ch(1) by simp
    show "upload_at i (cl_Sub c) data (N_int N ''received'' resp) s'" using ok(2) rec by simp
  qed
qed

lemma upload_loop_reaches:
  "upload_loop N i data off st = (Done u, st') \<Longrightarrow> connected H N \<Longrightarrow> plain_id i \<Longrightarrow> int (length data) < 2 ^ 63 \<Longrightarrow>
     signed_in H c st \<Longrightarrow> nt_world st = (s, n) \<Longrightarrow> upload_at i (cl_Sub c) data off s \<Longrightarrow>
     \<exists>s' n'. nt_world st' = (s', n') \<and> same_store s s' \<and> signed_in H c st' \<and> upload_at i (cl_Sub c) data (int (length data)) s'"
proof (induction N i data off st arbitrary: s n rule: upload_loop.induct)
  case (1 N i data off st)
  show ?case
  proof (cases "int (length data) \<le> off")
    case True
    then have "st' = st" using 1(2) by (simp add: upload_loop.simps [of N i data off st])
    moreover have "off = int (length data)" using True 1(8) by (simp add: upload_at_def)
    ultimately show ?thesis using 1(6-8) by (simp add: same_store.R_refl)
  next
    case False
    then obtain resp st1 where p: "push_chunk N i data off st = (Done resp, st1)"
      and rest: "(if N_int N ''received'' resp \<le> off then (Fail (Errorf (''unggah macet di offset '' @ dec_int off)), st1)
          else upload_loop N i data (N_int N ''received'' resp) st1) = (Done u, st')"
      using 1(2) by (auto simp: upload_loop.simps [of N i data off st] split: prod.splits outcome.splits)
    from push_chunk_step [OF 1(3,6,7,4,8) _ 1(5) p] False
    obtain s1 where s1: "nt_world st1 = (s1, Suc n)" "same_store s s1" "signed_in H c st1" "off < N_int N ''received'' resp"
      "upload_at i (cl_Sub c) data (N_int N ''received'' resp) s1" by auto
    have loop: "upload_loop N i data (N_int N ''received'' resp) st1 = (Done u, st')" using rest s1(4) by simp
    from 1(1) [OF False p [symmetric] refl _ loop 1(3-5) s1(3,1,5)] s1(4)
    show ?thesis using same_store.R_trans [OF s1(2)] by auto
  qed
qed

text \<open>The whole upload: the session belongs to the caller, its file is the document.\<close>

lemma hUploadCreate_ok:
  assumes h: "hUploadCreate L ora c r s = (resp, s')" "rs_code resp < 400"
    and wf: "uploads_wf (sv_uploads s)" and fresh: "fresh_upload ora (sv_uploads s)"
  obtains b where "rand_Read ora 0 = Inr b" "same_store s s'" "upload_at (upload_id b) (cl_Sub c) data 0 s'"
    "resp = writeJSON 201 (JObj [(''upload_id'', JStr (upload_id b)), (''received'', JInt 0),
       (''max_bytes'', JInt (cf_MaxUploadBytes (sv_cfg s)))])"
proof -
  obtain b where b: "rand_Read ora 0 = Inr b" and op: "o_open ora 0 = None"
    using h by (auto simp: hUploadCreate_def create_upload_def Let_def split: sum.splits option.splits)
  have bo: "b = o_rnd ora 0" using b by (simp add: rand_Read_def split: option.splits)
  have fr: "map_of (um_m (sv_uploads s)) (upload_id b) = None"
    "path_free (upload_path (um_dir (sv_uploads s)) (upload_id b)) (sv_uploads s)"
    using fresh by (simp_all add: fresh_upload_def bo)
  have "uploads_wf (snd (create_upload (Inr b) (o_clk ora 0) None (cl_Sub c) (sv_uploads s)))"
    by (rule create_upload_wf [OF wf]) (simp_all add: fr)
  then show ?thesis
    using h b op by (intro that [OF b]) (auto simp: hUploadCreate_def create_upload_def upload_at_def same_store_def Let_def)
qed

lemma uploadBytes_reaches:
  assumes conn: "connected H N" and c: "signed_in H c st" and w: "nt_world st = (s, n)"
    and len: "int (length data) < 2 ^ 63" and wf: "uploads_wf (sv_uploads s)" and fresh: "fresh_upload (h_oras H n) (sv_uploads s)"
    and rnd: "length (o_rnd (h_oras H n) 0) \<le> 1024" and mx: "- (2 ^ 63) \<le> cf_MaxUploadBytes (sv_cfg s)" "cf_MaxUploadBytes (sv_cfg s) < 2 ^ 63"
    and run: "uploadBytes N data st = (Done i, st')"
  shows "\<exists>s' n'. nt_world st' = (s', n') \<and> same_store s s' \<and> signed_in H c st' \<and> plain_id i \<and>
    upload_at i (cl_Sub c) data (int (length data)) s'"
proof -
  obtain raw st1 where call: "api_call N ''POST'' ''/api/v1/uploads'' [] [] st = (Done raw, st1)"
    and rest: "(let i = fst (N_strings N [''upload_id''] raw) ''upload_id'' in
       if i = [] then fail (Errorf ''respons unggah tanpa upload_id'')
       else andThen (upload_loop N i data 0) (\<lambda>u. ret i)) st1 = (Done i, st')"
    using run by (auto simp: uploadBytes_def andThen_Done_iff)
  have "dispatch RUploadCreate = user hUploadCreate" by simp
  from served_user [OF conn c call w route_upload this]
  obtain rsp s1 all where h: "hUploadCreate (h_L H) (h_oras H n) c (request_of H [] (url_query H (h_base H @ ''/api/v1/uploads''))
        (to_wire (nt_client st) ''POST'' ''/api/v1/uploads'' [] [])) s = (rsp, s1)" "rs_code rsp < 400"
    and st1: "st1 = st\<lparr>nt_world := (s1, Suc n)\<rparr>" and ans: "answer H rsp = Inr (rs_code rsp, all)" "raw = take 67108864 all"
    by metis
  from h wf fresh obtain b where b: "rand_Read (h_oras H n) 0 = Inr b" and ss: "same_store s s1"
    and at: "upload_at (upload_id b) (cl_Sub c) data 0 s1"
    and rsp: "rsp = writeJSON 201 (JObj [(''upload_id'', JStr (upload_id b)), (''received'', JInt 0),
       (''max_bytes'', JInt (cf_MaxUploadBytes (sv_cfg s)))])"
    by (rule hUploadCreate_ok)
  let ?kvs = "[(''upload_id'', JStr (upload_id b)), (''received'', JInt 0), (''max_bytes'', JInt (cf_MaxUploadBytes (sv_cfg s)))]"
  have "length b \<le> 1024" using b rnd by (simp add: rand_Read_def split: option.splits)
  then have "small_value (JStr (upload_id b))" using upload_id_plain by (intro plain_id_small) simp_all
  then have small: "small_object ?kvs"
    using mx by (simp add: small_object_def plain_char_def byte_in_def)
  have "all = h_json H (JObj ?kvs)" using ans(1) rsp by (simp add: answer_def writeJSON_def)
  moreover have cl: "codec_law H N" using conn by (simp add: connected_def)
  ultimately have id: "fst (N_strings N [''upload_id''] raw) ''upload_id'' = upload_id b"
    using codec_lawD(1) [OF cl small] codec_lawD(2) [OF cl small, of "''upload_id''" "upload_id b" "[''upload_id'']"] ans(2) by simp
  have "upload_id b \<noteq> []" by (simp add: upload_id_def)
  then have loop: "upload_loop N (upload_id b) data 0 st1 = (Done (), st')" and i: "i = upload_id b"
    using rest by (auto simp: Let_def id andThen_Done_iff ret_Done_iff)
  have c1: "signed_in H c st1" unfolding st1 by (rule signed_in_next [OF c w]) (use ss in \<open>simp add: same_store_def\<close>)
  have "nt_world st1 = (s1, Suc n)" by (simp add: st1)
  from upload_loop_reaches [OF loop conn upload_id_plain(1) len c1 this at]
  show ?thesis using same_store.R_trans [OF ss] upload_id_plain(1) i by metis
qed

subsection \<open>Submitting a document\<close>

text \<open>What an upload asks of the server and of its randomness: a fresh session identifier of the length
  the code draws, a limit that fits an \<open>int64\<close>.\<close>

definition upload_ready :: "http_env \<Rightarrow> server \<Rightarrow> nat \<Rightarrow> bool" where
  "upload_ready H s n \<longleftrightarrow> fresh_upload (h_oras H n) (sv_uploads s) \<and> length (o_rnd (h_oras H n) 0) \<le> 1024 \<and>
     - (2 ^ 63) \<le> cf_MaxUploadBytes (sv_cfg s) \<and> cf_MaxUploadBytes (sv_cfg s) < 2 ^ 63"

lemma signedInput_direct:
  assumes "signedInput ora r acct s = Inr ((body, e), sz, sess)" "rq_query r ''upload_id'' = []"
  shows "body = rq_body r"
  using assms by (auto simp: signedInput_def readBody_def withinLimit_def split: if_splits option.splits)

lemma signedInput_upload:
  assumes "signedInput ora r acct s = Inr ((body, e), sz, sess)" "rq_query r ''upload_id'' = i" "i \<noteq> []"
    and "upload_at i acct data (int (length data)) s"
  shows "body = data"
  using assms by (auto simp: signedInput_def get_upload_def upload_at_def Let_def split: if_splits option.splits)

text \<open>The last request of a submission: whatever its body is read from, the server records that document.\<close>

lemma submit_request_records:
  assumes conn: "connected H N" and c: "signed_in H c st" and w: "nt_world st = (s, n)" and wf: "srv_wf s"
    and new: "Signature pid (sv_st s) = Inl ErrNotFound"
    and call: "api_call N ''PUT'' path body ct st = (Done raw, st')"
    and route: "find_route api_routes ''PUT'' (url_path H (h_base H @ path)) = Some (RSubmit, [(''public_id'', pid)])"
    and input: "\<And>doc e sz sess. signedInput (h_oras H n) (request_of H [(''public_id'', pid)] (url_query H (h_base H @ path))
        (to_wire (nt_client st) ''PUT'' path body ct)) (cl_Sub c) s = Inr ((doc, e), sz, sess) \<Longrightarrow> doc = data"
  shows "\<exists>s' sig. nt_world st' = (s', Suc n) \<and> Signature pid (sv_st s') = Inr sig \<and>
    GetObject (s_StorageObjectKey sig) (sv_st s') = Inr data \<and> s_SignedSHA512 sig = CalculateSHA512 (h_L H) data \<and>
    s_SignedSize sig = int (length data) \<and> s_AccountID sig = cl_Sub c \<and>
    raw = take 67108864 (h_json H (submissionResult sig))"
proof -
  let ?r = "request_of H [(''public_id'', pid)] (url_query H (h_base H @ path)) (to_wire (nt_client st) ''PUT'' path body ct)"
  have pid: "rq_path ?r ''public_id'' = pid" by (simp add: request_of_def)
  have "dispatch RSubmit = user (limited hSubmitDocument)" by simp
  from served_user [OF conn c call w route this]
  obtain rsp s' all where h: "limited hSubmitDocument (h_L H) (h_oras H n) c ?r s = (rsp, s')" "rs_code rsp < 400"
    and st': "st' = st\<lparr>nt_world := (s', Suc n)\<rparr>" and ans: "answer H rsp = Inr (rs_code rsp, all)" "raw = take 67108864 all"
    by metis
  have run: "hSubmitDocument (h_L H) (h_oras H n) c ?r s = (rsp, s')"
    using h by (auto simp: limited_def split: if_splits)
  have "rs_body rsp \<noteq> Aborted" using ans(1) by (auto simp: answer_def)
  note ok = hSubmitDocument_ok_status [OF run h(2) this]
  from hSubmitDocument_records [OF wf run ok, unfolded pid, OF new]
  obtain doc sz sess sig where inp: "signedInput (h_oras H n) ?r (cl_Sub c) s = Inr ((doc, None), sz, sess)" "sz = int (length doc)"
    and sig: "Signature pid (sv_st s') = Inr sig" "rsp = writeJSON 200 (submissionResult sig)"
      "GetObject (s_StorageObjectKey sig) (sv_st s') = Inr doc" "s_SignedSHA512 sig = CalculateSHA512 (h_L H) doc"
      "s_SignedSize sig = sz" "s_AccountID sig = cl_Sub c"
    by blast
  have "doc = data" using input [OF inp(1)] .
  moreover have "all = h_json H (submissionResult sig)" using ans(1) sig(2) by (simp add: answer_def writeJSON_def)
  ultimately show ?thesis using sig inp(2) ans(2) st' by auto
qed

lemma SubmitDocument_records:
  assumes conn: "connected H N" and c: "signed_in H c st" and w: "nt_world st = (s, n)" and wf: "srv_wf s"
    and pid: "plain_id pid" and new: "Signature pid (sv_st s) = Inl ErrNotFound"
    and big: "uploadChunkBytes < int (length data) \<Longrightarrow> int (length data) < 2 ^ 63 \<and> upload_ready H s n"
    and run: "client_SubmitDocument N pid data st = (Done m, st')"
  shows "\<exists>s' n' sig. nt_world st' = (s', n') \<and> Signature pid (sv_st s') = Inr sig \<and>
    GetObject (s_StorageObjectKey sig) (sv_st s') = Inr data \<and> s_SignedSHA512 sig = CalculateSHA512 (h_L H) data \<and>
    s_SignedSize sig = int (length data) \<and> s_AccountID sig = cl_Sub c \<and>
    m = N_any N (take 67108864 (h_json H (submissionResult sig)))"
proof -
  let ?path = "''/api/v1/signatures/'' @ pid @ ''/document''"
  have q0: "h_query H [] k = []" for k using conn by (simp add: connected_def query_law_def)
  show ?thesis
  proof (cases "uploadChunkBytes < int (length data)")
    case False
    then obtain raw where call: "api_call N ''PUT'' ?path data ''application/pdf'' st = (Done raw, st')" and m: "m = N_any N raw"
      using run by (auto simp: client_SubmitDocument_def Let_def andThen_Done_iff ret_Done_iff)
    have "CHR ''?'' \<notin> set ?path" using plain_id_chars [OF pid] by simp
    note q = url_query_none [OF this]
    have inp: "doc = data" if "signedInput (h_oras H n) (request_of H [(''public_id'', pid)] (url_query H (h_base H @ ?path))
        (to_wire (nt_client st) ''PUT'' ?path data ''application/pdf'')) (cl_Sub c) s = Inr ((doc, e), sz, sess)" for doc e sz sess
      using signedInput_direct [OF that] unfolding q by (simp add: request_of_def q0 to_wire_def)
    show ?thesis
      using submit_request_records [OF conn c w wf new call route_document(1) [OF pid]] inp m by blast
  next
    case True
    with run obtain i raw st1 where up: "uploadBytes N data st = (Done i, st1)"
      and call: "api_call N ''PUT'' (''/api/v1/signatures/'' @ pid @ ''/document?upload_id='' @ i) [] [] st1 = (Done raw, st')"
      and m: "m = N_any N raw"
      by (auto simp: client_SubmitDocument_def Let_def andThen_Done_iff ret_Done_iff orFail_Done_iff)
    have wfu: "uploads_wf (sv_uploads s)" using wf by (simp add: srv_wf_def)
    have rdy: "fresh_upload (h_oras H n) (sv_uploads s)" "length (o_rnd (h_oras H n) 0) \<le> 1024"
      "- (2 ^ 63) \<le> cf_MaxUploadBytes (sv_cfg s)" "cf_MaxUploadBytes (sv_cfg s) < 2 ^ 63" "int (length data) < 2 ^ 63"
      using big [OF True] by (simp_all add: upload_ready_def)
    from uploadBytes_reaches [OF conn c w rdy(5) wfu rdy(1-4) up]
    obtain s1 n1 where s1: "nt_world st1 = (s1, n1)" "same_store s s1" "signed_in H c st1" "plain_id i"
      "upload_at i (cl_Sub c) data (int (length data)) s1" by blast
    let ?p = "''/api/v1/signatures/'' @ pid @ ''/document?upload_id='' @ i"
    let ?r = "request_of H [(''public_id'', pid)] (url_query H (h_base H @ ?p)) (to_wire (nt_client st1) ''PUT'' ?p [] [])"
    have "plain_id ''upload_id''" by (simp add: plain_id_def plain_char_def byte_in_def)
    then have "h_query H (''upload_id'' @ ''='' @ i) ''upload_id'' = i"
      using conn s1(4) unfolding connected_def query_law_def by blast
    then have q: "rq_query ?r ''upload_id'' = i" unfolding route_document(3) [OF pid] by (simp add: request_of_def)
    have "i \<noteq> []" using s1(4) by (simp add: plain_id_def)
    then have inp: "signedInput (h_oras H n1) ?r (cl_Sub c) s1 = Inr ((doc, e), sz, sess) \<Longrightarrow> doc = data" for doc e sz sess
      using signedInput_upload [OF _ q _ s1(5)] by blast
    have "srv_wf s1" "Signature pid (sv_st s1) = Inl ErrNotFound"
      using s1(2,5) wf new by (simp_all add: srv_wf_def same_store_def upload_at_def)
    from submit_request_records [OF conn s1(3,1) this call route_document(2) [OF pid]] inp m
    show ?thesis by blast
  qed
qed

end
