(* ===== verification/AppClaims.thy ===== *)
theory AppClaims
  imports CAClaims AppProps ClientServer
begin

section \<open>What the desktop client guarantees\<close>

text \<open>
  The properties of the client's vault, of its enrolment, of its signatures and of its exchange with the
  server, with their demonstrations on a small machine. The libraries of the demonstrations satisfy the
  laws the properties ask for.
\<close>

subsection \<open>A machine\<close>

text \<open>A cipher that puts the key in front of the text, a key derivation that gives the PIN, a codec of
  sealed keys that takes only the parameters the code writes.\<close>

definition demo_key_code :: "key_blob \<Rightarrow> bytes" where
  "demo_key_code b = demo_pem_encode (kb_KeyNonce b) (kb_KeyCT b) @ demo_pem_encode (kb_WrapNonce b) (kb_WrapCT b) @
     demo_pem_encode (kb_DPAPIBlob b) (case kb_KDF b of None \<Rightarrow> [] | Some k \<Rightarrow> CHR ''k'' # kd_Salt k)"

definition demo_kdf :: "bytes \<Rightarrow> kdf_params option" where
  "demo_kdf x = (case x of [] \<Rightarrow> None | c # salt \<Rightarrow>
     Some \<lparr>kd_Name = ''argon2id'', kd_TimeCst = 3, kd_MemKiB = 65536, kd_Threads = 4, kd_Salt = salt\<rparr>)"

definition demo_key_decode :: "bytes \<Rightarrow> key_blob result" where
  "demo_key_decode x =
     (case demo_pem_decode x of None \<Rightarrow> Inl (Errorf ''blob'') | Some (kn, kc, r1) \<Rightarrow>
        (case demo_pem_decode r1 of None \<Rightarrow> Inl (Errorf ''blob'') | Some (wn, wc, r2) \<Rightarrow>
           (case demo_pem_decode r2 of None \<Rightarrow> Inl (Errorf ''blob'') | Some (dp, k, r3) \<Rightarrow>
              Inr \<lparr>kb_Version = 1, kb_CreatedAt = 2, kb_KDF = demo_kdf k, kb_KeyNonce = kn, kb_KeyCT = kc,
                kb_WrapNonce = wn, kb_WrapCT = wc, kb_DPAPIBlob = dp\<rparr>)))"

definition demo_key_encode :: "key_blob \<Rightarrow> bytes result" where
  "demo_key_encode b = (if kb_Version b = 1 \<and> kb_CreatedAt b = 2 \<and>
       (case kb_KDF b of None \<Rightarrow> True | Some k \<Rightarrow> Some k = demo_kdf (CHR ''k'' # kd_Salt k))
     then Inr (demo_key_code b) else Inl (Errorf ''blob''))"

definition demo_keylib :: key_lib where
  "demo_keylib = \<lparr>K_rand = (\<lambda>i n. Inr (replicate n (CHR ''r''))), K_NewGCM = (\<lambda>k. None), K_NonceSize = 1,
     K_Seal = (\<lambda>k n p. k @ p),
     K_Open = (\<lambda>k n c. Ret (if take (length k) c = k then Inr (drop (length k) c) else Inl (Errorf ''auth''))),
     K_argon2id = (\<lambda>p salt t m h n. Ret p), K_CryptProtectData = (\<lambda>b e. Inr b), K_CryptUnprotectData = (\<lambda>b e. Inr b),
     K_marshal_blob = demo_key_encode,
     K_unmarshal_blob = demo_key_decode,
     K_marshal_state = (\<lambda>st. cs_DeviceID st), K_unmarshal_state = (\<lambda>b. (state_zero\<lparr>cs_DeviceID := b\<rparr>, None))\<rparr>"

lemma demo_key_roundtrip:
  assumes "kb_Version b = 1" "kb_CreatedAt b = 2" "case kb_KDF b of None \<Rightarrow> True | Some k \<Rightarrow> Some k = demo_kdf (CHR ''k'' # kd_Salt k)"
  shows "demo_key_decode (demo_key_code b) = Inr b"
  using assms demo_pem_roundtrip [of "kb_DPAPIBlob b" _ "[]"]
  by (cases b) (auto simp: demo_key_decode_def demo_key_code_def demo_pem_roundtrip demo_kdf_def split: option.splits)

lemma demo_key_laws: "key_laws demo_keylib"
  using demo_key_roundtrip
  by (auto simp: key_laws_def seal_law_def dpapi_law_def rand_law_def key_blob_law_def demo_keylib_def demo_key_encode_def split: if_splits)

text \<open>A vault with the certificates and the state of an enrolled device, and the key saved under a PIN.\<close>

definition demo_keypem :: bytes where
  "demo_keypem = demo_pem_encode ''PRIVATE KEY'' ''pk''"

definition demo_vault_disk :: disk where
  "demo_vault_disk = \<lparr>d_files = [(''/v/state.json'', ''dev_1''),
       (''/v/certificates/device.crt.pem'', demo_pem_encode ''CERTIFICATE'' ''leaf''),
       (''/v/certificates/ca-chain.pem'', demo_pem_encode ''CERTIFICATE'' ''cacert''),
       (''/v/certificates/root-ca.crt.pem'', demo_pem_encode ''CERTIFICATE'' ''cacert''), (''/doc.pdf'', ''%PDF'')],
     d_dirs = [''/v'', ''/v/keys'', ''/v/certificates'']\<rparr>"

definition demo_key_disk :: disk where
  "demo_key_disk = snd (SaveKey demo_keylib no_faults 2 ''/v'' demo_keypem ''1'' demo_vault_disk)"

text \<open>A server that answers every request with its body.\<close>

definition demo_netlib :: "unit api_lib" where
  "demo_netlib = \<lparr>N_NewRequest = (\<lambda>m u. None), N_Do = (\<lambda>i w x. (Inr (200, w_body w), x)), N_encode = (\<lambda>kvs. ''{}''),
     N_strings = (\<lambda>fs b. (\<lambda>f. if f = ''public_id'' then ''sig_1'' else ''x'', None)), N_int = (\<lambda>f b. 0),
     N_any = (\<lambda>b. [(''status'', JStr ''accepted'')]), N_enrollments = (\<lambda>b. []), N_signatures = (\<lambda>b. []),
     N_placements = (\<lambda>ps. Inr ''[]''), N_float4 = (\<lambda>x. ''0''), N_query = (\<lambda>kvs. []), N_form = (\<lambda>a b c. (c, ''form''))\<rparr>"

definition demo_app_lib :: lib where
  "demo_app_lib = demo_lib4\<lparr>L_pdf_Open := (\<lambda>b. Returns 1 None),
     L_pdf_Signatures := (\<lambda>b o'. Returns 1 (None, [demo_pdf_sig\<lparr>p_Certificate := Some demo_leaf\<rparr>]))\<rparr>"

definition demo_signlib :: sign_lib where
  "demo_signlib = \<lparr>G_CommonName = (\<lambda>c. ''leaf''), G_qrcode = (\<lambda>s. Inr ''qr''), G_Write = (\<lambda>b rq. Returns 1 (Inr (b @ ''+sig'')))\<rparr>"

definition demo_app :: "unit env" where
  "demo_app = \<lparr>e_L = demo_app_lib, e_P = demo_pkilib, e_K = demo_keylib, e_G = demo_signlib, e_N = demo_netlib,
     e_F = no_faults, e_vault = ''/v'', e_now = (\<lambda>n. 2), e_hostname = ''pc'', e_sigs = (\<lambda>b. Returns 1 []),
     e_places = (\<lambda>s. Inr [])\<rparr>"

definition demo_machine :: "unit machine" where
  "demo_machine = \<lparr>m_disk = demo_key_disk, m_net = \<lparr>nt_client = client_New ''https://s'' False, nt_world = ()\<rparr>\<rparr>"

lemma demo_vault_paths:
  "vault_path ''/v'' keyFile = ''/v/keys/device-key.pqk''" "Clean ''/v/keys/device-key.pqk'' = ''/v/keys/device-key.pqk''"
  "Clean ''/v/keys/device-key.pqk.tmp'' = ''/v/keys/device-key.pqk.tmp''"
  "creatable demo_vault_disk ''/v/keys/device-key.pqk.tmp''"
  by code_simp+

lemma demo_key_saved: "SaveKey demo_keylib no_faults 2 ''/v'' demo_keypem ''1'' demo_vault_disk = (Done (), demo_key_disk)"
proof -
  have p: "\<exists>x. Protect demo_keylib 2 demo_keypem ''1'' = Done x"
    by (simp add: Protect_def demo_keylib_def demo_key_encode_def demo_keypem_def demo_pem_encode_def seal_def wrap_with_pin_def pinKey_def
        dpapiProtect_def demo_kdf_def Let_def)
  then obtain x where p: "Protect demo_keylib 2 demo_keypem ''1'' = Done x" by blast
  have c: "creatable d ''/v/keys/device-key.pqk''" if "d_dirs d = d_dirs demo_vault_disk" for d
    using that by (simp add: creatable_def is_dir_def demo_vault_disk_def) code_simp
  have "fst (SaveKey demo_keylib no_faults 2 ''/v'' demo_keypem ''1'' demo_vault_disk) = Done ()"
    by (simp add: SaveKey_def andThen_lift lift_def p writeFile_def Let_def demo_vault_paths syscall_def andThen_def WriteFile_def write_over_def
        no_faults_def Rename_def put_file_def c)
  then show ?thesis by (simp add: demo_key_disk_def prod_eq_iff)
qed

lemma demo_key_loads: "loads demo_app ''1'' demo_machine demo_keypem"
  using saved_key_loads [OF demo_key_laws demo_json_time _ demo_key_saved]
  by (simp add: demo_app_def demo_machine_def no_faults_def)

subsection \<open>The key\<close>



text \<open>C36: Changing the PIN never loses the device key: however the change ends, the key is still there under the old
  PIN or under the new one, under the new one if the change succeeded; nothing is sent to the server and no other
  file of the vault than the client's state changes.\<close>

theorem SetPIN_never_loses_key:
  assumes "key_laws (e_K E)" "json_time (e_now E 0)" and "loads E oldPIN s k" and "SetPIN E oldPIN newPIN s = (r, s')"
  shows "(loads E oldPIN s' k \<or> loads E newPIN s' k) \<and> (r = Done () \<longrightarrow> loads E newPIN s' k) \<and> m_net s' = m_net s \<and>
    (\<forall>rel. vault_rel rel \<longrightarrow> rel \<noteq> keyFile \<longrightarrow> rel \<noteq> stateFile \<longrightarrow>
       vault_file (e_vault E) rel (m_disk s') = vault_file (e_vault E) rel (m_disk s))"
  using SetPIN_keeps [OF assms] by blast

theorem SetPIN_never_loses_key_witness:
  "\<exists>r s'. SetPIN demo_app ''1'' ''2'' demo_machine = (r, s') \<and>
     (loads demo_app ''1'' s' demo_keypem \<or> loads demo_app ''2'' s' demo_keypem)"
proof -
  obtain r s' where run: "SetPIN demo_app ''1'' ''2'' demo_machine = (r, s')" by fastforce
  have "key_laws (e_K demo_app)" "json_time (e_now demo_app 0)"
    using demo_key_laws demo_json_time by (simp_all add: demo_app_def)
  from SetPIN_never_loses_key [OF this demo_key_loads run] run show ?thesis by blast
qed

subsection \<open>Enrolment\<close>

text \<open>A key without a PIN, and a server that answers every request with a certificate.\<close>

definition demo_plain_disk :: disk where
  "demo_plain_disk = snd (SaveKey demo_keylib no_faults 2 ''/v'' demo_keypem [] demo_vault_disk)"

definition demo_certlib :: "unit api_lib" where
  "demo_certlib = demo_netlib\<lparr>N_Do := (\<lambda>i w x. (Inr (200, demo_pem_encode ''CERTIFICATE'' ''leaf''), x))\<rparr>"

definition demo_new_machine :: "unit machine" where
  "demo_new_machine = \<lparr>m_disk = demo_plain_disk\<lparr>d_files :=
     AList.delete ''/v/certificates/device.crt.pem'' (d_files demo_plain_disk)\<rparr>,
     m_net = \<lparr>nt_client = client_New ''https://s'' False, nt_world = ()\<rparr>\<rparr>"

definition demo_new_app :: "unit env" where
  "demo_new_app = demo_app\<lparr>e_N := demo_certlib\<rparr>"

definition demo_certpem :: bytes where
  "demo_certpem = demo_pem_encode ''CERTIFICATE'' ''leaf''"

lemma demo_certlib_call: "api_do demo_certlib m p b c st = ((demo_certpem, 200, None), st)"
  by (simp add: api_do_def demo_certlib_def demo_netlib_def api_error_def demo_certpem_def demo_pem_encode_def)

lemma demo_DeviceCertificate: "client_DeviceCertificate demo_certlib dev st = (Done demo_certpem, st)"
  by (simp add: client_DeviceCertificate_def demo_certlib_call)

lemma demo_new_runs:
  "fst (SaveKey demo_keylib no_faults 2 ''/v'' demo_keypem [] demo_vault_disk) = Done ()"
  "fst (HasKey ''/v'' (m_disk demo_new_machine)) = Done True"
  "cached_certificate demo_new_app demo_new_machine = (Done None, demo_new_machine)"
  "fst (app_state demo_new_app demo_new_machine) = Done (state_zero\<lparr>cs_DeviceID := ''dev_1''\<rparr>)"
  "fst (fresh_certificate demo_new_app [] demo_certpem demo_new_machine) = Done (Describe demo_app_lib demo_leaf)"
  "vault_file ''/v'' deviceCert (m_disk demo_new_machine) = None"
  by code_simp+

lemma ignore_app_save: "\<exists>s'. ignore (app_save E n st) s = (Done (), s')"
proof -
  obtain r d where w: "SaveState (e_K E) (e_F E) (e_now E n) (e_vault E) st (m_disk s) = (r, d)" by fastforce
  then have "r = Done () \<or> (\<exists>e. r = Fail e)"
    unfolding SaveState_def by (rule write_vault(1) [rotated]) simp
  then show ?thesis
    using w by (auto simp: ignore_def app_save_def on_disk_def within_def andThen_def attempt_def ret_def)
qed

lemma demo_status: "\<exists>info s'. CertificateStatus demo_new_app [] demo_new_machine = (Done (CertOk info), s')"
proof -
  have E: "e_vault demo_new_app = ''/v''" "e_N demo_new_app = demo_certlib" by (simp_all add: demo_new_app_def demo_app_def)
  have net: "on_net (client_DeviceCertificate demo_certlib dev) s = (Done demo_certpem, s)" for dev and s :: "unit machine"
    by (simp add: on_net_def within_def demo_DeviceCertificate)
  obtain s1 where f: "fresh_certificate demo_new_app [] demo_certpem demo_new_machine = (Done (Describe demo_app_lib demo_leaf), s1)"
    using demo_new_runs(5) by (metis prod.collapse)
  obtain s2 where sv: "ignore (app_save demo_new_app 5 (state_zero\<lparr>cs_DeviceID := ''dev_1'',
      cs_CertificateSN := ci_SerialNumber (Describe demo_app_lib demo_leaf)\<rparr>)) s1 = (Done (), s2)"
    using ignore_app_save by blast
  have st: "fst (vault_State (e_K demo_new_app) (e_F demo_new_app) (e_vault demo_new_app) (m_disk demo_new_machine)) =
      state_zero\<lparr>cs_DeviceID := ''dev_1''\<rparr>"
    using demo_new_runs(4) by (simp add: app_state_run)
  have poll: "poll_certificate demo_new_app [] demo_new_machine = (Done (CertOk (Describe demo_app_lib demo_leaf)), s2)"
    using f sv by (simp add: poll_certificate_def andThen_def app_state_run st [unfolded E(1)] E attempt_run(1) [OF net] ret_def)
  have "Stat (m_disk demo_new_machine) (vault_path ''/v'' keyFile)"
    using demo_new_runs(2) by (simp add: HasKey_def gets_def)
  then show ?thesis
    using demo_new_runs(3) by (simp add: CertificateStatus_def E andThen_def HasKey_run poll)
qed



subsection \<open>Signing\<close>


definition demo_sign_machine :: "unit machine" where
  "demo_sign_machine = \<lparr>m_disk = demo_plain_disk, m_net = \<lparr>nt_client = client_New ''https://s'' False, nt_world = ()\<rparr>\<rparr>"

lemma demo_api_do: "length b \<le> 67108864 \<Longrightarrow> api_do demo_netlib m p b c st = ((b, 200, None), st)"
  by (simp add: api_do_def demo_netlib_def api_error_def to_wire_def)

lemma demo_api_call: "length b \<le> 67108864 \<Longrightarrow> api_call demo_netlib m p b c st = (Done b, st)"
  by (simp add: api_call_def demo_api_do)

definition demo_res :: client_reservation where
  "demo_res = \<lparr>cr_PublicID = ''sig_1'', cr_VerificationURL = ''x'', cr_ExpiresAt = ''x''\<rparr>"

definition demo_sn :: sign_result where
  "demo_sn = sign_result_of demo_app_lib ''%PDF'' demo_leaf (client_sign_options ''r'' ''me'' demo_res) 2 ''%PDF+sig''"

lemma demo_Reserve: "client_Reserve demo_netlib dev h f st = (Done demo_res, st)"
proof -
  have n: "N_encode demo_netlib kvs = ''{}''" "N_strings demo_netlib fs b = (\<lambda>f. if f = ''public_id'' then ''sig_1'' else ''x'', None)" for kvs fs b
    by (simp_all add: demo_netlib_def)
  show ?thesis
    by (simp add: client_Reserve_def postJSON_def n demo_api_call andThen_def ret_def demo_res_def Let_def)
qed

lemma demo_Stamp: "client_Stamp demo_netlib i ''%PDF'' places r p st = (Done ''%PDF'', st)"
  by (simp add: client_Stamp_def demo_api_call Let_def)

lemma demo_Submit: "client_SubmitDocument demo_netlib i ''%PDF+sig'' st = (Done [(''status'', JStr ''accepted'')], st)"
  by (simp add: client_SubmitDocument_def demo_api_call Let_def andThen_def ret_def) (simp add: demo_netlib_def)

lemma demo_sign_runs:
  "ReadFile no_faults demo_plain_disk ''/doc.pdf'' = Inr ''%PDF''"
  "ListPDFSignatures demo_app_lib (e_sigs demo_app) ''%PDF'' = Some (Inr [])"
  "cached_pems demo_app demo_sign_machine = (Done (demo_pem_encode ''CERTIFICATE'' ''cacert'', demo_certpem,
     demo_pem_encode ''CERTIFICATE'' ''cacert''), demo_sign_machine)"
  "LoadKey demo_keylib no_faults ''/v'' [] demo_plain_disk = (Done demo_keypem, demo_plain_disk)"
  "SignPDF demo_app_lib demo_pkilib demo_signlib (\<lambda>n. 2) ''%PDF'' demo_keypem (demo_certpem @ demo_pem_encode ''CERTIFICATE'' ''cacert'')
     (client_sign_options ''r'' ''me'' demo_res) = Some (Inr demo_sn)"
  "fst (WriteFile no_faults ''/out.pdf'' ''%PDF+sig'' demo_plain_disk) = None"
  "ParseChainPEM demo_app_lib (demo_pem_encode ''CERTIFICATE'' ''cacert'') = Inr [demo_ca_cert]"
  by code_simp+

lemma demo_check: "check_local demo_app (demo_pem_encode ''CERTIFICATE'' ''cacert'')
     (demo_pem_encode ''CERTIFICATE'' ''cacert'') ''%PDF+sig'' s = (Done (), s)"
proof -
  have "\<exists>vr. VerifyPDF demo_app_lib 2 ''%PDF+sig'' (local_options (demo_pem_encode ''CERTIFICATE'' ''cacert'')
      (demo_pem_encode ''CERTIFICATE'' ''cacert'')) = Some (Inr vr) \<and> vr_Valid vr"
    by (simp add: demo_verify_defs local_options_def demo_app_lib_def demo_lib4_def demo_lib3_def demo_lib2_def demo_leaf_def
        demo_pem_encode_def demo_sign_runs(7) [unfolded demo_app_lib_def demo_lib4_def demo_lib3_def demo_lib2_def])
  then show ?thesis
    by (auto simp: check_local_def demo_app_def ofReturn_def andThen_def lift_def ret_def)
qed

lemma demo_signs: "\<exists>out s'. app_signPDF demo_app ''/doc.pdf'' ''/out.pdf'' ''r'' ''me'' [] [] [] demo_sign_machine = (Done out, s') \<and>
    sg_ServerStatus out = ''accepted''"
proof -
  let ?root = "demo_pem_encode ''CERTIFICATE'' ''cacert''"
  have m: "m_disk demo_sign_machine = demo_plain_disk" by (simp add: demo_sign_machine_def)
  have stp: "on_net (client_Stamp demo_netlib i ''%PDF'' ps r p) s = (Done ''%PDF'', s)" for i ps r p and s :: "unit machine"
    by (simp add: on_net_def within_def demo_Stamp)
  have rsv: "on_net (client_Reserve demo_netlib dev h f) s = (Done demo_res, s)" for dev h f and s :: "unit machine"
    by (simp add: on_net_def within_def demo_Reserve)
  have sub: "on_net (client_SubmitDocument demo_netlib i ''%PDF+sig'') s = (Done [(''status'', JStr ''accepted'')], s)"
    for i and s :: "unit machine" by (simp add: on_net_def within_def demo_Submit)
  have dsk: "on_disk q s = (Done x, s)" if "q (m_disk s) = (Done x, m_disk s)" for q x and s :: "unit machine"
    using that by (simp add: on_disk_def within_def)
  have rd: "on_disk (read_file no_faults ''/doc.pdf'') demo_sign_machine = (Done ''%PDF'', demo_sign_machine)"
    by (rule dsk) (simp add: m read_file_def demo_sign_runs(1))
  have ld: "on_disk (LoadKey demo_keylib no_faults ''/v'' []) demo_sign_machine = (Done demo_keypem, demo_sign_machine)"
    by (rule dsk) (simp add: m demo_sign_runs(4))
  have E: "e_L demo_app = demo_app_lib" "e_P demo_app = demo_pkilib" "e_K demo_app = demo_keylib" "e_G demo_app = demo_signlib"
    "e_N demo_app = demo_netlib" "e_F demo_app = no_faults" "e_vault demo_app = ''/v''" "e_now demo_app = (\<lambda>n. 2)"
    by (simp_all add: demo_app_def)
  have loc: "sign_locally demo_app [] ''%PDF'' (demo_certpem @ ?root) ?root ?root (client_sign_options ''r'' ''me'' demo_res) demo_sign_machine
      = (Done demo_sn, demo_sign_machine)"
    by (simp add: sign_locally_def E andThen_def ld lift_def demo_sign_runs(5) orFail_def attempt_def ret_def)
       (simp add: demo_sn_def sign_result_of_def demo_check ret_def)
  obtain s' where wr: "on_disk (syscall (WriteFile no_faults ''/out.pdf'' ''%PDF+sig'')) demo_sign_machine = (Done (), s')"
    using demo_sign_runs(6) by (cases "WriteFile no_faults ''/out.pdf'' ''%PDF+sig'' demo_plain_disk")
      (auto simp: on_disk_def within_def syscall_def m)
  have st: "stamped demo_app (cr_PublicID demo_res) ''%PDF'' [] ''r'' [] demo_sign_machine = (Done ''%PDF'', demo_sign_machine)"
    by (simp add: stamped_def E andThen_def stp ret_def)
  have sn: "sn_SignedPDF demo_sn = ''%PDF+sig''" by (simp add: demo_sn_def sign_result_of_def)
  have rest: "\<exists>out. sign_and_submit demo_app ''/doc.pdf'' ''/out.pdf'' ''r'' ''me'' [] [] [] ''%PDF'' ?root demo_certpem ?root demo_sign_machine
      = (Done out, s') \<and> sg_ServerStatus out = ''accepted''"
    using st loc by (simp add: sign_and_submit_def Let_def andThen_def app_state_run E orFail_def rsv ret_def
        sub sn wr server_status_def)
  then show ?thesis
    using rd by (auto simp: app_signPDF_def E andThen_def demo_sign_runs(2,3) lift_def ofReturn_def)
qed


subsection \<open>Uploading\<close>

text \<open>C39: An upload ends whatever the server answers: it is one request to open the session and at most one per byte of
  the document, because a chunk is only followed by another if the server reports progress; it does not hang, and the
  address and the token of the client stay as they are.\<close>

theorem upload_requests_bounded:
  assumes "\<And>i w x. cnt (snd (N_Do N i w x)) \<le> Suc (cnt x)"
  shows "cnt (nt_world (snd (uploadBytes N data st))) \<le> cnt (nt_world st) + length data + 1 \<and>
    fst (uploadBytes N data st) \<noteq> Hang \<and> nt_client (snd (uploadBytes N data st)) = nt_client st"
proof -
  obtain q st1 where p: "api_call N ''POST'' ''/api/v1/uploads'' [] [] st = (q, st1)" by fastforce
  have one: "cnt (nt_world st1) \<le> Suc (cnt (nt_world st))"
    using api_call_count [of cnt N, OF assms] p by (metis snd_conv)
  have c1: "nt_client st1 = nt_client st" using movesD [OF api_call_keeps p] by (simp add: same_def)
  have q: "q \<noteq> Hang" using p by (auto simp: api_call_def split: prod.splits option.splits)
  let ?i = "\<lambda>raw. fst (N_strings N [''upload_id''] raw) ''upload_id''"
  show ?thesis
  proof (cases "\<exists>raw. q = Done raw \<and> ?i raw \<noteq> []")
    case True
    then obtain raw where raw: "q = Done raw" "?i raw \<noteq> []" by blast
    obtain r st2 where l: "upload_loop N (?i raw) data 0 st1 = (r, st2)" by fastforce
    have n: "cnt (nt_world st2) \<le> cnt (nt_world st1) + length data"
      using upload_loop_count [of cnt N "?i raw" data 0 st1, OF assms] l by simp
    have r: "r \<noteq> Hang" using upload_loop_no_hang l by (metis fst_conv)
    have c: "nt_client st2 = nt_client st1" using upload_loop_keeps [of N "?i raw" data 0 st1] l by simp
    have "uploadBytes N data st = on_done (\<lambda>u. ret (?i raw)) (r, st2)"
      using p raw l by (simp add: uploadBytes_def andThen_def Let_def)
    then show ?thesis using n one c c1 r by (cases r) (simp_all add: ret_def)
  next
    case False
    then have "uploadBytes N data st = (Fail (Errorf ''respons unggah tanpa upload_id''), st1) \<or>
        (\<exists>e. uploadBytes N data st = (Fail e, st1)) \<or> (\<exists>m. uploadBytes N data st = (Crash m, st1))"
      using p q by (cases q) (auto simp: uploadBytes_def andThen_def Let_def fail_def)
    then show ?thesis using one c1 by auto
  qed
qed

text \<open>A server that counts its requests and takes one byte of every chunk.\<close>

definition demo_countlib :: "nat api_lib" where
  "demo_countlib = \<lparr>N_NewRequest = (\<lambda>m u. None), N_Do = (\<lambda>i w x. (Inr (200, w_url w), Suc x)), N_encode = (\<lambda>kvs. ''{}''),
     N_strings = (\<lambda>fs b. (\<lambda>f. ''x'', None)), N_int = (\<lambda>f b. ParseInt64 [last b] + 1),
     N_any = (\<lambda>b. []), N_enrollments = (\<lambda>b. []), N_signatures = (\<lambda>b. []),
     N_placements = (\<lambda>ps. Inr ''[]''), N_float4 = (\<lambda>x. ''0''), N_query = (\<lambda>kvs. []), N_form = (\<lambda>a b c. (c, ''form''))\<rparr>"

theorem upload_requests_bounded_witness:
  "nt_world (snd (uploadBytes demo_countlib ''%PDF'' \<lparr>nt_client = client_New ''https://s'' False, nt_world = 0\<rparr>)) \<le> 5"
  using upload_requests_bounded [of "\<lambda>n. n" demo_countlib "''%PDF''" "\<lparr>nt_client = client_New ''https://s'' False, nt_world = 0\<rparr>"]
  by (simp add: demo_countlib_def)

subsection \<open>Submitting to the server\<close>


text \<open>A codec of small objects.\<close>

fun demo_value :: "json \<Rightarrow> bytes" where
  "demo_value (JStr x) = CHR ''s'' # x"
| "demo_value (JInt n) = CHR ''i'' # hex_int n"
| "demo_value _ = []"

definition demo_unvalue :: "bytes \<Rightarrow> json" where
  "demo_unvalue b = (case b of [] \<Rightarrow> JStr [] | c # x \<Rightarrow> if c = CHR ''s'' then JStr x
     else JInt (case SetString16 x of None \<Rightarrow> 0 | Some i \<Rightarrow> i))"

fun demo_json :: "json \<Rightarrow> bytes" where
  "demo_json (JObj kvs) = CHR ''{'' # concat (map (\<lambda>(f, v). demo_pem_encode f (demo_value v)) kvs)"
| "demo_json _ = ''?''"

fun demo_fields :: "nat \<Rightarrow> bytes \<Rightarrow> (string \<times> json) list" where
  "demo_fields 0 b = []"
| "demo_fields (Suc n) b = (case demo_pem_decode b of None \<Rightarrow> [] | Some (f, v, r) \<Rightarrow> (f, demo_unvalue v) # demo_fields n r)"

definition demo_any :: "bytes \<Rightarrow> (string, json) gomap" where
  "demo_any b = demo_fields 16 (tl b)"

lemma demo_unvalue: "small_value v \<Longrightarrow> demo_unvalue (demo_value v) = v"
  by (cases v) (simp_all add: demo_unvalue_def SetString16_hex_int)

lemma demo_fields_decode:
  "list_all (\<lambda>(f, v). small_value v) kvs \<Longrightarrow> length kvs \<le> n \<Longrightarrow>
     demo_fields n (concat (map (\<lambda>(f, v). demo_pem_encode f (demo_value v)) kvs)) = kvs"
proof (induction kvs arbitrary: n)
  case Nil
  have "demo_pem_decode [] = None" by (simp add: demo_pem_decode_def)
  then show ?case by (cases n) simp_all
next
  case (Cons kv kvs)
  then obtain m where "n = Suc m" by (cases n) auto
  with Cons show ?case by (auto simp: demo_pem_roundtrip demo_unvalue split: prod.splits)
qed

lemma demo_any_json: "small_object kvs \<Longrightarrow> demo_any (demo_json (JObj kvs)) = kvs"
  by (auto simp: demo_any_def small_object_def list_all_iff intro!: demo_fields_decode)

lemma hex_nat_length: "n < 16 ^ Suc k \<Longrightarrow> length (hex_nat n) \<le> Suc k"
proof (induction k arbitrary: n)
  case 0
  then show ?case by (subst hex_nat.simps) simp
next
  case (Suc k)
  have "n div 16 < 16 ^ Suc k" using Suc.prems by (simp add: less_mult_imp_div_less mult.commute)
  then show ?case using Suc.IH [of "n div 16"] by (subst hex_nat.simps) simp
qed

lemma demo_value_length: "small_value v \<Longrightarrow> length (demo_value v) \<le> 4097"
proof (cases v)
  case (JInt n)
  assume "small_value v"
  then have "nat (abs n) < 16 ^ Suc 15" using JInt by auto
  then have "length (hex_nat (nat (abs n))) \<le> 16" using hex_nat_length [of "nat (abs n)" 15] by simp
  then show ?thesis using JInt by (auto simp: hex_int_def split: if_splits)
qed auto

lemma demo_json_length: "small_object kvs \<Longrightarrow> length (demo_json (JObj kvs)) \<le> 67108864"
proof -
  assume s: "small_object kvs"
  have one: "length (demo_pem_encode f (demo_value v)) \<le> 8324" if "(f, v) \<in> set kvs" for f v
    using s that demo_value_length by (fastforce simp: small_object_def list_all_iff demo_pem_encode_def)
  have "length (concat (map (\<lambda>(f, v). demo_pem_encode f (demo_value v)) xs)) \<le> 8324 * length xs"
    if "set xs \<subseteq> set kvs" for xs using that
  proof (induction xs)
    case (Cons x xs)
    then show ?case using one [of "fst x" "snd x"] by (cases x) auto
  qed simp
  from this [of kvs] s show ?thesis by (simp add: small_object_def)
qed

definition demo_wire_lib :: "world api_lib" where
  "demo_wire_lib = \<lparr>N_NewRequest = (\<lambda>m u. None), N_Do = (\<lambda>i w x. (Inl (Errorf ''offline''), x)), N_encode = (\<lambda>kvs. ''{}''),
     N_strings = (\<lambda>fs b. (\<lambda>f. case map_of (demo_any b) f of Some (JStr x) \<Rightarrow> x | _ \<Rightarrow> [], None)),
     N_int = (\<lambda>f b. case map_of (demo_any b) f of Some (JInt n) \<Rightarrow> n | _ \<Rightarrow> 0),
     N_any = demo_any, N_enrollments = (\<lambda>b. []), N_signatures = (\<lambda>b. []),
     N_placements = (\<lambda>ps. Inr ''[]''), N_float4 = (\<lambda>x. ''0''), N_query = (\<lambda>kvs. []), N_form = (\<lambda>a b c. (c, ''form''))\<rparr>"

definition demo_http :: http_env where
  "demo_http = \<lparr>h_L = demo_pdf_lib, h_oras = (\<lambda>n. demo_orc), h_json = demo_json,
     h_query = (\<lambda>q k. if HasPrefix q (k @ ''='') then drop (length k + 1) q else []),
     h_file = (\<lambda>w. None), h_peer = demo_request, h_base = ''https://s''\<rparr>"

definition demo_online :: "world api_lib" where
  "demo_online = demo_wire_lib\<lparr>N_Do := serve_wire demo_http\<rparr>"

lemma demo_connected: "connected demo_http demo_online"
proof -
  have "codec_law demo_http demo_online"
    unfolding codec_law_def
    using demo_json_length demo_any_json by (auto simp: demo_http_def demo_online_def demo_wire_lib_def)
  moreover have "query_law demo_http"
    by (auto simp: query_law_def demo_http_def HasPrefix_def plain_id_def)
  ultimately show ?thesis by (simp add: connected_def demo_online_def)
qed

definition demo_online_net :: "world net" where
  "demo_online_net = \<lparr>nt_client = \<lparr>ac_base = ''https://s'', ac_insecure = False,
       ac_token = Issue demo_pdf_lib (sv_signer demo_server) 5 ''acct_1'' RoleUser\<rparr>, nt_world = (demo_server, 0)\<rparr>"

lemma demo_token_nonempty: "Issue demo_pdf_lib (sv_signer demo_server) 5 ''acct_1'' RoleUser \<noteq> []"
  by (simp add: Issue_def Let_def)

lemma demo_signed_in: "signed_in demo_http demo_claims demo_online_net"
proof -
  have "caller demo_pdf_lib demo_orc demo_submission demo_server = Some demo_claims"
    by (rule demo_session_caller) (simp_all add: demo_pdf_lib_def demo_pki_def demo_lib_def)
  moreover have "bearer demo_submission = Some (Issue demo_pdf_lib (sv_signer demo_server) 5 ''acct_1'' RoleUser)"
    using demo_token_nonempty by (simp add: bearer_def demo_session_def HasPrefix_def)
  ultimately have "Parse demo_pdf_lib (sv_signer demo_server) (o_auth demo_orc)
      (Issue demo_pdf_lib (sv_signer demo_server) 5 ''acct_1'' RoleUser) = Inr demo_claims"
    by (simp add: caller_def split: sum.splits)
  then show ?thesis using demo_token_nonempty by (simp add: signed_in_def demo_online_net_def demo_http_def)
qed

lemma hSubmitDocument_cong:
  "rq_path r ''public_id'' = rq_path r' ''public_id'' \<Longrightarrow> signedInput ora r (cl_Sub c) s = signedInput ora r' (cl_Sub c) s \<Longrightarrow>
     hSubmitDocument L ora c r s = hSubmitDocument L ora c r' s"
  unfolding hSubmitDocument_def by (simp only:)

lemma demo_online_submits: "\<exists>m st'. client_SubmitDocument demo_online ''sig_1'' ''%PDF-x'' demo_online_net = (Done m, st')"
proof -
  let ?p = "''/api/v1/signatures/'' @ ''sig_1'' @ ''/document''"
  let ?w = "to_wire (nt_client demo_online_net) ''PUT'' ?p ''%PDF-x'' ''application/pdf''"
  let ?r = "request_of demo_http [(''public_id'', ''sig_1'')] (url_query demo_http (h_base demo_http @ ?p)) ?w"
  have pid: "plain_id ''sig_1''" by (simp add: plain_id_def plain_char_def byte_in_def)
  have "CHR ''?'' \<notin> set ?p" by simp
  note q = url_query_none [OF this, of demo_http]
  have url: "w_url ?w = h_base demo_http @ ?p" "w_method ?w = ''PUT''"
    by (simp_all add: to_wire_def demo_online_net_def demo_http_def)
  obtain resp where h: "hSubmitDocument demo_pdf_lib demo_orc demo_claims demo_submission demo_server = (resp, demo_submitted)"
    "rs_code resp = 200" using demo_submit_run by blast
  have in1: "signedInput demo_orc ?r ''acct_1'' demo_server = signedInput demo_orc demo_submission ''acct_1'' demo_server"
    unfolding q by (simp add: signedInput_def request_of_def to_wire_def demo_session_def demo_request_def demo_http_def HasPrefix_def
        readBody_def)
  have "hSubmitDocument demo_pdf_lib demo_orc demo_claims ?r demo_server = (resp, demo_submitted)"
    using h(1) hSubmitDocument_cong [of ?r demo_submission demo_orc demo_claims demo_server demo_pdf_lib] in1
    by (simp add: issued_claims_def) (simp add: request_of_def demo_session_def demo_request_def)
  moreover have "caller demo_pdf_lib demo_orc ?r demo_server = Some demo_claims"
    using demo_signed_in demo_token_nonempty
    by (simp add: caller_def bearer_def request_of_def to_wire_def signed_in_def demo_online_net_def demo_http_def HasPrefix_def)
  ultimately have d: "dispatch RSubmit (h_L demo_http) (h_oras demo_http 0) claims_zero ?r demo_server = (resp, demo_submitted)"
    by (simp add: user_def authed_cases role_allows_def limited_def demo_http_def demo_orc_def)
  have "rq_path demo_submission ''public_id'' = ''sig_1''" by (simp add: demo_session_def demo_request_def)
  then have "Signature (rq_path demo_submission ''public_id'') (sv_st demo_server) = Inl ErrNotFound"
    by (simp add: Signature_def demo_server_def demo_store_def NewMemory_def)
  from hSubmitDocument_records [OF demo_server_wf h this] obtain v where v: "rs_body resp = BJson v"
    by (auto simp: writeJSON_def)
  have "serve_wire demo_http i ?w (demo_server, 0) = (answer demo_http resp, (demo_submitted, Suc 0))" for i
    unfolding serve_wire_def Let_def prod.case url route_document(1) [OF pid, of demo_http] option.case d by simp
  moreover have "N_Do demo_online = serve_wire demo_http" "nt_world demo_online_net = (demo_server, 0)"
    by (simp_all add: demo_online_def demo_online_net_def)
  moreover have "answer demo_http resp = Inr (200, demo_json v)"
    using h(2) v by (simp add: answer_def demo_http_def)
  ultimately have "N_Do demo_online (ac_insecure (nt_client demo_online_net)) ?w (nt_world demo_online_net) =
      (Inr (200, demo_json v), (demo_submitted, Suc 0))" by simp
  then have "api_call demo_online ''PUT'' ?p ''%PDF-x'' ''application/pdf'' demo_online_net =
      (Done (take 67108864 (demo_json v)), demo_online_net\<lparr>nt_world := (demo_submitted, Suc 0)\<rparr>)"
    by (simp add: api_call_def api_do_def api_error_def Let_def) (simp add: demo_online_def demo_wire_lib_def api_error_def Let_def)
  then show ?thesis by (simp add: client_SubmitDocument_def Let_def andThen_def ret_def)
qed


subsection \<open>Enrolling again\<close>

text \<open>C40: A pending enrolment does not survive the next start of the client: when the server answers 404 for the
  certificate of the recorded device - which it also does while an enrolment waits for approval - and \<open>EnsureEnrolled\<close>
  succeeds, the vault holds a newly generated key, sealed under the given PIN, in place of the one that was waiting.\<close>

theorem pending_enrolment_replaced:
  assumes run: "EnsureEnrolled E pin s = (Done st, s')"
    and dev: "cs_DeviceID (fst (vault_State (e_K E) (e_F E) (e_vault E) (m_disk s))) = dev" "dev \<noteq> []"
    and ans: "api_do (e_N E) ''GET'' (''/api/v1/devices/'' @ dev @ ''/certificate'') [] [] (m_net s) = ((raw, 404, err), n)"
  shows "\<exists>sk pkcs8 x. GenerateMLDSA65Key (e_P E) 0 = Inr sk \<and> MarshalPKCS8PEM (e_P E) (Some sk) = Inr pkcs8 \<and>
    Protect (e_K E) (e_now E 1) pkcs8 pin = Done x \<and> key_in E s' = Some x"
proof -
  have "deviceUnknownToServer E s = (Done True, s\<lparr>m_net := n\<rparr>)"
    by (rule unknown_404) (use dev ans in simp_all)
  then show ?thesis using EnsureEnrolled_replaces [OF run] by blast
qed

text \<open>A server that takes every request and has no certificate.\<close>

definition demo_pendlib :: "unit api_lib" where
  "demo_pendlib = demo_netlib\<lparr>N_Do := (\<lambda>i w x. (Inr (if w_method w = ''GET'' then 404 else 200, ''{}''), x))\<rparr>"

definition demo_pend_app :: "unit env" where
  "demo_pend_app = demo_app\<lparr>e_N := demo_pendlib\<rparr>"

lemma demo_pend_get: "api_do demo_pendlib ''GET'' p b c st = ((''{}'', 404, Some (ApiError 404 ''x'')), st)"
  by (simp add: api_do_def demo_pendlib_def demo_netlib_def api_error_def to_wire_def)

lemma demo_pend_post: "api_call demo_pendlib ''POST'' p b c st = (Done ''{}'', st)"
  by (simp add: api_call_def api_do_def demo_pendlib_def demo_netlib_def api_error_def to_wire_def)

definition demo_wiped :: "unit machine" where
  "demo_wiped = snd (wipeDeviceState demo_pend_app demo_sign_machine)"

definition demo_keyed :: "unit machine" where
  "demo_keyed = snd (on_disk (SaveKey demo_keylib no_faults 2 ''/v'' (demo_pem_encode ''PRIVATE KEY'' ''0'') []) demo_wiped)"

definition demo_enrolled :: client_state where
  "demo_enrolled = (fst (vault_State demo_keylib no_faults ''/v'' (m_disk demo_keyed)))\<lparr>cs_DeviceID := ''x'', cs_EnrollmentID := ''x'', cs_HasPIN := False\<rparr>"

lemma demo_pend_runs:
  "fst (wipeDeviceState demo_pend_app demo_sign_machine) = Done ()"
  "fst (on_disk (SaveKey demo_keylib no_faults 2 ''/v'' (demo_pem_encode ''PRIVATE KEY'' ''0'') []) demo_wiped) = Done ()"
  "GenerateMLDSA65Key demo_pkilib 0 = Inr \<lparr>sk_params = ''ML-DSA-65'', sk_bytes = ''0''\<rparr>"
  "MarshalPKCS8PEM demo_pkilib (Some \<lparr>sk_params = ''ML-DSA-65'', sk_bytes = ''0''\<rparr>) = Inr (demo_pem_encode ''PRIVATE KEY'' ''0'')"
  "fst (app_save demo_pend_app 2 demo_enrolled demo_keyed) = Done ()"
  "fst (HasKey ''/v'' (m_disk demo_sign_machine)) = Done True"
  "cs_DeviceID (fst (vault_State demo_keylib no_faults ''/v'' (m_disk demo_sign_machine))) = ''dev_1''"
  by code_simp+

definition demo_replaced :: "unit machine" where
  "demo_replaced = snd (app_save demo_pend_app 2 demo_enrolled demo_keyed)"

lemma demo_pend_ends:
  "\<not> isl (CreateDeviceCSR demo_app_lib demo_pkilib (demo_pem_encode ''PRIVATE KEY'' ''0'')
     \<lparr>rqs_CommonName = ''Windows pc'', rqs_Organization = [], rqs_OrganizationalUnit = []\<rparr>)"
  "Stat (m_disk demo_replaced) (vault_path ''/v'' keyFile)"
  "cached_certificate demo_pend_app demo_replaced = (Done None, demo_replaced)"
  "cs_DeviceID (fst (vault_State demo_keylib no_faults ''/v'' (m_disk demo_replaced))) = ''x''"
  by code_simp+

lemma demo_pend_run: "\<exists>s'. EnsureEnrolled demo_pend_app [] demo_sign_machine = (Done CertPending, s')"
proof -
  let ?req = "\<lparr>rqs_CommonName = ''Windows pc'', rqs_Organization = [], rqs_OrganizationalUnit = []\<rparr>"
  have E: "e_N demo_pend_app = demo_pendlib" "e_K demo_pend_app = demo_keylib" "e_F demo_pend_app = no_faults" "e_vault demo_pend_app = ''/v''"
    "e_P demo_pend_app = demo_pkilib" "e_L demo_pend_app = demo_app_lib" "e_now demo_pend_app = (\<lambda>n. 2)" "e_hostname demo_pend_app = ''pc''"
    by (simp_all add: demo_pend_app_def demo_app_def)
  have dec: "N_strings demo_pendlib fs b = (\<lambda>f. if f = ''public_id'' then ''sig_1'' else ''x'', None)" "N_encode demo_pendlib kvs = ''{}''"
    for fs b kvs by (simp_all add: demo_pendlib_def demo_netlib_def)
  have cert: "on_net (client_DeviceCertificate demo_pendlib dev) s = (Fail ErrNotYetIssued, s)" for dev and s :: "unit machine"
    by (simp add: on_net_def within_def client_DeviceCertificate_def demo_pend_get)
  have raw: "on_net (PublicRootCA demo_pendlib) s = (Fail (ApiError 404 ''x''), s)" "on_net (PublicChain demo_pendlib) s = (Fail (ApiError 404 ''x''), s)"
    for s :: "unit machine"
    by (simp_all add: on_net_def within_def PublicRootCA_def PublicChain_def getRaw_def api_call_def demo_pend_get)
  have dev: "on_net (client_CreateDevice demo_pendlib l p) s = (Done ''x'', s)" for l p and s :: "unit machine"
    by (simp add: on_net_def within_def client_CreateDevice_def postJSON_def andThen_def demo_pend_post dec ret_def)
  have csr: "on_net (client_SubmitCSR demo_pendlib d b) s = (Done ''x'', s)" for d b and s :: "unit machine"
    by (simp add: on_net_def within_def client_SubmitCSR_def andThen_def demo_pend_post dec ret_def)
  have st: "app_state demo_pend_app s = (Done (fst (vault_State demo_keylib no_faults ''/v'' (m_disk s))), s)" for s
    by (simp add: app_state_run E)
  have req: "\<exists>p. CreateDeviceCSR demo_app_lib demo_pkilib (demo_pem_encode ''PRIVATE KEY'' ''0'') ?req = Inr p"
    using demo_pend_ends(1) by (cases "CreateDeviceCSR demo_app_lib demo_pkilib (demo_pem_encode ''PRIVATE KEY'' ''0'') ?req") simp_all
  then obtain csrPEM where req: "CreateDeviceCSR demo_app_lib demo_pkilib (demo_pem_encode ''PRIVATE KEY'' ''0'') ?req = Inr csrPEM" by blast
  have sv: "on_disk (SaveKey demo_keylib no_faults 2 ''/v'' (demo_pem_encode ''PRIVATE KEY'' ''0'') []) demo_wiped = (Done (), demo_keyed)"
    using demo_pend_runs(2) by (simp add: demo_keyed_def prod_eq_iff)
  have s3: "app_save demo_pend_app 2 demo_enrolled demo_keyed = (Done (), demo_replaced)"
    using demo_pend_runs(5) by (simp add: demo_replaced_def prod_eq_iff)
  have enr: "enrollDevice demo_pend_app ''Windows pc'' [] demo_wiped = (Done \<lparr>er_DeviceID = ''x'', er_EnrollmentID = ''x''\<rparr>, demo_replaced)"
    using s3 unfolding demo_enrolled_def
    by (simp add: enrollDevice_def E andThen_def lift_def demo_pend_runs(3,4) orFail_def attempt_def sv ret_def create_device_def dev req csr
        cache_from_def raw st)
  have wiped: "wipeDeviceState demo_pend_app demo_sign_machine = (Done (), demo_wiped)"
    using demo_pend_runs(1) by (simp add: demo_wiped_def prod_eq_iff)
  have unk: "deviceUnknownToServer demo_pend_app demo_sign_machine = (Done True, demo_sign_machine)"
    by (simp add: deviceUnknownToServer_def andThen_def st demo_pend_runs(7) attempt_def E cert ret_def)
  have has: "on_disk (HasKey ''/v'') s = (Done (Stat (m_disk s) (vault_path ''/v'' keyFile)), s)" for s :: "unit machine"
    by (rule HasKey_run)
  have key: "Stat (m_disk demo_sign_machine) (vault_path ''/v'' keyFile)"
    using demo_pend_runs(6) by (simp add: HasKey_def gets_def)
  have "CertificateStatus demo_pend_app [] demo_replaced = (Done CertPending, demo_replaced)"
    by (simp add: CertificateStatus_def E andThen_def has demo_pend_ends(2,3) poll_certificate_def st demo_pend_ends(4) attempt_def cert ret_def)
  then show ?thesis
    by (simp add: EnsureEnrolled_def E andThen_def has key unk wiped enr ret_def)
qed

theorem pending_enrolment_replaced_witness:
  "\<exists>s' x. EnsureEnrolled demo_pend_app [] demo_sign_machine = (Done CertPending, s') \<and> key_in demo_pend_app s' = Some x \<and>
     Protect demo_keylib 2 (demo_pem_encode ''PRIVATE KEY'' ''0'') [] = Done x"
proof -
  obtain s' where run: "EnsureEnrolled demo_pend_app [] demo_sign_machine = (Done CertPending, s')" using demo_pend_run by blast
  have E: "e_N demo_pend_app = demo_pendlib" "e_K demo_pend_app = demo_keylib" "e_F demo_pend_app = no_faults" "e_vault demo_pend_app = ''/v''"
    "e_P demo_pend_app = demo_pkilib" "e_now demo_pend_app = (\<lambda>n. 2)"
    by (simp_all add: demo_pend_app_def demo_app_def)
  have dev: "cs_DeviceID (fst (vault_State (e_K demo_pend_app) (e_F demo_pend_app) (e_vault demo_pend_app) (m_disk demo_sign_machine))) = ''dev_1''"
    unfolding E by (rule demo_pend_runs(7))
  have "api_do (e_N demo_pend_app) ''GET'' (''/api/v1/devices/'' @ ''dev_1'' @ ''/certificate'') [] [] (m_net demo_sign_machine) =
      ((''{}'', 404, Some (ApiError 404 ''x'')), m_net demo_sign_machine)" unfolding E by (rule demo_pend_get)
  from pending_enrolment_replaced [OF run dev _ this] run show ?thesis
    by (auto simp: E demo_pend_runs(3,4))
qed

end
