(* ===== verification/Spike.thy ===== *)
theory Spike
  imports Signing Outcome
begin

section \<open>The mobile bridge and the end-to-end run (\<open>core/mobilebridge\<close>, \<open>core/spike\<close>)\<close>

text \<open>
  The functions with JSON arguments that the Android binding calls, and \<open>spike.Run\<close>: in one call it makes
  an authority, enrols a device, signs a PDF, verifies it, and tries a tampered copy and a wrong root. A
  result is an \<open>outcome\<close>: a value, an error, a panic, or no return, because neither the bridge nor the
  run sets a timeout. The JSON decoders and encoders are the record \<open>json_lib\<close>; the Go runtime is the
  record \<open>host\<close>. The readings of the clock and the random draws of one run are numbered.
\<close>

subsection \<open>JSON entry points\<close>

record json_lib =
  J_sign_options :: "string \<Rightarrow> sign_options result"
  J_csr_request :: "string \<Rightarrow> csr_request result"
  J_vresult :: "vresult \<Rightarrow> bytes result"

definition sign_options_zero :: sign_options where
  "sign_options_zero = \<lparr>so_Reason = [], so_Location = [], so_SignerName = [], so_PublicID = [],
     so_VerificationURL = [], so_IncludeQR = False, so_Page = 0, so_X = 0, so_Y = 0,
     so_ClaimedSigningTime = zero_time, so_ClaimedZone = 0, so_Timeout = 0\<rparr>"

definition voptions_zero :: voptions where
  "voptions_zero = \<lparr>vo_RootPEM = [], vo_IntermediatePEM = [], vo_CRLPEM = [], vo_RequireMLDSAOnly = False,
     vo_At = zero_time, vo_AllowExternalRevocation = False, vo_Timeout = 0\<rparr>"

definition returned :: "'a result option \<Rightarrow> 'a outcome" where
  "returned r = obind (ofReturn r) ofResult"

definition SignPDFFromJSON :: "lib \<Rightarrow> pki_lib \<Rightarrow> sign_lib \<Rightarrow> json_lib \<Rightarrow> (nat \<Rightarrow> time) \<Rightarrow> bytes \<Rightarrow> bytes \<Rightarrow> bytes \<Rightarrow>
    string \<Rightarrow> bytes outcome" where
  "SignPDFFromJSON L P G J now pdf pkcs8 chainPEM optionsJSON =
     obind (if optionsJSON = [] then Done sign_options_zero
            else ofResult (map_sum (Wrap ''signing: decode options JSON'') id (J_sign_options J optionsJSON))) (\<lambda>o'.
     obind (returned (SignPDF L P G now pdf pkcs8 chainPEM o')) (\<lambda>res.
       Done (sn_SignedPDF res)))"

definition CreateDeviceCSRFromJSON :: "lib \<Rightarrow> pki_lib \<Rightarrow> json_lib \<Rightarrow> bytes \<Rightarrow> string \<Rightarrow> bytes result" where
  "CreateDeviceCSRFromJSON L P J pkcs8 requestJSON =
     (case J_csr_request J requestJSON of
        Inl e \<Rightarrow> Inl (Wrap ''enrollment: decode request JSON'' e)
      | Inr req \<Rightarrow> CreateDeviceCSR L P pkcs8 req)"

definition VerifyPDFJSON :: "lib \<Rightarrow> json_lib \<Rightarrow> time \<Rightarrow> bytes \<Rightarrow> bytes \<Rightarrow> bytes \<Rightarrow> string outcome" where
  "VerifyPDFJSON L J now pdf rootPEM crlPEM =
     obind (returned (VerifyPDF L now pdf
       (voptions_zero\<lparr>vo_RootPEM := rootPEM, vo_CRLPEM := crlPEM, vo_RequireMLDSAOnly := True\<rparr>))) (\<lambda>res.
     ofResult (J_vresult J res))"

subsection \<open>The bridge\<close>

definition bridge_GenerateKey :: "pki_lib \<Rightarrow> nat \<Rightarrow> bytes result" where
  "bridge_GenerateKey P n =
     (case GenerateMLDSA65Key P n of Inl e \<Rightarrow> Inl e | Inr sk \<Rightarrow> MarshalPKCS8 P (Some sk))"

definition bridge_ExportPublicKey :: "lib \<Rightarrow> pki_lib \<Rightarrow> bytes \<Rightarrow> bytes result" where
  "bridge_ExportPublicKey L P pkcs8 =
     (case ParsePKCS8 L P pkcs8 of Inl e \<Rightarrow> Inl e | Inr sk \<Rightarrow> ExportPublicKeyPEM L P (Some sk))"

definition bridge_CreateCSR :: "lib \<Rightarrow> pki_lib \<Rightarrow> json_lib \<Rightarrow> bytes \<Rightarrow> string \<Rightarrow> bytes result" where
  "bridge_CreateCSR L P J pkcs8 requestJSON = CreateDeviceCSRFromJSON L P J pkcs8 requestJSON"

definition bridge_SignPDF :: "lib \<Rightarrow> pki_lib \<Rightarrow> sign_lib \<Rightarrow> json_lib \<Rightarrow> (nat \<Rightarrow> time) \<Rightarrow> bytes \<Rightarrow> bytes \<Rightarrow> bytes \<Rightarrow>
    string \<Rightarrow> bytes outcome" where
  "bridge_SignPDF L P G J now pdf pkcs8 chainPEM optionsJSON = SignPDFFromJSON L P G J now pdf pkcs8 chainPEM optionsJSON"

definition bridge_VerifyPDF :: "lib \<Rightarrow> json_lib \<Rightarrow> time \<Rightarrow> bytes \<Rightarrow> bytes \<Rightarrow> bytes \<Rightarrow> string outcome" where
  "bridge_VerifyPDF L J now pdf rootPEM crlPEM = VerifyPDFJSON L J now pdf rootPEM crlPEM"

subsection \<open>Configuration and report of a run\<close>

record spike_config =
  sc_InputPDF :: bytes
  sc_SignerName :: string
  sc_DeviceLabel :: string
  sc_Platform :: string
  sc_PublicID :: string

record spike_check =
  ck_Name :: string
  ck_Passed :: bool
  ck_Detail :: string

record spike_artifacts =
  ar_RootCertPEM :: bytes
  ar_IntermediateCertPEM :: bytes
  ar_ChainPEM :: bytes
  ar_DeviceCertPEM :: bytes
  ar_DeviceKeyPKCS8PEM :: bytes
  ar_CRLPEM :: bytes
  ar_CSRPEM :: bytes
  ar_SignedPDF :: bytes
  ar_WrongRootPEM :: bytes

record spike_report =
  rp_Algorithm :: string
  rp_PDFProfile :: string
  rp_Platform :: string
  rp_GoVersion :: string
  rp_OSArch :: string
  rp_InputPDFBytes :: nat
  rp_SignedPDFBytes :: nat
  rp_SignatureOverhead :: int
  rp_KeygenMillis :: int
  rp_SignMillis :: int
  rp_VerifyMillis :: int
  rp_PeakHeapAllocBytes :: nat
  rp_OriginalSHA512 :: string
  rp_SignedSHA512 :: string
  rp_CertificateSerial :: string
  rp_Checks :: "spike_check list"
  rp_Passed :: bool
  rp_Artifacts :: spike_artifacts

record host =
  h_GOOS :: string
  h_GOARCH :: string
  h_Version :: string
  h_HeapAlloc :: nat

definition artifacts_zero :: spike_artifacts where
  "artifacts_zero = \<lparr>ar_RootCertPEM = [], ar_IntermediateCertPEM = [], ar_ChainPEM = [], ar_DeviceCertPEM = [],
     ar_DeviceKeyPKCS8PEM = [], ar_CRLPEM = [], ar_CSRPEM = [], ar_SignedPDF = [], ar_WrongRootPEM = []\<rparr>"

definition report_add :: "string \<Rightarrow> bool \<Rightarrow> string \<Rightarrow> spike_report \<Rightarrow> spike_report" where
  "report_add name passed detail r =
     (let r = r\<lparr>rp_Checks := rp_Checks r @ [\<lparr>ck_Name = name, ck_Passed = passed, ck_Detail = detail\<rparr>]\<rparr>
      in if \<not> passed then r\<lparr>rp_Passed := False\<rparr> else r)"

text \<open>\<open>Duration.Milliseconds\<close>, the verb \<open>%v\<close> of a bool, and the layout \<open>20060102T150405Z\<close> in UTC.\<close>

definition Milliseconds :: "duration \<Rightarrow> int" where
  "Milliseconds d = (if d < 0 then - ((- d) div 1000000) else d div 1000000)"

definition bool_text :: "bool \<Rightarrow> string" where
  "bool_text b = (if b then ''true'' else ''false'')"

definition Format_compact :: "time \<Rightarrow> string" where
  "Format_compact t =
     (let (y, mo, d) = civil (day_of t 0); s = (t div second) mod 86400
      in dec04 y @ dec02 mo @ dec02 d @ ''T'' @ dec02 (s div 3600) @ dec02 (s mod 3600 div 60) @ dec02 (s mod 60) @ ''Z'')"

definition spike_firstErr :: "vresult \<Rightarrow> string" where
  "spike_firstErr r =
     (case vr_Errors r of
        e # es \<Rightarrow> ''errors='' @ e
      | [] \<Rightarrow>
          (case vr_Signatures r of
             s # ss \<Rightarrow> (case sr_Errors s of e # es \<Rightarrow> ''sig_errors='' @ e | [] \<Rightarrow> [])
           | [] \<Rightarrow> []))"

subsection \<open>The run\<close>

definition lab_days :: "int \<Rightarrow> duration" where
  "lab_days n = n * 24 * hour"

text \<open>The defaults of the configuration. A run reads the clock for the id only when it has none.\<close>

definition spike_defaults :: "host \<Rightarrow> time \<Rightarrow> spike_config \<Rightarrow> spike_config" where
  "spike_defaults h now c =
     (let c = (if sc_Platform c = [] then c\<lparr>sc_Platform := h_GOOS h\<rparr> else c);
          c = (if sc_SignerName c = [] then c\<lparr>sc_SignerName := ''Spike Operator''\<rparr> else c)
      in if sc_PublicID c = [] then c\<lparr>sc_PublicID := ''sig_spike_'' @ Format_compact now\<rparr> else c)"

definition spike_start :: "host \<Rightarrow> spike_config \<Rightarrow> spike_report" where
  "spike_start h c = \<lparr>rp_Algorithm = ''ML-DSA-65'', rp_PDFProfile = ''PAdES_B'', rp_Platform = sc_Platform c,
     rp_GoVersion = h_Version h, rp_OSArch = h_GOOS h @ ''/'' @ h_GOARCH h,
     rp_InputPDFBytes = length (sc_InputPDF c), rp_SignedPDFBytes = 0, rp_SignatureOverhead = 0,
     rp_KeygenMillis = 0, rp_SignMillis = 0, rp_VerifyMillis = 0, rp_PeakHeapAllocBytes = 0,
     rp_OriginalSHA512 = [], rp_SignedSHA512 = [], rp_CertificateSerial = [], rp_Checks = [], rp_Passed = True,
     rp_Artifacts = artifacts_zero\<rparr>"

text \<open>What the run has made before it signs.\<close>

record spike_pki =
  sp_root :: ca
  sp_inter :: ca
  sp_key :: private_key
  sp_keyPEM :: bytes
  sp_csrPEM :: bytes
  sp_cert :: x509cert

definition wrapped :: "string \<Rightarrow> 'a result \<Rightarrow> 'a outcome" where
  "wrapped m r = ofResult (map_sum (Wrap m) id r)"

text \<open>Authority, device key, request and certificate.\<close>

definition spike_enrol :: "lib \<Rightarrow> pki_lib \<Rightarrow> (nat \<Rightarrow> time) \<Rightarrow> spike_config \<Rightarrow> spike_report \<Rightarrow>
    (spike_pki \<times> spike_report) outcome" where
  "spike_enrol L P now c r =
     obind (wrapped ''spike: root CA'' (NewRootCA L P 0 (now 1) ''PQC PDF Root CA (LAB)'' (lab_days (10 * 365)))) (\<lambda>root.
     obind (wrapped ''spike: intermediate CA''
       (NewIntermediateCA L P 1 (now 2) (Some root) ''PQC Device Signing CA (LAB)'' (lab_days (5 * 365)))) (\<lambda>inter'.
     obind (wrapped ''spike: device key'' (GenerateMLDSA65Key P 2)) (\<lambda>key.
     let r = r\<lparr>rp_KeygenMillis := Milliseconds (now 4 - now 3)\<rparr> in
     obind (ofResult (MarshalPKCS8PEM P (Some key))) (\<lambda>keyPEM.
     obind (wrapped ''spike: CSR'' (CreateDeviceCSR L P keyPEM
       \<lparr>rqs_CommonName = sc_SignerName c, rqs_Organization = ''PQC PDF Sign Lab'', rqs_OrganizationalUnit = []\<rparr>)) (\<lambda>csrPEM.
     obind (wrapped ''spike: validate CSR'' (ParseAndValidateCSR L csrPEM)) (\<lambda>(csr, info).
     let r = report_add ''csr_proof_of_possession'' (qi_ProofOfPossession info)
               (''CSR self-signature verified, key '' @ qi_PublicKeyAlgorithm info) r in
     obind (wrapped ''spike: issue device cert'' (IssueDeviceCert L P 3 (now 5) inter' (Some csr)
       \<lparr>dc_Subject = \<lparr>n_CommonName = sc_SignerName c, n_Organization = [''PQC PDF Sign Lab''], n_OrganizationalUnit = []\<rparr>,
        dc_Validity = lab_days 365, dc_CRLURL = [], dc_NotBefore = zero_time\<rparr>)) (\<lambda>cert.
     let r = r\<lparr>rp_CertificateSerial := serial_hex (x_SerialNumber cert)\<rparr>;
         r = report_add ''cert_matches_device_key'' (SameKeyPair P key (x_PublicKey cert))
               ''issued certificate public key equals on-device key'' r in
     Done (\<lparr>sp_root = root, sp_inter = inter', sp_key = key, sp_keyPEM = keyPEM, sp_csrPEM = csrPEM,
            sp_cert = cert\<rparr>, r))))))))"

definition spike_sign_options :: "lib \<Rightarrow> time \<Rightarrow> spike_config \<Rightarrow> sign_options" where
  "spike_sign_options L now c = sign_options_zero\<lparr>so_Reason := ''Spike M1 cross-platform proof'',
     so_Location := ''Lab'', so_SignerName := sc_SignerName c, so_PublicID := sc_PublicID c,
     so_VerificationURL := ''https://verify.example.id/v/'' @ sc_PublicID c, so_IncludeQR := True,
     so_ClaimedSigningTime := now, so_ClaimedZone := L_local_zone L now\<rparr>"

definition spike_sign :: "lib \<Rightarrow> pki_lib \<Rightarrow> sign_lib \<Rightarrow> (nat \<Rightarrow> time) \<Rightarrow> spike_config \<Rightarrow> bytes \<Rightarrow> bytes \<Rightarrow>
    spike_report \<Rightarrow> (bytes \<times> spike_report) outcome" where
  "spike_sign L P G now c keyPEM chainPEM r =
     obind (case SignPDF L P G (\<lambda>k. now (10 + k)) (sc_InputPDF c) keyPEM chainPEM (spike_sign_options L (now 9) c) of
              None \<Rightarrow> Hang | Some res \<Rightarrow> wrapped ''spike: sign'' res) (\<lambda>res.
     let out = sn_SignedPDF res;
         r = r\<lparr>rp_SignMillis := Milliseconds (now 12 - now 8), rp_SignedPDFBytes := length out,
               rp_SignatureOverhead := int (length out) - int (length (sc_InputPDF c)),
               rp_OriginalSHA512 := sn_OriginalSHA512 res, rp_SignedSHA512 := sn_SignedSHA512 res\<rparr> in
     Done (out, report_add ''signed_pdf_produced'' (length (sc_InputPDF c) < length out)
       (''signed PDF is '' @ dec_nat (rp_SignedPDFBytes r) @ '' bytes (+'' @ dec_int (rp_SignatureOverhead r) @ '')'') r))"

text \<open>The checks on the signed file.\<close>

definition spike_verify :: "lib \<Rightarrow> (nat \<Rightarrow> time) \<Rightarrow> bytes \<Rightarrow> bytes \<Rightarrow> bytes \<Rightarrow> bytes \<Rightarrow> spike_report \<Rightarrow>
    spike_report outcome" where
  "spike_verify L now signedPDF rootPEM interPEM crlPEM r =
     obind (case VerifyPDF L (now 14) signedPDF (voptions_zero\<lparr>vo_RootPEM := rootPEM, vo_IntermediatePEM := interPEM,
                     vo_CRLPEM := crlPEM, vo_RequireMLDSAOnly := True\<rparr>) of
              None \<Rightarrow> Hang | Some res \<Rightarrow> wrapped ''spike: verify'' res) (\<lambda>good.
     let r = r\<lparr>rp_VerifyMillis := Milliseconds (now 15 - now 13)\<rparr>;
         r = report_add ''verify_explicit_root_valid'' (vr_Valid good)
               (''verification result valid='' @ bool_text (vr_Valid good) @ '' '' @ spike_firstErr good) r in
     Done (case vr_Signatures good of
       [] \<Rightarrow> r
     | s # ss \<Rightarrow>
         report_add ''signature_not_revoked'' (\<not> sr_Revoked s) (''revoked='' @ bool_text (sr_Revoked s))
           (report_add ''signature_trusted_chain'' (sr_TrustedChain s) (''trusted_chain='' @ bool_text (sr_TrustedChain s))
           (report_add ''signature_algorithm_mldsa65'' (sr_Algorithm s = ''ML-DSA-65'') (''algorithm='' @ sr_Algorithm s) r))))"

text \<open>A verification that must not succeed: an error counts as a rejection.\<close>

definition spike_reject :: "string \<Rightarrow> string \<Rightarrow> vresult result option \<Rightarrow> spike_report \<Rightarrow> spike_report outcome" where
  "spike_reject name what v r =
     (case v of
        None \<Rightarrow> Hang
      | Some (Inl e) \<Rightarrow> Done (report_add name True (''verification errored out: '' @ Error e) r)
      | Some (Inr res) \<Rightarrow>
          Done (report_add name (\<not> vr_Valid res) (what @ '' verification valid='' @ bool_text (vr_Valid res) @ '' (want false)'') r))"

unbundle bit_operations_syntax

definition flip_byte :: "char \<Rightarrow> char" where
  "flip_byte c = char_of ((of_char c :: nat) XOR 255)"

definition tamper :: "bytes \<Rightarrow> bytes outcome" where
  "tamper pdf =
     (let i = length pdf div 2 in
      if length pdf \<le> i then Crash ''index out of range'' else Done (pdf[i := flip_byte (pdf ! i)]))"

definition Run :: "lib \<Rightarrow> pki_lib \<Rightarrow> sign_lib \<Rightarrow> host \<Rightarrow> (nat \<Rightarrow> time) \<Rightarrow> spike_config \<Rightarrow> spike_report outcome" where
  "Run L P G h now cfg =
     (if sc_InputPDF cfg = [] then Fail (Errorf ''spike: InputPDF is empty'')
      else
        let c = spike_defaults h (now 0) cfg in
        obind (spike_enrol L P now c (spike_start h c)) (\<lambda>(k, r).
        let chainPEM = ChainPEM P [sp_cert k, ca_Cert (sp_inter k)]; rootPEM = CertPEM P (ca_Cert (sp_root k));
            interPEM = CertPEM P (ca_Cert (sp_inter k)) in
        obind (wrapped ''spike: CRL'' (NewCRL P (now 6) (sp_inter k) [] 1 (lab_days 7))) (\<lambda>crlPEM.
        obind (ofResult (NewRootCA L P 4 (now 7) ''Unrelated Root CA (LAB)'' (lab_days 365))) (\<lambda>wrongRoot.
        let wrongRootPEM = CertPEM P (ca_Cert wrongRoot) in
        obind (spike_sign L P G now c (sp_keyPEM k) chainPEM r) (\<lambda>(signedPDF, r).
        obind (spike_verify L now signedPDF rootPEM interPEM crlPEM r) (\<lambda>r.
        obind (tamper signedPDF) (\<lambda>tampered.
        obind (spike_reject ''tampered_pdf_rejected'' ''tampered'' (VerifyPDF L (now 16) tampered
          (voptions_zero\<lparr>vo_RootPEM := rootPEM, vo_IntermediatePEM := interPEM, vo_RequireMLDSAOnly := True\<rparr>)) r) (\<lambda>r.
        obind (spike_reject ''wrong_root_rejected'' ''wrong-root'' (VerifyPDF L (now 17) signedPDF
          (voptions_zero\<lparr>vo_RootPEM := wrongRootPEM, vo_RequireMLDSAOnly := True\<rparr>)) r) (\<lambda>r.
        Done (r\<lparr>rp_PeakHeapAllocBytes := h_HeapAlloc h, rp_Artifacts :=
          \<lparr>ar_RootCertPEM = rootPEM, ar_IntermediateCertPEM = interPEM, ar_ChainPEM = chainPEM,
           ar_DeviceCertPEM = CertPEM P (sp_cert k), ar_DeviceKeyPKCS8PEM = sp_keyPEM k, ar_CRLPEM = crlPEM,
           ar_CSRPEM = sp_csrPEM k, ar_SignedPDF = signedPDF, ar_WrongRootPEM = wrongRootPEM\<rparr>\<rparr>))))))))))"

subsection \<open>The report\<close>

lemma report_add_simps [simp]:
  "rp_Passed (report_add n p d r) \<longleftrightarrow> p \<and> rp_Passed r"
  "rp_Checks (report_add n p d r) = rp_Checks r @ [\<lparr>ck_Name = n, ck_Passed = p, ck_Detail = d\<rparr>]"
  by (simp_all add: report_add_def Let_def)

text \<open>The verdict is the conjunction of the checks.\<close>

definition verdict_ok :: "spike_report \<Rightarrow> bool" where
  "verdict_ok r \<longleftrightarrow> rp_Passed r = list_all ck_Passed (rp_Checks r)"

lemma verdict_ok_add: "verdict_ok r \<Longrightarrow> verdict_ok (report_add n p d r)"
  by (auto simp: verdict_ok_def)

lemma verdict_ok_start: "verdict_ok (spike_start h c)"
  by (simp add: verdict_ok_def spike_start_def)

lemma verdict_ok_frame [simp]:
  "verdict_ok (r\<lparr>rp_KeygenMillis := m\<rparr>) = verdict_ok r"
  "verdict_ok (r\<lparr>rp_VerifyMillis := m\<rparr>) = verdict_ok r"
  "verdict_ok (r\<lparr>rp_CertificateSerial := s\<rparr>) = verdict_ok r"
  "verdict_ok (r\<lparr>rp_SignMillis := m, rp_SignedPDFBytes := b, rp_SignatureOverhead := v, rp_OriginalSHA512 := x, rp_SignedSHA512 := y\<rparr>) = verdict_ok r"
  "verdict_ok (r\<lparr>rp_PeakHeapAllocBytes := n, rp_Artifacts := a\<rparr>) = verdict_ok r"
  by (simp_all add: verdict_ok_def)

lemma returned_Done_iff: "returned r = Done x \<longleftrightarrow> r = Some (Inr x)"
  by (cases r) (auto simp: returned_def ofResult_Done_iff)

lemma wrapped_Done_iff: "wrapped m r = Done x \<longleftrightarrow> r = Inr x"
  by (cases r) (simp_all add: wrapped_def)

lemma spike_enrol_ok:
  assumes "spike_enrol L P now c r = Done (k, r')" "verdict_ok r"
  shows "verdict_ok r'" "rp_Passed r' \<Longrightarrow> SameKeyPair P (sp_key k) (x_PublicKey (sp_cert k))"
    "MarshalPKCS8PEM P (Some (sp_key k)) = Inr (sp_keyPEM k)"
  using assms unfolding spike_enrol_def
  by (auto simp: obind_Done_iff wrapped_Done_iff ofResult_Done_iff Let_def intro!: verdict_ok_add
      split: prod.splits)

lemma spike_sign_ok:
  assumes "spike_sign L P G now c keyPEM chainPEM r = Done (out, r')" "verdict_ok r"
  shows "verdict_ok r'" "rp_Passed r' \<Longrightarrow> rp_Passed r \<and> length (sc_InputPDF c) < length out"
    "\<exists>res. SignPDF L P G (\<lambda>k. now (10 + k)) (sc_InputPDF c) keyPEM chainPEM (spike_sign_options L (now 9) c) = Some (Inr res) \<and>
       out = sn_SignedPDF res"
  using assms unfolding spike_sign_def
  by (auto simp: obind_Done_iff wrapped_Done_iff Let_def intro!: verdict_ok_add
      split: option.splits)

lemma spike_verify_ok:
  assumes "spike_verify L now signedPDF rootPEM interPEM crlPEM r = Done r'" "verdict_ok r"
  shows "verdict_ok r'"
    "\<exists>good. VerifyPDF L (now 14) signedPDF (voptions_zero\<lparr>vo_RootPEM := rootPEM, vo_IntermediatePEM := interPEM,
        vo_CRLPEM := crlPEM, vo_RequireMLDSAOnly := True\<rparr>) = Some (Inr good) \<and>
      (rp_Passed r' \<longrightarrow> vr_Valid good \<and> rp_Passed r)"
proof -
  let ?v = "VerifyPDF L (now 14) signedPDF (voptions_zero\<lparr>vo_RootPEM := rootPEM, vo_IntermediatePEM := interPEM,
        vo_CRLPEM := crlPEM, vo_RequireMLDSAOnly := True\<rparr>)"
  obtain good where good: "?v = Some (Inr good)"
    using assms(1) unfolding spike_verify_def by (auto simp: obind_Done_iff wrapped_Done_iff split: option.splits)
  have "verdict_ok r' \<and> (rp_Passed r' \<longrightarrow> vr_Valid good \<and> rp_Passed r)"
    using assms unfolding spike_verify_def good
    by (cases "vr_Signatures good") (auto simp: wrapped_def Let_def verdict_ok_add)
  with good show "verdict_ok r'" "\<exists>good. ?v = Some (Inr good) \<and> (rp_Passed r' \<longrightarrow> vr_Valid good \<and> rp_Passed r)"
    by simp_all
qed

lemma spike_reject_ok:
  assumes "spike_reject name what v r = Done r'" "verdict_ok r"
  shows "verdict_ok r'" "rp_Passed r' \<Longrightarrow> rp_Passed r \<and> (\<forall>res. v = Some (Inr res) \<longrightarrow> \<not> vr_Valid res)"
  using assms unfolding spike_reject_def
  by (auto intro!: verdict_ok_add split: option.splits sum.splits)

text \<open>A verification that gave a result was given a document.\<close>

lemma VerifyPDF_nonempty: "VerifyPDF L now pdf o' = Some (Inr res) \<Longrightarrow> pdf \<noteq> []"
  by (auto simp: VerifyPDF_def verifyPDF_def Let_def split: if_splits)

lemma tamper_nonempty: "pdf \<noteq> [] \<Longrightarrow> tamper pdf = Done (pdf[length pdf div 2 := flip_byte (pdf ! (length pdf div 2))])"
  by (simp add: tamper_def Let_def not_le)

subsection \<open>What a run shows\<close>

text \<open>A run that ends without an error, taken apart.\<close>

lemma Run_DoneE:
  assumes "Run L P G h now cfg = Done rep"
  obtains c k r0 crlPEM wrong signedPDF r1 r2 tampered r3 r4 where
    "c = spike_defaults h (now 0) cfg" "sc_InputPDF cfg \<noteq> []"
    "spike_enrol L P now c (spike_start h c) = Done (k, r0)"
    "NewCRL P (now 6) (sp_inter k) [] 1 (lab_days 7) = Inr crlPEM"
    "NewRootCA L P 4 (now 7) ''Unrelated Root CA (LAB)'' (lab_days 365) = Inr wrong"
    "spike_sign L P G now c (sp_keyPEM k) (ChainPEM P [sp_cert k, ca_Cert (sp_inter k)]) r0 = Done (signedPDF, r1)"
    "spike_verify L now signedPDF (CertPEM P (ca_Cert (sp_root k))) (CertPEM P (ca_Cert (sp_inter k))) crlPEM r1 = Done r2"
    "tamper signedPDF = Done tampered"
    "spike_reject ''tampered_pdf_rejected'' ''tampered'' (VerifyPDF L (now 16) tampered
        (voptions_zero\<lparr>vo_RootPEM := CertPEM P (ca_Cert (sp_root k)),
           vo_IntermediatePEM := CertPEM P (ca_Cert (sp_inter k)), vo_RequireMLDSAOnly := True\<rparr>)) r2 = Done r3"
    "spike_reject ''wrong_root_rejected'' ''wrong-root'' (VerifyPDF L (now 17) signedPDF
        (voptions_zero\<lparr>vo_RootPEM := CertPEM P (ca_Cert wrong), vo_RequireMLDSAOnly := True\<rparr>)) r3 = Done r4"
    "rep = r4\<lparr>rp_PeakHeapAllocBytes := h_HeapAlloc h, rp_Artifacts :=
       \<lparr>ar_RootCertPEM = CertPEM P (ca_Cert (sp_root k)), ar_IntermediateCertPEM = CertPEM P (ca_Cert (sp_inter k)),
        ar_ChainPEM = ChainPEM P [sp_cert k, ca_Cert (sp_inter k)], ar_DeviceCertPEM = CertPEM P (sp_cert k),
        ar_DeviceKeyPKCS8PEM = sp_keyPEM k, ar_CRLPEM = crlPEM, ar_CSRPEM = sp_csrPEM k, ar_SignedPDF = signedPDF,
        ar_WrongRootPEM = CertPEM P (ca_Cert wrong)\<rparr>\<rparr>"
proof -
  have "sc_InputPDF cfg \<noteq> []" using assms by (auto simp: Run_def)
  then show ?thesis
    using assms that [OF refl] unfolding Run_def Let_def
    by (auto simp: obind_Done_iff wrapped_Done_iff ofResult_Done_iff simp del: One_nat_def)
qed

text \<open>What holds of the report and of the artifacts.\<close>

definition lab_options :: "bytes \<Rightarrow> bytes \<Rightarrow> bytes \<Rightarrow> voptions" where
  "lab_options rootPEM interPEM crlPEM = voptions_zero\<lparr>vo_RootPEM := rootPEM, vo_IntermediatePEM := interPEM,
     vo_CRLPEM := crlPEM, vo_RequireMLDSAOnly := True\<rparr>"

lemma lab_options_short:
  "voptions_zero\<lparr>vo_RootPEM := x, vo_IntermediatePEM := y, vo_RequireMLDSAOnly := True\<rparr> = lab_options x y []"
  "voptions_zero\<lparr>vo_RootPEM := x, vo_RequireMLDSAOnly := True\<rparr> = lab_options x [] []"
  by (simp_all add: lab_options_def voptions_zero_def)

lemma Run_facts:
  assumes "Run L P G h now cfg = Done rep"
  obtains good tampered where "verdict_ok rep"
    "VerifyPDF L (now 14) (ar_SignedPDF (rp_Artifacts rep)) (lab_options (ar_RootCertPEM (rp_Artifacts rep))
       (ar_IntermediateCertPEM (rp_Artifacts rep)) (ar_CRLPEM (rp_Artifacts rep))) = Some (Inr good)"
    "tamper (ar_SignedPDF (rp_Artifacts rep)) = Done tampered"
    "rp_Passed rep \<Longrightarrow> vr_Valid good"
    "\<And>res. rp_Passed rep \<Longrightarrow> VerifyPDF L (now 16) tampered (lab_options (ar_RootCertPEM (rp_Artifacts rep))
       (ar_IntermediateCertPEM (rp_Artifacts rep)) []) = Some (Inr res) \<Longrightarrow> \<not> vr_Valid res"
    "\<And>res. rp_Passed rep \<Longrightarrow> VerifyPDF L (now 17) (ar_SignedPDF (rp_Artifacts rep))
       (lab_options (ar_WrongRootPEM (rp_Artifacts rep)) [] []) = Some (Inr res) \<Longrightarrow> \<not> vr_Valid res"
  using assms
proof (rule Run_DoneE)
  fix c k r0 crlPEM wrong signedPDF r1 r2 tampered r3 r4
  assume e0: "tamper signedPDF = Done tampered"
  assume e: "spike_enrol L P now c (spike_start h c) = Done (k, r0)"
    "spike_sign L P G now c (sp_keyPEM k) (ChainPEM P [sp_cert k, ca_Cert (sp_inter k)]) r0 = Done (signedPDF, r1)"
    "spike_verify L now signedPDF (CertPEM P (ca_Cert (sp_root k))) (CertPEM P (ca_Cert (sp_inter k))) crlPEM r1 = Done r2"
    "spike_reject ''tampered_pdf_rejected'' ''tampered'' (VerifyPDF L (now 16) tampered
        (voptions_zero\<lparr>vo_RootPEM := CertPEM P (ca_Cert (sp_root k)),
           vo_IntermediatePEM := CertPEM P (ca_Cert (sp_inter k)), vo_RequireMLDSAOnly := True\<rparr>)) r2 = Done r3"
    "spike_reject ''wrong_root_rejected'' ''wrong-root'' (VerifyPDF L (now 17) signedPDF
        (voptions_zero\<lparr>vo_RootPEM := CertPEM P (ca_Cert wrong), vo_RequireMLDSAOnly := True\<rparr>)) r3 = Done r4"
    "rep = r4\<lparr>rp_PeakHeapAllocBytes := h_HeapAlloc h, rp_Artifacts :=
       \<lparr>ar_RootCertPEM = CertPEM P (ca_Cert (sp_root k)), ar_IntermediateCertPEM = CertPEM P (ca_Cert (sp_inter k)),
        ar_ChainPEM = ChainPEM P [sp_cert k, ca_Cert (sp_inter k)], ar_DeviceCertPEM = CertPEM P (sp_cert k),
        ar_DeviceKeyPKCS8PEM = sp_keyPEM k, ar_CRLPEM = crlPEM, ar_CSRPEM = sp_csrPEM k, ar_SignedPDF = signedPDF,
        ar_WrongRootPEM = CertPEM P (ca_Cert wrong)\<rparr>\<rparr>"
  have o1: "verdict_ok r0" by (rule spike_enrol_ok(1) [OF e(1) verdict_ok_start])
  have o2: "verdict_ok r1" by (rule spike_sign_ok(1) [OF e(2) o1])
  have o3: "verdict_ok r2" by (rule spike_verify_ok(1) [OF e(3) o2])
  have o4: "verdict_ok r3" by (rule spike_reject_ok(1) [OF e(4) o3])
  have v: "verdict_ok rep" using spike_reject_ok(1) [OF e(5) o4] by (simp add: e(6))
  obtain good where good: "VerifyPDF L (now 14) signedPDF (lab_options (CertPEM P (ca_Cert (sp_root k)))
      (CertPEM P (ca_Cert (sp_inter k))) crlPEM) = Some (Inr good)" "rp_Passed r2 \<longrightarrow> vr_Valid good"
    using spike_verify_ok(2) [OF e(3) o2] unfolding lab_options_def by blast
  note t = spike_reject_ok(2) [OF e(4) o3, unfolded lab_options_short]
  note w = spike_reject_ok(2) [OF e(5) o4, unfolded lab_options_short]
  have p: "rp_Passed rep = rp_Passed r4" by (simp add: e(6))
  show ?thesis
  proof (rule that [OF v, of good tampered])
    show "rp_Passed rep \<Longrightarrow> vr_Valid good" using good(2) t w p by blast
    fix res
    show "rp_Passed rep \<Longrightarrow> VerifyPDF L (now 16) tampered (lab_options (ar_RootCertPEM (rp_Artifacts rep))
        (ar_IntermediateCertPEM (rp_Artifacts rep)) []) = Some (Inr res) \<Longrightarrow> \<not> vr_Valid res"
      using t w p unfolding e(6) by simp
    show "rp_Passed rep \<Longrightarrow> VerifyPDF L (now 17) (ar_SignedPDF (rp_Artifacts rep))
        (lab_options (ar_WrongRootPEM (rp_Artifacts rep)) [] []) = Some (Inr res) \<Longrightarrow> \<not> vr_Valid res"
      using w p unfolding e(6) by simp
  qed (simp_all add: e(6) e0 good(1))
qed

text \<open>A report says that the run passed exactly when every check did.\<close>

lemma Run_verdict: "Run L P G h now cfg = Done rep \<Longrightarrow> rp_Passed rep = list_all ck_Passed (rp_Checks rep)"
  by (erule Run_facts) (simp add: verdict_ok_def)

text \<open>A run never panics: a signed file that is empty stops at the verification before its middle byte is flipped.\<close>

lemma VerifyPDF_step_no_crash:
  "(case VerifyPDF L t pdf o' of None \<Rightarrow> Hang | Some res \<Rightarrow> wrapped m res) \<noteq> Crash p"
  by (auto simp: wrapped_def ofResult_def split: option.splits sum.splits)

lemma obind_Crash_iff: "obind m f = Crash p \<longleftrightarrow> m = Crash p \<or> (\<exists>x. m = Done x \<and> f x = Crash p)"
  by (cases m) auto

lemma ofResult_no_crash [simp]: "ofResult r \<noteq> Crash p" "wrapped m r \<noteq> Crash p"
  by (cases r; simp add: wrapped_def)+

lemma spike_verify_nonempty:
  "spike_verify L now signedPDF rootPEM interPEM crlPEM r = Done r' \<Longrightarrow> signedPDF \<noteq> []"
  unfolding spike_verify_def
  by (auto simp: obind_Done_iff wrapped_Done_iff split: option.splits dest: VerifyPDF_nonempty)

lemma Run_never_panics: "Run L P G h now cfg \<noteq> Crash m"
proof
  assume "Run L P G h now cfg = Crash m"
  moreover have "spike_enrol L P now c r \<noteq> Crash m" "spike_sign L P G now c k ch r \<noteq> Crash m"
    "spike_verify L now s a b d r \<noteq> Crash m" "spike_reject n w v r \<noteq> Crash m" for c r k ch s a b d n w v
    by (auto simp: spike_enrol_def spike_sign_def spike_verify_def spike_reject_def obind_Crash_iff Let_def
        split: option.splits sum.splits)
  moreover have "tamper s \<noteq> Crash m" if "spike_verify L now s a b d r = Done r'" for s a b d r r'
    using tamper_nonempty [OF spike_verify_nonempty [OF that]] by simp
  ultimately show False
    unfolding Run_def Let_def by (auto simp: obind_Crash_iff split: if_splits)
qed

end
