(* ===== verification/DevCli.thy ===== *)
theory DevCli
  imports Spike "HOL-Library.Word" "HOL-Library.Multiset"
begin

section \<open>The development command line (\<open>apps/windows/cmd/pqcsign-cli/main.go\<close>)\<close>

text \<open>
  The subcommands after flag parsing, on a disk whose system calls can fail and a console that keeps what
  was printed on the standard output. The record \<open>tools\<close> holds what a command draws from outside. Modes
  of files are not kept by the disk; in \<open>cmdSpike\<close> the order in which a map is visited is an argument.
\<close>

record console =
  cn_disk :: disk
  cn_out :: string

record tools =
  tl_L :: lib
  tl_P :: pki_lib
  tl_G :: sign_lib
  tl_J :: json_lib
  tl_F :: faults
  tl_host :: host
  tl_now :: "nat \<Rightarrow> time"
  tl_sample :: bytes
  tl_report :: "spike_report \<Rightarrow> bytes result"
  tl_order :: "(string \<times> bytes) list \<Rightarrow> (string \<times> bytes) list"

definition cn_on_disk :: "(disk, 'a) act \<Rightarrow> (console, 'a) act" where
  "cn_on_disk m = within cn_disk (\<lambda>d s. s\<lparr>cn_disk := d\<rparr>) m"

definition cn_read :: "tools \<Rightarrow> string \<Rightarrow> (console, bytes) act" where
  "cn_read T p = cn_on_disk (\<lambda>d. (ofResult (ReadFile (tl_F T) d p), d))"

definition cn_write :: "tools \<Rightarrow> string \<Rightarrow> bytes \<Rightarrow> (console, unit) act" where
  "cn_write T p b = cn_on_disk (syscall (WriteFile (tl_F T) p b))"

definition cn_mkdir :: "tools \<Rightarrow> string \<Rightarrow> (console, unit) act" where
  "cn_mkdir T p = cn_on_disk (syscall (MkdirAll (tl_F T) p))"

definition cn_print :: "string \<Rightarrow> (console, unit) act" where
  "cn_print s = modifies (\<lambda>w. w\<lparr>cn_out := cn_out w @ s\<rparr>)"

definition println :: "string \<Rightarrow> (console, unit) act" where
  "println s = cn_print (s @ [CHR 0x0A])"

text \<open>A call of the libraries that ends without a value never returns.\<close>

definition cn_call :: "'a result option \<Rightarrow> (console, 'a) act" where
  "cn_call r = lift (returned r)"

definition em_dash :: string where
  "em_dash = [CHR 0xE2, CHR 0x80, CHR 0x94]"

subsection \<open>spike\<close>

definition pad32 :: "string \<Rightarrow> string" where
  "pad32 s = s @ replicate (32 - length (runes s)) (CHR '' '')"

definition check_line :: "spike_check \<Rightarrow> string" where
  "check_line c = ''    ['' @ (if ck_Passed c then ''PASS'' else ''FAIL'') @ ''] '' @ pad32 (ck_Name c) @ '' '' @ ck_Detail c @ [CHR 0x0A]"

definition spike_files :: "spike_artifacts \<Rightarrow> (string \<times> bytes) list" where
  "spike_files a =
     [(''root-ca.crt.pem'', ar_RootCertPEM a), (''intermediate-ca.crt.pem'', ar_IntermediateCertPEM a),
      (''device.crt.pem'', ar_DeviceCertPEM a), (''ca-chain.pem'', ar_ChainPEM a),
      (''device-key.pkcs8.pem'', ar_DeviceKeyPKCS8PEM a), (''device.csr.pem'', ar_CSRPEM a),
      (''crl.pem'', ar_CRLPEM a), (''unrelated-root.crt.pem'', ar_WrongRootPEM a), (''signed.pdf'', ar_SignedPDF a)]"

text \<open>Writing stops at the first error.\<close>

fun write_files :: "tools \<Rightarrow> string \<Rightarrow> (string \<times> bytes) list \<Rightarrow> (console, unit) act" where
  "write_files T out [] = ret ()"
| "write_files T out ((name, b) # fs) =
     andThen (cn_write T (Join [out, name]) b) (\<lambda>u. write_files T out fs)"

definition spike_summary :: "spike_report \<Rightarrow> string" where
  "spike_summary r = concat (map (\<lambda>ln. ln @ [CHR 0x0A])
     [''PQC PDF Sign V1 '' @ em_dash @ '' M1 spike ('' @ rp_OSArch r @ '')'',
      ''  algorithm        : '' @ rp_Algorithm r @ '' / '' @ rp_PDFProfile r,
      ''  input  PDF bytes : '' @ dec_nat (rp_InputPDFBytes r),
      ''  signed PDF bytes : '' @ dec_nat (rp_SignedPDFBytes r) @ ''  (signature overhead '' @ dec_int (rp_SignatureOverhead r) @ '')'',
      ''  timings          : keygen '' @ dec_int (rp_KeygenMillis r) @ ''ms | sign '' @ dec_int (rp_SignMillis r)
        @ ''ms | verify '' @ dec_int (rp_VerifyMillis r) @ ''ms'',
      ''  peak heap alloc  : '' @ dec_nat (rp_PeakHeapAllocBytes r div 1024) @ '' KiB'',
      ''  cert serial      : '' @ rp_CertificateSerial r,
      ''  checks:''])
   @ concat (map check_line (rp_Checks r))"

definition cmdSpike :: "tools \<Rightarrow> string \<Rightarrow> string \<Rightarrow> string \<Rightarrow> string \<Rightarrow> string \<Rightarrow> (console, unit) act" where
  "cmdSpike T inp out signer device platform =
     andThen (if inp \<noteq> [] then cn_read T inp else ret (tl_sample T)) (\<lambda>pdf.
     andThen (lift (Run (tl_L T) (tl_P T) (tl_G T) (tl_host T) (tl_now T)
       \<lparr>sc_InputPDF = pdf, sc_SignerName = signer, sc_DeviceLabel = device, sc_Platform = platform, sc_PublicID = []\<rparr>)) (\<lambda>rep.
     andThen (cn_mkdir T out) (\<lambda>u.
     andThen (write_files T out (tl_order T (spike_files (rp_Artifacts rep)))) (\<lambda>u.
     andThen (cn_write T (Join [out, ''report.json'']) (case tl_report T rep of Inl e \<Rightarrow> [] | Inr b \<Rightarrow> b)) (\<lambda>u.
     andThen (cn_print (spike_summary rep)) (\<lambda>u.
     andThen (cn_print (CHR 0x0A # ''artifacts written to '' @ out @ ''/'' @ [CHR 0x0A])) (\<lambda>u.
       if \<not> rp_Passed rep then fail (Errorf ''spike FAILED (see checks above)'')
       else println ''spike PASSED'')))))))"

subsection \<open>genpki\<close>

record lab_pki =
  lp_root :: ca
  lp_inter :: ca
  lp_keyPEM :: bytes
  lp_csrPEM :: bytes
  lp_cert :: x509cert
  lp_crlPEM :: bytes
  lp_unrelated :: ca

definition make_lab :: "lib \<Rightarrow> pki_lib \<Rightarrow> (nat \<Rightarrow> time) \<Rightarrow> string \<Rightarrow> lab_pki outcome" where
  "make_lab L P now cn =
     obind (ofResult (NewRootCA L P 0 (now 0) ''PQC PDF Root CA (LAB)'' (lab_days (10 * 365)))) (\<lambda>root.
     obind (ofResult (NewIntermediateCA L P 1 (now 1) (Some root) ''PQC Device Signing CA (LAB)'' (lab_days (5 * 365)))) (\<lambda>inter'.
     obind (ofResult (GenerateMLDSA65Key P 2)) (\<lambda>devKey.
     obind (ofResult (MarshalPKCS8PEM P (Some devKey))) (\<lambda>devKeyPEM.
     obind (ofResult (CreateDeviceCSR L P devKeyPEM
       \<lparr>rqs_CommonName = cn, rqs_Organization = ''PQC PDF Sign Lab'', rqs_OrganizationalUnit = []\<rparr>)) (\<lambda>csrPEM.
     obind (ofResult (ParseAndValidateCSR L csrPEM)) (\<lambda>(csr, info).
     obind (ofResult (IssueDeviceCert L P 3 (now 2) inter' (Some csr)
       \<lparr>dc_Subject = \<lparr>n_CommonName = cn, n_Organization = [''PQC PDF Sign Lab''], n_OrganizationalUnit = []\<rparr>,
        dc_Validity = lab_days 365, dc_CRLURL = [], dc_NotBefore = zero_time\<rparr>)) (\<lambda>devCert.
     obind (ofResult (NewCRL P (now 3) inter' [] 1 (lab_days 7))) (\<lambda>crlPEM.
     obind (ofResult (NewRootCA L P 4 (now 4) ''Unrelated Root CA (LAB)'' (lab_days 365))) (\<lambda>unrelated.
       Done \<lparr>lp_root = root, lp_inter = inter', lp_keyPEM = devKeyPEM, lp_csrPEM = csrPEM, lp_cert = devCert,
             lp_crlPEM = crlPEM, lp_unrelated = unrelated\<rparr>)))))))))"

definition lab_files :: "pki_lib \<Rightarrow> lab_pki \<Rightarrow> (string \<times> bytes) list" where
  "lab_files P k =
     [(''root-ca.crt.pem'', CertPEM P (ca_Cert (lp_root k))),
      (''intermediate-ca.crt.pem'', CertPEM P (ca_Cert (lp_inter k))),
      (''ca-chain.pem'', ChainPEM P [lp_cert k, ca_Cert (lp_inter k)]),
      (''device.crt.pem'', CertPEM P (lp_cert k)), (''device-key.pkcs8.pem'', lp_keyPEM k),
      (''device.csr.pem'', lp_csrPEM k), (''crl.pem'', lp_crlPEM k),
      (''unrelated-root.crt.pem'', CertPEM P (ca_Cert (lp_unrelated k)))]"

text \<open>The arguments of \<open>errors.Join\<close> are all evaluated: every file is tried, and the errors are collected.\<close>

fun write_each :: "tools \<Rightarrow> string \<Rightarrow> (string \<times> bytes) list \<Rightarrow> (console, error list) act" where
  "write_each T out [] = ret []"
| "write_each T out ((name, b) # fs) =
     andThen (attempt (cn_write T (Join [out, name]) b)) (\<lambda>r.
     andThen (write_each T out fs) (\<lambda>es.
       ret (case r of Inl e \<Rightarrow> e # es | Inr u \<Rightarrow> es)))"

definition errors_Join :: "error list \<Rightarrow> error option" where
  "errors_Join es = (if es = [] then None else Some (Errorf (intercalate [CHR 0x0A] (map Error es))))"

definition cmdGenPKI :: "tools \<Rightarrow> string \<Rightarrow> string \<Rightarrow> string \<Rightarrow> (console, unit) act" where
  "cmdGenPKI T out cn platform =
     andThen (lift (make_lab (tl_L T) (tl_P T) (tl_now T) cn)) (\<lambda>k.
     andThen (cn_mkdir T out) (\<lambda>u.
     andThen (write_each T out (lab_files (tl_P T) k)) (\<lambda>es.
       case errors_Join es of
         Some e \<Rightarrow> fail e
       | None \<Rightarrow>
           andThen (cn_print (concat (map (\<lambda>ln. ln @ [CHR 0x0A])
             [''lab PKI written to '' @ out @ ''/'', ''  root       : '' @ x_Subject (ca_Cert (lp_root k)),
              ''  intermediate: '' @ x_Subject (ca_Cert (lp_inter k)),
              ''  device     : '' @ x_Subject (lp_cert k) @ '' (serial '' @ serial_hex (x_SerialNumber (lp_cert k)) @ '')'']))) (\<lambda>u.
           println (''NOTE: lab only '' @ em_dash @ '' not a production PKI ceremony (Rencana V1 '' @ [CHR 0xC2, CHR 0xA7] @ ''13).'')))))"

subsection \<open>keygen, pubkey, csr\<close>

definition cmdKeygen :: "tools \<Rightarrow> string \<Rightarrow> (console, unit) act" where
  "cmdKeygen T out =
     andThen (lift (ofResult (GenerateMLDSA65Key (tl_P T) 0))) (\<lambda>sk.
     andThen (lift (ofResult (MarshalPKCS8PEM (tl_P T) (Some sk)))) (\<lambda>pemBytes.
     andThen (cn_write T out pemBytes) (\<lambda>u.
       println (''wrote '' @ out @ '' (ML-DSA-65, PKCS#8, UNENCRYPTED '' @ em_dash @ '' lab use only)''))))"

definition cmdPubkey :: "tools \<Rightarrow> string \<Rightarrow> (console, unit) act" where
  "cmdPubkey T keyPath =
     (if keyPath = [] then fail (Errorf ''-key is required'')
      else
        andThen (cn_read T keyPath) (\<lambda>raw.
        andThen (lift (ofResult (ParsePKCS8 (tl_L T) (tl_P T) raw))) (\<lambda>sk.
        andThen (lift (ofResult (ExportPublicKeyPEM (tl_L T) (tl_P T) (Some sk)))) (\<lambda>pemBytes.
          cn_print pemBytes))))"

definition cmdCSR :: "tools \<Rightarrow> string \<Rightarrow> string \<Rightarrow> string \<Rightarrow> string \<Rightarrow> string \<Rightarrow> (console, unit) act" where
  "cmdCSR T keyPath out cn org platform =
     (if keyPath = [] \<or> cn = [] then fail (Errorf ''-key and -cn are required'')
      else
        andThen (cn_read T keyPath) (\<lambda>raw.
        andThen (lift (ofResult (CreateDeviceCSR (tl_L T) (tl_P T) raw
          \<lparr>rqs_CommonName = cn, rqs_Organization = org, rqs_OrganizationalUnit = []\<rparr>))) (\<lambda>csrPEM.
        andThen (cn_write T out csrPEM) (\<lambda>u.
          println (''wrote '' @ out)))))"

subsection \<open>sign, verify\<close>

text \<open>The options the flags of \<open>sign\<close> set; the clock and the zone are added by the command.\<close>

definition cmdSign :: "tools \<Rightarrow> string \<Rightarrow> string \<Rightarrow> string \<Rightarrow> string \<Rightarrow> sign_options \<Rightarrow> (console, unit) act" where
  "cmdSign T inp out keyPath chainPath opts =
     (if inp = [] \<or> keyPath = [] \<or> chainPath = [] then fail (Errorf ''-in, -key and -chain are required'')
      else
        andThen (cn_read T inp) (\<lambda>pdf.
        andThen (cn_read T keyPath) (\<lambda>key.
        andThen (cn_read T chainPath) (\<lambda>chain.
        andThen (cn_call (SignPDF (tl_L T) (tl_P T) (tl_G T) (\<lambda>k. tl_now T (1 + k)) pdf key chain
          (opts\<lparr>so_ClaimedSigningTime := tl_now T 0, so_ClaimedZone := L_local_zone (tl_L T) (tl_now T 0),
                so_Timeout := 0\<rparr>))) (\<lambda>res.
        andThen (cn_write T out (sn_SignedPDF res)) (\<lambda>u.
          cn_print (concat (map (\<lambda>ln. ln @ [CHR 0x0A])
            [''wrote '' @ out, ''  algorithm       : '' @ sn_Algorithm res @ '' / '' @ sn_PDFProfile res,
             ''  original sha512 : '' @ sn_OriginalSHA512 res, ''  signed   sha512 : '' @ sn_SignedSHA512 res,
             ''  cert serial     : '' @ sn_CertificateSerial res]))))))))"

definition cn_read_optional :: "tools \<Rightarrow> string \<Rightarrow> (console, bytes) act" where
  "cn_read_optional T p = (if p \<noteq> [] then cn_read T p else ret [])"

definition cmdVerify :: "tools \<Rightarrow> string \<Rightarrow> string \<Rightarrow> string \<Rightarrow> string \<Rightarrow> bool \<Rightarrow> bool \<Rightarrow> (console, unit) act" where
  "cmdVerify T inp rootPath interPath crlPath external pqcOnly =
     (if inp = [] \<or> rootPath = [] then fail (Errorf ''-in and -root are required'')
      else
        andThen (cn_read T inp) (\<lambda>pdf.
        andThen (cn_read T rootPath) (\<lambda>root.
        andThen (cn_read_optional T interPath) (\<lambda>inter'.
        andThen (cn_read_optional T crlPath) (\<lambda>crl.
        andThen (cn_call (VerifyPDF (tl_L T) (tl_now T 0) pdf
          (voptions_zero\<lparr>vo_RequireMLDSAOnly := pqcOnly, vo_AllowExternalRevocation := external, vo_RootPEM := root,
             vo_IntermediatePEM := inter', vo_CRLPEM := crl\<rparr>))) (\<lambda>res.
        andThen (println (case J_vresult (tl_J T) res of Inl e \<Rightarrow> [] | Inr b \<Rightarrow> b)) (\<lambda>u.
          if \<not> vr_Valid res then fail (Errorf ''verification result: INVALID'') else ret ())))))))"

subsection \<open>totp\<close>

text \<open>One-time codes (\<open>totp.go\<close>). The base32 decoder without padding, \<open>strings.ToUpper\<close> (it needs the tables of
  Unicode) and HMAC-SHA-1 are parameters.\<close>

record totp_lib =
  O_ToUpper :: "string \<Rightarrow> string"
  O_base32 :: "string \<Rightarrow> bytes result"
  O_hmac_sha1 :: "bytes \<Rightarrow> bytes \<Rightarrow> bytes"

definition PutUint64 :: "64 word \<Rightarrow> bytes" where
  "PutUint64 w = map (\<lambda>i. char_of (unat (drop_bit (8 * (7 - i)) w AND 0xFF))) [0..<8]"

definition dec06 :: "nat \<Rightarrow> string" where
  "dec06 n = replicate (6 - length (dec_nat n)) (CHR ''0'') @ dec_nat n"

definition byte32 :: "char \<Rightarrow> 32 word" where
  "byte32 c = word_of_nat (of_char c)"

definition totp_truncate :: "bytes \<Rightarrow> string outcome" where
  "totp_truncate mac =
     (if mac = [] then Crash ''index out of range''
      else
        let off = (of_char (last mac) :: nat) AND 0x0F in
        if length mac \<le> off + 3 then Crash ''index out of range''
        else
          let v = (push_bit 24 (byte32 (mac ! off) AND 0x7F) OR push_bit 16 (byte32 (mac ! (off + 1)))
                     OR push_bit 8 (byte32 (mac ! (off + 2))) OR byte32 (mac ! (off + 3))) mod 1000000
          in Done (dec06 (unat v)))"

definition totpAt :: "totp_lib \<Rightarrow> string \<Rightarrow> time \<Rightarrow> string outcome" where
  "totpAt Q secret t =
     obind (ofResult (map_sum (Wrap ''bad base32 secret'') id (O_base32 Q (O_ToUpper Q (TrimSpace secret))))) (\<lambda>key.
       totp_truncate (O_hmac_sha1 Q key (PutUint64 (word_of_int (Unix t) div 30))))"

definition cmdTOTP :: "tools \<Rightarrow> totp_lib \<Rightarrow> string \<Rightarrow> (console, unit) act" where
  "cmdTOTP T Q secret =
     (if secret = [] then fail (Errorf ''-secret is required'')
      else andThen (lift (totpAt Q secret (tl_now T 0))) println)"

subsection \<open>The program\<close>

text \<open>A command line after flag parsing. Nothing is done for a missing or an unknown command.\<close>

datatype command =
    SpikeCommand string string string string string
  | GenPKICommand string string string
  | KeygenCommand string
  | PubkeyCommand string
  | CSRCommand string string string string string
  | SignCommand string string string string sign_options
  | VerifyCommand string string string string bool bool
  | TOTPCommand string
  | VersionCommand
  | HelpCommand
  | NoCommand
  | UnknownCommand

text \<open>The exit code; an unrecovered panic exits with 2, and a command that hangs has none.\<close>

fun exit_code :: "unit outcome \<Rightarrow> nat option" where
  "exit_code (Done u) = Some 0"
| "exit_code (Fail e) = Some 1"
| "exit_code (Crash m) = Some 2"
| "exit_code Hang = None"

definition exits :: "(console, unit) act \<Rightarrow> console \<Rightarrow> nat option \<times> console" where
  "exits m s = (let (r, s') = m s in (exit_code r, s'))"

fun cli_main :: "tools \<Rightarrow> totp_lib \<Rightarrow> string \<Rightarrow> command \<Rightarrow> console \<Rightarrow> nat option \<times> console" where
  "cli_main T Q usage (SpikeCommand inp out signer device platform) = exits (cmdSpike T inp out signer device platform)"
| "cli_main T Q usage (GenPKICommand out cn platform) = exits (cmdGenPKI T out cn platform)"
| "cli_main T Q usage (KeygenCommand out) = exits (cmdKeygen T out)"
| "cli_main T Q usage (PubkeyCommand key) = exits (cmdPubkey T key)"
| "cli_main T Q usage (CSRCommand key out cn org platform) = exits (cmdCSR T key out cn org platform)"
| "cli_main T Q usage (SignCommand inp out key chain opts) = exits (cmdSign T inp out key chain opts)"
| "cli_main T Q usage (VerifyCommand inp root inter' crl external pqcOnly) =
     exits (cmdVerify T inp root inter' crl external pqcOnly)"
| "cli_main T Q usage (TOTPCommand secret) = exits (cmdTOTP T Q secret)"
| "cli_main T Q usage VersionCommand = exits (cn_print (concat (map (\<lambda>ln. ln @ [CHR 0x0A])
     [''pqcsign-cli spike build'', h_Version (tl_host T) @ '' '' @ h_GOOS (tl_host T) @ ''/'' @ h_GOARCH (tl_host T),
      ''algorithm: ML-DSA-65  profile: PAdES_B  digest: SHA-512''])))"
| "cli_main T Q usage HelpCommand = exits (cn_print usage)"
| "cli_main T Q usage NoCommand = Pair (Some 2)"
| "cli_main T Q usage UnknownCommand = Pair (Some 2)"

subsection \<open>What the commands leave on the disk\<close>

lemma cn_read_Done_iff: "cn_read T p s = (Done b, s') \<longleftrightarrow> ReadFile (tl_F T) (cn_disk s) p = Inr b \<and> s' = s"
  by (auto simp: cn_read_def cn_on_disk_def within_Done_iff ofResult_Done_iff)

lemma cn_write_Done:
  "cn_write T p b s = (Done u, s') \<Longrightarrow> s' = s\<lparr>cn_disk := put_file p b (cn_disk s)\<rparr>"
  using WriteFile_ok by (fastforce simp: cn_write_def cn_on_disk_def within_Done_iff syscall_Done_iff)

lemma cn_print_Done: "cn_print x s = (r, s') \<Longrightarrow> cn_disk s' = cn_disk s"
  by (auto simp: cn_print_def modifies_def)

lemma println_Done: "println x s = (r, s') \<Longrightarrow> cn_disk s' = cn_disk s"
  unfolding println_def by (rule cn_print_Done)

lemma cn_call_Done_iff: "cn_call r s = (Done x, s') \<longleftrightarrow> r = Some (Inr x) \<and> s' = s"
  by (auto simp: cn_call_def lift_Done_iff returned_Done_iff)

lemmas cn_iffs = cn_read_Done_iff cn_call_Done_iff andThen_Done_iff lift_Done_iff ret_Done_iff

lemma write_files_other:
  "write_files T out ws s = (Done u, s') \<Longrightarrow> \<forall>w \<in> set ws. q \<noteq> Clean (Join [out, fst w]) \<Longrightarrow>
     map_of (d_files (cn_disk s')) q = map_of (d_files (cn_disk s)) q"
  by (induction T out ws arbitrary: s rule: write_files.induct) (auto simp: cn_iffs dest!: cn_write_Done)

lemma Join_name: "plain_seg n \<Longrightarrow> Clean (Join [out, n]) = Join [out, n]" "plain_seg n \<Longrightarrow> Join [out, n] \<noteq> []"
  "plain_seg n \<Longrightarrow> plain_seg k \<Longrightarrow> Join [out, n] = Join [out, k] \<longleftrightarrow> n = k"
  using Join_plain_Clean [of "[n]" out] Join_plain_nonempty [of "[n]" out] Join_plain_inj [of "[n]" "[k]" out] by simp_all

lemma write_files_ok:
  "write_files T out ws s = (Done u, s') \<Longrightarrow> list_all (\<lambda>w. plain_seg (fst w)) ws \<Longrightarrow> keys_distinct ws \<Longrightarrow>
     (name, b) \<in> set ws \<Longrightarrow> map_of (d_files (cn_disk s')) (Join [out, name]) = Some b"
proof (induction T out ws arbitrary: s rule: write_files.induct)
  case (2 T out nm c ws)
  obtain s1 where s1: "cn_write T (Join [out, nm]) c s = (Done (), s1)" "write_files T out ws s1 = (Done u, s')"
    using 2(2) by (auto simp: cn_iffs)
  show ?case
  proof (cases "(name, b) \<in> set ws")
    case True
    then show ?thesis using 2(1) [OF s1(2)] 2(3,4) by simp
  next
    case False
    then have nm: "name = nm" "b = c" using 2(5) by auto
    have "\<forall>w \<in> set ws. Join [out, nm] \<noteq> Clean (Join [out, fst w])"
      using 2(3,4) by (auto simp: list_all_iff Join_name image_iff)
    then have "map_of (d_files (cn_disk s')) (Join [out, nm]) = map_of (d_files (cn_disk s1)) (Join [out, nm])"
      by (rule write_files_other [OF s1(2)])
    then show ?thesis using nm 2(3) cn_write_Done [OF s1(1)] by (simp add: Join_name)
  qed
qed simp

text \<open>When no error was collected, nothing failed.\<close>

lemma write_each_Nil: "write_each T out ws s = (Done [], s') \<Longrightarrow> write_files T out ws s = (Done (), s')"
proof (induction T out ws arbitrary: s rule: write_each.induct)
  case (2 T out nm c ws)
  then show ?case by (auto simp: cn_iffs attempt_Done_iff split: sum.splits)
qed (simp add: ret_def)

subsection \<open>The generated authority is accepted by the signer\<close>

text \<open>What is used of the library: a certificate created for a public key carries that key, its raw bytes and the
  usage of its template when it is read back; a request carries the key that signed it.\<close>

definition issue_law :: "lib \<Rightarrow> pki_lib \<Rightarrow> bool" where
  "issue_law L P \<longleftrightarrow> (\<forall>tmpl pa pub key der cert. P_CreateCertificate P tmpl pa pub key = Inr der \<longrightarrow>
     L_ParseCertificate L der = Inr cert \<longrightarrow> x_Raw cert = der \<and> x_PublicKey cert = pub \<and>
     (t_UnknownExtKeyUsage tmpl = [OIDDocumentSigningEKU] \<longrightarrow> x_UnknownExtKeyUsage cert = [OIDDocumentSigningEKU]))"

definition request_law :: "lib \<Rightarrow> pki_lib \<Rightarrow> bool" where
  "request_law L P \<longleftrightarrow> (\<forall>nm sk der csr. P_CreateCertificateRequest P nm sk = Inr der \<longrightarrow>
     L_ParseCertificateRequest L der = Inr csr \<longrightarrow> q_PublicKey csr = P_Public P sk)"

lemma ParseChainPEM_loop_ChainPEM:
  assumes "pem_law L P" "pem_progress L"
  shows "list_all (\<lambda>c. L_ParseCertificate L (x_Raw c) = Inr c) cs \<Longrightarrow> length (ChainPEM P cs) \<le> n \<Longrightarrow>
    ParseChainPEM_loop L n (ChainPEM P cs) = Inr cs"
proof (induction cs arbitrary: n)
  case Nil
  have "L_pem_decode L [] = None"
    using pem_progressD [OF assms(2), of "[]"] by (cases "L_pem_decode L []") auto
  then show ?case by (cases n) (simp_all add: ChainPEM_def)
next
  case (Cons c cs)
  have d: "L_pem_decode L (ChainPEM P (c # cs)) = Some (''CERTIFICATE'', x_Raw c, ChainPEM P cs)"
    using assms(1) by (simp add: pem_law_def ChainPEM_def CertPEM_def)
  then have "length (ChainPEM P cs) < length (ChainPEM P (c # cs))" by (rule pem_progressD [OF assms(2)])
  then obtain m where "n = Suc m" "length (ChainPEM P cs) \<le> m" using Cons.prems(2) by (cases n) auto
  then show ?case using Cons d by simp
qed

lemma ParseChainPEM_ChainPEM:
  assumes "pem_law L P" "pem_progress L" "list_all (\<lambda>c. L_ParseCertificate L (x_Raw c) = Inr c) cs" "cs \<noteq> []"
  shows "ParseChainPEM L (ChainPEM P cs) = Inr cs"
  using ParseChainPEM_loop_ChainPEM [OF assms(1,2,3) order_refl] assms(4) by (simp add: ParseChainPEM_def)

text \<open>The issued certificate has the device's key.\<close>

lemma IssueDeviceCert_issued:
  assumes "issue_law L P" "IssueDeviceCert L P n now c (Some q) opts = Inr cert"
  shows "L_ParseCertificate L (x_Raw cert) = Inr cert" "x_PublicKey cert = q_PublicKey q" "HasDocumentSigningEKU cert"
    "IsMLDSA cert"
proof -
  obtain p b serial der where q: "q_PublicKey q = MLDSAKey p b"
    and der: "P_CreateCertificate P (device_template serial now opts) (ParentCert (ca_Cert c)) (q_PublicKey q) (ca_Key c) = Inr der"
    and cert: "L_ParseCertificate L der = Inr cert"
    using assms(2) by (auto simp: IssueDeviceCert_def split: public_key.splits sum.splits)
  have "t_UnknownExtKeyUsage (device_template serial now opts) = [OIDDocumentSigningEKU]"
    by (simp add: device_template_def Let_def)
  with assms(1) der cert have "x_Raw cert = der" "x_PublicKey cert = q_PublicKey q"
      "x_UnknownExtKeyUsage cert = [OIDDocumentSigningEKU]"
    unfolding issue_law_def by blast+
  with cert q show "L_ParseCertificate L (x_Raw cert) = Inr cert" "x_PublicKey cert = q_PublicKey q"
    "HasDocumentSigningEKU cert" "IsMLDSA cert"
    by (simp_all add: HasDocumentSigningEKU_def IsMLDSA_def)
qed

lemma NewIntermediateCA_issued:
  assumes "issue_law L P" "NewIntermediateCA L P n now pa cn v = Inr c"
  shows "L_ParseCertificate L (x_Raw (ca_Cert c)) = Inr (ca_Cert c)"
proof -
  obtain tmpl par pub key der where "P_CreateCertificate P tmpl par pub key = Inr der" "L_ParseCertificate L der = Inr (ca_Cert c)"
    using assms(2) by (auto simp: NewIntermediateCA_def Let_def split: option.splits sum.splits)
  with assms(1) show ?thesis unfolding issue_law_def by metis
qed

lemma CreateDeviceCSR_key:
  assumes "pem_law L P" "request_law L P" "CreateDeviceCSR L P pk req = Inr b" "ParsePKCS8 L P pk = Inr sk"
    "ParseAndValidateCSR L b = Inr (csr, info)"
  shows "q_PublicKey csr = P_Public P sk" "\<exists>kb. P_Public P sk = MLDSAKey ''ML-DSA-65'' kb"
proof -
  obtain nm der where "P_CreateCertificateRequest P nm sk = Inr der" "b = P_pem_encode P ''CERTIFICATE REQUEST'' der"
    using assms(3,4) by (auto simp: CreateDeviceCSR_def Let_def split: if_splits sum.splits)
  moreover have "L_ParseCertificateRequest L (pem_or_der L b) = Inr csr" "\<exists>kb. q_PublicKey csr = MLDSAKey ''ML-DSA-65'' kb"
    using ParseAndValidateCSR_InrD [OF assms(5)] by blast+
  moreover have "pem_or_der L (P_pem_encode P ''CERTIFICATE REQUEST'' der) = der" for der
    using pem_lawD [OF assms(1)] by (simp add: pem_or_der_def)
  ultimately show "q_PublicKey csr = P_Public P sk" "\<exists>kb. P_Public P sk = MLDSAKey ''ML-DSA-65'' kb"
    using assms(2) unfolding request_law_def by metis+
qed

lemma make_lab_signs:
  assumes "pem_law L P" "pem_progress L" "key_law P" "issue_law L P" "request_law L P"
    and gen: "\<And>n sk. P_GenerateKey P n = Inr sk \<Longrightarrow> sk_params sk = ''ML-DSA-65''"
    and lab: "make_lab L P now cn = Done k" and pdf: "pdf \<noteq> []"
  shows "\<exists>sk. sign_checks L P pdf (lp_keyPEM k) (ChainPEM P [lp_cert k, ca_Cert (lp_inter k)]) =
    Inr (sk, [lp_cert k, ca_Cert (lp_inter k)])"
proof -
  obtain sk csr info root opts req where e: "GenerateMLDSA65Key P 2 = Inr sk" "MarshalPKCS8PEM P (Some sk) = Inr (lp_keyPEM k)"
      "NewIntermediateCA L P 1 (now 1) (Some root) ''PQC Device Signing CA (LAB)'' (lab_days (5 * 365)) = Inr (lp_inter k)"
      "CreateDeviceCSR L P (lp_keyPEM k) req = Inr (lp_csrPEM k)" "ParseAndValidateCSR L (lp_csrPEM k) = Inr (csr, info)"
      "IssueDeviceCert L P 3 (now 2) (lp_inter k) (Some csr) opts = Inr (lp_cert k)"
    using lab unfolding make_lab_def by (auto simp: obind_Done_iff ofResult_Done_iff)
  have "sk_params sk = ''ML-DSA-65''" using e(1) gen by (auto simp: GenerateMLDSA65Key_def split: sum.splits)
  then have key: "ParsePKCS8 L P (lp_keyPEM k) = Inr sk" using key_roundtrip [OF assms(1,3) _ e(2)] by blast
  note q = CreateDeviceCSR_key [OF assms(1,5) e(4) key e(5)]
  note c = IssueDeviceCert_issued [OF assms(4) e(6)]
  have "ParseChainPEM L (ChainPEM P [lp_cert k, ca_Cert (lp_inter k)]) = Inr [lp_cert k, ca_Cert (lp_inter k)]"
    using ParseChainPEM_ChainPEM [OF assms(1,2)] c(1) NewIntermediateCA_issued [OF assms(4) e(3)] by simp
  moreover have "SameKeyPair P sk (x_PublicKey (lp_cert k))"
    using q c(2) by (auto simp: SameKeyPair_def)
  ultimately show ?thesis using key pdf c(3,4) by (simp add: sign_checks_def)
qed

subsection \<open>The commands\<close>

lemma plain_seg_lab: "list_all (\<lambda>w. plain_seg (fst w)) (lab_files P k)" "keys_distinct (lab_files P k)"
  by (simp_all add: lab_files_def plain_seg_def)

lemma plain_seg_spike: "list_all (\<lambda>w. plain_seg (fst w)) (spike_files a)" "keys_distinct (spike_files a)"
  by (simp_all add: spike_files_def plain_seg_def)

lemma errors_Join_None: "errors_Join es = None \<longleftrightarrow> es = []"
  by (simp add: errors_Join_def)

lemma file_read:
  "map_of (d_files d) (Join [out, n]) = Some b \<Longrightarrow> plain_seg n \<Longrightarrow> fa_read F (Join [out, n]) = None \<Longrightarrow>
     ReadFile F d (Join [out, n]) = Inr b"
  by (simp add: ReadFile_def Join_name)

text \<open>A \<open>genpki\<close> that succeeds has written every file.\<close>

lemma cmdGenPKI_ok:
  assumes "cmdGenPKI T out cn platform s = (Done u, s')"
  obtains k where "make_lab (tl_L T) (tl_P T) (tl_now T) cn = Done k"
    "\<And>name b. (name, b) \<in> set (lab_files (tl_P T) k) \<Longrightarrow> map_of (d_files (cn_disk s')) (Join [out, name]) = Some b"
proof -
  obtain k s1 es s2 where k: "make_lab (tl_L T) (tl_P T) (tl_now T) cn = Done k"
    and es: "write_each T out (lab_files (tl_P T) k) s1 = (Done es, s2)"
    and rest: "(case errors_Join es of Some e \<Rightarrow> fail e | None \<Rightarrow>
       andThen (cn_print (concat (map (\<lambda>ln. ln @ [CHR 0x0A])
             [''lab PKI written to '' @ out @ ''/'', ''  root       : '' @ x_Subject (ca_Cert (lp_root k)),
              ''  intermediate: '' @ x_Subject (ca_Cert (lp_inter k)),
              ''  device     : '' @ x_Subject (lp_cert k) @ '' (serial '' @ serial_hex (x_SerialNumber (lp_cert k)) @ '')'']))) (\<lambda>u.
           println (''NOTE: lab only '' @ em_dash @ '' not a production PKI ceremony (Rencana V1 '' @ [CHR 0xC2, CHR 0xA7] @ ''13).''))) s2 = (Done u, s')"
    using assms unfolding cmdGenPKI_def by (auto simp only: andThen_Done_iff lift_Done_iff)
  have es0: "es = []" using rest by (cases "errors_Join es") (auto simp: errors_Join_None)
  have "cn_disk s' = cn_disk s2"
    using rest by (auto simp: es0 errors_Join_def andThen_Done_iff dest!: cn_print_Done println_Done)
  moreover have "write_files T out (lab_files (tl_P T) k) s1 = (Done (), s2)"
    using es by (simp add: es0 write_each_Nil)
  ultimately show ?thesis using k by (intro that) (auto intro: write_files_ok plain_seg_lab)
qed

text \<open>A \<open>spike\<close> that succeeds has a report that passed, and has written every artifact.\<close>

lemma cmdSpike_ok:
  assumes "cmdSpike T inp out signer device platform s = (Done u, s')" "\<And>ws. mset (tl_order T ws) = mset ws"
  obtains pdf rep where "Run (tl_L T) (tl_P T) (tl_G T) (tl_host T) (tl_now T)
       \<lparr>sc_InputPDF = pdf, sc_SignerName = signer, sc_DeviceLabel = device, sc_Platform = platform, sc_PublicID = []\<rparr> = Done rep"
    "rp_Passed rep"
    "\<And>name b. (name, b) \<in> set (spike_files (rp_Artifacts rep)) \<Longrightarrow> map_of (d_files (cn_disk s')) (Join [out, name]) = Some b"
proof -
  let ?ws = "\<lambda>rep. tl_order T (spike_files (rp_Artifacts rep))"
  obtain pdf rep s1 s2 s3 s4 s5 u1 u2 u3 u4 where run: "Run (tl_L T) (tl_P T) (tl_G T) (tl_host T) (tl_now T)
       \<lparr>sc_InputPDF = pdf, sc_SignerName = signer, sc_DeviceLabel = device, sc_Platform = platform, sc_PublicID = []\<rparr> = Done rep"
    and w: "write_files T out (?ws rep) s1 = (Done u1, s2)"
    and r: "cn_write T (Join [out, ''report.json'']) (case tl_report T rep of Inl e \<Rightarrow> [] | Inr b \<Rightarrow> b) s2 = (Done u2, s3)"
    and p: "cn_print (spike_summary rep) s3 = (Done u3, s4)"
      "cn_print (CHR 0x0A # ''artifacts written to '' @ out @ ''/'' @ [CHR 0x0A]) s4 = (Done u4, s5)"
      "(if \<not> rp_Passed rep then fail (Errorf ''spike FAILED (see checks above)'') else println ''spike PASSED'') s5 = (Done u, s')"
    using assms(1) unfolding cmdSpike_def by (auto simp only: andThen_Done_iff lift_Done_iff)
  have pass: "rp_Passed rep" using p(3) by (auto split: if_splits)
  have d: "cn_disk s' = put_file (Join [out, ''report.json'']) (case tl_report T rep of Inl e \<Rightarrow> [] | Inr b \<Rightarrow> b) (cn_disk s2)"
    using cn_print_Done [OF p(1)] cn_print_Done [OF p(2)] println_Done [of _ s5 _ s'] p(3) pass cn_write_Done [OF r] by simp
  have ws: "list_all (\<lambda>w. plain_seg (fst w)) (?ws rep)" "keys_distinct (?ws rep)" "set (?ws rep) = set (spike_files (rp_Artifacts rep))"
  proof -
    let ?fs = "spike_files (rp_Artifacts rep)"
    have m: "mset (?ws rep) = mset ?fs" by (rule assms(2))
    show st: "set (?ws rep) = set ?fs" by (metis m set_mset_mset)
    show "list_all (\<lambda>w. plain_seg (fst w)) (?ws rep)"
      using plain_seg_spike(1) [of "rp_Artifacts rep"] unfolding list_all_iff st .
    have "mset (map fst (?ws rep)) = mset (map fst ?fs)" by (simp add: m)
    then show "keys_distinct (?ws rep)"
      using plain_seg_spike(2) [of "rp_Artifacts rep"] by (metis mset_eq_imp_distinct_iff)
  qed
  have nr: "plain_seg n \<and> n \<noteq> ''report.json''" if "(n, b) \<in> set (spike_files (rp_Artifacts rep))" for n b
    using that by (auto simp: spike_files_def plain_seg_def)
  have "plain_seg ''report.json''" by (simp add: plain_seg_def)
  then show ?thesis
    using run pass write_files_ok [OF w ws(1,2)] ws(3) nr by (intro that) (auto simp: d Join_name)
qed

text \<open>A \<open>verify\<close> that succeeds has found the document valid and has changed nothing.\<close>

lemma cmdVerify_ok:
  assumes "cmdVerify T inp root interPath crlPath external pqcOnly s = (Done u, s')"
  obtains pdf rootPEM interPEM crlPEM res where "ReadFile (tl_F T) (cn_disk s) inp = Inr pdf"
    "ReadFile (tl_F T) (cn_disk s) root = Inr rootPEM"
    "VerifyPDF (tl_L T) (tl_now T 0) pdf (voptions_zero\<lparr>vo_RequireMLDSAOnly := pqcOnly,
       vo_AllowExternalRevocation := external, vo_RootPEM := rootPEM, vo_IntermediatePEM := interPEM, vo_CRLPEM := crlPEM\<rparr>) = Some (Inr res)"
    "vr_Valid res" "cn_disk s' = cn_disk s"
  using assms unfolding cmdVerify_def cn_read_optional_def
  by (auto simp: cn_iffs simp del: One_nat_def split: if_splits dest!: println_Done)

end
