(* ===== verification/CliClaims.thy ===== *)
theory CliClaims
  imports DevCli AppClaims
begin

section \<open>The development tools: what the commands promise\<close>

text \<open>
  The properties of the command line and of the end-to-end run of \<open>core/spike\<close>: what \<open>genpki\<close> writes is
  accepted by the signer, the files of a \<open>spike\<close> that succeeded verify as its report says, and the one-time
  codes are well formed.
\<close>

unbundle bit_operations_syntax

subsection \<open>One-time codes\<close>

lemma dec_nat_digits_six: "n < 1000000 \<Longrightarrow> length (dec_nat n) \<le> 6"
proof -
  have "n < 10 ^ k \<Longrightarrow> 0 < k \<Longrightarrow> length (dec_nat n) \<le> k" for k
  proof (induction k arbitrary: n)
    case (Suc k)
    show ?case
    proof (cases "n < 10")
      case False
      then have "0 < k" using Suc.prems(1) by (cases k) auto
      moreover have "n div 10 < 10 ^ k" using Suc.prems(1) by (simp add: div_less_iff_less_mult)
      ultimately show ?thesis using False Suc.IH [of "n div 10"] by (subst dec_nat.simps) simp
    qed (subst dec_nat.simps, simp)
  qed simp
  from this [of 6] show "n < 1000000 \<Longrightarrow> length (dec_nat n) \<le> 6" by simp
qed

text \<open>With a digest of 20 bytes the truncation stays inside it and gives six digits.\<close>

lemma totp_truncate_digits:
  assumes "length digest = 20"
  shows "\<exists>code. totp_truncate digest = Done code \<and> length code = 6 \<and> list_all is_dec code"
proof -
  let ?off = "(of_char (last digest) :: nat) AND 0x0F"
  have "?off = of_char (last digest) mod 16" using take_bit_eq_mask [of 4 "of_char (last digest) :: nat"]
    by (simp add: mask_eq_exp_minus_1 take_bit_eq_mod)
  then have off: "?off + 3 < 20" by (simp add: algebra_simps)
  have digest: "digest \<noteq> []" using assms by auto
  define v where "v = (push_bit 24 (byte32 (digest ! ?off) AND 0x7F) OR push_bit 16 (byte32 (digest ! (?off + 1)))
      OR push_bit 8 (byte32 (digest ! (?off + 2))) OR byte32 (digest ! (?off + 3))) mod 1000000"
  have run: "totp_truncate digest = Done (dec06 (unat v))"
    using digest off assms by (simp add: totp_truncate_def v_def Let_def)
  have "unat v < 1000000"
    unfolding v_def by (simp add: unat_mod)
  then have "length (dec06 (unat v)) = 6" using dec_nat_digits_six by (simp add: dec06_def)
  moreover have "list_all is_dec (dec06 (unat v))"
    using dec_nat_digits by (auto simp: dec06_def list_all_iff is_dec_def byte_in_def)
  ultimately show ?thesis using run by simp
qed

subsection \<open>The generated authority\<close>

text \<open>C31: The signer accepts what \<open>genpki\<close> generates: after a run that reports success, the key file and the chain file in
  the output directory pass every check \<open>SignPDF\<close> makes before it touches the document, with the issued certificate
  first and its issuer second.\<close>

theorem generated_pki_signs:
  assumes "pem_law (tl_L T) (tl_P T)" "pem_progress (tl_L T)" "key_law (tl_P T)" "issue_law (tl_L T) (tl_P T)"
    and "request_law (tl_L T) (tl_P T)"
    and "\<And>n sk. P_GenerateKey (tl_P T) n = Inr sk \<Longrightarrow> sk_params sk = ''ML-DSA-65''"
    and "\<And>p. fa_read (tl_F T) p = None"
    and "cmdGenPKI T out cn platform s = (Done (), s')"
    and "pdf \<noteq> []"
  shows "\<exists>key chain sk leaf issuer.
    ReadFile (tl_F T) (cn_disk s') (Join [out, ''device-key.pkcs8.pem'']) = Inr key \<and>
    ReadFile (tl_F T) (cn_disk s') (Join [out, ''ca-chain.pem'']) = Inr chain \<and>
    sign_checks (tl_L T) (tl_P T) pdf key chain = Inr (sk, [leaf, issuer]) \<and>
    ReadFile (tl_F T) (cn_disk s') (Join [out, ''device.crt.pem'']) = Inr (CertPEM (tl_P T) leaf)"
proof -
  obtain k where k: "make_lab (tl_L T) (tl_P T) (tl_now T) cn = Done k"
    and files: "\<And>name b. (name, b) \<in> set (lab_files (tl_P T) k) \<Longrightarrow>
      map_of (d_files (cn_disk s')) (Join [out, name]) = Some b"
    using cmdGenPKI_ok [OF assms(8)] by blast
  have rd: "ReadFile (tl_F T) (cn_disk s') (Join [out, name]) = Inr b" if "(name, b) \<in> set (lab_files (tl_P T) k)" for name b
    using files [OF that] plain_seg_lab(1) [of "tl_P T" k] that by (intro file_read assms(7)) (auto simp: list_all_iff)
  show ?thesis
    using make_lab_signs [OF assms(1-6) k assms(9)] rd by (fastforce simp: lab_files_def)
qed

text \<open>A library with one key, two certificates and one request.\<close>

definition demo_root_cert :: x509cert where
  "demo_root_cert = demo_ca_cert\<lparr>x_PublicKey := MLDSAKey ''ML-DSA-65'' ''pk''\<rparr>"

definition demo_lab_lib :: lib where
  "demo_lab_lib = demo_lib2\<lparr>L_ParseCertificate := (\<lambda>b. if b = ''cacert'' then Inr demo_root_cert
       else if b = ''raw'' then Inr demo_cert else Inl (Errorf ''x509'')),
     L_ParseCertificateRequest := (\<lambda>b. Inr demo_csr)\<rparr>"

definition demo_lab_pki :: pki_lib where
  "demo_lab_pki = demo_pkilib\<lparr>P_GenerateKey := (\<lambda>n. Inr \<lparr>sk_params = ''ML-DSA-65'', sk_bytes = ''pk''\<rparr>),
     P_CreateCertificate := (\<lambda>t pa pub key. if pub = MLDSAKey ''ML-DSA-65'' ''pk''
       then Inr (if t_UnknownExtKeyUsage t = [OIDDocumentSigningEKU] then ''raw'' else ''cacert'') else Inl (Errorf ''create'')),
     P_CreateCertificateRequest := (\<lambda>n sk. if P_Public demo_pkilib sk = MLDSAKey ''ML-DSA-65'' ''pk'' then Inr ''q'' else Inl (Errorf ''csr'')),
     P_CreateRevocationList := (\<lambda>t c sk. Inr ''crl'')\<rparr>"

definition demo_host :: host where
  "demo_host = \<lparr>h_GOOS = ''windows'', h_GOARCH = ''amd64'', h_Version = ''go1'', h_HeapAlloc = 4096\<rparr>"

definition demo_json_lib :: json_lib where
  "demo_json_lib = \<lparr>J_sign_options = (\<lambda>s. Inr sign_options_zero), J_csr_request = (\<lambda>s. Inl (Errorf ''json'')),
     J_vresult = (\<lambda>r. Inr (vr_DocumentSHA512 r))\<rparr>"

definition demo_tools :: tools where
  "demo_tools = \<lparr>tl_L = demo_lab_lib, tl_P = demo_lab_pki, tl_G = demo_signlib, tl_J = demo_json_lib, tl_F = no_faults,
     tl_host = demo_host, tl_now = (\<lambda>n. 2), tl_sample = ''%PDF'', tl_report = (\<lambda>r. Inr ''{}''), tl_order = rev\<rparr>"

definition demo_console :: console where
  "demo_console = \<lparr>cn_disk = \<lparr>d_files = [], d_dirs = []\<rparr>, cn_out = []\<rparr>"

lemma demo_lab_laws: "pem_law demo_lab_lib demo_lab_pki" "pem_progress demo_lab_lib" "key_law demo_lab_pki"
  "issue_law demo_lab_lib demo_lab_pki" "request_law demo_lab_lib demo_lab_pki"
  by (auto simp: pem_law_def pem_progress_def key_law_def issue_law_def request_law_def demo_lab_lib_def demo_lib2_def
      demo_lab_pki_def demo_pkilib_def demo_lib_def demo_cert_def demo_root_cert_def demo_ca_cert_def demo_csr_def demo_pem_roundtrip
      dest: demo_pem_shorter split: if_splits)

lemma demo_genpki: "fst (cmdGenPKI demo_tools ''lab'' ''me'' ''windows'' demo_console) = Done ()"
  by code_simp

theorem generated_pki_signs_witness:
  "\<exists>key chain sk leaf issuer. sign_checks demo_lab_lib demo_lab_pki ''%PDF'' key chain = Inr (sk, [leaf, issuer]) \<and>
     ReadFile no_faults (cn_disk (snd (cmdGenPKI demo_tools ''lab'' ''me'' ''windows'' demo_console)))
       (Join [''lab'', ''ca-chain.pem'']) = Inr chain"
proof -
  let ?r = "cmdGenPKI demo_tools ''lab'' ''me'' ''windows'' demo_console"
  have t: "tl_L demo_tools = demo_lab_lib" "tl_P demo_tools = demo_lab_pki" "tl_F demo_tools = no_faults"
    by (simp_all add: demo_tools_def)
  have run: "?r = (Done (), snd ?r)" by (metis demo_genpki prod.collapse)
  have gen: "sk_params sk = ''ML-DSA-65''" if "P_GenerateKey demo_lab_pki n = Inr sk" for n sk
    using that by (auto simp: demo_lab_pki_def)
  have nf: "fa_read no_faults p = None" for p by (simp add: no_faults_def)
  show ?thesis
    using generated_pki_signs [where T = demo_tools and pdf = "''%PDF''", unfolded t, OF demo_lab_laws gen nf run] by fastforce
qed

subsection \<open>The end-to-end run\<close>

text \<open>A spike that ends with success proves what it says with the files it leaves: the signed file on the disk
  verified with the root, intermediate and revocation list beside it; a copy with its middle byte inverted was not
  found valid; nor was the signed file with the unrelated root.\<close>

theorem spike_files_verify:
  assumes "cmdSpike T inp out signer device platform s = (Done (), s')"
    and "\<And>ws. mset (tl_order T ws) = mset ws" and "\<And>p. fa_read (tl_F T) p = None"
  shows "\<exists>pdf root interPEM crl wrong tampered good.
    ReadFile (tl_F T) (cn_disk s') (Join [out, ''signed.pdf'']) = Inr pdf \<and>
    ReadFile (tl_F T) (cn_disk s') (Join [out, ''root-ca.crt.pem'']) = Inr root \<and>
    ReadFile (tl_F T) (cn_disk s') (Join [out, ''intermediate-ca.crt.pem'']) = Inr interPEM \<and>
    ReadFile (tl_F T) (cn_disk s') (Join [out, ''crl.pem'']) = Inr crl \<and>
    ReadFile (tl_F T) (cn_disk s') (Join [out, ''unrelated-root.crt.pem'']) = Inr wrong \<and>
    VerifyPDF (tl_L T) (tl_now T 14) pdf (lab_options root interPEM crl) = Some (Inr good) \<and> vr_Valid good \<and>
    tampered = pdf[length pdf div 2 := flip_byte (pdf ! (length pdf div 2))] \<and>
    (\<forall>res. VerifyPDF (tl_L T) (tl_now T 16) tampered (lab_options root interPEM []) = Some (Inr res) \<longrightarrow> \<not> vr_Valid res) \<and>
    (\<forall>res. VerifyPDF (tl_L T) (tl_now T 17) pdf (lab_options wrong [] []) = Some (Inr res) \<longrightarrow> \<not> vr_Valid res)"
proof -
  obtain pdf0 rep where run: "Run (tl_L T) (tl_P T) (tl_G T) (tl_host T) (tl_now T)
       \<lparr>sc_InputPDF = pdf0, sc_SignerName = signer, sc_DeviceLabel = device, sc_Platform = platform, sc_PublicID = []\<rparr> = Done rep"
    and pass: "rp_Passed rep"
    and files: "\<And>name b. (name, b) \<in> set (spike_files (rp_Artifacts rep)) \<Longrightarrow>
      map_of (d_files (cn_disk s')) (Join [out, name]) = Some b"
    using cmdSpike_ok [OF assms(1,2)] by blast
  have rd: "ReadFile (tl_F T) (cn_disk s') (Join [out, name]) = Inr b"
    if "(name, b) \<in> set (spike_files (rp_Artifacts rep))" for name b
    using files [OF that] plain_seg_spike(1) [of "rp_Artifacts rep"] that
    by (intro file_read assms(3)) (auto simp: list_all_iff)
  show ?thesis
  proof (rule Run_facts [OF run])
    fix good tampered
    let ?a = "rp_Artifacts rep"
    assume f: "VerifyPDF (tl_L T) (tl_now T 14) (ar_SignedPDF ?a) (lab_options (ar_RootCertPEM ?a)
         (ar_IntermediateCertPEM ?a) (ar_CRLPEM ?a)) = Some (Inr good)"
      "tamper (ar_SignedPDF ?a) = Done tampered" "rp_Passed rep \<Longrightarrow> vr_Valid good"
      "\<And>res. rp_Passed rep \<Longrightarrow> VerifyPDF (tl_L T) (tl_now T 16) tampered (lab_options (ar_RootCertPEM ?a)
         (ar_IntermediateCertPEM ?a) []) = Some (Inr res) \<Longrightarrow> \<not> vr_Valid res"
      "\<And>res. rp_Passed rep \<Longrightarrow> VerifyPDF (tl_L T) (tl_now T 17) (ar_SignedPDF ?a)
         (lab_options (ar_WrongRootPEM ?a) [] []) = Some (Inr res) \<Longrightarrow> \<not> vr_Valid res"
    have t: "tampered = (ar_SignedPDF ?a)[length (ar_SignedPDF ?a) div 2 :=
        flip_byte (ar_SignedPDF ?a ! (length (ar_SignedPDF ?a) div 2))]"
      using f(2) tamper_nonempty [OF VerifyPDF_nonempty [OF f(1)]] by simp
    show ?thesis
      by (rule exI [of _ "ar_SignedPDF ?a"], rule exI [of _ "ar_RootCertPEM ?a"], rule exI [of _ "ar_IntermediateCertPEM ?a"],
          rule exI [of _ "ar_CRLPEM ?a"], rule exI [of _ "ar_WrongRootPEM ?a"], rule exI [of _ tampered], rule exI [of _ good])
        (use f t pass rd in \<open>auto simp: spike_files_def\<close>)
  qed
qed

text \<open>A library that finds the signature only in the untouched file and under the right root.\<close>

definition demo_other_cert :: x509cert where
  "demo_other_cert = demo_root_cert\<lparr>x_Raw := ''other''\<rparr>"

definition demo_spike_lib :: lib where
  "demo_spike_lib = demo_lab_lib\<lparr>L_ParseCertificate := (\<lambda>b. if b = ''other'' then Inr demo_other_cert
       else if b = ''cacert'' then Inr demo_root_cert else Inr demo_cert),
     L_CertsFromPEM := (\<lambda>b. if b = CertPEM demo_lab_pki demo_other_cert then [demo_other_cert] else [demo_root_cert]),
     L_pdf_Open := (\<lambda>b. Returns 1 None),
     L_pdf_Signatures := (\<lambda>b o'. Returns 1 (None, if b = ''%PDF+sig'' \<and> map x_Raw (ps_Roots o') = [''cacert'']
       then [demo_pdf_sig\<lparr>p_Certificate := Some demo_cert\<rparr>] else []))\<rparr>"

definition demo_spike_pki :: pki_lib where
  "demo_spike_pki = demo_lab_pki\<lparr>P_CreateCertificate := (\<lambda>t pa pub key.
     Inr (if t_UnknownExtKeyUsage t = [OIDDocumentSigningEKU] then ''raw''
          else if n_CommonName (t_Subject t) = ''Unrelated Root CA (LAB)'' then ''other'' else ''cacert''))\<rparr>"

definition demo_spike_tools :: tools where
  "demo_spike_tools = demo_tools\<lparr>tl_L := demo_spike_lib, tl_P := demo_spike_pki\<rparr>"


definition demo_spike_config :: spike_config where
  "demo_spike_config = \<lparr>sc_InputPDF = ''%PDF'', sc_SignerName = ''me'', sc_DeviceLabel = ''pc'', sc_Platform = ''windows'', sc_PublicID = []\<rparr>"

lemma demo_Run: "\<exists>rep. Run demo_spike_lib demo_spike_pki demo_signlib demo_host (\<lambda>n. 2) demo_spike_config = Done rep \<and> rp_Passed rep"
proof -
  have "(case Run demo_spike_lib demo_spike_pki demo_signlib demo_host (\<lambda>n. 2) demo_spike_config of Done r \<Rightarrow> rp_Passed r | _ \<Rightarrow> False)"
    by code_simp
  then show ?thesis by (simp split: outcome.splits)
qed

definition demo_out :: console where
  "demo_out = demo_console\<lparr>cn_disk := \<lparr>d_files = [], d_dirs = [''out'']\<rparr>\<rparr>"

lemma demo_out_dir: "cn_mkdir demo_spike_tools ''out'' demo_console = (Done (), demo_out)"
  by code_simp

lemma demo_out_files: "fst (andThen (write_files demo_spike_tools ''out'' (rev (spike_files a)))
    (\<lambda>u. cn_write demo_spike_tools (Join [''out'', ''report.json'']) ''{}'') demo_out) = Done ()"
  by code_simp

lemma demo_spike: "fst (cmdSpike demo_spike_tools [] ''out'' ''me'' ''pc'' ''windows'' demo_console) = Done ()"
proof -
  obtain rep where rep: "Run demo_spike_lib demo_spike_pki demo_signlib demo_host (\<lambda>n. 2) demo_spike_config = Done rep" "rp_Passed rep"
    using demo_Run by blast
  obtain u1 s1 u2 s2 where w: "write_files demo_spike_tools ''out'' (rev (spike_files (rp_Artifacts rep))) demo_out = (Done u1, s1)"
    "cn_write demo_spike_tools (Join [''out'', ''report.json'']) ''{}'' s1 = (Done u2, s2)"
  proof -
    let ?m = "andThen (write_files demo_spike_tools ''out'' (rev (spike_files (rp_Artifacts rep))))
      (\<lambda>u. cn_write demo_spike_tools (Join [''out'', ''report.json'']) ''{}'')"
    have "?m demo_out = (Done (), snd (?m demo_out))" by (rule prod_eqI) (simp_all only: demo_out_files fst_conv snd_conv)
    then show ?thesis by (rule andThen_DoneE) (rule that)
  qed
  have t: "tl_L demo_spike_tools = demo_spike_lib" "tl_P demo_spike_tools = demo_spike_pki" "tl_G demo_spike_tools = demo_signlib"
    "tl_host demo_spike_tools = demo_host" "tl_now demo_spike_tools = (\<lambda>n. 2)" "tl_sample demo_spike_tools = ''%PDF''"
    "tl_report demo_spike_tools = (\<lambda>r. Inr ''{}'')" "tl_order demo_spike_tools = rev"
    by (simp_all add: demo_spike_tools_def demo_tools_def)
  show ?thesis
    using rep(2) w
    by (simp add: cmdSpike_def t rep(1) [unfolded demo_spike_config_def] andThen_def lift_def demo_out_dir w
        cn_print_def println_def modifies_def)
qed

theorem spike_files_verify_witness:
  "\<exists>pdf root interPEM crl good.
    ReadFile no_faults (cn_disk (snd (cmdSpike demo_spike_tools [] ''out'' ''me'' ''pc'' ''windows'' demo_console)))
      (Join [''out'', ''signed.pdf'']) = Inr pdf \<and>
    VerifyPDF demo_spike_lib 2 pdf (lab_options root interPEM crl) = Some (Inr good) \<and> vr_Valid good"
proof -
  let ?r = "cmdSpike demo_spike_tools [] ''out'' ''me'' ''pc'' ''windows'' demo_console"
  have t: "tl_L demo_spike_tools = demo_spike_lib" "tl_F demo_spike_tools = no_faults" "tl_now demo_spike_tools n = 2"
    "tl_order demo_spike_tools = rev" for n
    by (simp_all add: demo_spike_tools_def demo_tools_def)
  have run: "?r = (Done (), snd ?r)" by (metis demo_spike prod.collapse)
  have mr: "mset (rev ws) = mset ws" for ws :: "(string \<times> bytes) list" by simp
  have nf: "fa_read no_faults p = None" for p by (simp add: no_faults_def)
  show ?thesis
    using spike_files_verify [OF run, unfolded t, OF mr nf] by fastforce
qed

subsection \<open>One-time codes\<close>

text \<open>A one-time code is always six decimal digits: whatever the key and the time, when HMAC-SHA-1 gives its 20 bytes the
  truncation never reads outside them, and a code is refused only when the secret does not decode.\<close>

theorem totp_six_digits:
  assumes "\<And>k m. length (O_hmac_sha1 Q k m) = 20"
  shows "(\<exists>code. totpAt Q secret t = Done code \<and> length code = 6 \<and> list_all is_dec code) \<or>
    (\<exists>e. O_base32 Q (O_ToUpper Q (TrimSpace secret)) = Inl e \<and> totpAt Q secret t = Fail (Wrap ''bad base32 secret'' e))"
proof (cases "O_base32 Q (O_ToUpper Q (TrimSpace secret))")
  case (Inr key)
  then show ?thesis using totp_truncate_digits [OF assms] by (simp add: totpAt_def)
qed (simp add: totpAt_def)

theorem totp_six_digits_witness:
  "\<exists>code. totpAt \<lparr>O_ToUpper = (\<lambda>s. s), O_base32 = (\<lambda>s. Inr s), O_hmac_sha1 = (\<lambda>k m. replicate 20 (CHR 0xFF))\<rparr> ''key'' 2 = Done code \<and>
     length code = 6"
  using totp_six_digits [of "\<lparr>O_ToUpper = (\<lambda>s. s), O_base32 = (\<lambda>s. Inr s), O_hmac_sha1 = (\<lambda>k m. replicate 20 (CHR 0xFF))\<rparr>" "''key''" 2]
  by auto

end
