(* ===== verification/Desktop.thy ===== *)
theory Desktop
  imports AppCore
begin

section \<open>The facade of the desktop window (\<open>apps/windows/cmd/pqcsign-desktop/app.go\<close>)\<close>

text \<open>
  The methods bound to the window. A window has a core from the moment its vault could be opened, at the start
  or by \<open>Connect\<close>; before that the methods run on a nil pointer, and one that reads a field of it panics.
  The window's toolkit (file dialogs) and the JSON encoders are parameters of the record \<open>desk\<close>.
\<close>

subsection \<open>State and environment\<close>

record 'w window =
  wn_machine :: "'w machine"
  wn_core :: "vault option"

record 'w desk =
  dk_env :: "'w env"
  dk_getenv :: "string \<Rightarrow> string"
  dk_userConfigDir :: "string result"
  dk_marshal :: "(string, json) gomap \<Rightarrow> bytes result"
  dk_marshal_list :: "(string, json) gomap list \<Rightarrow> bytes result"
  dk_marshal_vresult :: "vresult \<Rightarrow> bytes result"
  dk_open_dialog :: "string result"
  dk_save_dialog :: "string \<Rightarrow> string result"

record cert_view =
  cv_State :: string
  cv_Serial :: string
  cv_Subject :: string
  cv_HasDocSigning :: bool
  cv_NotAfter :: string

definition nil_pointer :: string where
  "nil_pointer = ''invalid memory address or nil pointer dereference''"

definition on_machine :: "('w machine, 'a) act \<Rightarrow> ('w window, 'a) act" where
  "on_machine m = within wn_machine (\<lambda>d w. w\<lparr>wn_machine := d\<rparr>) m"

text \<open>A method that reads a field of the core at once.\<close>

definition with_core :: "'w desk \<Rightarrow> ('w env \<Rightarrow> ('w machine, 'a) act) \<Rightarrow> ('w window, 'a) act" where
  "with_core D m w =
     (case wn_core w of
        None \<Rightarrow> (Crash nil_pointer, w)
      | Some v \<Rightarrow> on_machine (m ((dk_env D)\<lparr>e_vault := v\<rparr>)) w)"

text \<open>\<open>b, _ := json.Marshal(v)\<close>.\<close>

definition bytes_or_nil :: "bytes result \<Rightarrow> bytes" where
  "bytes_or_nil r = (case r of Inl e \<Rightarrow> [] | Inr b \<Rightarrow> b)"

subsection \<open>Start and connection\<close>

definition new_core :: "'w desk \<Rightarrow> string \<Rightarrow> bool \<Rightarrow> ('w window, unit) act" where
  "new_core D serverURL insecureTLS =
     andThen (on_machine (on_disk (app_New (e_K (dk_env D)) (e_F (dk_env D)) (dk_getenv D) (dk_userConfigDir D) []
       serverURL insecureTLS))) (\<lambda>(v, c).
     modifies (\<lambda>w. w\<lparr>wn_core := Some v, wn_machine := (wn_machine w)\<lparr>m_net := (m_net (wn_machine w))\<lparr>nt_client := c\<rparr>\<rparr>\<rparr>))"

definition win_startup :: "'w desk \<Rightarrow> ('w window, unit) act" where
  "win_startup D = ignore (new_core D [] False)"

definition win_Connect :: "'w desk \<Rightarrow> string \<Rightarrow> bool \<Rightarrow> ('w window, unit) act" where
  "win_Connect D serverURL insecureTLS w =
     (if wn_core w = None then new_core D serverURL insecureTLS w
      else with_core D (\<lambda>E. SetServerURL E serverURL insecureTLS) w)"

subsection \<open>The methods\<close>

definition win_Register :: "'w desk \<Rightarrow> string \<Rightarrow> string \<Rightarrow> string \<Rightarrow> string \<Rightarrow> string \<Rightarrow> string \<Rightarrow>
    ('w window, register_result) act" where
  "win_Register D fullName org email password position nip =
     with_core D (\<lambda>E. app_Register E fullName org email password position nip)"

definition win_Login :: "'w desk \<Rightarrow> string \<Rightarrow> string \<Rightarrow> ('w window, unit) act" where
  "win_Login D email password = with_core D (\<lambda>E. app_Login E email password)"

text \<open>These two read no field of the core.\<close>

definition win_VerifyPublic :: "'w desk \<Rightarrow> string \<Rightarrow> string \<Rightarrow> ('w window, string) act" where
  "win_VerifyPublic D serverURL path =
     andThen (on_machine (app_VerifyPublic (dk_env D) serverURL path)) (\<lambda>r. ret (bytes_or_nil (dk_marshal D r)))"

definition win_LoadPdfB64 :: "'w desk \<Rightarrow> string \<Rightarrow> ('w window, string) act" where
  "win_LoadPdfB64 D path = on_machine (PdfBytesB64 (dk_env D) path)"

definition date_text :: "time \<Rightarrow> string" where
  "date_text t = (let (y, mo, d) = civil (day_of t 0) in dec04 y @ ''-'' @ dec02 mo @ ''-'' @ dec02 d)"

fun toCertView :: "cert_status \<Rightarrow> cert_view" where
  "toCertView CertNone = \<lparr>cv_State = ''none'', cv_Serial = [], cv_Subject = [], cv_HasDocSigning = False, cv_NotAfter = []\<rparr>"
| "toCertView CertPending = \<lparr>cv_State = ''pending'', cv_Serial = [], cv_Subject = [], cv_HasDocSigning = False, cv_NotAfter = []\<rparr>"
| "toCertView (CertOk info) = \<lparr>cv_State = ''active'', cv_Serial = ci_SerialNumber info, cv_Subject = ci_Subject info,
     cv_HasDocSigning = ci_HasDocumentSigning info, cv_NotAfter = date_text (ci_NotAfter info)\<rparr>"

definition win_Prepare :: "'w desk \<Rightarrow> string \<Rightarrow> ('w window, cert_view) act" where
  "win_Prepare D pin = andThen (with_core D (\<lambda>E. EnsureEnrolled E pin)) (\<lambda>cs. ret (toCertView cs))"

definition win_CertificateStatus :: "'w desk \<Rightarrow> string \<Rightarrow> ('w window, cert_view) act" where
  "win_CertificateStatus D pin = andThen (with_core D (\<lambda>E. CertificateStatus E pin)) (\<lambda>cs. ret (toCertView cs))"

text \<open>Without a core these two get as far as the vault.\<close>

definition sign_without_core :: "'w env \<Rightarrow> string \<Rightarrow> string \<Rightarrow> ('w machine, 'a) act" where
  "sign_without_core E inPath placementsJSON =
     (let s = TrimSpace placementsJSON in
      andThen (if s \<noteq> [] \<and> s \<noteq> ''[]'' then
                 orFail (Wrap ''placement tidak valid'') (lift (ofResult (e_places E s)))
               else ret []) (\<lambda>places.
      andThen (on_disk (read_file (e_F E) inPath)) (\<lambda>pdf.
      andThen (lift (ofReturn (ListPDFSignatures (e_L E) (e_sigs E) pdf))) (\<lambda>sigs.
        if (case sigs of Inl e \<Rightarrow> False | Inr cs \<Rightarrow> cs \<noteq> []) then fail already_signed
        else lift (Crash nil_pointer)))))"

definition win_SignPDF :: "'w desk \<Rightarrow> string \<Rightarrow> string \<Rightarrow> string \<Rightarrow> string \<Rightarrow> string \<Rightarrow> string \<Rightarrow> string \<Rightarrow>
    ('w window, sign_outcome) act" where
  "win_SignPDF D inPath outPath reason signerName pin placementsJSON issuedPlace w =
     (if wn_core w = None then on_machine (sign_without_core (dk_env D) inPath placementsJSON) w
      else with_core D (\<lambda>E. app_SignPDF E inPath outPath reason signerName pin placementsJSON issuedPlace) w)"

definition win_VerifyPDF :: "'w desk \<Rightarrow> string \<Rightarrow> ('w window, string) act" where
  "win_VerifyPDF D path w =
     (if wn_core w = None then
        on_machine (andThen (on_disk (read_file (e_F (dk_env D)) path)) (\<lambda>pdf. lift (Crash nil_pointer))) w
      else andThen (with_core D (\<lambda>E. app_VerifyPDF E path)) (\<lambda>r. ret (bytes_or_nil (dk_marshal_vresult D r))) w)"

definition win_History :: "'w desk \<Rightarrow> ('w window, string) act" where
  "win_History D = andThen (with_core D app_History) (\<lambda>h. ret (bytes_or_nil (dk_marshal_list D h)))"

definition win_PickPDF :: "'w desk \<Rightarrow> ('w window, string) act" where
  "win_PickPDF D = lift (ofResult (dk_open_dialog D))"

definition win_SaveSignedPDF :: "'w desk \<Rightarrow> string \<Rightarrow> ('w window, string) act" where
  "win_SaveSignedPDF D suggested =
     lift (ofResult (dk_save_dialog D (if suggested = [] then ''dokumen-bertandatangan.pdf'' else suggested)))"

definition win_ReportLost :: "'w desk \<Rightarrow> ('w window, unit) act" where
  "win_ReportLost D = with_core D app_ReportLost"

definition win_Reset :: "'w desk \<Rightarrow> ('w window, unit) act" where
  "win_Reset D = with_core D app_Reset"

subsection \<open>A window without a core\<close>

lemma with_core_None: "wn_core w = None \<Longrightarrow> with_core D m w = (Crash nil_pointer, w)"
  by (simp add: with_core_def)

lemma with_core_keeps: "wn_core (snd (with_core D m w)) = wn_core w"
  by (auto simp: with_core_def on_machine_def within_def split: option.split prod.split)

lemma new_core_core:
  "new_core D u insecure w = (r, w') \<Longrightarrow> (r = Done () \<longrightarrow> wn_core w' \<noteq> None) \<and> (r \<noteq> Done () \<longrightarrow> wn_core w' = wn_core w)"
proof -
  let ?m = "on_machine (on_disk (app_New (e_K (dk_env D)) (e_F (dk_env D)) (dk_getenv D) (dk_userConfigDir D) [] u insecure))"
  obtain q w1 where q: "?m w = (q, w1)" by (cases "?m w")
  have "wn_core w1 = wn_core w" using q by (auto simp: on_machine_def within_def split: prod.splits)
  then show "new_core D u insecure w = (r, w') \<Longrightarrow> ?thesis"
    using q by (cases q) (auto simp: new_core_def andThen_def modifies_def)
qed

text \<open>When the vault cannot be opened at the start, the error is dropped: the window comes up, and signing in
  or enrolling panics until \<open>Connect\<close> succeeds; once it did, the core stays.\<close>

lemma startup_drops_error:
  assumes "wn_core w = None" "fst (new_core D [] False w) = Fail e"
  shows "fst (win_startup D w) = Done ()" "fst (win_Login D email password (snd (win_startup D w))) = Crash nil_pointer"
proof -
  obtain w1 where n: "new_core D [] False w = (Fail e, w1)" using assms(2) by (cases "new_core D [] False w") simp
  have s: "win_startup D w = (Done (), w1)" by (simp add: win_startup_def ignore_cases n)
  then show "fst (win_startup D w) = Done ()" by simp
  have "wn_core w1 = None" using new_core_core [OF n] assms(1) by simp
  then show "fst (win_Login D email password (snd (win_startup D w))) = Crash nil_pointer"
    by (simp add: s win_Login_def with_core_None)
qed

lemma Connect_gives_core: "win_Connect D u insecure w = (Done (), w') \<Longrightarrow> wn_core w' \<noteq> None"
  using new_core_core [of D u insecure w] with_core_keeps [of D "\<lambda>E. SetServerURL E u insecure" w]
  by (auto simp: win_Connect_def split: if_splits)

end
