(* ===== verification/Spec2Isabelle.thy ===== *)
theory Spec2Isabelle
  imports Receiver ObjectStore PostgresProps RateLimit Boot CAClaims AppClaims CliClaims Desktop
begin

text \<open>
  A system for signing PDF documents with post-quantum keys (ML-DSA-65). A desktop client keeps a device
  key in a local vault, a server keeps accounts, devices, certificates and signed documents, an offline
  authority issues and revokes the certificates. This development models the Go code under \<open>src/\<close> and
  proves what makes each part, and their composition, correct. The properties are numbered C1, C2, ... in the
  text before each of them; they are spread over the theories of the components they are about, this theory holds
  those that span the server.

  The parts and how they meet.

  \<^item> The client (\<open>apps/windows/internal\<close>): \<open>appcore\<close> drives a vault (\<open>keystore\<close>), the signer (\<open>core/signing\<close>) and
    the calls to the server (\<open>apiclient\<close>). To sign, it reserves a public id, lets the server stamp the document,
    signs, verifies locally, writes the file and submits it, in chunks when it is large.
  \<^item> The server (\<open>server/internal\<close>): \<open>api.go\<close> routes a request through authentication and rate limits to a handler;
    handlers read and write the store (\<open>store\<close>), verify documents (\<open>core/verification\<close>) and certificates
    (\<open>core/certutil\<close>, \<open>core/enrollment\<close>), and may call the authority's program to issue online.
  \<^item> The authority (\<open>tools/ca-admin\<close>) works on a directory with keys, a ledger of revocations and published
    lists, and uses \<open>core/labpki\<close>. The server takes over its certificates and its list.

  Which theory models which code.

  \<^item> Ground: \<open>Prelude\<close> (types, errors, results, association lists), \<open>GoLib\<close>, \<open>GoStd\<close>, \<open>Base64\<close> (what the code uses of
    the standard library: strings, paths, hex, base64, time), \<open>Lib\<close> (the parameters: cryptography, X.509, PEM, JSON, the
    PDF library), \<open>Disk\<close> (a file system whose calls can fail), \<open>Outcome\<close> (sequences of calls with early return).
  \<^item> Store: \<open>StoreTypes\<close> (\<open>store/store.go\<close>), \<open>Memory\<close> and its invariant \<open>MemoryInv\<close> (\<open>store/memory.go\<close>), \<open>ObjectStore\<close>
    (\<open>store/objectstore.go\<close>), \<open>Postgres\<close> and \<open>PostgresProps\<close> (\<open>store/postgres.go\<close>, its migrations). A Go map is an association list with distinct keys, a method under its mutex one step.
  \<^item> Core: \<open>Certutil\<close> (\<open>core/certutil\<close>, \<open>keys\<close>, \<open>enrollment\<close>, \<open>hashutil\<close>), \<open>Verification\<close> (\<open>core/verification\<close>), \<open>LabPKI\<close>
    (\<open>core/labpki\<close>, \<open>core/keys\<close>), \<open>Signing\<close> (\<open>core/signing\<close>), \<open>Auth\<close> (\<open>auth/auth.go\<close>).
  \<^item> Server: \<open>Server\<close> (\<open>api.go\<close>: configuration, state, requests, responses, wrappers), \<open>Contract\<close> (what a handler may do
    to the store), \<open>Uploads\<close> (\<open>uploads.go\<close>), \<open>StrictVerify\<close> (\<open>verify.go\<close>), \<open>DevIssue\<close> (\<open>devissue.go\<close>), \<open>Handlers\<close> and
    \<open>Submission\<close> (\<open>handlers.go\<close>), \<open>Accounts\<close> (\<open>accounts.go\<close>), \<open>Stamp\<close> (\<open>stamp.go\<close>, \<open>stamppng.go\<close>), \<open>RateLimit\<close>
    (\<open>ratelimit.go\<close>), \<open>Boot\<close> (\<open>cmd/api/main.go\<close>), \<open>Receiver\<close> (the routes and the steps of the whole server).
  \<^item> Authority: \<open>CAStore\<close> (\<open>castore.go\<close>, \<open>keyfile.go\<close>), \<open>CAAdmin\<close> (\<open>main.go\<close>, \<open>backup.go\<close>), \<open>CAProps\<close>, \<open>CAClaims\<close>.
  \<^item> Tools: \<open>Spike\<close> (\<open>core/mobilebridge\<close>, \<open>core/spike\<close> and the functions with JSON arguments), \<open>DevCli\<close> (\<open>cmd/pqcsign-cli\<close>),
    \<open>CliClaims\<close>, \<open>Desktop\<close> (\<open>cmd/pqcsign-desktop/app.go\<close>, the facade over \<open>AppCore\<close>).
  \<^item> Client: \<open>Keystore\<close> (\<open>keystore/store.go\<close>, \<open>envelope.go\<close>, \<open>dpapi_windows.go\<close>), \<open>ApiClient\<close> (\<open>apiclient/client.go\<close>),
    \<open>AppCore\<close> (\<open>appcore/appcore.go\<close>), \<open>AppProps\<close>, \<open>ClientServer\<close> (the client with the model of the server as its
    network), \<open>AppClaims\<close>.

  How code becomes definitions. A struct is a record, an operation a function with the name of the method; a handler
  is a function from libraries, an oracle for what one request draws from the outside (clock, random bytes, results of
  system calls, each call site with its own index), the caller's claims, the request and the server to a response
  and the server after it. Errors are values of the datatype \<open>error\<close> in a sum; a panic, and a parser that never
  returns, are values too. Strings and byte slices are lists of bytes; \<open>int64\<close> and sizes are unbounded integers except
  where the code can wrap around (\<open>mbEnv\<close>), certificate serials and floating point numbers stay abstract or at their width.
  Libraries are fields of records, with what the code relies on as named laws (\<open>codec_ok\<close>, \<open>pem_law\<close>, \<open>key_laws\<close>,
  \<open>codec_law\<close>, ...); every property that uses one has a witness with concrete libraries that satisfy it.

  What the groups of lemmas show. \<open>MemoryInv\<close>: every reachable store is well formed, rows are never lost and status
  changes are the permitted ones. \<open>Contract\<close> and \<open>Receiver\<close>: the locale \<open>store_handler\<close>, interpreted on every handler and
  then on the routing as a whole, reduces the server to store methods; invariants of the whole server (stored documents match
  their records, accounts of super admins) follow by rule induction over its steps. \<open>ObjectStore\<close>: the locale
  \<open>object_store\<close>, interpreted on the three stores, and the simulation of memory by the file system. \<open>Postgres\<close>: every migration runs at
  most once. \<open>PostgresProps\<close>: one commuting lemma per kind of operation, lifted to sequences of them: the tables stay
  consistent whatever fails, and without faults the answers are those of the memory store. \<open>Verification\<close>,
  \<open>Certutil\<close>, \<open>StrictVerify\<close>: what an accepted document or certificate means. \<open>Disk\<close>, \<open>CAProps\<close>: what a command can do
  to the files of the authority, over any sequence of commands. \<open>Outcome\<close>: the locale \<open>trace_relation\<close>, a relation that
  every call of a sequence respects. \<open>Keystore\<close>, \<open>AppProps\<close>: which files an operation of the client can change.
  \<open>ClientServer\<close>: a request that was answered was served, a chunked upload arrives byte for byte, a submission is recorded.
  \<open>Spike\<close> and \<open>DevCli\<close>: a run never panics and its verdict is the conjunction of its checks; a command that reports success
  has written its files, and what was generated is accepted by the signer.

  Bounds and fuel. The loops over PEM blocks carry one unit of fuel per byte of input, enough because every block takes
  at least one byte (\<open>pem_progress\<close>); the equations of the loops are proved without fuel. The upload loop terminates by
  the bytes that are left. A call into the PDF parser may not return at all: \<open>VerifyPDF\<close> and \<open>SignPDF\<close> are then None without
  a timeout, and an error with one.

  Not modelled, and why. The parser, planner and protocol of the database server: a statement of the PostgreSQL store is
  its effect on the tables. The server model runs on the memory store; \<open>PostgresProps\<close> says when the two agree. The S3 object store is a client of a third-party service. HTML pages, static assets,
  flag parsing, what the server and the authority print, TLS, signals and listening are input and output. The start of the window toolkit and the sample PDFs
  are glue and data. Zeroing of key buffers and file modes have no observable in this model. Requests reach the server
  one after the other; where two submissions interleave inside a handler a property of its own says what happens.
\<close>

section \<open>Access control\<close>

text \<open>C3: No route outside the public ones is served without a session: unless the request carries a
  bearer token whose MAC was made with the server's secret, which is not expired and whose role is
  sufficient for the route, the answer is 401 or 403 (404 for the lab-issue route of a server without an
  online issuer) and the server is unchanged.\<close>

theorem access_control:
  assumes "route_role rt = Some need" and "dispatch rt L ora c0 r s = (resp, s')"
  shows "s' = s \<and> rs_code resp \<in> (if rt = RLabIssue \<and> cf_LabIssuer (sv_cfg s) = None then {404} else {401, 403}) \<or>
    (\<exists>hd pl raw c. rq_Authorization r = ''Bearer '' @ hd @ ''.'' @ pl @ ''.'' @ mac L (sv_signer s) (hd @ ''.'' @ pl) \<and>
       b64_decode url_alphabet pl = Some raw \<and> L_unmarshal_claims L raw = Some c \<and>
       Unix (o_auth ora) < cl_Exp c \<and> role_allows need (cl_Role c))"
proof (cases "rt = RLabIssue \<and> cf_LabIssuer (sv_cfg s) = None")
  case True
  with assms(2) show ?thesis by (auto simp: lab_route_def http_Error_def)
next
  case False
  then obtain h where d: "dispatch rt L ora c0 r s = (case caller L ora r s of
      None \<Rightarrow> (writeErr 401 (if bearer r = None then ''missing bearer token'' else ''invalid token''), s)
    | Some c \<Rightarrow> if role_allows need (cl_Role c) then h L ora c r s
        else (writeErr 403 (if need = RoleAdmin then ''admin only'' else ''super admin only''), s))"
    using dispatch_gate [OF assms(1)] by blast
  show ?thesis
  proof (cases "\<exists>c. caller L ora r s = Some c \<and> role_allows need (cl_Role c)")
    case True
    then show ?thesis by (elim exE conjE caller_SomeD) blast
  next
    case no: False
    then show ?thesis using False d assms(2) by (auto split: option.splits if_splits)
  qed
qed

theorem access_control_witness:
  "rs_code (fst (dispatch RRevoke demo_lib demo_orc claims_zero demo_request demo_server)) \<in> {401, 403}"
proof -
  have "\<not> (\<exists>t. rq_Authorization demo_request = ''Bearer '' @ t)" by (simp add: demo_request_def)
  with access_control [of RRevoke RoleAdmin demo_lib demo_orc claims_zero demo_request demo_server,
      OF _ surjective_pairing] show ?thesis by auto
qed

text \<open>C12: Every step of the server keeps the super-admin rows: whatever requests are served, in
  whatever order, no super admin is created, deleted, disabled, renamed or given another password.\<close>

theorem superadmin_rows_fixed:
  assumes "srv_steps L s s'" "srv_wf s"
  shows "super_rows (sv_st s') = super_rows (sv_st s)"
  using assms by (rule srv_steps_super)

theorem superadmin_rows_fixed_witness:
  "super_rows (sv_st (snd (dispatch RLogin demo_lib demo_orc claims_zero demo_request demo_root_server))) ''acct_0''
     = Some demo_root_account"
proof -
  have "srv_steps demo_lib demo_root_server (snd (dispatch RLogin demo_lib demo_orc claims_zero demo_request demo_root_server))"
    by (intro r_into_rtranclp srv_step.serve demo_fresh)
  from superadmin_rows_fixed [OF this demo_root_wf] show ?thesis
    by (simp add: super_rows_def demo_root_server_def demo_root_account_def)
qed

text \<open>C6: Privileges are granted by the super admin only: an account whose role is not \<open>user\<close> after a
  request had the same role and address before it, or it is an admin made by the create-admin route for
  a caller whose token has the super-admin role.\<close>

theorem privileges_from_superadmin:
  assumes wf: "srv_wf s" and fresh: "fresh_orc ora (sv_st s)"
    and run: "dispatch rt L ora claims_zero r s = (resp, s')"
    and acc: "Account k (sv_st s') = Inr b" "a_Role b \<noteq> RoleUser"
  shows "(\<exists>a. Account k (sv_st s) = Inr a \<and> a_Role a = a_Role b \<and> a_Email a = a_Email b) \<or>
    rt = RCreateAdmin \<and> a_Role b = RoleAdmin \<and> (\<exists>c. caller L ora r s = Some c \<and> cl_Role c = RoleSuperAdmin)"
proof -
  have steps: "(route_calls rt)\<^sup>*\<^sup>* (sv_st s) (sv_st s')"
    using routes.steps [of s ora rt L claims_zero r] wf fresh run by (simp add: srv_wf_def)
  consider (doc) "route_calls rt = doc_step" | (usr) "route_calls rt = aux_step user_only"
    | (adm) "rt = RCreateAdmin" by (cases rt) auto
  then show ?thesis
  proof cases
    case doc
    then have "m_accounts (sv_st s') = m_accounts (sv_st s)" using steps doc_steps_frame by simp
    then show ?thesis using acc by (simp add: Account_def)
  next
    case usr
    then have "accounts_from user_only (sv_st s) (sv_st s')" using steps aux_steps_accounts by simp
    from accounts_fromD [OF this acc(1)] acc(2) show ?thesis by (auto simp: same_identity_def)
  next
    case adm
    then have "accounts_from admin_only (sv_st s) (sv_st s')" using steps aux_steps_accounts by simp
    moreover have "s' = s \<or> (\<exists>c. caller L ora r s = Some c \<and> cl_Role c = RoleSuperAdmin)"
      using adm run by (auto simp: superadmin_def authed_cases role_allows_def split: option.splits if_splits)
    ultimately show ?thesis
      using accounts_fromD [of admin_only "sv_st s" "sv_st s'" k b] acc adm by (auto simp: same_identity_def)
  qed
qed

definition demo_admin_lib :: lib where
  "demo_admin_lib = demo_lib\<lparr>L_decode_json := (\<lambda>fs b. (\<lambda>f. if f = ''username'' then ''adm'' else ''password9'', False))\<rparr>"

lemma demo_create_admin:
  "\<exists>b. Account ''acct_6e'' (sv_st (snd (hCreateAdmin demo_admin_lib demo_orc c r demo_root_server))) = Inr b \<and>
     a_Role b = RoleAdmin"
proof -
  have "TrimSpace ''adm'' = ''adm''"
    by (simp add: TrimSpace_def runes.simps rune_len_def byte_in_def cont_def is_space_rune_def)
  moreover obtain h where "HashPassword demo_admin_lib (rand_Read demo_orc 0) ''password9'' = Inr h"
    by (simp add: HashPassword_def rand_Read_def demo_orc_def Let_def)
  moreover have "decode demo_admin_lib fs r = (\<lambda>f. if f = ''username'' then ''adm'' else ''password9'', False)" for fs
    by (simp add: decode_def demo_admin_lib_def)
  ultimately show ?thesis
    by (simp add: hCreateAdmin_def st_upd_def CreateAccount_def new_admin_def Account_def Let_def demo_root_server_def
        demo_server_def demo_store_def NewMemory_def account_zero_def demo_orc_def ID_def hex_encode_def hex_byte_def
        hex_digit_def)
qed

theorem privileges_from_superadmin_witness:
  "\<exists>b. Account ''acct_6e'' (sv_st (snd (dispatch RCreateAdmin demo_admin_lib demo_orc claims_zero
       (demo_session demo_admin_lib ''acct_0'' RoleSuperAdmin) demo_root_server))) = Inr b \<and> a_Role b = RoleAdmin"
proof -
  let ?r = "demo_session demo_admin_lib ''acct_0'' RoleSuperAdmin"
  let ?run = "dispatch RCreateAdmin demo_admin_lib demo_orc claims_zero ?r demo_root_server"
  have "caller demo_admin_lib demo_orc ?r demo_root_server =
      Some (issued_claims (sv_signer demo_server) 5 ''acct_0'' RoleSuperAdmin)"
    by (rule demo_session_caller) (simp_all add: demo_admin_lib_def demo_lib_def demo_root_server_def)
  then have "\<exists>b. Account ''acct_6e'' (sv_st (snd ?run)) = Inr b \<and> a_Role b = RoleAdmin"
    by (simp add: superadmin_def authed_cases role_allows_def issued_claims_def demo_create_admin)
  then obtain b where b: "Account ''acct_6e'' (sv_st (snd ?run)) = Inr b" "a_Role b = RoleAdmin" by blast
  have "Account ''acct_6e'' (sv_st demo_root_server) = Inl ErrNotFound"
    by (simp add: Account_def demo_root_server_def demo_store_def NewMemory_def)
  with privileges_from_superadmin [OF demo_root_wf demo_fresh(1) surjective_pairing b(1)] b show ?thesis by auto
qed

text \<open>C24: A session is granted only to an account that may have one: a login answered with 200 was for
  a registered address and its password, of an account that is neither pending nor disabled, and the
  token it carries is accepted until it expires as that account with its role, by every server with the
  same signer.\<close>

theorem login_grants_session:
  assumes "hLogin L ora c r s = (resp, s')" "rs_code resp = 200"
  shows "\<exists>inp a tok. decode L [''email'', ''password''] r = (inp, False) \<and>
    AccountByEmail (inp ''email'') (sv_st s) = Inr a \<and>
    VerifyPassword L (inp ''password'') (a_PasswordHash a) = Some True \<and>
    a_Status a \<noteq> AccountPending \<and> a_Status a \<noteq> AccountDisabled \<and>
    resp = writeJSON 200 (JObj [(''access_token'', JStr tok), (''token_type'', JStr ''Bearer''),
      (''expires_in'', JInt (TTL (sv_signer s) div second))]) \<and>
    (L_unmarshal_claims L (L_marshal_claims L (issued_claims (sv_signer s) (o_clk ora 1) (a_ID a) (a_Role a))) =
       Some (issued_claims (sv_signer s) (o_clk ora 1) (a_ID a) (a_Role a)) \<longrightarrow>
     (\<forall>ora' r' s2. rq_Authorization r' = ''Bearer '' @ tok \<and> sv_signer s2 = sv_signer s \<and>
        Unix (o_auth ora') < Unix (o_clk ora 1 + sg_ttl (sv_signer s)) \<longrightarrow>
        (\<exists>c'. caller L ora' r' s2 = Some c' \<and> cl_Sub c' = a_ID a \<and> cl_Role c' = a_Role a)))"
proof -
  obtain inp where dec: "decode L [''email'', ''password''] r = (inp, False)"
    using assms by (cases "decode L [''email'', ''password''] r") (auto simp: hLogin_def split: if_splits)
  then obtain a where a: "AccountByEmail (inp ''email'') (sv_st s) = Inr a"
    "VerifyPassword L (inp ''password'') (a_PasswordHash a) = Some True"
    "a_Status a \<noteq> AccountPending" "a_Status a \<noteq> AccountDisabled"
    and resp: "resp = writeJSON 200 (JObj
       [(''access_token'', JStr (Issue L (sv_signer s) (o_clk ora 1) (a_ID a) (a_Role a))),
        (''token_type'', JStr ''Bearer''), (''expires_in'', JInt (TTL (sv_signer s) div second))])"
    using assms by (auto simp: hLogin_def account_or_zero_def Let_def split: if_splits sum.splits option.splits bool.splits)
  show ?thesis
    by (intro exI [of _ inp] exI [of _ a] exI [of _ "Issue L (sv_signer s) (o_clk ora 1) (a_ID a) (a_Role a)"])
       (use dec a resp jwt.issue_nonempty in \<open>auto simp: caller_def bearer_def HasPrefix_def Parse_Issue_cases issued_claims_def\<close>)
qed

definition demo_login_lib :: lib where
  "demo_login_lib = demo_lib\<lparr>L_decode_json := (\<lambda>fs b. (\<lambda>f. if f = ''email'' then ''root'' else ''password9'', False))\<rparr>"

definition demo_login_server :: server where
  "demo_login_server = demo_root_server\<lparr>sv_st := (sv_st demo_root_server)\<lparr>m_accounts :=
     [(''acct_0'', demo_root_account\<lparr>a_PasswordHash := projr (HashPassword demo_login_lib (Inr ''salt'') ''password9'')\<rparr>)]\<rparr>\<rparr>"

lemma demo_login:
  "rs_code (fst (hLogin demo_login_lib demo_orc claims_zero demo_request demo_login_server)) = 200"
proof -
  obtain h where h: "HashPassword demo_login_lib (Inr ''salt'') ''password9'' = Inr h"
    by (simp add: HashPassword_def Let_def)
  have "length (L_argon2id demo_login_lib ''password9'' ''salt'' argonTime argonMemory argonThreads argonKeyLen) = argonKeyLen"
    by (simp add: demo_login_lib_def demo_lib_def)
  from VerifyPassword_hash [OF h this] have v: "VerifyPassword demo_login_lib ''password9'' h = Some True" ..
  have "AccountByEmail ''root'' (sv_st demo_login_server) = Inr (demo_root_account\<lparr>a_PasswordHash := h\<rparr>)"
    by (simp add: AccountByEmail_def demo_login_server_def demo_root_server_def h)
  with v show ?thesis
    by (simp add: hLogin_def decode_def demo_login_lib_def account_or_zero_def demo_root_account_def)
qed

theorem login_grants_session_witness:
  "\<exists>a. AccountByEmail ''root'' (sv_st demo_login_server) = Inr a \<and>
     VerifyPassword demo_login_lib ''password9'' (a_PasswordHash a) = Some True"
proof -
  have "decode demo_login_lib [''email'', ''password''] demo_request =
      (\<lambda>f. if f = ''email'' then ''root'' else ''password9'', False)"
    by (simp add: decode_def demo_login_lib_def)
  with login_grants_session [OF surjective_pairing demo_login] show ?thesis by auto
qed


definition demo_boot_lib :: lib where
  "demo_boot_lib = demo_lib\<lparr>L_CertsFromPEM := (\<lambda>b. [demo_cert])\<rparr>"


section \<open>Documents\<close>

text \<open>C1: The document store never disagrees with the records: after any sequence of requests, in any
  order, every signature record has its document stored, with exactly the recorded SHA-512 and size,
  its reservation is completed and belongs to the same account and device, and a record the server
  verified names a registered certificate of that account and device.\<close>

theorem documents_intact:
  assumes "srv_steps L s s'" "srv_wf s" "docs_ok L (sv_st s)" "\<And>pdf. errors_have_text L pdf"
  shows "docs_ok L (sv_st s') \<and>
    (\<forall>pid sig. Signature pid (sv_st s') = Inr sig \<longrightarrow>
       (\<exists>body. GetObject (s_StorageObjectKey sig) (sv_st s') = Inr body \<and>
          s_SignedSHA512 sig = CalculateSHA512 L body \<and> s_SignedSize sig = int (length body)))"
proof -
  have ok: "docs_ok L (sv_st s')" using assms by (rule srv_steps_docs)
  have "mem_wf (sv_st s')" using srv_steps_wf_mem assms(1,2) by (simp add: srv_wf_def)
  with ok show ?thesis by (auto simp: docs_ok_object)
qed

theorem documents_intact_witness:
  "\<exists>sig body. Signature ''sig_1'' (sv_st demo_submitted) = Inr sig \<and>
     GetObject (s_StorageObjectKey sig) (sv_st demo_submitted) = Inr body \<and>
     s_SignedSHA512 sig = CalculateSHA512 demo_pdf_lib body"
proof -
  have ok: "docs_ok demo_pdf_lib (sv_st demo_server)" by (simp add: demo_server_def demo_docs_ok)
  obtain sig where "Signature ''sig_1'' (sv_st demo_submitted) = Inr sig" using demo_submit_recorded by blast
  with documents_intact [OF demo_submit_steps demo_server_wf ok demo_errors_have_text]
  show ?thesis by blast
qed

text \<open>C9: A recorded document stays available and unchanged: once a signature record exists, after any
  further requests the public document route for its id answers 200 with a document of the recorded
  SHA-512 and size, and its owner's download gives the same document.\<close>

theorem recorded_document_stays:
  assumes wf: "srv_wf s" "docs_ok L (sv_st s)" "\<And>pdf. errors_have_text L pdf"
    and sig: "Signature (rq_path r ''public_id'') (sv_st s) = Inr sig"
    and steps: "srv_steps L s s'"
  shows "\<exists>b. dispatch RPublicDocument L ora c r s' = (writeRaw ''application/pdf'' b, s') \<and>
    CalculateSHA512 L b = s_SignedSHA512 sig \<and> int (length b) = s_SignedSize sig \<and>
    (s_AccountID sig = cl_Sub c \<longrightarrow> hDownload L ora c r s' = (writeRaw ''application/pdf'' b, s'))"
proof -
  have mem: "mem_steps (sv_st s) (sv_st s')" and "mem_wf (sv_st s')"
    using srv_steps_wf_mem [OF steps wf(1)] by (simp_all add: srv_wf_def)
  moreover have sig': "Signature (rq_path r ''public_id'') (sv_st s') = Inr sig"
    using mem_steps_signature [OF mem] sig .
  ultimately obtain b where "GetObject (s_StorageObjectKey sig) (sv_st s') = Inr b"
    "s_SignedSHA512 sig = CalculateSHA512 L b" "s_SignedSize sig = int (length b)"
    using docs_ok_object srv_steps_docs [OF steps wf] by blast
  with sig' show ?thesis by (auto simp: hPublicDocument_def hDownload_def)
qed

theorem recorded_document_stays_witness:
  "\<exists>b. dispatch RPublicDocument demo_pdf_lib demo_orc claims_zero demo_request demo_submitted =
     (writeRaw ''application/pdf'' b, demo_submitted)"
proof -
  obtain sig where sig: "Signature (rq_path demo_request ''public_id'') (sv_st demo_submitted) = Inr sig"
    using demo_submit_recorded by (auto simp: demo_request_def)
  have ok: "docs_ok demo_pdf_lib (sv_st demo_submitted)"
    using srv_step_docs [OF demo_submit_step demo_server_wf _ demo_errors_have_text]
    by (simp add: demo_server_def demo_docs_ok)
  show ?thesis
    using recorded_document_stays [OF srv_step_wf [OF demo_submit_step demo_server_wf] ok demo_errors_have_text sig rtranclp.rtrancl_refl]
    by blast
qed

text \<open>C4: What a successful submission records: the caller owns the reservation; the stored object is
  exactly the submitted document and the record has its SHA-512 and size; a document within the
  verification limit is recorded as accepted only if \<open>strictVerify\<close> found no reason against it, and then
  carries that certificate's serial and fingerprint; a larger one is recorded as stored only.\<close>

theorem submission_recorded:
  assumes wf: "srv_wf s" "docs_ok L (sv_st s)"
    and run: "hSubmitDocument L ora c r s = (resp, s')" "rs_code resp = 200"
    and new: "Signature (rq_path r ''public_id'') (sv_st s) = Inl ErrNotFound"
  shows "\<exists>res body sz sess sig. Reservation (rq_path r ''public_id'') (sv_st s) = Inr res \<and> r_AccountID res = cl_Sub c \<and>
    signedInput ora r (cl_Sub c) s = Inr ((body, None), sz, sess) \<and> sz = int (length body) \<and>
    Signature (rq_path r ''public_id'') (sv_st s') = Inr sig \<and> resp = writeJSON 200 (submissionResult sig) \<and>
    GetObject (s_StorageObjectKey sig) (sv_st s') = Inr body \<and>
    s_SignedSHA512 sig = CalculateSHA512 L body \<and> s_SignedSize sig = sz \<and>
    s_AccountID sig = cl_Sub c \<and> s_DeviceID sig = r_DeviceID res \<and>
    (if sz \<le> cf_MaxVerifyBytes (sv_cfg s)
     then s_VerificationStatus sig = VerificationAccepted \<and>
       (\<exists>info. strictVerify L (o_clk ora 5) res body s = Some (info, []) \<and>
          s_CertSerial sig = vi_CertSerial info \<and> s_CertFingerprint sig = vi_CertFingerprint info)
     else s_VerificationStatus sig = VerificationStoredOnly)"
  by (rule hSubmitDocument_records [OF wf(1) run new])

theorem submission_recorded_witness:
  "\<exists>sig body. Signature ''sig_1'' (sv_st demo_submitted) = Inr sig \<and> s_AccountID sig = ''acct_1'' \<and>
     GetObject (s_StorageObjectKey sig) (sv_st demo_submitted) = Inr body"
proof -
  have pid: "rq_path demo_submission ''public_id'' = ''sig_1''" by (simp add: demo_session_def demo_request_def)
  have ok: "docs_ok demo_pdf_lib (sv_st demo_server)" by (simp add: demo_server_def demo_docs_ok)
  obtain resp where run: "hSubmitDocument demo_pdf_lib demo_orc demo_claims demo_submission demo_server = (resp, demo_submitted)"
    "rs_code resp = 200" using demo_submit_run by blast
  have "Signature (rq_path demo_submission ''public_id'') (sv_st demo_server) = Inl ErrNotFound"
    by (simp add: pid Signature_def demo_server_def demo_store_def NewMemory_def)
  from submission_recorded [OF demo_server_wf ok run this] show ?thesis
    unfolding pid by (fastforce simp: issued_claims_def)
qed

text \<open>C25: Submitting again is harmless: after a successful submission, a repeated submission by the same
  account for the same id, with whatever body, gets the same answer and changes nothing.\<close>

theorem resubmission_idempotent:
  assumes wf: "srv_wf s" "docs_ok L (sv_st s)"
    and run: "hSubmitDocument L ora c r s = (resp, s')" "rs_code resp = 200"
    and same: "rq_path r' ''public_id'' = rq_path r ''public_id''"
  shows "hSubmitDocument L ora' c r' s' = (resp, s')"
  using run
proof (cases rule: hSubmitDocument_200)
  case (again res sig)
  with same show ?thesis by (simp add: hSubmitDocument_def)
next
  case (now res body sz sess sg)
  have pid: "r_PublicID res = rq_path r ''public_id''" using wf(1) now(1) by (rule reservation_key)
  have sz: "sz = int (length body)" using signedInput_size wf(1) now(4) by (fastforce simp: srv_wf_def)
  note sg = recorded_as_fields [OF now(6) sz, unfolded pid]
  have "map_of (m_signatures (sv_st s)) (rq_path r ''public_id'') = None"
    using submission_unrecorded [OF _ wf(2) now(1,3)] wf(1) pid by (simp add: srv_wf_def)
  from recorded_now_result [OF now(5) this sg(1,2) pid] now(1,2) pid same show ?thesis by (simp add: hSubmitDocument_def)
qed

theorem resubmission_idempotent_witness:
  "\<exists>resp. hSubmitDocument demo_pdf_lib demo_orc demo_claims demo_request demo_submitted = (resp, demo_submitted) \<and>
     rs_code resp = 200"
proof -
  have ok: "docs_ok demo_pdf_lib (sv_st demo_server)" by (simp add: demo_server_def demo_docs_ok)
  obtain resp where run: "hSubmitDocument demo_pdf_lib demo_orc demo_claims demo_submission demo_server = (resp, demo_submitted)"
    "rs_code resp = 200" using demo_submit_run by blast
  have "rq_path demo_request ''public_id'' = rq_path demo_submission ''public_id''" by (simp add: demo_session_def)
  from resubmission_idempotent [OF demo_server_wf ok run this] run(2) show ?thesis by blast
qed

section \<open>The public face\<close>

lemma Contains_skip:
  assumes "hd w \<notin> set p" "w \<noteq> []"
  shows "Contains (p @ c) w \<longleftrightarrow> Contains c w"
  using assms
proof (induction p)
  case (Cons x p)
  then have "\<not> HasPrefix (x # (p @ c)) w" by (cases w) (auto simp: HasPrefix_def)
  with Cons show ?case by (simp add: HasPrefix_def)
qed simp

lemma qr_pick_public:
  "qr_pick pid cands = pid \<or>
   (\<exists>base. qr_pick pid cands = base @ ''/v/'' @ pid \<and> \<not> isLoopbackBase base \<and>
      (HasPrefix base ''http://'' \<or> HasPrefix base ''https://''))"
proof (induction cands)
  case (Cons cand cands)
  let ?c = "TrimRight cand (CHR ''/'')"
  show ?case
  proof (cases "isLoopbackBase ?c")
    case False
    have "\<not> isLoopbackBase (''http://'' @ ?c)"
      using False Contains_skip [of "''localhost''" "''http://''" ?c] Contains_skip [of "''127.0.0.1''" "''http://''" ?c]
      by (simp add: isLoopbackBase_def)
    moreover have "HasPrefix (''http://'' @ ?c) ''http://''" by (rule HasPrefix_append)
    ultimately show ?thesis using False by (auto simp: Let_def)
  qed (use Cons in simp)
qed simp

text \<open>What a QR code says is useful from another device: either the bare id, or a link
  \<open>base/v/id\<close> whose base starts with \<open>http://\<close> or \<open>https://\<close> and does not name the loopback host, whatever
  the client, the request and the configuration say.\<close>

theorem qrTarget_never_loopback:
  "qrTarget r pid s = pid \<or>
   (\<exists>base. qrTarget r pid s = base @ ''/v/'' @ pid \<and> \<not> isLoopbackBase base \<and>
      (HasPrefix base ''http://'' \<or> HasPrefix base ''https://''))"
  unfolding qrTarget_def by (rule qr_pick_public)

lemma distinct_vals_unique:
  assumes "distinct (map f (vals m))" "map_of m k = Some x" "map_of m k' = Some y" "f x = f y"
  shows "x = y"
  using assms(1,4) map_of_vals [OF assms(2)] map_of_vals [OF assms(3)]
  by (metis distinct_map inj_onD)


lemma demo_submitted_certificates: "m_certificates (sv_st demo_submitted) = m_certificates demo_store"
proof -
  have "doc_steps (sv_st demo_server) (sv_st demo_submitted)"
    using routes.steps [of demo_server demo_orc RSubmit demo_pdf_lib claims_zero demo_submission]
      demo_server_wf demo_server_fresh(1) by (simp add: demo_submitted_def srv_wf_def)
  from doc_steps_frame [OF this] show ?thesis by (simp add: demo_server_def)
qed

lemma demo_submitted_target: "\<exists>a. clientTarget demo_request demo_submitted = Inr a \<and> a_ID a = ''acct_1''"
proof -
  have "doc_steps (sv_st demo_server) (sv_st demo_submitted)"
    using routes.steps [of demo_server demo_orc RSubmit demo_pdf_lib claims_zero demo_submission]
      demo_server_wf demo_server_fresh(1) by (simp add: demo_submitted_def srv_wf_def)
  then have "m_accounts (sv_st demo_submitted) = m_accounts (sv_st demo_server)" by (simp add: doc_steps_frame)
  with demo_target show ?thesis by (simp add: clientTarget_def Account_def)
qed


section \<open>Interleaved submissions\<close>


definition demo_mismatch :: "response \<times> server" where
  "demo_mismatch =
     (let key = object_key demo_pdf_lib demo_orc ''sig_1'';
          s1 = snd (st_upd (PutObject key ''%PDF-a'') demo_server);
          s2 = snd (st_upd (PutObject key ''%PDF-b'') s1)
      in record_submission demo_orc demo_claims demo_reservation None
           (verified_signature demo_pdf_lib demo_orc demo_reservation verified_zero key ''%PDF-a'') s2)"


end
